(* ===== verification/Prelude.thy ===== *)
theory Prelude
  imports Main "HOL-Library.List_Lexorder" "HOL-Library.Char_ord" "HOL-Library.Product_Lexorder"
begin

text \<open>
  Shared material of the dstream development: the named collections of the proofs, the outcome
  of a call to a networked service, Go's string helpers as functions on byte strings (a Go
  string is a sequence of bytes, a HOL \<open>string\<close> a list of 8-bit characters), the index
  convention of the Redis range commands, and generic lemmas on lists, association lists and
  options that the component theories use.
\<close>

named_theorems redis_simps "laws of the Redis commands, oriented for rewriting"
named_theorems dq_simps "unfolding of the abstract queue operations"
named_theorems dq_abs "the queue scripts expressed on the abstract queue"

section \<open>Calls to a service\<close>

text \<open>
  A call over the network succeeds, fails before it took effect, or takes effect and loses its
  reply. Go sees the last two as the same non-nil error.
\<close>

datatype io = IoOk | IoErr | IoLost

fun run_io :: "io \<Rightarrow> ('s \<Rightarrow> 'a \<times> 's) \<Rightarrow> 's \<Rightarrow> 'a option \<times> 's" where
  "run_io IoOk f s = (Some (fst (f s)), snd (f s))"
| "run_io IoErr f s = (None, s)"
| "run_io IoLost f s = (None, snd (f s))"

text \<open>
  The errors a Go function of the model returns, by their origin: a Redis call, a Redis script that
  aborted, a payload that does not decode, a database call, \<open>pgx.ErrNoRows\<close>, and the errors that
  the code itself constructs.
\<close>

datatype go_error =
    ErrRedis | ErrScript | ErrDecode | ErrDb | ErrNoRows | ErrUnique
  | ErrPendingNeedsOrg | ErrUnknownLane | ErrOther string

lemma run_io_Some_iff: "fst (run_io w f s) = Some a \<longleftrightarrow> w = IoOk \<and> a = fst (f s)"
  by (cases w) auto

lemma run_io_snd: "snd (run_io w f s) = (if w = IoErr then s else snd (f s))"
  by (cases w) auto

lemma run_io_inv: "P s \<Longrightarrow> P (snd (f s)) \<Longrightarrow> P (snd (run_io w f s))"
  by (cases w) auto

section \<open>Go strings\<close>

type_synonym bytes = string

definition has_prefix :: "string \<Rightarrow> string \<Rightarrow> bool" where
  "has_prefix s p \<longleftrightarrow> take (length p) s = p"

definition trim_prefix :: "string \<Rightarrow> string \<Rightarrow> string" where
  "trim_prefix s p = (if has_prefix s p then drop (length p) s else s)"

lemma has_prefix_append [simp]: "has_prefix (p @ s) p"
  by (simp add: has_prefix_def)

lemma trim_prefix_append [simp]: "trim_prefix (p @ s) p = s"
  by (simp add: trim_prefix_def)

lemma has_prefix_iff: "has_prefix s p \<longleftrightarrow> (\<exists>r. s = p @ r)"
  unfolding has_prefix_def by (metis append_eq_conv_conj append_take_drop_id)

text \<open>\<open>strings.IndexByte\<close>: the position of the first occurrence, if there is one.\<close>

fun index_byte :: "string \<Rightarrow> char \<Rightarrow> nat option" where
  "index_byte [] c = None"
| "index_byte (x # xs) c = (if x = c then Some 0 else map_option Suc (index_byte xs c))"

lemma index_byte_None: "index_byte s c = None \<longleftrightarrow> c \<notin> set s"
  by (induction s) auto

lemma index_byte_append: "c \<notin> set t \<Longrightarrow> index_byte (t @ c # s) c = Some (length t)"
  by (induction t) auto

text \<open>\<open>strings.Join\<close> and \<open>strings.Cut\<close>.\<close>

fun join :: "string \<Rightarrow> string list \<Rightarrow> string" where
  "join sep [] = []"
| "join sep [x] = x"
| "join sep (x # y # ys) = x @ sep @ join sep (y # ys)"

definition cut :: "string \<Rightarrow> char \<Rightarrow> string \<times> string \<times> bool" where
  "cut s c = (case index_byte s c of
      None \<Rightarrow> (s, [], False)
    | Some i \<Rightarrow> (take i s, drop (Suc i) s, True))"

lemma cut_append: "c \<notin> set t \<Longrightarrow> cut (t @ c # s) c = (t, s, True)"
  by (simp add: cut_def index_byte_append)

text \<open>ASCII case mapping, the part of \<open>strings.ToUpper\<close> and \<open>strings.ToLower\<close> that ASCII input reaches.\<close>

definition upper_char :: "char \<Rightarrow> char" where
  "upper_char c = (if CHR ''a'' \<le> c \<and> c \<le> CHR ''z'' then char_of (of_char c - 32 :: nat) else c)"

definition lower_char :: "char \<Rightarrow> char" where
  "lower_char c = (if CHR ''A'' \<le> c \<and> c \<le> CHR ''Z'' then char_of (of_char c + 32 :: nat) else c)"

section \<open>Range indices of Redis and sorted sets\<close>

text \<open>
  A range of a Redis command is inclusive at both ends, and a negative index counts from the end.
\<close>

definition redis_slice :: "int \<Rightarrow> int \<Rightarrow> 'a list \<Rightarrow> 'a list" where
  "redis_slice a b xs =
     (let n = int (length xs);
          a' = (if a < 0 then max 0 (n + a) else a);
          b' = (if b < 0 then n + b else b)
      in take (nat (b' - a' + 1)) (drop (nat a') xs))"

lemma redis_slice_all [simp]: "redis_slice 0 (-1) xs = xs"
  by (simp add: redis_slice_def)

lemma redis_slice_prefix: "0 \<le> b \<Longrightarrow> redis_slice 0 b xs = take (nat (b + 1)) xs"
  by (simp add: redis_slice_def)

lemma redis_slice_tail: "0 < k \<Longrightarrow> redis_slice (- k) (-1) xs = drop (length xs - nat k) xs"
proof -
  assume k: "0 < k"
  have "nat (max 0 (int (length xs) - k)) = length xs - nat k"
    using k by linarith
  then show ?thesis using k by (simp add: redis_slice_def Let_def max_def)
qed

text \<open>
  A sorted set as the list of its (member, score) pairs in the documented order: by score, then by
  the bytes of the member.
\<close>

type_synonym zset = "(string \<times> int) list"

definition zkey :: "string \<times> int \<Rightarrow> int \<times> string" where
  "zkey x = (snd x, fst x)"

definition zdel :: "string \<Rightarrow> zset \<Rightarrow> zset" where
  "zdel m z = filter (\<lambda>x. fst x \<noteq> m) z"

definition zins :: "int \<Rightarrow> string \<Rightarrow> zset \<Rightarrow> zset" where
  "zins sc m z = insort_key zkey (m, sc) (zdel m z)"

definition zmembers :: "zset \<Rightarrow> string set" where
  "zmembers z = fst ` set z"

definition zset_ok :: "zset \<Rightarrow> bool" where
  "zset_ok z \<longleftrightarrow> distinct (map fst z) \<and> sorted (map zkey z)"

lemma zset_ok_Nil [simp]: "zset_ok []"
  by (simp add: zset_ok_def)

lemma zmembers_Nil [simp]: "zmembers [] = {}"
  by (simp add: zmembers_def)

lemma zmembers_zdel [simp]: "zmembers (zdel m z) = zmembers z - {m}"
  by (auto simp: zmembers_def zdel_def)

lemma set_zins [simp]: "set (zins sc m z) = insert (m, sc) (set (zdel m z))"
  by (simp add: zins_def set_insort_key)

lemma zmembers_zins [simp]: "zmembers (zins sc m z) = insert m (zmembers z)"
  by (auto simp: zmembers_def zdel_def)

lemma zset_ok_zdel [intro]: "zset_ok z \<Longrightarrow> zset_ok (zdel m z)"
  by (simp add: zset_ok_def zdel_def distinct_map_filter sorted_filter)

lemma distinct_fst_insort:
  "distinct (map fst z) \<Longrightarrow> fst x \<notin> fst ` set z \<Longrightarrow> distinct (map fst (insort_key f x z))"
  by (induction z) (auto simp: set_insort_key)

lemma zset_ok_zins [intro]: "zset_ok z \<Longrightarrow> zset_ok (zins sc m z)"
proof -
  assume z: "zset_ok z"
  then have d: "zset_ok (zdel m z)" by (rule zset_ok_zdel)
  have "distinct (map fst (zins sc m z))"
    unfolding zins_def using d
    by (intro distinct_fst_insort) (auto simp: zset_ok_def zdel_def)
  moreover have "sorted (map zkey (zins sc m z))"
    unfolding zins_def using d by (simp add: sorted_insort_key zset_ok_def)
  ultimately show ?thesis by (simp add: zset_ok_def)
qed

lemma zset_ok_unique: "zset_ok z \<Longrightarrow> (m, a) \<in> set z \<Longrightarrow> (m, b) \<in> set z \<Longrightarrow> a = b"
  by (auto simp: zset_ok_def dest: eq_key_imp_eq_value)

section \<open>Lists\<close>

lemma drop_take_eq_Nil: "length xs \<le> n \<Longrightarrow> drop n (take m xs) = []"
  by simp

lemma last_n_length: "length (drop (length xs - n) xs) \<le> n"
  by simp

text \<open>Position of an element in a list, for the ring of organizations.\<close>

fun pos :: "'a \<Rightarrow> 'a list \<Rightarrow> nat" where
  "pos x [] = 0"
| "pos x (y # ys) = (if x = y then 0 else Suc (pos x ys))"

lemma pos_less: "x \<in> set xs \<Longrightarrow> pos x xs < length xs"
  by (induction xs) auto

lemma pos_append: "x \<in> set xs \<Longrightarrow> pos x (xs @ ys) = pos x xs"
  by (induction xs) auto

lemma pos_0_hd: "x \<in> set xs \<Longrightarrow> pos x xs = 0 \<Longrightarrow> hd xs = x"
  by (cases xs) (auto split: if_splits)

section \<open>Tables\<close>

text \<open>The first row a condition holds of, as \<^verbatim>\<open>SELECT\<close> of one row and \<^verbatim>\<open>UPDATE ... RETURNING\<close> give it.\<close>

definition one_row :: "('a \<Rightarrow> bool) \<Rightarrow> 'a list \<Rightarrow> go_error + 'a" where
  "one_row P rows = (case find P rows of None \<Rightarrow> Inl ErrNoRows | Some r \<Rightarrow> Inr r)"

definition upd_where :: "('a \<Rightarrow> bool) \<Rightarrow> ('a \<Rightarrow> 'a) \<Rightarrow> 'a list \<Rightarrow> 'a list" where
  "upd_where P f rows = map (\<lambda>r. if P r then f r else r) rows"

definition opt_default :: "'a \<Rightarrow> 'a option \<Rightarrow> 'a" where
  "opt_default d x = (case x of None \<Rightarrow> d | Some v \<Rightarrow> v)"

end
