(* ===== verification/Redis.thy ===== *)
theory Redis
  imports Prelude "HOL-Library.AList"
begin

text \<open>
  Redis is a service outside the repository, so the model takes it as a parameter: a record of the
  commands the code issues, over an abstract store state \<open>'r\<close>. The locale \<open>redis\<close> states the
  documented effect of each command on three observable parts of the keyspace: lists
  (read by \<open>LRANGE k 0 -1\<close>), sorted sets (\<open>ZRANGE k 0 -1\<close>) and string values with their
  time to live (\<open>GET\<close>, \<open>TTL\<close>). A key is used at one type only; a reply error is not a law of
  a command but an outcome of the call (\<open>io\<close> of the prelude). \<open>mem_redis\<close> implements every
  command in memory; it is the instance of the interpretation and of the witnesses.
\<close>

record 'r redis =
  RPUSH :: "string \<Rightarrow> string \<Rightarrow> 'r \<Rightarrow> nat \<times> 'r"
  LPUSH :: "string \<Rightarrow> string \<Rightarrow> 'r \<Rightarrow> nat \<times> 'r"
  LPOP :: "string \<Rightarrow> 'r \<Rightarrow> string option \<times> 'r"
  LLEN :: "string \<Rightarrow> 'r \<Rightarrow> nat"
  LRANGE :: "string \<Rightarrow> int \<Rightarrow> int \<Rightarrow> 'r \<Rightarrow> string list"
  LTRIM :: "string \<Rightarrow> int \<Rightarrow> int \<Rightarrow> 'r \<Rightarrow> 'r"
  LREM1 :: "string \<Rightarrow> string \<Rightarrow> 'r \<Rightarrow> nat \<times> 'r"
  RPOP :: "string \<Rightarrow> 'r \<Rightarrow> string option \<times> 'r"
  DEL :: "string \<Rightarrow> 'r \<Rightarrow> 'r"
  ZADD :: "string \<Rightarrow> int \<Rightarrow> string \<Rightarrow> 'r \<Rightarrow> 'r"
  ZREM :: "string \<Rightarrow> string \<Rightarrow> 'r \<Rightarrow> nat \<times> 'r"
  ZRANGE :: "string \<Rightarrow> int \<Rightarrow> int \<Rightarrow> 'r \<Rightarrow> zset"
  ZRANGEBYSCORE :: "string \<Rightarrow> int \<Rightarrow> nat option \<Rightarrow> 'r \<Rightarrow> string list"
  ZCARD :: "string \<Rightarrow> 'r \<Rightarrow> nat"
  KEYS :: "string \<Rightarrow> 'r \<Rightarrow> string list"
  GET :: "string \<Rightarrow> 'r \<Rightarrow> int option"
  TTL :: "string \<Rightarrow> 'r \<Rightarrow> int option"
  EXISTS :: "string \<Rightarrow> 'r \<Rightarrow> bool"
  INCRBY :: "string \<Rightarrow> int \<Rightarrow> 'r \<Rightarrow> int \<times> 'r"
  EXPIRE :: "string \<Rightarrow> int \<Rightarrow> 'r \<Rightarrow> 'r"
  SETEX :: "string \<Rightarrow> int \<Rightarrow> int \<Rightarrow> 'r \<Rightarrow> 'r"
  SETNX :: "string \<Rightarrow> int \<Rightarrow> int \<Rightarrow> 'r \<Rightarrow> bool \<times> 'r"

text \<open>The observable keyspace.\<close>

record rview =
  v_lists :: "string \<Rightarrow> string list"
  v_zsets :: "string \<Rightarrow> zset"
  v_strs :: "string \<Rightarrow> int option"
  v_ttls :: "string \<Rightarrow> int option"

definition view :: "'r redis \<Rightarrow> 'r \<Rightarrow> rview" where
  "view R s = \<lparr> v_lists = (\<lambda>k. LRANGE R k 0 (-1) s), v_zsets = (\<lambda>k. ZRANGE R k 0 (-1) s),
                v_strs = (\<lambda>k. GET R k s), v_ttls = (\<lambda>k. TTL R k s) \<rparr>"

text \<open>
  The effects on the observable keyspace that the documentation promises. \<open>INCRBY\<close> creates a
  missing counter at 0 without a time to live and keeps the one it has; \<open>SETEX\<close> and a
  successful \<open>SETNX\<close> set both (the conditional form with an expiry that go-redis issues).
\<close>

definition v_list :: "string \<Rightarrow> (string list \<Rightarrow> string list) \<Rightarrow> rview \<Rightarrow> rview" where
  "v_list k f v = v\<lparr>v_lists := (v_lists v)(k := f (v_lists v k))\<rparr>"

definition v_zset :: "string \<Rightarrow> (zset \<Rightarrow> zset) \<Rightarrow> rview \<Rightarrow> rview" where
  "v_zset k f v = v\<lparr>v_zsets := (v_zsets v)(k := f (v_zsets v k))\<rparr>"

definition v_str :: "string \<Rightarrow> int option \<Rightarrow> int option \<Rightarrow> rview \<Rightarrow> rview" where
  "v_str k x t v = v\<lparr>v_strs := (v_strs v)(k := x), v_ttls := (v_ttls v)(k := t)\<rparr>"

definition count_of :: "int option \<Rightarrow> int" where
  "count_of x = (case x of None \<Rightarrow> 0 | Some n \<Rightarrow> n)"

lemma count_of_simps [simp]: "count_of None = 0" "count_of (Some n) = n"
  by (simp_all add: count_of_def)

locale redis =
  fixes R :: "'r redis"
  assumes rpush [redis_simps]: "view R (snd (RPUSH R k x s)) = v_list k (\<lambda>l. l @ [x]) (view R s)"
    and rpush_n [redis_simps]: "fst (RPUSH R k x s) = Suc (length (v_lists (view R s) k))"
    and lpush [redis_simps]: "view R (snd (LPUSH R k x s)) = v_list k (\<lambda>l. x # l) (view R s)"
    and lpop [redis_simps]: "view R (snd (LPOP R k s)) = v_list k tl (view R s)"
    and lpop_v [redis_simps]: "fst (LPOP R k s) =
          (case v_lists (view R s) k of [] \<Rightarrow> None | x # _ \<Rightarrow> Some x)"
    and rpop [redis_simps]: "view R (snd (RPOP R k s)) = v_list k butlast (view R s)"
    and llen [redis_simps]: "LLEN R k s = length (v_lists (view R s) k)"
    and lrange: "LRANGE R k a b s = redis_slice a b (v_lists (view R s) k)"
    and ltrim [redis_simps]: "view R (LTRIM R k a b s) = v_list k (redis_slice a b) (view R s)"
    and lrem [redis_simps]: "view R (snd (LREM1 R k x s)) = v_list k (remove1 x) (view R s)"
    and lrem_n [redis_simps]: "fst (LREM1 R k x s) = (if x \<in> set (v_lists (view R s) k) then 1 else 0)"
    and del_list [redis_simps]: "view R (DEL R k s) =
          v_str k None None (v_zset k (\<lambda>_. []) (v_list k (\<lambda>_. []) (view R s)))"
    and zadd [redis_simps]: "view R (ZADD R k sc m s) = v_zset k (zins sc m) (view R s)"
    and zrem [redis_simps]: "view R (snd (ZREM R k m s)) = v_zset k (zdel m) (view R s)"
    and zrem_n [redis_simps]: "fst (ZREM R k m s) = (if m \<in> zmembers (v_zsets (view R s) k) then 1 else 0)"
    and zrange: "ZRANGE R k a b s = redis_slice a b (v_zsets (view R s) k)"
    and zrangebyscore [redis_simps]: "ZRANGEBYSCORE R k mx lim s =
          (let ms = map fst (filter (\<lambda>x. snd x \<le> mx) (v_zsets (view R s) k))
           in case lim of None \<Rightarrow> ms | Some n \<Rightarrow> take n ms)"
    and zcard [redis_simps]: "ZCARD R k s = length (v_zsets (view R s) k)"
    and keys_distinct: "distinct (KEYS R p s)"
    and keys_lists: "(\<And>k. has_prefix k p \<Longrightarrow> v_zsets (view R s) k = [] \<and> v_strs (view R s) k = None) \<Longrightarrow>
          set (KEYS R p s) = {k. has_prefix k p \<and> v_lists (view R s) k \<noteq> []}"
    and exists_v [redis_simps]: "EXISTS R k s \<longleftrightarrow>
          v_lists (view R s) k \<noteq> [] \<or> v_zsets (view R s) k \<noteq> [] \<or> v_strs (view R s) k \<noteq> None"
    and incrby [redis_simps]: "view R (snd (INCRBY R k n s)) =
          v_str k (Some (count_of (v_strs (view R s) k) + n)) (v_ttls (view R s) k) (view R s)"
    and incrby_v [redis_simps]: "fst (INCRBY R k n s) = count_of (v_strs (view R s) k) + n"
    and expire [redis_simps]: "view R (EXPIRE R k t s) =
          (if EXISTS R k s then v_str k (v_strs (view R s) k) (Some t) (view R s) else view R s)"
    and setex [redis_simps]: "view R (SETEX R k n t s) = v_str k (Some n) (Some t) (view R s)"
    and setnx [redis_simps]: "view R (snd (SETNX R k n t s)) =
          (if EXISTS R k s then view R s else v_str k (Some n) (Some t) (view R s))"
    and setnx_v [redis_simps]: "fst (SETNX R k n t s) = (\<not> EXISTS R k s)"

lemma vl_updates [simp]:
  "v_lists (v_list k f v) k' = (if k' = k then f (v_lists v k) else v_lists v k')"
  "v_lists (v_zset k g v) = v_lists v" "v_lists (v_str k x t v) = v_lists v"
  by (auto simp: v_list_def v_zset_def v_str_def)

lemma vz_updates [simp]:
  "v_zsets (v_list k f v) = v_zsets v"
  "v_zsets (v_zset k g v) k' = (if k' = k then g (v_zsets v k) else v_zsets v k')" "v_zsets (v_str k x t v) = v_zsets v"
  by (auto simp: v_list_def v_zset_def v_str_def)

lemma vs_updates [simp]:
  "v_strs (v_list k f v) = v_strs v" "v_strs (v_zset k g v) = v_strs v"
  "v_strs (v_str k x t v) k' = (if k' = k then x else v_strs v k')"
  by (auto simp: v_list_def v_zset_def v_str_def)

lemma vt_updates [simp]:
  "v_ttls (v_list k f v) = v_ttls v" "v_ttls (v_zset k g v) = v_ttls v"
  "v_ttls (v_str k x t v) k' = (if k' = k then t else v_ttls v k')"
  by (auto simp: v_list_def v_zset_def v_str_def)

section \<open>An implementation in memory\<close>

record mem =
  m_lists :: "(string \<times> string list) list"
  m_zsets :: "(string \<times> zset) list"
  m_strs :: "(string \<times> int) list"
  m_ttls :: "(string \<times> int) list"

definition mem_empty :: mem where
  "mem_empty = \<lparr>m_lists = [], m_zsets = [], m_strs = [], m_ttls = []\<rparr>"

definition get_or :: "'v \<Rightarrow> (string \<times> 'v) list \<Rightarrow> string \<Rightarrow> 'v" where
  "get_or d al k = (case map_of al k of None \<Rightarrow> d | Some x \<Rightarrow> x)"

definition on_list :: "string \<Rightarrow> (string list \<Rightarrow> string list) \<Rightarrow> mem \<Rightarrow> mem" where
  "on_list k f s = s\<lparr>m_lists := AList.update k (f (get_or [] (m_lists s) k)) (m_lists s)\<rparr>"

definition on_zset :: "string \<Rightarrow> (zset \<Rightarrow> zset) \<Rightarrow> mem \<Rightarrow> mem" where
  "on_zset k f s = s\<lparr>m_zsets := AList.update k (f (get_or [] (m_zsets s) k)) (m_zsets s)\<rparr>"

definition put_opt :: "string \<Rightarrow> 'v option \<Rightarrow> (string \<times> 'v) list \<Rightarrow> (string \<times> 'v) list" where
  "put_opt k x al = (case x of None \<Rightarrow> AList.delete k al | Some v \<Rightarrow> AList.update k v al)"

definition on_str :: "string \<Rightarrow> int option \<Rightarrow> int option \<Rightarrow> mem \<Rightarrow> mem" where
  "on_str k x t s = s\<lparr>m_strs := put_opt k x (m_strs s), m_ttls := put_opt k t (m_ttls s)\<rparr>"

definition mem_exists :: "string \<Rightarrow> mem \<Rightarrow> bool" where
  "mem_exists k s \<longleftrightarrow> get_or [] (m_lists s) k \<noteq> [] \<or> get_or [] (m_zsets s) k \<noteq> []
     \<or> map_of (m_strs s) k \<noteq> None"

definition mem_redis :: "mem redis" where
  "mem_redis = \<lparr>
     RPUSH = (\<lambda>k x s. (Suc (length (get_or [] (m_lists s) k)), on_list k (\<lambda>l. l @ [x]) s)),
     LPUSH = (\<lambda>k x s. (Suc (length (get_or [] (m_lists s) k)), on_list k (\<lambda>l. x # l) s)),
     LPOP = (\<lambda>k s. (case get_or [] (m_lists s) k of [] \<Rightarrow> None | x # _ \<Rightarrow> Some x, on_list k tl s)),
     LLEN = (\<lambda>k s. length (get_or [] (m_lists s) k)),
     LRANGE = (\<lambda>k a b s. redis_slice a b (get_or [] (m_lists s) k)),
     LTRIM = (\<lambda>k a b s. on_list k (redis_slice a b) s),
     LREM1 = (\<lambda>k x s. (if x \<in> set (get_or [] (m_lists s) k) then 1 else 0, on_list k (remove1 x) s)),
     RPOP = (\<lambda>k s. (case get_or [] (m_lists s) k of [] \<Rightarrow> None | l \<Rightarrow> Some (last l), on_list k butlast s)),
     DEL = (\<lambda>k s. on_str k None None (on_zset k (\<lambda>_. []) (on_list k (\<lambda>_. []) s))),
     ZADD = (\<lambda>k sc m s. on_zset k (zins sc m) s),
     ZREM = (\<lambda>k m s. (if m \<in> zmembers (get_or [] (m_zsets s) k) then 1 else 0, on_zset k (zdel m) s)),
     ZRANGE = (\<lambda>k a b s. redis_slice a b (get_or [] (m_zsets s) k)),
     ZRANGEBYSCORE = (\<lambda>k mx lim s.
        (let ms = map fst (filter (\<lambda>x. snd x \<le> mx) (get_or [] (m_zsets s) k))
         in case lim of None \<Rightarrow> ms | Some n \<Rightarrow> take n ms)),
     ZCARD = (\<lambda>k s. length (get_or [] (m_zsets s) k)),
     KEYS = (\<lambda>p s. filter (\<lambda>k. has_prefix k p \<and> mem_exists k s)
        (remdups (map fst (m_lists s) @ map fst (m_zsets s) @ map fst (m_strs s)))),
     GET = (\<lambda>k s. map_of (m_strs s) k),
     TTL = (\<lambda>k s. map_of (m_ttls s) k),
     EXISTS = mem_exists,
     INCRBY = (\<lambda>k n s. (count_of (map_of (m_strs s) k) + n,
        on_str k (Some (count_of (map_of (m_strs s) k) + n)) (map_of (m_ttls s) k) s)),
     EXPIRE = (\<lambda>k t s. if mem_exists k s then on_str k (map_of (m_strs s) k) (Some t) s else s),
     SETEX = (\<lambda>k x t s. on_str k (Some x) (Some t) s),
     SETNX = (\<lambda>k x t s. (\<not> mem_exists k s, if mem_exists k s then s else on_str k (Some x) (Some t) s)) \<rparr>"

text \<open>The commands of the instance, one equation each; the record itself stays folded.\<close>

lemmas mem_sel =
  arg_cong [OF mem_redis_def, of RPUSH, unfolded redis.select_convs]
  arg_cong [OF mem_redis_def, of LPUSH, unfolded redis.select_convs]
  arg_cong [OF mem_redis_def, of LPOP, unfolded redis.select_convs]
  arg_cong [OF mem_redis_def, of LLEN, unfolded redis.select_convs]
  arg_cong [OF mem_redis_def, of LRANGE, unfolded redis.select_convs]
  arg_cong [OF mem_redis_def, of LTRIM, unfolded redis.select_convs]
  arg_cong [OF mem_redis_def, of LREM1, unfolded redis.select_convs]
  arg_cong [OF mem_redis_def, of RPOP, unfolded redis.select_convs]
  arg_cong [OF mem_redis_def, of DEL, unfolded redis.select_convs]
  arg_cong [OF mem_redis_def, of ZADD, unfolded redis.select_convs]
  arg_cong [OF mem_redis_def, of ZREM, unfolded redis.select_convs]
  arg_cong [OF mem_redis_def, of ZRANGE, unfolded redis.select_convs]
  arg_cong [OF mem_redis_def, of ZRANGEBYSCORE, unfolded redis.select_convs]
  arg_cong [OF mem_redis_def, of ZCARD, unfolded redis.select_convs]
  arg_cong [OF mem_redis_def, of KEYS, unfolded redis.select_convs]
  arg_cong [OF mem_redis_def, of GET, unfolded redis.select_convs]
  arg_cong [OF mem_redis_def, of TTL, unfolded redis.select_convs]
  arg_cong [OF mem_redis_def, of EXISTS, unfolded redis.select_convs]
  arg_cong [OF mem_redis_def, of INCRBY, unfolded redis.select_convs]
  arg_cong [OF mem_redis_def, of EXPIRE, unfolded redis.select_convs]
  arg_cong [OF mem_redis_def, of SETEX, unfolded redis.select_convs]
  arg_cong [OF mem_redis_def, of SETNX, unfolded redis.select_convs]

lemma map_of_put_opt [simp]: "map_of (put_opt k x al) = (map_of al)(k := x)"
  by (cases x) (simp_all add: put_opt_def update_conv' delete_conv')

lemma get_or_update [simp]: "get_or d (AList.update k x al) k' = (if k' = k then x else get_or d al k')"
  by (simp add: get_or_def update_conv')

lemma view_mem:
  "v_lists (view mem_redis s) = get_or [] (m_lists s)" "v_zsets (view mem_redis s) = get_or [] (m_zsets s)"
  "v_strs (view mem_redis s) = map_of (m_strs s)" "v_ttls (view mem_redis s) = map_of (m_ttls s)"
  by (auto simp: view_def mem_sel)

lemma view_on:
  "view mem_redis (on_list k f s) = v_list k f (view mem_redis s)"
  "view mem_redis (on_zset k g s) = v_zset k g (view mem_redis s)"
  "view mem_redis (on_str k x t s) = v_str k x t (view mem_redis s)"
  by (auto simp: view_def mem_sel v_list_def v_zset_def v_str_def on_list_def on_zset_def
      on_str_def fun_eq_iff)

lemma get_or_nonempty: "get_or [] al k \<noteq> [] \<Longrightarrow> k \<in> fst ` set al"
  unfolding get_or_def by (metis domI dom_map_of_conv_image_fst option.case_eq_if option.collapse)

lemma mem_keys_lists:
  assumes "\<And>k. has_prefix k p \<Longrightarrow> v_zsets (view mem_redis s) k = [] \<and> v_strs (view mem_redis s) k = None"
  shows "set (KEYS mem_redis p s) = {k. has_prefix k p \<and> v_lists (view mem_redis s) k \<noteq> []}"
proof -
  have "has_prefix k p \<Longrightarrow> mem_exists k s \<longleftrightarrow> get_or [] (m_lists s) k \<noteq> []" for k
    using assms[of k] by (auto simp: view_mem mem_exists_def)
  then show ?thesis
    by (auto simp: mem_sel view_mem dest: get_or_nonempty)
qed

interpretation mem: redis mem_redis
proof (unfold_locales, goal_cases)
  case (20 p s)
  then show ?case by (rule mem_keys_lists)
qed (simp_all add: mem_sel view_mem view_on mem_exists_def split: list.splits)

end
