(* ===== verification/Dqueue.thy ===== *)
theory Dqueue
  imports Redis
begin

text \<open>
  Package \<^verbatim>\<open>dqueue\<close> (src/internal/dqueue/dqueue.go): the per-organization fair delivery queue.
  Each Lua script is one function on the Redis state, with the Redis commands it calls taken from
  the parameter \<open>R\<close>; each method of \<open>Client\<close> is one function that runs its script or command and
  maps the outcome the way the Go code does. A script runs atomically, and when it aborts the
  commands it already ran stay in effect. The JSON codec of payloads (Go's \<^verbatim>\<open>encoding/json\<close> and the
  \<^verbatim>\<open>cjson\<close> of the Redis scripting engine) is the parameter \<open>C\<close>; its laws are the locale
  \<open>payload_codec\<close> below. Instants are Unix milliseconds in \<open>int\<close>.
\<close>

section \<open>Data\<close>

type_synonym uuid = string

record payload =
  p_EventID :: uuid
  p_OrgID :: uuid
  p_Attempt :: int
  p_EnqueuedAt :: int
  p_Manual :: bool
  p_RetryStrategy :: string
  p_RetryBaseMs :: int
  p_RetryCapMs :: int
  p_RetryJitterPct :: int
  p_CustomRetrySchedule :: bytes
  p_Trace :: "(string \<times> string) list"
  p_Kind :: string
  p_Data :: bytes

record codec =
  marshal :: "payload \<Rightarrow> string"
  unmarshal :: "string \<Rightarrow> payload option"
  cjson_org_id :: "string \<Rightarrow> string option"

record client =
  prefix :: string

definition NewClient :: client where
  "NewClient = \<lparr>prefix = ''dq''\<rparr>"

definition WithPrefix :: "client \<Rightarrow> string \<Rightarrow> client" where
  "WithPrefix c p = c\<lparr>prefix := p\<rparr>"

definition deadListCap :: int where
  "deadListCap = 10000"

definition leaseSep :: char where
  "leaseSep = CHR 0x1F"

section \<open>The scripts\<close>

text \<open>The keys, as the scripts and methods build them from the prefix.\<close>

definition pendingPrefix :: "string \<Rightarrow> string" where "pendingPrefix p = p @ '':pending:''"
definition pendingKey :: "string \<Rightarrow> string \<Rightarrow> string" where "pendingKey p org = p @ '':pending:'' @ org"
definition orgsKey :: "string \<Rightarrow> string" where "orgsKey p = p @ '':orgs''"
definition notifyKey :: "string \<Rightarrow> string" where "notifyKey p = p @ '':notify''"
definition processingKey :: "string \<Rightarrow> string" where "processingKey p = p @ '':processing''"
definition scheduledKey :: "string \<Rightarrow> string" where "scheduledKey p = p @ '':scheduled''"
definition deadKey :: "string \<Rightarrow> string" where "deadKey p = p @ '':dead''"

lemmas key_defs = pendingKey_def orgsKey_def notifyKey_def processingKey_def scheduledKey_def deadKey_def

lemma keys_disjoint [simp]:
  "pendingKey p o1 = pendingKey p o2 \<longleftrightarrow> o1 = o2"
  "pendingKey p o1 \<noteq> orgsKey p" "orgsKey p \<noteq> pendingKey p o1"
  "pendingKey p o1 \<noteq> notifyKey p" "notifyKey p \<noteq> pendingKey p o1"
  "pendingKey p o1 \<noteq> processingKey p" "processingKey p \<noteq> pendingKey p o1"
  "pendingKey p o1 \<noteq> scheduledKey p" "scheduledKey p \<noteq> pendingKey p o1"
  "pendingKey p o1 \<noteq> deadKey p" "deadKey p \<noteq> pendingKey p o1"
  "orgsKey p \<noteq> notifyKey p" "notifyKey p \<noteq> orgsKey p"
  "orgsKey p \<noteq> deadKey p" "deadKey p \<noteq> orgsKey p"
  "deadKey p \<noteq> notifyKey p" "notifyKey p \<noteq> deadKey p"
  "scheduledKey p \<noteq> processingKey p" "processingKey p \<noteq> scheduledKey p"
  "scheduledKey p \<noteq> deadKey p" "processingKey p \<noteq> deadKey p"
  by (simp_all add: key_defs)


definition enqueueScript :: "'r redis \<Rightarrow> string \<Rightarrow> string \<Rightarrow> string \<Rightarrow> 'r \<Rightarrow> nat \<times> 'r" where
  "enqueueScript R p org evt s =
     (let (n, s) = RPUSH R (pendingKey p org) evt s;
          s = (if n = 1 then snd (RPUSH R (orgsKey p) org s) else s);
          s = snd (LPUSH R (notifyKey p) ''1'' s);
          s = LTRIM R (notifyKey p) 0 1024 s
      in (n, s))"

definition fairPickScript :: "'r redis \<Rightarrow> string \<Rightarrow> int \<Rightarrow> string \<Rightarrow> 'r \<Rightarrow> string option \<times> 'r" where
  "fairPickScript R p deadline token s =
     (case LPOP R (orgsKey p) s of
        (None, s) \<Rightarrow> (None, s)
      | (Some org, s) \<Rightarrow>
          (let pkey = pendingKey p org
           in case LPOP R pkey s of
                (None, s) \<Rightarrow> (None, s)
              | (Some evt, s) \<Rightarrow>
                  (let member = token @ leaseSep # evt;
                       s = ZADD R (processingKey p) deadline member s;
                       s = (if LLEN R pkey s > 0 then snd (RPUSH R (orgsKey p) org s) else s)
                   in (Some member, s))))"

text \<open>\<open>stripToken\<close> is also what the scripts do with \<^verbatim>\<open>string.find\<close> and \<^verbatim>\<open>string.sub\<close>.\<close>

definition stripToken :: "string \<Rightarrow> string" where
  "stripToken member = (case index_byte member leaseSep of
      Some i \<Rightarrow> drop (i + 1) member
    | None \<Rightarrow> member)"

definition deadLetterScript :: "'r redis \<Rightarrow> string \<Rightarrow> string \<Rightarrow> int \<Rightarrow> 'r \<Rightarrow> nat \<times> 'r" where
  "deadLetterScript R p member cap s =
     (let evt = stripToken member;
          s = snd (RPUSH R (deadKey p) evt s);
          s = LTRIM R (deadKey p) (- cap) (-1) s;
          s = snd (ZREM R (processingKey p) member s)
      in (1, s))"

text \<open>
  The loop of \<open>promoteDueScript\<close>. A member that does not decode to an object with an
  \<^verbatim>\<open>org_id\<close> aborts the script after its \<^verbatim>\<open>ZREM\<close>.
\<close>

fun promoteLoop :: "'r redis \<Rightarrow> codec \<Rightarrow> string \<Rightarrow> string list \<Rightarrow> 'r \<Rightarrow> bool \<times> 'r" where
  "promoteLoop R C p [] s = (True, s)"
| "promoteLoop R C p (evt # due) s =
     (let s = snd (ZREM R (scheduledKey p) evt s)
      in case cjson_org_id C evt of
           None \<Rightarrow> (False, s)
         | Some org \<Rightarrow>
             (let (n, s) = RPUSH R (pendingKey p org) evt s;
                  s = (if n = 1 then snd (RPUSH R (orgsKey p) org s) else s);
                  s = snd (LPUSH R (notifyKey p) ''1'' s)
              in promoteLoop R C p due s))"

definition promoteDueScript ::
  "'r redis \<Rightarrow> codec \<Rightarrow> string \<Rightarrow> int \<Rightarrow> nat \<Rightarrow> 'r \<Rightarrow> (go_error + nat) \<times> 'r" where
  "promoteDueScript R C p now limit s =
     (let due = ZRANGEBYSCORE R (scheduledKey p) now (Some limit) s;
          (ok, s) = promoteLoop R C p due s
      in if ok then (Inr (length due), LTRIM R (notifyKey p) 0 1024 s)
         else (Inl ErrScript, s))"

fun recoverLoop :: "'r redis \<Rightarrow> string \<Rightarrow> int \<Rightarrow> string list \<Rightarrow> 'r \<Rightarrow> 'r" where
  "recoverLoop R p now [] s = s"
| "recoverLoop R p now (member # expired) s =
     (let s = snd (ZREM R (processingKey p) member s);
          evt = stripToken member;
          s = ZADD R (scheduledKey p) now evt s
      in recoverLoop R p now expired s)"

definition recoverScript :: "'r redis \<Rightarrow> string \<Rightarrow> int \<Rightarrow> 'r \<Rightarrow> nat \<times> 'r" where
  "recoverScript R p now s =
     (let expired = ZRANGEBYSCORE R (processingKey p) now None s
      in (length expired, recoverLoop R p now expired s))"

text \<open>The tail that \<open>requeueDeadScript\<close> and \<open>promoteScheduledScript\<close> share, once the member is removed.\<close>

definition pushDecoded :: "'r redis \<Rightarrow> codec \<Rightarrow> string \<Rightarrow> string \<Rightarrow> nat \<Rightarrow> 'r \<Rightarrow> (go_error + nat) \<times> 'r" where
  "pushDecoded R C p evt removed s =
     (case cjson_org_id C evt of
        None \<Rightarrow> (Inl ErrScript, s)
      | Some org \<Rightarrow>
          (let (n, s) = RPUSH R (pendingKey p org) evt s;
               s = (if n = 1 then snd (RPUSH R (orgsKey p) org s) else s);
               s = snd (LPUSH R (notifyKey p) ''1'' s);
               s = LTRIM R (notifyKey p) 0 1024 s
           in (Inr removed, s)))"

definition requeueDeadScript ::
  "'r redis \<Rightarrow> codec \<Rightarrow> string \<Rightarrow> string \<Rightarrow> string \<Rightarrow> 'r \<Rightarrow> (go_error + nat) \<times> 'r" where
  "requeueDeadScript R C p oldRaw newRaw s =
     (let (removed, s) = LREM1 R (deadKey p) oldRaw s
      in if removed > 0 then pushDecoded R C p newRaw removed s else (Inr removed, s))"

definition promoteScheduledScript ::
  "'r redis \<Rightarrow> codec \<Rightarrow> string \<Rightarrow> string \<Rightarrow> 'r \<Rightarrow> (go_error + nat) \<times> 'r" where
  "promoteScheduledScript R C p raw s =
     (let (removed, s) = ZREM R (scheduledKey p) raw s
      in if removed > 0 then pushDecoded R C p raw removed s else (Inr removed, s))"

definition drainDeadScript :: "'r redis \<Rightarrow> string \<Rightarrow> 'r \<Rightarrow> nat \<times> 'r" where
  "drainDeadScript R p s =
     (let n = LLEN R (deadKey p) s in (n, DEL R (deadKey p) s))"

section \<open>The client methods\<close>

text \<open>
  \<open>w\<close> is the outcome of the call to Redis. A script that aborts is an error of the call as well.
\<close>

definition io_err :: "'a option \<Rightarrow> go_error option" where
  "io_err r = (case r of None \<Rightarrow> Some ErrRedis | Some _ \<Rightarrow> None)"

definition io_sum :: "(go_error + 'a) option \<Rightarrow> go_error + 'a" where
  "io_sum r = (case r of None \<Rightarrow> Inl ErrRedis | Some x \<Rightarrow> x)"

text \<open>The carrier is what the OpenTelemetry propagator injects.\<close>

definition injectTrace :: "(string \<times> string) list \<Rightarrow> payload \<Rightarrow> payload" where
  "injectTrace carrier p = (if length carrier > 0 then p\<lparr>p_Trace := carrier\<rparr> else p)"

definition Enqueue ::
  "'r redis \<Rightarrow> codec \<Rightarrow> client \<Rightarrow> io \<Rightarrow> (string \<times> string) list \<Rightarrow> payload \<Rightarrow> 'r \<Rightarrow> go_error option \<times> 'r" where
  "Enqueue R C c w carrier p s =
     (let p = injectTrace carrier p;
          raw = marshal C p;
          (r, s) = run_io w (enqueueScript R (prefix c) (p_OrgID p) raw) s
      in (io_err r, s))"

definition Schedule ::
  "'r redis \<Rightarrow> codec \<Rightarrow> client \<Rightarrow> io \<Rightarrow> payload \<Rightarrow> int \<Rightarrow> 'r \<Rightarrow> go_error option \<times> 'r" where
  "Schedule R C c w p atUnixMs s =
     (let raw = marshal C p;
          (r, s) = run_io w (\<lambda>s. ((), ZADD R (scheduledKey (prefix c)) atUnixMs raw s)) s
      in (io_err r, s))"

definition FairPick ::
  "'r redis \<Rightarrow> codec \<Rightarrow> client \<Rightarrow> io \<Rightarrow> int \<Rightarrow> int \<Rightarrow> string \<Rightarrow> 'r \<Rightarrow> (go_error + (string \<times> payload) option) \<times> 'r" where
  "FairPick R C c w now leaseMs token s =
     (let deadline = now + leaseMs;
          (res, s) = run_io w (fairPickScript R (prefix c) deadline token) s
      in (case res of
            None \<Rightarrow> Inl ErrRedis
          | Some None \<Rightarrow> Inr None
          | Some (Some m) \<Rightarrow>
              (case unmarshal C (stripToken m) of
                 None \<Rightarrow> Inl ErrDecode
               | Some p \<Rightarrow> Inr (Some (m, p))),
          s))"

definition Ack :: "'r redis \<Rightarrow> client \<Rightarrow> io \<Rightarrow> string \<Rightarrow> 'r \<Rightarrow> go_error option \<times> 'r" where
  "Ack R c w raw s =
     (let (r, s) = run_io w (ZREM R (processingKey (prefix c)) raw) s in (io_err r, s))"

definition DeadLetter :: "'r redis \<Rightarrow> client \<Rightarrow> io \<Rightarrow> string \<Rightarrow> 'r \<Rightarrow> go_error option \<times> 'r" where
  "DeadLetter R c w raw s =
     (let (r, s) = run_io w (deadLetterScript R (prefix c) raw deadListCap) s in (io_err r, s))"

definition PromoteDue ::
  "'r redis \<Rightarrow> codec \<Rightarrow> client \<Rightarrow> io \<Rightarrow> int \<Rightarrow> nat \<Rightarrow> 'r \<Rightarrow> (go_error + nat) \<times> 'r" where
  "PromoteDue R C c w nowUnixMs limit s =
     (let (r, s) = run_io w (promoteDueScript R C (prefix c) nowUnixMs limit) s in (io_sum r, s))"

definition Recover :: "'r redis \<Rightarrow> client \<Rightarrow> io \<Rightarrow> int \<Rightarrow> 'r \<Rightarrow> (go_error + nat) \<times> 'r" where
  "Recover R c w nowUnixMs s =
     (let (r, s) = run_io w (recoverScript R (prefix c) nowUnixMs) s
      in (case r of None \<Rightarrow> Inl ErrRedis | Some n \<Rightarrow> Inr n, s))"

text \<open>\<open>BRPOP\<close> pops the tail of the wake-up list, or times out, which is no error.\<close>

definition WaitNotify :: "'r redis \<Rightarrow> client \<Rightarrow> io \<Rightarrow> 'r \<Rightarrow> go_error option \<times> 'r" where
  "WaitNotify R c w s =
     (let (r, s) = run_io w (RPOP R (notifyKey (prefix c))) s in (io_err r, s))"

definition RequeueDead ::
  "'r redis \<Rightarrow> codec \<Rightarrow> client \<Rightarrow> io \<Rightarrow> int \<Rightarrow> string \<Rightarrow> 'r \<Rightarrow> (go_error + bool) \<times> 'r" where
  "RequeueDead R C c w now raw s =
     (case unmarshal C raw of
        None \<Rightarrow> (Inl ErrDecode, s)
      | Some p \<Rightarrow>
          (let p = p\<lparr>p_Attempt := 0, p_EnqueuedAt := now\<rparr>;
               newRaw = marshal C p;
               (r, s) = run_io w (requeueDeadScript R C (prefix c) raw newRaw) s
           in (case io_sum r of Inl e \<Rightarrow> Inl e | Inr n \<Rightarrow> Inr (n > 0), s)))"

definition PromoteScheduled ::
  "'r redis \<Rightarrow> codec \<Rightarrow> client \<Rightarrow> io \<Rightarrow> string \<Rightarrow> 'r \<Rightarrow> (go_error + bool) \<times> 'r" where
  "PromoteScheduled R C c w raw s =
     (case unmarshal C raw of
        None \<Rightarrow> (Inl ErrDecode, s)
      | Some _ \<Rightarrow>
          (let (r, s) = run_io w (promoteScheduledScript R C (prefix c) raw) s
           in (case io_sum r of Inl e \<Rightarrow> Inl e | Inr n \<Rightarrow> Inr (n > 0), s)))"

definition DrainDead :: "'r redis \<Rightarrow> client \<Rightarrow> io \<Rightarrow> 'r \<Rightarrow> (go_error + nat) \<times> 'r" where
  "DrainDead R c w s =
     (let (r, s) = run_io w (drainDeadScript R (prefix c)) s
      in (case r of None \<Rightarrow> Inl ErrRedis | Some n \<Rightarrow> Inr n, s))"

section \<open>The admin view\<close>

record org_pending =
  op_OrgID :: string
  op_Pending :: int

record stats =
  st_Pending :: int
  st_Scheduled :: int
  st_Processing :: int
  st_Dead :: int
  st_TopOrgs :: "org_pending list"

text \<open>
  The loop over the pending keys. \<open>wl\<close> is the outcome of each \<^verbatim>\<open>LLEN\<close> call; an error ends the loop.
\<close>

fun pendingLoop ::
  "'r redis \<Rightarrow> string \<Rightarrow> (string \<Rightarrow> io) \<Rightarrow> 'r \<Rightarrow> string list \<Rightarrow> org_pending list \<Rightarrow> go_error option \<times> org_pending list" where
  "pendingLoop R pre wl s [] acc = (None, acc)"
| "pendingLoop R pre wl s (key # keys) acc =
     (if wl key \<noteq> IoOk then (Some ErrRedis, acc)
      else pendingLoop R pre wl s keys
             (acc @ [\<lparr>op_OrgID = trim_prefix key pre, op_Pending = int (LLEN R key s)\<rparr>]))"

definition byPendingDesc :: "org_pending list \<Rightarrow> org_pending list" where
  "byPendingDesc = sort_key (\<lambda>x. - op_Pending x)"

definition Stats ::
  "'r redis \<Rightarrow> client \<Rightarrow> io \<Rightarrow> (string \<Rightarrow> io) \<Rightarrow> io \<Rightarrow> io \<Rightarrow> io \<Rightarrow> 'r \<Rightarrow> stats \<times> go_error option" where
  "Stats R c wk wl ws wp wd s =
     (let st = \<lparr>st_Pending = 0, st_Scheduled = 0, st_Processing = 0, st_Dead = 0, st_TopOrgs = []\<rparr>;
          pre = pendingPrefix (prefix c)
      in if wk \<noteq> IoOk then (st, Some ErrRedis)
         else
           (let (err, acc) = pendingLoop R pre wl s (KEYS R pre s) [];
                st = st\<lparr>st_Pending := sum_list (map op_Pending acc), st_TopOrgs := acc\<rparr>
            in case err of
                 Some e \<Rightarrow> (st, Some e)
               | None \<Rightarrow>
                   (let st = st\<lparr>st_TopOrgs := take 10 (byPendingDesc acc)\<rparr>
                    in if ws \<noteq> IoOk then (st, Some ErrRedis)
                       else let st = st\<lparr>st_Scheduled := int (ZCARD R (scheduledKey (prefix c)) s)\<rparr>
                    in if wp \<noteq> IoOk then (st, Some ErrRedis)
                       else let st = st\<lparr>st_Processing := int (ZCARD R (processingKey (prefix c)) s)\<rparr>
                    in if wd \<noteq> IoOk then (st, Some ErrRedis)
                       else let st = st\<lparr>st_Dead := int (LLEN R (deadKey (prefix c)) s)\<rparr>
                    in (st, None))))"

definition AllOrgPending ::
  "'r redis \<Rightarrow> client \<Rightarrow> io \<Rightarrow> (string \<Rightarrow> io) \<Rightarrow> 'r \<Rightarrow> go_error + org_pending list" where
  "AllOrgPending R c wk wl s =
     (let pre = pendingPrefix (prefix c)
      in if wk \<noteq> IoOk then Inl ErrRedis
         else (case pendingLoop R pre wl s (KEYS R pre s) [] of
                 (Some e, _) \<Rightarrow> Inl e
               | (None, out) \<Rightarrow> Inr (byPendingDesc out)))"

record item =
  it_Raw :: string
  it_EventID :: uuid
  it_OrgID :: uuid
  it_Attempt :: int
  it_EnqueuedAt :: int
  it_NextRunMs :: int
  it_LeaseMs :: int
  it_DecodeError :: bool

definition uuid_Nil :: uuid where
  "uuid_Nil = ''00000000-0000-0000-0000-000000000000''"

definition decodeItem :: "codec \<Rightarrow> string \<Rightarrow> item" where
  "decodeItem C raw =
     (let it = \<lparr>it_Raw = raw, it_EventID = uuid_Nil, it_OrgID = uuid_Nil, it_Attempt = 0,
                it_EnqueuedAt = 0, it_NextRunMs = 0, it_LeaseMs = 0, it_DecodeError = False\<rparr>
      in case unmarshal C raw of
           None \<Rightarrow> it\<lparr>it_DecodeError := True\<rparr>
         | Some p \<Rightarrow> it\<lparr>it_EventID := p_EventID p, it_OrgID := p_OrgID p,
                       it_Attempt := p_Attempt p, it_EnqueuedAt := p_EnqueuedAt p\<rparr>)"

definition itemsLimit :: "int \<Rightarrow> int" where
  "itemsLimit limit = (let limit = (if limit \<le> 0 then 100 else limit) in if limit > 200 then 200 else limit)"

definition Items ::
  "'r redis \<Rightarrow> codec \<Rightarrow> client \<Rightarrow> io \<Rightarrow> string \<Rightarrow> string \<Rightarrow> int \<Rightarrow> 'r \<Rightarrow> go_error + (item list \<times> bool)" where
  "Items R C c w lane org limit s =
     (let limit = itemsLimit limit;
          probe = limit
      in if lane = ''dead'' \<or> lane = ''pending'' then
           (if lane = ''pending'' \<and> org = [] then Inl ErrPendingNeedsOrg
            else
              (let key = (if lane = ''pending'' then pendingKey (prefix c) org else deadKey (prefix c))
               in if w \<noteq> IoOk then Inl ErrRedis
                  else
                    (let raws = LRANGE R key 0 probe s;
                         trunc = int (length raws) > limit;
                         raws = (if trunc then take (nat limit) raws else raws)
                     in Inr (map (decodeItem C) raws, trunc))))
         else if lane = ''scheduled'' \<or> lane = ''processing'' then
           (let key = (if lane = ''processing'' then processingKey (prefix c) else scheduledKey (prefix c))
            in if w \<noteq> IoOk then Inl ErrRedis
               else
                 (let zs = ZRANGE R key 0 probe s;
                      trunc = int (length zs) > limit;
                      zs = (if trunc then take (nat limit) zs else zs);
                      conv = (\<lambda>z. let it = decodeItem C (stripToken (fst z))
                                  in if lane = ''scheduled'' then it\<lparr>it_NextRunMs := snd z\<rparr>
                                     else it\<lparr>it_LeaseMs := snd z\<rparr>)
                  in Inr (map conv zs, trunc)))
         else Inl ErrUnknownLane)"

section \<open>The contract of the codec\<close>

text \<open>
  What the queue relies on: a marshalled payload decodes to itself in Go, names its organization to
  the scripts, and holds no unit separator (JSON escapes every control character). \<open>good\<close> singles out
  the payloads the program builds.
\<close>

locale payload_codec =
  fixes C :: codec and good :: "payload \<Rightarrow> bool"
  assumes unmarshal_marshal: "good p \<Longrightarrow> unmarshal C (marshal C p) = Some p"
    and cjson_marshal: "good p \<Longrightarrow> cjson_org_id C (marshal C p) = Some (p_OrgID p)"
    and marshal_no_sep: "good p \<Longrightarrow> leaseSep \<notin> set (marshal C p)"
    and good_requeue: "good p \<Longrightarrow> 0 \<le> now \<Longrightarrow> now < 2 ^ 63 \<Longrightarrow>
          good (p\<lparr>p_Attempt := 0, p_EnqueuedAt := now\<rparr>)"

end
