(* ===== verification/Dqueue_Spec.thy ===== *)
theory Dqueue_Spec
  imports Dqueue
begin

text \<open>
  The abstract queue and the refinement. \<open>dq\<close> is what the queue promises its users: a ring of
  organizations, one FIFO of pending events per organization, the leases, the schedule and the dead
  tail. \<open>dq_of\<close> reads it off a Redis state, and each script refines one operation of the abstract
  queue (collection \<open>dq_abs\<close>). The invariant \<open>dq_inv\<close> says that an organization is in the ring
  exactly when it has pending events, and there once.
\<close>

section \<open>The abstract queue\<close>

record dq =
  ring :: "string list"
  pend :: "string \<Rightarrow> string list"
  proc :: zset
  sched :: zset
  deadq :: "string list"
  notif :: nat

definition dq_empty :: dq where
  "dq_empty = \<lparr>ring = [], pend = (\<lambda>_. []), proc = [], sched = [], deadq = [], notif = 0\<rparr>"

definition dq_push :: "string \<Rightarrow> string \<Rightarrow> dq \<Rightarrow> dq" where
  "dq_push org evt q =
     q\<lparr>pend := (pend q)(org := pend q org @ [evt]),
       ring := (if pend q org = [] then ring q @ [org] else ring q),
       notif := Suc (notif q)\<rparr>"

definition dq_trim :: "dq \<Rightarrow> dq" where
  "dq_trim q = q\<lparr>notif := min 1025 (notif q)\<rparr>"

definition dq_pick :: "int \<Rightarrow> string \<Rightarrow> dq \<Rightarrow> string option \<times> dq" where
  "dq_pick deadline token q =
     (case ring q of
        [] \<Rightarrow> (None, q)
      | org # rest \<Rightarrow>
          (case pend q org of
             [] \<Rightarrow> (None, q\<lparr>ring := rest\<rparr>)
           | evt # es \<Rightarrow>
               (Some (token @ leaseSep # evt),
                q\<lparr>ring := (if es = [] then rest else rest @ [org]),
                  pend := (pend q)(org := es),
                  proc := zins deadline (token @ leaseSep # evt) (proc q)\<rparr>)))"

definition dq_release :: "string \<Rightarrow> dq \<Rightarrow> dq" where
  "dq_release m q = q\<lparr>proc := zdel m (proc q)\<rparr>"

definition dq_sched :: "int \<Rightarrow> string \<Rightarrow> dq \<Rightarrow> dq" where
  "dq_sched t evt q = q\<lparr>sched := zins t evt (sched q)\<rparr>"

definition dq_unsched :: "string \<Rightarrow> dq \<Rightarrow> dq" where
  "dq_unsched evt q = q\<lparr>sched := zdel evt (sched q)\<rparr>"

definition last_n :: "nat \<Rightarrow> 'a list \<Rightarrow> 'a list" where
  "last_n n xs = drop (length xs - n) xs"

definition dq_bury :: "nat \<Rightarrow> string \<Rightarrow> dq \<Rightarrow> dq" where
  "dq_bury cap m q =
     q\<lparr>deadq := last_n cap (deadq q @ [stripToken m]), proc := zdel m (proc q)\<rparr>"

definition due :: "int \<Rightarrow> zset \<Rightarrow> string list" where
  "due now z = map fst (filter (\<lambda>x. snd x \<le> now) z)"

fun dq_promote :: "codec \<Rightarrow> string list \<Rightarrow> dq \<Rightarrow> bool \<times> dq" where
  "dq_promote C [] q = (True, q)"
| "dq_promote C (evt # es) q =
     (case cjson_org_id C evt of
        None \<Rightarrow> (False, dq_unsched evt q)
      | Some org \<Rightarrow> dq_promote C es (dq_push org evt (dq_unsched evt q)))"

fun dq_recover :: "int \<Rightarrow> string list \<Rightarrow> dq \<Rightarrow> dq" where
  "dq_recover now [] q = q"
| "dq_recover now (m # ms) q = dq_recover now ms (dq_sched now (stripToken m) (dq_release m q))"

section \<open>Abstraction\<close>

definition dq_of :: "'r redis \<Rightarrow> string \<Rightarrow> 'r \<Rightarrow> dq" where
  "dq_of R p s =
     \<lparr>ring = v_lists (view R s) (orgsKey p),
      pend = (\<lambda>org. v_lists (view R s) (pendingKey p org)),
      proc = v_zsets (view R s) (processingKey p),
      sched = v_zsets (view R s) (scheduledKey p),
      deadq = v_lists (view R s) (deadKey p),
      notif = length (v_lists (view R s) (notifyKey p))\<rparr>"

lemma dq_of_sel:
  "ring (dq_of R p s) = v_lists (view R s) (orgsKey p)"
  "pend (dq_of R p s) org = v_lists (view R s) (pendingKey p org)"
  "proc (dq_of R p s) = v_zsets (view R s) (processingKey p)"
  "sched (dq_of R p s) = v_zsets (view R s) (scheduledKey p)"
  "deadq (dq_of R p s) = v_lists (view R s) (deadKey p)"
  "notif (dq_of R p s) = length (v_lists (view R s) (notifyKey p))"
  by (simp_all add: dq_of_def)

lemma dq_eqI:
  assumes "ring a = ring b" "\<And>org. pend a org = pend b org" "proc a = proc b" "sched a = sched b"
    "deadq a = deadq b" "notif a = notif b"
  shows "a = (b :: dq)"
  using assms by (auto intro!: dq.equality simp: fun_eq_iff)

text \<open>The effect of each command on the abstract queue, key by key.\<close>

context redis
begin

lemma abs_rpush_pending:
  "dq_of R p (snd (RPUSH R (pendingKey p org) x s)) =
     (dq_of R p s)\<lparr>pend := (pend (dq_of R p s))(org := pend (dq_of R p s) org @ [x])\<rparr>"
  by (rule dq_eqI) (auto simp: dq_of_sel redis_simps)

lemma abs_rpush_orgs:
  "dq_of R p (snd (RPUSH R (orgsKey p) x s)) = (dq_of R p s)\<lparr>ring := ring (dq_of R p s) @ [x]\<rparr>"
  by (rule dq_eqI) (auto simp: dq_of_sel redis_simps)

lemma abs_rpush_dead:
  "dq_of R p (snd (RPUSH R (deadKey p) x s)) = (dq_of R p s)\<lparr>deadq := deadq (dq_of R p s) @ [x]\<rparr>"
  by (rule dq_eqI) (auto simp: dq_of_sel redis_simps)

lemma abs_lpush_notify:
  "dq_of R p (snd (LPUSH R (notifyKey p) x s)) = (dq_of R p s)\<lparr>notif := Suc (notif (dq_of R p s))\<rparr>"
  by (rule dq_eqI) (auto simp: dq_of_sel redis_simps)

lemma abs_ltrim_notify: "dq_of R p (LTRIM R (notifyKey p) 0 1024 s) = dq_trim (dq_of R p s)"
  by (rule dq_eqI) (auto simp: dq_of_sel redis_simps dq_trim_def redis_slice_prefix min.commute)

lemma abs_ltrim_dead:
  "0 < cap \<Longrightarrow> dq_of R p (LTRIM R (deadKey p) (- cap) (-1) s) =
     (dq_of R p s)\<lparr>deadq := last_n (nat cap) (deadq (dq_of R p s))\<rparr>"
  by (rule dq_eqI) (auto simp: dq_of_sel redis_simps redis_slice_tail last_n_def)

lemma abs_lrem_dead:
  "dq_of R p (snd (LREM1 R (deadKey p) x s)) = (dq_of R p s)\<lparr>deadq := remove1 x (deadq (dq_of R p s))\<rparr>"
  by (rule dq_eqI) (auto simp: dq_of_sel redis_simps)

lemma abs_del_dead: "dq_of R p (DEL R (deadKey p) s) = (dq_of R p s)\<lparr>deadq := []\<rparr>"
  by (rule dq_eqI) (auto simp: dq_of_sel redis_simps)

lemma abs_lpop_orgs: "dq_of R p (snd (LPOP R (orgsKey p) s)) = (dq_of R p s)\<lparr>ring := tl (ring (dq_of R p s))\<rparr>"
  by (rule dq_eqI) (auto simp: dq_of_sel redis_simps)

lemma abs_lpop_pending:
  "dq_of R p (snd (LPOP R (pendingKey p org) s)) =
     (dq_of R p s)\<lparr>pend := (pend (dq_of R p s))(org := tl (pend (dq_of R p s) org))\<rparr>"
  by (rule dq_eqI) (auto simp: dq_of_sel redis_simps)

lemma abs_rpop_notify: "dq_of R p (snd (RPOP R (notifyKey p) s)) = (dq_of R p s)\<lparr>notif := notif (dq_of R p s) - 1\<rparr>"
  by (rule dq_eqI) (auto simp: dq_of_sel redis_simps)

lemma abs_zadd_proc: "dq_of R p (ZADD R (processingKey p) t m s) = (dq_of R p s)\<lparr>proc := zins t m (proc (dq_of R p s))\<rparr>"
  by (rule dq_eqI) (auto simp: dq_of_sel redis_simps)

lemma abs_zadd_sched: "dq_of R p (ZADD R (scheduledKey p) t m s) = dq_sched t m (dq_of R p s)"
  by (rule dq_eqI) (auto simp: dq_of_sel redis_simps dq_sched_def)

lemma abs_zrem_proc: "dq_of R p (snd (ZREM R (processingKey p) m s)) = dq_release m (dq_of R p s)"
  by (rule dq_eqI) (auto simp: dq_of_sel redis_simps dq_release_def)

lemma abs_zrem_sched: "dq_of R p (snd (ZREM R (scheduledKey p) m s)) = dq_unsched m (dq_of R p s)"
  by (rule dq_eqI) (auto simp: dq_of_sel redis_simps dq_unsched_def)

lemmas abs_cmds = abs_rpush_pending abs_rpush_orgs abs_rpush_dead abs_lpush_notify abs_ltrim_notify
  abs_ltrim_dead abs_lrem_dead abs_del_dead abs_lpop_orgs abs_lpop_pending abs_rpop_notify
  abs_zadd_proc abs_zadd_sched abs_zrem_proc abs_zrem_sched

text \<open>What the commands return, in terms of the abstract queue.\<close>

lemma abs_values:
  "fst (RPUSH R (pendingKey p org) x s) = Suc (length (pend (dq_of R p s) org))"
  "fst (LPOP R (orgsKey p) s) = (case ring (dq_of R p s) of [] \<Rightarrow> None | x # _ \<Rightarrow> Some x)"
  "fst (LPOP R (pendingKey p org) s) = (case pend (dq_of R p s) org of [] \<Rightarrow> None | x # _ \<Rightarrow> Some x)"
  "LLEN R (pendingKey p org) s = length (pend (dq_of R p s) org)"
  "LLEN R (deadKey p) s = length (deadq (dq_of R p s))"
  "fst (LREM1 R (deadKey p) x s) = (if x \<in> set (deadq (dq_of R p s)) then 1 else 0)"
  "fst (ZREM R (scheduledKey p) x s) = (if x \<in> zmembers (sched (dq_of R p s)) then 1 else 0)"
  "ZRANGEBYSCORE R (scheduledKey p) now (Some n) s = take n (due now (sched (dq_of R p s)))"
  "ZRANGEBYSCORE R (processingKey p) now None s = due now (proc (dq_of R p s))"
  by (simp_all add: dq_of_sel redis_simps due_def)

section \<open>Each script refines one abstract operation\<close>

lemma abs_push:
  "dq_of R p (snd (LPUSH R (notifyKey p) ''1''
     (if fst (RPUSH R (pendingKey p org) evt s) = 1
      then snd (RPUSH R (orgsKey p) org (snd (RPUSH R (pendingKey p org) evt s)))
      else snd (RPUSH R (pendingKey p org) evt s)))) = dq_push org evt (dq_of R p s)"
  by (simp add: abs_cmds abs_values dq_push_def)

lemma abs_push_cases:
  "fst (RPUSH R (pendingKey p org) evt s) = Suc 0 \<Longrightarrow>
     dq_of R p (snd (LPUSH R (notifyKey p) ''1''
       (snd (RPUSH R (orgsKey p) org (snd (RPUSH R (pendingKey p org) evt s)))))) = dq_push org evt (dq_of R p s)"
  "fst (RPUSH R (pendingKey p org) evt s) \<noteq> Suc 0 \<Longrightarrow>
     dq_of R p (snd (LPUSH R (notifyKey p) ''1'' (snd (RPUSH R (pendingKey p org) evt s)))) =
       dq_push org evt (dq_of R p s)"
  using abs_push[of p org evt s] by simp_all

lemma enqueue_refines:
  "dq_of R p (snd (enqueueScript R p org evt s)) = dq_trim (dq_push org evt (dq_of R p s))"
  by (simp add: enqueueScript_def Let_def case_prod_unfold abs_ltrim_notify flip: abs_push)

lemma pick_refines:
  "dq_of R p (snd (fairPickScript R p deadline token s)) = snd (dq_pick deadline token (dq_of R p s))"
  "fst (fairPickScript R p deadline token s) = fst (dq_pick deadline token (dq_of R p s))"
proof -
  have r: "fst (LPOP R (orgsKey p) s) = (case ring (dq_of R p s) of [] \<Rightarrow> None | x # _ \<Rightarrow> Some x)"
    by (rule abs_values)
  show "dq_of R p (snd (fairPickScript R p deadline token s)) = snd (dq_pick deadline token (dq_of R p s))"
    "fst (fairPickScript R p deadline token s) = fst (dq_pick deadline token (dq_of R p s))"
    unfolding fairPickScript_def dq_pick_def Let_def
    by (auto simp: abs_cmds abs_values case_prod_unfold prod.case_eq_if r
        split: list.splits option.splits intro!: dq_eqI)
qed

lemma dead_refines:
  "0 < cap \<Longrightarrow> dq_of R p (snd (deadLetterScript R p m cap s)) = dq_bury (nat cap) m (dq_of R p s)"
  by (simp add: deadLetterScript_def Let_def abs_cmds dq_bury_def dq_release_def)

lemma promote_loop_refines:
  "fst (promoteLoop R C p es s) = fst (dq_promote C es (dq_of R p s))"
  "dq_of R p (snd (promoteLoop R C p es s)) = snd (dq_promote C es (dq_of R p s))"
proof (induction es arbitrary: s)
  case (Cons evt es)
  case 1
  show ?case
    by (simp add: Let_def case_prod_unfold Cons.IH abs_push_cases abs_zrem_sched split: option.split)
next
  case (Cons evt es)
  case 2
  show ?case
    by (simp add: Let_def case_prod_unfold Cons.IH abs_push_cases abs_zrem_sched split: option.split)
qed simp_all

lemma recover_loop_refines:
  "dq_of R p (recoverLoop R p now ms s) = dq_recover now ms (dq_of R p s)"
  by (induction ms arbitrary: s) (simp_all add: Let_def abs_cmds)

text \<open>The scripts that may abort, in terms of the abstract queue.\<close>

lemma promote_due_refines:
  "dq_of R p (snd (promoteDueScript R C p now n s)) =
     (let (ok, q) = dq_promote C (take n (due now (sched (dq_of R p s)))) (dq_of R p s)
      in if ok then dq_trim q else q)"
  by (simp add: promoteDueScript_def Let_def case_prod_unfold abs_values promote_loop_refines abs_ltrim_notify)

lemma push_decoded_refines:
  "dq_of R p (snd (pushDecoded R C p evt k s)) =
     (case cjson_org_id C evt of None \<Rightarrow> dq_of R p s | Some org \<Rightarrow> dq_trim (dq_push org evt (dq_of R p s)))"
  by (simp add: pushDecoded_def Let_def case_prod_unfold abs_ltrim_notify split: option.split flip: abs_push)

lemma requeue_refines:
  "dq_of R p (snd (requeueDeadScript R C p old new s)) =
     (let q = dq_of R p s; q' = q\<lparr>deadq := remove1 old (deadq q)\<rparr>
      in if old \<in> set (deadq q)
         then (case cjson_org_id C new of None \<Rightarrow> q' | Some org \<Rightarrow> dq_trim (dq_push org new q'))
         else q)"
  by (simp add: requeueDeadScript_def Let_def case_prod_unfold abs_values push_decoded_refines abs_lrem_dead
      remove1_idem split: option.split)

lemma promote_scheduled_refines:
  "dq_of R p (snd (promoteScheduledScript R C p raw s)) =
     (let q = dq_of R p s
      in if raw \<in> zmembers (sched q)
         then (case cjson_org_id C raw of None \<Rightarrow> dq_unsched raw q
               | Some org \<Rightarrow> dq_trim (dq_push org raw (dq_unsched raw q)))
         else dq_unsched raw q)"
  by (simp add: promoteScheduledScript_def Let_def case_prod_unfold abs_values push_decoded_refines
      abs_zrem_sched split: option.split)

lemma drain_refines: "dq_of R p (snd (drainDeadScript R p s)) = (dq_of R p s)\<lparr>deadq := []\<rparr>"
  by (simp add: drainDeadScript_def Let_def abs_del_dead)

lemma recover_refines:
  "dq_of R p (snd (recoverScript R p now s)) = dq_recover now (due now (proc (dq_of R p s))) (dq_of R p s)"
  by (simp add: recoverScript_def Let_def recover_loop_refines abs_values)

lemmas script_refines = enqueue_refines pick_refines dead_refines promote_due_refines requeue_refines
  promote_scheduled_refines drain_refines recover_refines

end

section \<open>Operations on the queue, as one type\<close>

text \<open>
  A run of the system, as far as the queue sees it, is a sequence of client calls by any number of
  servers and workers, each with its outcome.
\<close>

datatype q_op =
    OpEnqueue io "(string \<times> string) list" payload
  | OpSchedule io payload int
  | OpPick io int int string
  | OpAck io string
  | OpDead io string
  | OpPromote io int nat
  | OpRecover io int
  | OpNotify io
  | OpRequeue io int string
  | OpPromoteScheduled io string
  | OpDrain io

fun q_exec :: "'r redis \<Rightarrow> codec \<Rightarrow> client \<Rightarrow> q_op \<Rightarrow> 'r \<Rightarrow> 'r" where
  "q_exec R C c (OpEnqueue w tr p) s = snd (Enqueue R C c w tr p s)"
| "q_exec R C c (OpSchedule w p t) s = snd (Schedule R C c w p t s)"
| "q_exec R C c (OpPick w now lease tok) s = snd (FairPick R C c w now lease tok s)"
| "q_exec R C c (OpAck w m) s = snd (Ack R c w m s)"
| "q_exec R C c (OpDead w m) s = snd (DeadLetter R c w m s)"
| "q_exec R C c (OpPromote w now n) s = snd (PromoteDue R C c w now n s)"
| "q_exec R C c (OpRecover w now) s = snd (Recover R c w now s)"
| "q_exec R C c (OpNotify w) s = snd (WaitNotify R c w s)"
| "q_exec R C c (OpRequeue w now raw) s = snd (RequeueDead R C c w now raw s)"
| "q_exec R C c (OpPromoteScheduled w raw) s = snd (PromoteScheduled R C c w raw s)"
| "q_exec R C c (OpDrain w) s = snd (DrainDead R c w s)"

text \<open>The same operations on the abstract queue.\<close>

fun dq_exec :: "codec \<Rightarrow> q_op \<Rightarrow> dq \<Rightarrow> dq" where
  "dq_exec C (OpEnqueue w tr p) q =
     (if w = IoErr then q else dq_trim (dq_push (p_OrgID p) (marshal C (injectTrace tr p)) q))"
| "dq_exec C (OpSchedule w p t) q = (if w = IoErr then q else dq_sched t (marshal C p) q)"
| "dq_exec C (OpPick w now lease tok) q = (if w = IoErr then q else snd (dq_pick (now + lease) tok q))"
| "dq_exec C (OpAck w m) q = (if w = IoErr then q else dq_release m q)"
| "dq_exec C (OpDead w m) q = (if w = IoErr then q else dq_bury 10000 m q)"
| "dq_exec C (OpPromote w now n) q =
     (if w = IoErr then q
      else let (ok, q') = dq_promote C (take n (due now (sched q))) q in if ok then dq_trim q' else q')"
| "dq_exec C (OpRecover w now) q = (if w = IoErr then q else dq_recover now (due now (proc q)) q)"
| "dq_exec C (OpNotify w) q = (if w = IoErr then q else q\<lparr>notif := notif q - 1\<rparr>)"
| "dq_exec C (OpRequeue w now raw) q =
     (case unmarshal C raw of
        None \<Rightarrow> q
      | Some p \<Rightarrow>
          if w = IoErr \<or> raw \<notin> set (deadq q) then q
          else (let new = marshal C (p\<lparr>p_Attempt := 0, p_EnqueuedAt := now\<rparr>);
                    q' = q\<lparr>deadq := remove1 raw (deadq q)\<rparr>
                in case cjson_org_id C new of None \<Rightarrow> q' | Some org \<Rightarrow> dq_trim (dq_push org new q')))"
| "dq_exec C (OpPromoteScheduled w raw) q =
     (if unmarshal C raw = None \<or> w = IoErr then q
      else if raw \<in> zmembers (sched q)
      then (case cjson_org_id C raw of None \<Rightarrow> dq_unsched raw q
            | Some org \<Rightarrow> dq_trim (dq_push org raw (dq_unsched raw q)))
      else dq_unsched raw q)"
| "dq_exec C (OpDrain w) q = (if w = IoErr then q else q\<lparr>deadq := []\<rparr>)"

lemma injectTrace_OrgID [simp]: "p_OrgID (injectTrace tr p) = p_OrgID p"
  by (simp add: injectTrace_def)

context redis
begin

lemma exec_refines: "dq_of R (prefix c) (q_exec R C c op s) = dq_exec C op (dq_of R (prefix c) s)"
proof (cases op)
  case (OpRequeue w now raw)
  then show ?thesis
    by (cases "unmarshal C raw") (auto simp: RequeueDead_def case_prod_unfold run_io_snd Let_def script_refines)
next
  case (OpPromoteScheduled w raw)
  then show ?thesis
    by (cases "unmarshal C raw") (auto simp: PromoteScheduled_def case_prod_unfold run_io_snd Let_def script_refines)
qed (simp_all add: Enqueue_def Schedule_def FairPick_def Ack_def DeadLetter_def PromoteDue_def Recover_def
      WaitNotify_def DrainDead_def deadListCap_def Let_def case_prod_unfold run_io_snd script_refines abs_cmds)

end

end
