(* ===== verification/Dqueue_Inv.thy ===== *)
theory Dqueue_Inv
  imports Dqueue_Spec
begin

text \<open>
  The invariant of the abstract queue and the facts the properties of the queue rest on: every
  operation keeps the ring and the pending lists in step, only a pick moves the ring forward, and no
  operation loses an event but the acknowledgement or dead-lettering of its own lease.
\<close>

section \<open>The ring invariant\<close>

definition dq_inv :: "dq \<Rightarrow> bool" where
  "dq_inv q \<longleftrightarrow> distinct (ring q) \<and> (\<forall>org. org \<in> set (ring q) \<longleftrightarrow> pend q org \<noteq> [])
     \<and> zset_ok (proc q) \<and> zset_ok (sched q)"

lemma dq_inv_empty: "dq_inv dq_empty"
  by (simp add: dq_inv_def dq_empty_def)

lemma inv_trim [simp]: "dq_inv (dq_trim q) \<longleftrightarrow> dq_inv q"
  by (simp add: dq_inv_def dq_trim_def)

lemma inv_push: "dq_inv q \<Longrightarrow> dq_inv (dq_push org evt q)"
  by (auto simp: dq_inv_def dq_push_def)

lemma inv_release: "dq_inv q \<Longrightarrow> dq_inv (dq_release m q)"
  by (auto simp: dq_inv_def dq_release_def)

lemma inv_sched: "dq_inv q \<Longrightarrow> dq_inv (dq_sched t e q)"
  by (auto simp: dq_inv_def dq_sched_def)

lemma inv_unsched: "dq_inv q \<Longrightarrow> dq_inv (dq_unsched e q)"
  by (auto simp: dq_inv_def dq_unsched_def)

lemma inv_bury: "dq_inv q \<Longrightarrow> dq_inv (dq_bury n m q)"
  by (auto simp: dq_inv_def dq_bury_def)

lemma inv_misc: "dq_inv q \<Longrightarrow> dq_inv (q\<lparr>deadq := d\<rparr>)" "dq_inv q \<Longrightarrow> dq_inv (q\<lparr>notif := n\<rparr>)"
  by (auto simp: dq_inv_def)

lemma inv_pick: "dq_inv q \<Longrightarrow> dq_inv (snd (dq_pick t tok q))"
  by (cases "ring q") (auto simp: dq_inv_def dq_pick_def split: list.splits)

lemma inv_promote: "dq_inv q \<Longrightarrow> dq_inv (snd (dq_promote C es q))"
  by (induction es arbitrary: q) (auto intro: inv_push inv_unsched split: option.splits)

lemma inv_recover: "dq_inv q \<Longrightarrow> dq_inv (dq_recover now ms q)"
  by (induction ms arbitrary: q) (auto intro: inv_sched inv_release)

lemmas inv_intros = inv_push inv_release inv_sched inv_unsched inv_bury inv_misc inv_pick inv_promote
  inv_recover

lemma inv_exec: "dq_inv q \<Longrightarrow> dq_inv (dq_exec C op q)"
  by (cases op) (auto simp: Let_def case_prod_unfold intro: inv_intros split: option.splits)

section \<open>A pick\<close>

lemma pick_Nil: "ring q = [] \<Longrightarrow> dq_pick t tok q = (None, q)"
  by (simp add: dq_pick_def)

lemma pick_Cons:
  assumes "dq_inv q" "ring q = org # rest"
  obtains evt es where "pend q org = evt # es"
    and "dq_pick t tok q = (Some (tok @ leaseSep # evt),
           q\<lparr>ring := (if es = [] then rest else rest @ [org]), pend := (pend q)(org := es),
             proc := zins t (tok @ leaseSep # evt) (proc q)\<rparr>)"
proof -
  from assms have "pend q org \<noteq> []" by (auto simp: dq_inv_def)
  then obtain evt es where "pend q org = evt # es" by (cases "pend q org") auto
  with assms(2) show thesis by (intro that) (auto simp: dq_pick_def)
qed

fun is_pick :: "q_op \<Rightarrow> bool" where
  "is_pick (OpPick w _ _ _) \<longleftrightarrow> w \<noteq> IoErr"
| "is_pick _ \<longleftrightarrow> False"

text \<open>Every other operation leaves the ring as it is up to organizations appended at its end.\<close>

definition ring_extends :: "dq \<Rightarrow> dq \<Rightarrow> bool" where
  "ring_extends q q' \<longleftrightarrow> (\<exists>xs. ring q' = ring q @ xs) \<and> (\<forall>org. pend q org \<noteq> [] \<longrightarrow> pend q' org \<noteq> [])"

lemma ring_extends_refl [simp]: "ring_extends q q"
  by (simp add: ring_extends_def)

lemma ring_extends_trans: "ring_extends a b \<Longrightarrow> ring_extends b c \<Longrightarrow> ring_extends a c"
  by (fastforce simp: ring_extends_def)

lemma ring_extends_step [simp]:
  assumes "ring_extends a q"
  shows "ring_extends a (dq_push org e q)" "ring_extends a (dq_trim q)" "ring_extends a (dq_release m q)"
    "ring_extends a (dq_sched t e q)" "ring_extends a (dq_unsched e q)" "ring_extends a (dq_bury n m q)"
    "ring_extends a (q\<lparr>deadq := d\<rparr>)" "ring_extends a (q\<lparr>notif := k\<rparr>)"
  using assms
  by (auto simp: ring_extends_def dq_push_def dq_trim_def dq_release_def dq_sched_def dq_unsched_def dq_bury_def)

lemma ring_extends_promote [simp]: "ring_extends a q \<Longrightarrow> ring_extends a (snd (dq_promote C es q))"
  by (induction es arbitrary: q) (auto split: option.split)

lemma ring_extends_recover [simp]: "ring_extends a q \<Longrightarrow> ring_extends a (dq_recover now ms q)"
  by (induction ms arbitrary: q) auto

lemma ring_extends_exec: "\<not> is_pick op \<Longrightarrow> ring_extends q (dq_exec C op q)"
  by (cases op) (auto simp: Let_def case_prod_unfold split: option.splits)

section \<open>Which organizations a run serves\<close>

fun dq_run :: "codec \<Rightarrow> q_op list \<Rightarrow> dq \<Rightarrow> dq" where
  "dq_run C [] q = q"
| "dq_run C (op # ops) q = dq_run C ops (dq_exec C op q)"

fun dq_served :: "codec \<Rightarrow> q_op list \<Rightarrow> dq \<Rightarrow> string list" where
  "dq_served C [] q = []"
| "dq_served C (op # ops) q =
     (if is_pick op then take 1 (ring q) else []) @ dq_served C ops (dq_exec C op q)"

lemma exec_pick: "is_pick op \<Longrightarrow> \<exists>t tok. dq_exec C op q = snd (dq_pick t tok q)"
  by (cases op) auto

lemma dq_fair:
  assumes "dq_inv q" "pend q org \<noteq> []" "pos org (ring q) < length (dq_served C ops q)"
  shows "org \<in> set (take (Suc (pos org (ring q))) (dq_served C ops q))"
  using assms
proof (induction ops arbitrary: q)
  case (Cons op ops)
  let ?q = "dq_exec C op q"
  have org: "org \<in> set (ring q)" using Cons.prems by (auto simp: dq_inv_def)
  have inv: "dq_inv ?q" using Cons.prems(1) by (rule inv_exec)
  show ?case
  proof (cases "is_pick op")
    case False
    then have "ring_extends q ?q" by (rule ring_extends_exec)
    then have "pend ?q org \<noteq> []" "pos org (ring ?q) = pos org (ring q)"
      using Cons.prems(2) org by (auto simp: ring_extends_def pos_append)
    with Cons.IH [OF inv] Cons.prems(3) False show ?thesis by simp
  next
    case True
    then obtain t tok where q': "?q = snd (dq_pick t tok q)" using exec_pick by blast
    from org obtain org1 rest where ring: "ring q = org1 # rest" by (cases "ring q") auto
    obtain evt es where pk: "pend q org1 = evt # es"
      "dq_pick t tok q = (Some (tok @ leaseSep # evt),
         q\<lparr>ring := (if es = [] then rest else rest @ [org1]), pend := (pend q)(org1 := es),
           proc := zins t (tok @ leaseSep # evt) (proc q)\<rparr>)"
      using pick_Cons [OF Cons.prems(1) ring] by metis
    show ?thesis
    proof (cases "org = org1")
      case True
      with \<open>is_pick op\<close> ring show ?thesis by simp
    next
      case False
      with org ring have "org \<in> set rest" by auto
      then have "pend ?q org \<noteq> []" "pos org (ring ?q) = pos org rest"
        using False Cons.prems(2) by (auto simp: q' pk pos_append)
      with Cons.IH [OF inv] Cons.prems(3) \<open>is_pick op\<close> False ring show ?thesis by auto
    qed
  qed
qed simp

section \<open>First in, first out\<close>

fun op_added :: "codec \<Rightarrow> q_op \<Rightarrow> dq \<Rightarrow> string \<Rightarrow> string list" where
  "op_added C (OpEnqueue w tr p) q org =
     (if w \<noteq> IoErr \<and> p_OrgID p = org then [marshal C (injectTrace tr p)] else [])"
| "op_added C (OpPromote w now n) q org =
     (if w = IoErr then []
      else filter (\<lambda>e. cjson_org_id C e = Some org)
             (takeWhile (\<lambda>e. cjson_org_id C e \<noteq> None) (take n (due now (sched q)))))"
| "op_added C (OpRequeue w now raw) q org =
     (case unmarshal C raw of
        None \<Rightarrow> []
      | Some p \<Rightarrow>
          (let new = marshal C (p\<lparr>p_Attempt := 0, p_EnqueuedAt := now\<rparr>)
           in if w \<noteq> IoErr \<and> raw \<in> set (deadq q) \<and> cjson_org_id C new = Some org then [new] else []))"
| "op_added C (OpPromoteScheduled w raw) q org =
     (if unmarshal C raw \<noteq> None \<and> w \<noteq> IoErr \<and> raw \<in> zmembers (sched q) \<and> cjson_org_id C raw = Some org
      then [raw] else [])"
| "op_added C _ q org = []"

definition op_taken :: "q_op \<Rightarrow> dq \<Rightarrow> string \<Rightarrow> string list" where
  "op_taken op q org = (if is_pick op \<and> take 1 (ring q) = [org] then take 1 (pend q org) else [])"

fun dq_added :: "codec \<Rightarrow> q_op list \<Rightarrow> dq \<Rightarrow> string \<Rightarrow> string list" where
  "dq_added C [] q org = []"
| "dq_added C (op # ops) q org = op_added C op q org @ dq_added C ops (dq_exec C op q) org"

fun dq_taken :: "codec \<Rightarrow> q_op list \<Rightarrow> dq \<Rightarrow> string \<Rightarrow> string list" where
  "dq_taken C [] q org = []"
| "dq_taken C (op # ops) q org = op_taken op q org @ dq_taken C ops (dq_exec C op q) org"

lemma pend_simps [simp]:
  "pend (dq_push o1 e q) org = (if org = o1 then pend q org @ [e] else pend q org)"
  "pend (dq_trim q) = pend q" "pend (dq_release m q) = pend q" "pend (dq_sched t e q) = pend q"
  "pend (dq_unsched e q) = pend q" "pend (dq_bury n m q) = pend q"
  by (auto simp: dq_push_def dq_trim_def dq_release_def dq_sched_def dq_unsched_def dq_bury_def)

lemma pend_recover [simp]: "pend (dq_recover now ms q) = pend q"
  by (induction ms arbitrary: q) auto

lemma pend_promote:
  "pend (snd (dq_promote C es q)) org =
     pend q org @ filter (\<lambda>e. cjson_org_id C e = Some org) (takeWhile (\<lambda>e. cjson_org_id C e \<noteq> None) es)"
  by (induction es arbitrary: q) (auto split: option.splits)

lemma pend_pick:
  "dq_inv q \<Longrightarrow> pend q org = (if take 1 (ring q) = [org] then take 1 (pend q org) else []) @
     pend (snd (dq_pick t tok q)) org"
  by (cases "ring q") (auto simp: dq_pick_def split: list.splits)

lemma exec_fifo:
  assumes "dq_inv q"
  shows "op_taken op q org @ pend (dq_exec C op q) org = pend q org @ op_added C op q org"
proof (cases "is_pick op")
  case True
  then obtain w now lease tok where op: "op = OpPick w now lease tok" by (cases op) auto
  with True assms pend_pick [OF assms, of org "now + lease" tok] show ?thesis
    by (simp add: op_taken_def)
next
  case False
  then show ?thesis
    by (cases op) (auto simp: op_taken_def Let_def case_prod_unfold pend_promote split: option.splits)
qed

lemma dq_fifo:
  "dq_inv q \<Longrightarrow> dq_taken C ops q org @ pend (dq_run C ops q) org = pend q org @ dq_added C ops q org"
proof (induction ops arbitrary: q)
  case (Cons op ops)
  let ?q = "dq_exec C op q"
  have "dq_taken C ops ?q org @ pend (dq_run C ops ?q) org = pend ?q org @ dq_added C ops ?q org"
    using Cons by (simp add: inv_exec)
  then have "dq_taken C (op # ops) q org @ pend (dq_run C (op # ops) q) org =
      (op_taken op q org @ pend ?q org) @ dq_added C ops ?q org" by simp
  also have "\<dots> = pend q org @ dq_added C (op # ops) q org"
    using exec_fifo [OF Cons.prems, of op org C] by simp
  finally show ?case .
qed simp

section \<open>No event is lost\<close>

text \<open>The events the queue still owes a delivery: pending, scheduled or leased.\<close>

definition live :: "dq \<Rightarrow> string set" where
  "live q = (\<Union>org. set (pend q org)) \<union> zmembers (sched q) \<union> stripToken ` zmembers (proc q)"

lemma liveI:
  "e \<in> set (pend q org) \<Longrightarrow> e \<in> live q" "e \<in> zmembers (sched q) \<Longrightarrow> e \<in> live q"
  "m \<in> zmembers (proc q) \<Longrightarrow> stripToken m \<in> live q"
  by (auto simp: live_def)

lemma stripToken_member: "leaseSep \<notin> set tok \<Longrightarrow> stripToken (tok @ leaseSep # evt) = evt"
  by (simp add: stripToken_def index_byte_append)

lemma stripToken_plain: "leaseSep \<notin> set evt \<Longrightarrow> stripToken evt = evt"
  by (simp add: stripToken_def index_byte_None [THEN iffD2])

lemma live_simps [simp]:
  "live (dq_push org e q) = insert e (live q)" "live (dq_trim q) = live q"
  "live (dq_sched t e q) = insert e (live q)" "live (q\<lparr>deadq := d\<rparr>) = live q"
  "live (q\<lparr>notif := n\<rparr>) = live q"
  by (auto simp: live_def dq_push_def dq_trim_def dq_sched_def split: if_splits)

lemma live_unsched: "e \<in> live q \<Longrightarrow> e \<noteq> x \<Longrightarrow> e \<in> live (dq_unsched x q)"
  by (auto simp: live_def dq_unsched_def)

lemma unsched_absent: "x \<notin> zmembers (sched q) \<Longrightarrow> dq_unsched x q = q"
  by (auto simp: dq_unsched_def zdel_def zmembers_def filter_id_conv intro!: dq.equality)

lemma live_release: "e \<in> live q \<Longrightarrow> e \<noteq> stripToken m \<Longrightarrow> e \<in> live (dq_release m q)"
  by (auto simp: live_def dq_release_def)

lemma live_bury: "e \<in> live q \<Longrightarrow> e \<noteq> stripToken m \<Longrightarrow> e \<in> live (dq_bury n m q)"
  by (auto simp: live_def dq_bury_def)

lemma Union_pend:
  assumes "f org = e # es"
  shows "insert e (\<Union>o'. set ((f(org := es)) o')) = (\<Union>o'. set (f o'))"
proof -
  have "set (f o') \<subseteq> insert e (set ((f(org := es)) o'))" for o' using assms by auto
  moreover have "set ((f(org := es)) o') \<subseteq> set (f o')" for o' using assms by auto
  moreover have "e \<in> set (f org)" using assms by simp
  ultimately show ?thesis by blast
qed

lemma live_pick: "dq_inv q \<Longrightarrow> leaseSep \<notin> set tok \<Longrightarrow> live (snd (dq_pick t tok q)) = live q"
proof (cases "ring q")
  case Nil
  then show ?thesis by (simp add: pick_Nil)
next
  case (Cons org rest)
  assume inv: "dq_inv q" and tok: "leaseSep \<notin> set tok"
  obtain evt es where pk: "pend q org = evt # es"
    "snd (dq_pick t tok q) = q\<lparr>ring := (if es = [] then rest else rest @ [org]),
       pend := (pend q)(org := es), proc := zins t (tok @ leaseSep # evt) (proc q)\<rparr>"
    using pick_Cons [OF inv Cons] by (metis snd_conv)
  show ?thesis
    unfolding live_def pk(2) Union_pend [of "pend q" org, OF pk(1), symmetric] by (auto simp: stripToken_member [OF tok])
qed

lemma live_promote:
  "\<forall>x \<in> set es. cjson_org_id C x \<noteq> None \<Longrightarrow> e \<in> live q \<Longrightarrow> e \<in> live (snd (dq_promote C es q))"
proof (induction es arbitrary: q)
  case (Cons x es)
  then obtain org where org: "cjson_org_id C x = Some org" by auto
  have "e \<in> live (dq_push org x (dq_unsched x q))"
    using Cons.prems(2) live_unsched by auto
  with Cons org show ?case by simp
qed simp

lemma live_recover: "e \<in> live q \<Longrightarrow> e \<in> live (dq_recover now ms q)"
proof (induction ms arbitrary: q)
  case (Cons m ms)
  have "e \<in> live (dq_sched now (stripToken m) (dq_release m q))"
    using Cons.prems live_release by auto
  with Cons show ?case by simp
qed simp

text \<open>
  Where the members come from. Every event in the queue is the encoding of a payload, pending ones
  in the list of their own organization.
\<close>

definition encodings :: "codec \<Rightarrow> (payload \<Rightarrow> bool) \<Rightarrow> string set" where
  "encodings C good = {marshal C p | p. good p}"

definition origin :: "codec \<Rightarrow> (payload \<Rightarrow> bool) \<Rightarrow> dq \<Rightarrow> bool" where
  "origin C good q \<longleftrightarrow> live q \<union> set (deadq q) \<subseteq> encodings C good \<and>
     (\<forall>org. \<forall>e \<in> set (pend q org). cjson_org_id C e = Some org)"

text \<open>What the callers of the queue keep to: well-formed payloads, tokens without the separator, and clock values of 64 bits.\<close>

fun op_ok :: "(payload \<Rightarrow> bool) \<Rightarrow> q_op \<Rightarrow> bool" where
  "op_ok good (OpEnqueue w tr p) \<longleftrightarrow> good (injectTrace tr p)"
| "op_ok good (OpSchedule w p t) \<longleftrightarrow> good p"
| "op_ok good (OpPick w now lease tok) \<longleftrightarrow> leaseSep \<notin> set tok"
| "op_ok good (OpRequeue w now raw) \<longleftrightarrow> 0 \<le> now \<and> now < 2 ^ 63"
| "op_ok good _ \<longleftrightarrow> True"

text \<open>The calls that end the life of an event: acknowledging or dead-lettering a lease that carries it.\<close>

fun ends :: "string \<Rightarrow> q_op \<Rightarrow> bool" where
  "ends e (OpAck w m) \<longleftrightarrow> stripToken m = e"
| "ends e (OpDead w m) \<longleftrightarrow> stripToken m = e"
| "ends e _ \<longleftrightarrow> False"

lemma live_mono:
  "live (dq_release m q) \<subseteq> live q" "live (dq_unsched x q) \<subseteq> live q" "live (dq_bury n m q) \<subseteq> live q"
  by (auto simp: live_def dq_release_def dq_unsched_def dq_bury_def)

lemma origin_empty: "origin C good dq_empty"
  by (simp add: origin_def live_def dq_empty_def)

lemma deadq_simps [simp]:
  "deadq (dq_push org e q) = deadq q" "deadq (dq_trim q) = deadq q" "deadq (dq_release m q) = deadq q"
  "deadq (dq_sched t e q) = deadq q" "deadq (dq_unsched e q) = deadq q"
  "deadq (dq_bury n m q) = last_n n (deadq q @ [stripToken m])"
  by (simp_all add: dq_push_def dq_trim_def dq_release_def dq_sched_def dq_unsched_def dq_bury_def)

lemma deadq_pick [simp]: "deadq (snd (dq_pick t tok q)) = deadq q"
  by (simp add: dq_pick_def split: list.split)

lemma set_last_n: "set (last_n n xs) \<subseteq> set xs"
  by (simp add: last_n_def set_drop_subset)

lemma origin_trim [simp]: "origin C good (dq_trim q) = origin C good q"
  by (simp add: origin_def)

lemma origin_misc: "origin C good q \<Longrightarrow> origin C good (q\<lparr>notif := n\<rparr>)"
  "origin C good q \<Longrightarrow> set d \<subseteq> set (deadq q) \<Longrightarrow> origin C good (q\<lparr>deadq := d\<rparr>)"
  by (auto simp: origin_def)

lemma origin_step:
  assumes "origin C good q"
  shows "origin C good (dq_release m q)" "origin C good (dq_unsched x q)"
    "e \<in> encodings C good \<Longrightarrow> origin C good (dq_sched t e q)"
    "e \<in> encodings C good \<Longrightarrow> cjson_org_id C e = Some org \<Longrightarrow> origin C good (dq_push org e q)"
  using assms live_mono(1) [of m q] live_mono(2) [of x q]
  by (auto simp: origin_def split: if_splits)

lemma origin_promote:
  "origin C good q \<Longrightarrow> set es \<subseteq> encodings C good \<Longrightarrow> origin C good (snd (dq_promote C es q))"
  by (induction es arbitrary: q) (auto simp: origin_step split: option.split)

lemma origin_recover:
  "origin C good q \<Longrightarrow> stripToken ` set ms \<subseteq> encodings C good \<Longrightarrow> origin C good (dq_recover now ms q)"
  by (induction ms arbitrary: q) (auto simp: origin_step)

lemma origin_pick:
  "dq_inv q \<Longrightarrow> leaseSep \<notin> set tok \<Longrightarrow> origin C good q \<Longrightarrow> origin C good (snd (dq_pick t tok q))"
  using live_pick [of q tok t] pend_pick [of q _ t tok]
  by (auto simp: origin_def) (metis Un_iff set_append)

lemma origin_live: "origin C good q \<Longrightarrow> e \<in> live q \<Longrightarrow> e \<in> encodings C good"
  by (auto simp: origin_def)

lemma due_subset: "set (due now z) \<subseteq> zmembers z"
  by (auto simp: due_def zmembers_def)

lemma take_due_subset: "set (take n (due now z)) \<subseteq> zmembers z"
  using set_take_subset due_subset by fastforce

text \<open>
  A dead-letter call for a lease that is no longer there pushes its payload on the dead list all
  the same, so it keeps the origin invariant only for members that carry an encoding.
\<close>

fun op_known :: "codec \<Rightarrow> (payload \<Rightarrow> bool) \<Rightarrow> q_op \<Rightarrow> bool" where
  "op_known C good (OpDead w m) \<longleftrightarrow> stripToken m \<in> encodings C good"
| "op_known C good _ \<longleftrightarrow> True"

context payload_codec
begin

lemma enc_decodes: "e \<in> encodings C good \<Longrightarrow> cjson_org_id C e \<noteq> None"
  by (auto simp: encodings_def cjson_marshal)

lemma enc_no_sep: "e \<in> encodings C good \<Longrightarrow> leaseSep \<notin> set e"
  using marshal_no_sep by (auto simp: encodings_def)

lemma enc_marshal: "good p \<Longrightarrow> marshal C p \<in> encodings C good"
  by (auto simp: encodings_def)

lemma requeue_enc:
  assumes "e \<in> encodings C good" "unmarshal C e = Some p" "0 \<le> now" "now < 2 ^ 63"
  shows "marshal C (p\<lparr>p_Attempt := 0, p_EnqueuedAt := now\<rparr>) \<in> encodings C good"
proof -
  from assms(1,2) have "good p" by (auto simp: encodings_def unmarshal_marshal)
  with assms(3,4) show ?thesis by (intro enc_marshal good_requeue)
qed

lemma origin_exec:
  assumes "dq_inv q" "origin C good q" "op_ok good op" "op_known C good op"
  shows "origin C good (dq_exec C op q)"
proof (cases op)
  case (OpEnqueue w tr p)
  with assms show ?thesis by (auto simp: enc_marshal cjson_marshal intro!: origin_step)
next
  case (OpSchedule w p t)
  with assms show ?thesis by (auto simp: enc_marshal intro!: origin_step)
next
  case (OpDead w m)
  with assms live_mono(3) [of 10000 m q] set_last_n [of 10000 "deadq q @ [stripToken m]"] show ?thesis
    by (auto simp: origin_def)
next
  case (OpPromote w now n)
  have "set (take n (due now (sched q))) \<subseteq> encodings C good"
    using take_due_subset [of n now "sched q"] assms(2) by (auto simp: origin_def live_def)
  with OpPromote assms show ?thesis by (auto simp: Let_def case_prod_unfold intro!: origin_promote)
next
  case (OpRecover w now)
  have "stripToken ` set (due now (proc q)) \<subseteq> encodings C good"
    using due_subset [of now "proc q"] assms(2) by (auto simp: origin_def dest: liveI(3))
  with OpRecover assms show ?thesis by (auto intro!: origin_recover)
next
  case (OpRequeue w now raw)
  show ?thesis
  proof (cases "unmarshal C raw")
    case (Some p)
    show ?thesis
    proof (cases "w = IoErr \<or> raw \<notin> set (deadq q)")
      case False
      with assms(2) have "raw \<in> encodings C good" by (auto simp: origin_def)
      with Some OpRequeue assms(3) have e: "marshal C (p\<lparr>p_Attempt := 0, p_EnqueuedAt := now\<rparr>) \<in> encodings C good"
        by (intro requeue_enc) auto
      have "origin C good (q\<lparr>deadq := remove1 raw (deadq q)\<rparr>)"
        using assms(2) set_remove1_subset by (rule origin_misc)
      with Some OpRequeue e False show ?thesis
        by (auto simp: Let_def origin_step(4) split: option.split)
    qed (use Some OpRequeue assms in auto)
  qed (use OpRequeue assms in auto)
next
  case (OpPromoteScheduled w raw)
  have "raw \<in> zmembers (sched q) \<Longrightarrow> raw \<in> encodings C good"
    using assms(2) by (auto simp: origin_def live_def)
  with OpPromoteScheduled assms show ?thesis by (auto simp: origin_step split: option.split)
qed (use assms in \<open>auto simp: origin_pick origin_step origin_misc\<close>)

lemma live_exec:
  assumes "dq_inv q" "origin C good q" "op_ok good op" "e \<in> live q" "\<not> ends e op"
  shows "e \<in> live (dq_exec C op q)"
proof (cases op)
  case (OpPromote w now n)
  have "set (take n (due now (sched q))) \<subseteq> encodings C good"
    using take_due_subset [of n now "sched q"] assms(2) by (auto simp: origin_def live_def)
  then have "\<forall>x \<in> set (take n (due now (sched q))). cjson_org_id C x \<noteq> None"
    using enc_decodes by blast
  with OpPromote assms(4) show ?thesis by (auto simp: Let_def case_prod_unfold live_promote)
next
  case (OpPromoteScheduled w raw)
  have "raw \<in> zmembers (sched q) \<Longrightarrow> cjson_org_id C raw \<noteq> None"
    using assms(2) enc_decodes by (auto simp: origin_def live_def)
  with OpPromoteScheduled assms(4) live_unsched [OF assms(4), of raw] show ?thesis
    by (auto simp: unsched_absent split: option.split)
qed (use assms live_pick live_release live_bury live_recover in
      \<open>auto simp: Let_def split: option.splits\<close>)

end

end
