(* ===== verification/Go_Text.thy ===== *)
theory Go_Text
  imports Prelude
begin

text \<open>
  The text encodings of Go's standard library that the program uses: decimal integers
  (\<^verbatim>\<open>strconv\<close>, \<^verbatim>\<open>fmt\<close>'s \<^verbatim>\<open>%d\<close>), hexadecimal (\<^verbatim>\<open>encoding/hex\<close>), base64 with and without padding
  (\<^verbatim>\<open>encoding/base64\<close>), each with its decoder and round trip.
\<close>

section \<open>Decimal\<close>

definition digit :: "nat \<Rightarrow> char" where
  "digit n = char_of (48 + n)"

definition is_digit :: "char \<Rightarrow> bool" where
  "is_digit c \<longleftrightarrow> (48 :: nat) \<le> of_char c \<and> (of_char c :: nat) \<le> 57"

definition digit_val :: "char \<Rightarrow> nat" where
  "digit_val c = of_char c - 48"

fun show_nat :: "nat \<Rightarrow> string" where
  "show_nat n = (if n < 10 then [digit n] else show_nat (n div 10) @ [digit (n mod 10)])"

declare show_nat.simps [simp del]

definition show_int :: "int \<Rightarrow> string" where
  "show_int i = (if i < 0 then CHR ''-'' # show_nat (nat (- i)) else show_nat (nat i))"

definition dec_val :: "string \<Rightarrow> nat" where
  "dec_val ds = foldl (\<lambda>a c. a * 10 + digit_val c) 0 ds"

lemma digit_val_digit [simp]: "n < 10 \<Longrightarrow> digit_val (digit n) = n"
  by (simp add: digit_val_def digit_def)

lemma is_digit_digit [simp]: "n < 10 \<Longrightarrow> is_digit (digit n)"
  by (simp add: is_digit_def digit_def)

lemma digit_0 [simp]: "digit 0 = CHR ''0''"
  unfolding digit_def by (subst char_of_eq_iff) (simp add: of_char_def)

lemma dec_val_show [simp]: "dec_val (show_nat n) = n"
proof (induction n rule: show_nat.induct)
  case (1 n)
  then show ?case by (subst show_nat.simps) (auto simp: dec_val_def)
qed

lemma show_nat_digits: "c \<in> set (show_nat n) \<Longrightarrow> is_digit c"
proof (induction n rule: show_nat.induct)
  case (1 n)
  then show ?case by (subst (asm) show_nat.simps) (auto split: if_splits)
qed

lemma show_nat_nonempty [simp]: "show_nat n \<noteq> []"
  by (subst show_nat.simps) auto

lemma show_nat_inj: "show_nat m = show_nat n \<longleftrightarrow> m = n"
  by (metis dec_val_show)

text \<open>No leading zero but in 0 itself.\<close>

lemma show_nat_hd: "0 < n \<Longrightarrow> hd (show_nat n) \<noteq> CHR ''0''"
proof (induction n rule: show_nat.induct)
  case (1 n)
  show ?case
  proof (cases "n < 10")
    case True
    have "CHR ''0'' = digit 0" by simp
    with True 1(2) show ?thesis
      by (subst show_nat.simps) (metis digit_val_digit list.sel(1) not_less0 zero_less_numeral)
  next
    case False
    then show ?thesis using 1 by (subst show_nat.simps) (simp add: hd_append)
  qed
qed

lemma show_nat_0 [simp]: "show_nat 0 = ''0''"
  by (simp add: show_nat.simps)

section \<open>Hexadecimal\<close>

definition hexdigit :: "nat \<Rightarrow> char" where
  "hexdigit n = (if n < 10 then char_of (48 + n) else char_of (87 + n))"

definition hex_val :: "char \<Rightarrow> nat option" where
  "hex_val c =
     (let n = of_char c :: nat
      in if 48 \<le> n \<and> n \<le> 57 then Some (n - 48)
         else if 97 \<le> n \<and> n \<le> 102 then Some (n - 87)
         else if 65 \<le> n \<and> n \<le> 70 then Some (n - 55) else None)"

lemma hex_val_hexdigit [simp]: "n < 16 \<Longrightarrow> hex_val (hexdigit n) = Some n"
  by (auto simp: hex_val_def hexdigit_def Let_def)

text \<open>\<open>hex.EncodeToString\<close> and \<open>hex.DecodeString\<close>.\<close>

fun hex_encode :: "bytes \<Rightarrow> string" where
  "hex_encode [] = []"
| "hex_encode (b # bs) =
     hexdigit (of_char b div 16) # hexdigit (of_char b mod 16) # hex_encode bs"

fun hex_decode :: "string \<Rightarrow> bytes option" where
  "hex_decode [] = Some []"
| "hex_decode [_] = None"
| "hex_decode (x # y # s) =
     (case (hex_val x, hex_val y, hex_decode s) of
        (Some h, Some l, Some bs) \<Rightarrow> Some (char_of (16 * h + l) # bs)
      | _ \<Rightarrow> None)"

lemma of_char_lt [simp]: "(of_char c :: nat) < 256"
  by (rule nat_of_char_less_256)

lemma hex_roundtrip [simp]: "hex_decode (hex_encode bs) = Some bs"
proof (induction bs)
  case (Cons b bs)
  have "(of_char b :: nat) div 16 < 16" using of_char_lt [of b] by linarith
  then show ?case using Cons by simp
qed simp

lemma length_hex_encode [simp]: "length (hex_encode bs) = 2 * length bs"
  by (induction bs) auto

section \<open>Base64\<close>

definition std_alphabet :: string where
  "std_alphabet = ''ABCDEFGHIJKLMNOPQRSTUVWXYZabcdefghijklmnopqrstuvwxyz0123456789+/''"

definition url_alphabet :: string where
  "url_alphabet = ''ABCDEFGHIJKLMNOPQRSTUVWXYZabcdefghijklmnopqrstuvwxyz0123456789-_''"

definition alphabet_ok :: "string \<Rightarrow> bool" where
  "alphabet_ok A \<longleftrightarrow> length A = 64 \<and> distinct A \<and> set A \<inter> {CHR ''='', CHR 0x0A, CHR 0x0D} = {}"

lemma std_ok: "alphabet_ok std_alphabet"
  by (simp add: alphabet_ok_def std_alphabet_def)

lemma url_ok: "alphabet_ok url_alphabet"
  by (simp add: alphabet_ok_def url_alphabet_def)

lemma index_byte_nth: "distinct A \<Longrightarrow> n < length A \<Longrightarrow> index_byte A (A ! n) = Some n"
proof (induction A arbitrary: n)
  case (Cons a A)
  then show ?case by (cases n) auto
qed simp

definition b64_group :: "string \<Rightarrow> nat \<Rightarrow> string" where
  "b64_group A n = [A ! (n div 262144), A ! (n div 4096 mod 64), A ! (n div 64 mod 64), A ! (n mod 64)]"

text \<open>\<open>pad\<close> selects \<^verbatim>\<open>StdEncoding\<close>/\<^verbatim>\<open>URLEncoding\<close> over their \<^verbatim>\<open>Raw\<close> forms.\<close>

fun b64_encode :: "string \<Rightarrow> bool \<Rightarrow> bytes \<Rightarrow> string" where
  "b64_encode A pad [] = []"
| "b64_encode A pad [a] = take 2 (b64_group A (of_char a * 65536)) @ (if pad then ''=='' else [])"
| "b64_encode A pad [a, b] =
     take 3 (b64_group A (of_char a * 65536 + of_char b * 256)) @ (if pad then ''='' else [])"
| "b64_encode A pad (a # b # c # r) =
     b64_group A (of_char a * 65536 + of_char b * 256 + of_char c) @ b64_encode A pad r"

definition b64_bits :: "string \<Rightarrow> string \<Rightarrow> nat option" where
  "b64_bits A q = (case map (index_byte A) q of
      [Some w, Some x, Some y, Some z] \<Rightarrow> Some (w * 262144 + x * 4096 + y * 64 + z)
    | [Some w, Some x, Some y] \<Rightarrow> Some (w * 262144 + x * 4096 + y * 64)
    | [Some w, Some x] \<Rightarrow> Some (w * 262144 + x * 4096)
    | _ \<Rightarrow> None)"

definition b64_bytes :: "nat \<Rightarrow> bytes" where
  "b64_bytes n = [char_of (n div 65536), char_of (n div 256 mod 256), char_of (n mod 256)]"

definition b64_dec_group :: "string \<Rightarrow> string \<Rightarrow> bytes option" where
  "b64_dec_group A q = map_option (\<lambda>n. take (length q - 1) (b64_bytes n)) (b64_bits A q)"

fun b64_dec :: "string \<Rightarrow> bool \<Rightarrow> string \<Rightarrow> bytes option" where
  "b64_dec A pad [] = Some []"
| "b64_dec A pad [w] = None"
| "b64_dec A pad [w, x] = (if pad then None else b64_dec_group A [w, x])"
| "b64_dec A pad [w, x, y] = (if pad then None else b64_dec_group A [w, x, y])"
| "b64_dec A pad (w # x # y # z # r) =
     (if pad \<and> r = [] \<and> y = CHR ''='' \<and> z = CHR ''='' then b64_dec_group A [w, x]
      else if pad \<and> r = [] \<and> z = CHR ''='' then b64_dec_group A [w, x, y]
      else case (b64_dec_group A [w, x, y, z], b64_dec A pad r) of
             (Some g, Some bs) \<Rightarrow> Some (g @ bs)
           | _ \<Rightarrow> None)"

text \<open>\<^verbatim>\<open>DecodeString\<close> skips line ends.\<close>

definition b64_decode :: "string \<Rightarrow> bool \<Rightarrow> string \<Rightarrow> bytes option" where
  "b64_decode A pad s = b64_dec A pad (filter (\<lambda>c. c \<noteq> CHR 0x0A \<and> c \<noteq> CHR 0x0D) s)"

lemma sextets:
  fixes n :: nat
  shows "n div 262144 * 262144 + n div 4096 mod 64 * 4096 + n div 64 mod 64 * 64 + n mod 64 = n"
proof -
  have "n div 64 div 64 = n div 4096" "n div 4096 div 64 = n div 262144"
    using div_mult2_eq [of n 64 64] div_mult2_eq [of n 4096 64] by simp_all
  then show ?thesis
    using div_mult_mod_eq [of n 64] div_mult_mod_eq [of "n div 64" 64] div_mult_mod_eq [of "n div 4096" 64]
    by linarith
qed

lemma octets:
  assumes "a < 256" "b < 256" "c < (256 :: nat)" and n: "n = a * 65536 + b * 256 + c"
  shows "n div 65536 = a" "n div 256 mod 256 = b" "n mod 256 = c" "n < 16777216"
proof -
  have "n div 256 = a * 256 + b" "n mod 256 = c"
    using assms(3) mod_mult_self3 [of "a * 256 + b" 256 c] div_mult_self3 [of 256 "a * 256 + b" c] unfolding n
    by (simp_all add: algebra_simps)
  moreover have "n div 65536 = n div 256 div 256"
    using div_mult2_eq [of n 256 256] by simp
  ultimately show "n div 65536 = a" "n div 256 mod 256 = b" "n mod 256 = c"
    using assms by simp_all
  show "n < 16777216" using assms by linarith
qed

text \<open>The decoder on a group that the encoder wrote, of four, three or two characters.\<close>

lemma dec_group:
  assumes "alphabet_ok A" and n: "n < 16777216" and k: "k = 4 \<or> k = 3 \<and> n mod 64 = 0 \<or> k = 2 \<and> n mod 4096 = 0"
  shows "b64_dec_group A (take k (b64_group A n)) = Some (take (k - 1) (b64_bytes n))"
proof -
  have i: "index_byte A (A ! m) = Some m" if "m < 64" for m
    using assms(1) that by (simp add: alphabet_ok_def index_byte_nth)
  have "n div 262144 < 64" using n by (simp add: div_less_dividend less_mult_imp_div_less)
  note ix = i [OF this] i [of "n div 4096 mod 64"] i [of "n div 64 mod 64"] i [of "n mod 64"]
  have z: "n mod 4096 = 0 \<Longrightarrow> n mod 64 = 0 \<and> n div 64 mod 64 = 0"
    using mod_mult2_eq [of n 64 64] by auto
  from k show ?thesis
    using ix z sextets [of n]
    by (auto simp: b64_dec_group_def b64_group_def b64_bits_def b64_bytes_def)
qed

lemma group_no_pad:
  assumes "alphabet_ok A" "n < 16777216"
  shows "CHR ''='' \<notin> set (b64_group A n)"
proof -
  have "n div 262144 < 64" using assms(2) by (simp add: less_mult_imp_div_less)
  then have "set (b64_group A n) \<subseteq> set A"
    using assms(1) by (auto simp: b64_group_def alphabet_ok_def)
  with assms(1) show ?thesis by (auto simp: alphabet_ok_def)
qed

lemma tail_bits:
  fixes x y :: nat
  shows "x * 65536 mod 4096 = 0" "(x * 65536 + y * 256) mod 64 = 0"
  using mod_mult_self1_is_0 [of 4096 "16 * x"] mod_mult_self1_is_0 [of 64 "1024 * x + 4 * y"]
  by (simp_all add: algebra_simps)

lemma b64_dec_encode:
  assumes "alphabet_ok A"
  shows "b64_dec A pad (b64_encode A pad bs) = Some bs"
  using assms
proof (induction A pad bs rule: b64_encode.induct)
  case (2 A pad a)
  let ?n = "of_char a * 65536 :: nat"
  have n: "?n < 16777216" "b64_bytes ?n = [a, char_of (0::nat), char_of (0::nat)]"
    using octets [of "of_char a" 0 0 ?n] by (simp_all add: b64_bytes_def)
  have "?n mod 4096 = 0" by (rule tail_bits)
  then show ?case
    using dec_group [OF 2 n(1), of 2] n(2) by (auto simp: b64_group_def)
next
  case (3 A pad a b)
  let ?n = "of_char a * 65536 + of_char b * 256 :: nat"
  have n: "?n < 16777216" "b64_bytes ?n = [a, b, char_of (0::nat)]"
    using octets [of "of_char a" "of_char b" 0 ?n] by (simp_all add: b64_bytes_def)
  have "?n mod 64 = 0" by (rule tail_bits)
  then show ?case
    using dec_group [OF 3 n(1), of 3] n(2) group_no_pad [OF 3 n(1)] by (auto simp: b64_group_def)
next
  case (4 A pad a b c r)
  let ?n = "of_char a * 65536 + of_char b * 256 + of_char c :: nat"
  have n: "?n < 16777216" "b64_bytes ?n = [a, b, c]"
    using octets [of "of_char a" "of_char b" "of_char c" ?n] by (simp_all add: b64_bytes_def)
  show ?case
    using dec_group [OF 4(2) n(1), of 4] n(2) group_no_pad [OF 4(2) n(1)] 4(1) [OF 4(2)]
    by (auto simp: b64_group_def)
qed simp

lemma group_set:
  assumes "alphabet_ok A" "n < 16777216"
  shows "set (b64_group A n) \<subseteq> set A"
proof -
  have "n div 262144 < 64" using assms(2) by (simp add: less_mult_imp_div_less)
  then show ?thesis using assms(1) by (auto simp: b64_group_def alphabet_ok_def)
qed

lemma three_bytes:
  "of_char a * 65536 + of_char b * 256 + of_char c < (16777216 :: nat)" "of_char a * 65536 + of_char b * 256 < (16777216 :: nat)"
  "of_char a * 65536 < (16777216 :: nat)"
  using octets(4)[of "of_char a" "of_char b" "of_char c"] octets(4)[of "of_char a" "of_char b" 0] octets(4)[of "of_char a" 0 0]
  by simp_all

lemma encode_set: "alphabet_ok A \<Longrightarrow> set (b64_encode A pad bs) \<subseteq> insert (CHR ''='') (set A)"
proof (induction A pad bs rule: b64_encode.induct)
  case (2 A pad a)
  then show ?case using group_set[OF 2 three_bytes(3)[of a]] by (auto dest!: in_set_takeD)
next
  case (3 A pad a b)
  then show ?case using group_set[OF 3 three_bytes(2)[of a b]] by (auto dest!: in_set_takeD)
next
  case (4 A pad a b c r)
  then show ?case using group_set[OF 4(2) three_bytes(1)[of a b c]] by auto
qed simp

lemma b64_roundtrip:
  assumes "alphabet_ok A"
  shows "b64_decode A pad (b64_encode A pad bs) = Some bs"
proof -
  have "CHR 0x0A \<notin> set (b64_encode A pad bs)" "CHR 0x0D \<notin> set (b64_encode A pad bs)"
    using encode_set[OF assms, of pad bs] assms by (auto simp: alphabet_ok_def)
  then have "filter (\<lambda>c. c \<noteq> CHR 0x0A \<and> c \<noteq> CHR 0x0D) (b64_encode A pad bs) = b64_encode A pad bs"
    by (auto simp: filter_id_conv)
  then show ?thesis using b64_dec_encode[OF assms] by (simp add: b64_decode_def)
qed

end
