(* ===== verification/Go_Json.thy ===== *)
theory Go_Json
  imports Go_Text "HOL-Library.Monad_Syntax"
begin

text \<open>
  JSON as Go's \<^verbatim>\<open>encoding/json\<close> writes and reads it: the writers of compact and indented values with the escapes of
  \<open>json.Marshal\<close>, a reader with optional white space, and the proof that reading what was written
  gives the value back. Numbers are integers; a fraction or an exponent, which the program's
  integer fields refuse, and a surrogate escape are errors of the reader.
\<close>

section \<open>Values\<close>

datatype jval = JStr string | JNum int | JBool bool | JNull | JArr "jval list" | JObj "(string \<times> jval) list"

definition ws :: "char \<Rightarrow> bool" where
  "ws c \<longleftrightarrow> c = CHR '' '' \<or> c = CHR 0x09 \<or> c = CHR 0x0A \<or> c = CHR 0x0D"

definition ascii :: "string \<Rightarrow> bool" where
  "ascii s \<longleftrightarrow> (\<forall>c \<in> set s. (of_char c :: nat) < 128)"

subsection \<open>Strings\<close>

text \<open>\<open>json.Marshal\<close> escapes quotes, backslashes, control characters and the HTML characters.\<close>

definition escape :: "char \<Rightarrow> string" where
  "escape c =
     (if c = CHR 0x22 then [CHR 0x5C, CHR 0x22]
      else if c = CHR 0x5C then [CHR 0x5C, CHR 0x5C]
      else if c = CHR 0x08 then [CHR 0x5C, CHR ''b'']
      else if c = CHR 0x0C then [CHR 0x5C, CHR ''f'']
      else if c = CHR 0x0A then [CHR 0x5C, CHR ''n'']
      else if c = CHR 0x0D then [CHR 0x5C, CHR ''r'']
      else if c = CHR 0x09 then [CHR 0x5C, CHR ''t'']
      else if (of_char c :: nat) < 32 \<or> c = CHR ''<'' \<or> c = CHR ''>'' \<or> c = CHR ''&''
        then [CHR 0x5C, CHR ''u'', CHR ''0'', CHR ''0'', hexdigit (of_char c div 16), hexdigit (of_char c mod 16)]
      else [c])"

definition quote :: "string \<Rightarrow> string" where
  "quote s = CHR 0x22 # concat (map escape s) @ [CHR 0x22]"

definition unescape :: "char \<Rightarrow> char option" where
  "unescape d =
     (if d = CHR 0x22 \<or> d = CHR 0x5C \<or> d = CHR ''/'' then Some d
      else if d = CHR ''b'' then Some (CHR 0x08)
      else if d = CHR ''f'' then Some (CHR 0x0C)
      else if d = CHR ''n'' then Some (CHR 0x0A)
      else if d = CHR ''r'' then Some (CHR 0x0D)
      else if d = CHR ''t'' then Some (CHR 0x09)
      else None)"

definition hex4 :: "char \<Rightarrow> char \<Rightarrow> char \<Rightarrow> char \<Rightarrow> nat option" where
  "hex4 a b c d =
     do { w \<leftarrow> hex_val a; x \<leftarrow> hex_val b; y \<leftarrow> hex_val c; z \<leftarrow> hex_val d;
          Some (w * 4096 + x * 256 + y * 16 + z) }"

definition utf8 :: "nat \<Rightarrow> string option" where
  "utf8 n =
     (if n < 128 then Some [char_of n]
      else if n < 2048 then Some [char_of (192 + n div 64), char_of (128 + n mod 64)]
      else if 55296 \<le> n \<and> n < 57344 then None
      else Some [char_of (224 + n div 4096), char_of (128 + n div 64 mod 64), char_of (128 + n mod 64)])"

text \<open>A string literal after its opening quote: the value and the rest of the input.\<close>

fun pstr :: "string \<Rightarrow> (string \<times> string) option" where
  "pstr [] = None"
| "pstr (c # s) =
     (if c = CHR 0x22 then Some ([], s)
      else if c = CHR 0x5C then
        (case s of
           [] \<Rightarrow> None
         | d # s1 \<Rightarrow>
             if d = CHR ''u'' then
               (case s1 of
                  h1 # h2 # h3 # h4 # s2 \<Rightarrow>
                    do { n \<leftarrow> hex4 h1 h2 h3 h4; u \<leftarrow> utf8 n; (t, r) \<leftarrow> pstr s2; Some (u @ t, r) }
                | _ \<Rightarrow> None)
             else do { e \<leftarrow> unescape d; (t, r) \<leftarrow> pstr s1; Some (e # t, r) })
      else if (of_char c :: nat) < 32 then None
      else do { (t, r) \<leftarrow> pstr s; Some (c # t, r) })"

declare pstr.simps(2) [simp del]

lemma pstr_escape:
  assumes "(of_char c :: nat) < 128"
  shows "pstr (escape c @ s) = do { (t, r) \<leftarrow> pstr s; Some (c # t, r) }"
proof -
  have h: "hex4 (CHR ''0'') (CHR ''0'') (hexdigit (of_char c div 16)) (hexdigit (of_char c mod 16)) = Some (of_char c)"
  proof -
    have "hex_val (CHR ''0'') = Some 0" by (simp add: hex_val_def)
    moreover have "(of_char c :: nat) div 16 < 16" using assms by linarith
    ultimately show ?thesis by (simp add: hex4_def)
  qed
  show ?thesis
    using assms h by (auto simp: escape_def pstr.simps(2) unescape_def utf8_def)
qed

lemma pstr_quote: "ascii s \<Longrightarrow> pstr (concat (map escape s) @ CHR 0x22 # r) = Some (s, r)"
  by (induction s) (auto simp: pstr.simps(2) pstr_escape ascii_def)

text \<open>What the writer produces has no control character.\<close>

definition printable :: "string \<Rightarrow> bool" where
  "printable s \<longleftrightarrow> (\<forall>c \<in> set s. (32 :: nat) \<le> of_char c)"

lemma printable_simps [simp]:
  "printable []" "printable (c # s) \<longleftrightarrow> (32 :: nat) \<le> of_char c \<and> printable s"
  "printable (s @ t) \<longleftrightarrow> printable s \<and> printable t"
  by (auto simp: printable_def)

lemma printable_hexdigit [simp]: "n < 16 \<Longrightarrow> (32 :: nat) \<le> of_char (hexdigit n)"
  by (simp add: hexdigit_def)

lemma printable_escape: "printable (escape c)"
proof -
  have "(of_char c :: nat) div 16 < 16" using of_char_lt [of c] by linarith
  then show ?thesis by (auto simp: escape_def)
qed

lemma printable_quote [simp]: "printable (quote s)"
  by (induction s) (auto simp: quote_def printable_escape)

subsection \<open>Numbers\<close>

text \<open>An integer literal; a fraction or an exponent is an error for an integer field.\<close>

definition pnum :: "string \<Rightarrow> (int \<times> string) option" where
  "pnum s =
     (let neg = (take 1 s = ''-'');
          s' = (if neg then drop 1 s else s);
          ds = takeWhile is_digit s';
          r = dropWhile is_digit s'
      in if ds = [] \<or> (length ds > 1 \<and> hd ds = CHR ''0'') \<or> take 1 r \<in> {''.'', ''e'', ''E''} then None
         else Some (if neg then - int (dec_val ds) else int (dec_val ds), r))"

definition ends_num :: "string \<Rightarrow> bool" where
  "ends_num r \<longleftrightarrow> r = [] \<or> hd r = CHR '','' \<or> hd r = CHR ''}'' \<or> hd r = CHR '']'' \<or> hd r = CHR 0x0A"

lemma span_digits:
  "ends_num r \<Longrightarrow> takeWhile is_digit (show_nat n @ r) = show_nat n \<and> dropWhile is_digit (show_nat n @ r) = r"
  using show_nat_digits [of _ n]
  by (cases r) (auto simp: takeWhile_append dropWhile_append ends_num_def is_digit_def)

lemma show_nat_shape: "length (show_nat n) > 1 \<Longrightarrow> hd (show_nat n) \<noteq> CHR ''0''"
  using show_nat_hd [of n] by (cases "n = 0") auto

lemma show_nat_no_minus: "take 1 (show_nat n @ r) \<noteq> ''-''"
  using show_nat_digits [of _ n] show_nat_nonempty [of n]
  by (cases "show_nat n") (fastforce simp: is_digit_def)+

lemma pnum_show:
  assumes "ends_num r"
  shows "pnum (show_int i @ r) = Some (i, r)"
proof -
  have "take 1 r \<notin> {''.'', ''e'', ''E''}" using assms by (cases r) (auto simp: ends_num_def)
  then show ?thesis
    using span_digits [OF assms] show_nat_shape show_nat_no_minus
    by (auto simp: pnum_def show_int_def Let_def)
qed

lemma printable_show_int [simp]: "printable (show_int i)"
  using show_nat_digits by (fastforce simp: show_int_def printable_def is_digit_def)

subsection \<open>Arrays and objects\<close>

function jshow :: "jval \<Rightarrow> string" and jitems :: "jval list \<Rightarrow> string"
  and jtail :: "(string \<times> jval) list \<Rightarrow> string" where
  "jshow (JStr s) = quote s"
| "jshow (JNum i) = show_int i"
| "jshow (JBool b) = (if b then ''true'' else ''false'')"
| "jshow JNull = ''null''"
| "jshow (JArr []) = ''[]''"
| "jshow (JArr (v # vs)) = CHR ''['' # jshow v @ jitems vs"
| "jitems [] = '']''"
| "jitems (v # vs) = CHR '','' # jshow v @ jitems vs"
| "jshow (JObj []) = ''{}''"
| "jshow (JObj ((k, v) # ms)) = CHR ''{'' # quote k @ CHR '':'' # jshow v @ jtail ms"
| "jtail [] = ''}''"
| "jtail ((k, v) # ms) = CHR '','' # quote k @ CHR '':'' # jshow v @ jtail ms"
  by pat_completeness auto
termination
  by (relation "measure (\<lambda>x. case x of Inl v \<Rightarrow> size v | Inr (Inl vs) \<Rightarrow> size_list size vs
      | Inr (Inr ms) \<Rightarrow> size_list (size_prod (\<lambda>_. 0) size) ms)") auto

abbreviation sk :: "string \<Rightarrow> string" where
  "sk \<equiv> dropWhile ws"

definition eat :: "char \<Rightarrow> string \<Rightarrow> string option" where
  "eat c s = (case sk s of [] \<Rightarrow> None | d # r \<Rightarrow> if d = c then Some r else None)"

definition peat :: "string \<Rightarrow> string \<Rightarrow> string option" where
  "peat w s = (if has_prefix s w then Some (drop (length w) s) else None)"

text \<open>A value, the rest of an array, the members of an object after its brace, the rest of an object; \<open>n\<close> bounds the calls, the length of the input is enough.\<close>

fun pval :: "nat \<Rightarrow> string \<Rightarrow> (jval \<times> string) option"
  and pitems :: "nat \<Rightarrow> string \<Rightarrow> (jval list \<times> string) option"
  and pmembers :: "nat \<Rightarrow> string \<Rightarrow> ((string \<times> jval) list \<times> string) option"
  and ptail :: "nat \<Rightarrow> string \<Rightarrow> ((string \<times> jval) list \<times> string) option" where
  "pval 0 s = None"
| "pval (Suc n) s =
     (case sk s of
        [] \<Rightarrow> None
      | c # r \<Rightarrow>
          if c = CHR 0x22 then do { (t, r) \<leftarrow> pstr r; Some (JStr t, r) }
          else if c = CHR ''{'' then
            (case eat (CHR ''}'') r of
               Some r \<Rightarrow> Some (JObj [], r)
             | None \<Rightarrow> do { (ms, r) \<leftarrow> pmembers n r; Some (JObj ms, r) })
          else if c = CHR ''['' then
            (case eat (CHR '']'') r of
               Some r \<Rightarrow> Some (JArr [], r)
             | None \<Rightarrow> do { (v, r) \<leftarrow> pval n r; (vs, r) \<leftarrow> pitems n r; Some (JArr (v # vs), r) })
          else if c = CHR ''t'' then do { r \<leftarrow> peat ''rue'' r; Some (JBool True, r) }
          else if c = CHR ''f'' then do { r \<leftarrow> peat ''alse'' r; Some (JBool False, r) }
          else if c = CHR ''n'' then do { r \<leftarrow> peat ''ull'' r; Some (JNull, r) }
          else do { (i, r) \<leftarrow> pnum (c # r); Some (JNum i, r) })"
| "pitems 0 s = None"
| "pitems (Suc n) s =
     (case eat (CHR '']'') s of
        Some r \<Rightarrow> Some ([], r)
      | None \<Rightarrow> do { r \<leftarrow> eat (CHR '','') s; (v, r) \<leftarrow> pval n r; (vs, r) \<leftarrow> pitems n r; Some (v # vs, r) })"
| "pmembers 0 s = None"
| "pmembers (Suc n) s =
     do { r \<leftarrow> eat (CHR 0x22) s;
          (k, r) \<leftarrow> pstr r;
          r \<leftarrow> eat (CHR '':'') r;
          (v, r) \<leftarrow> pval n r;
          (ms, r) \<leftarrow> ptail n r;
          Some ((k, v) # ms, r) }"
| "ptail 0 s = None"
| "ptail (Suc n) s =
     (case eat (CHR ''}'') s of
        Some r \<Rightarrow> Some ([], r)
      | None \<Rightarrow> do { r \<leftarrow> eat (CHR '','') s; pmembers n r })"

definition jparse :: "string \<Rightarrow> jval option" where
  "jparse s = do { (v, r) \<leftarrow> pval (Suc (length s)) s; if sk r = [] then Some v else None }"

function jok :: "jval \<Rightarrow> bool" and jok_vs :: "jval list \<Rightarrow> bool" and jok_ms :: "(string \<times> jval) list \<Rightarrow> bool" where
  "jok (JStr s) = ascii s"
| "jok (JNum _) = True"
| "jok (JBool _) = True"
| "jok JNull = True"
| "jok (JArr vs) = jok_vs vs"
| "jok_vs [] = True"
| "jok_vs (v # vs) = (jok v \<and> jok_vs vs)"
| "jok (JObj ms) = jok_ms ms"
| "jok_ms [] = True"
| "jok_ms ((k, v) # ms) = (ascii k \<and> jok v \<and> jok_ms ms)"
  by pat_completeness auto
termination
  by (relation "measure (\<lambda>x. case x of Inl v \<Rightarrow> size v | Inr (Inl vs) \<Rightarrow> size_list size vs
      | Inr (Inr ms) \<Rightarrow> size_list (size_prod (\<lambda>_. 0) size) ms)") auto

lemma eat_hit [simp]: "\<not> ws c \<Longrightarrow> eat d (c # s) = (if c = d then Some s else None)"
  by (simp add: eat_def)

lemma ws_lits [simp]:
  "\<not> ws (CHR 0x22)" "\<not> ws (CHR ''{'')" "\<not> ws (CHR ''}'')" "\<not> ws (CHR ''['')" "\<not> ws (CHR '']'')" "\<not> ws (CHR '','')" "\<not> ws (CHR '':'')"
  "\<not> ws (CHR ''t'')" "\<not> ws (CHR ''f'')" "\<not> ws (CHR ''n'')"
  by (simp_all add: ws_def)

lemma show_int_Cons:
  obtains c cs where "show_int i = c # cs" "c = CHR ''-'' \<or> is_digit c"
  using show_nat_nonempty show_nat_digits unfolding show_int_def
  by (metis list.exhaust list.set_intros(1))

lemma pval_num: "ends_num r \<Longrightarrow> 0 < n \<Longrightarrow> pval n (show_int i @ r) = Some (JNum i, r)"
proof (cases n)
  case (Suc m)
  assume r: "ends_num r"
  obtain c cs where c: "show_int i = c # cs" "c = CHR ''-'' \<or> is_digit c" by (rule show_int_Cons)
  then have "\<not> ws c" "c \<noteq> CHR 0x22" "c \<noteq> CHR ''{''" "c \<noteq> CHR ''[''" "c \<noteq> CHR ''t''" "c \<noteq> CHR ''f''" "c \<noteq> CHR ''n''"
    by (auto simp: is_digit_def ws_def)
  with c(1) pnum_show [OF r, of i] Suc show ?thesis by simp
qed simp

lemma peat_append [simp]: "peat w (w @ s) = Some s"
  by (simp add: peat_def)

lemma pval_bool: "0 < n \<Longrightarrow> pval n (''true'' @ r) = Some (JBool True, r)"
  "0 < n \<Longrightarrow> pval n (''false'' @ r) = Some (JBool False, r)" "0 < n \<Longrightarrow> pval n (''null'' @ r) = Some (JNull, r)"
  using peat_append [of "''rue''" r] peat_append [of "''alse''" r] peat_append [of "''ull''" r]
  by (cases n; simp)+

lemma pmembers_step:
  assumes "ascii k" "pval n (j @ t) = Some (v, t)"
  shows "pmembers (Suc n) (quote k @ CHR '':'' # j @ t) = do { (ms, r) \<leftarrow> ptail n t; Some ((k, v) # ms, r) }"
  using assms pstr_quote [OF assms(1), of "CHR '':'' # j @ t"] by (simp add: quote_def)

lemma jshow_pos: "0 < length (jshow v)"
  by (cases v rule: jshow.cases) (auto simp: quote_def show_int_def)

lemma ends_jtail [simp]: "ends_num (jtail ms @ r)"
  by (cases ms rule: jtail.cases) (auto simp: ends_num_def)

lemma ends_jitems [simp]: "ends_num (jitems vs @ r)"
  by (cases vs rule: jitems.cases) (auto simp: ends_num_def)

definition starts_value :: "string \<Rightarrow> bool" where
  "starts_value s \<longleftrightarrow> s \<noteq> [] \<and> \<not> ws (hd s) \<and> hd s \<noteq> CHR '']''"

lemma starts_num: "starts_value (show_int i)"
  by (rule show_int_Cons [of i]) (auto simp: starts_value_def ws_def is_digit_def)

lemma starts_jshow: "starts_value (jshow v)"
proof (cases v)
  case (JArr vs)
  then show ?thesis by (cases vs) (simp_all add: starts_value_def)
next
  case (JObj ms)
  then show ?thesis by (cases ms rule: jtail.cases) (simp_all add: starts_value_def)
next
  case (JNum i)
  then show ?thesis by (simp add: starts_num)
qed (auto simp: starts_value_def quote_def)

lemma pitems_step:
  assumes "pval n (j @ t) = Some (v, t)"
  shows "pitems (Suc n) (CHR '','' # j @ t) = do { (vs, r) \<leftarrow> pitems n t; Some (v # vs, r) }"
  using assms by simp

lemma pval_arr:
  assumes "pval n (jshow v @ t) = Some (v, t)"
  shows "pval (Suc n) (CHR ''['' # jshow v @ t) = do { (vs, r) \<leftarrow> pitems n t; Some (JArr (v # vs), r) }"
proof -
  obtain c cs where "jshow v = c # cs" "\<not> ws c" "c \<noteq> CHR '']''"
    using starts_jshow [of v] by (cases "jshow v") (auto simp: starts_value_def)
  then have "eat (CHR '']'') (jshow v @ t) = None" by simp
  with assms show ?thesis by simp
qed

lemma pval_obj: "pval (Suc n) (CHR ''{'' # quote k @ x) = do { (ms, r) \<leftarrow> pmembers n (quote k @ x); Some (JObj ms, r) }"
proof -
  have "eat (CHR ''}'') (quote k @ x) = None" by (simp add: quote_def)
  then show ?thesis by (simp del: pmembers.simps)
qed

lemma ptail_step: "ptail (Suc n) (CHR '','' # x) = pmembers n x"
  by simp

lemma parse_show:
  "jok v \<Longrightarrow> ends_num r \<Longrightarrow> length (jshow v) \<le> n \<Longrightarrow> pval n (jshow v @ r) = Some (v, r)"
  "jok_vs vs \<Longrightarrow> length (jitems vs) \<le> n \<Longrightarrow> pitems n (jitems vs @ r) = Some (vs, r)"
  "jok_ms ms \<Longrightarrow> length (jtail ms) \<le> n \<Longrightarrow> ptail n (jtail ms @ r) = Some (ms, r)"
proof (induction v and vs and ms arbitrary: n r and n r and n r rule: jshow_jitems_jtail.induct)
  case (1 s)
  then obtain m where "n = Suc m" using jshow_pos [of "JStr s"] by (cases n) auto
  with 1 show ?case by (simp add: quote_def pstr_quote)
next
  case (2 i)
  moreover have "0 < n" using 2 jshow_pos [of "JNum i"] by (cases n) auto
  ultimately show ?case by (simp add: pval_num)
next
  case (3 b)
  then show ?case by (auto simp: pval_bool simp del: append_Cons)
next
  case 4
  then show ?case by (auto simp: pval_bool simp del: append_Cons)
next
  case 5
  then show ?case by (cases n) auto
next
  case 7
  then show ?case by (cases n) auto
next
  case 9
  then show ?case by (cases n) auto
next
  case 11
  then show ?case by (cases n) auto
next
  case (6 v vs)
  then obtain m where n: "n = Suc m" by (cases n) auto
  have "pval m (jshow v @ jitems vs @ r) = Some (v, jitems vs @ r)" "pitems m (jitems vs @ r) = Some (vs, r)"
    using 6 n by simp_all
  with n show ?case using pval_arr [of m v "jitems vs @ r"] by simp
next
  case (8 v vs)
  then obtain m where n: "n = Suc m" by (cases n) auto
  have "pval m (jshow v @ jitems vs @ r) = Some (v, jitems vs @ r)" "pitems m (jitems vs @ r) = Some (vs, r)"
    using 8 n by simp_all
  with n show ?case by (simp add: pitems_step del: pitems.simps)
next
  case (10 k v ms)
  then obtain m where n: "n = Suc (Suc m)" by (cases n; cases "n - 1") (auto simp: quote_def)
  have "pval m (jshow v @ jtail ms @ r) = Some (v, jtail ms @ r)" "ptail m (jtail ms @ r) = Some (ms, r)"
    using 10 n by simp_all
  with 10(3) n show ?case
    by (simp add: pval_obj pmembers_step del: pmembers.simps pval.simps)
next
  case (12 k v ms)
  then obtain m where n: "n = Suc (Suc m)" by (cases n; cases "n - 1") (auto simp: quote_def)
  have "pval m (jshow v @ jtail ms @ r) = Some (v, jtail ms @ r)" "ptail m (jtail ms @ r) = Some (ms, r)"
    using 12 n by simp_all
  with 12(3) n show ?case
    by (simp add: ptail_step pmembers_step del: pmembers.simps ptail.simps)
qed

lemma jparse_show: "jok v \<Longrightarrow> jparse (jshow v) = Some v"
  using parse_show(1) [of v "[]" "Suc (length (jshow v))"] by (simp add: jparse_def ends_num_def)

lemma printable_jshow: "printable (jshow v)" "printable (jitems vs)" "printable (jtail ms)"
  by (induction v and vs and ms rule: jshow_jitems_jtail.induct) auto

subsection \<open>Indented output\<close>

text \<open>
  \<open>json.MarshalIndent\<close> with no prefix and two spaces: every element and member on a line of its own, an
  empty array or object on one line. The depth is that of the enclosing value.
\<close>

definition newline :: "nat \<Rightarrow> string" where
  "newline d = CHR 0x0A # replicate (2 * d) (CHR '' '')"

function jindent :: "nat \<Rightarrow> jval \<Rightarrow> string" and jindent_items :: "nat \<Rightarrow> jval list \<Rightarrow> string"
  and jindent_tail :: "nat \<Rightarrow> (string \<times> jval) list \<Rightarrow> string" where
  "jindent d (JStr s) = quote s"
| "jindent d (JNum i) = show_int i"
| "jindent d (JBool b) = (if b then ''true'' else ''false'')"
| "jindent d JNull = ''null''"
| "jindent d (JArr []) = ''[]''"
| "jindent d (JArr (v # vs)) = CHR ''['' # newline (Suc d) @ jindent (Suc d) v @ jindent_items d vs"
| "jindent_items d [] = newline d @ '']''"
| "jindent_items d (v # vs) = CHR '','' # newline (Suc d) @ jindent (Suc d) v @ jindent_items d vs"
| "jindent d (JObj []) = ''{}''"
| "jindent d (JObj ((k, v) # ms)) =
     CHR ''{'' # newline (Suc d) @ quote k @ CHR '':'' # CHR '' '' # jindent (Suc d) v @ jindent_tail d ms"
| "jindent_tail d [] = newline d @ ''}''"
| "jindent_tail d ((k, v) # ms) =
     CHR '','' # newline (Suc d) @ quote k @ CHR '':'' # CHR '' '' # jindent (Suc d) v @ jindent_tail d ms"
  by pat_completeness auto
termination
  by (relation "measure (\<lambda>x. case x of Inl (d, v) \<Rightarrow> size v | Inr (Inl (d, vs)) \<Rightarrow> size_list size vs
      | Inr (Inr (d, ms)) \<Rightarrow> size_list (size_prod (\<lambda>_. 0) size) ms)") auto

definition MarshalIndent :: "jval \<Rightarrow> string" where
  "MarshalIndent v = jindent 0 v"

text \<open>Space in front of a token is skipped.\<close>

lemma sk_newline [simp]: "sk (newline d @ s) = sk s" "sk (CHR '' '' # s) = sk s"
  by (simp_all add: newline_def ws_def dropWhile_append)

lemma eat_newline [simp]: "eat c (newline d @ s) = eat c s"
  by (simp add: eat_def)

lemma pval_newline: "pval n (newline d @ s) = pval n s" "pval n (CHR '' '' # s) = pval n s"
  by (cases n; simp only: pval.simps sk_newline)+

lemma pmembers_newline: "pmembers n (newline d @ s) = pmembers n s"
  by (cases n) simp_all

lemma jindent_pos: "0 < length (jindent d v)"
  by (cases "(d, v)" rule: jindent.cases) (auto simp: quote_def show_int_def)

lemma ends_indent [simp]: "ends_num (jindent_items d vs @ r)" "ends_num (jindent_tail d ms @ r)"
  by (cases "(d, vs)" rule: jindent_items.cases; simp add: ends_num_def newline_def)
    (cases "(d, ms)" rule: jindent_tail.cases; simp add: ends_num_def newline_def)

lemma starts_jindent: "starts_value (jindent d v)"
proof (cases v)
  case (JArr vs)
  then show ?thesis by (cases vs) (simp_all add: starts_value_def)
next
  case (JObj ms)
  then show ?thesis by (cases ms rule: jtail.cases) (simp_all add: starts_value_def)
next
  case (JNum i)
  then show ?thesis by (simp add: starts_num)
qed (auto simp: starts_value_def quote_def)

lemma pval_indent_arr:
  assumes "pval n (jindent d v @ t) = Some (v, t)"
  shows "pval (Suc n) (CHR ''['' # newline e @ jindent d v @ t) = do { (vs, r) \<leftarrow> pitems n t; Some (JArr (v # vs), r) }"
proof -
  obtain c cs where "jindent d v = c # cs" "\<not> ws c" "c \<noteq> CHR '']''"
    using starts_jindent [of d v] by (cases "jindent d v") (auto simp: starts_value_def)
  then have "eat (CHR '']'') (jindent d v @ t) = None" by simp
  with assms show ?thesis by (simp add: pval_newline)
qed

lemma pmembers_indent:
  assumes "ascii k" "pval n (j @ t) = Some (v, t)"
  shows "pmembers (Suc n) (quote k @ CHR '':'' # CHR '' '' # j @ t) = do { (ms, r) \<leftarrow> ptail n t; Some ((k, v) # ms, r) }"
  using assms pstr_quote [OF assms(1), of "CHR '':'' # CHR '' '' # j @ t"] by (simp add: quote_def pval_newline)

lemma pval_indent_obj:
  "pval (Suc n) (CHR ''{'' # newline d @ quote k @ x) = do { (ms, r) \<leftarrow> pmembers n (quote k @ x); Some (JObj ms, r) }"
proof -
  have "eat (CHR ''}'') (quote k @ x) = None" by (simp add: quote_def)
  then show ?thesis by (simp add: pmembers_newline del: pmembers.simps)
qed

lemma parse_indent:
  "jok v \<Longrightarrow> ends_num r \<Longrightarrow> length (jindent d v) \<le> n \<Longrightarrow> pval n (jindent d v @ r) = Some (v, r)"
  "jok_vs vs \<Longrightarrow> length (jindent_items d vs) \<le> n \<Longrightarrow> pitems n (jindent_items d vs @ r) = Some (vs, r)"
  "jok_ms ms \<Longrightarrow> length (jindent_tail d ms) \<le> n \<Longrightarrow> ptail n (jindent_tail d ms @ r) = Some (ms, r)"
proof (induction d v and d vs and d ms arbitrary: n r and n r and n r rule: jindent_jindent_items_jindent_tail.induct)
  case (1 d s)
  then obtain m where "n = Suc m" using jindent_pos [of d "JStr s"] by (cases n) auto
  with 1 show ?case by (simp add: quote_def pstr_quote)
next
  case (2 d i)
  moreover have "0 < n" using 2 jindent_pos [of d "JNum i"] by (cases n) auto
  ultimately show ?case by (simp add: pval_num)
next
  case (3 d b)
  then show ?case by (auto simp: pval_bool simp del: append_Cons)
next
  case (4 d)
  then show ?case by (auto simp: pval_bool simp del: append_Cons)
next
  case (5 d)
  then show ?case by (cases n) auto
next
  case (7 d)
  then show ?case by (cases n) auto
next
  case (9 d)
  then show ?case by (cases n) auto
next
  case (11 d)
  then show ?case by (cases n) auto
next
  case (6 d v vs)
  then obtain m where n: "n = Suc m" by (cases n) auto
  have "pval m (jindent (Suc d) v @ jindent_items d vs @ r) = Some (v, jindent_items d vs @ r)"
    "pitems m (jindent_items d vs @ r) = Some (vs, r)"
    using 6 n by simp_all
  with n show ?case using pval_indent_arr [of m "Suc d" v "jindent_items d vs @ r"] by (simp del: pval.simps)
next
  case (8 d v vs)
  then obtain m where n: "n = Suc m" by (cases n) auto
  have "pval m (jindent (Suc d) v @ jindent_items d vs @ r) = Some (v, jindent_items d vs @ r)"
    "pitems m (jindent_items d vs @ r) = Some (vs, r)"
    using 8 n by simp_all
  with n show ?case by (simp add: pval_newline)
next
  case (10 d k v ms)
  then obtain m where n: "n = Suc (Suc m)" by (cases n; cases "n - 1") (auto simp: quote_def)
  have "pval m (jindent (Suc d) v @ jindent_tail d ms @ r) = Some (v, jindent_tail d ms @ r)"
    "ptail m (jindent_tail d ms @ r) = Some (ms, r)"
    using 10 n by simp_all
  with 10(3) n show ?case
    by (simp add: pval_indent_obj pmembers_indent del: pmembers.simps pval.simps)
next
  case (12 d k v ms)
  then obtain m where n: "n = Suc (Suc m)" by (cases n; cases "n - 1") (auto simp: quote_def)
  have "pval m (jindent (Suc d) v @ jindent_tail d ms @ r) = Some (v, jindent_tail d ms @ r)"
    "ptail m (jindent_tail d ms @ r) = Some (ms, r)"
    using 12 n by simp_all
  with 12(3) n show ?case
    by (simp add: ptail_step pmembers_newline pmembers_indent del: pmembers.simps ptail.simps)
qed

lemma jparse_indent: "jok v \<Longrightarrow> jparse (MarshalIndent v) = Some v"
  using parse_indent(1) [of v "[]" 0 "Suc (length (jindent 0 v))"] by (simp add: jparse_def MarshalIndent_def ends_num_def)

text \<open>A text without bytes above 127 encodes a value without them: other bytes are never escaped.\<close>

lemma ascii_append [simp]: "ascii (s @ t) \<longleftrightarrow> ascii s \<and> ascii t"
  by (auto simp: ascii_def)

lemma escape_high: "128 \<le> (of_char c :: nat) \<Longrightarrow> escape c = [c]"
proof -
  assume "128 \<le> (of_char c :: nat)"
  then have "\<forall>d. (of_char d :: nat) < 128 \<longrightarrow> c \<noteq> d" by auto
  moreover have "\<not> (of_char c :: nat) < 32" using \<open>128 \<le> (of_char c :: nat)\<close> by simp
  ultimately show ?thesis by (simp add: escape_def)
qed

lemma ascii_escaped: "ascii (concat (map escape s)) \<Longrightarrow> ascii s"
proof (induction s)
  case (Cons c s)
  have "ascii (escape c) \<Longrightarrow> (of_char c :: nat) < 128" using escape_high [of c] by (force simp: ascii_def)
  with Cons show ?case by (auto simp: ascii_def)
qed (simp add: ascii_def)

lemma ascii_quote: "ascii (quote s) \<Longrightarrow> ascii s"
  using ascii_escaped [of s] by (auto simp: quote_def ascii_def)

lemma ascii_Cons: "ascii (c # s) \<longleftrightarrow> (of_char c :: nat) < 128 \<and> ascii s"
  by (simp add: ascii_def)

lemma jok_indent:
  "ascii (jindent d v) \<Longrightarrow> jok v" "ascii (jindent_items d vs) \<Longrightarrow> jok_vs vs" "ascii (jindent_tail d ms) \<Longrightarrow> jok_ms ms"
  by (induction d v and d vs and d ms rule: jindent_jindent_items_jindent_tail.induct)
    (auto simp: ascii_Cons dest: ascii_quote)

lemma ascii_escape1: "(of_char c :: nat) < 128 \<Longrightarrow> ascii (escape c)"
proof -
  have "of_char (hexdigit n) < (128 :: nat)" if "n < 16" for n
    using that by (auto simp: hexdigit_def)
  then show "(of_char c :: nat) < 128 \<Longrightarrow> ascii (escape c)" by (simp add: escape_def ascii_def)
qed

lemma quote_ascii: "ascii s \<Longrightarrow> ascii (quote s)"
  using ascii_escape1 by (auto simp: quote_def ascii_def)

lemma ascii_Nil: "ascii []"
  by (simp add: ascii_def)

lemma ascii_newline: "ascii (newline d)"
  by (auto simp: ascii_def newline_def)

lemma ascii_show_int: "ascii (show_int i)"
proof -
  have "is_digit c \<Longrightarrow> (of_char c :: nat) < 128" for c by (auto simp: is_digit_def)
  then show ?thesis using show_nat_digits by (auto simp: show_int_def ascii_def)
qed

lemma ascii_indent:
  "jok v \<Longrightarrow> ascii (jindent d v)" "jok_vs vs \<Longrightarrow> ascii (jindent_items d vs)" "jok_ms ms \<Longrightarrow> ascii (jindent_tail d ms)"
  by (induction d v and d vs and d ms rule: jindent_jindent_items_jindent_tail.induct)
    (simp_all add: ascii_Cons ascii_newline ascii_show_int quote_ascii ascii_Nil)

section \<open>A request body\<close>

text \<open>
  \<open>json.NewDecoder(body).Decode\<close>: the first value of the text; what follows it is not read.
\<close>

definition jdecode :: "string \<Rightarrow> jval option" where
  "jdecode s = map_option fst (pval (Suc (length s)) s)"

lemma jdecode_parse: "jparse s = Some v \<Longrightarrow> jdecode s = Some v"
  by (auto simp: jparse_def jdecode_def bind_eq_Some_conv split: if_splits)

end
