(* ===== verification/Payload_Json.thy ===== *)
theory Payload_Json
  imports Dqueue_Inv Go_Json
begin

text \<open>
  The JSON codec of queue payloads: what \<^verbatim>\<open>encoding/json\<close> writes for the struct \<open>Payload\<close> with its
  field tags (src/internal/dqueue/dqueue.go), what it reads back, and what \<^verbatim>\<open>cjson.decode(evt).org_id\<close>
  yields in the scripts. The end of the theory proves the round trip and interprets the contract
  \<open>payload_codec\<close> on this codec.
\<close>

section \<open>Payloads\<close>

text \<open>The struct tags: \<^verbatim>\<open>omitempty\<close> leaves out a zero value.\<close>

definition opt_field :: "string \<Rightarrow> bool \<Rightarrow> jval \<Rightarrow> (string \<times> jval) list" where
  "opt_field k present v = (if present then [(k, v)] else [])"

definition payload_fields :: "payload \<Rightarrow> (string \<times> jval) list" where
  "payload_fields p =
     [(''event_id'', JStr (p_EventID p)),
      (''org_id'', JStr (p_OrgID p)),
      (''attempt'', JNum (p_Attempt p)),
      (''enqueued_at_unix_ms'', JNum (p_EnqueuedAt p))] @
     opt_field ''manual'' (p_Manual p) (JBool True) @
     opt_field ''retry_strategy'' (p_RetryStrategy p \<noteq> []) (JStr (p_RetryStrategy p)) @
     opt_field ''retry_base_ms'' (p_RetryBaseMs p \<noteq> 0) (JNum (p_RetryBaseMs p)) @
     opt_field ''retry_cap_ms'' (p_RetryCapMs p \<noteq> 0) (JNum (p_RetryCapMs p)) @
     opt_field ''retry_jitter_pct'' (p_RetryJitterPct p \<noteq> 0) (JNum (p_RetryJitterPct p)) @
     opt_field ''custom_retry_schedule'' (p_CustomRetrySchedule p \<noteq> [])
       (JStr (b64_encode std_alphabet True (p_CustomRetrySchedule p))) @
     opt_field ''trace'' (p_Trace p \<noteq> []) (JObj (map (\<lambda>(k, v). (k, JStr v)) (sort_key fst (p_Trace p)))) @
     opt_field ''kind'' (p_Kind p \<noteq> []) (JStr (p_Kind p)) @
     opt_field ''data'' (p_Data p \<noteq> []) (JStr (b64_encode std_alphabet True (p_Data p)))"

definition payload_marshal :: "payload \<Rightarrow> string" where
  "payload_marshal p = jshow (JObj (payload_fields p))"

text \<open>
  Reading a field: the last member of its name counts, an absent or null member leaves the zero
  value, a member of another type or out of the range of the field is an error.
\<close>

definition jget :: "(string \<times> jval) list \<Rightarrow> string \<Rightarrow> jval option" where
  "jget ms k = map_of (rev ms) k"

definition get_str :: "(string \<times> jval) list \<Rightarrow> string \<Rightarrow> string option" where
  "get_str ms k = (case jget ms k of
      None \<Rightarrow> Some [] | Some JNull \<Rightarrow> Some [] | Some (JStr s) \<Rightarrow> Some s | _ \<Rightarrow> None)"

definition get_int :: "nat \<Rightarrow> (string \<times> jval) list \<Rightarrow> string \<Rightarrow> int option" where
  "get_int w ms k = (case jget ms k of
      None \<Rightarrow> Some 0 | Some JNull \<Rightarrow> Some 0
    | Some (JNum i) \<Rightarrow> if - (2 ^ (w - 1)) \<le> i \<and> i < 2 ^ (w - 1) then Some i else None
    | _ \<Rightarrow> None)"

definition get_bool :: "(string \<times> jval) list \<Rightarrow> string \<Rightarrow> bool option" where
  "get_bool ms k = (case jget ms k of
      None \<Rightarrow> Some False | Some JNull \<Rightarrow> Some False | Some (JBool b) \<Rightarrow> Some b | _ \<Rightarrow> None)"

definition get_bytes :: "(string \<times> jval) list \<Rightarrow> string \<Rightarrow> bytes option" where
  "get_bytes ms k = (case jget ms k of
      None \<Rightarrow> Some [] | Some JNull \<Rightarrow> Some [] | Some (JStr s) \<Rightarrow> b64_decode std_alphabet True s | _ \<Rightarrow> None)"

fun strings_of :: "(string \<times> jval) list \<Rightarrow> (string \<times> string) list option" where
  "strings_of [] = Some []"
| "strings_of ((k, JStr v) # ms) = map_option (Cons (k, v)) (strings_of ms)"
| "strings_of (_ # ms) = None"

definition get_map :: "(string \<times> jval) list \<Rightarrow> string \<Rightarrow> (string \<times> string) list option" where
  "get_map ms k = (case jget ms k of
      None \<Rightarrow> Some [] | Some JNull \<Rightarrow> Some [] | Some (JObj ms) \<Rightarrow> strings_of ms | _ \<Rightarrow> None)"

text \<open>The canonical text form of a UUID, as \<^verbatim>\<open>uuid.UUID\<close> writes it, in either case.\<close>

definition uuid_parse :: "string \<Rightarrow> uuid option" where
  "uuid_parse s =
     (if length s = 36 \<and> list_all (\<lambda>i. if i \<in> {8, 13, 18, 23} then s ! i = CHR ''-'' else hex_val (s ! i) \<noteq> None) [0..<36]
      then Some (map lower_char s) else None)"

text \<open>\<^verbatim>\<open>uuid.Parse\<close> reads three more forms: a URN, 38 bytes of which the first and the last are skipped, and bare hex digits.\<close>

definition uuid_Parse :: "string \<Rightarrow> uuid option" where
  "uuid_Parse s =
     (if length s = 45 then (if map lower_char (take 9 s) = ''urn:uuid:'' then uuid_parse (drop 9 s) else None)
      else if length s = 38 then uuid_parse (take 36 (drop 1 s))
      else if length s = 32 then
        uuid_parse (take 8 s @ ''-'' @ take 4 (drop 8 s) @ ''-'' @ take 4 (drop 12 s) @ ''-'' @ take 4 (drop 16 s) @ ''-'' @ drop 20 s)
      else uuid_parse s)"

lemma uuid_length: "uuid_parse s = Some u \<Longrightarrow> length s = 36"
  by (simp add: uuid_parse_def split: if_splits)

lemma uuid_Parse_canonical: "uuid_parse s = Some u \<Longrightarrow> uuid_Parse s = Some u"
  using uuid_length [of s u] by (simp add: uuid_Parse_def)

definition get_uuid :: "(string \<times> jval) list \<Rightarrow> string \<Rightarrow> uuid option" where
  "get_uuid ms k = (case jget ms k of
      None \<Rightarrow> Some uuid_Nil | Some JNull \<Rightarrow> Some uuid_Nil | Some (JStr s) \<Rightarrow> uuid_Parse s | _ \<Rightarrow> None)"

definition payload_of :: "(string \<times> jval) list \<Rightarrow> payload option" where
  "payload_of ms =
     do { ev \<leftarrow> get_uuid ms ''event_id'';
          org \<leftarrow> get_uuid ms ''org_id'';
          att \<leftarrow> get_int 64 ms ''attempt'';
          enq \<leftarrow> get_int 64 ms ''enqueued_at_unix_ms'';
          man \<leftarrow> get_bool ms ''manual'';
          st \<leftarrow> get_str ms ''retry_strategy'';
          base \<leftarrow> get_int 32 ms ''retry_base_ms'';
          cap \<leftarrow> get_int 32 ms ''retry_cap_ms'';
          jit \<leftarrow> get_int 32 ms ''retry_jitter_pct'';
          crs \<leftarrow> get_bytes ms ''custom_retry_schedule'';
          tr \<leftarrow> get_map ms ''trace'';
          kd \<leftarrow> get_str ms ''kind'';
          dt \<leftarrow> get_bytes ms ''data'';
          Some \<lparr>p_EventID = ev, p_OrgID = org, p_Attempt = att, p_EnqueuedAt = enq, p_Manual = man,
                p_RetryStrategy = st, p_RetryBaseMs = base, p_RetryCapMs = cap, p_RetryJitterPct = jit,
                p_CustomRetrySchedule = crs, p_Trace = tr, p_Kind = kd, p_Data = dt\<rparr> }"

definition payload_unmarshal :: "string \<Rightarrow> payload option" where
  "payload_unmarshal s = (case jparse s of Some (JObj ms) \<Rightarrow> payload_of ms | _ \<Rightarrow> None)"

text \<open>The scripts concatenate the decoded \<^verbatim>\<open>org_id\<close> to a key: a string or a number will do, the rest is an error.\<close>

definition cjson_field :: "string \<Rightarrow> string \<Rightarrow> string option" where
  "cjson_field k s = (case jparse s of
      Some (JObj ms) \<Rightarrow>
        (case jget ms k of Some (JStr x) \<Rightarrow> Some x | Some (JNum i) \<Rightarrow> Some (show_int i) | _ \<Rightarrow> None)
    | _ \<Rightarrow> None)"

definition payload_json :: codec where
  "payload_json = \<lparr>marshal = payload_marshal, unmarshal = payload_unmarshal, cjson_org_id = cjson_field ''org_id''\<rparr>"

text \<open>The payloads the program builds: identifiers in canonical form, integers in the range of their Go types, ASCII text, and a trace carrier as a map.\<close>

definition int_ok :: "nat \<Rightarrow> int \<Rightarrow> bool" where
  "int_ok w i \<longleftrightarrow> - (2 ^ (w - 1)) \<le> i \<and> i < 2 ^ (w - 1)"

definition payload_ok :: "payload \<Rightarrow> bool" where
  "payload_ok p \<longleftrightarrow>
     uuid_parse (p_EventID p) = Some (p_EventID p) \<and> uuid_parse (p_OrgID p) = Some (p_OrgID p) \<and>
     int_ok 64 (p_Attempt p) \<and> int_ok 64 (p_EnqueuedAt p) \<and> int_ok 32 (p_RetryBaseMs p) \<and>
     int_ok 32 (p_RetryCapMs p) \<and> int_ok 32 (p_RetryJitterPct p) \<and>
     ascii (p_RetryStrategy p) \<and> ascii (p_Kind p) \<and>
     list_all (\<lambda>(k, v). ascii k \<and> ascii v) (p_Trace p) \<and>
     sorted (map fst (p_Trace p)) \<and> distinct (map fst (p_Trace p))"

section \<open>The codec meets its contract\<close>

lemma printable_no_sep: "printable s \<Longrightarrow> leaseSep \<notin> set s"
  by (auto simp: printable_def leaseSep_def)

lemma b64_chars: "set (b64_encode std_alphabet True bs) \<subseteq> insert CHR ''='' (set std_alphabet)"
proof -
  have g: "set (take k (b64_group std_alphabet n)) \<subseteq> set std_alphabet" if "n < 16777216" for n k
  proof -
    have "n div 262144 < 64" using that by (simp add: less_mult_imp_div_less)
    then have "set (b64_group std_alphabet n) \<subseteq> set std_alphabet"
      using std_ok by (auto simp: b64_group_def alphabet_ok_def)
    then show ?thesis by (meson in_set_takeD subsetD subsetI)
  qed
  have "A = std_alphabet \<Longrightarrow> pad \<Longrightarrow> set (b64_encode A pad bs) \<subseteq> insert CHR ''='' (set std_alphabet)" for A pad
  proof (induction A pad bs rule: b64_encode.induct)
    case (2 A pad x)
    have "(of_char x :: nat) * 65536 < 16777216" using of_char_lt [of x] by linarith
    from 2 g [OF this, of 2] show ?case by auto
  next
    case (3 A pad x y)
    have "(of_char x :: nat) * 65536 + of_char y * 256 < 16777216"
      using of_char_lt [of x] of_char_lt [of y] by linarith
    from 3 g [OF this, of 3] show ?case by auto
  next
    case (4 A pad x y z r)
    have "(of_char x :: nat) * 65536 + of_char y * 256 + of_char z < 16777216"
      using of_char_lt [of x] of_char_lt [of y] of_char_lt [of z] by linarith
    from g [OF this, of 4] have "set (b64_group A (of_char x * 65536 + of_char y * 256 + of_char z)) \<subseteq> set std_alphabet"
      using 4(2) by (simp add: b64_group_def)
    with 4 show ?case by auto
  qed simp
  then show ?thesis by simp
qed

lemma ascii_b64 [simp]: "ascii (b64_encode std_alphabet True bs)"
proof -
  have "ascii (CHR ''='' # std_alphabet)" by (simp add: ascii_def std_alphabet_def)
  then show ?thesis using b64_chars [of bs] by (auto simp: ascii_def)
qed

lemma uuid_ascii: "uuid_parse u = Some v \<Longrightarrow> ascii u"
proof -
  assume u: "uuid_parse u = Some v"
  have "(of_char (u ! i) :: nat) < 128" if "i < 36" for i
  proof -
    from u that have "u ! i = CHR ''-'' \<or> hex_val (u ! i) \<noteq> None"
      by (auto simp: uuid_parse_def list_all_iff split: if_splits)
    then show ?thesis by (auto simp: hex_val_def Let_def split: if_splits)
  qed
  moreover have "length u = 36" using u by (simp add: uuid_parse_def split: if_splits)
  ultimately show ?thesis by (auto simp: ascii_def in_set_conv_nth)
qed

lemma jok_append [simp]: "jok_ms (xs @ ys) \<longleftrightarrow> jok_ms xs \<and> jok_ms ys"
  by (induction xs) auto

lemma jok_opt [simp]: "jok_ms (opt_field k b v) \<longleftrightarrow> (b \<longrightarrow> ascii k \<and> jok v)"
  by (simp add: opt_field_def)

lemma jok_strings: "list_all (\<lambda>(k, v). ascii k \<and> ascii v) t \<Longrightarrow> jok_ms (map (\<lambda>(k, v). (k, JStr v)) t)"
  by (induction t) auto

lemma strings_of_map: "strings_of (map (\<lambda>(k, v). (k, JStr v)) t) = Some t"
  by (induction t) auto

lemma jok_fields: "payload_ok p \<Longrightarrow> jok_ms (payload_fields p)"
  unfolding payload_fields_def payload_ok_def
  by (auto simp: uuid_ascii jok_strings sorted_sort_id [symmetric] sort_key_id_if_sorted) (simp_all add: ascii_def)

lemma jget_append [simp]: "jget (xs @ ys) k = (case jget ys k of None \<Rightarrow> jget xs k | Some v \<Rightarrow> Some v)"
  by (cases "map_of (rev ys) k") (simp_all add: jget_def map_add_def)

lemma jget_Cons [simp]:
  "jget ((k', v) # ms) k = (case jget ms k of None \<Rightarrow> if k = k' then Some v else None | Some w \<Rightarrow> Some w)"
  "jget [] k = None"
  by (cases "map_of (rev ms) k"; simp add: jget_def map_add_def)+

lemma jget_opt [simp]: "jget (opt_field k' b v) k = (if b \<and> k = k' then Some v else None)"
  by (simp add: opt_field_def)

lemma jget_fields:
  "jget (payload_fields p) ''event_id'' = Some (JStr (p_EventID p))"
  "jget (payload_fields p) ''org_id'' = Some (JStr (p_OrgID p))"
  "jget (payload_fields p) ''attempt'' = Some (JNum (p_Attempt p))"
  "jget (payload_fields p) ''enqueued_at_unix_ms'' = Some (JNum (p_EnqueuedAt p))"
  "jget (payload_fields p) ''manual'' = (if p_Manual p then Some (JBool True) else None)"
  "jget (payload_fields p) ''retry_strategy'' = (if p_RetryStrategy p \<noteq> [] then Some (JStr (p_RetryStrategy p)) else None)"
  "jget (payload_fields p) ''retry_base_ms'' = (if p_RetryBaseMs p \<noteq> 0 then Some (JNum (p_RetryBaseMs p)) else None)"
  "jget (payload_fields p) ''retry_cap_ms'' = (if p_RetryCapMs p \<noteq> 0 then Some (JNum (p_RetryCapMs p)) else None)"
  "jget (payload_fields p) ''retry_jitter_pct'' = (if p_RetryJitterPct p \<noteq> 0 then Some (JNum (p_RetryJitterPct p)) else None)"
  "jget (payload_fields p) ''custom_retry_schedule'' = (if p_CustomRetrySchedule p \<noteq> [] then Some (JStr (b64_encode std_alphabet True (p_CustomRetrySchedule p))) else None)"
  "jget (payload_fields p) ''trace'' = (if p_Trace p \<noteq> [] then Some (JObj (map (\<lambda>(k, v). (k, JStr v)) (sort_key fst (p_Trace p)))) else None)"
  "jget (payload_fields p) ''kind'' = (if p_Kind p \<noteq> [] then Some (JStr (p_Kind p)) else None)"
  "jget (payload_fields p) ''data'' = (if p_Data p \<noteq> [] then Some (JStr (b64_encode std_alphabet True (p_Data p))) else None)"
  by (simp_all add: payload_fields_def)

lemma payload_of_fields: "payload_ok p \<Longrightarrow> payload_of (payload_fields p) = Some p"
proof -
  assume p: "payload_ok p"
  let ?ms = "payload_fields p"
  have "get_uuid ?ms ''event_id'' = Some (p_EventID p)" "get_uuid ?ms ''org_id'' = Some (p_OrgID p)"
    using p by (simp_all add: get_uuid_def jget_fields payload_ok_def uuid_Parse_canonical)
  moreover have "get_int 64 ?ms ''attempt'' = Some (p_Attempt p)"
    "get_int 64 ?ms ''enqueued_at_unix_ms'' = Some (p_EnqueuedAt p)"
    "get_int 32 ?ms ''retry_base_ms'' = Some (p_RetryBaseMs p)"
    "get_int 32 ?ms ''retry_cap_ms'' = Some (p_RetryCapMs p)"
    "get_int 32 ?ms ''retry_jitter_pct'' = Some (p_RetryJitterPct p)"
    using p by (simp_all add: get_int_def jget_fields payload_ok_def int_ok_def)
  moreover have "get_bool ?ms ''manual'' = Some (p_Manual p)" by (simp add: get_bool_def jget_fields)
  moreover have "get_str ?ms ''retry_strategy'' = Some (p_RetryStrategy p)" "get_str ?ms ''kind'' = Some (p_Kind p)"
    by (simp_all add: get_str_def jget_fields)
  moreover have "get_bytes ?ms ''custom_retry_schedule'' = Some (p_CustomRetrySchedule p)"
    "get_bytes ?ms ''data'' = Some (p_Data p)"
    by (simp_all add: get_bytes_def jget_fields b64_roundtrip std_ok)
  moreover have "get_map ?ms ''trace'' = Some (p_Trace p)"
    using p by (simp add: get_map_def jget_fields strings_of_map sort_key_id_if_sorted payload_ok_def)
  ultimately show ?thesis by (simp add: payload_of_def)
qed

interpretation json: payload_codec payload_json payload_ok
proof
  fix p assume p: "payload_ok p"
  then have j: "jparse (payload_marshal p) = Some (JObj (payload_fields p))"
    by (simp add: payload_marshal_def jparse_show jok_fields)
  show "unmarshal payload_json (marshal payload_json p) = Some p"
    using p j by (simp add: payload_json_def payload_unmarshal_def payload_of_fields)
  show "cjson_org_id payload_json (marshal payload_json p) = Some (p_OrgID p)"
    using j by (simp add: payload_json_def cjson_field_def jget_fields)
  show "leaseSep \<notin> set (marshal payload_json p)"
    by (simp add: payload_json_def payload_marshal_def printable_jshow printable_no_sep)
next
  fix p and now :: int
  assume "payload_ok p" "0 \<le> now" "now < 2 ^ 63"
  then show "payload_ok (p\<lparr>p_Attempt := 0, p_EnqueuedAt := now\<rparr>)"
    by (simp add: payload_ok_def int_ok_def)
qed

end
