(* ===== verification/Retry_Policy.thy ===== *)
theory Retry_Policy
  imports Go_Json Complex_Main "HOL-Library.Log_Nat"
begin

text \<open>
  Backoff: src/internal/deliver/policy.go (the per-connection policy of event deliveries) and
  src/internal/webhook/policy.go (the fixed schedule of outbound messages). Durations are
  nanoseconds in \<open>int\<close>, as Go's \<open>time.Duration\<close>. The policy computes in \<open>float64\<close>; \<open>fl64\<close> is the
  rounding of an exact result to 53 significant bits, ties to even, so the definitions compute what
  Go computes, the random draw being an argument.
\<close>

section \<open>Rounding to float64\<close>

definition round_even :: "rat \<Rightarrow> int" where
  "round_even y =
     (let f = \<lfloor>y\<rfloor>; r = y - of_int f
      in if r < 1 / 2 then f else if r > 1 / 2 then f + 1 else if even f then f else f + 1)"

definition pow2 :: "int \<Rightarrow> rat" where
  "pow2 n = (if 0 \<le> n then 2 ^ nat n else 1 / 2 ^ nat (- n))"

text \<open>The exponent of the leading bit of a positive rational.\<close>

definition lead_exp :: "rat \<Rightarrow> int" where
  "lead_exp x =
     (let (a, b) = quotient_of x;
          e = int (floorlog 2 (nat a)) - int (floorlog 2 (nat b))
      in if pow2 e \<le> x then e else e - 1)"

definition fl_pos :: "rat \<Rightarrow> rat" where
  "fl_pos x = (let u = pow2 (lead_exp x - 52) in of_int (round_even (x / u)) * u)"

definition fl64 :: "rat \<Rightarrow> rat" where
  "fl64 x = (if x = 0 then 0 else if x < 0 then - fl_pos (- x) else fl_pos x)"

lemma pow2_pos [simp]: "0 < pow2 n"
  by (simp add: pow2_def)

lemma pow2_le: "m \<le> n \<Longrightarrow> pow2 m \<le> pow2 n"
proof -
  assume "m \<le> n"
  then show ?thesis
  proof (cases "0 \<le> m \<or> n < 0")
    case True
    with \<open>m \<le> n\<close> show ?thesis by (auto simp: pow2_def field_simps intro!: power_increasing)
  next
    case False
    then have "(1 :: rat) / 2 ^ nat (- m) \<le> 1" "(1 :: rat) \<le> 2 ^ nat n" by (simp_all add: field_simps)
    then have "(1 :: rat) / 2 ^ nat (- m) \<le> 2 ^ nat n" by (rule order_trans)
    with False show ?thesis by (simp add: pow2_def)
  qed
qed

lemma pow2_Suc: "pow2 (n + 1) = 2 * pow2 n"
proof (cases "0 \<le> n")
  case True
  then have "nat (n + 1) = Suc (nat n)" by simp
  with True show ?thesis by (simp add: pow2_def)
next
  case False
  then have "nat (- n) = Suc (nat (- (n + 1)))" by simp
  with False show ?thesis by (cases "n = - 1") (auto simp: pow2_def)
qed

lemma pow2_add: "pow2 (m + int k) = pow2 m * 2 ^ k"
proof (induction k)
  case (Suc k)
  have "m + int (Suc k) = (m + int k) + 1" by simp
  then show ?case using Suc by (simp only: pow2_Suc) simp
qed simp

text \<open>The unit in the last place of a number below \<open>2 ^ 53\<close> divides one.\<close>

lemma ulp_small:
  assumes "e \<le> 0"
  obtains k :: nat where "2 ^ k * pow2 e = 1"
proof
  show "2 ^ nat (- e) * pow2 e = 1"
    using assms by (cases "e = 0") (auto simp: pow2_def)
qed

lemma floorlog_bounds: "0 < a \<Longrightarrow> 2 ^ (floorlog 2 a - 1) \<le> a \<and> a < 2 ^ floorlog 2 a"
  by (rule floorlog_bounds) auto

lemma lead_exp:
  assumes "0 < x"
  shows "pow2 (lead_exp x) \<le> x" "x < pow2 (lead_exp x + 1)"
proof -
  obtain a b where q: "quotient_of x = (a, b)" by (cases "quotient_of x") auto
  have b: "0 < b" using q by (rule quotient_of_denom_pos)
  have x: "x = of_int a / of_int b" using q by (rule quotient_of_div)
  with assms b have a: "0 < a" by (simp add: zero_less_divide_iff)
  define la lb where "la = floorlog 2 (nat a)" and "lb = floorlog 2 (nat b)"
  have la: "2 ^ (la - 1) \<le> nat a" "nat a < 2 ^ la" and lb: "2 ^ (lb - 1) \<le> nat b" "nat b < 2 ^ lb"
    using floorlog_bounds [of "nat a"] floorlog_bounds [of "nat b"] a b by (auto simp: la_def lb_def)
  have pos: "0 < la" "0 < lb" using la lb a b by (auto simp: la_def lb_def floorlog_def)
  have A: "(2 :: rat) ^ (la - 1) \<le> of_int a" "of_int a < (2 :: rat) ^ la"
    and B: "(2 :: rat) ^ (lb - 1) \<le> of_int b" "of_int b < (2 :: rat) ^ lb"
    using la lb a b
    by (metis (no_types) of_nat_le_iff of_nat_less_iff of_nat_nat of_nat_numeral of_nat_power of_int_of_nat_eq less_imp_le)+
  let ?e = "int la - int lb"
  have p: "pow2 ?e = 2 ^ la / 2 ^ lb"
    using pow2_add [of "?e" lb] pow2_add [of 0 la] by (simp add: field_simps pow2_def)
  have "pow2 (?e - 1) \<le> x"
  proof -
    have "pow2 (?e - 1) = 2 ^ (la - 1) / 2 ^ lb"
      using pow2_Suc [of "?e - 1"] p pos by (cases la) (auto simp: field_simps)
    also have "\<dots> \<le> of_int a / of_int b" using A B a b by (intro frac_le) auto
    finally show ?thesis by (simp add: x)
  qed
  moreover have "x < pow2 (?e + 1)"
  proof -
    have "pow2 (?e + 1) = 2 ^ la / 2 ^ (lb - 1)"
      using pow2_Suc [of "?e"] p pos by (cases lb) (auto simp: field_simps)
    moreover have "of_int a / of_int b < (2 :: rat) ^ la / 2 ^ (lb - 1)"
      using A B b a by (intro frac_less) auto
    ultimately show ?thesis by (simp add: x)
  qed
  ultimately show "pow2 (lead_exp x) \<le> x" "x < pow2 (lead_exp x + 1)"
    by (auto simp: lead_exp_def q Let_def la_def lb_def)
qed

lemma round_even_le: "y \<le> of_int n \<Longrightarrow> round_even y \<le> n"
proof -
  assume y: "y \<le> of_int n"
  show ?thesis
  proof (cases "\<lfloor>y\<rfloor> < n")
    case True
    then show ?thesis by (auto simp: round_even_def Let_def)
  next
    case False
    with y have "\<lfloor>y\<rfloor> = n" "y = of_int n" by linarith+
    then show ?thesis by (simp add: round_even_def)
  qed
qed

lemma round_even_ge: "of_int n \<le> y \<Longrightarrow> n \<le> round_even y"
proof -
  assume "of_int n \<le> y"
  then have "n \<le> \<lfloor>y\<rfloor>" by (simp add: le_floor_iff)
  then show ?thesis by (auto simp: round_even_def Let_def)
qed

text \<open>
  What the proofs use of the rounding: it is exact on integers below \<open>2 ^ 53\<close>, and it never moves a
  value across such an integer.
\<close>

lemma fl_pos_ge:
  assumes "0 < M" "M < 2 ^ 53" "of_int M \<le> x"
  shows "of_int M \<le> fl_pos x"
proof -
  have x: "0 < x" using assms by (meson less_le_trans of_int_0_less_iff)
  let ?u = "pow2 (lead_exp x - 52)"
  show ?thesis
  proof (cases "lead_exp x \<le> 52")
    case True
    then obtain k where k: "2 ^ k * ?u = 1" using ulp_small [of "lead_exp x - 52"] by auto
    then have M: "of_int (M * 2 ^ k) * ?u = of_int M" by simp
    then have "of_int (M * 2 ^ k) \<le> x / ?u" using assms(3) by (simp only: pos_le_divide_eq pow2_pos)
    then have "M * 2 ^ k \<le> round_even (x / ?u)" by (rule round_even_ge)
    then have "of_int (M * 2 ^ k) * ?u \<le> fl_pos x"
      unfolding fl_pos_def Let_def of_int_le_iff by (intro mult_right_mono) (simp_all only: of_int_le_iff less_imp_le pow2_pos)
    then show ?thesis by (simp only: M)
  next
    case False
    have "pow2 (lead_exp x) = ?u * 2 ^ 52" using pow2_add [of "lead_exp x - 52" 52] by simp
    then have "of_int (2 ^ 52) \<le> x / ?u" using lead_exp(1) [OF x] by (simp add: field_simps)
    then have "2 ^ 52 \<le> round_even (x / ?u)" by (rule round_even_ge)
    then have "of_int (2 ^ 52) * ?u \<le> fl_pos x"
      unfolding fl_pos_def Let_def by (intro mult_right_mono) (simp_all add: less_imp_le of_int_le_iff del: of_int_power)
    moreover have "2 \<le> ?u" using False pow2_le [of 1 "lead_exp x - 52"] by (simp add: pow2_def)
    moreover have "(of_int M :: rat) \<le> of_int (2 ^ 53)" using assms(2) by (simp only: of_int_le_iff)
    ultimately show ?thesis by simp
  qed
qed

lemma fl_pos_exact:
  assumes "0 < M" "M < 2 ^ 53"
  shows "fl_pos (of_int M) = of_int M"
proof -
  have x: "(0 :: rat) < of_int M" using assms by simp
  have "lead_exp (of_int M) < 53"
  proof (rule ccontr)
    assume "\<not> lead_exp (of_int M) < 53"
    then have "pow2 53 \<le> of_int M" using pow2_le [of 53 "lead_exp (of_int M)"] lead_exp(1) [OF x] by linarith
    then have "(of_int (2 ^ 53) :: rat) \<le> of_int M" by (simp add: pow2_def)
    with assms(2) show False by (simp only: of_int_le_iff)
  qed
  then obtain k where k: "2 ^ k * pow2 (lead_exp (of_int M) - 52) = 1"
    using ulp_small [of "lead_exp (of_int M) - 52"] by auto
  let ?u = "pow2 (lead_exp (of_int M) - 52)"
  have M: "of_int (M * 2 ^ k) * ?u = of_int M" using k by simp
  have d: "of_int M / ?u = of_int (M * 2 ^ k)" 
    by (metis M less_irrefl nonzero_mult_div_cancel_right pow2_pos)
  have "round_even (of_int (M * 2 ^ k)) = M * 2 ^ k"
    by (rule antisym) (simp_all only: round_even_le round_even_ge order_refl)
  then show ?thesis using M unfolding fl_pos_def Let_def d by simp
qed

lemma fl64_exact: "0 \<le> M \<Longrightarrow> M < 2 ^ 53 \<Longrightarrow> fl64 (of_int M) = of_int M"
  using fl_pos_exact [of M] by (cases "M = 0") (auto simp: fl64_def)

lemma fl64_ge: "0 < M \<Longrightarrow> M < 2 ^ 53 \<Longrightarrow> of_int M \<le> x \<Longrightarrow> of_int M \<le> fl64 x"
  using fl_pos_ge [of M x] by (auto simp: fl64_def)

section \<open>Event deliveries\<close>

text \<open>The fields of \<open>store.Connection\<close> that the policy reads.\<close>

record retry_cfg =
  RetryStrategy :: string
  RetryBaseMs :: int
  RetryCapMs :: int
  RetryJitterPct :: int
  CustomRetrySchedule :: bytes

definition millisecond :: int where
  "millisecond = 1000000"

definition clampToCap :: "rat \<Rightarrow> int \<Rightarrow> int" where
  "clampToCap ns cap = (if ns \<ge> of_int cap then cap else if ns \<le> 0 then 0 else \<lfloor>ns\<rfloor>)"

text \<open>\<open>json.Unmarshal\<close> into \<open>[]int64\<close>; null stands for the zero value, at the top for no slice.\<close>

fun int64_items :: "jval list \<Rightarrow> int list option" where
  "int64_items [] = Some []"
| "int64_items (JNum i # vs) =
     (if - (2 ^ 63) \<le> i \<and> i < 2 ^ 63 then map_option (Cons i) (int64_items vs) else None)"
| "int64_items (JNull # vs) = map_option (Cons 0) (int64_items vs)"
| "int64_items (_ # vs) = None"

definition json_int64s :: "bytes \<Rightarrow> int list option" where
  "json_int64s raw = (case jparse raw of
      Some (JArr vs) \<Rightarrow> int64_items vs | Some JNull \<Rightarrow> Some [] | _ \<Rightarrow> None)"

definition maxMs :: int where
  "maxMs = 365 * 24 * 60 * 60 * 1000"

definition customDelay :: "bytes \<Rightarrow> int \<Rightarrow> int \<Rightarrow> int" where
  "customDelay raw attempt fallback =
     (if raw = [] then fallback
      else case json_int64s raw of
             None \<Rightarrow> fallback
           | Some schedule \<Rightarrow>
               if schedule = [] then fallback
               else
                 (let idx = attempt - 1;
                      idx = (if idx < 0 then 0 else idx);
                      idx = (if idx \<ge> int (length schedule) then int (length schedule) - 1 else idx);
                      ms = schedule ! nat idx;
                      ms = (if ms < 0 then 0 else ms);
                      ms = (if ms > maxMs then maxMs else ms)
                  in ms * millisecond))"

text \<open>Conversion to an integer type truncates. \<open>draw\<close> is the 53-bit integer behind \<open>rand.Float64()\<close>.\<close>

definition trunc :: "rat \<Rightarrow> int" where
  "trunc x = (if 0 \<le> x then \<lfloor>x\<rfloor> else \<lceil>x\<rceil>)"

definition applyJitter :: "nat \<Rightarrow> int \<Rightarrow> int \<Rightarrow> int" where
  "applyJitter draw d pct =
     (if pct \<le> 0 then d
      else
        (let pct = (if pct > 100 then 100 else pct);
             spread = fl64 (fl64 (of_int d * of_int pct) / 100);
             delta = fl64 (fl64 (of_nat draw / 2 ^ 53 * 2 - 1) * spread)
         in d + trunc delta))"

definition RetryDelay :: "nat \<Rightarrow> retry_cfg \<Rightarrow> int \<Rightarrow> int" where
  "RetryDelay draw c attempt =
     (let base = RetryBaseMs c * millisecond;
          cap = RetryCapMs c * millisecond;
          base = (if base \<le> 0 then 1000 * millisecond else base);
          cap = (if cap \<le> 0 then 3600 * 1000 * millisecond else cap);
          d = (if RetryStrategy c = ''linear'' then clampToCap (fl64 (of_int base * of_int attempt)) cap
               else if RetryStrategy c = ''fixed'' then base
               else if RetryStrategy c = ''custom'' then customDelay (CustomRetrySchedule c) attempt base
               else clampToCap (fl64 (of_int base * pow2 (attempt - 1))) cap);
          d = (if d > cap then cap else d);
          d = applyJitter draw d (RetryJitterPct c);
          d = (if d > cap then cap else d)
      in if d < 0 then 0 else d)"

section \<open>Outbound messages\<close>

definition retrySchedule :: "int list" where
  "retrySchedule = map (\<lambda>s. s * 1000 * millisecond)
     [5, 5 * 60, 30 * 60, 2 * 3600, 5 * 3600, 10 * 3600, 10 * 3600]"

definition nextDelay :: "int \<Rightarrow> int \<times> bool" where
  "nextDelay attemptCount =
     (if attemptCount < 1 \<or> attemptCount > int (length retrySchedule) then (0, False)
      else (retrySchedule ! nat (attemptCount - 1), True))"

section \<open>Properties\<close>

lemma clamp_int:
  assumes "0 \<le> n" "0 < cap" "cap < 2 ^ 53"
  shows "clampToCap (fl64 (of_int n)) cap = min n cap"
proof (cases "cap \<le> n")
  case True
  then show ?thesis using fl64_ge [of cap "of_int n"] assms by (simp add: clampToCap_def)
next
  case False
  then show ?thesis using fl64_exact [of n] assms by (auto simp: clampToCap_def)
qed

lemma applyJitter_none: "pct \<le> 0 \<Longrightarrow> applyJitter draw d pct = d"
  by (simp add: applyJitter_def)

lemma pow2_nat: "1 \<le> a \<Longrightarrow> of_int b * pow2 (a - 1) = of_int (b * 2 ^ nat (a - 1))"
  by (simp add: pow2_def)

text \<open>
  bounds. Whatever the policy, the attempt number and the random draw, a retry delay is never
  negative and never above the configured ceiling (one hour where none is configured): float
  overflow at high attempt numbers, a hostile custom schedule and positive jitter included.
\<close>

theorem retry_delay_bounds:
  "0 \<le> RetryDelay draw c attempt \<and>
   RetryDelay draw c attempt \<le> (if RetryCapMs c \<le> 0 then 3600 * 1000 * millisecond else RetryCapMs c * millisecond)"
  by (simp add: RetryDelay_def Let_def millisecond_def)

text \<open>
  the formula. Without jitter and with a base and a ceiling in the range of their columns, the
  delay is the ceiling or the strategy's exact value, whichever is less: \<open>base\<close> for fixed,
  \<open>base * attempt\<close> for linear, \<open>base * 2 ^ (attempt - 1)\<close> for exponential (also the fallback for an
  unknown strategy), and for custom the entry of the schedule for this attempt, its last entry once
  the schedule is exhausted; rounding in float64 never shows.
\<close>

theorem retry_delay_formula:
  assumes "0 < RetryBaseMs c" "RetryBaseMs c < 2 ^ 31" "0 < RetryCapMs c" "RetryCapMs c < 2 ^ 31"
    and "RetryJitterPct c \<le> 0" "1 \<le> attempt"
    and sch: "RetryStrategy c = ''custom'' \<Longrightarrow> json_int64s (CustomRetrySchedule c) = Some sch \<and> sch \<noteq> []"
  shows "RetryDelay draw c attempt = millisecond * min (RetryCapMs c)
    (if RetryStrategy c = ''linear'' then RetryBaseMs c * attempt
     else if RetryStrategy c = ''fixed'' then RetryBaseMs c
     else if RetryStrategy c = ''custom'' then
       min maxMs (max 0 (if nat attempt \<le> length sch then sch ! (nat attempt - 1) else last sch))
     else RetryBaseMs c * 2 ^ nat (attempt - 1))"
proof -
  let ?b = "RetryBaseMs c * millisecond" and ?c = "RetryCapMs c * millisecond"
  have bc: "0 < ?b" "0 < ?c" "?c < 2 ^ 53" using assms by (simp_all add: millisecond_def)
  have lin: "clampToCap (fl64 (of_int ?b * of_int attempt)) ?c = min (?b * attempt) ?c"
    using clamp_int [of "?b * attempt" ?c] bc assms(6) by simp
  have ex: "clampToCap (fl64 (of_int ?b * pow2 (attempt - 1))) ?c = min (?b * 2 ^ nat (attempt - 1)) ?c"
    using clamp_int [of "?b * 2 ^ nat (attempt - 1)" ?c] bc unfolding pow2_nat [OF assms(6)] by simp
  have idx: "nat (if attempt - 1 \<ge> int n then int n - 1 else attempt - 1) =
      (if nat attempt \<le> n then nat attempt - 1 else n - 1)" if "0 < n" for n
    using assms(6) that by (auto simp: nat_diff_distrib)
  have cu: "customDelay (CustomRetrySchedule c) attempt ?b =
      min maxMs (max 0 (if nat attempt \<le> length sch then sch ! (nat attempt - 1) else last sch)) * millisecond"
    if "RetryStrategy c = ''custom''"
  proof -
    have s: "json_int64s (CustomRetrySchedule c) = Some sch" "sch \<noteq> []" using sch [OF that] by auto
    then have "CustomRetrySchedule c \<noteq> []" by (auto simp: json_int64s_def jparse_def)
    with s assms(6) show ?thesis
      using idx [of "length sch"] by (auto simp: customDelay_def Let_def last_conv_nth min_def max_def)
  qed
  have m: "min (x * millisecond) ?c = millisecond * min (RetryCapMs c) x" for x
    by (simp add: millisecond_def min_def)
  have z: "0 \<le> millisecond" by (simp add: millisecond_def)
  define d where "d = (if RetryStrategy c = ''linear'' then clampToCap (fl64 (of_int ?b * of_int attempt)) ?c
     else if RetryStrategy c = ''fixed'' then ?b
     else if RetryStrategy c = ''custom'' then customDelay (CustomRetrySchedule c) attempt ?b
     else clampToCap (fl64 (of_int ?b * pow2 (attempt - 1))) ?c)"
  define v where "v = (if RetryStrategy c = ''linear'' then RetryBaseMs c * attempt
     else if RetryStrategy c = ''fixed'' then RetryBaseMs c
     else if RetryStrategy c = ''custom'' then
       min maxMs (max 0 (if nat attempt \<le> length sch then sch ! (nat attempt - 1) else last sch))
     else RetryBaseMs c * 2 ^ nat (attempt - 1))"
  have "RetryDelay draw c attempt = (if (if d > ?c then ?c else d) < 0 then 0 else if d > ?c then ?c else d)"
    using bc(1,2) unfolding RetryDelay_def Let_def applyJitter_none [OF assms(5)] d_def by simp
  moreover have "0 \<le> v * millisecond"
    unfolding v_def using assms(1,6) z by (intro mult_nonneg_nonneg) (auto simp: maxMs_def)
  moreover have "d = v * millisecond \<or> d = min (v * millisecond) ?c"
  proof (cases "RetryStrategy c = ''linear''")
    case True
    then have "d = min (?b * attempt) ?c" unfolding d_def using lin by simp
    then show ?thesis using True by (simp add: v_def mult.commute mult.left_commute)
  next
    case False
    have "?b * 2 ^ nat (attempt - 1) = RetryBaseMs c * 2 ^ nat (attempt - 1) * millisecond" by simp
    note ex' = ex [unfolded this]
    show ?thesis using False cu ex' unfolding d_def v_def by auto
  qed
  ultimately have "RetryDelay draw c attempt = min (v * millisecond) ?c"
    using bc(2) by (auto simp: min_def not_less)
  then show ?thesis unfolding m v_def .
qed

theorem retry_delay_formula_witness:
  "RetryDelay 3 \<lparr>RetryStrategy = ''exponential'', RetryBaseMs = 1000, RetryCapMs = 60000, RetryJitterPct = 0,
     CustomRetrySchedule = []\<rparr> 4 = 8000 * millisecond"
  using retry_delay_formula [of "\<lparr>RetryStrategy = ''exponential'', RetryBaseMs = 1000, RetryCapMs = 60000,
      RetryJitterPct = 0, CustomRetrySchedule = []\<rparr>" 4 "[]" 3]
  by simp

end
