(* ===== verification/Safe_Http.thy ===== *)
theory Safe_Http
  imports Go_Text "HOL-Library.Word" "HOL-Library.Monad_Syntax"
begin

unbundle bit_operations_syntax

text \<open>
  The guards of outbound HTTP, src/internal/deliver/safehttp.go: the dial-time refusal of non-public
  addresses, the redirect check, the URL checks at creation time, and the headers that are not
  forwarded. Addresses are 32-bit and 128-bit words, an IPv6 address with its zone, as in Go's
  \<^verbatim>\<open>net/netip\<close>, whose predicates, \<open>Prefix.Contains\<close>, \<open>ParseAddr\<close> and \<^verbatim>\<open>net.SplitHostPort\<close> are written
  out. \<open>url.Parse\<close> is a parameter: what it returns for a string is an argument of the definitions.
\<close>

section \<open>Addresses\<close>

datatype addr = AddrInvalid | Addr4 "32 word" | Addr6 "128 word" string

definition Unmap :: "addr \<Rightarrow> addr" where
  "Unmap ip = (case ip of
      Addr6 a z \<Rightarrow> if drop_bit 32 a = 0xFFFF then Addr4 (ucast a) else ip
    | _ \<Rightarrow> ip)"

definition IsValid :: "addr \<Rightarrow> bool" where
  "IsValid ip \<longleftrightarrow> ip \<noteq> AddrInvalid"

definition IsLoopback :: "addr \<Rightarrow> bool" where
  "IsLoopback ip = (case ip of
      Addr4 a \<Rightarrow> drop_bit 24 a = 127 | Addr6 a _ \<Rightarrow> a = 1 | AddrInvalid \<Rightarrow> False)"

definition IsPrivate :: "addr \<Rightarrow> bool" where
  "IsPrivate ip = (case ip of
      Addr4 a \<Rightarrow> drop_bit 24 a = 10 \<or> drop_bit 20 a = 0xAC1 \<or> drop_bit 16 a = 0xC0A8
    | Addr6 a _ \<Rightarrow> drop_bit 121 a = 0x7E
    | AddrInvalid \<Rightarrow> False)"

definition IsUnspecified :: "addr \<Rightarrow> bool" where
  "IsUnspecified ip \<longleftrightarrow> ip = Addr4 0 \<or> ip = Addr6 0 []"

definition IsLinkLocalUnicast :: "addr \<Rightarrow> bool" where
  "IsLinkLocalUnicast ip = (case ip of
      Addr4 a \<Rightarrow> drop_bit 16 a = 0xA9FE | Addr6 a _ \<Rightarrow> drop_bit 118 a = 0x3FA | AddrInvalid \<Rightarrow> False)"

definition IsMulticast :: "addr \<Rightarrow> bool" where
  "IsMulticast ip = (case ip of
      Addr4 a \<Rightarrow> drop_bit 28 a = 0xE | Addr6 a _ \<Rightarrow> drop_bit 120 a = 0xFF | AddrInvalid \<Rightarrow> False)"

definition IsLinkLocalMulticast :: "addr \<Rightarrow> bool" where
  "IsLinkLocalMulticast ip = (case ip of
      Addr4 a \<Rightarrow> drop_bit 8 a = 0xE00000
    | Addr6 a _ \<Rightarrow> drop_bit 112 a AND 0xFF0F = 0xFF02
    | AddrInvalid \<Rightarrow> False)"

text \<open>A prefix has the version of its address; an address with a zone is in no prefix.\<close>

datatype cidr = Cidr4 "32 word" nat | Cidr6 "128 word" nat

definition Contains :: "cidr \<Rightarrow> addr \<Rightarrow> bool" where
  "Contains p ip = (case (p, ip) of
      (Cidr4 n b, Addr4 a) \<Rightarrow> drop_bit (32 - b) (a XOR n) = 0
    | (Cidr6 n b, Addr6 a z) \<Rightarrow> z = [] \<and> drop_bit (128 - b) (a XOR n) = 0
    | _ \<Rightarrow> False)"

definition cgnatRange :: cidr where
  "cgnatRange = Cidr4 0x64400000 10"

definition benchmarkRange :: cidr where
  "benchmarkRange = Cidr4 0xC6120000 15"

definition extraBlocked :: "cidr list" where
  "extraBlocked = [Cidr4 0x00000000 8, Cidr4 0xC0000000 24, Cidr4 0xA83F8110 32,
     Cidr6 0x0064FF9B000000000000000000000000 96]"

definition isPublicIP :: "addr \<Rightarrow> bool" where
  "isPublicIP ip0 =
     (let ip = Unmap ip0
      in if \<not> IsValid ip then False
         else if IsLoopback ip \<or> IsPrivate ip \<or> IsUnspecified ip \<or> IsLinkLocalUnicast ip \<or>
                 IsLinkLocalMulticast ip \<or> IsMulticast ip then False
         else if Contains cgnatRange ip \<or> Contains benchmarkRange ip then False
         else if list_ex (\<lambda>p. Contains p ip) extraBlocked then False
         else True)"

section \<open>Text forms\<close>

fun split_on :: "char \<Rightarrow> string \<Rightarrow> string list" where
  "split_on c [] = [[]]"
| "split_on c (x # xs) =
     (if x = c then [] # split_on c xs
      else case split_on c xs of [] \<Rightarrow> [[x]] | w # ws \<Rightarrow> (x # w) # ws)"

text \<open>An IPv4 octet: one to three digits, no leading zero, at most 255.\<close>

definition parse_octet :: "string \<Rightarrow> int option" where
  "parse_octet s =
     (if s \<noteq> [] \<and> length s \<le> 3 \<and> list_all is_digit s \<and> (length s > 1 \<longrightarrow> hd s \<noteq> CHR ''0'') \<and> dec_val s \<le> 255
      then Some (int (dec_val s)) else None)"

definition parse4 :: "string \<Rightarrow> int option" where
  "parse4 s = (case map parse_octet (split_on (CHR ''.'') s) of
      [Some a, Some b, Some c, Some d] \<Rightarrow> Some (a * 16777216 + b * 65536 + c * 256 + d)
    | _ \<Rightarrow> None)"

definition parse_group :: "string \<Rightarrow> int option" where
  "parse_group s =
     (if s \<noteq> [] \<and> length s \<le> 4 \<and> list_all (\<lambda>c. hex_val c \<noteq> None) s
      then Some (foldl (\<lambda>n c. n * 16 + int (the (hex_val c))) 0 s) else None)"

text \<open>Colon-separated groups of 16 bits; the last may be an IPv4 address, two groups.\<close>

fun parse_groups :: "string list \<Rightarrow> int list option" where
  "parse_groups [] = Some []"
| "parse_groups [s] =
     (case parse_group s of
        Some g \<Rightarrow> Some [g]
      | None \<Rightarrow> (case parse4 s of Some n \<Rightarrow> Some [n div 65536, n mod 65536] | None \<Rightarrow> None))"
| "parse_groups (s # ss) = do { g \<leftarrow> parse_group s; gs \<leftarrow> parse_groups ss; Some (g # gs) }"

definition groups_val :: "int list \<Rightarrow> int" where
  "groups_val gs = foldl (\<lambda>n g. n * 65536 + g) 0 gs"

definition find_ellipsis :: "string \<Rightarrow> nat option" where
  "find_ellipsis s = find (\<lambda>i. take 2 (drop i s) = ''::'') [0..<length s]"

definition groups_of :: "string \<Rightarrow> int list option" where
  "groups_of s = (if s = [] then Some [] else parse_groups (split_on (CHR '':'') s))"

definition has_dot :: "string \<Rightarrow> bool" where
  "has_dot s \<longleftrightarrow> CHR ''.'' \<in> set s"

definition parse6 :: "string \<Rightarrow> int option" where
  "parse6 s = (case find_ellipsis s of
      None \<Rightarrow> do { gs \<leftarrow> groups_of s; if length gs = 8 then Some (groups_val gs) else None }
    | Some i \<Rightarrow>
        if has_dot (take i s) then None
        else do { l \<leftarrow> groups_of (take i s); r \<leftarrow> groups_of (drop (i + 2) s);
                  if length l + length r < 8
                  then Some (groups_val (l @ replicate (8 - length l - length r) 0 @ r)) else None })"

text \<open>\<open>netip.ParseAddr\<close> looks for the first dot, colon or percent sign.\<close>

definition ParseAddr :: "string \<Rightarrow> addr option" where
  "ParseAddr s = (case find (\<lambda>c. c = CHR ''.'' \<or> c = CHR '':'' \<or> c = CHR ''%'') s of
      Some c \<Rightarrow>
        if c = CHR ''.'' then map_option (\<lambda>n. Addr4 (of_int n)) (parse4 s)
        else if c = CHR '':'' then
          (let (h, z, found) = cut s (CHR ''%'')
           in if found \<and> z = [] then None else map_option (\<lambda>n. Addr6 (of_int n) z) (parse6 h))
        else None
    | None \<Rightarrow> None)"

definition last_index :: "char \<Rightarrow> string \<Rightarrow> nat option" where
  "last_index c s = map_option (\<lambda>i. length s - 1 - i) (index_byte (rev s) c)"

definition SplitHostPort :: "string \<Rightarrow> string option" where
  "SplitHostPort hp = (case last_index (CHR '':'') hp of
      None \<Rightarrow> None
    | Some i \<Rightarrow>
        if take 1 hp = ''['' then
          (case index_byte hp (CHR '']'') of
             None \<Rightarrow> None
           | Some e \<Rightarrow>
               if e + 1 = i \<and> CHR ''['' \<notin> set (drop 1 hp) \<and> CHR '']'' \<notin> set (drop (e + 1) hp)
               then Some (take (e - 1) (drop 1 hp)) else None)
        else
          (let host = take i hp
           in if CHR '':'' \<in> set host \<or> CHR ''['' \<in> set hp \<or> CHR '']'' \<in> set hp then None else Some host))"

section \<open>The dialer and the redirect check\<close>

datatype guard_error = GuardBadAddress | GuardBadIP | GuardNonPublic | GuardScheme | GuardRedirects
  | UrlInvalid | UrlScheme | UrlNoHost

definition dialControl :: "bool \<Rightarrow> string \<Rightarrow> guard_error option" where
  "dialControl allowPrivate address =
     (if allowPrivate then None
      else case SplitHostPort address of
             None \<Rightarrow> Some GuardBadAddress
           | Some host \<Rightarrow>
               (case ParseAddr host of
                  None \<Rightarrow> Some GuardBadIP
                | Some ip \<Rightarrow> if \<not> isPublicIP ip then Some GuardNonPublic else None))"

definition checkRedirect :: "string \<Rightarrow> nat \<Rightarrow> guard_error option" where
  "checkRedirect scheme via =
     (if via \<ge> 10 then Some GuardRedirects
      else if scheme \<noteq> ''http'' \<and> scheme \<noteq> ''https'' then Some GuardScheme else None)"

record url =
  u_Scheme :: string
  u_Hostname :: string

text \<open>\<open>u\<close> is the result of \<open>url.Parse\<close> on the trimmed input.\<close>

definition ValidateDestinationURL :: "url option \<Rightarrow> guard_error option" where
  "ValidateDestinationURL u = (case u of
      None \<Rightarrow> Some UrlInvalid
    | Some u \<Rightarrow>
        if u_Scheme u \<noteq> ''http'' \<and> u_Scheme u \<noteq> ''https'' then Some UrlScheme
        else if u_Hostname u = [] then Some UrlNoHost else None)"

definition IsSelfHost :: "url option \<Rightarrow> string list \<Rightarrow> bool" where
  "IsSelfHost u selfHosts = (case u of
      None \<Rightarrow> False
    | Some u \<Rightarrow> (let h = map lower_char (u_Hostname u) in list_ex (\<lambda>s. h = s) selfHosts))"

section \<open>Headers\<close>

type_synonym headers = "(string \<times> string list) list"

record http_req =
  hr_url :: string
  hr_headers :: headers
  hr_body :: bytes

record http_resp =
  rs_status :: int
  rs_headers :: headers
  rs_body :: bytes

definition equalFold :: "string \<Rightarrow> string \<Rightarrow> bool" where
  "equalFold a b \<longleftrightarrow> map lower_char a = map lower_char b"

text \<open>\<open>strconv.Atoi\<close>: an optional sign and digits, in the range of \<open>int\<close>.\<close>

definition Atoi :: "string \<Rightarrow> int option" where
  "Atoi s =
     (let neg = (take 1 s = ''-'');
          ds = (if take 1 s = ''-'' \<or> take 1 s = ''+'' then drop 1 s else s);
          v = (if neg then - int (dec_val ds) else int (dec_val ds))
      in if ds = [] \<or> \<not> list_all is_digit ds \<or> v < - (2 ^ 63) \<or> v \<ge> 2 ^ 63 then None else Some v)"

definition hopsHeader :: string where
  "hopsHeader = ''Dstream-Webhook-Hops''"

text \<open>Go visits a map in any order; the list gives the order of this iteration.\<close>

fun incomingHops :: "headers \<Rightarrow> int" where
  "incomingHops [] = 0"
| "incomingHops ((k, vs) # hs) =
     (if equalFold k hopsHeader \<and> vs \<noteq> [] then
        (case Atoi (hd vs) of Some n \<Rightarrow> if n > 0 then n else incomingHops hs | None \<Rightarrow> incomingHops hs)
      else incomingHops hs)"

definition sensitiveHeaders :: "string list" where
  "sensitiveHeaders = [''Authorization'', ''Proxy-Authorization'', ''Cookie'', ''Set-Cookie'', ''Host'',
     ''Content-Length'', ''Connection'', ''Proxy-Connection'', ''Keep-Alive'', ''Transfer-Encoding'', ''Te'',
     ''Trailer'', ''Upgrade'', ''X-Forwarded-For'', ''X-Forwarded-Host'', ''X-Forwarded-Proto'', ''X-Real-Ip'',
     ''Dstream-Webhook-Hops'']"

text \<open>\<open>http.CanonicalHeaderKey\<close>: a key with a byte that is no token character stays as it is.\<close>

definition token_char :: "char \<Rightarrow> bool" where
  "token_char c \<longleftrightarrow>
     (CHR ''0'' \<le> c \<and> c \<le> CHR ''9'') \<or> (CHR ''a'' \<le> c \<and> c \<le> CHR ''z'') \<or> (CHR ''A'' \<le> c \<and> c \<le> CHR ''Z'') \<or>
     c \<in> set ''!#$%&*+-.^_|~`'' \<or> c = CHR 0x27"

fun canon_from :: "bool \<Rightarrow> string \<Rightarrow> string" where
  "canon_from up [] = []"
| "canon_from up (c # cs) = (if up then upper_char c else lower_char c) # canon_from (c = CHR ''-'') cs"

definition CanonicalHeaderKey :: "string \<Rightarrow> string" where
  "CanonicalHeaderKey k = (if list_all token_char k then canon_from True k else k)"

definition forwardableHeader :: "string \<Rightarrow> bool" where
  "forwardableHeader key \<longleftrightarrow> CanonicalHeaderKey key \<notin> set sensitiveHeaders"

section \<open>Prefixes as intervals\<close>

lemma drop_bit_eq_unat: "drop_bit k a = (b :: 'a :: len word) \<longleftrightarrow> unat a div 2 ^ k = unat b"
  by (metis unat_drop_bit_eq drop_bit_eq_div word_unat_eq_iff)

lemma div_interval: "0 < d \<Longrightarrow> x div d = (m :: nat) \<longleftrightarrow> m * d \<le> x \<and> x < (m + 1) * d"
  by (metis Suc_eq_plus1 div_nat_eqI dividend_less_times_div mult.commute mult_Suc_right times_div_less_eq_dividend)

lemma word_xor_0: "a XOR b = 0 \<longleftrightarrow> a = (b :: 'a :: len word)"
  by (metis bit.xor_left_self bit.xor_self xor.right_neutral)

text \<open>The address ranges a delivery must never reach, as the registries give them.\<close>

definition quad :: "nat \<Rightarrow> nat \<Rightarrow> nat \<Rightarrow> nat \<Rightarrow> nat" where
  "quad a b c d = a * 16777216 + b * 65536 + c * 256 + d"

definition reserved4 :: "(nat \<times> nat) list" where
  "reserved4 =
     [(quad 0 0 0 0, quad 0 255 255 255), (quad 10 0 0 0, quad 10 255 255 255),
      (quad 100 64 0 0, quad 100 127 255 255), (quad 127 0 0 0, quad 127 255 255 255),
      (quad 168 63 129 16, quad 168 63 129 16), (quad 169 254 0 0, quad 169 254 255 255),
      (quad 172 16 0 0, quad 172 31 255 255), (quad 192 0 0 0, quad 192 0 0 255),
      (quad 192 168 0 0, quad 192 168 255 255), (quad 198 18 0 0, quad 198 19 255 255),
      (quad 224 0 0 0, quad 239 255 255 255)]"

definition in_ranges :: "(nat \<times> nat) list \<Rightarrow> nat \<Rightarrow> bool" where
  "in_ranges rs n \<longleftrightarrow> list_ex (\<lambda>(lo, hi). lo \<le> n \<and> n \<le> hi) rs"

lemma list_ex_rules: "list_ex P [] = False" "list_ex P (x # xs) = (P x \<or> list_ex P xs)"
  by simp_all

lemmas word_ranges = word_xor_0 drop_bit_eq_unat div_interval quad_def

lemma preds4:
  "IsLoopback (Addr4 a) \<longleftrightarrow> quad 127 0 0 0 \<le> unat a \<and> unat a \<le> quad 127 255 255 255"
  "IsPrivate (Addr4 a) \<longleftrightarrow> quad 10 0 0 0 \<le> unat a \<and> unat a \<le> quad 10 255 255 255 \<or>
     quad 172 16 0 0 \<le> unat a \<and> unat a \<le> quad 172 31 255 255 \<or>
     quad 192 168 0 0 \<le> unat a \<and> unat a \<le> quad 192 168 255 255"
  "IsLinkLocalUnicast (Addr4 a) \<longleftrightarrow> quad 169 254 0 0 \<le> unat a \<and> unat a \<le> quad 169 254 255 255"
  "IsMulticast (Addr4 a) \<longleftrightarrow> quad 224 0 0 0 \<le> unat a \<and> unat a \<le> quad 239 255 255 255"
  "IsLinkLocalMulticast (Addr4 a) \<longleftrightarrow> quad 224 0 0 0 \<le> unat a \<and> unat a \<le> quad 224 0 0 255"
  by (auto simp: IsLoopback_def IsPrivate_def IsLinkLocalUnicast_def IsMulticast_def IsLinkLocalMulticast_def word_ranges)

lemma word_eq_168: "a = 2822734096 \<longleftrightarrow> unat (a :: 32 word) = 2822734096"
  by (simp add: word_unat_eq_iff)

lemma prefixes4:
  "Contains cgnatRange (Addr4 a) \<longleftrightarrow> quad 100 64 0 0 \<le> unat a \<and> unat a \<le> quad 100 127 255 255"
  "Contains benchmarkRange (Addr4 a) \<longleftrightarrow> quad 198 18 0 0 \<le> unat a \<and> unat a \<le> quad 198 19 255 255"
  "list_ex (\<lambda>p. Contains p (Addr4 a)) extraBlocked \<longleftrightarrow> unat a \<le> quad 0 255 255 255 \<or>
     quad 192 0 0 0 \<le> unat a \<and> unat a \<le> quad 192 0 0 255 \<or> unat a = quad 168 63 129 16"
  by (auto simp: Contains_def cgnatRange_def benchmarkRange_def extraBlocked_def word_ranges word_eq_168)

text \<open>
  C14: the dial guard on IPv4. An IPv4 address, in either of its forms, is taken for public exactly
  when it lies in none of the reserved ranges: this network, private, shared (CGNAT), loopback,
  Azure's wire server, link-local with the cloud metadata address, protocol assignments,
  benchmarking and multicast.
\<close>

theorem public_ipv4:
  "(isPublicIP (Addr4 a) \<longleftrightarrow> \<not> in_ranges reserved4 (unat a)) \<and>
   isPublicIP (Addr6 (of_nat (0xFFFF * 2 ^ 32 + unat a)) z) = isPublicIP (Addr4 a)"
proof
  define m where "m = 0xFFFF * 2 ^ 32 + unat a"
  have a: "unat a < 2 ^ 32" using unsigned_less [of a] by simp
  then have "m < 2 ^ 128" by (simp add: m_def)
  then have "unat (of_nat m :: 128 word) = m" by (simp add: unsigned_of_nat take_bit_nat_eq_self)
  moreover have "m div 2 ^ 32 = 0xFFFF" using a by (simp add: m_def div_interval)
  ultimately have "drop_bit 32 (of_nat m :: 128 word) = 0xFFFF" by (simp add: drop_bit_eq_unat)
  moreover have "ucast (of_nat m :: 128 word) = a"
  proof -
    have "ucast (of_nat m :: 128 word) = (of_nat m :: 32 word)"
      using take_bit_nat_eq_self [OF \<open>m < 2 ^ 128\<close>] by (simp add: unsigned_of_nat)
    also have "\<dots> = of_nat 0xFFFF * 2 ^ 32 + of_nat (unat a)" unfolding m_def by (simp only: of_nat_add of_nat_mult of_nat_power of_nat_numeral)
    also have "(2 :: 32 word) ^ 32 = 0" by simp
    finally show ?thesis by simp
  qed
  ultimately show "isPublicIP (Addr6 (of_nat (0xFFFF * 2 ^ 32 + unat a)) z) = isPublicIP (Addr4 a)"
    unfolding m_def [symmetric] isPublicIP_def Unmap_def by simp
  show "isPublicIP (Addr4 a) \<longleftrightarrow> \<not> in_ranges reserved4 (unat a)"
  proof -
    have "isPublicIP (Addr4 a) \<longleftrightarrow> \<not> (IsLoopback (Addr4 a) \<or> IsPrivate (Addr4 a) \<or> unat a = 0 \<or>
        IsLinkLocalUnicast (Addr4 a) \<or> IsLinkLocalMulticast (Addr4 a) \<or> IsMulticast (Addr4 a) \<or>
        Contains cgnatRange (Addr4 a) \<or> Contains benchmarkRange (Addr4 a) \<or>
        list_ex (\<lambda>p. Contains p (Addr4 a)) extraBlocked)"
      by (auto simp: isPublicIP_def Unmap_def IsValid_def IsUnspecified_def unat_eq_zero Let_def)
    moreover have "unat a \<le> quad 224 0 0 255 \<Longrightarrow> unat a \<le> quad 239 255 255 255" by (simp add: quad_def)
    moreover have "unat a = 0 \<Longrightarrow> unat a \<le> quad 0 255 255 255" "quad 0 0 0 0 \<le> unat a" by (simp_all add: quad_def)
    moreover have "unat a = quad 168 63 129 16 \<longleftrightarrow> quad 168 63 129 16 \<le> unat a \<and> unat a \<le> quad 168 63 129 16" by linarith
    ultimately show ?thesis
      unfolding preds4 prefixes4 in_ranges_def reserved4_def list_ex_rules prod.case by blast
  qed
qed

text \<open>The IPv6 ranges, and those that an address with a zone escapes.\<close>

definition reserved6 :: "(nat \<times> nat) list" where
  "reserved6 = [(1, 1), (0xFC * 2 ^ 120, 0xFE * 2 ^ 120 - 1), (0xFE80 * 2 ^ 112, 0xFEC0 * 2 ^ 112 - 1),
     (0xFF * 2 ^ 120, 2 ^ 128 - 1)]"

definition unzoned6 :: "(nat \<times> nat) list" where
  "unzoned6 = [(0, 0), (0x64FF9B * 2 ^ 96, 0x64FF9B * 2 ^ 96 + 2 ^ 32 - 1)]"

lemma preds6:
  "IsLoopback (Addr6 a z) \<longleftrightarrow> unat a = 1"
  "IsPrivate (Addr6 a z) \<longleftrightarrow> 0xFC * 2 ^ 120 \<le> unat a \<and> unat a \<le> 0xFE * 2 ^ 120 - 1"
  "IsLinkLocalUnicast (Addr6 a z) \<longleftrightarrow> 0xFE80 * 2 ^ 112 \<le> unat a \<and> unat a \<le> 0xFEC0 * 2 ^ 112 - 1"
  "IsMulticast (Addr6 a z) \<longleftrightarrow> 0xFF * 2 ^ 120 \<le> unat a \<and> unat a \<le> 2 ^ 128 - 1"
  using unsigned_less [of a]
  by (auto simp: IsLoopback_def IsPrivate_def IsLinkLocalUnicast_def IsMulticast_def word_ranges word_unat_eq_iff [of _ 1])

lemma prefixes6:
  "\<not> Contains cgnatRange (Addr6 a z)" "\<not> Contains benchmarkRange (Addr6 a z)"
  "list_ex (\<lambda>p. Contains p (Addr6 a z)) extraBlocked \<longleftrightarrow>
     z = [] \<and> 0x64FF9B * 2 ^ 96 \<le> unat a \<and> unat a \<le> 0x64FF9B * 2 ^ 96 + 2 ^ 32 - 1"
  by (auto simp: Contains_def cgnatRange_def benchmarkRange_def extraBlocked_def word_ranges)

lemma linklocal_multicast6: "IsLinkLocalMulticast (Addr6 a z) \<Longrightarrow> IsMulticast (Addr6 a z)"
proof -
  assume "IsLinkLocalMulticast (Addr6 a z)"
  then have "drop_bit 112 a AND 0xFF0F = 0xFF02" by (simp add: IsLinkLocalMulticast_def)
  then have "drop_bit 8 (drop_bit 112 a AND 0xFF0F) = drop_bit 8 0xFF02" by simp
  then have "drop_bit 120 a AND 0xFF = 0xFF" by (simp add: drop_bit_and)
  moreover have "drop_bit 120 a AND 0xFF = take_bit 8 (drop_bit 120 a)"
    by (simp add: take_bit_eq_mask mask_eq_exp_minus_1)
  moreover have "take_bit 8 (drop_bit 120 a) = drop_bit 120 a"
    by (rule bit_word_eqI) (auto simp: bit_simps dest: bit_imp_le_length)
  ultimately show ?thesis by (simp add: IsMulticast_def)
qed

lemma public_zero: "isPublicIP (Addr6 0 z) \<longleftrightarrow> z \<noteq> []"
  by (simp add: isPublicIP_def Unmap_def IsValid_def IsLoopback_def IsPrivate_def IsUnspecified_def
      IsLinkLocalUnicast_def IsLinkLocalMulticast_def IsMulticast_def Contains_def cgnatRange_def
      benchmarkRange_def extraBlocked_def)

text \<open>
  the dial guard on IPv6. An IPv6 address that embeds no IPv4 address is taken for public exactly
  when it is outside loopback, unique-local, link-local and multicast space and, if it carries no
  zone, outside the unspecified address and the NAT64 prefix. (With a zone the last two pass: see the
  next statement.)
\<close>

theorem public_ipv6:
  assumes "drop_bit 32 a \<noteq> 0xFFFF"
  shows "isPublicIP (Addr6 a z) \<longleftrightarrow>
    \<not> in_ranges reserved6 (unat a) \<and> (z = [] \<longrightarrow> \<not> in_ranges unzoned6 (unat a))"
proof -
  have "isPublicIP (Addr6 a z) \<longleftrightarrow> \<not> (IsLoopback (Addr6 a z) \<or> IsPrivate (Addr6 a z) \<or> (z = [] \<and> unat a = 0) \<or>
      IsLinkLocalUnicast (Addr6 a z) \<or> IsMulticast (Addr6 a z) \<or>
      list_ex (\<lambda>p. Contains p (Addr6 a z)) extraBlocked)"
    using linklocal_multicast6 [of a z] assms
    by (auto simp: isPublicIP_def Unmap_def IsValid_def IsUnspecified_def unat_eq_zero Let_def prefixes6(1,2))
  moreover have "unat a = 1 \<longleftrightarrow> 1 \<le> unat a \<and> unat a \<le> 1" "unat a = 0 \<longleftrightarrow> 0 \<le> unat a \<and> unat a \<le> 0" by linarith+
  ultimately show ?thesis
    unfolding preds6 prefixes6 in_ranges_def reserved6_def unzoned6_def list_ex_rules prod.case by blast
qed

theorem public_ipv6_witness:
  "isPublicIP (Addr6 0x20014860486000000000000000008888 []) \<longleftrightarrow>
    \<not> in_ranges reserved6 (unat (0x20014860486000000000000000008888 :: 128 word)) \<and>
    ([] = ([] :: string) \<longrightarrow> \<not> in_ranges unzoned6 (unat (0x20014860486000000000000000008888 :: 128 word)))"
  by (rule public_ipv6) simp

text \<open>
  the zone escape. A dial to the unspecified address written with a zone, which the kernel takes
  for the local host, passes the guard, while without a zone it is refused: \<open>netip\<close> compares zones in
  \<open>IsUnspecified\<close> and matches no prefix for an address with a zone.
\<close>

theorem zoned_unspecified_dialed:
  "dialControl False ''[::%lo]:80'' = None \<and> dialControl False ''[::]:80'' = Some GuardNonPublic"
proof -
  have h: "SplitHostPort ''[::%lo]:80'' = Some ''::%lo''" "SplitHostPort ''[::]:80'' = Some ''::''"
    by (simp_all add: SplitHostPort_def last_index_def)
  have p: "parse6 ''::'' = Some 0"
    by (simp add: parse6_def find_ellipsis_def has_dot_def groups_of_def groups_val_def upt_rec eval_nat_numeral)
  have "ParseAddr ''::%lo'' = Some (Addr6 0 ''lo'')" "ParseAddr ''::'' = Some (Addr6 0 [])"
    using p by (simp_all add: ParseAddr_def cut_def)
  moreover have "isPublicIP (Addr6 0 ''lo'')" "\<not> isPublicIP (Addr6 0 [])"
    using public_zero [of "''lo''"] public_zero [of "[]"] by simp_all
  ultimately show ?thesis using h by (simp add: dialControl_def)
qed

section \<open>Forwarded headers\<close>

lemma of_char_char_of [simp]: "n < 256 \<Longrightarrow> of_char (char_of n :: char) = (n :: nat)"
  by (simp add: take_bit_nat_eq_self)

lemma lower_cases:
  obtains "lower_char c = c" "\<not> (65 \<le> (of_char c :: nat) \<and> (of_char c :: nat) \<le> 90)"
  | "65 \<le> (of_char c :: nat)" "(of_char c :: nat) \<le> 90" "of_char (lower_char c) = (of_char c + 32 :: nat)"
proof (cases "65 \<le> (of_char c :: nat) \<and> (of_char c :: nat) \<le> 90")
  case True
  then have "lower_char c = char_of (of_char c + 32 :: nat)" by (simp add: lower_char_def less_eq_char_def)
  with True that(2) show thesis by simp
next
  case False
  then have "lower_char c = c" by (auto simp: lower_char_def less_eq_char_def)
  with False that(1) show thesis by blast
qed

lemma lower_lower [simp]: "lower_char (lower_char c) = lower_char c"
  by (cases c rule: lower_cases) (auto simp: lower_char_def [of "lower_char c"] less_eq_char_def)

lemma upper_lower [simp]: "upper_char (lower_char c) = upper_char c"
proof (cases c rule: lower_cases)
  case 2
  then have "upper_char (lower_char c) = char_of (of_char c :: nat)"
    by (simp add: upper_char_def less_eq_char_def)
  with 2 show ?thesis by (simp add: upper_char_def less_eq_char_def)
qed simp

lemma lower_dash: "lower_char c = CHR ''-'' \<longleftrightarrow> c = CHR ''-''"
proof (cases c rule: lower_cases)
  case 2
  then have "(of_char (lower_char c) :: nat) \<noteq> of_char (CHR ''-'')" "(of_char c :: nat) \<noteq> of_char (CHR ''-'')" by auto
  then show ?thesis by metis
qed simp

lemma canon_lower: "canon_from up (map lower_char k) = canon_from up k"
  by (induction k arbitrary: up) (auto simp: lower_dash)

lemma token_lower: "token_char (lower_char c) \<longleftrightarrow> token_char c"
proof (cases c rule: lower_cases)
  case 2
  then have "token_char c" "token_char (lower_char c)"
    unfolding token_char_def by (simp_all add: less_eq_char_def)
  then show ?thesis by simp
qed simp

lemma canonical_fold:
  assumes "equalFold k h" "list_all token_char h"
  shows "CanonicalHeaderKey k = canon_from True h"
proof -
  have m: "map lower_char k = map lower_char h" using assms(1) by (simp add: equalFold_def)
  have "list_all token_char k \<longleftrightarrow> list_all token_char (map lower_char k)" for k
    by (induction k) (simp_all add: token_lower)
  with m assms(2) have "list_all token_char k" by metis
  then show ?thesis using m canon_lower [of True k] canon_lower [of True h] by (simp add: CanonicalHeaderKey_def)
qed

lemma sensitive_canonical: "h \<in> set sensitiveHeaders \<Longrightarrow> list_all token_char h \<and> canon_from True h = h"
proof -
  have "list_all (\<lambda>h. list_all token_char h \<and> canon_from True h = h) sensitiveHeaders" by code_simp
  then show "h \<in> set sensitiveHeaders \<Longrightarrow> ?thesis" by (auto simp: list_all_iff)
qed

lemma sensitive_blocked: "h \<in> set sensitiveHeaders \<Longrightarrow> equalFold k h \<Longrightarrow> \<not> forwardableHeader k"
  using sensitive_canonical canonical_fold by (simp add: forwardableHeader_def)

end
