(* ===== verification/Go_Time.thy ===== *)
theory Go_Time
  imports Go_Text
begin

text \<open>
  Calendar dates of the proleptic Gregorian calendar, as Go's \<^verbatim>\<open>time\<close> package computes them in UTC,
  and the layout RFC3339Nano. An instant is a number of nanoseconds since the Unix epoch. The date of a
  day number is proved to be a date of that day, and the first of its month to have that month.
\<close>

text \<open>Conversion to a 64-bit signed integer: an overflow wraps around.\<close>

definition to_int64 :: "int \<Rightarrow> int" where
  "to_int64 i = (i + 2 ^ 63) mod 2 ^ 64 - 2 ^ 63"

definition second :: int where
  "second = 1000000000"

definition hour :: int where
  "hour = 3600 * second"

definition leap :: "int \<Rightarrow> bool" where
  "leap y \<longleftrightarrow> y mod 4 = 0 \<and> (y mod 100 \<noteq> 0 \<or> y mod 400 = 0)"

text \<open>Day number of the first day of March-based year \<open>y\<close>, counted from 0000-03-01.\<close>

definition year_days :: "int \<Rightarrow> int" where
  "year_days y = 365 * y + y div 4 - y div 100 + y div 400"

text \<open>Days before the \<open>m\<close>-th month of a year that starts in March.\<close>

definition month_days :: "int \<Rightarrow> int" where
  "month_days m = (153 * m + 2) div 5"

text \<open>The day number of a date, with 1970-01-01 as day 0.\<close>

definition days_of :: "int \<Rightarrow> int \<Rightarrow> int \<Rightarrow> int" where
  "days_of y m d =
     (let y' = (if m \<le> 2 then y - 1 else y);
          m' = (if m \<le> 2 then m + 9 else m - 3)
      in year_days y' + month_days m' + d - 1 - 719468)"

text \<open>
  The date of a day number, through the cycles of 400, 100, 4 and 1 years as \<^verbatim>\<open>time.Time.Date\<close> does: the
  last day of a cycle of 400 years, and of 4 years, belongs to the fourth part of it.
\<close>

definition cycles :: "int \<Rightarrow> int \<times> int \<times> int \<times> int \<times> int" where
  "cycles z =
     (let doe = z mod 146097;
          c = min 3 (doe div 36524);
          r = doe - 36524 * c;
          s = r mod 1461;
          a = min 3 (s div 365)
      in (z div 146097, c, r div 1461, a, s - 365 * a))"

definition date_of :: "int \<Rightarrow> int \<times> int \<times> int" where
  "date_of n =
     (let (era, c, q, a, doy) = cycles (n + 719468);
          mp = (5 * doy + 2) div 153;
          m = (if mp < 10 then mp + 3 else mp - 9)
      in (400 * era + 100 * c + 4 * q + a + (if m \<le> 2 then 1 else 0), m, doy - month_days mp + 1))"

definition Unix :: "int \<Rightarrow> int" where
  "Unix t = t div second"

definition UnixMilli :: "int \<Rightarrow> int" where
  "UnixMilli t = t div 1000000"

definition day_of :: "int \<Rightarrow> int" where
  "day_of t = t div (24 * hour)"

text \<open>Layout RFC3339Nano in UTC, years 0 to 9999: no fraction, or one without trailing zeros.\<close>

definition pad :: "nat \<Rightarrow> int \<Rightarrow> string" where
  "pad w i = (let s = show_nat (nat i) in replicate (w - length s) CHR ''0'' @ s)"

definition strip_zeros :: "string \<Rightarrow> string" where
  "strip_zeros s = rev (dropWhile (\<lambda>c. c = CHR ''0'') (rev s))"

definition rfc3339 :: "int \<Rightarrow> string" where
  "rfc3339 t =
     (let (y, m, d) = date_of (day_of t);
          sod = Unix t mod 86400;
          frac = strip_zeros (pad 9 (t mod second))
      in pad 4 y @ ''-'' @ pad 2 m @ ''-'' @ pad 2 d @ ''T'' @
         pad 2 (sod div 3600) @ '':'' @ pad 2 (sod div 60 mod 60) @ '':'' @ pad 2 (sod mod 60) @
         (if frac = [] then [] else CHR ''.'' # frac) @ ''Z'')"

section \<open>The conversions\<close>

text \<open>The bounds of a cycle decomposition.\<close>

definition cycles_ok :: "int \<Rightarrow> int \<Rightarrow> int \<Rightarrow> int \<Rightarrow> bool" where
  "cycles_ok c q a doy \<longleftrightarrow> 0 \<le> c \<and> c \<le> 3 \<and> 0 \<le> q \<and> q \<le> 24 \<and> 0 \<le> a \<and> a \<le> 3 \<and> 0 \<le> doy \<and>
     (if a < 3 then doy < 365 else doy < 366) \<and> (a = 3 \<longrightarrow> q = 24 \<longrightarrow> c < 3 \<longrightarrow> doy < 365)"

definition cycle_sum :: "int \<Rightarrow> int \<Rightarrow> int \<Rightarrow> int \<Rightarrow> int \<Rightarrow> int" where
  "cycle_sum era c q a doy = 146097 * era + 36524 * c + 1461 * q + 365 * a + doy"

lemma cycles_parts:
  assumes "cycles z = (era, c, q, a, doy)"
  defines "r \<equiv> z mod 146097 - 36524 * c"
  shows "era = z div 146097" "c = min 3 (z mod 146097 div 36524)" "q = r div 1461"
    "a = min 3 (r mod 1461 div 365)" "doy = r mod 1461 - 365 * a"
proof -
  note eq = assms(1)[symmetric, unfolded cycles_def Let_def prod.inject]
  show "era = z div 146097" using eq by blast
  show c: "c = min 3 (z mod 146097 div 36524)" using eq by blast
  show "q = r div 1461" using eq unfolding r_def c[symmetric] by blast
  show a: "a = min 3 (r mod 1461 div 365)" using eq unfolding r_def c[symmetric] by blast
  have "doy = r mod 1461 - 365 * min 3 (r mod 1461 div 365)" using eq unfolding r_def c[symmetric] by blast
  then show "doy = r mod 1461 - 365 * a" unfolding a[symmetric] .
qed

lemma cycles_sum:
  assumes "cycles z = (era, c, q, a, doy)"
  shows "cycle_sum era c q a doy = z"
proof -
  define doe where "doe = z mod 146097"
  define r where "r = doe - 36524 * c"
  have e: "era = z div 146097" and q: "q = r div 1461" and y: "doy = r mod 1461 - 365 * a"
    unfolding r_def doe_def by (rule cycles_parts[OF assms])+
  have "146097 * era + doe = z" "1461 * q + r mod 1461 = r" by (simp_all add: e q doe_def)
  then show ?thesis by (simp add: cycle_sum_def y r_def)
qed

lemma cycles_bounds:
  assumes "cycles z = (era, c, q, a, doy)"
  shows "cycles_ok c q a doy"
proof -
  define doe where "doe = z mod 146097"
  define r where "r = doe - 36524 * c"
  define s where "s = r mod 1461"
  have c: "c = min 3 (doe div 36524)" and q: "q = r div 1461" and a: "a = min 3 (s div 365)"
    and y: "doy = s - 365 * a"
    unfolding r_def doe_def s_def by (rule cycles_parts[OF assms])+
  have e: "0 \<le> doe" "doe < 146097" by (simp_all add: doe_def)
  have r: "0 \<le> c" "c \<le> 3" "0 \<le> r" "if c < 3 then r < 36524 else r < 36525"
    using e by (auto simp: c r_def min_def)
  then have q': "0 \<le> q" "q \<le> 24" by (auto simp: q split: if_splits)
  have s: "0 \<le> s" "s < 1461" "r = 1461 * q + s" by (simp_all add: s_def q)
  have "0 \<le> a" "a \<le> 3" "0 \<le> doy" "if a < 3 then doy < 365 else doy < 366"
    using s by (auto simp: a y min_def)
  moreover have "a = 3 \<longrightarrow> q = 24 \<longrightarrow> c < 3 \<longrightarrow> doy < 365"
    using r s by (auto simp: y)
  ultimately show ?thesis using r q' by (simp add: cycles_ok_def)
qed

lemma cycles_unique:
  assumes "cycles_ok c q a doy"
  shows "cycles (cycle_sum era c q a doy) = (era, c, q, a, doy)"
proof -
  define s where "s = 365 * a + doy"
  define r where "r = 1461 * q + s"
  define doe where "doe = 36524 * c + r"
  have s: "0 \<le> s" "s < 1461" using assms by (auto simp: s_def cycles_ok_def split: if_splits)
  have "q = 24 \<Longrightarrow> c < 3 \<Longrightarrow> s < 1460"
    using assms by (cases "a = 3") (auto simp: s_def cycles_ok_def)
  then have r: "0 \<le> r" "c < 3 \<Longrightarrow> r < 36524" "r < 36525"
    using assms s unfolding r_def cycles_ok_def by (linarith, cases "q = 24", linarith+)
  then have e: "0 \<le> doe" "doe < 146097" using assms by (auto simp: doe_def cycles_ok_def)
  have z: "cycle_sum era c q a doy = doe + era * 146097"
    by (simp add: cycle_sum_def doe_def r_def s_def)
  have 1: "cycle_sum era c q a doy div 146097 = era" "cycle_sum era c q a doy mod 146097 = doe"
    using e unfolding z by simp_all
  have c: "0 \<le> c" "c \<le> 3" using assms by (simp_all add: cycles_ok_def)
  have 2: "min 3 (doe div 36524) = c"
    using r c by (cases "c < 3") (auto simp: doe_def)
  have 3: "r div 1461 = q" "r mod 1461 = s" using s by (simp_all add: r_def)
  have 4: "min 3 (s div 365) = a"
    using assms by (auto simp: s_def cycles_ok_def min_def split: if_splits)
  have 5: "doe - 36524 * c = r" "s - 365 * a = doy" by (simp_all add: doe_def s_def)
  show ?thesis unfolding cycles_def Let_def 1 2 5 3 4 ..
qed

lemma year_days_cycles:
  assumes "cycles_ok c q a doy"
  shows "year_days (400 * era + 100 * c + 4 * q + a) = cycle_sum era c q a 0"
proof -
  let ?y = "400 * era + 100 * c + 4 * q + a"
  have b: "0 \<le> c" "c \<le> 3" "0 \<le> q" "q \<le> 24" "0 \<le> a" "a \<le> 3" using assms by (auto simp: cycles_ok_def)
  have "?y div 4 = 100 * era + 25 * c + q" "?y div 100 = 4 * era + c" "?y div 400 = era"
    using b by linarith+
  then show ?thesis by (simp add: year_days_def cycle_sum_def)
qed

lemma month_bounds:
  assumes "0 \<le> doy" "doy < 366"
  defines "mp \<equiv> (5 * doy + 2) div 153"
  shows "0 \<le> mp" "mp \<le> 11" "month_days mp \<le> doy" "doy - month_days mp < 31"
    "(5 * month_days mp + 2) div 153 = mp"
  using assms by (auto simp: month_days_def)

text \<open>The date of a day number: a month, a day of at most 31, and the number of that date again.\<close>

lemma date_of_valid:
  assumes "date_of n = (y, m, d)"
  shows "1 \<le> m" "m \<le> 12" "1 \<le> d" "d \<le> 31" "days_of y m d = n" "date_of (days_of y m 1) = (y, m, 1)"
proof -
  obtain era c q a doy where z: "cycles (n + 719468) = (era, c, q, a, doy)" by (metis prod_cases5)
  note ok = cycles_bounds[OF z]
  define mp where "mp = (5 * doy + 2) div 153"
  have m: "m = (if mp < 10 then mp + 3 else mp - 9)" and d: "d = doy - month_days mp + 1"
    and y: "y = 400 * era + 100 * c + 4 * q + a + (if m \<le> 2 then 1 else 0)"
    using assms by (auto simp: date_of_def z Let_def mp_def)
  have doy: "0 \<le> doy" "doy < 366" using ok by (auto simp: cycles_ok_def split: if_splits)
  note mb = month_bounds[OF doy, folded mp_def]
  show "1 \<le> m" "m \<le> 12" "1 \<le> d" "d \<le> 31" using mb by (auto simp: m d)
  have mp': "(if m \<le> 2 then m + 9 else m - 3) = mp" and y': "(if m \<le> 2 then y - 1 else y) = 400 * era + 100 * c + 4 * q + a"
    using mb by (auto simp: m y)
  have days: "days_of y m x = cycle_sum era c q a 0 + month_days mp + x - 1 - 719468" for x
    by (simp add: days_of_def mp' y' year_days_cycles[OF ok])
  show "days_of y m d = n"
    unfolding days using cycles_sum[OF z] by (simp add: d cycle_sum_def)
  have "0 \<le> month_days mp" using mb(1) by (simp add: month_days_def)
  then have ok1: "cycles_ok c q a (month_days mp)"
    using ok mb by (auto simp: cycles_ok_def split: if_splits)
  have "days_of y m 1 + 719468 = cycle_sum era c q a (month_days mp)"
    unfolding days by (simp add: cycle_sum_def)
  then show "date_of (days_of y m 1) = (y, m, 1)"
    by (simp add: date_of_def cycles_unique[OF ok1] mb(5) Let_def m y)
qed

end
