(* ===== verification/Store_Events.thy ===== *)
theory Store_Events
  imports Safe_Http
begin

text \<open>
  The tables behind event delivery and their statements (src/internal/store/events.sql.go,
  attempts.sql.go, connections.sql.go): events, connections, destinations, requests and attempts as
  lists of rows, each statement as a function on the database. A statement runs atomically; whether
  the call succeeds is decided by the caller through \<open>run_io\<close>. Identifiers are canonical UUID texts,
  instants are integers, and \<open>now\<close> is the time of the statement's transaction.
\<close>

section \<open>Rows\<close>

record event_row =
  ev_id :: string
  ev_request_id :: string
  ev_connection_id :: string
  ev_org_id :: string
  ev_status :: string
  ev_attempt_count :: int
  ev_last_attempt_at :: "int option"
  ev_next_retry_at :: "int option"
  ev_created_at :: int
  ev_updated_at :: int
  ev_is_test :: bool

record conn_row =
  cn_id :: string
  cn_source_id :: string
  cn_destination_id :: string
  cn_max_retries :: int
  cn_retry_strategy :: string
  cn_retry_base_ms :: int
  cn_retry_cap_ms :: int
  cn_retry_jitter_pct :: int
  cn_custom_retry_schedule :: bytes
  cn_filter_expr :: "string option"
  cn_transform_js :: "string option"
  cn_enabled :: bool
  cn_name :: "string option"
  cn_created_at :: int
  cn_updated_at :: int

record dest_row =
  ds_id :: string
  ds_type :: string
  ds_url :: "string option"
  ds_rate_limit_rps :: "int option"
  ds_rate_limit_burst :: "int option"
  ds_max_inflight :: "int option"
  ds_org_id :: string
  ds_name :: string
  ds_description :: string
  ds_auth_config :: bytes
  ds_created_at :: int
  ds_updated_at :: int

record req_row =
  rq_id :: string
  rq_body_ref :: string
  rq_headers :: bytes
  rq_http_method :: string
  rq_http_path :: string
  rq_source_id :: string
  rq_body_hash :: string
  rq_body_size :: int
  rq_content_type :: "string option"
  rq_sig_verified :: bool
  rq_ingest_ip :: "addr option"
  rq_received_at :: int

text \<open>What went wrong with an attempt, for the text of \<^verbatim>\<open>error_message\<close>.\<close>

datatype attempt_error = AeNoUrl | AeType string | AeBadUrl | AeBody | AeFilter | AeTransform | AeRequest | AeHttp | AeText string

record attempt_row =
  at_event_id :: string
  at_attempt_num :: int
  at_response_status :: "int option"
  at_response_headers :: bytes
  at_response_body :: bytes
  at_duration_ms :: "int option"
  at_queued_in_ms :: "int option"
  at_error_message :: "attempt_error option"
  at_attempted_at :: int

record source_row =
  so_id :: string
  so_org_id :: string
  so_name :: string
  so_type :: string
  so_ingest_token :: string
  so_signing_config :: bytes
  so_description :: string
  so_allowed_methods :: "string list"
  so_enabled :: bool
  so_created_at :: int
  so_updated_at :: int

record body_row =
  bd_request_id :: string
  bd_body :: "bytes option"
  bd_stored_at :: int

record rule_row =
  ru_id :: string
  ru_org_id :: string
  ru_source_id :: string
  ru_name :: string
  ru_filter_expr :: "string option"
  ru_cap :: int
  ru_enabled :: bool
  ru_created_at :: int
  ru_updated_at :: int

record bookmark_row =
  bm_id :: string
  bm_org_id :: string
  bm_request_id :: string
  bm_name :: string
  bm_description :: string
  bm_tags :: "string list"
  bm_rule_id :: "string option"
  bm_created_at :: int

record scenario_row =
  sn_id :: string
  sn_org_id :: string
  sn_name :: string
  sn_description :: string
  sn_created_at :: int
  sn_updated_at :: int

record step_row =
  sp_scenario_id :: string
  sp_position :: int
  sp_bookmark_id :: string
  sp_delay_ms :: int

record db =
  t_events :: "event_row list"
  t_connections :: "conn_row list"
  t_destinations :: "dest_row list"
  t_requests :: "req_row list"
  t_attempts :: "attempt_row list"
  t_sources :: "source_row list"
  t_bodies :: "body_row list"
  t_rules :: "rule_row list"
  t_bookmarks :: "bookmark_row list"
  t_scenarios :: "scenario_row list"
  t_steps :: "step_row list"

text \<open>A row of GetEventForDelivery: the four joined rows.\<close>

record delivery_row =
  d_event :: event_row
  d_conn :: conn_row
  d_dest :: dest_row
  d_req :: req_row

section \<open>Statements\<close>

definition find_event :: "string \<Rightarrow> db \<Rightarrow> event_row option" where
  "find_event i d = find (\<lambda>e. ev_id e = i) (t_events d)"

definition GetConnectionByID :: "string \<Rightarrow> db \<Rightarrow> conn_row option" where
  "GetConnectionByID i d = find (\<lambda>c. cn_id c = i) (t_connections d)"

definition find_dest :: "string \<Rightarrow> db \<Rightarrow> dest_row option" where
  "find_dest i d = find (\<lambda>x. ds_id x = i) (t_destinations d)"

definition find_req :: "string \<Rightarrow> db \<Rightarrow> req_row option" where
  "find_req i d = find (\<lambda>x. rq_id x = i) (t_requests d)"

definition GetEventForDelivery :: "string \<Rightarrow> db \<Rightarrow> delivery_row option" where
  "GetEventForDelivery i d =
     (case find_event i d of None \<Rightarrow> None
      | Some e \<Rightarrow>
     (case GetConnectionByID (ev_connection_id e) d of None \<Rightarrow> None
      | Some c \<Rightarrow>
     (case find_dest (cn_destination_id c) d of None \<Rightarrow> None
      | Some x \<Rightarrow>
     (case find_req (ev_request_id e) d of None \<Rightarrow> None
      | Some r \<Rightarrow> Some \<lparr>d_event = e, d_conn = c, d_dest = x, d_req = r\<rparr>))))"

definition upd_event :: "string \<Rightarrow> (event_row \<Rightarrow> event_row) \<Rightarrow> db \<Rightarrow> db" where
  "upd_event i f d = d\<lparr>t_events := map (\<lambda>e. if ev_id e = i then f e else e) (t_events d)\<rparr>"

definition MarkEventDelivered :: "int \<Rightarrow> string \<Rightarrow> db \<Rightarrow> db" where
  "MarkEventDelivered now i = upd_event i (\<lambda>e. e\<lparr>ev_status := ''delivered'', ev_last_attempt_at := Some now,
     ev_next_retry_at := None, ev_updated_at := now\<rparr>)"

definition MarkEventDiscarded :: "int \<Rightarrow> string \<Rightarrow> db \<Rightarrow> db" where
  "MarkEventDiscarded now i = upd_event i (\<lambda>e. e\<lparr>ev_status := ''discarded'', ev_next_retry_at := None,
     ev_updated_at := now\<rparr>)"

definition MarkEventFailed :: "int \<Rightarrow> string \<Rightarrow> db \<Rightarrow> db" where
  "MarkEventFailed now i = upd_event i (\<lambda>e. e\<lparr>ev_status := ''failed'', ev_last_attempt_at := Some now,
     ev_next_retry_at := None, ev_updated_at := now\<rparr>)"

definition MarkEventFiltered :: "int \<Rightarrow> string \<Rightarrow> db \<Rightarrow> db" where
  "MarkEventFiltered now i = upd_event i (\<lambda>e. e\<lparr>ev_status := ''filtered'', ev_updated_at := now\<rparr>)"

definition MarkEventInFlight :: "int \<Rightarrow> string \<Rightarrow> db \<Rightarrow> db" where
  "MarkEventInFlight now i = upd_event i (\<lambda>e. e\<lparr>ev_status := ''in_flight'',
     ev_attempt_count := ev_attempt_count e + 1, ev_last_attempt_at := Some now, ev_updated_at := now\<rparr>)"

definition MarkEventQueued :: "int \<Rightarrow> string \<Rightarrow> db \<Rightarrow> db" where
  "MarkEventQueued now i = upd_event i (\<lambda>e. e\<lparr>ev_status := ''queued'', ev_updated_at := now\<rparr>)"

definition ResetEventForManualRetry :: "int \<Rightarrow> string \<Rightarrow> db \<Rightarrow> db" where
  "ResetEventForManualRetry now i = upd_event i (\<lambda>e. e\<lparr>ev_status := ''queued'', ev_next_retry_at := None,
     ev_updated_at := now\<rparr>)"

definition ResetEventForRetry :: "int \<Rightarrow> string \<Rightarrow> int option \<Rightarrow> db \<Rightarrow> db" where
  "ResetEventForRetry now i next = upd_event i (\<lambda>e. e\<lparr>ev_status := ''queued'', ev_next_retry_at := next,
     ev_updated_at := now\<rparr>)"

text \<open>An insert of an attempt fails on a second row of the same number, or without its event.\<close>

definition CreateAttempt :: "attempt_row \<Rightarrow> db \<Rightarrow> (go_error + attempt_row) \<times> db" where
  "CreateAttempt a d =
     (if list_ex (\<lambda>x. at_event_id x = at_event_id a \<and> at_attempt_num x = at_attempt_num a) (t_attempts d)
      then (Inl ErrUnique, d)
      else if find_event (at_event_id a) d = None then (Inl ErrDb, d)
      else (Inr a, d\<lparr>t_attempts := t_attempts d @ [a]\<rparr>))"

text \<open>
  The reaper's claim: the oldest stuck rows up to the limit that no other transaction holds
  (\<open>locked\<close>), set back to queued.
\<close>

definition stuck :: "int \<Rightarrow> int \<Rightarrow> db \<Rightarrow> event_row \<Rightarrow> bool" where
  "stuck queuedBefore cliBefore d e =
     (case GetConnectionByID (ev_connection_id e) d of None \<Rightarrow> False
      | Some c \<Rightarrow>
          (case find_dest (cn_destination_id c) d of None \<Rightarrow> False
           | Some x \<Rightarrow>
               ev_status e = ''queued'' \<and> ev_updated_at e < queuedBefore \<or>
               ev_status e = ''in_flight'' \<and> ds_type x = ''cli'' \<and> ev_updated_at e < cliBefore))"

definition ClaimStuckEvents ::
  "int \<Rightarrow> (string \<Rightarrow> bool) \<Rightarrow> int \<Rightarrow> int \<Rightarrow> nat \<Rightarrow> db \<Rightarrow> event_row list \<times> db" where
  "ClaimStuckEvents now locked queuedBefore cliBefore limit d =
     (let rows = take limit (filter (\<lambda>e. \<not> locked (ev_id e))
                   (sort_key ev_updated_at (filter (stuck queuedBefore cliBefore d) (t_events d))));
          ids = map ev_id rows;
          f = (\<lambda>e. e\<lparr>ev_status := ''queued'', ev_next_retry_at := Some now, ev_updated_at := now\<rparr>)
      in (map f rows, d\<lparr>t_events := map (\<lambda>e. if ev_id e \<in> set ids then f e else e) (t_events d)\<rparr>))"

text \<open>
  One queued event per connection, with the identifiers the database generates; the insert of all of them
  fails when the request or one of the connections does not exist.
\<close>

definition CreateEventsBatch ::
  "int \<Rightarrow> (nat \<Rightarrow> string) \<Rightarrow> string \<Rightarrow> string \<Rightarrow> bool \<Rightarrow> string list \<Rightarrow> db \<Rightarrow> (go_error + event_row list) \<times> db" where
  "CreateEventsBatch now ids request org test conns d =
     (let rows = map (\<lambda>(i, c). \<lparr>ev_id = i, ev_request_id = request, ev_connection_id = c, ev_org_id = org,
                   ev_status = ''queued'', ev_attempt_count = 0, ev_last_attempt_at = None,
                   ev_next_retry_at = None, ev_created_at = now, ev_updated_at = now, ev_is_test = test\<rparr>)
                 (zip (map ids [0..<length conns]) conns)
      in if find_req request d = None \<or> list_ex (\<lambda>c. GetConnectionByID c d = None) conns then (Inl ErrDb, d)
         else (Inr rows, d\<lparr>t_events := t_events d @ rows\<rparr>))"

section \<open>Facts\<close>

lemma find_map_id:
  assumes "\<And>e. ev_id (f e) = ev_id e"
  shows "find (\<lambda>e. ev_id e = i) (map f es) = map_option f (find (\<lambda>e. ev_id e = i) es)"
  by (induction es) (auto simp: assms)

lemma find_upd_event:
  assumes "\<And>e. ev_id (f e) = ev_id e"
  shows "find_event j (upd_event i f d) = map_option (\<lambda>e. if ev_id e = i then f e else e) (find_event j d)"
  unfolding find_event_def upd_event_def using assms by (simp add: find_map_id)

lemma find_event_id: "find_event i d = Some e \<Longrightarrow> ev_id e = i"
  by (auto simp: find_event_def find_Some_iff)

lemma delivery_row_event:
  "GetEventForDelivery i d = Some row \<Longrightarrow> find_event i d = Some (d_event row) \<and> ev_id (d_event row) = i"
  by (auto simp: GetEventForDelivery_def split: option.splits dest: find_event_id)

lemma find_event_attempts [simp]: "find_event i (d\<lparr>t_attempts := a\<rparr>) = find_event i d"
  by (simp add: find_event_def)

text \<open>What a status update leaves alone.\<close>

lemma upd_event_frame [simp]:
  "t_attempts (upd_event i f d) = t_attempts d" "t_connections (upd_event i f d) = t_connections d"
  "t_destinations (upd_event i f d) = t_destinations d" "t_requests (upd_event i f d) = t_requests d"
  by (simp_all add: upd_event_def)

lemmas mark_defs = MarkEventDelivered_def MarkEventDiscarded_def MarkEventFailed_def MarkEventFiltered_def
  MarkEventInFlight_def MarkEventQueued_def ResetEventForManualRetry_def ResetEventForRetry_def

end
