(* ===== verification/Deliver.thy ===== *)
theory Deliver
  imports Payload_Json Retry_Policy Safe_Http Go_Time Store_Events
begin

text \<open>
  The delivery handler, src/internal/deliver/handler.go. \<open>Process\<close> takes one leased event through the
  guards, the organization's and the destination's in-flight gates, the rate limit, filter, transform
  and the HTTP call, to acknowledged, dead-lettered, rescheduled or still leased.
  The state is the database, the Redis keyspace and the list of HTTP requests sent. What the
  environment decides during one call (the outcome of each database and Redis call, the rate limiter,
  the stored body, filter and transform, the destination's answer, clock readings, the random draw)
  is a record of arguments. Metrics and logging are left out.
\<close>

section \<open>State and environment\<close>

record 'r world =
  w_db :: db
  w_redis :: 'r
  w_sent :: "http_req list"

record handler =
  h_queue :: client
  PerOrgMaxInflight :: int

text \<open>The parameters of one call. The limiter answers an error, or how many are allowed and when to retry.\<close>

record denv =
  e_load :: io
  e_mark :: "string \<Rightarrow> io"
  e_attempt :: io
  e_ack :: io
  e_dead :: io
  e_sched :: io
  e_orgincr :: io
  e_orgdecr :: io
  e_destincr :: io
  e_destdecr :: io
  e_limiter :: "(int \<times> int) option"
  e_cliexists :: io
  e_clipush :: io
  e_url :: "string \<Rightarrow> url option"
  e_body :: "string \<Rightarrow> bytes option"
  e_filter :: "string \<Rightarrow> bytes \<Rightarrow> (string \<times> string) list \<Rightarrow> go_error + bool"
  e_transform :: "string \<Rightarrow> bytes \<Rightarrow> (string \<times> string) list \<Rightarrow> go_error + bytes"
  e_newreq :: "string \<Rightarrow> bool"
  e_http :: "http_req \<Rightarrow> http_resp option"
  e_now :: int
  e_dur :: int
  e_draw :: nat

definition to_int32 :: "int \<Rightarrow> int" where
  "to_int32 i = (i + 2 ^ 31) mod 2 ^ 32 - 2 ^ 31"

text \<open>Integer division of Go truncates towards zero.\<close>

definition quo :: "int \<Rightarrow> int \<Rightarrow> int" where
  "quo a b = (if a < 0 then - ((- a) div b) else a div b)"

definition DeliveryTimeout :: int where
  "DeliveryTimeout = 30 * 1000 * millisecond"

definition reapBatch :: nat where
  "reapBatch = 100"

definition reapQueuedStuckAfter :: int where
  "reapQueuedStuckAfter = 15 * 60 * 1000 * millisecond"

definition reapCliStuckAfter :: int where
  "reapCliStuckAfter = 2 * 60 * 1000 * millisecond"

definition cliWaitTimeout :: int where
  "cliWaitTimeout = 2 * 60 * 1000 * millisecond"

section \<open>Helpers\<close>

definition inflightIncrScript :: "'r redis \<Rightarrow> string \<Rightarrow> int \<Rightarrow> int \<Rightarrow> 'r \<Rightarrow> int \<times> 'r" where
  "inflightIncrScript R key ttl cap s =
     (let (n, s) = INCRBY R key 1 s;
          s = (if n \<le> cap then EXPIRE R key ttl s else s)
      in (n, s))"

definition Decr :: "'r redis \<Rightarrow> string \<Rightarrow> 'r \<Rightarrow> int \<times> 'r" where
  "Decr R key s = INCRBY R key (-1) s"

definition isTerminalStatus :: "string \<Rightarrow> bool" where
  "isTerminalStatus s \<longleftrightarrow> s \<in> {''delivered'', ''failed'', ''discarded'', ''filtered'', ''dead''}"

definition connFromRow :: "delivery_row \<Rightarrow> retry_cfg" where
  "connFromRow row = \<lparr>RetryStrategy = cn_retry_strategy (d_conn row), RetryBaseMs = cn_retry_base_ms (d_conn row),
     RetryCapMs = cn_retry_cap_ms (d_conn row), RetryJitterPct = cn_retry_jitter_pct (d_conn row),
     CustomRetrySchedule = cn_custom_retry_schedule (d_conn row)\<rparr>"

fun header_values :: "jval list \<Rightarrow> string list option" where
  "header_values [] = Some []"
| "header_values (JStr v # vs) = map_option (Cons v) (header_values vs)"
| "header_values (JNull # vs) = map_option (Cons []) (header_values vs)"
| "header_values (_ # vs) = None"

fun header_members :: "(string \<times> jval) list \<Rightarrow> headers option" where
  "header_members [] = Some []"
| "header_members ((k, JArr vs) # ms) =
     do { v \<leftarrow> header_values vs; hs \<leftarrow> header_members ms; Some ((k, v) # hs) }"
| "header_members ((k, JNull) # ms) = map_option (Cons (k, [])) (header_members ms)"
| "header_members (_ # ms) = None"

text \<open>A Go map keeps the last of several members of one name.\<close>

definition go_map :: "('k \<times> 'v) list \<Rightarrow> ('k \<times> 'v) list" where
  "go_map ms = fold (\<lambda>(k, v) m. AList.update k v m) ms []"

text \<open>A failed decode leaves a nil map; the caller ignores the error.\<close>

definition unmarshalHeaders :: "bytes \<Rightarrow> headers" where
  "unmarshalHeaders raw =
     (if raw = [] then []
      else case jparse raw of
             Some (JObj ms) \<Rightarrow> (case header_members ms of Some hs \<Rightarrow> go_map hs | None \<Rightarrow> [])
           | _ \<Rightarrow> [])"

definition flattenHeaders :: "headers \<Rightarrow> (string \<times> string) list" where
  "flattenHeaders h = map (\<lambda>(k, v). (k, join '','' v)) (filter (\<lambda>(k, v). v \<noteq> []) h)"

text \<open>\<open>http.Header\<close>: values under canonical keys.\<close>

definition hget :: "headers \<Rightarrow> string \<Rightarrow> string list" where
  "hget h k = (case map_of h (CanonicalHeaderKey k) of None \<Rightarrow> [] | Some vs \<Rightarrow> vs)"

definition hput :: "headers \<Rightarrow> string \<Rightarrow> string list \<Rightarrow> headers" where
  "hput h k vs = AList.update (CanonicalHeaderKey k) vs h"

definition Add :: "headers \<Rightarrow> string \<Rightarrow> string \<Rightarrow> headers" where
  "Add h k v = hput h k (hget h k @ [v])"

definition Set :: "headers \<Rightarrow> string \<Rightarrow> string \<Rightarrow> headers" where
  "Set h k v = hput h k [v]"

text \<open>\<open>json.Marshal\<close> of a header: its members in the order of their keys.\<close>

definition marshalHeader :: "headers \<Rightarrow> bytes" where
  "marshalHeader h = jshow (JObj (map (\<lambda>(k, vs). (k, JArr (map JStr vs))) (sort_key fst h)))"

definition forwardHeaders :: "headers \<Rightarrow> headers" where
  "forwardHeaders hs =
     fold (\<lambda>(k, vs) h. if \<not> forwardableHeader k then h else fold (\<lambda>v h. Add h k v) vs h) hs []"

definition buildRequest :: "delivery_row \<Rightarrow> string \<Rightarrow> headers \<Rightarrow> bytes \<Rightarrow> http_req" where
  "buildRequest row url headers body =
     (let h = forwardHeaders headers;
          h = Set h ''Dstream-Event-Id'' (ev_id (d_event row));
          h = Set h ''Dstream-Event-Attempt'' (show_int (to_int32 (ev_attempt_count (d_event row) + 1)));
          h = Set h ''Dstream-Webhook-Hops'' (show_int (to_int64 (incomingHops headers + 1)))
      in \<lparr>hr_url = url, hr_headers = h, hr_body = body\<rparr>)"

section \<open>Calls\<close>

definition on_db :: "io \<Rightarrow> (db \<Rightarrow> 'a \<times> db) \<Rightarrow> 'r world \<Rightarrow> 'a option \<times> 'r world" where
  "on_db o1 f w = (let (r, d) = run_io o1 f (w_db w) in (r, w\<lparr>w_db := d\<rparr>))"

definition mark :: "denv \<Rightarrow> string \<Rightarrow> (db \<Rightarrow> db) \<Rightarrow> 'r world \<Rightarrow> go_error option \<times> 'r world" where
  "mark env what f w =
     (let (r, w) = on_db (e_mark env what) (\<lambda>d. ((), f d)) w
      in (case r of None \<Rightarrow> Some ErrDb | Some _ \<Rightarrow> None, w))"

definition on_queue :: "('r \<Rightarrow> go_error option \<times> 'r) \<Rightarrow> 'r world \<Rightarrow> go_error option \<times> 'r world" where
  "on_queue f w = (let (r, s) = f (w_redis w) in (r, w\<lparr>w_redis := s\<rparr>))"

definition q_ack :: "'r redis \<Rightarrow> handler \<Rightarrow> denv \<Rightarrow> string \<Rightarrow> 'r world \<Rightarrow> go_error option \<times> 'r world" where
  "q_ack R h env raw = on_queue (Ack R (h_queue h) (e_ack env) raw)"

definition q_dead :: "'r redis \<Rightarrow> handler \<Rightarrow> denv \<Rightarrow> string \<Rightarrow> 'r world \<Rightarrow> go_error option \<times> 'r world" where
  "q_dead R h env raw = on_queue (DeadLetter R (h_queue h) (e_dead env) raw)"

definition q_sched ::
  "'r redis \<Rightarrow> handler \<Rightarrow> denv \<Rightarrow> payload \<Rightarrow> int \<Rightarrow> 'r world \<Rightarrow> go_error option \<times> 'r world" where
  "q_sched R h env p t = on_queue (Schedule R payload_json (h_queue h) (e_sched env) p t)"

definition recordAttempt ::
  "denv \<Rightarrow> string \<Rightarrow> int \<Rightarrow> http_resp option \<Rightarrow> int \<Rightarrow> int \<Rightarrow> attempt_error option \<Rightarrow> 'r world \<Rightarrow> 'r world" where
  "recordAttempt env eventID attemptNum resp queuedFor dur err w =
     snd (on_db (e_attempt env) (CreateAttempt
       \<lparr>at_event_id = eventID, at_attempt_num = to_int32 attemptNum,
        at_response_status = map_option (to_int32 \<circ> rs_status) resp,
        at_response_headers = (case resp of Some r \<Rightarrow> marshalHeader (rs_headers r) | None \<Rightarrow> []),
        at_response_body = (case resp of Some r \<Rightarrow> take (2 ^ 20) (rs_body r) | None \<Rightarrow> []),
        at_duration_ms = Some (to_int32 (quo dur millisecond)),
        at_queued_in_ms = Some (to_int32 (quo queuedFor millisecond)),
        at_error_message = err, at_attempted_at = e_now env\<rparr>) w)"

section \<open>Ends of a delivery\<close>

definition deferEvent ::
  "'r redis \<Rightarrow> handler \<Rightarrow> denv \<Rightarrow> payload \<Rightarrow> string \<Rightarrow> int \<Rightarrow> 'r world \<Rightarrow> go_error option \<times> 'r world" where
  "deferEvent R h env p raw delay w =
     (let p = p\<lparr>p_EnqueuedAt := UnixMilli (e_now env)\<rparr>;
          (err, w) = q_sched R h env p (UnixMilli (e_now env + delay)) w
      in case err of Some e \<Rightarrow> (Some e, w) | None \<Rightarrow> q_ack R h env raw w)"

text \<open>The sequence of a failure that no retry can mend: record, mark failed, dead-letter.\<close>

definition terminate ::
  "'r redis \<Rightarrow> handler \<Rightarrow> denv \<Rightarrow> delivery_row \<Rightarrow> string \<Rightarrow> int \<Rightarrow> attempt_error \<Rightarrow> 'r world \<Rightarrow> go_error option \<times> 'r world" where
  "terminate R h env row raw queuedFor reason w =
     (let i = ev_id (d_event row);
          w = recordAttempt env i (ev_attempt_count (d_event row) + 1) None queuedFor 0 (Some reason) w;
          w = snd (mark env ''failed'' (MarkEventFailed (e_now env) i) w)
      in q_dead R h env raw w)"

definition failAttempt ::
  "'r redis \<Rightarrow> handler \<Rightarrow> denv \<Rightarrow> delivery_row \<Rightarrow> payload \<Rightarrow> string \<Rightarrow> 'r world \<Rightarrow> go_error option \<times> 'r world" where
  "failAttempt R h env row p raw w =
     (let p = p\<lparr>p_Attempt := p_Attempt p + 1\<rparr>
      in if p_Attempt p > cn_max_retries (d_conn row) then
           (let w = snd (mark env ''failed'' (MarkEventFailed (e_now env) (ev_id (d_event row))) w)
            in q_dead R h env raw w)
         else
           (let delay = RetryDelay (e_draw env) (connFromRow row) (p_Attempt p);
                (err, w) = q_sched R h env p (UnixMilli (e_now env + delay)) w
            in case err of Some e \<Rightarrow> (Some e, w) | None \<Rightarrow> q_ack R h env raw w))"

definition opt_nonempty :: "string option \<Rightarrow> bool" where
  "opt_nonempty x \<longleftrightarrow> x \<noteq> None \<and> the x \<noteq> []"

definition dispatchToCLI ::
  "'r redis \<Rightarrow> handler \<Rightarrow> denv \<Rightarrow> delivery_row \<Rightarrow> payload \<Rightarrow> string \<Rightarrow> 'r world \<Rightarrow> go_error option \<times> 'r world" where
  "dispatchToCLI R h env row p raw w =
     (let sessionKey = ''cli:source:'' @ cn_source_id (d_conn row);
          i = ev_id (d_event row)
      in if e_cliexists env \<noteq> IoOk then (Some ErrRedis, w)
         else if \<not> EXISTS R sessionKey (w_redis w) then
           (if p_Manual p \<or> e_now env - ev_created_at (d_event row) > cliWaitTimeout then
              (let w = snd (mark env ''discarded'' (MarkEventDiscarded (e_now env) i) w)
               in q_ack R h env raw w)
            else
              (let w = snd (mark env ''reset'' (ResetEventForRetry (e_now env) i (Some (e_now env + 15 * 1000 * millisecond))) w)
               in deferEvent R h env p raw (15 * 1000 * millisecond) w))
         else
           (let dispatchKey = ''cli:dispatch:'' @ cn_source_id (d_conn row);
                payload = jshow (JObj [(''event_id'', JStr i)]);
                (r, s) = run_io (e_clipush env) (RPUSH R dispatchKey payload) (w_redis w);
                w = w\<lparr>w_redis := s\<rparr>
            in case r of None \<Rightarrow> (Some ErrRedis, w) | Some _ \<Rightarrow> q_ack R h env raw w))"

section \<open>The delivery itself\<close>

definition sendRequest ::
  "'r redis \<Rightarrow> handler \<Rightarrow> denv \<Rightarrow> delivery_row \<Rightarrow> payload \<Rightarrow> string \<Rightarrow> int \<Rightarrow> string \<Rightarrow> headers \<Rightarrow> bytes \<Rightarrow> 'r world
     \<Rightarrow> go_error option \<times> 'r world" where
  "sendRequest R h env row p raw queuedFor url headers body w =
     (let i = ev_id (d_event row);
          n = ev_attempt_count (d_event row) + 1
      in if \<not> e_newreq env url then
           failAttempt R h env row p raw (recordAttempt env i n None queuedFor 0 (Some AeRequest) w)
         else
           (let req = buildRequest row url headers body;
                w = w\<lparr>w_sent := w_sent w @ [req]\<rparr>;
                resp = e_http env req;
                w = recordAttempt env i n resp queuedFor (e_dur env) (if resp = None then Some AeHttp else None) w
            in if resp = None \<or> to_int32 (rs_status (the resp)) < 200 \<or> to_int32 (rs_status (the resp)) \<ge> 300
               then failAttempt R h env row p raw w
               else
                 (let w = snd (mark env ''delivered'' (MarkEventDelivered (e_now env) i) w)
                  in q_ack R h env raw w)))"

definition transformAndSend ::
  "'r redis \<Rightarrow> handler \<Rightarrow> denv \<Rightarrow> delivery_row \<Rightarrow> payload \<Rightarrow> string \<Rightarrow> int \<Rightarrow> string \<Rightarrow> headers \<Rightarrow> bytes \<Rightarrow> 'r world
     \<Rightarrow> go_error option \<times> 'r world" where
  "transformAndSend R h env row p raw queuedFor url headers body w =
     (if opt_nonempty (cn_transform_js (d_conn row)) then
        (case e_transform env (the (cn_transform_js (d_conn row))) body (flattenHeaders headers) of
           Inl _ \<Rightarrow> terminate R h env row raw queuedFor AeTransform w
         | Inr out \<Rightarrow> sendRequest R h env row p raw queuedFor url headers out w)
      else sendRequest R h env row p raw queuedFor url headers body w)"

definition deliverBody ::
  "'r redis \<Rightarrow> handler \<Rightarrow> denv \<Rightarrow> delivery_row \<Rightarrow> payload \<Rightarrow> string \<Rightarrow> int \<Rightarrow> string \<Rightarrow> 'r world
     \<Rightarrow> go_error option \<times> 'r world" where
  "deliverBody R h env row p raw queuedFor url w =
     (let i = ev_id (d_event row)
      in case mark env ''in_flight'' (MarkEventInFlight (e_now env) i) w of
           (Some e, w) \<Rightarrow> (Some e, w)
         | (None, w) \<Rightarrow>
             (case e_body env (rq_body_ref (d_req row)) of
                None \<Rightarrow>
                  failAttempt R h env row p raw
                    (recordAttempt env i (ev_attempt_count (d_event row) + 1) None queuedFor 0 (Some AeBody) w)
              | Some body \<Rightarrow>
                  (let headers = unmarshalHeaders (rq_headers (d_req row))
                   in if opt_nonempty (cn_filter_expr (d_conn row)) then
                        (case e_filter env (the (cn_filter_expr (d_conn row))) body (flattenHeaders headers) of
                           Inl _ \<Rightarrow> terminate R h env row raw queuedFor AeFilter w
                         | Inr ok \<Rightarrow>
                             if \<not> ok then
                               (case mark env ''filtered'' (MarkEventFiltered (e_now env) i) w of
                                  (Some e, w) \<Rightarrow> (Some e, w)
                                | (None, w) \<Rightarrow> q_ack R h env raw w)
                             else transformAndSend R h env row p raw queuedFor url headers body w)
                      else transformAndSend R h env row p raw queuedFor url headers body w)))"

section \<open>The gates\<close>

definition ttlSec :: int where
  "ttlSec = quo (DeliveryTimeout * 5) (1000 * millisecond)"

text \<open>
  A counted slot: over the cap it is given back and the event deferred; within the cap the rest of
  the delivery runs and the slot is given back at return; when Redis fails the gate is open.
\<close>

definition slotGate ::
  "'r redis \<Rightarrow> handler \<Rightarrow> denv \<Rightarrow> io \<Rightarrow> io \<Rightarrow> string \<Rightarrow> int \<Rightarrow> int \<Rightarrow> payload \<Rightarrow> string \<Rightarrow>
     ('r world \<Rightarrow> go_error option \<times> 'r world) \<Rightarrow> 'r world \<Rightarrow> go_error option \<times> 'r world" where
  "slotGate R h env incr decr key cap delay p raw next w =
     (case run_io incr (inflightIncrScript R key ttlSec cap) (w_redis w) of
        (None, s) \<Rightarrow> next (w\<lparr>w_redis := s\<rparr>)
      | (Some n, s) \<Rightarrow>
          (let w = w\<lparr>w_redis := s\<rparr>;
               release = (\<lambda>w. w\<lparr>w_redis := snd (run_io decr (Decr R key) (w_redis w))\<rparr>)
           in if n > cap then deferEvent R h env p raw delay (release w)
              else (let (err, w) = next w in (err, release w))))"

definition destKey :: "delivery_row \<Rightarrow> string" where
  "destKey row = ''inflight:dest:'' @ ds_id (d_dest row)"

definition orgKey :: "delivery_row \<Rightarrow> string" where
  "orgKey row = ''inflight:org:'' @ ev_org_id (d_event row)"

definition destGate ::
  "'r redis \<Rightarrow> handler \<Rightarrow> denv \<Rightarrow> delivery_row \<Rightarrow> payload \<Rightarrow> string \<Rightarrow> int \<Rightarrow> string \<Rightarrow> 'r world
     \<Rightarrow> go_error option \<times> 'r world" where
  "destGate R h env row p raw queuedFor url w =
     (case ds_max_inflight (d_dest row) of
        Some m \<Rightarrow>
          if m > 0 then
            slotGate R h env (e_destincr env) (e_destdecr env) (destKey row) m (250 * millisecond) p raw
              (deliverBody R h env row p raw queuedFor url) w
          else deliverBody R h env row p raw queuedFor url w
      | None \<Rightarrow> deliverBody R h env row p raw queuedFor url w)"

definition rateGate ::
  "'r redis \<Rightarrow> handler \<Rightarrow> denv \<Rightarrow> delivery_row \<Rightarrow> payload \<Rightarrow> string \<Rightarrow> int \<Rightarrow> string \<Rightarrow> 'r world
     \<Rightarrow> go_error option \<times> 'r world" where
  "rateGate R h env row p raw queuedFor url w =
     (case (ds_rate_limit_rps (d_dest row), e_limiter env) of
        (Some rps, Some (allowed, retryAfter)) \<Rightarrow>
          if rps > 0 \<and> allowed = 0 then
            deferEvent R h env p raw (if retryAfter \<le> 0 then 100 * millisecond else retryAfter) w
          else destGate R h env row p raw queuedFor url w
      | _ \<Rightarrow> destGate R h env row p raw queuedFor url w)"

definition orgGate ::
  "'r redis \<Rightarrow> handler \<Rightarrow> denv \<Rightarrow> delivery_row \<Rightarrow> payload \<Rightarrow> string \<Rightarrow> int \<Rightarrow> string \<Rightarrow> 'r world
     \<Rightarrow> go_error option \<times> 'r world" where
  "orgGate R h env row p raw queuedFor url w =
     (if PerOrgMaxInflight h > 0 then
        slotGate R h env (e_orgincr env) (e_orgdecr env) (orgKey row) (PerOrgMaxInflight h) (500 * millisecond) p raw
          (rateGate R h env row p raw queuedFor url) w
      else rateGate R h env row p raw queuedFor url w)"

section \<open>Process\<close>

definition Process ::
  "'r redis \<Rightarrow> handler \<Rightarrow> denv \<Rightarrow> payload \<Rightarrow> string \<Rightarrow> 'r world \<Rightarrow> go_error option \<times> 'r world" where
  "Process R h env p raw w =
     (let queuedFor = (if p_EnqueuedAt p > 0 then e_now env - p_EnqueuedAt p * millisecond else 0)
      in if e_load env \<noteq> IoOk then (Some ErrDb, w)
         else case GetEventForDelivery (p_EventID p) (w_db w) of
           None \<Rightarrow> q_ack R h env raw w
         | Some row \<Rightarrow>
             if isTerminalStatus (ev_status (d_event row)) then q_ack R h env raw w
             else if ds_type (d_dest row) = ''cli'' then dispatchToCLI R h env row p raw w
             else if ds_type (d_dest row) \<noteq> ''http'' \<or> \<not> opt_nonempty (ds_url (d_dest row)) then
               terminate R h env row raw queuedFor
                 (if ds_type (d_dest row) \<noteq> ''http'' then AeType (ds_type (d_dest row)) else AeNoUrl) w
             else
               (let url = the (ds_url (d_dest row))
                in if ValidateDestinationURL (e_url env url) \<noteq> None then
                     terminate R h env row raw queuedFor AeBadUrl w
                   else orgGate R h env row p raw queuedFor url w))"

section \<open>The reaper\<close>

text \<open>\<open>we\<close> and \<open>wc\<close> give the outcome of the queue and database call for each event; \<open>tr\<close> is the trace carrier.\<close>

fun reapLoop ::
  "'r redis \<Rightarrow> handler \<Rightarrow> (string \<Rightarrow> io) \<Rightarrow> (string \<Rightarrow> io) \<Rightarrow> (string \<times> string) list \<Rightarrow> int \<Rightarrow> event_row list \<Rightarrow>
     nat \<times> 'r world \<Rightarrow> nat \<times> 'r world" where
  "reapLoop R h wc we tr now [] (n, w) = (n, w)"
| "reapLoop R h wc we tr now (ev # evs) (n, w) =
     (case (wc (ev_id ev), GetConnectionByID (ev_connection_id ev) (w_db w)) of
        (IoOk, Some conn) \<Rightarrow>
          (let p = \<lparr>p_EventID = ev_id ev, p_OrgID = ev_org_id ev, p_Attempt = ev_attempt_count ev,
                    p_EnqueuedAt = UnixMilli now, p_Manual = False,
                    p_RetryStrategy = cn_retry_strategy conn, p_RetryBaseMs = cn_retry_base_ms conn,
                    p_RetryCapMs = cn_retry_cap_ms conn, p_RetryJitterPct = cn_retry_jitter_pct conn,
                    p_CustomRetrySchedule = cn_custom_retry_schedule conn, p_Trace = [], p_Kind = [], p_Data = []\<rparr>;
               (err, s) = Enqueue R payload_json (h_queue h) (we (ev_id ev)) tr p (w_redis w);
               w = w\<lparr>w_redis := s\<rparr>
           in reapLoop R h wc we tr now evs (if err = None then Suc n else n, w))
      | _ \<Rightarrow> reapLoop R h wc we tr now evs (n, w))"

definition ReapStuckEvents ::
  "'r redis \<Rightarrow> handler \<Rightarrow> io \<Rightarrow> (string \<Rightarrow> io) \<Rightarrow> (string \<Rightarrow> io) \<Rightarrow> (string \<Rightarrow> bool) \<Rightarrow> (string \<times> string) list \<Rightarrow> int \<Rightarrow>
     'r world \<Rightarrow> (go_error + nat) \<times> 'r world" where
  "ReapStuckEvents R h wq wc we locked tr now w =
     (case on_db wq (ClaimStuckEvents now locked (now - reapQueuedStuckAfter) (now - reapCliStuckAfter) reapBatch) w of
        (None, w) \<Rightarrow> (Inl ErrDb, w)
      | (Some rows, w) \<Rightarrow>
          (let (n, w) = reapLoop R h wc we tr now rows (0, w) in (Inr n, w)))"

end
