(* ===== verification/Store_Messages.thy ===== *)
theory Store_Messages
  imports Prelude
begin

text \<open>
  The tables of the outbound side and all their statements (src/internal/store/applications.sql.go,
  event_types.sql.go, endpoints.sql.go, messages.sql.go, message_deliveries.sql.go and
  message_delivery_attempts.sql.go), in the conventions of the event store: a table is a list of
  rows, a statement a function on the database that runs atomically at the time \<open>now\<close>, a
  generated identifier is an argument. A single-row statement answers \<open>ErrNoRows\<close> where it finds
  none, \<open>ErrUnique\<close> on a broken unique index and \<open>ErrDb\<close> on a broken reference; \<open>ORDER BY\<close> is a
  stable sort. A nullable column is an option.
\<close>

section \<open>Rows\<close>

record app_row =
  ap_id :: string
  ap_org_id :: string
  ap_uid :: "string option"
  ap_name :: string
  ap_metadata :: bytes
  ap_created_at :: int
  ap_updated_at :: int
  ap_portal_epoch :: int
  ap_is_operational :: bool

record event_type_row =
  et_id :: string
  et_org_id :: string
  et_name :: string
  et_description :: string
  et_schema :: "bytes option"
  et_archived :: bool
  et_created_at :: int
  et_updated_at :: int

record endpoint_row =
  ep_id :: string
  ep_app_id :: string
  ep_org_id :: string
  ep_uid :: "string option"
  ep_url :: string
  ep_description :: string
  ep_secret :: string
  ep_filter_event_types :: "string list option"
  ep_disabled :: bool
  ep_created_at :: int
  ep_updated_at :: int
  ep_prev_secret :: "string option"
  ep_prev_secret_expires_at :: "int option"
  ep_consecutive_failures :: int
  ep_disabled_at :: "int option"
  ep_headers :: bytes
  ep_rate_limit :: "int option"
  ep_channels :: "string list option"
  ep_filter_expr :: "string option"
  ep_transform_js :: "string option"

record message_row =
  ms_id :: string
  ms_app_id :: string
  ms_org_id :: string
  ms_event_type :: string
  ms_payload :: "bytes option"
  ms_payload_hash :: string
  ms_event_id :: "string option"
  ms_created_at :: int
  ms_channels :: "string list option"

record msg_delivery_row =
  dl_id :: string
  dl_message_id :: string
  dl_endpoint_id :: string
  dl_org_id :: string
  dl_status :: string
  dl_attempt_count :: int
  dl_next_retry_at :: "int option"
  dl_last_attempt_at :: "int option"
  dl_created_at :: int
  dl_updated_at :: int

text \<open>What went wrong with a send, for the text of \<^verbatim>\<open>error_message\<close>.\<close>

datatype send_error = SeExpunged | SeFilter string | SeTransform string | SeUrl | SeSign | SeHttp

record msg_attempt_row =
  ma_delivery_id :: string
  ma_attempt_num :: int
  ma_response_status :: "int option"
  ma_response_headers :: "bytes option"
  ma_response_body :: "bytes option"
  ma_duration_ms :: "int option"
  ma_error_message :: "send_error option"
  ma_attempted_at :: int

record mdb =
  t_apps :: "app_row list"
  t_event_types :: "event_type_row list"
  t_endpoints :: "endpoint_row list"
  t_messages :: "message_row list"
  t_deliveries :: "msg_delivery_row list"
  t_msg_attempts :: "msg_attempt_row list"

section \<open>Applications\<close>

definition find_app :: "string \<Rightarrow> mdb \<Rightarrow> app_row option" where
  "find_app i d = find (\<lambda>a. ap_id a = i) (t_apps d)"

definition CreateApplication ::
  "int \<Rightarrow> string \<Rightarrow> string \<Rightarrow> string option \<Rightarrow> string \<Rightarrow> bytes \<Rightarrow> mdb \<Rightarrow> (go_error + app_row) \<times> mdb" where
  "CreateApplication now newid org uid name meta d =
     (if uid \<noteq> None \<and> list_ex (\<lambda>a. ap_org_id a = org \<and> ap_uid a = uid) (t_apps d) then (Inl ErrUnique, d)
      else (let a = \<lparr>ap_id = newid, ap_org_id = org, ap_uid = uid, ap_name = name, ap_metadata = meta,
                     ap_created_at = now, ap_updated_at = now, ap_portal_epoch = 0, ap_is_operational = False\<rparr>
            in (Inr a, d\<lparr>t_apps := t_apps d @ [a]\<rparr>)))"

definition GetApplicationForOrg :: "string \<Rightarrow> string \<Rightarrow> mdb \<Rightarrow> go_error + app_row" where
  "GetApplicationForOrg i org d = one_row (\<lambda>a. ap_id a = i \<and> ap_org_id a = org) (t_apps d)"

definition GetOperationalApp :: "string \<Rightarrow> mdb \<Rightarrow> go_error + app_row" where
  "GetOperationalApp org d = one_row (\<lambda>a. ap_org_id a = org \<and> ap_is_operational a) (t_apps d)"

text \<open>
  \<open>raced\<close>: another transaction committed the row between the statement's snapshot (on which the
  \<^verbatim>\<open>SELECT\<close> runs) and its insert (which then conflicts); the statement returns no row, and the row is in the
  table afterwards.
\<close>

definition EnsureOperationalApp :: "int \<Rightarrow> string \<Rightarrow> bool \<Rightarrow> string \<Rightarrow> mdb \<Rightarrow> (go_error + app_row) \<times> mdb" where
  "EnsureOperationalApp now newid raced org d =
     (case GetOperationalApp org d of
        Inr a \<Rightarrow> (Inr a, d)
      | Inl _ \<Rightarrow>
          (let a = \<lparr>ap_id = newid, ap_org_id = org, ap_uid = None, ap_name = ''Operational Webhooks'',
                    ap_metadata = ''{}'', ap_created_at = now, ap_updated_at = now, ap_portal_epoch = 0,
                    ap_is_operational = True\<rparr>
           in (if raced then Inl ErrNoRows else Inr a, d\<lparr>t_apps := t_apps d @ [a]\<rparr>)))"

text \<open>Pages run from the newest row down: strictly below the cursor in (time, identifier) order.\<close>

definition page_of :: "('a \<Rightarrow> int) \<Rightarrow> ('a \<Rightarrow> string) \<Rightarrow> int \<times> string \<Rightarrow> nat \<Rightarrow> 'a list \<Rightarrow> 'a list" where
  "page_of ts i cursor lim rows =
     take lim (rev (sort_key (\<lambda>r. (ts r, i r)) (filter (\<lambda>r. (ts r, i r) < cursor) rows)))"

definition ListApplicationsByOrg :: "string \<Rightarrow> int \<times> string \<Rightarrow> nat \<Rightarrow> mdb \<Rightarrow> app_row list" where
  "ListApplicationsByOrg org cursor lim d =
     page_of ap_created_at ap_id cursor lim (filter (\<lambda>a. ap_org_id a = org \<and> \<not> ap_is_operational a) (t_apps d))"

definition UpdateApplication ::
  "int \<Rightarrow> string \<Rightarrow> string \<Rightarrow> string option \<Rightarrow> string option \<Rightarrow> bytes option \<Rightarrow> mdb \<Rightarrow> (go_error + app_row) \<times> mdb" where
  "UpdateApplication now i org name uid meta d =
     (let P = (\<lambda>a. ap_id a = i \<and> ap_org_id a = org \<and> \<not> ap_is_operational a);
          f = (\<lambda>a. a\<lparr>ap_name := opt_default (ap_name a) name, ap_uid := (if uid = None then ap_uid a else uid),
                 ap_metadata := opt_default (ap_metadata a) meta, ap_updated_at := now\<rparr>)
      in case one_row P (t_apps d) of
           Inl e \<Rightarrow> (Inl e, d)
         | Inr a \<Rightarrow>
             if uid \<noteq> None \<and> list_ex (\<lambda>b. ap_id b \<noteq> i \<and> ap_org_id b = org \<and> ap_uid b = uid) (t_apps d) then (Inl ErrUnique, d)
             else (Inr (f a), d\<lparr>t_apps := upd_where P f (t_apps d)\<rparr>))"

text \<open>A deleted endpoint takes its deliveries and their attempts with it, a deleted application all it owns.\<close>

definition drop_deliveries :: "(msg_delivery_row \<Rightarrow> bool) \<Rightarrow> mdb \<Rightarrow> mdb" where
  "drop_deliveries P d =
     (let gone = map dl_id (filter P (t_deliveries d))
      in d\<lparr>t_deliveries := filter (\<lambda>x. \<not> P x) (t_deliveries d),
            t_msg_attempts := filter (\<lambda>a. ma_delivery_id a \<notin> set gone) (t_msg_attempts d)\<rparr>)"

definition DeleteApplicationForOrg :: "string \<Rightarrow> string \<Rightarrow> mdb \<Rightarrow> (go_error + string) \<times> mdb" where
  "DeleteApplicationForOrg i org d =
     (case one_row (\<lambda>a. ap_id a = i \<and> ap_org_id a = org \<and> \<not> ap_is_operational a) (t_apps d) of
        Inl e \<Rightarrow> (Inl e, d)
      | Inr a \<Rightarrow>
          (let eps = map ep_id (filter (\<lambda>e. ep_app_id e = i) (t_endpoints d));
               mss = map ms_id (filter (\<lambda>m. ms_app_id m = i) (t_messages d));
               d = drop_deliveries (\<lambda>x. dl_endpoint_id x \<in> set eps \<or> dl_message_id x \<in> set mss) d
           in (Inr (ap_id a), d\<lparr>t_apps := filter (\<lambda>b. ap_id b \<noteq> i) (t_apps d),
                 t_endpoints := filter (\<lambda>e. ep_app_id e \<noteq> i) (t_endpoints d),
                 t_messages := filter (\<lambda>m. ms_app_id m \<noteq> i) (t_messages d)\<rparr>)))"

definition BumpApplicationPortalEpoch :: "int \<Rightarrow> string \<Rightarrow> string \<Rightarrow> mdb \<Rightarrow> mdb" where
  "BumpApplicationPortalEpoch now i org d =
     d\<lparr>t_apps := upd_where (\<lambda>a. ap_id a = i \<and> ap_org_id a = org)
        (\<lambda>a. a\<lparr>ap_portal_epoch := ap_portal_epoch a + 1, ap_updated_at := now\<rparr>) (t_apps d)\<rparr>"

section \<open>Event types\<close>

definition CreateEventType ::
  "int \<Rightarrow> string \<Rightarrow> string \<Rightarrow> string \<Rightarrow> string \<Rightarrow> bytes option \<Rightarrow> mdb \<Rightarrow> (go_error + event_type_row) \<times> mdb" where
  "CreateEventType now newid org name desc schema d =
     (if list_ex (\<lambda>t. et_org_id t = org \<and> et_name t = name) (t_event_types d) then (Inl ErrUnique, d)
      else (let t = \<lparr>et_id = newid, et_org_id = org, et_name = name, et_description = desc, et_schema = schema,
                     et_archived = False, et_created_at = now, et_updated_at = now\<rparr>
            in (Inr t, d\<lparr>t_event_types := t_event_types d @ [t]\<rparr>)))"

definition SeedEventType :: "int \<Rightarrow> string \<Rightarrow> string \<Rightarrow> string \<Rightarrow> string \<Rightarrow> mdb \<Rightarrow> mdb" where
  "SeedEventType now newid org name desc d = snd (CreateEventType now newid org name desc None d)"

definition ListEventTypesByOrg :: "string \<Rightarrow> nat \<Rightarrow> mdb \<Rightarrow> event_type_row list" where
  "ListEventTypesByOrg org lim d = take lim (sort_key et_name (filter (\<lambda>t. et_org_id t = org) (t_event_types d)))"

definition GetEventTypeForOrg :: "string \<Rightarrow> string \<Rightarrow> mdb \<Rightarrow> go_error + event_type_row" where
  "GetEventTypeForOrg org name d = one_row (\<lambda>t. et_org_id t = org \<and> et_name t = name) (t_event_types d)"

definition UpdateEventType ::
  "int \<Rightarrow> string \<Rightarrow> string \<Rightarrow> string option \<Rightarrow> bool \<Rightarrow> bytes option \<Rightarrow> bool option \<Rightarrow> mdb \<Rightarrow> (go_error + event_type_row) \<times> mdb" where
  "UpdateEventType now org name desc setSchema schema archived d =
     (let P = (\<lambda>t. et_org_id t = org \<and> et_name t = name);
          f = (\<lambda>t. t\<lparr>et_description := opt_default (et_description t) desc,
                 et_schema := (if setSchema then schema else et_schema t),
                 et_archived := opt_default (et_archived t) archived, et_updated_at := now\<rparr>)
      in case one_row P (t_event_types d) of
           Inl e \<Rightarrow> (Inl e, d)
         | Inr t \<Rightarrow> (Inr (f t), d\<lparr>t_event_types := upd_where P f (t_event_types d)\<rparr>))"

definition DeleteEventTypeForOrg :: "string \<Rightarrow> string \<Rightarrow> mdb \<Rightarrow> (go_error + string) \<times> mdb" where
  "DeleteEventTypeForOrg org name d =
     (let P = (\<lambda>t. et_org_id t = org \<and> et_name t = name)
      in case one_row P (t_event_types d) of
           Inl e \<Rightarrow> (Inl e, d)
         | Inr t \<Rightarrow> (Inr (et_id t), d\<lparr>t_event_types := filter (\<lambda>t. \<not> P t) (t_event_types d)\<rparr>))"

section \<open>Endpoints\<close>

record endpoint_params =
  cep_uid :: "string option"
  cep_url :: string
  cep_description :: string
  cep_secret :: string
  cep_filter_event_types :: "string list option"
  cep_headers :: bytes
  cep_rate_limit :: "int option"
  cep_channels :: "string list option"
  cep_filter_expr :: "string option"
  cep_transform_js :: "string option"

definition CreateEndpoint ::
  "int \<Rightarrow> string \<Rightarrow> string \<Rightarrow> string \<Rightarrow> endpoint_params \<Rightarrow> mdb \<Rightarrow> (go_error + endpoint_row) \<times> mdb" where
  "CreateEndpoint now newid app org c d =
     (if find_app app d = None then (Inl ErrDb, d)
      else if cep_uid c \<noteq> None \<and> list_ex (\<lambda>e. ep_app_id e = app \<and> ep_uid e = cep_uid c) (t_endpoints d) then (Inl ErrUnique, d)
      else (let e = \<lparr>ep_id = newid, ep_app_id = app, ep_org_id = org, ep_uid = cep_uid c, ep_url = cep_url c,
                     ep_description = cep_description c, ep_secret = cep_secret c,
                     ep_filter_event_types = cep_filter_event_types c, ep_disabled = False, ep_created_at = now,
                     ep_updated_at = now, ep_prev_secret = None, ep_prev_secret_expires_at = None,
                     ep_consecutive_failures = 0, ep_disabled_at = None, ep_headers = cep_headers c,
                     ep_rate_limit = cep_rate_limit c, ep_channels = cep_channels c,
                     ep_filter_expr = cep_filter_expr c, ep_transform_js = cep_transform_js c\<rparr>
            in (Inr e, d\<lparr>t_endpoints := t_endpoints d @ [e]\<rparr>)))"

definition GetEndpointForApp :: "string \<Rightarrow> string \<Rightarrow> mdb \<Rightarrow> go_error + endpoint_row" where
  "GetEndpointForApp i app d = one_row (\<lambda>e. ep_id e = i \<and> ep_app_id e = app) (t_endpoints d)"

definition GetEndpointSecret :: "string \<Rightarrow> string \<Rightarrow> mdb \<Rightarrow> go_error + string" where
  "GetEndpointSecret i app d = map_sum id ep_secret (GetEndpointForApp i app d)"

definition DeleteEndpointForApp :: "string \<Rightarrow> string \<Rightarrow> mdb \<Rightarrow> (go_error + string) \<times> mdb" where
  "DeleteEndpointForApp i app d =
     (case GetEndpointForApp i app d of
        Inl e \<Rightarrow> (Inl e, d)
      | Inr e \<Rightarrow>
          (let d = drop_deliveries (\<lambda>x. dl_endpoint_id x = i) d
           in (Inr (ep_id e), d\<lparr>t_endpoints := filter (\<lambda>x. \<not> (ep_id x = i \<and> ep_app_id x = app)) (t_endpoints d)\<rparr>)))"

definition upd_endpoint :: "string \<Rightarrow> (endpoint_row \<Rightarrow> endpoint_row) \<Rightarrow> mdb \<Rightarrow> mdb" where
  "upd_endpoint i f d = d\<lparr>t_endpoints := upd_where (\<lambda>e. ep_id e = i) f (t_endpoints d)\<rparr>"

definition find_endpoint :: "string \<Rightarrow> mdb \<Rightarrow> endpoint_row option" where
  "find_endpoint i d = find (\<lambda>e. ep_id e = i) (t_endpoints d)"

text \<open>The updated row, and whether this statement disabled the endpoint.\<close>

definition IncrEndpointFailures ::
  "int \<Rightarrow> string \<Rightarrow> int \<Rightarrow> mdb \<Rightarrow> (go_error + endpoint_row \<times> bool) \<times> mdb" where
  "IncrEndpointFailures now i threshold d =
     (let f = (\<lambda>e. e\<lparr>ep_consecutive_failures := ep_consecutive_failures e + 1,
                 ep_disabled := (ep_consecutive_failures e + 1 \<ge> threshold \<or> ep_disabled e),
                 ep_disabled_at := (if ep_consecutive_failures e + 1 \<ge> threshold \<and> \<not> ep_disabled e then Some now
                                    else ep_disabled_at e),
                 ep_updated_at := now\<rparr>)
      in case find_endpoint i d of
           None \<Rightarrow> (Inl ErrNoRows, d)
         | Some e \<Rightarrow> (Inr (f e, \<not> ep_disabled e \<and> ep_disabled (f e)), upd_endpoint i f d))"

definition ResetEndpointFailures :: "int \<Rightarrow> string \<Rightarrow> mdb \<Rightarrow> mdb" where
  "ResetEndpointFailures now i = upd_endpoint i (\<lambda>e. if ep_consecutive_failures e > 0
     then e\<lparr>ep_consecutive_failures := 0, ep_updated_at := now\<rparr> else e)"

definition ListEndpointsByApp :: "string \<Rightarrow> nat \<Rightarrow> mdb \<Rightarrow> endpoint_row list" where
  "ListEndpointsByApp app lim d =
     take lim (sort_key (\<lambda>e. - ep_created_at e) (filter (\<lambda>e. ep_app_id e = app) (t_endpoints d)))"

text \<open>A missing or empty list of an endpoint lets everything through; a missing channel list of a message overlaps nothing.\<close>

definition unrestricted :: "string list option \<Rightarrow> bool" where
  "unrestricted x \<longleftrightarrow> x = None \<or> x = Some []"

definition matches :: "string \<Rightarrow> string list option \<Rightarrow> endpoint_row \<Rightarrow> bool" where
  "matches eventType chans e \<longleftrightarrow>
     \<not> ep_disabled e \<and>
     (unrestricted (ep_filter_event_types e) \<or> eventType \<in> set (the (ep_filter_event_types e))) \<and>
     (unrestricted (ep_channels e) \<or> list_ex (\<lambda>c. c \<in> set (opt_default [] chans)) (the (ep_channels e)))"

definition ListMatchingEndpoints :: "string \<Rightarrow> string \<Rightarrow> string list option \<Rightarrow> mdb \<Rightarrow> string list" where
  "ListMatchingEndpoints app eventType chans d =
     map ep_id (filter (\<lambda>e. ep_app_id e = app \<and> matches eventType chans e) (t_endpoints d))"

definition RotateEndpointSecret ::
  "int \<Rightarrow> string \<Rightarrow> string \<Rightarrow> string \<Rightarrow> int \<Rightarrow> mdb \<Rightarrow> (go_error + endpoint_row) \<times> mdb" where
  "RotateEndpointSecret now i app newSecret prevExpires d =
     (let P = (\<lambda>e. ep_id e = i \<and> ep_app_id e = app);
          f = (\<lambda>e. e\<lparr>ep_prev_secret := Some (ep_secret e), ep_prev_secret_expires_at := Some prevExpires,
                 ep_secret := newSecret, ep_updated_at := now\<rparr>)
      in case one_row P (t_endpoints d) of
           Inl x \<Rightarrow> (Inl x, d)
         | Inr e \<Rightarrow> (Inr (f e), d\<lparr>t_endpoints := upd_where P f (t_endpoints d)\<rparr>))"

record endpoint_patch =
  pep_url :: "string option"
  pep_description :: "string option"
  pep_disabled :: "bool option"
  pep_filter_event_types :: "string list option option"
  pep_headers :: "bytes option"
  pep_rate_limit :: "int option"
  pep_channels :: "string list option option"
  pep_filter_expr :: "string option option"
  pep_transform_js :: "string option option"

text \<open>In a patch \<open>None\<close> leaves a column alone: the null argument of \<^verbatim>\<open>COALESCE\<close>, or the unset flag of a \<^verbatim>\<open>CASE\<close>.\<close>

definition patched :: "int \<Rightarrow> endpoint_patch \<Rightarrow> endpoint_row \<Rightarrow> endpoint_row" where
  "patched now c e =
     e\<lparr>ep_url := opt_default (ep_url e) (pep_url c),
       ep_description := opt_default (ep_description e) (pep_description c),
       ep_disabled := opt_default (ep_disabled e) (pep_disabled c),
       ep_consecutive_failures := (if pep_disabled c = Some False then 0 else ep_consecutive_failures e),
       ep_disabled_at := (if pep_disabled c = Some False then None else ep_disabled_at e),
       ep_filter_event_types := opt_default (ep_filter_event_types e) (pep_filter_event_types c),
       ep_headers := opt_default (ep_headers e) (pep_headers c),
       ep_rate_limit := (if pep_rate_limit c = None then ep_rate_limit e else pep_rate_limit c),
       ep_channels := opt_default (ep_channels e) (pep_channels c),
       ep_filter_expr := opt_default (ep_filter_expr e) (pep_filter_expr c),
       ep_transform_js := opt_default (ep_transform_js e) (pep_transform_js c),
       ep_updated_at := now\<rparr>"

definition UpdateEndpoint ::
  "int \<Rightarrow> string \<Rightarrow> string \<Rightarrow> endpoint_patch \<Rightarrow> mdb \<Rightarrow> (go_error + endpoint_row) \<times> mdb" where
  "UpdateEndpoint now i app c d =
     (let P = (\<lambda>e. ep_id e = i \<and> ep_app_id e = app)
      in case one_row P (t_endpoints d) of
           Inl x \<Rightarrow> (Inl x, d)
         | Inr e \<Rightarrow> (Inr (patched now c e), d\<lparr>t_endpoints := upd_where P (patched now c) (t_endpoints d)\<rparr>))"

section \<open>Messages\<close>

definition find_message :: "string \<Rightarrow> mdb \<Rightarrow> message_row option" where
  "find_message i d = find (\<lambda>m. ms_id m = i) (t_messages d)"

text \<open>A second message of an application with the same \<^verbatim>\<open>event_id\<close> is not inserted and returns no row.\<close>

definition CreateMessage ::
  "int \<Rightarrow> string \<Rightarrow> string \<Rightarrow> string \<Rightarrow> string \<Rightarrow> bytes \<Rightarrow> string \<Rightarrow> string option \<Rightarrow> string list option \<Rightarrow> mdb \<Rightarrow>
     (go_error + message_row) \<times> mdb" where
  "CreateMessage now newid app org eventType payload hash eventID chans d =
     (if eventID \<noteq> None \<and> list_ex (\<lambda>m. ms_app_id m = app \<and> ms_event_id m = eventID) (t_messages d) then (Inl ErrNoRows, d)
      else if find_app app d = None then (Inl ErrDb, d)
      else (let m = \<lparr>ms_id = newid, ms_app_id = app, ms_org_id = org, ms_event_type = eventType,
                     ms_payload = Some payload, ms_payload_hash = hash, ms_event_id = eventID,
                     ms_created_at = now, ms_channels = chans\<rparr>
            in (Inr m, d\<lparr>t_messages := t_messages d @ [m]\<rparr>)))"

definition ExpireOldMessagePayloads :: "int \<Rightarrow> mdb \<Rightarrow> nat \<times> mdb" where
  "ExpireOldMessagePayloads cutoff d =
     (let P = (\<lambda>m. ms_created_at m < cutoff \<and> ms_payload m \<noteq> None)
      in (length (filter P (t_messages d)), d\<lparr>t_messages := upd_where P (\<lambda>m. m\<lparr>ms_payload := None\<rparr>) (t_messages d)\<rparr>))"

definition GetMessageByAppEventID :: "string \<Rightarrow> string option \<Rightarrow> mdb \<Rightarrow> go_error + message_row" where
  "GetMessageByAppEventID app eventID d =
     one_row (\<lambda>m. ms_app_id m = app \<and> eventID \<noteq> None \<and> ms_event_id m = eventID) (t_messages d)"

definition GetMessageForApp :: "string \<Rightarrow> string \<Rightarrow> mdb \<Rightarrow> go_error + message_row" where
  "GetMessageForApp i app d = one_row (\<lambda>m. ms_id m = i \<and> ms_app_id m = app) (t_messages d)"

text \<open>The payload column is not selected.\<close>

definition ListMessagesByApp :: "string \<Rightarrow> int \<times> string \<Rightarrow> nat \<Rightarrow> mdb \<Rightarrow> message_row list" where
  "ListMessagesByApp app cursor lim d =
     map (\<lambda>m. m\<lparr>ms_payload := None\<rparr>)
       (page_of ms_created_at ms_id cursor lim (filter (\<lambda>m. ms_app_id m = app) (t_messages d)))"

section \<open>Deliveries\<close>

definition find_delivery :: "string \<Rightarrow> mdb \<Rightarrow> msg_delivery_row option" where
  "find_delivery i d = find (\<lambda>x. dl_id x = i) (t_deliveries d)"

definition upd_delivery :: "string \<Rightarrow> (msg_delivery_row \<Rightarrow> msg_delivery_row) \<Rightarrow> mdb \<Rightarrow> mdb" where
  "upd_delivery i f d = d\<lparr>t_deliveries := upd_where (\<lambda>x. dl_id x = i) f (t_deliveries d)\<rparr>"

text \<open>
  The fan-out: one queued row per endpoint that has none for this message yet. The \<open>k\<close>-th inserted
  row gets the identifier \<open>newid k\<close>.
\<close>

fun insert_deliveries ::
  "int \<Rightarrow> (nat \<Rightarrow> string) \<Rightarrow> string \<Rightarrow> string \<Rightarrow> string list \<Rightarrow> nat \<Rightarrow> msg_delivery_row list \<Rightarrow>
     (string \<times> string) list \<times> msg_delivery_row list" where
  "insert_deliveries now newid msg org [] k ds = ([], ds)"
| "insert_deliveries now newid msg org (ep # eps) k ds =
     (if list_ex (\<lambda>x. dl_message_id x = msg \<and> dl_endpoint_id x = ep) ds then insert_deliveries now newid msg org eps k ds
      else (let x = \<lparr>dl_id = newid k, dl_message_id = msg, dl_endpoint_id = ep, dl_org_id = org, dl_status = ''queued'',
                     dl_attempt_count = 0, dl_next_retry_at = None, dl_last_attempt_at = None,
                     dl_created_at = now, dl_updated_at = now\<rparr>;
                (rows, ds) = insert_deliveries now newid msg org eps (Suc k) (ds @ [x])
            in ((dl_id x, ep) # rows, ds)))"

definition CreateMessageDeliveriesBatch ::
  "int \<Rightarrow> (nat \<Rightarrow> string) \<Rightarrow> string \<Rightarrow> string \<Rightarrow> string list \<Rightarrow> mdb \<Rightarrow> (go_error + (string \<times> string) list) \<times> mdb" where
  "CreateMessageDeliveriesBatch now newid msg org eps d =
     (if eps \<noteq> [] \<and> (find_message msg d = None \<or> list_ex (\<lambda>e. find_endpoint e d = None) eps) then (Inl ErrDb, d)
      else (let (rows, ds) = insert_deliveries now newid msg org eps 0 (t_deliveries d)
            in (Inr rows, d\<lparr>t_deliveries := ds\<rparr>)))"

definition GetDeliveryByMessageEndpoint :: "string \<Rightarrow> string \<Rightarrow> mdb \<Rightarrow> go_error + msg_delivery_row" where
  "GetDeliveryByMessageEndpoint msg ep d = one_row (\<lambda>x. dl_message_id x = msg \<and> dl_endpoint_id x = ep) (t_deliveries d)"

text \<open>A row of GetMessageDeliveryForSend: the joined rows.\<close>

record send_row =
  sr_delivery :: msg_delivery_row
  sr_message :: message_row
  sr_endpoint :: endpoint_row
  sr_app :: app_row

definition GetMessageDeliveryForSend :: "string \<Rightarrow> mdb \<Rightarrow> send_row option" where
  "GetMessageDeliveryForSend i d =
     (case find_delivery i d of None \<Rightarrow> None
      | Some x \<Rightarrow>
     (case find_message (dl_message_id x) d of None \<Rightarrow> None
      | Some m \<Rightarrow>
     (case find_endpoint (dl_endpoint_id x) d of None \<Rightarrow> None
      | Some e \<Rightarrow>
     (case find_app (ep_app_id e) d of None \<Rightarrow> None
      | Some a \<Rightarrow> Some \<lparr>sr_delivery = x, sr_message = m, sr_endpoint = e, sr_app = a\<rparr>))))"

definition ListDeadDeliveriesForEndpointSince :: "string \<Rightarrow> int \<Rightarrow> nat \<Rightarrow> mdb \<Rightarrow> string list" where
  "ListDeadDeliveriesForEndpointSince ep since lim d =
     map dl_id (take lim (sort_key dl_created_at
       (filter (\<lambda>x. dl_endpoint_id x = ep \<and> dl_status x = ''dead'' \<and> dl_created_at x \<ge> since) (t_deliveries d))))"

definition ListDeliveriesForMessage :: "string \<Rightarrow> mdb \<Rightarrow> (msg_delivery_row \<times> string) list" where
  "ListDeliveriesForMessage msg d =
     concat (map (\<lambda>x. case find_endpoint (dl_endpoint_id x) d of None \<Rightarrow> [] | Some e \<Rightarrow> [(x, ep_url e)])
       (sort_key (\<lambda>x. (dl_created_at x, dl_id x)) (filter (\<lambda>x. dl_message_id x = msg) (t_deliveries d))))"

definition MarkDeliveryDead :: "int \<Rightarrow> string \<Rightarrow> mdb \<Rightarrow> mdb" where
  "MarkDeliveryDead now i = upd_delivery i (\<lambda>x. x\<lparr>dl_status := ''dead'', dl_updated_at := now\<rparr>)"

definition MarkDeliveryDelivered :: "int \<Rightarrow> string \<Rightarrow> mdb \<Rightarrow> mdb" where
  "MarkDeliveryDelivered now i = upd_delivery i (\<lambda>x. x\<lparr>dl_status := ''delivered'', dl_updated_at := now\<rparr>)"

definition MarkDeliveryDisabled :: "int \<Rightarrow> string \<Rightarrow> mdb \<Rightarrow> mdb" where
  "MarkDeliveryDisabled now i = upd_delivery i (\<lambda>x. x\<lparr>dl_status := ''disabled'', dl_updated_at := now\<rparr>)"

definition MarkDeliveryFiltered :: "int \<Rightarrow> string \<Rightarrow> mdb \<Rightarrow> mdb" where
  "MarkDeliveryFiltered now i = upd_delivery i (\<lambda>x. x\<lparr>dl_status := ''filtered'', dl_updated_at := now\<rparr>)"

definition MarkDeliveryForRetry :: "int \<Rightarrow> string \<Rightarrow> int \<Rightarrow> mdb \<Rightarrow> mdb" where
  "MarkDeliveryForRetry now i next = upd_delivery i (\<lambda>x. x\<lparr>dl_status := ''queued'', dl_next_retry_at := Some next,
     dl_updated_at := now\<rparr>)"

definition MarkDeliveryInFlight :: "int \<Rightarrow> string \<Rightarrow> mdb \<Rightarrow> mdb" where
  "MarkDeliveryInFlight now i = upd_delivery i (\<lambda>x. x\<lparr>dl_status := ''in_flight'',
     dl_attempt_count := dl_attempt_count x + 1, dl_last_attempt_at := Some now, dl_updated_at := now\<rparr>)"

definition ResetDeliveryForReplay :: "int \<Rightarrow> string \<Rightarrow> mdb \<Rightarrow> mdb" where
  "ResetDeliveryForReplay now i = upd_delivery i (\<lambda>x. x\<lparr>dl_status := ''queued'', dl_attempt_count := 0,
     dl_next_retry_at := None, dl_updated_at := now\<rparr>)"

text \<open>The reaper's claim: the oldest queued rows without a retry date, a quarter of an hour old, that nobody has locked.\<close>

definition stuck_message :: "int \<Rightarrow> msg_delivery_row \<Rightarrow> bool" where
  "stuck_message now x \<longleftrightarrow> dl_status x = ''queued'' \<and> dl_next_retry_at x = None \<and>
     dl_updated_at x < now - 15 * 60 * 1000000000"

definition ClaimStuckMessageDeliveries :: "int \<Rightarrow> (string \<Rightarrow> bool) \<Rightarrow> mdb \<Rightarrow> (string \<times> string) list \<times> mdb" where
  "ClaimStuckMessageDeliveries now locked d =
     (let rows = take 100 (filter (\<lambda>x. \<not> locked (dl_id x))
                   (sort_key dl_updated_at (filter (stuck_message now) (t_deliveries d))));
          ids = map dl_id rows
      in (map (\<lambda>x. (dl_id x, dl_org_id x)) rows,
          d\<lparr>t_deliveries := upd_where (\<lambda>x. dl_id x \<in> set ids) (\<lambda>x. x\<lparr>dl_updated_at := now\<rparr>) (t_deliveries d)\<rparr>))"

section \<open>Delivery attempts\<close>

definition CreateMessageDeliveryAttempt :: "msg_attempt_row \<Rightarrow> mdb \<Rightarrow> (go_error + msg_attempt_row) \<times> mdb" where
  "CreateMessageDeliveryAttempt a d =
     (if list_ex (\<lambda>x. ma_delivery_id x = ma_delivery_id a \<and> ma_attempt_num x = ma_attempt_num a) (t_msg_attempts d)
      then (Inl ErrUnique, d)
      else if find_delivery (ma_delivery_id a) d = None then (Inl ErrDb, d)
      else (Inr a, d\<lparr>t_msg_attempts := t_msg_attempts d @ [a]\<rparr>))"

definition ExpireOldAttemptBodies :: "int \<Rightarrow> mdb \<Rightarrow> nat \<times> mdb" where
  "ExpireOldAttemptBodies cutoff d =
     (let P = (\<lambda>a. ma_attempted_at a < cutoff \<and> ma_response_body a \<noteq> None)
      in (length (filter P (t_msg_attempts d)),
          d\<lparr>t_msg_attempts := upd_where P (\<lambda>a. a\<lparr>ma_response_body := None\<rparr>) (t_msg_attempts d)\<rparr>))"

definition attempts_of :: "(msg_delivery_row \<Rightarrow> bool) \<Rightarrow> nat \<Rightarrow> mdb \<Rightarrow> msg_attempt_row list" where
  "attempts_of P lim d =
     take lim (sort_key (\<lambda>a. - ma_attempted_at a)
       (filter (\<lambda>a. case find_delivery (ma_delivery_id a) d of None \<Rightarrow> False | Some x \<Rightarrow> P x) (t_msg_attempts d)))"

definition ListAttemptsByEndpoint :: "string \<Rightarrow> nat \<Rightarrow> mdb \<Rightarrow> msg_attempt_row list" where
  "ListAttemptsByEndpoint ep lim d = attempts_of (\<lambda>x. dl_endpoint_id x = ep) lim d"

definition ListAttemptsByMessage :: "string \<Rightarrow> nat \<Rightarrow> mdb \<Rightarrow> msg_attempt_row list" where
  "ListAttemptsByMessage msg lim d = attempts_of (\<lambda>x. dl_message_id x = msg) lim d"

section \<open>Facts\<close>

lemma find_upd_where:
  assumes "\<And>r. key (f r) = key r"
  shows "find (\<lambda>r. key r = i) (upd_where P f rows) = map_option (\<lambda>r. if P r then f r else r) (find (\<lambda>r. key r = i) rows)"
  unfolding upd_where_def by (induction rows) (auto simp: assms)

lemma find_upd_delivery:
  assumes "\<And>x. dl_id (f x) = dl_id x"
  shows "find_delivery j (upd_delivery i f d) = map_option (\<lambda>x. if dl_id x = i then f x else x) (find_delivery j d)"
  unfolding find_delivery_def upd_delivery_def using find_upd_where [of dl_id f, OF assms] by simp

lemma find_delivery_id: "find_delivery i d = Some x \<Longrightarrow> dl_id x = i"
  by (auto simp: find_delivery_def find_Some_iff)

lemma find_endpoint_id: "find_endpoint i d = Some x \<Longrightarrow> ep_id x = i"
  by (auto simp: find_endpoint_def find_Some_iff)

lemma upd_delivery_frame [simp]:
  "t_apps (upd_delivery i f d) = t_apps d" "t_event_types (upd_delivery i f d) = t_event_types d"
  "t_endpoints (upd_delivery i f d) = t_endpoints d" "t_messages (upd_delivery i f d) = t_messages d"
  "t_msg_attempts (upd_delivery i f d) = t_msg_attempts d"
  by (simp_all add: upd_delivery_def)

lemma upd_endpoint_frame [simp]:
  "t_apps (upd_endpoint i f d) = t_apps d" "t_event_types (upd_endpoint i f d) = t_event_types d"
  "t_deliveries (upd_endpoint i f d) = t_deliveries d" "t_messages (upd_endpoint i f d) = t_messages d"
  "t_msg_attempts (upd_endpoint i f d) = t_msg_attempts d"
  by (simp_all add: upd_endpoint_def)

lemma send_row_parts:
  assumes "GetMessageDeliveryForSend i d = Some row"
  shows "find_delivery i d = Some (sr_delivery row)" "dl_id (sr_delivery row) = i"
    "find_endpoint (dl_endpoint_id (sr_delivery row)) d = Some (sr_endpoint row)" "ep_id (sr_endpoint row) = dl_endpoint_id (sr_delivery row)"
    "find_message (dl_message_id (sr_delivery row)) d = Some (sr_message row)"
  using assms by (auto simp: GetMessageDeliveryForSend_def split: option.splits dest: find_delivery_id find_endpoint_id)

lemmas delivery_marks = MarkDeliveryDead_def MarkDeliveryDelivered_def MarkDeliveryDisabled_def MarkDeliveryFiltered_def
  MarkDeliveryForRetry_def MarkDeliveryInFlight_def ResetDeliveryForReplay_def

end
