(* ===== verification/Opevents.thy ===== *)
theory Opevents
  imports Payload_Json Store_Messages Go_Time Safe_Http
begin

text \<open>
  Operational events (src/internal/opevents/opevents.go): dstream reports a disabled endpoint, an
  exhausted message or a quota through an application of its own per organization. The state of
  the outbound side is the message database, the Redis keyspace and the requests sent. The outcome
  of every call, the generated identifiers, the clock and the hash function are arguments.
\<close>

section \<open>State\<close>

record 'r mworld =
  mw_db :: mdb
  mw_redis :: 'r
  mw_sent :: "http_req list"

text \<open>A statement that the database answers with an error or a result, and a read.\<close>

definition stmt :: "io \<Rightarrow> (mdb \<Rightarrow> (go_error + 'a) \<times> mdb) \<Rightarrow> 'r mworld \<Rightarrow> (go_error + 'a) \<times> 'r mworld" where
  "stmt o1 f w =
     (let (r, d) = run_io o1 f (mw_db w)
      in (case r of None \<Rightarrow> Inl ErrDb | Some x \<Rightarrow> x, w\<lparr>mw_db := d\<rparr>))"

definition upd_stmt :: "io \<Rightarrow> (mdb \<Rightarrow> mdb) \<Rightarrow> 'r mworld \<Rightarrow> go_error option \<times> 'r mworld" where
  "upd_stmt o1 f w =
     (let (r, d) = run_io o1 (\<lambda>d. ((), f d)) (mw_db w)
      in (if r = None then Some ErrDb else None, w\<lparr>mw_db := d\<rparr>))"

definition read_stmt :: "io \<Rightarrow> (mdb \<Rightarrow> go_error + 'a) \<Rightarrow> 'r mworld \<Rightarrow> go_error + 'a" where
  "read_stmt o1 f w = (if o1 = IoOk then f (mw_db w) else Inl ErrDb)"

section \<open>Tasks\<close>

text \<open>The queue task of a delivery, as every producer of the outbound side builds it.\<close>

definition delivery_data :: "string \<Rightarrow> bytes" where
  "delivery_data i = jshow (JObj [(''delivery_id'', JStr i)])"

definition message_task :: "string \<Rightarrow> int \<Rightarrow> string \<Rightarrow> payload" where
  "message_task org nowMs i =
     \<lparr>p_EventID = uuid_Nil, p_OrgID = org, p_Attempt = 0, p_EnqueuedAt = nowMs, p_Manual = False,
      p_RetryStrategy = [], p_RetryBaseMs = 0, p_RetryCapMs = 0, p_RetryJitterPct = 0,
      p_CustomRetrySchedule = [], p_Trace = [], p_Kind = ''message'', p_Data = delivery_data i\<rparr>"

definition enqueue_delivery ::
  "'r redis \<Rightarrow> client \<Rightarrow> io \<Rightarrow> (string \<times> string) list \<Rightarrow> int \<Rightarrow> string \<Rightarrow> string \<Rightarrow> 'r mworld \<Rightarrow> go_error option \<times> 'r mworld" where
  "enqueue_delivery R c o1 tr now org i w =
     (let (err, s) = Enqueue R payload_json c o1 tr (message_task org (UnixMilli now) i) (mw_redis w)
      in (err, w\<lparr>mw_redis := s\<rparr>))"

text \<open>A failed enqueue is skipped: the reaper finds the queued row.\<close>

fun enqueue_deliveries ::
  "'r redis \<Rightarrow> client \<Rightarrow> (string \<Rightarrow> io) \<Rightarrow> (string \<times> string) list \<Rightarrow> int \<Rightarrow> string \<Rightarrow> string list \<Rightarrow> 'r mworld \<Rightarrow> 'r mworld" where
  "enqueue_deliveries R c enq tr now org [] w = w"
| "enqueue_deliveries R c enq tr now org (i # ids) w =
     enqueue_deliveries R c enq tr now org ids (snd (enqueue_delivery R c (enq i) tr now org i w))"

section \<open>Publishing\<close>

record penv =
  pe_ensure :: io
  pe_raced :: bool
  pe_get :: io
  pe_seed :: "string \<Rightarrow> io"
  pe_message :: io
  pe_match :: io
  pe_batch :: io
  pe_enqueue :: "string \<Rightarrow> io"
  pe_now :: int
  pe_appid :: string
  pe_typeid :: "string \<Rightarrow> string"
  pe_msgid :: string
  pe_delid :: "nat \<Rightarrow> string"
  pe_sha256 :: "bytes \<Rightarrow> bytes"
  pe_trace :: "(string \<times> string) list"

definition opEventTypes :: "(string \<times> string) list" where
  "opEventTypes =
     [(''endpoint.disabled'', ''dstream auto-disabled an endpoint after repeated failures''),
      (''message.attempt.exhausted'', ''a message delivery exhausted its retries and was dead-lettered''),
      (''usage.quota_warning'', ''an org passed its plan's soft usage limit for the current period''),
      (''usage.quota_exceeded'', ''an org hit its hard usage ceiling and requests are being refused'')]"

fun seedTypes :: "penv \<Rightarrow> string \<Rightarrow> (string \<times> string) list \<Rightarrow> 'r mworld \<Rightarrow> go_error option \<times> 'r mworld" where
  "seedTypes env org [] w = (None, w)"
| "seedTypes env org ((name, desc) # ts) w =
     (case upd_stmt (pe_seed env name) (SeedEventType (pe_now env) (pe_typeid env name) org name desc) w of
        (Some e, w) \<Rightarrow> (Some e, w)
      | (None, w) \<Rightarrow> seedTypes env org ts w)"

definition SeedOperationalApp :: "penv \<Rightarrow> string \<Rightarrow> 'r mworld \<Rightarrow> (go_error + string) \<times> 'r mworld" where
  "SeedOperationalApp env org w =
     (let (app, w) = stmt (pe_ensure env) (EnsureOperationalApp (pe_now env) (pe_appid env) (pe_raced env) org) w;
          app = (if app = Inl ErrNoRows then read_stmt (pe_get env) (GetOperationalApp org) w else app)
      in case app of
           Inl e \<Rightarrow> (Inl e, w)
         | Inr a \<Rightarrow>
             (case seedTypes env org opEventTypes w of
                (Some e, w) \<Rightarrow> (Inl e, w)
              | (None, w) \<Rightarrow> (Inr (ap_id a), w)))"

text \<open>
  \<open>json.Marshal\<close> writes the members of a map in the order of their keys, and \<open>json.Compact\<close> leaves its
  compact output as it is.
\<close>

definition Publish ::
  "'r redis \<Rightarrow> client \<Rightarrow> penv \<Rightarrow> string \<Rightarrow> string \<Rightarrow> (string \<times> jval) list \<Rightarrow> 'r mworld \<Rightarrow> go_error option \<times> 'r mworld" where
  "Publish R c env org eventType payload w =
     (case SeedOperationalApp env org w of
        (Inl e, w) \<Rightarrow> (Some e, w)
      | (Inr app, w) \<Rightarrow>
          (let b = jshow (JObj (sort_key fst payload));
               hash = hex_encode (pe_sha256 env b)
           in case stmt (pe_message env) (CreateMessage (pe_now env) (pe_msgid env) app org eventType b hash None None) w of
                (Inl e, w) \<Rightarrow> (Some e, w)
              | (Inr msg, w) \<Rightarrow>
                  (case read_stmt (pe_match env) (\<lambda>d. Inr (ListMatchingEndpoints app eventType None d)) w of
                     Inl e \<Rightarrow> (Some e, w)
                   | Inr eps \<Rightarrow>
                       if eps = [] then (None, w)
                       else case stmt (pe_batch env) (CreateMessageDeliveriesBatch (pe_now env) (pe_delid env) (ms_id msg) org eps) w of
                              (Inl e, w) \<Rightarrow> (Some e, w)
                            | (Inr dels, w) \<Rightarrow>
                                (None, enqueue_deliveries R c (pe_enqueue env) (pe_trace env) (pe_now env) org (map fst dels) w))))"

end
