(* ===== verification/Webhook.thy ===== *)
theory Webhook
  imports Deliver Opevents
begin

text \<open>
  The outbound engine (src/internal/webhook): signing after the Standard Webhooks specification
  (sign.go) and the handler that sends one message to one endpoint (handler.go). \<open>Process_msg\<close>,
  \<open>failAttempt_msg\<close> and \<open>recordAttempt_msg\<close> are the methods \<open>Process\<close>, \<open>failAttempt\<close> and \<open>recordAttempt\<close> of
  that package. HMAC-SHA256, the filter and transform engines, the limiter and the receiver are
  arguments, in the record \<open>menv\<close> with the outcomes of all calls.
\<close>

section \<open>Signing\<close>

definition secretPrefix :: string where
  "secretPrefix = ''whsec_''"

definition decodeSecret :: "string \<Rightarrow> bytes option" where
  "decodeSecret secret =
     (case b64_decode std_alphabet True (trim_prefix secret secretPrefix) of
        None \<Rightarrow> None
      | Some key \<Rightarrow> if length key = 0 then None else Some key)"

definition ValidSecret :: "string \<Rightarrow> bool" where
  "ValidSecret s \<longleftrightarrow> decodeSecret s \<noteq> None"

text \<open>\<open>rnd\<close> are the 24 random bytes.\<close>

definition GenerateSecret :: "bytes \<Rightarrow> string" where
  "GenerateSecret rnd = secretPrefix @ b64_encode std_alphabet True rnd"

definition signed_text :: "string \<Rightarrow> int \<Rightarrow> bytes \<Rightarrow> bytes" where
  "signed_text msgID ts payload = msgID @ ''.'' @ show_int ts @ ''.'' @ payload"

definition Sign :: "(bytes \<Rightarrow> bytes \<Rightarrow> bytes) \<Rightarrow> string \<Rightarrow> string \<Rightarrow> int \<Rightarrow> bytes \<Rightarrow> string option" where
  "Sign hmac secret msgID ts payload =
     (case decodeSecret secret of
        None \<Rightarrow> None
      | Some key \<Rightarrow> Some (''v1,'' @ b64_encode std_alphabet True (hmac key (signed_text msgID ts payload))))"

definition signHeader ::
  "(bytes \<Rightarrow> bytes \<Rightarrow> bytes) \<Rightarrow> int \<Rightarrow> string \<Rightarrow> string option \<Rightarrow> int option \<Rightarrow> string \<Rightarrow> int \<Rightarrow> bytes \<Rightarrow> string option" where
  "signHeader hmac now cur prev prevExp msgID ts payload =
     (case Sign hmac cur msgID ts payload of
        None \<Rightarrow> None
      | Some sig \<Rightarrow>
          if opt_nonempty prev \<and> prevExp \<noteq> None \<and> the prevExp > now then
            (case Sign hmac (the prev) msgID ts payload of
               Some ps \<Rightarrow> Some (sig @ '' '' @ ps)
             | None \<Rightarrow> Some sig)
          else Some sig)"

section \<open>The handler\<close>

record mhandler =
  mh_queue :: client
  mh_redis :: bool
  mh_limiter :: bool
  MaxConsecutiveFailures :: int
  mh_PerOrgMaxInflight :: int

record menv =
  g_load :: io
  g_mark :: "string \<Rightarrow> io"
  g_attempt :: io
  g_ack :: io
  g_dead :: io
  g_sched :: io
  g_incr :: io
  g_decr :: io
  g_failures :: io
  g_limiter :: "(int \<times> int) option"
  g_url :: "string \<Rightarrow> url option"
  g_filter :: "string \<Rightarrow> bytes \<Rightarrow> (string \<times> string) list \<Rightarrow> string \<Rightarrow> string list option \<Rightarrow> string + bool"
  g_transform :: "string \<Rightarrow> bytes \<Rightarrow> (string \<times> string) list \<Rightarrow> string + bytes"
  g_newreq :: "string \<Rightarrow> bool"
  g_http :: "http_req \<Rightarrow> http_resp option"
  g_hmac :: "bytes \<Rightarrow> bytes \<Rightarrow> bytes"
  g_pub :: "string \<Rightarrow> penv"
  g_now :: int
  g_dur :: int

definition inflightTTL :: int where
  "inflightTTL = 150"

definition deliveryID :: "payload \<Rightarrow> string option" where
  "deliveryID p = (case jparse (p_Data p) of
      Some (JObj ms) \<Rightarrow> (case get_str ms ''delivery_id'' of None \<Rightarrow> None | Some s \<Rightarrow> uuid_Parse s)
    | _ \<Rightarrow> None)"

fun string_members :: "(string \<times> jval) list \<Rightarrow> (string \<times> string) list option" where
  "string_members [] = Some []"
| "string_members ((k, JStr v) # ms) = map_option (Cons (k, v)) (string_members ms)"
| "string_members ((k, JNull) # ms) = map_option (Cons (k, [])) (string_members ms)"
| "string_members (_ # ms) = None"

definition unmarshalHeaderMap :: "bytes \<Rightarrow> (string \<times> string) list option" where
  "unmarshalHeaderMap raw =
     (if raw = [] then Some []
      else case jparse raw of
             Some (JObj ms) \<Rightarrow> map_option go_map (string_members ms)
           | Some JNull \<Rightarrow> Some []
           | _ \<Rightarrow> None)"

definition headerJSON :: "headers \<Rightarrow> bytes" where
  "headerJSON h =
     jshow (JObj (map (\<lambda>(k, _). (k, JStr (case hget h k of [] \<Rightarrow> [] | v # _ \<Rightarrow> v))) (sort_key fst h)))"

definition m_queue :: "('r \<Rightarrow> go_error option \<times> 'r) \<Rightarrow> 'r mworld \<Rightarrow> go_error option \<times> 'r mworld" where
  "m_queue f w = (let (r, s) = f (mw_redis w) in (r, w\<lparr>mw_redis := s\<rparr>))"

definition m_ack :: "'r redis \<Rightarrow> mhandler \<Rightarrow> menv \<Rightarrow> string \<Rightarrow> 'r mworld \<Rightarrow> go_error option \<times> 'r mworld" where
  "m_ack R h env raw = m_queue (Ack R (mh_queue h) (g_ack env) raw)"

definition m_dead :: "'r redis \<Rightarrow> mhandler \<Rightarrow> menv \<Rightarrow> string \<Rightarrow> 'r mworld \<Rightarrow> go_error option \<times> 'r mworld" where
  "m_dead R h env raw = m_queue (DeadLetter R (mh_queue h) (g_dead env) raw)"

definition m_sched :: "'r redis \<Rightarrow> mhandler \<Rightarrow> menv \<Rightarrow> payload \<Rightarrow> int \<Rightarrow> 'r mworld \<Rightarrow> go_error option \<times> 'r mworld" where
  "m_sched R h env p t = m_queue (Schedule R payload_json (mh_queue h) (g_sched env) p t)"

definition m_mark :: "menv \<Rightarrow> string \<Rightarrow> (mdb \<Rightarrow> mdb) \<Rightarrow> 'r mworld \<Rightarrow> go_error option \<times> 'r mworld" where
  "m_mark env what f = upd_stmt (g_mark env what) f"

definition recordAttempt_msg ::
  "menv \<Rightarrow> string \<Rightarrow> int \<Rightarrow> int \<Rightarrow> bytes option \<Rightarrow> bytes option \<Rightarrow> int \<Rightarrow> send_error option \<Rightarrow> 'r mworld \<Rightarrow> 'r mworld" where
  "recordAttempt_msg env did num status hs body dur errMsg w =
     snd (stmt (g_attempt env) (CreateMessageDeliveryAttempt
       \<lparr>ma_delivery_id = did, ma_attempt_num = to_int32 num,
        ma_response_status = (if status \<noteq> 0 then Some (to_int32 status) else None),
        ma_response_headers = hs, ma_response_body = body,
        ma_duration_ms = (if dur \<noteq> 0 then Some (to_int32 dur) else None),
        ma_error_message = errMsg, ma_attempted_at = g_now env\<rparr>) w)"

definition deferSend ::
  "'r redis \<Rightarrow> mhandler \<Rightarrow> menv \<Rightarrow> payload \<Rightarrow> string \<Rightarrow> int \<Rightarrow> 'r mworld \<Rightarrow> go_error option \<times> 'r mworld" where
  "deferSend R h env p raw delay w =
     (let p = p\<lparr>p_EnqueuedAt := UnixMilli (g_now env)\<rparr>;
          (err, w) = m_sched R h env p (UnixMilli (g_now env + delay)) w
      in case err of Some e \<Rightarrow> (Some e, w) | None \<Rightarrow> m_ack R h env raw w)"

text \<open>The shared ends of a send that can never succeed: record, mark dead, dead-letter.\<close>

definition terminate_msg ::
  "'r redis \<Rightarrow> mhandler \<Rightarrow> menv \<Rightarrow> send_row \<Rightarrow> string \<Rightarrow> send_error \<Rightarrow> 'r mworld \<Rightarrow> go_error option \<times> 'r mworld" where
  "terminate_msg R h env row raw reason w =
     (let did = dl_id (sr_delivery row);
          w = recordAttempt_msg env did (dl_attempt_count (sr_delivery row) + 1) 0 None None 0 (Some reason) w;
          w = snd (m_mark env ''dead'' (MarkDeliveryDead (g_now env) did) w)
      in m_dead R h env raw w)"

text \<open>The payloads of the two operational events.\<close>

definition exhausted_event :: "send_row \<Rightarrow> int \<Rightarrow> (string \<times> jval) list" where
  "exhausted_event row attemptNum =
     [(''type'', JStr ''message.attempt.exhausted''), (''message_id'', JStr (ms_id (sr_message row))),
      (''endpoint_id'', JStr (ep_id (sr_endpoint row))), (''event_type'', JStr (ms_event_type (sr_message row))),
      (''attempt_count'', JNum attemptNum)]"

definition disabled_event :: "endpoint_row \<Rightarrow> (string \<times> jval) list" where
  "disabled_event e =
     [(''type'', JStr ''endpoint.disabled''), (''endpoint_id'', JStr (ep_id e)), (''app_id'', JStr (ep_app_id e)),
      (''url'', JStr (ep_url e)), (''consecutive_failures'', JNum (ep_consecutive_failures e)),
      (''disabled_at'', JStr (case ep_disabled_at e of None \<Rightarrow> ''0001-01-01T00:00:00Z'' | Some t \<Rightarrow> rfc3339 t))]"

definition failAttempt_msg ::
  "'r redis \<Rightarrow> mhandler \<Rightarrow> menv \<Rightarrow> send_row \<Rightarrow> payload \<Rightarrow> string \<Rightarrow> int \<Rightarrow> 'r mworld \<Rightarrow> go_error option \<times> 'r mworld" where
  "failAttempt_msg R h env row p raw attemptNum w =
     (let did = dl_id (sr_delivery row);
          org = dl_org_id (sr_delivery row);
          op = ap_is_operational (sr_app row);
          (delay, ok) = nextDelay attemptNum
      in if \<not> ok then
           (case m_mark env ''dead'' (MarkDeliveryDead (g_now env) did) w of
              (Some e, w) \<Rightarrow> (Some e, w)
            | (None, w) \<Rightarrow>
                (let w = (if \<not> op then
                            snd (Publish R (mh_queue h) (g_pub env ''message.attempt.exhausted'') org
                              ''message.attempt.exhausted'' (exhausted_event row attemptNum) w)
                          else w);
                     w = (if MaxConsecutiveFailures h > 0 then
                            (case stmt (g_failures env)
                                    (IncrEndpointFailures (g_now env) (ep_id (sr_endpoint row)) (to_int32 (MaxConsecutiveFailures h))) w of
                               (Inr (dr, justDisabled), w) \<Rightarrow>
                                 if justDisabled \<and> \<not> op then
                                   snd (Publish R (mh_queue h) (g_pub env ''endpoint.disabled'') org
                                     ''endpoint.disabled'' (disabled_event dr) w)
                                 else w
                             | (Inl _, w) \<Rightarrow> w)
                          else w)
                 in m_dead R h env raw w))
         else
           (let next = g_now env + delay
            in case m_mark env ''retry'' (MarkDeliveryForRetry (g_now env) did next) w of
                 (Some e, w) \<Rightarrow> (Some e, w)
               | (None, w) \<Rightarrow>
                   (let (err, w) = m_sched R h env p (UnixMilli next) w
                    in case err of Some e \<Rightarrow> (Some e, w) | None \<Rightarrow> m_ack R h env raw w)))"

text \<open>Custom headers first, so that the reserved ones overwrite them.\<close>

definition buildRequest_msg :: "send_row \<Rightarrow> bytes \<Rightarrow> string \<Rightarrow> http_req" where
  "buildRequest_msg row body sig =
     (let h = (case unmarshalHeaderMap (ep_headers (sr_endpoint row)) of
                 None \<Rightarrow> [] | Some custom \<Rightarrow> fold (\<lambda>(k, v) h. Set h k v) custom []);
          h = Set h ''Content-Type'' ''application/json'';
          h = Set h ''webhook-id'' (ms_id (sr_message row));
          h = Set h ''webhook-timestamp'' (show_int (Unix (ms_created_at (sr_message row))));
          h = Set h ''webhook-signature'' sig;
          h = Set h ''Dstream-Webhook-Hops'' ''1''
      in \<lparr>hr_url = ep_url (sr_endpoint row), hr_headers = h, hr_body = body\<rparr>)"

definition sendMessage ::
  "'r redis \<Rightarrow> mhandler \<Rightarrow> menv \<Rightarrow> send_row \<Rightarrow> payload \<Rightarrow> string \<Rightarrow> bytes \<Rightarrow> string \<Rightarrow> 'r mworld \<Rightarrow> go_error option \<times> 'r mworld" where
  "sendMessage R h env row p raw body sig w =
     (let did = dl_id (sr_delivery row);
          attemptNum = dl_attempt_count (sr_delivery row) + 1
      in case m_mark env ''in_flight'' (MarkDeliveryInFlight (g_now env) did) w of
           (Some e, w) \<Rightarrow> (Some e, w)
         | (None, w) \<Rightarrow>
             if \<not> g_newreq env (ep_url (sr_endpoint row)) then failAttempt_msg R h env row p raw attemptNum w
             else
               (let req = buildRequest_msg row body sig;
                    w = w\<lparr>mw_sent := mw_sent w @ [req]\<rparr>;
                    dur = quo (g_dur env) millisecond
                in case g_http env req of
                     None \<Rightarrow>
                       failAttempt_msg R h env row p raw attemptNum
                         (recordAttempt_msg env did attemptNum 0 None None dur (Some SeHttp) w)
                   | Some resp \<Rightarrow>
                       (let w = recordAttempt_msg env did attemptNum (rs_status resp) (Some (headerJSON (rs_headers resp)))
                                  (Some (take (2 ^ 20) (rs_body resp))) dur None w
                        in if rs_status resp \<ge> 200 \<and> rs_status resp < 300 then
                             (case m_mark env ''delivered'' (MarkDeliveryDelivered (g_now env) did) w of
                                (Some e, w) \<Rightarrow> (Some e, w)
                              | (None, w) \<Rightarrow>
                                  (let w = (if MaxConsecutiveFailures h > 0 then
                                              snd (m_mark env ''reset'' (ResetEndpointFailures (g_now env) (ep_id (sr_endpoint row))) w)
                                            else w)
                                   in m_ack R h env raw w))
                           else failAttempt_msg R h env row p raw attemptNum w)))"

text \<open>URL check and signature, and before them the rate limit, after filter and transform.\<close>

definition signMessage ::
  "'r redis \<Rightarrow> mhandler \<Rightarrow> menv \<Rightarrow> send_row \<Rightarrow> payload \<Rightarrow> string \<Rightarrow> bytes \<Rightarrow> 'r mworld \<Rightarrow> go_error option \<times> 'r mworld" where
  "signMessage R h env row p raw body w =
     (let e = sr_endpoint row
      in if ValidateDestinationURL (g_url env (ep_url e)) \<noteq> None then terminate_msg R h env row raw SeUrl w
         else
           (case signHeader (g_hmac env) (g_now env) (ep_secret e) (ep_prev_secret e) (ep_prev_secret_expires_at e)
                   (ms_id (sr_message row)) (Unix (ms_created_at (sr_message row))) body of
              None \<Rightarrow> terminate_msg R h env row raw SeSign w
            | Some sig \<Rightarrow> sendMessage R h env row p raw body sig w))"

definition rateMessage ::
  "'r redis \<Rightarrow> mhandler \<Rightarrow> menv \<Rightarrow> send_row \<Rightarrow> payload \<Rightarrow> string \<Rightarrow> bytes \<Rightarrow> 'r mworld \<Rightarrow> go_error option \<times> 'r mworld" where
  "rateMessage R h env row p raw body w =
     (let e = sr_endpoint row
      in case (if ep_rate_limit e \<noteq> None \<and> the (ep_rate_limit e) > 0 \<and> mh_limiter h then g_limiter env else None) of
           Some (allowed, retryAfter) \<Rightarrow>
             if allowed = 0 then
               deferSend R h env p raw (if retryAfter \<le> 0 then 100 * millisecond else retryAfter) w
             else signMessage R h env row p raw body w
         | None \<Rightarrow> signMessage R h env row p raw body w)"

definition transformMessage ::
  "'r redis \<Rightarrow> mhandler \<Rightarrow> menv \<Rightarrow> send_row \<Rightarrow> payload \<Rightarrow> string \<Rightarrow> bytes \<Rightarrow> (string \<times> string) list \<Rightarrow> 'r mworld
     \<Rightarrow> go_error option \<times> 'r mworld" where
  "transformMessage R h env row p raw body hs w =
     (if opt_nonempty (ep_transform_js (sr_endpoint row)) then
        (case g_transform env (the (ep_transform_js (sr_endpoint row))) body hs of
           Inl e \<Rightarrow> terminate_msg R h env row raw (SeTransform e) w
         | Inr out \<Rightarrow> rateMessage R h env row p raw out w)
      else rateMessage R h env row p raw body w)"

definition prepareMessage ::
  "'r redis \<Rightarrow> mhandler \<Rightarrow> menv \<Rightarrow> send_row \<Rightarrow> payload \<Rightarrow> string \<Rightarrow> 'r mworld \<Rightarrow> go_error option \<times> 'r mworld" where
  "prepareMessage R h env row p raw w =
     (case ms_payload (sr_message row) of
        None \<Rightarrow> terminate_msg R h env row raw SeExpunged w
      | Some [] \<Rightarrow> terminate_msg R h env row raw SeExpunged w
      | Some body \<Rightarrow>
          (let e = sr_endpoint row;
               hs = (case unmarshalHeaderMap (ep_headers e) of None \<Rightarrow> [] | Some m \<Rightarrow> m)
           in if opt_nonempty (ep_filter_expr e) then
                (case g_filter env (the (ep_filter_expr e)) body hs (ms_event_type (sr_message row)) (ms_channels (sr_message row)) of
                   Inl x \<Rightarrow> terminate_msg R h env row raw (SeFilter x) w
                 | Inr ok \<Rightarrow>
                     if \<not> ok then
                       (let w = snd (m_mark env ''filtered'' (MarkDeliveryFiltered (g_now env) (dl_id (sr_delivery row))) w)
                        in m_ack R h env raw w)
                     else transformMessage R h env row p raw body hs w)
              else transformMessage R h env row p raw body hs w))"

definition terminal_delivery :: "string \<Rightarrow> bool" where
  "terminal_delivery s \<longleftrightarrow> s \<in> {''delivered'', ''dead'', ''disabled'', ''filtered''}"

definition Process_msg ::
  "'r redis \<Rightarrow> mhandler \<Rightarrow> menv \<Rightarrow> payload \<Rightarrow> string \<Rightarrow> 'r mworld \<Rightarrow> go_error option \<times> 'r mworld" where
  "Process_msg R h env p raw w =
     (case deliveryID p of
        None \<Rightarrow> m_dead R h env raw w
      | Some did \<Rightarrow>
          if g_load env \<noteq> IoOk then (Some ErrDb, w)
          else case GetMessageDeliveryForSend did (mw_db w) of
            None \<Rightarrow> m_ack R h env raw w
          | Some row \<Rightarrow>
              if terminal_delivery (dl_status (sr_delivery row)) then m_ack R h env raw w
              else if ep_disabled (sr_endpoint row) then
                (let w = snd (m_mark env ''disabled'' (MarkDeliveryDisabled (g_now env) did) w)
                 in m_ack R h env raw w)
              else if mh_PerOrgMaxInflight h > 0 \<and> mh_redis h then
                (let key = ''inflight:org:'' @ dl_org_id (sr_delivery row);
                     release = (\<lambda>w. w\<lparr>mw_redis := snd (run_io (g_decr env) (Decr R key) (mw_redis w))\<rparr>)
                 in case run_io (g_incr env) (inflightIncrScript R key inflightTTL (mh_PerOrgMaxInflight h)) (mw_redis w) of
                      (None, s) \<Rightarrow> prepareMessage R h env row p raw (w\<lparr>mw_redis := s\<rparr>)
                    | (Some n, s) \<Rightarrow>
                        (let w = w\<lparr>mw_redis := s\<rparr>
                         in if n > mh_PerOrgMaxInflight h then deferSend R h env p raw (500 * millisecond) (release w)
                            else (let (err, w) = prepareMessage R h env row p raw w in (err, release w))))
              else prepareMessage R h env row p raw w)"

section \<open>The reaper\<close>

text \<open>One tick of \<open>runReaper\<close>: claim, then enqueue each claimed row, failures ignored.\<close>

fun reapMessages ::
  "'r redis \<Rightarrow> client \<Rightarrow> (string \<Rightarrow> io) \<Rightarrow> (string \<times> string) list \<Rightarrow> int \<Rightarrow> (string \<times> string) list \<Rightarrow> 'r mworld \<Rightarrow> 'r mworld" where
  "reapMessages R c enq tr now [] w = w"
| "reapMessages R c enq tr now ((i, org) # rows) w =
     reapMessages R c enq tr now rows (snd (enqueue_delivery R c (enq i) tr now org i w))"

definition reaperTick ::
  "'r redis \<Rightarrow> client \<Rightarrow> io \<Rightarrow> (string \<Rightarrow> bool) \<Rightarrow> (string \<Rightarrow> io) \<Rightarrow> (string \<times> string) list \<Rightarrow> int \<Rightarrow> 'r mworld \<Rightarrow> 'r mworld" where
  "reaperTick R c o1 locked enq tr now w =
     (case run_io o1 (ClaimStuckMessageDeliveries now locked) (mw_db w) of
        (None, d) \<Rightarrow> w\<lparr>mw_db := d\<rparr>
      | (Some rows, d) \<Rightarrow> reapMessages R c enq tr now rows (w\<lparr>mw_db := d\<rparr>))"

end
