(* ===== verification/Dqueue_Props.thy ===== *)
theory Dqueue_Props
  imports Payload_Json
begin

text \<open>
  The properties of the delivery queue, over the client methods run in any order by any number of
  servers and workers against any Redis that keeps its documented laws, with payloads in the JSON
  form of \<open>Payload_Json\<close>. The first section lifts the invariants of the abstract queue to runs.
\<close>

section \<open>Runs\<close>

fun q_run :: "'r redis \<Rightarrow> codec \<Rightarrow> client \<Rightarrow> q_op list \<Rightarrow> 'r \<Rightarrow> 'r" where
  "q_run R C c [] s = s"
| "q_run R C c (op # ops) s = q_run R C c ops (q_exec R C c op s)"

text \<open>The processing members that the picks of a run leased, in order.\<close>

definition op_leased :: "'r redis \<Rightarrow> client \<Rightarrow> q_op \<Rightarrow> 'r \<Rightarrow> string list" where
  "op_leased R c op s = (case op of
      OpPick w now lease tok \<Rightarrow>
        if w = IoErr then []
        else (case fst (fairPickScript R (prefix c) (now + lease) tok s) of None \<Rightarrow> [] | Some m \<Rightarrow> [m])
    | _ \<Rightarrow> [])"

fun q_leased :: "'r redis \<Rightarrow> codec \<Rightarrow> client \<Rightarrow> q_op list \<Rightarrow> 'r \<Rightarrow> string list" where
  "q_leased R C c [] s = []"
| "q_leased R C c (op # ops) s = op_leased R c op s @ q_leased R C c ops (q_exec R C c op s)"

text \<open>
  What the callers keep to: payloads that the program builds, fencing tokens without the separator,
  clock values of 64 bits, and dead-letter calls only for members that carry an encoded payload.
\<close>

definition legal :: "q_op \<Rightarrow> bool" where
  "legal op \<longleftrightarrow> op_ok payload_ok op \<and> op_known payload_json payload_ok op"

definition sound :: "dq \<Rightarrow> bool" where
  "sound q \<longleftrightarrow> dq_inv q \<and> origin payload_json payload_ok q"

lemma sound_empty: "sound dq_empty"
  by (simp add: sound_def dq_inv_empty origin_empty)

lemma sound_exec: "sound q \<Longrightarrow> legal op \<Longrightarrow> sound (dq_exec payload_json op q)"
  by (simp add: sound_def legal_def inv_exec json.origin_exec)

lemma sound_run: "sound q \<Longrightarrow> list_all legal ops \<Longrightarrow> sound (dq_run payload_json ops q)"
  by (induction ops arbitrary: q) (auto simp: sound_exec)

lemma live_run:
  "sound q \<Longrightarrow> list_all legal ops \<Longrightarrow> e \<in> live q \<Longrightarrow> list_all (\<lambda>op. \<not> ends e op) ops \<Longrightarrow>
     e \<in> live (dq_run payload_json ops q)"
proof (induction ops arbitrary: q)
  case (Cons op ops)
  then have "e \<in> live (dq_exec payload_json op q)"
    by (auto simp: sound_def legal_def intro: json.live_exec)
  with Cons show ?case by (simp add: sound_exec)
qed simp

text \<open>A pick leases the head of the list of the organization at the head of the ring.\<close>

lemma sound_pick:
  assumes "sound q" "ring q = org # rest"
  obtains p es where "payload_ok p" "p_OrgID p = org" "pend q org = marshal payload_json p # es"
    "fst (dq_pick t tok q) = Some (tok @ leaseSep # marshal payload_json p)"
proof -
  obtain e es where e: "pend q org = e # es" "fst (dq_pick t tok q) = Some (tok @ leaseSep # e)"
    using pick_Cons [of q org rest t tok] assms by (metis fst_conv sound_def)
  then have "e \<in> live q" by (auto intro: liveI(1) [of e q org])
  with assms(1) have "e \<in> encodings payload_json payload_ok"
    by (auto simp: sound_def intro: origin_live)
  moreover have "cjson_org_id payload_json e = Some org"
    using assms(1) e(1) by (auto simp: sound_def origin_def)
  ultimately obtain p where "payload_ok p" "e = marshal payload_json p" "p_OrgID p = org"
    by (auto simp: encodings_def json.cjson_marshal)
  with e that show thesis by blast
qed

context redis
begin

lemma run_refines: "dq_of R (prefix c) (q_run R C c ops s) = dq_run C ops (dq_of R (prefix c) s)"
  by (induction ops arbitrary: s) (simp_all add: exec_refines)

lemma sound_reach:
  "dq_of R (prefix c) s = dq_empty \<Longrightarrow> list_all legal ops \<Longrightarrow>
     sound (dq_of R (prefix c) (q_run R payload_json c ops s))"
  by (simp add: run_refines sound_run sound_empty)

text \<open>The organizations of the leased events are the ones the ring serves.\<close>

lemma op_leased_org:
  assumes "sound (dq_of R (prefix c) s)" "legal op"
  shows "map (\<lambda>m. cjson_org_id payload_json (stripToken m)) (op_leased R c op s) =
     map Some (if is_pick op then take 1 (ring (dq_of R (prefix c) s)) else [])"
    "map stripToken (op_leased R c op s) =
     (case ring (dq_of R (prefix c) s) of [] \<Rightarrow> [] | org # _ \<Rightarrow> op_taken op (dq_of R (prefix c) s) org)"
proof -
  let ?q = "dq_of R (prefix c) s"
  have "map (\<lambda>m. cjson_org_id payload_json (stripToken m)) (op_leased R c op s) =
      map Some (if is_pick op then take 1 (ring ?q) else []) \<and>
    map stripToken (op_leased R c op s) = (case ring ?q of [] \<Rightarrow> [] | org # _ \<Rightarrow> op_taken op ?q org)"
  proof (cases "is_pick op \<and> ring ?q \<noteq> []")
    case True
    then obtain w now lease tok where op: "op = OpPick w now lease tok" "w \<noteq> IoErr" by (cases op) auto
    from True obtain org rest where ring: "ring ?q = org # rest" by (cases "ring ?q") auto
    obtain p es where p: "payload_ok p" "p_OrgID p = org" "pend ?q org = marshal payload_json p # es"
      "fst (dq_pick (now + lease) tok ?q) = Some (tok @ leaseSep # marshal payload_json p)"
      using sound_pick [OF assms(1) ring] by metis
    have "leaseSep \<notin> set tok" using assms(2) op by (simp add: legal_def)
    with p op ring show ?thesis
      by (simp add: op_leased_def op_taken_def pick_refines stripToken_member json.cjson_marshal)
  next
    case False
    then show ?thesis
      by (cases op) (auto simp: op_leased_def op_taken_def pick_refines pick_Nil split: list.split)
  qed
  then show "map (\<lambda>m. cjson_org_id payload_json (stripToken m)) (op_leased R c op s) =
      map Some (if is_pick op then take 1 (ring ?q) else [])"
    "map stripToken (op_leased R c op s) = (case ring ?q of [] \<Rightarrow> [] | org # _ \<Rightarrow> op_taken op ?q org)"
    by simp_all
qed

lemma leased_served:
  "sound (dq_of R (prefix c) s) \<Longrightarrow> list_all legal ops \<Longrightarrow>
     map (\<lambda>m. cjson_org_id payload_json (stripToken m)) (q_leased R payload_json c ops s) =
       map Some (dq_served payload_json ops (dq_of R (prefix c) s))"
proof (induction ops arbitrary: s)
  case (Cons op ops)
  then have "sound (dq_of R (prefix c) (q_exec R payload_json c op s))"
    by (simp add: exec_refines sound_exec)
  with Cons op_leased_org(1) [of c s op] show ?case by (simp add: exec_refines)
qed simp

end

context redis
begin

lemma fair_lease:
  assumes "sound (dq_of R (prefix c) s)" "list_all legal ops" "pend (dq_of R (prefix c) s) org \<noteq> []"
    "pos org (ring (dq_of R (prefix c) s)) < length (q_leased R payload_json c ops s)"
  shows "\<exists>m \<in> set (take (Suc (pos org (ring (dq_of R (prefix c) s)))) (q_leased R payload_json c ops s)).
    cjson_org_id payload_json (stripToken m) = Some org"
proof -
  let ?q = "dq_of R (prefix c) s" and ?ms = "q_leased R payload_json c ops s"
  let ?f = "\<lambda>m. cjson_org_id payload_json (stripToken m)"
  have ms: "map ?f ?ms = map Some (dq_served payload_json ops ?q)"
    using assms(1,2) by (rule leased_served)
  then have "length ?ms = length (dq_served payload_json ops ?q)" by (rule map_eq_imp_length_eq)
  with assms have "org \<in> set (take (Suc (pos org (ring ?q))) (dq_served payload_json ops ?q))"
    by (intro dq_fair) (auto simp: sound_def)
  then have "Some org \<in> set (take (Suc (pos org (ring ?q))) (map ?f ?ms))"
    unfolding ms by (simp add: take_map)
  then show ?thesis by (auto simp: take_map)
qed

text \<open>The events of an organization among the leased ones are those the ring took from its list.\<close>

lemma leased_taken:
  "sound (dq_of R (prefix c) s) \<Longrightarrow> list_all legal ops \<Longrightarrow>
     filter (\<lambda>e. cjson_org_id payload_json e = Some org) (map stripToken (q_leased R payload_json c ops s)) =
       dq_taken payload_json ops (dq_of R (prefix c) s) org"
proof (induction ops arbitrary: s)
  case (Cons op ops)
  let ?q = "dq_of R (prefix c) s"
  have "sound (dq_of R (prefix c) (q_exec R payload_json c op s))"
    using Cons.prems by (simp add: exec_refines sound_exec)
  then have IH: "filter (\<lambda>e. cjson_org_id payload_json e = Some org)
      (map stripToken (q_leased R payload_json c ops (q_exec R payload_json c op s))) =
        dq_taken payload_json ops (dq_exec payload_json op ?q) org"
    using Cons by (simp add: exec_refines)
  have "filter (\<lambda>e. cjson_org_id payload_json e = Some org) (map stripToken (op_leased R c op s)) =
      op_taken op ?q org"
  proof (cases "ring ?q")
    case Nil
    then show ?thesis using op_leased_org(2) [of c s op] Cons.prems by (simp add: op_taken_def)
  next
    case (Cons o1 rest)
    have "e \<in> set (pend ?q o1) \<Longrightarrow> cjson_org_id payload_json e = Some o1" for e
      using \<open>sound ?q\<close> by (auto simp: sound_def origin_def)
    then have "filter (\<lambda>e. cjson_org_id payload_json e = Some org) (op_taken op ?q o1) = op_taken op ?q org"
      using Cons by (cases "pend ?q o1") (auto simp: op_taken_def)
    then show ?thesis using op_leased_org(2) [of c s op] \<open>sound ?q\<close> \<open>list_all legal (op # ops)\<close> Cons by simp
  qed
  with IH show ?case by simp
qed simp

text \<open>The result of a pick.\<close>

lemma FairPick_result:
  assumes "sound (dq_of R (prefix c) s)" "leaseSep \<notin> set tok"
  shows "fst (FairPick R payload_json c IoOk now lease tok s) =
     (case ring (dq_of R (prefix c) s) of
        [] \<Rightarrow> Inr None
      | org # _ \<Rightarrow>
          Inr (Some (tok @ leaseSep # hd (pend (dq_of R (prefix c) s) org),
                     the (unmarshal payload_json (hd (pend (dq_of R (prefix c) s) org))))))"
    "ring (dq_of R (prefix c) s) = org # rest \<Longrightarrow>
     \<exists>p. unmarshal payload_json (hd (pend (dq_of R (prefix c) s) org)) = Some p \<and> p_OrgID p = org \<and>
         hd (pend (dq_of R (prefix c) s) org) = marshal payload_json p"
proof -
  let ?q = "dq_of R (prefix c) s"
  have *: "\<exists>p. payload_ok p \<and> unmarshal payload_json (hd (pend ?q org)) = Some p \<and> p_OrgID p = org \<and>
      hd (pend ?q org) = marshal payload_json p \<and>
      fst (dq_pick (now + lease) tok ?q) = Some (tok @ leaseSep # marshal payload_json p)"
    if ring: "ring ?q = org # rest" for org rest
    using sound_pick [OF assms(1) ring] by (metis json.unmarshal_marshal list.sel(1))
  then show "ring ?q = org # rest \<Longrightarrow>
     \<exists>p. unmarshal payload_json (hd (pend ?q org)) = Some p \<and> p_OrgID p = org \<and>
         hd (pend ?q org) = marshal payload_json p" by blast
  show "fst (FairPick R payload_json c IoOk now lease tok s) =
     (case ring ?q of [] \<Rightarrow> Inr None
      | org # _ \<Rightarrow> Inr (Some (tok @ leaseSep # hd (pend ?q org), the (unmarshal payload_json (hd (pend ?q org))))))"
  proof (cases "ring ?q")
    case Nil
    then show ?thesis by (simp add: FairPick_def pick_refines pick_Nil)
  next
    case (Cons org rest)
    from * [OF this] obtain p where p: "payload_ok p" "unmarshal payload_json (hd (pend ?q org)) = Some p"
      "hd (pend ?q org) = marshal payload_json p"
      "fst (dq_pick (now + lease) tok ?q) = Some (tok @ leaseSep # marshal payload_json p)" by blast
    then show ?thesis
      using Cons assms(2) by (simp add: FairPick_def pick_refines stripToken_member json.unmarshal_marshal)
  qed
qed

end

fun dq_leased :: "codec \<Rightarrow> q_op list \<Rightarrow> dq \<Rightarrow> string list" where
  "dq_leased C [] q = []"
| "dq_leased C (op # ops) q =
     (case op of
        OpPick w now lease tok \<Rightarrow>
          if w = IoErr then [] else (case fst (dq_pick (now + lease) tok q) of None \<Rightarrow> [] | Some m \<Rightarrow> [m])
      | _ \<Rightarrow> []) @ dq_leased C ops (dq_exec C op q)"

context redis
begin

lemma leased_refines:
  "q_leased R C c ops s = dq_leased C ops (dq_of R (prefix c) s)"
  by (induction ops arbitrary: s) (simp_all add: exec_refines op_leased_def pick_refines split: q_op.split)

end

section \<open>Expired leases, the dead list, bounds\<close>

lemma proc_recover: "zmembers (proc (dq_recover now ms q)) = zmembers (proc q) - set ms"
  by (induction ms arbitrary: q) (auto simp: dq_sched_def dq_release_def)

lemma sched_recover_keep:
  "(e, now) \<in> set (sched q) \<Longrightarrow> (e, now) \<in> set (sched (dq_recover now ms q))"
  by (induction ms arbitrary: q) (auto simp: dq_sched_def dq_release_def zdel_def)

lemma sched_recover: "m \<in> set ms \<Longrightarrow> (stripToken m, now) \<in> set (sched (dq_recover now ms q))"
proof (induction ms arbitrary: q)
  case (Cons x ms)
  show ?case
  proof (cases "m = x")
    case True
    then show ?thesis by (simp add: sched_recover_keep dq_sched_def)
  qed (use Cons in auto)
qed simp

lemma promote_ok:
  "\<forall>e \<in> set es. cjson_org_id C e \<noteq> None \<Longrightarrow> fst (dq_promote C es q)"
  by (induction es arbitrary: q) auto

lemma proc_promote [simp]: "proc (snd (dq_promote C es q)) = proc q"
  by (induction es arbitrary: q) (auto simp: dq_push_def dq_unsched_def split: option.split)

lemma due_decodes: "sound q \<Longrightarrow> e \<in> set (take n (due now (sched q))) \<Longrightarrow> cjson_org_id payload_json e \<noteq> None"
  using take_due_subset [of n now "sched q"]
  by (intro json.enc_decodes) (auto simp: sound_def intro: origin_live liveI(2))

lemma promote_pending:
  assumes "sound q" "e \<in> set (due now (sched q))" "length (due now (sched q)) \<le> n"
    "cjson_org_id payload_json e = Some org"
  shows "e \<in> set (pend (dq_exec payload_json (OpPromote IoOk now n) q) org)"
proof -
  let ?es = "take n (due now (sched q))"
  have "takeWhile (\<lambda>e. cjson_org_id payload_json e \<noteq> None) ?es = ?es"
    using due_decodes [OF assms(1)] by (intro takeWhile_eq_all_conv [THEN iffD2]) blast
  note tw = this
  have "pend (dq_exec payload_json (OpPromote IoOk now n) q) org = pend (snd (dq_promote payload_json ?es q)) org"
    by (simp add: Let_def case_prod_unfold)
  moreover have "e \<in> set ?es" using assms(2,3) by simp
  ultimately show ?thesis using assms(4) unfolding pend_promote tw by simp
qed

lemma dead_bound: "length (deadq q) \<le> 10000 \<Longrightarrow> length (deadq (dq_exec C op q)) \<le> 10000"
proof (cases op)
  case (OpPromote w now n)
  have "deadq (snd (dq_promote C es q)) = deadq q" for es
    by (induction es arbitrary: q) (auto split: option.split)
  then show "length (deadq q) \<le> 10000 \<Longrightarrow> ?thesis" using OpPromote by (simp add: Let_def case_prod_unfold)
next
  case (OpRecover w now)
  have "deadq (dq_recover now ms q) = deadq q" for ms by (induction ms arbitrary: q) auto
  then show "length (deadq q) \<le> 10000 \<Longrightarrow> ?thesis" using OpRecover by simp
qed (auto simp: last_n_def length_remove1 Let_def split: option.split)

lemma notif_simps [simp]:
  "notif (dq_push org e q) = Suc (notif q)" "notif (dq_trim q) = min 1025 (notif q)"
  "notif (dq_sched t e q) = notif q" "notif (dq_release m q) = notif q" "notif (dq_bury n m q) = notif q"
  "notif (dq_unsched e q) = notif q" "notif (snd (dq_pick t tok q)) = notif q"
  by (simp_all add: dq_push_def dq_trim_def dq_sched_def dq_release_def dq_bury_def dq_unsched_def dq_pick_def split: list.split)

lemma notif_recover [simp]: "notif (dq_recover now ms q) = notif q"
  by (induction ms arbitrary: q) auto

lemma notif_bound:
  assumes "sound q" "notif q \<le> 1025"
  shows "notif (dq_exec payload_json op q) \<le> 1025"
proof (cases op)
  case (OpPromote w now n)
  have "fst (dq_promote payload_json (take n (due now (sched q))) q)"
    using due_decodes [OF assms(1)] by (intro promote_ok) blast
  then show ?thesis using OpPromote assms(2) by (simp add: Let_def case_prod_unfold)
qed (use assms in \<open>auto simp: Let_def split: option.split\<close>)

lemma run_bounds:
  "sound q \<Longrightarrow> list_all legal ops \<Longrightarrow> length (deadq q) \<le> 10000 \<Longrightarrow> notif q \<le> 1025 \<Longrightarrow>
     length (deadq (dq_run payload_json ops q)) \<le> 10000 \<and> notif (dq_run payload_json ops q) \<le> 1025"
  by (induction ops arbitrary: q) (auto simp: sound_exec dead_bound notif_bound)

section \<open>Concrete runs for the witnesses\<close>

definition org_a :: uuid where
  "org_a = ''aaaaaaaa-0000-4000-8000-000000000001''"

definition org_b :: uuid where
  "org_b = ''bbbbbbbb-0000-4000-8000-000000000002''"

definition pl :: "uuid \<Rightarrow> payload" where
  "pl org = \<lparr>p_EventID = uuid_Nil, p_OrgID = org, p_Attempt = 1, p_EnqueuedAt = 5, p_Manual = False,
     p_RetryStrategy = ''linear'', p_RetryBaseMs = 10, p_RetryCapMs = 0, p_RetryJitterPct = 0,
     p_CustomRetrySchedule = [], p_Trace = [], p_Kind = [], p_Data = ''x''\<rparr>"

definition enq_a :: q_op where
  "enq_a = OpEnqueue IoOk [] (pl org_a)"

definition enq_b :: q_op where
  "enq_b = OpEnqueue IoOk [] (pl org_b)"

definition pick1 :: q_op where
  "pick1 = OpPick IoOk 100 50 ''t1''"

definition pick2 :: q_op where
  "pick2 = OpPick IoLost 100 50 ''t2''"

lemma wit_uuids:
  "uuid_parse org_a = Some org_a" "uuid_parse org_b = Some org_b" "uuid_parse uuid_Nil = Some uuid_Nil"
  by (simp_all add: uuid_parse_def org_a_def org_b_def uuid_Nil_def hex_val_def lower_char_def upt_rec less_eq_char_def)

lemma pl_ok: "payload_ok (pl org_a)" "payload_ok (pl org_b)"
  by (simp_all add: payload_ok_def pl_def wit_uuids int_ok_def ascii_def)

lemma wit_basic [simp]: "org_a \<noteq> org_b" "org_b \<noteq> org_a" "p_OrgID (pl org) = org" "injectTrace [] p = p"
  by (simp_all add: org_a_def org_b_def pl_def injectTrace_def)

lemma wit_legal: "legal enq_a" "legal enq_b" "legal pick1" "legal pick2"
  by (simp_all add: legal_def enq_a_def enq_b_def pick1_def pick2_def pl_ok leaseSep_def)

lemma mem_dq_empty: "dq_of mem_redis p mem_empty = dq_empty"
  by (simp add: dq_of_def view_mem mem_empty_def get_or_def dq_empty_def fun_eq_iff)

text \<open>Runs on the in-memory Redis are evaluated on the abstract queue, the encodings left folded.\<close>

declare q_run.simps [simp del] q_leased.simps [simp del]

lemmas wit_eval = mem.run_refines mem.leased_refines mem_dq_empty enq_a_def enq_b_def pick1_def pick2_def
  dq_pick_def dq_push_def dq_trim_def dq_empty_def

section \<open>Properties\<close>

text \<open>
  C1: refinement. Every client method (with its Lua script), whatever the outcome of its Redis call,
  acts on the keyspace as the corresponding operation of the abstract queue acts on its ring of
  organizations, per-organization lists, leases, schedule, dead list and wake-up count.
\<close>

theorem queue_refines:
  assumes "redis R"
  shows "dq_of R (prefix c) (q_exec R C c op s) = dq_exec C op (dq_of R (prefix c) s)"
  using assms by (rule redis.exec_refines)

theorem queue_refines_witness:
  "dq_of mem_redis ''dq'' (q_exec mem_redis payload_json NewClient enq_a mem_empty) = dq_exec payload_json enq_a dq_empty"
  using queue_refines [OF mem.redis_axioms, of NewClient payload_json enq_a mem_empty]
  by (simp add: NewClient_def mem_dq_empty)

text \<open>
  C2: invariant. In every state that any sequence of client calls reaches from an empty keyspace,
  whatever calls fail or lose their reply, an organization is in the ring exactly once if it has
  pending events and not at all otherwise, so no pending event is out of reach of the pick.
\<close>

theorem ring_invariant:
  assumes "redis R" "dq_of R (prefix c) s = dq_empty"
  shows "let q = dq_of R (prefix c) (q_run R C c ops s)
    in distinct (ring q) \<and> (\<forall>org. org \<in> set (ring q) \<longleftrightarrow> pend q org \<noteq> [])"
proof -
  have "dq_inv (dq_run C ops q)" if "dq_inv q" for q
    using that by (induction ops arbitrary: q) (auto simp: inv_exec)
  with dq_inv_empty show ?thesis
    by (simp add: redis.run_refines [OF assms(1)] assms(2) dq_inv_def Let_def)
qed

theorem ring_invariant_witness:
  "let q = dq_of mem_redis (prefix NewClient) (q_run mem_redis payload_json NewClient [enq_a, enq_b, enq_a, pick1] mem_empty)
    in distinct (ring q) \<and> (\<forall>org. org \<in> set (ring q) \<longleftrightarrow> pend q org \<noteq> [])"
  by (rule ring_invariant [OF mem.redis_axioms mem_dq_empty])

text \<open>
  C3: fairness. In a state reached from an empty keyspace, an organization with pending events that
  stands at position \<open>i\<close> of the ring has one of them leased among the next \<open>i + 1\<close> leases, however
  many events the other organizations enqueue meanwhile and whatever else happens.
\<close>

theorem pick_fair:
  assumes "redis R" "dq_of R (prefix c) s0 = dq_empty" "list_all legal pre" "list_all legal ops"
    and s: "s = q_run R payload_json c pre s0"
    and "pend (dq_of R (prefix c) s) org \<noteq> []"
    and "pos org (ring (dq_of R (prefix c) s)) < length (q_leased R payload_json c ops s)"
  shows "\<exists>m \<in> set (take (Suc (pos org (ring (dq_of R (prefix c) s)))) (q_leased R payload_json c ops s)).
    cjson_org_id payload_json (stripToken m) = Some org"
  using assms redis.sound_reach [OF assms(1-3)] by (intro redis.fair_lease) auto

theorem pick_fair_witness:
  "\<exists>m \<in> set (take 2 (q_leased mem_redis payload_json NewClient [enq_a, pick1, enq_a, pick2]
      (q_run mem_redis payload_json NewClient [enq_a, enq_a, enq_b] mem_empty))).
    cjson_org_id payload_json (stripToken m) = Some org_b"
proof -
  have "list_all legal [enq_a, enq_a, enq_b]" "list_all legal [enq_a, pick1, enq_a, pick2]"
    by (simp_all add: wit_legal)
  note * = pick_fair [OF mem.redis_axioms mem_dq_empty this refl, where c = NewClient and org = org_b]
  show ?thesis using * by (simp add: wit_eval numeral_2_eq_2)
qed

text \<open>
  C4: first in, first out. Between two states of a run, the events of an organization that picks
  leased, followed by those still pending, are those that were pending, followed by those that
  enqueueing, promotion and requeueing added, in order: nothing is reordered, dropped or duplicated
  within an organization.
\<close>

theorem org_fifo:
  assumes "redis R" "dq_of R (prefix c) s0 = dq_empty" "list_all legal pre" "list_all legal ops"
    and s: "s = q_run R payload_json c pre s0"
  shows "filter (\<lambda>e. cjson_org_id payload_json e = Some org) (map stripToken (q_leased R payload_json c ops s)) @
       pend (dq_of R (prefix c) (q_run R payload_json c ops s)) org =
     pend (dq_of R (prefix c) s) org @ dq_added payload_json ops (dq_of R (prefix c) s) org"
proof -
  have q: "sound (dq_of R (prefix c) s)" using redis.sound_reach [OF assms(1-3)] s by simp
  then show ?thesis
    using redis.leased_taken [OF assms(1) q assms(4), of org] dq_fifo [of "dq_of R (prefix c) s" payload_json ops org]
    by (simp add: redis.run_refines [OF assms(1)] sound_def)
qed

theorem org_fifo_witness:
  "filter (\<lambda>e. cjson_org_id payload_json e = Some org_a)
      (map stripToken (q_leased mem_redis payload_json NewClient [pick1, enq_a, pick2] (q_run mem_redis payload_json NewClient [enq_a] mem_empty))) @
    pend (dq_of mem_redis (prefix NewClient) (q_run mem_redis payload_json NewClient [pick1, enq_a, pick2]
      (q_run mem_redis payload_json NewClient [enq_a] mem_empty))) org_a =
    [marshal payload_json (pl org_a), marshal payload_json (pl org_a)]"
proof -
  have "list_all legal [enq_a]" "list_all legal [pick1, enq_a, pick2]" by (simp_all add: wit_legal)
  note * = org_fifo [OF mem.redis_axioms mem_dq_empty this refl, where c = NewClient and org = org_a]
  show ?thesis unfolding * by (simp add: wit_eval)
qed

text \<open>
  C5: no event is lost. An event that is pending, scheduled or leased in a reachable state is still
  pending, scheduled or leased after any further calls (lost replies, expired leases and failed
  calls included) that do not acknowledge or dead-letter a lease carrying it.
\<close>

theorem no_event_lost:
  assumes "redis R" "dq_of R (prefix c) s0 = dq_empty" "list_all legal pre" "list_all legal ops"
    and s: "s = q_run R payload_json c pre s0"
    and "e \<in> live (dq_of R (prefix c) s)" "list_all (\<lambda>op. \<not> ends e op) ops"
  shows "e \<in> live (dq_of R (prefix c) (q_run R payload_json c ops s))"
  using redis.sound_reach [OF assms(1-3)] assms by (simp add: redis.run_refines live_run)

theorem no_event_lost_witness:
  "marshal payload_json (pl org_a) \<in> live (dq_of mem_redis (prefix NewClient)
     (q_run mem_redis payload_json NewClient [pick2, OpRecover IoOk 200, OpPromote IoLost 200 10]
       (q_run mem_redis payload_json NewClient [enq_a] mem_empty)))"
proof (rule no_event_lost [OF mem.redis_axioms mem_dq_empty _ _ refl])
  show "list_all legal [enq_a]" "list_all legal [pick2, OpRecover IoOk 200, OpPromote IoLost 200 10]"
    by (simp_all add: wit_legal) (simp_all add: legal_def)
  show "marshal payload_json (pl org_a) \<in> live (dq_of mem_redis (prefix NewClient) (q_run mem_redis payload_json NewClient [enq_a] mem_empty))"
    by (simp add: wit_eval live_def)
  show "list_all (\<lambda>op. \<not> ends (marshal payload_json (pl org_a)) op) [pick2, OpRecover IoOk 200, OpPromote IoLost 200 10]"
    by (simp add: pick2_def)
qed

text \<open>
  the result of a pick. In a reachable state a successful pick never fails to decode: it reports
  no work exactly when the ring is empty, and otherwise returns the payload that was enqueued first
  for the organization at the head of the ring, with its fenced member.
\<close>

theorem pick_result:
  assumes "redis R" "dq_of R (prefix c) s0 = dq_empty" "list_all legal pre"
    and s: "s = q_run R payload_json c pre s0" and "leaseSep \<notin> set tok"
  shows "(case ring (dq_of R (prefix c) s) of
      [] \<Rightarrow> fst (FairPick R payload_json c IoOk now lease tok s) = Inr None
    | org # _ \<Rightarrow> \<exists>p. p_OrgID p = org \<and> hd (pend (dq_of R (prefix c) s) org) = marshal payload_json p \<and>
        fst (FairPick R payload_json c IoOk now lease tok s) = Inr (Some (tok @ leaseSep # marshal payload_json p, p)))"
proof -
  have q: "sound (dq_of R (prefix c) s)" using redis.sound_reach [OF assms(1-3)] s by simp
  show ?thesis
    using redis.FairPick_result [OF assms(1) q assms(5)] by (force split: list.split)
qed

theorem pick_result_witness:
  "\<exists>p. p_OrgID p = org_a \<and> marshal payload_json (pl org_a) = marshal payload_json p \<and>
     fst (FairPick mem_redis payload_json NewClient IoOk 100 50 ''t1'' (q_run mem_redis payload_json NewClient [enq_a] mem_empty)) =
       Inr (Some (''t1'' @ leaseSep # marshal payload_json p, p))"
proof -
  have "list_all legal [enq_a]" "leaseSep \<notin> set ''t1''" by (simp_all add: wit_legal leaseSep_def)
  note * = pick_result [OF mem.redis_axioms mem_dq_empty this(1) refl this(2), where c = NewClient and now = 100 and lease = 50]
  show ?thesis using * by (simp add: wit_eval)
qed

text \<open>
  C6: fencing. A worker whose lease expired and was given to another under a new token can neither
  acknowledge nor dead-letter the new lease: an Ack or a DeadLetter with a member of another token
  leaves every lease of the new token, the pending lists, the ring and the schedule as they are.
  The dead list is not fenced: the late Ack leaves it alone, but the late DeadLetter, when it
  reaches Redis at all, still appends the event to it (and trims it to its cap).
\<close>

theorem stale_lease_fenced:
  assumes "redis R" "tok \<noteq> tok'" "leaseSep \<notin> set tok" "leaseSep \<notin> set tok'"
    and q: "q = dq_of R (prefix c) s"
    and qa: "qa = dq_of R (prefix c) (snd (Ack R c w (tok @ leaseSep # e) s))"
    and qd: "qd = dq_of R (prefix c) (snd (DeadLetter R c w (tok @ leaseSep # e) s))"
  shows "((tok' @ leaseSep # e', t) \<in> set (proc qa) \<longleftrightarrow> (tok' @ leaseSep # e', t) \<in> set (proc q)) \<and>
      pend qa = pend q \<and> ring qa = ring q \<and> sched qa = sched q \<and> deadq qa = deadq q \<and>
    ((tok' @ leaseSep # e', t) \<in> set (proc qd) \<longleftrightarrow> (tok' @ leaseSep # e', t) \<in> set (proc q)) \<and>
      pend qd = pend q \<and> ring qd = ring q \<and> sched qd = sched q \<and>
      deadq qd = (if w = IoErr then deadq q else last_n 10000 (deadq q @ [e]))"
proof -
  have ne: "tok' @ leaseSep # e' \<noteq> tok @ leaseSep # e"
    using assms(2-4) index_byte_append [of leaseSep tok e] index_byte_append [of leaseSep tok' e'] by auto
  have a: "qa = dq_exec payload_json (OpAck w (tok @ leaseSep # e)) q"
    and d: "qd = dq_exec payload_json (OpDead w (tok @ leaseSep # e)) q"
    using q qa qd redis.exec_refines [OF assms(1), of c payload_json "OpAck w (tok @ leaseSep # e)" s]
      redis.exec_refines [OF assms(1), of c payload_json "OpDead w (tok @ leaseSep # e)" s] by auto
  have "((tok' @ leaseSep # e', t) \<in> set (proc qa) \<longleftrightarrow> (tok' @ leaseSep # e', t) \<in> set (proc q)) \<and>
      pend qa = pend q \<and> ring qa = ring q \<and> sched qa = sched q \<and> deadq qa = deadq q"
    using a ne by (cases "w = IoErr") (auto simp: dq_release_def zdel_def)
  moreover have "((tok' @ leaseSep # e', t) \<in> set (proc qd) \<longleftrightarrow> (tok' @ leaseSep # e', t) \<in> set (proc q)) \<and>
      pend qd = pend q \<and> ring qd = ring q \<and> sched qd = sched q \<and>
      deadq qd = (if w = IoErr then deadq q else last_n 10000 (deadq q @ [e]))"
    using d ne assms(3) by (cases "w = IoErr") (auto simp: dq_bury_def zdel_def stripToken_member)
  ultimately show ?thesis by blast
qed

theorem stale_lease_fenced_witness:
  "let s = q_run mem_redis payload_json NewClient [enq_a, pick1, OpRecover IoOk 200, OpPromote IoOk 200 10, OpPick IoOk 200 50 ''t2''] mem_empty;
       old = ''t1'' @ leaseSep # marshal payload_json (pl org_a);
       new = ''t2'' @ leaseSep # marshal payload_json (pl org_a);
       q = dq_of mem_redis (prefix NewClient) s;
       qa = dq_of mem_redis (prefix NewClient) (snd (Ack mem_redis NewClient IoOk old s));
       qd = dq_of mem_redis (prefix NewClient) (snd (DeadLetter mem_redis NewClient IoOk old s))
   in ((new, 250) \<in> set (proc qa) \<longleftrightarrow> (new, 250) \<in> set (proc q)) \<and> deadq qa = deadq q \<and>
      ((new, 250) \<in> set (proc qd) \<longleftrightarrow> (new, 250) \<in> set (proc q)) \<and>
      deadq qd = last_n 10000 (deadq q @ [marshal payload_json (pl org_a)])"
proof -
  have "''t1'' \<noteq> ''t2''" "leaseSep \<notin> set ''t1''" "leaseSep \<notin> set ''t2''" by (simp_all add: leaseSep_def)
  note * = stale_lease_fenced [OF mem.redis_axioms this refl refl refl, where c = NewClient]
  show ?thesis unfolding Let_def by (intro conjI) (use * in \<open>simp_all\<close>)
qed

text \<open>
  recovery. The event of an expired lease is back in the pending list of its organization after a
  recovery pass and a promotion pass whose limit covers what is due, and its lease is gone.
\<close>

theorem expired_lease_recovered:
  assumes "redis R" "dq_of R (prefix c) s0 = dq_empty" "list_all legal pre"
    and s: "s = q_run R payload_json c pre s0"
    and "(m, t) \<in> set (proc (dq_of R (prefix c) s))" "t \<le> now" "now \<le> now'"
    and s1: "s1 = snd (Recover R c IoOk now s)"
    and n: "length (due now' (sched (dq_of R (prefix c) s1))) \<le> n"
    and s2: "s2 = snd (PromoteDue R payload_json c IoOk now' n s1)"
  shows "\<exists>p. stripToken m = marshal payload_json p \<and>
    stripToken m \<in> set (pend (dq_of R (prefix c) s2) (p_OrgID p)) \<and>
    m \<notin> zmembers (proc (dq_of R (prefix c) s2))"
proof -
  let ?q = "dq_of R (prefix c) s" and ?q1 = "dq_of R (prefix c) s1" and ?q2 = "dq_of R (prefix c) s2"
  have q: "sound ?q" using redis.sound_reach [OF assms(1-3)] s by simp
  have q1: "?q1 = dq_exec payload_json (OpRecover IoOk now) ?q"
    using redis.exec_refines [OF assms(1), of c payload_json "OpRecover IoOk now" s] s1 by simp
  then have "sound ?q1" using q by (simp add: sound_exec legal_def del: dq_exec.simps)
  have q2: "?q2 = dq_exec payload_json (OpPromote IoOk now' n) ?q1"
    using redis.exec_refines [OF assms(1), of c payload_json "OpPromote IoOk now' n" s1] s2 by simp
  have m: "m \<in> set (due now (proc ?q))" using assms(5,6) by (force simp: due_def)
  then have e: "stripToken m \<in> set (due now' (sched ?q1))"
    using sched_recover [OF m, of now ?q] \<open>now \<le> now'\<close> by (force simp: q1 due_def)
  have "stripToken m \<in> live ?q" using assms(5) by (force simp: zmembers_def intro: liveI(3))
  then obtain p where p: "payload_ok p" "stripToken m = marshal payload_json p"
    using q origin_live by (force simp: sound_def encodings_def)
  with promote_pending [OF \<open>sound ?q1\<close> e n, of "p_OrgID p"]
  have "stripToken m \<in> set (pend ?q2 (p_OrgID p))" by (simp only: q2 json.cjson_marshal)
  moreover have "m \<notin> zmembers (proc ?q2)"
    using m by (simp add: q2 q1 Let_def case_prod_unfold proc_recover dq_trim_def)
  ultimately show ?thesis using p by blast
qed

theorem expired_lease_recovered_witness:
  "let s1 = snd (Recover mem_redis NewClient IoOk 200 (q_run mem_redis payload_json NewClient [enq_a, pick2] mem_empty));
       s2 = snd (PromoteDue mem_redis payload_json NewClient IoOk 201 50 s1);
       m = ''t2'' @ leaseSep # marshal payload_json (pl org_a)
   in \<exists>p. stripToken m = marshal payload_json p \<and>
        stripToken m \<in> set (pend (dq_of mem_redis (prefix NewClient) s2) (p_OrgID p)) \<and>
        m \<notin> zmembers (proc (dq_of mem_redis (prefix NewClient) s2))"
proof -
  let ?s = "q_run mem_redis payload_json NewClient [enq_a, pick2] mem_empty"
  let ?m = "''t2'' @ leaseSep # marshal payload_json (pl org_a)"
  have l: "list_all legal [enq_a, pick2]" by (simp add: wit_legal)
  have q: "proc (dq_of mem_redis (prefix NewClient) ?s) = [(?m, 150)]"
    "sched (dq_of mem_redis (prefix NewClient) ?s) = []"
    by (simp_all add: wit_eval zins_def zdel_def)
  have "dq_of mem_redis (prefix NewClient) (snd (Recover mem_redis NewClient IoOk 200 ?s)) =
      dq_exec payload_json (OpRecover IoOk 200) (dq_of mem_redis (prefix NewClient) ?s)"
    using mem.exec_refines [of NewClient payload_json "OpRecover IoOk 200" ?s] by simp
  then have n: "length (due 201 (sched (dq_of mem_redis (prefix NewClient) (snd (Recover mem_redis NewClient IoOk 200 ?s))))) \<le> 50"
    by (simp add: q due_def dq_sched_def dq_release_def zins_def zdel_def)
  have m: "(?m, 150) \<in> set (proc (dq_of mem_redis (prefix NewClient) ?s))" by (simp add: q)
  show ?thesis
    unfolding Let_def
    by (rule expired_lease_recovered [OF mem.redis_axioms mem_dq_empty l refl m _ _ refl n refl]) simp_all
qed

text \<open>
  bounds. In every reachable state the dead list holds at most \<open>deadListCap\<close> entries and the
  wake-up list at most 1025.
\<close>

theorem queue_bounds:
  assumes "redis R" "dq_of R (prefix c) s = dq_empty" "list_all legal ops"
  shows "int (LLEN R (deadKey (prefix c)) (q_run R payload_json c ops s)) \<le> deadListCap \<and>
    LLEN R (notifyKey (prefix c)) (q_run R payload_json c ops s) \<le> 1025"
proof -
  let ?q = "dq_of R (prefix c) (q_run R payload_json c ops s)"
  have "length (deadq ?q) \<le> 10000 \<and> notif ?q \<le> 1025"
    using run_bounds [OF sound_empty assms(3)] by (simp add: redis.run_refines [OF assms(1)] assms(2)) (simp add: dq_empty_def)
  then show ?thesis by (simp add: redis.llen [OF assms(1)] dq_of_def deadListCap_def)
qed

theorem queue_bounds_witness:
  "int (LLEN mem_redis (deadKey (prefix NewClient)) (q_run mem_redis payload_json NewClient [enq_a, pick1] mem_empty)) \<le> deadListCap \<and>
    LLEN mem_redis (notifyKey (prefix NewClient)) (q_run mem_redis payload_json NewClient [enq_a, pick1] mem_empty) \<le> 1025"
  by (rule queue_bounds [OF mem.redis_axioms mem_dq_empty]) (simp add: wit_legal)

text \<open>
  dead-letter and requeue. Dead-lettering a leased event ends its lease and puts it on the dead
  list; requeueing it reports success and appends it to the pending list of its own organization as
  a fresh task (attempt 0, enqueued now), whatever else is on the dead list.
\<close>

theorem dead_letter_requeue:
  assumes "redis R" "dq_of R (prefix c) s0 = dq_empty" "list_all legal pre"
    and s: "s = q_run R payload_json c pre s0"
    and m: "m \<in> zmembers (proc (dq_of R (prefix c) s))" and now: "0 \<le> now" "now < 2 ^ 63"
    and s1: "s1 = snd (DeadLetter R c IoOk m s)"
  shows "\<exists>p. stripToken m = marshal payload_json p \<and>
    fst (RequeueDead R payload_json c IoOk now (stripToken m) s1) = Inr True \<and>
    (let q2 = dq_of R (prefix c) (snd (RequeueDead R payload_json c IoOk now (stripToken m) s1))
     in pend q2 (p_OrgID p) = pend (dq_of R (prefix c) s) (p_OrgID p) @
          [marshal payload_json (p\<lparr>p_Attempt := 0, p_EnqueuedAt := now\<rparr>)] \<and>
        m \<notin> zmembers (proc q2))"
proof -
  let ?q = "dq_of R (prefix c) s" and ?q1 = "dq_of R (prefix c) s1"
  have q: "sound ?q" using redis.sound_reach [OF assms(1-3)] s by simp
  have q1: "?q1 = dq_bury 10000 m ?q"
    using redis.exec_refines [OF assms(1), of c payload_json "OpDead IoOk m" s] s1 by simp
  have dead: "stripToken m \<in> set (deadq ?q1)" by (simp add: q1 last_n_def)
  have "stripToken m \<in> live ?q" using m by (rule liveI(3))
  then obtain p where p: "payload_ok p" "stripToken m = marshal payload_json p"
    using q origin_live by (force simp: sound_def encodings_def)
  let ?p = "p\<lparr>p_Attempt := 0, p_EnqueuedAt := now\<rparr>"
  have "payload_ok ?p" using p(1) now by (rule json.good_requeue)
  then have org: "cjson_org_id payload_json (marshal payload_json ?p) = Some (p_OrgID p)"
    by (simp add: json.cjson_marshal)
  have u: "unmarshal payload_json (stripToken m) = Some p" using p by (simp add: json.unmarshal_marshal)
  have "fst (RequeueDead R payload_json c IoOk now (stripToken m) s1) = Inr True"
    using dead org u
    by (simp add: RequeueDead_def requeueDeadScript_def pushDecoded_def io_sum_def Let_def case_prod_unfold
        redis.abs_values [OF assms(1)])
  moreover have "dq_of R (prefix c) (snd (RequeueDead R payload_json c IoOk now (stripToken m) s1)) =
      dq_exec payload_json (OpRequeue IoOk now (stripToken m)) ?q1"
    using redis.exec_refines [OF assms(1), of c payload_json "OpRequeue IoOk now (stripToken m)" s1] by simp
  ultimately show ?thesis
    using dead org u p(2) by (intro exI [of _ p]) (auto simp: Let_def q1 dq_bury_def dq_trim_def dq_push_def)
qed

theorem dead_letter_requeue_witness:
  "let m = ''t1'' @ leaseSep # marshal payload_json (pl org_a);
       s = q_run mem_redis payload_json NewClient [enq_a, pick1] mem_empty;
       s1 = snd (DeadLetter mem_redis NewClient IoOk m s)
   in \<exists>p. stripToken m = marshal payload_json p \<and>
    fst (RequeueDead mem_redis payload_json NewClient IoOk 7 (stripToken m) s1) = Inr True \<and>
    (let q2 = dq_of mem_redis (prefix NewClient) (snd (RequeueDead mem_redis payload_json NewClient IoOk 7 (stripToken m) s1))
     in pend q2 (p_OrgID p) = pend (dq_of mem_redis (prefix NewClient) s) (p_OrgID p) @
          [marshal payload_json (p\<lparr>p_Attempt := 0, p_EnqueuedAt := 7\<rparr>)] \<and>
        m \<notin> zmembers (proc q2))"
proof -
  let ?s = "q_run mem_redis payload_json NewClient [enq_a, pick1] mem_empty"
  let ?m = "''t1'' @ leaseSep # marshal payload_json (pl org_a)"
  have l: "list_all legal [enq_a, pick1]" by (simp add: wit_legal)
  have m: "?m \<in> zmembers (proc (dq_of mem_redis (prefix NewClient) ?s))" by (simp add: wit_eval)
  show ?thesis
    unfolding Let_def
    by (rule dead_letter_requeue [OF mem.redis_axioms mem_dq_empty l refl m _ _ refl, unfolded Let_def]) simp_all
qed

end
