(* ===== verification/Deliver_Props.thy ===== *)
theory Deliver_Props
  imports Deliver Dqueue_Props
begin

text \<open>
  Properties of the delivery handler: when it acknowledges and when it keeps a lease, what becomes of
  an event whose lease is gone, the retry budget, the in-flight counters and the request it sends.
\<close>

section \<open>What the primitive steps change\<close>

definition Q :: "'r redis \<Rightarrow> handler \<Rightarrow> 'r world \<Rightarrow> dq" where
  "Q R h w = dq_of R (prefix (h_queue h)) (w_redis w)"

lemma Q_simps [simp]: "Q R h (w\<lparr>w_db := d\<rparr>) = Q R h w" "Q R h (w\<lparr>w_sent := l\<rparr>) = Q R h w"
  by (simp_all add: Q_def)

lemma on_db_simps [simp]:
  "w_redis (snd (on_db o1 f w)) = w_redis w" "w_sent (snd (on_db o1 f w)) = w_sent w"
  "w_db (snd (on_db o1 f w)) = snd (run_io o1 f (w_db w))" "fst (on_db o1 f w) = fst (run_io o1 f (w_db w))"
  by (simp_all add: on_db_def case_prod_unfold Let_def)

lemma mark_simps [simp]:
  "w_redis (snd (mark env x f w)) = w_redis w" "w_sent (snd (mark env x f w)) = w_sent w"
  "w_db (snd (mark env x f w)) = (if e_mark env x = IoErr then w_db w else f (w_db w))"
  "fst (mark env x f w) = (if e_mark env x = IoOk then None else Some ErrDb)"
  by (cases "e_mark env x"; simp add: mark_def case_prod_unfold Let_def run_io_snd)+

lemma record_simps [simp]:
  "w_redis (recordAttempt env i n resp q d e w) = w_redis w"
  "w_sent (recordAttempt env i n resp q d e w) = w_sent w"
  by (simp_all add: recordAttempt_def)

lemma Q_mark [simp]: "Q R h (snd (mark env x f w)) = Q R h w" "Q R h (recordAttempt env i n resp q d e w) = Q R h w"
  by (simp_all add: Q_def)

lemma on_queue_simps [simp]:
  "w_db (snd (on_queue f w)) = w_db w" "w_sent (snd (on_queue f w)) = w_sent w"
  "w_redis (snd (on_queue f w)) = snd (f (w_redis w))" "fst (on_queue f w) = fst (f (w_redis w))"
  by (simp_all add: on_queue_def case_prod_unfold Let_def)

lemma io_err_run: "io_err (fst (run_io o1 f s)) = (if o1 = IoOk then None else Some ErrRedis)"
  by (cases o1) (simp_all add: io_err_def)

lemma q_results [simp]:
  "fst (q_ack R h env raw w) = (if e_ack env = IoOk then None else Some ErrRedis)"
  "fst (q_dead R h env raw w) = (if e_dead env = IoOk then None else Some ErrRedis)"
  "fst (q_sched R h env p t w) = (if e_sched env = IoOk then None else Some ErrRedis)"
  "w_db (snd (q_ack R h env raw w)) = w_db w" "w_sent (snd (q_ack R h env raw w)) = w_sent w"
  "w_db (snd (q_dead R h env raw w)) = w_db w" "w_sent (snd (q_dead R h env raw w)) = w_sent w"
  "w_db (snd (q_sched R h env p t w)) = w_db w" "w_sent (snd (q_sched R h env p t w)) = w_sent w"
  by (simp_all add: q_ack_def q_dead_def q_sched_def Ack_def DeadLetter_def Schedule_def Let_def case_prod_unfold io_err_run)

context redis
begin

lemma Q_ack [simp]: "Q R h (snd (q_ack R h env raw w)) = (if e_ack env = IoErr then Q R h w else dq_release raw (Q R h w))"
  using exec_refines [of "h_queue h" payload_json "OpAck (e_ack env) raw" "w_redis w"]
  by (simp add: Q_def q_ack_def)

lemma Q_dead [simp]: "Q R h (snd (q_dead R h env raw w)) = (if e_dead env = IoErr then Q R h w else dq_bury 10000 raw (Q R h w))"
  using exec_refines [of "h_queue h" payload_json "OpDead (e_dead env) raw" "w_redis w"]
  by (simp add: Q_def q_dead_def)

lemma Q_sched [simp]:
  "Q R h (snd (q_sched R h env p t w)) = (if e_sched env = IoErr then Q R h w else dq_sched t (marshal payload_json p) (Q R h w))"
  using exec_refines [of "h_queue h" payload_json "OpSchedule (e_sched env) p t" "w_redis w"]
  by (simp add: Q_def q_sched_def)

lemma Q_incr [simp]: "Q R h (w\<lparr>w_redis := snd (run_io o1 (inflightIncrScript R key ttl cap) (w_redis w))\<rparr>) = Q R h w"
  by (cases o1) (auto simp: Q_def inflightIncrScript_def Let_def case_prod_unfold dq_of_def redis_simps)

lemma Q_decr [simp]: "Q R h (w\<lparr>w_redis := snd (run_io o1 (Decr R key) (w_redis w))\<rparr>) = Q R h w"
  by (cases o1) (auto simp: Q_def Decr_def dq_of_def redis_simps)

lemma Q_incr_decr [simp]:
  "Q R h (w\<lparr>w_redis := snd (run_io o2 (Decr R key) (snd (run_io o1 (inflightIncrScript R key ttl cap) (w_redis w))))\<rparr>) = Q R h w"
  using Q_decr [where w = "w\<lparr>w_redis := snd (run_io o1 (inflightIncrScript R key ttl cap) (w_redis w))\<rparr>"] by simp

lemma proc_push [simp]: "proc (Q R h (w\<lparr>w_redis := snd (run_io o1 (RPUSH R key x) (w_redis w))\<rparr>)) = proc (Q R h w)"
  by (cases o1) (auto simp: Q_def dq_of_def redis_simps)

end

section \<open>Acknowledge or keep the lease\<close>

text \<open>A nil result means the lease is gone; an error, with no reply lost, that all leases are as before.\<close>

definition lease_ok :: "'r redis \<Rightarrow> handler \<Rightarrow> denv \<Rightarrow> string \<Rightarrow> 'r world \<Rightarrow> go_error option \<times> 'r world \<Rightarrow> bool" where
  "lease_ok R h env raw w rw \<longleftrightarrow>
     (fst rw = None \<longrightarrow> raw \<notin> zmembers (proc (Q R h (snd rw)))) \<and>
     (fst rw \<noteq> None \<and> e_ack env \<noteq> IoLost \<and> e_dead env \<noteq> IoLost \<longrightarrow> proc (Q R h (snd rw)) = proc (Q R h w))"

lemma lease_ok_cong: "proc (Q R h w') = proc (Q R h w) \<Longrightarrow> lease_ok R h env raw w rw \<longleftrightarrow> lease_ok R h env raw w' rw"
  by (simp add: lease_ok_def)

lemma proc_simps [simp]:
  "proc (dq_release m q) = zdel m (proc q)" "proc (dq_bury n m q) = zdel m (proc q)" "proc (dq_sched t e q) = proc q"
  by (simp_all add: dq_release_def dq_bury_def dq_sched_def)

context redis
begin

lemma lease_ack: "proc (Q R h w') = proc (Q R h w) \<Longrightarrow> lease_ok R h env raw w (q_ack R h env raw w')"
  by (cases "e_ack env") (simp_all add: lease_ok_def)

lemma lease_dead: "proc (Q R h w') = proc (Q R h w) \<Longrightarrow> lease_ok R h env raw w (q_dead R h env raw w')"
  by (cases "e_dead env") (simp_all add: lease_ok_def)

lemma lease_err: "proc (Q R h w') = proc (Q R h w) \<Longrightarrow> lease_ok R h env raw w (Some e, w')"
  by (simp add: lease_ok_def)

lemma sched_proc [simp]: "proc (Q R h (snd (q_sched R h env p t w))) = proc (Q R h w)"
  by simp

lemma lease_defer: "proc (Q R h w') = proc (Q R h w) \<Longrightarrow> lease_ok R h env raw w (deferEvent R h env p raw delay w')"
  by (auto simp: deferEvent_def Let_def case_prod_unfold lease_err lease_ack)

lemma lease_terminate: "proc (Q R h w') = proc (Q R h w) \<Longrightarrow> lease_ok R h env raw w (terminate R h env row raw qf reason w')"
  by (simp add: terminate_def Let_def lease_dead)

lemma lease_fail: "proc (Q R h w') = proc (Q R h w) \<Longrightarrow> lease_ok R h env raw w (failAttempt R h env row p raw w')"
  by (auto simp: failAttempt_def Let_def case_prod_unfold lease_err lease_ack lease_dead)

lemma lease_send: "proc (Q R h w') = proc (Q R h w) \<Longrightarrow>
    lease_ok R h env raw w (sendRequest R h env row p raw qf url hs body w')"
  by (auto simp: sendRequest_def Let_def lease_fail lease_ack)

lemma lease_transform: "proc (Q R h w') = proc (Q R h w) \<Longrightarrow>
    lease_ok R h env raw w (transformAndSend R h env row p raw qf url hs body w')"
  by (auto simp: transformAndSend_def lease_terminate lease_send split: sum.split)

lemma lease_body: "lease_ok R h env raw w (deliverBody R h env row p raw qf url w)"
  by (auto simp: deliverBody_def Let_def prod.case_eq_if lease_err lease_fail lease_terminate lease_transform lease_ack
      split: option.split sum.split)

lemma lease_slot:
  assumes "\<And>w. lease_ok R h env raw w (next w)"
  shows "lease_ok R h env raw w (slotGate R h env incr decr key cap delay p raw next w)"
proof -
  let ?s = "run_io incr (inflightIncrScript R key ttlSec cap) (w_redis w)"
  let ?w = "w\<lparr>w_redis := snd ?s\<rparr>"
  have "lease_ok R h env raw w (next ?w)"
    using assms [of ?w] lease_ok_cong [of R h ?w w] by simp
  moreover have "lease_ok R h env raw w (e, w'\<lparr>w_redis := snd (run_io o1 (Decr R key) (w_redis w'))\<rparr>)"
    if "lease_ok R h env raw w (e, w')" for e w' o1 using that by (simp add: lease_ok_def)
  ultimately show ?thesis
    by (auto simp: slotGate_def Let_def case_prod_unfold prod.case_eq_if intro: lease_defer split: option.split)
qed

lemma lease_gates:
  "lease_ok R h env raw w (destGate R h env row p raw qf url w)"
  "lease_ok R h env raw w (rateGate R h env row p raw qf url w)"
  "lease_ok R h env raw w (orgGate R h env row p raw qf url w)"
proof -
  show d: "lease_ok R h env raw w (destGate R h env row p raw qf url w)" for w
    by (auto simp: destGate_def lease_body intro: lease_slot split: option.split)
  show r: "lease_ok R h env raw w (rateGate R h env row p raw qf url w)" for w
    by (auto simp: rateGate_def d lease_defer split: option.split)
  show "lease_ok R h env raw w (orgGate R h env row p raw qf url w)"
    by (auto simp: orgGate_def r intro: lease_slot)
qed

lemma lease_cli: "lease_ok R h env raw w (dispatchToCLI R h env row p raw w)"
  by (auto simp: dispatchToCLI_def Let_def case_prod_unfold lease_err lease_ack lease_defer split: option.split)

lemma lease_Process: "lease_ok R h env raw w (Process R h env p raw w)"
  by (auto simp: Process_def Let_def lease_err lease_ack lease_cli lease_terminate lease_gates split: option.split)

end

section \<open>How a delivery ends\<close>

text \<open>
  The task that a deferral puts on the schedule, and the one of the next attempt. \<open>requeue\<close>: the queue with one of them
  scheduled; \<open>finished\<close>: why a delivery may be acknowledged; \<open>ending\<close>: what a delivery that started with the queue \<open>q\<close> and the
  requests \<open>s0\<close> has done to both, whatever its calls came to.
\<close>

definition deferred :: "denv \<Rightarrow> payload \<Rightarrow> payload" where
  "deferred env p = p\<lparr>p_EnqueuedAt := UnixMilli (e_now env)\<rparr>"

definition retried :: "payload \<Rightarrow> payload" where
  "retried p = p\<lparr>p_Attempt := p_Attempt p + 1\<rparr>"

definition requeue :: "denv \<Rightarrow> delivery_row \<Rightarrow> payload \<Rightarrow> http_req list \<Rightarrow> http_req list \<Rightarrow> dq \<Rightarrow> dq \<Rightarrow> bool" where
  "requeue env row p s0 s q q1 \<longleftrightarrow>
     s = s0 \<and> (\<exists>t. q1 = dq_sched t (marshal payload_json (deferred env p)) q) \<or>
     p_Attempt p < cn_max_retries (d_conn row) \<and> (\<exists>t. q1 = dq_sched t (marshal payload_json (retried p)) q)"

definition finished :: "denv \<Rightarrow> delivery_row \<Rightarrow> http_req list \<Rightarrow> 'r world \<Rightarrow> bool" where
  "finished env row s0 w \<longleftrightarrow> isTerminalStatus (ev_status (d_event row)) \<or> ds_type (d_dest row) = ''cli'' \<or>
     (\<exists>req resp. w_sent w = s0 @ [req] \<and> e_http env req = Some resp \<and> 200 \<le> to_int32 (rs_status resp) \<and> to_int32 (rs_status resp) < 300) \<or>
     (\<exists>e. find_event (ev_id (d_event row)) (w_db w) = Some e \<and> ev_status e = ''filtered'')"

definition ending ::
  "'r redis \<Rightarrow> handler \<Rightarrow> denv \<Rightarrow> delivery_row \<Rightarrow> payload \<Rightarrow> string \<Rightarrow> dq \<Rightarrow> http_req list \<Rightarrow> go_error option \<times> 'r world \<Rightarrow> bool" where
  "ending R h env row p raw q s0 rw \<longleftrightarrow>
     (let q' = Q R h (snd rw); s = w_sent (snd rw)
      in length s \<le> Suc (length s0) \<and>
         (case fst rw of
            None \<Rightarrow> q' = dq_bury 10000 raw q \<and> (s \<noteq> s0 \<longrightarrow> cn_max_retries (d_conn row) \<le> p_Attempt p) \<or>
                    q' = dq_release raw q \<and> finished env row s0 (snd rw) \<or>
                    (\<exists>q1. requeue env row p s0 s q q1 \<and> q' = dq_release raw q1)
          | Some e \<Rightarrow> e_dead env = IoLost \<and> q' = dq_bury 10000 raw q \<and> (s \<noteq> s0 \<longrightarrow> cn_max_retries (d_conn row) \<le> p_Attempt p) \<or>
                    (\<exists>q1. (q1 = q \<or> requeue env row p s0 s q q1) \<and> (q' = q1 \<or> e_ack env = IoLost \<and> q' = dq_release raw q1))))"

lemma queue_sel_simps [simp]:
  "sched (dq_release m q) = sched q" "sched (dq_bury n m q) = sched q" "sched (dq_sched t e q) = zins t e (sched q)"
  by (simp_all add: dq_release_def dq_bury_def dq_sched_def)

lemma in_last_n: "0 < n \<Longrightarrow> x \<in> set (last_n n (xs @ [x]))"
  by (simp add: last_n_def)

context redis
begin

lemma ending_ack:
  assumes "Q R h w = q1" "q1 = q \<and> finished env row s0 w \<or> requeue env row p s0 (w_sent w) q q1" "length (w_sent w) \<le> Suc (length s0)"
  shows "ending R h env row p raw q s0 (q_ack R h env raw w)"
proof -
  have "finished env row s0 (snd (q_ack R h env raw w)) = finished env row s0 w" by (simp add: finished_def)
  then show ?thesis using assms by (cases "e_ack env") (auto simp: ending_def Let_def)
qed

lemma ending_dead:
  assumes "Q R h w = q" "w_sent w \<noteq> s0 \<longrightarrow> cn_max_retries (d_conn row) \<le> p_Attempt p" "length (w_sent w) \<le> Suc (length s0)"
  shows "ending R h env row p raw q s0 (q_dead R h env raw w)"
  using assms by (cases "e_dead env") (auto simp: ending_def Let_def)

lemma ending_err:
  assumes "Q R h w = q \<or> requeue env row p s0 (w_sent w) q (Q R h w)" "length (w_sent w) \<le> Suc (length s0)"
  shows "ending R h env row p raw q s0 (Some e, w)"
  using assms by (auto simp: ending_def Let_def)

lemma ending_defer:
  assumes "Q R h w = q" "w_sent w = s0"
  shows "ending R h env row p raw q s0 (deferEvent R h env p raw delay w)"
proof -
  let ?w = "snd (q_sched R h env (p\<lparr>p_EnqueuedAt := UnixMilli (e_now env)\<rparr>) (UnixMilli (e_now env + delay)) w)"
  have "Q R h ?w = q \<and> e_sched env = IoErr \<or> e_sched env \<noteq> IoErr \<and> requeue env row p s0 (w_sent ?w) q (Q R h ?w)" "w_sent ?w = s0"
    using assms by (auto simp: requeue_def deferred_def)
  then show ?thesis
    by (auto simp: deferEvent_def Let_def case_prod_unfold intro!: ending_err ending_ack)
qed

lemma ending_fail:
  assumes "Q R h w = q" "length (w_sent w) \<le> Suc (length s0)"
  shows "ending R h env row p raw q s0 (failAttempt R h env row p raw w)"
proof -
  let ?t = "UnixMilli (e_now env + RetryDelay (e_draw env) (connFromRow row) (p_Attempt p + 1))"
  let ?w = "snd (q_sched R h env (p\<lparr>p_Attempt := p_Attempt p + 1\<rparr>) ?t w)"
  have "Q R h ?w = q \<and> e_sched env = IoErr \<or> e_sched env \<noteq> IoErr \<and> requeue env row p s0 (w_sent ?w) q (Q R h ?w)"
    if "p_Attempt p < cn_max_retries (d_conn row)" using that assms by (auto simp: requeue_def retried_def)
  then show ?thesis using assms
    by (auto simp: failAttempt_def Let_def case_prod_unfold intro!: ending_err ending_ack ending_dead)
qed

lemma ending_terminate:
  "Q R h w = q \<Longrightarrow> w_sent w = s0 \<Longrightarrow> ending R h env row p raw q s0 (terminate R h env row raw qf reason w)"
  by (simp add: terminate_def Let_def ending_dead)

lemma ending_send:
  assumes "Q R h w = q" "w_sent w = s0"
  shows "ending R h env row p raw q s0 (sendRequest R h env row p raw qf url hs body w)"
proof -
  let ?req = "buildRequest row url hs body"
  show ?thesis
  proof (cases "e_newreq env url \<and> e_http env ?req \<noteq> None \<and> 200 \<le> to_int32 (rs_status (the (e_http env ?req))) \<and>
      to_int32 (rs_status (the (e_http env ?req))) < 300")
    case True
    then have "finished env row s0 w'" if "w_sent w' = s0 @ [?req]" for w' :: "'r world"
      using that by (auto simp: finished_def)
    with True assms show ?thesis by (auto simp: sendRequest_def Let_def intro!: ending_ack)
  next
    case False
    then show ?thesis using assms by (auto simp: sendRequest_def Let_def not_le not_less intro!: ending_fail)
  qed
qed

lemma ending_transform:
  "Q R h w = q \<Longrightarrow> w_sent w = s0 \<Longrightarrow> ending R h env row p raw q s0 (transformAndSend R h env row p raw qf url hs body w)"
  by (auto simp: transformAndSend_def ending_terminate ending_send split: sum.split)

lemma ending_body:
  assumes "Q R h w = q" "w_sent w = s0" "find_event (ev_id (d_event row)) (w_db w) \<noteq> None"
  shows "ending R h env row p raw q s0 (deliverBody R h env row p raw qf url w)"
proof -
  let ?i = "ev_id (d_event row)"
  let ?w = "snd (mark env ''in_flight'' (MarkEventInFlight (e_now env) ?i) w)"
  have w: "Q R h ?w = q" "w_sent ?w = s0" "find_event ?i (w_db ?w) \<noteq> None"
    using assms by (auto simp: mark_defs find_upd_event)
  then have "ending R h env row p raw q s0
      (case mark env ''filtered'' (MarkEventFiltered (e_now env) ?i) ?w of
         (Some e, w) \<Rightarrow> (Some e, w) | (None, w) \<Rightarrow> q_ack R h env raw w)"
    by (auto simp: prod.case_eq_if finished_def mark_defs find_upd_event dest: find_event_id intro!: ending_ack ending_err)
  then show ?thesis using w
    by (auto simp: deliverBody_def Let_def prod.case_eq_if [of _ "mark env ''in_flight'' f w" for f]
        intro!: ending_err ending_fail ending_terminate ending_transform split: option.split sum.split)
qed

lemma ending_slot:
  assumes "Q R h w = q" "w_sent w = s0" "\<And>s. Q R h (w\<lparr>w_redis := s\<rparr>) = q \<Longrightarrow> ending R h env row p raw q s0 (next (w\<lparr>w_redis := s\<rparr>))"
  shows "ending R h env row p raw q s0 (slotGate R h env incr decr key cap delay p raw next w)"
proof -
  have d: "ending R h env row p raw q s0 (e, w'\<lparr>w_redis := snd (run_io o1 (Decr R key) (w_redis w'))\<rparr>)"
    if "ending R h env row p raw q s0 (e, w')" for e w' o1
    using that by (auto simp: ending_def Let_def finished_def split: option.splits)
  show ?thesis using assms d
    by (auto simp: slotGate_def Let_def case_prod_unfold prod.case_eq_if intro!: ending_defer split: option.split)
qed

lemma ending_gates:
  assumes "Q R h w = q" "w_sent w = s0" "find_event (ev_id (d_event row)) (w_db w) \<noteq> None"
  shows "ending R h env row p raw q s0 (orgGate R h env row p raw qf url w)"
proof -
  have d: "ending R h env row p raw q s0 (destGate R h env row p raw qf url w')"
    if "w_db w' = w_db w" "Q R h w' = q" "w_sent w' = s0" for w'
    using that assms by (auto simp: destGate_def intro!: ending_slot ending_body split: option.split)
  have r: "ending R h env row p raw q s0 (rateGate R h env row p raw qf url w')"
    if "w_db w' = w_db w" "Q R h w' = q" "w_sent w' = s0" for w'
    using that by (auto simp: rateGate_def d ending_defer split: option.split)
  have "ending R h env row p raw q s0 (slotGate R h env incr decr key cap delay p raw (rateGate R h env row p raw qf url) w)" for incr decr key cap delay
    by (rule ending_slot [OF assms(1,2)]) (simp add: r assms(2))
  then show ?thesis using r [OF refl assms(1,2)] by (simp add: orgGate_def)
qed

lemma Q_dispatch:
  assumes "h_queue h = NewClient"
  shows "Q R h (w\<lparr>w_redis := snd (run_io o1 (RPUSH R (''cli:dispatch:'' @ x) y) (w_redis w))\<rparr>) = Q R h w"
  using assms by (cases o1) (auto simp: Q_def dq_of_def redis_simps NewClient_def pendingKey_def orgsKey_def deadKey_def notifyKey_def)

lemma ending_cli:
  assumes "h_queue h = NewClient" "ds_type (d_dest row) = ''cli''" "Q R h w = q" "w_sent w = s0"
  shows "ending R h env row p raw q s0 (dispatchToCLI R h env row p raw w)"
  using assms Q_dispatch [OF assms(1)]
  by (auto simp: dispatchToCLI_def Let_def case_prod_unfold finished_def intro!: ending_err ending_ack ending_defer split: option.split)

lemma ending_Process:
  assumes "h_queue h = NewClient" "GetEventForDelivery (p_EventID p) (w_db w) = Some row"
  shows "ending R h env row p raw (Q R h w) (w_sent w) (Process R h env p raw w)"
proof -
  have "find_event (ev_id (d_event row)) (w_db w) \<noteq> None" using delivery_row_event [OF assms(2)] by simp
  then show ?thesis using assms
    by (auto simp: Process_def Let_def finished_def intro!: ending_err ending_ack ending_cli ending_terminate ending_gates)
qed

end

lemma Process_gone:
  assumes "redis R" "GetEventForDelivery (p_EventID p) (w_db w) = None"
  shows "w_sent (snd (Process R h env p raw w)) = w_sent w \<and>
    (if fst (Process R h env p raw w) = None then Q R h (snd (Process R h env p raw w)) = dq_release raw (Q R h w)
     else Q R h (snd (Process R h env p raw w)) = Q R h w \<or> e_ack env = IoLost \<and> Q R h (snd (Process R h env p raw w)) = dq_release raw (Q R h w))"
  using assms redis.Q_ack [OF assms(1), of h env raw w] by (cases "e_ack env") (auto simp: Process_def)

section \<open>In-flight counters\<close>

definition slots :: "'r redis \<Rightarrow> 'r world \<Rightarrow> string \<Rightarrow> int" where
  "slots R w k = count_of (GET R k (w_redis w))"

text \<open>A lost reply of the increment, or a failed decrement, leaves a slot of its kind behind.\<close>

definition leak :: "string \<Rightarrow> string \<Rightarrow> io \<Rightarrow> io \<Rightarrow> int" where
  "leak pre k incr decr = (if has_prefix k pre \<and> (incr = IoLost \<or> decr = IoErr) then 1 else 0)"

lemma slots_view: "slots R w k = count_of (v_strs (view R (w_redis w)) k)"
  by (simp add: slots_def view_def)

context redis
begin

lemma queue_strs [simp]:
  "v_strs (view R (snd (run_io o1 (ZREM R k m) s))) = v_strs (view R s)"
  "v_strs (view R (snd (run_io o1 (deadLetterScript R p m cap) s))) = v_strs (view R s)"
  "v_strs (view R (snd (run_io o1 (\<lambda>s. ((), ZADD R k t m s)) s))) = v_strs (view R s)"
  "v_strs (view R (snd (run_io o1 (RPUSH R k x) s))) = v_strs (view R s)"
  by (cases o1; simp add: deadLetterScript_def Let_def redis_simps)+

lemma slots_queue [simp]:
  "slots R (snd (q_ack R h env raw w)) = slots R w" "slots R (snd (q_dead R h env raw w)) = slots R w"
  "slots R (snd (q_sched R h env p t w)) = slots R w" "slots R (snd (mark env x f w)) = slots R w"
  "slots R (recordAttempt env i n resp q d e w) = slots R w" "slots R (w\<lparr>w_sent := l\<rparr>) = slots R w"
  "slots R (w\<lparr>w_redis := snd (run_io o1 (RPUSH R k y) (w_redis w))\<rparr>) = slots R w"
  by (auto simp: slots_view q_ack_def q_dead_def q_sched_def Ack_def DeadLetter_def Schedule_def Let_def
      case_prod_unfold fun_eq_iff)

lemma slots_ends [simp]:
  "slots R (snd (deferEvent R h env p raw delay w)) = slots R w"
  "slots R (snd (terminate R h env row raw qf reason w)) = slots R w"
  "slots R (snd (failAttempt R h env row p raw w)) = slots R w"
  "slots R (snd (sendRequest R h env row p raw qf url hs body w)) = slots R w"
  by (simp_all add: deferEvent_def terminate_def failAttempt_def sendRequest_def Let_def case_prod_unfold split: option.split)

lemma slots_body [simp]:
  "slots R (snd (transformAndSend R h env row p raw qf url hs body w)) = slots R w"
  "slots R (snd (deliverBody R h env row p raw qf url w)) = slots R w"
  "slots R (snd (dispatchToCLI R h env row p raw w)) = slots R w"
  by (simp_all add: transformAndSend_def deliverBody_def dispatchToCLI_def Let_def prod.case_eq_if case_prod_unfold
      split: sum.split option.split)

lemma incr_strs:
  "v_strs (view R (snd (inflightIncrScript R key ttl cap s))) = (v_strs (view R s))(key := Some (count_of (v_strs (view R s) key) + 1))"
  by (auto simp: inflightIncrScript_def Let_def case_prod_unfold redis_simps)

lemma decr_strs:
  "v_strs (view R (snd (Decr R key s))) = (v_strs (view R s))(key := Some (count_of (v_strs (view R s) key) - 1))"
  by (auto simp: Decr_def redis_simps)

lemma slots_slot_bounds:
  assumes "\<And>w k. slots R w k \<le> slots R (snd (nx w)) k \<and> slots R (snd (nx w)) k \<le> slots R w k + g k"
  shows "slots R w k \<le> slots R (snd (slotGate R h env incr decr key cap delay p raw nx w)) k \<and>
    slots R (snd (slotGate R h env incr decr key cap delay p raw nx w)) k \<le>
      slots R w k + g k + (if k = key \<and> (incr = IoLost \<or> decr = IoErr) then 1 else 0)"
proof -
  let ?w = "w\<lparr>w_redis := snd (run_io incr (inflightIncrScript R key ttlSec cap) (w_redis w))\<rparr>"
  have i: "slots R ?w k = slots R w k + (if k = key \<and> incr \<noteq> IoErr then 1 else 0)"
    by (cases incr) (auto simp: slots_view incr_strs)
  have d: "slots R (w'\<lparr>w_redis := snd (run_io decr (Decr R key) (w_redis w'))\<rparr>) k = slots R w' k - (if k = key \<and> decr \<noteq> IoErr then 1 else 0)"
    for w' :: "'r world" by (cases decr) (auto simp: slots_view decr_strs)
  have g: "0 \<le> g k" using assms [of w k] by linarith
  show ?thesis
  proof (cases incr)
    case IoOk
    then show ?thesis using d [of ?w] d [of "snd (nx ?w)"] i assms [of ?w k] g
      by (auto simp: slotGate_def Let_def case_prod_unfold split: if_splits)
  qed (use i assms [of ?w k] g in \<open>auto simp: slotGate_def split: if_splits\<close>)
qed

lemma slots_Process_bounds:
  "slots R w k \<le> slots R (snd (Process R h env p raw w)) k \<and>
    slots R (snd (Process R h env p raw w)) k \<le> slots R w k + leak ''inflight:dest:'' k (e_destincr env) (e_destdecr env)
      + leak ''inflight:org:'' k (e_orgincr env) (e_orgdecr env)"
proof -
  define g where "g row k = (if k = destKey row \<and> (e_destincr env = IoLost \<or> e_destdecr env = IoErr) then 1 else 0 :: int)" for row k
  have d: "slots R w k \<le> slots R (snd (destGate R h env row p raw qf url w)) k \<and> slots R (snd (destGate R h env row p raw qf url w)) k \<le> slots R w k + g row k"
    for row qf url w k
    using slots_slot_bounds [where nx = "deliverBody R h env row p raw qf url" and g = "\<lambda>_. 0", of w k h env "e_destincr env" "e_destdecr env" "destKey row"]
    by (auto simp: destGate_def g_def split: option.split)
  have r: "slots R w k \<le> slots R (snd (rateGate R h env row p raw qf url w)) k \<and> slots R (snd (rateGate R h env row p raw qf url w)) k \<le> slots R w k + g row k"
    for row qf url w k
  proof -
    have "0 \<le> g row k" by (simp add: g_def)
    then show ?thesis using d by (auto simp: rateGate_def split: option.split)
  qed
  have "slots R w k \<le> slots R (snd (orgGate R h env row p raw qf url w)) k \<and> slots R (snd (orgGate R h env row p raw qf url w)) k \<le>
      slots R w k + g row k + (if k = orgKey row \<and> (e_orgincr env = IoLost \<or> e_orgdecr env = IoErr) then 1 else 0)" for row qf url
    using slots_slot_bounds [where nx = "rateGate R h env row p raw qf url" and g = "g row", OF r, of w k h env "e_orgincr env" "e_orgdecr env" "orgKey row"
        "PerOrgMaxInflight h" "500 * millisecond" p raw]
      r [of w k row qf url] by (auto simp: orgGate_def)
  moreover have "g row k \<le> leak ''inflight:dest:'' k (e_destincr env) (e_destdecr env)" for row
    by (simp add: g_def leak_def destKey_def has_prefix_def)
  moreover have "(if k = orgKey row \<and> (e_orgincr env = IoLost \<or> e_orgdecr env = IoErr) then 1 else 0) \<le>
      leak ''inflight:org:'' k (e_orgincr env) (e_orgdecr env)" for row
    by (simp add: leak_def orgKey_def has_prefix_def)
  ultimately have "slots R w k \<le> slots R (snd (orgGate R h env row p raw qf url w)) k \<and> slots R (snd (orgGate R h env row p raw qf url w)) k \<le>
      slots R w k + leak ''inflight:dest:'' k (e_destincr env) (e_destdecr env) + leak ''inflight:org:'' k (e_orgincr env) (e_orgdecr env)" for row qf url
    by (meson add_mono order_refl order_trans)
  moreover have "0 \<le> leak pre k i e" for pre i e by (simp add: leak_def)
  ultimately show ?thesis
    by (cases "GetEventForDelivery (p_EventID p) (w_db w)") (simp_all add: Process_def Let_def)
qed

end

section \<open>The request that is sent\<close>

definition sends :: "(http_req \<Rightarrow> bool) \<Rightarrow> 'r world \<Rightarrow> 'r world \<Rightarrow> bool" where
  "sends P w w' \<longleftrightarrow> w_sent w' = w_sent w \<or> (\<exists>req. w_sent w' = w_sent w @ [req] \<and> P req)"

lemma sends_refl [simp]: "sends P w w"
  by (simp add: sends_def)

lemma sends_cong: "w_sent w1 = w_sent w \<Longrightarrow> sends P w1 w' \<longleftrightarrow> sends P w w'"
  by (simp add: sends_def)

lemma sent_ends [simp]:
  "w_sent (snd (deferEvent R h env p raw delay w)) = w_sent w"
  "w_sent (snd (terminate R h env row raw qf reason w)) = w_sent w"
  "w_sent (snd (failAttempt R h env row p raw w)) = w_sent w"
  "w_sent (snd (dispatchToCLI R h env row p raw w)) = w_sent w"
  by (simp_all add: deferEvent_def terminate_def failAttempt_def dispatchToCLI_def Let_def case_prod_unfold split: option.split)

text \<open>Whatever the body, the request is built for this row, URL and header set.\<close>

definition built :: "delivery_row \<Rightarrow> string \<Rightarrow> http_req \<Rightarrow> bool" where
  "built row url req \<longleftrightarrow> (\<exists>body. req = buildRequest row url (unmarshalHeaders (rq_headers (d_req row))) body)"

lemma sends_send:
  "sends (built row url) w (snd (sendRequest R h env row p raw qf url (unmarshalHeaders (rq_headers (d_req row))) body w))"
  by (auto simp: sends_def sendRequest_def Let_def built_def)

lemma sends_transform:
  "sends (built row url) w (snd (transformAndSend R h env row p raw qf url (unmarshalHeaders (rq_headers (d_req row))) body w))"
  by (auto simp: transformAndSend_def sends_send sends_def [of _ w "snd (terminate R h env row raw qf r w)" for r] split: sum.split)

lemma sends_body: "sends (built row url) w (snd (deliverBody R h env row p raw qf url w))"
proof -
  let ?w = "snd (mark env ''in_flight'' (MarkEventInFlight (e_now env) (ev_id (d_event row))) w)"
  let ?hs = "unmarshalHeaders (rq_headers (d_req row))"
  have "sends (built row url) w (snd (transformAndSend R h env row p raw qf url ?hs body ?w))" for body
    using sends_transform [of row url ?w] sends_cong [of ?w w] by simp
  moreover have "w_sent w' = w_sent w \<Longrightarrow> sends (built row url) w w'" for w' by (simp add: sends_def)
  ultimately show ?thesis
    by (auto simp: deliverBody_def Let_def prod.case_eq_if split: option.split sum.split)
qed

lemma sends_slot:
  assumes "\<And>s. sends P w (snd (next (w\<lparr>w_redis := s\<rparr>)))"
  shows "sends P w (snd (slotGate R h env incr decr key cap delay p raw next w))"
proof -
  have "sends P w (w'\<lparr>w_redis := s\<rparr>) = sends P w w'" for w' s by (simp add: sends_def)
  moreover have "w_sent w' = w_sent w \<Longrightarrow> sends P w w'" for w' by (simp add: sends_def)
  ultimately show ?thesis
    using assms by (auto simp: slotGate_def Let_def case_prod_unfold prod.case_eq_if split: option.split)
qed

lemma sends_gates: "sends (built row url) w (snd (orgGate R h env row p raw qf url w))"
proof -
  have b: "sends (built row url) w (snd (deliverBody R h env row p raw qf url (w\<lparr>w_redis := s\<rparr>)))" for w s
    using sends_body [of row url "w\<lparr>w_redis := s\<rparr>"] sends_cong [of "w\<lparr>w_redis := s\<rparr>" w] by simp
  have d: "sends (built row url) w (snd (destGate R h env row p raw qf url w))" for w
    by (auto simp: destGate_def sends_body b intro!: sends_slot split: option.split)
  have r: "sends (built row url) w (snd (rateGate R h env row p raw qf url w))" for w
    by (auto simp: rateGate_def d sends_def [of _ w "snd (deferEvent R h env p raw t w)" for t] split: option.split)
  have r': "sends (built row url) w (snd (rateGate R h env row p raw qf url (w\<lparr>w_redis := s\<rparr>)))" for s
    using r [of "w\<lparr>w_redis := s\<rparr>"] sends_cong [of "w\<lparr>w_redis := s\<rparr>" w] by simp
  show ?thesis by (auto simp: orgGate_def r r' intro!: sends_slot)
qed

text \<open>The headers of a built request.\<close>

lemma map_of_hput: "map_of (hput h k vs) k' = (if k' = CanonicalHeaderKey k then Some vs else map_of h k')"
  by (simp add: hput_def update_conv')

lemma map_of_Add: "k' \<noteq> CanonicalHeaderKey k \<Longrightarrow> map_of (Add h k v) k' = map_of h k'"
  by (simp add: Add_def map_of_hput)

lemma fold_Add: "k' \<noteq> CanonicalHeaderKey k \<Longrightarrow> map_of (fold (\<lambda>v h. Add h k v) vs h) k' = map_of h k'"
  by (induction vs arbitrary: h) (simp_all add: map_of_Add)

lemma forward_none:
  assumes "k' \<in> set sensitiveHeaders"
  shows "map_of (forwardHeaders hs) k' = None"
proof -
  have "map_of (fold (\<lambda>(k, vs) h. if \<not> forwardableHeader k then h else fold (\<lambda>v h. Add h k v) vs h) hs h) k' = map_of h k'" for h
  proof (induction hs arbitrary: h)
    case (Cons x hs)
    obtain k vs where x: "x = (k, vs)" by (cases x)
    have "forwardableHeader k \<Longrightarrow> k' \<noteq> CanonicalHeaderKey k" using assms by (auto simp: forwardableHeader_def)
    then show ?case using Cons by (simp add: x fold_Add)
  qed simp
  from this [of "[]"] show ?thesis by (simp add: forwardHeaders_def)
qed

lemma canonical_own:
  "CanonicalHeaderKey ''Dstream-Event-Id'' = ''Dstream-Event-Id''"
  "CanonicalHeaderKey ''Dstream-Event-Attempt'' = ''Dstream-Event-Attempt''"
  "CanonicalHeaderKey ''Dstream-Webhook-Hops'' = ''Dstream-Webhook-Hops''"
  by code_simp+

lemma own_not_sensitive: "''Dstream-Event-Id'' \<notin> set sensitiveHeaders" "''Dstream-Event-Attempt'' \<notin> set sensitiveHeaders"
  by (simp_all add: sensitiveHeaders_def)

lemma built_headers:
  assumes "built row url req"
  shows "hr_url req = url"
    "map_of (hr_headers req) hopsHeader = Some [show_int (to_int64 (incomingHops (unmarshalHeaders (rq_headers (d_req row))) + 1))]"
    "k \<in> set sensitiveHeaders \<Longrightarrow> k \<noteq> hopsHeader \<Longrightarrow> map_of (hr_headers req) k = None"
  using assms own_not_sensitive
  by (auto simp: built_def buildRequest_def Let_def Set_def map_of_hput canonical_own hopsHeader_def forward_none)

section \<open>A concrete delivery\<close>

definition ev0 :: event_row where
  "ev0 = \<lparr>ev_id = uuid_Nil, ev_request_id = ''r'', ev_connection_id = ''c'', ev_org_id = org_a, ev_status = ''queued'',
     ev_attempt_count = 0, ev_last_attempt_at = None, ev_next_retry_at = None, ev_created_at = 0, ev_updated_at = 0,
     ev_is_test = False\<rparr>"

definition conn0 :: conn_row where
  "conn0 = \<lparr>cn_id = ''c'', cn_source_id = ''s'', cn_destination_id = ''d'', cn_max_retries = 1,
     cn_retry_strategy = ''fixed'', cn_retry_base_ms = 1000, cn_retry_cap_ms = 60000, cn_retry_jitter_pct = 0,
     cn_custom_retry_schedule = [], cn_filter_expr = None, cn_transform_js = None,
     cn_enabled = True, cn_name = None, cn_created_at = 0, cn_updated_at = 0\<rparr>"

definition dest0 :: dest_row where
  "dest0 = \<lparr>ds_id = ''d'', ds_type = ''http'', ds_url = Some ''https://x'', ds_rate_limit_rps = None,
     ds_rate_limit_burst = None, ds_max_inflight = None, ds_org_id = ''o'', ds_name = ''d'', ds_description = [],
     ds_auth_config = ''{}'', ds_created_at = 0, ds_updated_at = 0\<rparr>"

definition req0 :: req_row where
  "req0 = \<lparr>rq_id = ''r'', rq_body_ref = ''b'', rq_headers = [], rq_http_method = ''POST'', rq_http_path = ''/'',
     rq_source_id = ''s'', rq_body_hash = ''h'', rq_body_size = 2, rq_content_type = None, rq_sig_verified = False,
     rq_ingest_ip = None, rq_received_at = 0\<rparr>"

definition db0 :: db where
  "db0 = \<lparr>t_events = [ev0], t_connections = [conn0], t_destinations = [dest0], t_requests = [req0], t_attempts = [],
     t_sources = [], t_bodies = [], t_rules = [], t_bookmarks = [], t_scenarios = [], t_steps = []\<rparr>"

definition row0 :: delivery_row where
  "row0 = \<lparr>d_event = ev0, d_conn = conn0, d_dest = dest0, d_req = req0\<rparr>"

text \<open>An environment in which every call succeeds and the destination answers \<open>st\<close>.\<close>

definition env0 :: "int \<Rightarrow> denv" where
  "env0 st = \<lparr>e_load = IoOk, e_mark = (\<lambda>_. IoOk), e_attempt = IoOk, e_ack = IoOk, e_dead = IoOk, e_sched = IoOk,
     e_orgincr = IoOk, e_orgdecr = IoOk, e_destincr = IoOk, e_destdecr = IoOk, e_limiter = None, e_cliexists = IoOk,
     e_clipush = IoOk, e_url = (\<lambda>_. Some \<lparr>u_Scheme = ''https'', u_Hostname = ''x''\<rparr>), e_body = (\<lambda>_. Some ''{}''),
     e_filter = (\<lambda>_ _ _. Inr True), e_transform = (\<lambda>_ b _. Inr b), e_newreq = (\<lambda>_. True),
     e_http = (\<lambda>_. Some \<lparr>rs_status = st, rs_headers = [], rs_body = []\<rparr>), e_now = 9000000, e_dur = 1, e_draw = 0\<rparr>"

definition h0 :: handler where
  "h0 = \<lparr>h_queue = NewClient, PerOrgMaxInflight = 0\<rparr>"

definition w0 :: "mem world" where
  "w0 = \<lparr>w_db = db0, w_redis = q_run mem_redis payload_json NewClient [enq_a, pick1] mem_empty, w_sent = []\<rparr>"

definition raw0 :: string where
  "raw0 = ''t1'' @ leaseSep # marshal payload_json (pl org_a)"

lemma row0_found: "GetEventForDelivery uuid_Nil db0 = Some row0"
  by (simp add: GetEventForDelivery_def find_event_def GetConnectionByID_def find_dest_def find_req_def db0_def ev0_def
      conn0_def dest0_def req0_def row0_def)

lemma row0_sel: "d_event row0 = ev0" "d_conn row0 = conn0" "d_dest row0 = dest0" "d_req row0 = req0"
  "ev_id ev0 = uuid_Nil" "ev_status ev0 = ''queued''" "ds_type dest0 = ''http''" "ds_url dest0 = Some ''https://x''"
  "ds_max_inflight dest0 = None" "ds_rate_limit_rps dest0 = None" "cn_filter_expr conn0 = None" "cn_transform_js conn0 = None"
  "cn_max_retries conn0 = 1" "p_EventID (pl org_a) = uuid_Nil" "w_db w0 = db0" "w_sent w0 = []"
  by (simp_all add: row0_def ev0_def dest0_def conn0_def pl_def w0_def)

lemma Process0:
  "Process mem_redis h0 (env0 st) (pl org_a) raw0 w0 =
     deliverBody mem_redis h0 (env0 st) row0 (pl org_a) raw0 (9000000 - 5 * millisecond) ''https://x'' w0"
  by (simp add: Process_def env0_def row0_sel row0_found isTerminalStatus_def opt_nonempty_def ValidateDestinationURL_def
      orgGate_def rateGate_def destGate_def h0_def) (simp add: pl_def)

lemma Process0_nil: "fst (Process mem_redis h0 (env0 st) (pl org_a) raw0 w0) = None"
  unfolding Process0
  by (simp add: deliverBody_def Let_def prod.case_eq_if env0_def row0_sel opt_nonempty_def transformAndSend_def
      sendRequest_def failAttempt_def case_prod_unfold)

section \<open>Properties\<close>

text \<open>
  no redelivery. An event that has already reached a terminal status (delivered, failed,
  discarded, filtered, dead) is never sent again however often a copy of it comes back from the
  queue: the call changes no row, sends no request, and only acknowledges the copy.
\<close>

theorem terminal_event_not_redelivered:
  assumes "GetEventForDelivery (p_EventID p) (w_db w) = Some row" "isTerminalStatus (ev_status (d_event row))"
    and "e_load env = IoOk"
  shows "Process R h env p raw w = q_ack R h env raw w \<and>
    w_sent (snd (Process R h env p raw w)) = w_sent w \<and> w_db (snd (Process R h env p raw w)) = w_db w"
  using assms by (simp add: Process_def)

theorem terminal_event_not_redelivered_witness:
  "let w = w0\<lparr>w_db := MarkEventFailed 3 uuid_Nil db0\<rparr>
   in Process mem_redis h0 (env0 200) (pl org_a) raw0 w = q_ack mem_redis h0 (env0 200) raw0 w \<and>
    w_sent (snd (Process mem_redis h0 (env0 200) (pl org_a) raw0 w)) = w_sent w \<and>
    w_db (snd (Process mem_redis h0 (env0 200) (pl org_a) raw0 w)) = w_db w"
proof -
  have g: "GetEventForDelivery (p_EventID (pl org_a)) (w_db (w0\<lparr>w_db := MarkEventFailed 3 uuid_Nil db0\<rparr>)) =
      Some (row0\<lparr>d_event := ev0\<lparr>ev_status := ''failed'', ev_last_attempt_at := Some 3, ev_updated_at := 3\<rparr>\<rparr>)"
    by (simp add: row0_sel mark_defs GetEventForDelivery_def find_event_def GetConnectionByID_def find_dest_def find_req_def
        upd_event_def db0_def ev0_def conn0_def dest0_def req0_def row0_def)
  show ?thesis
    unfolding Let_def
    by (rule terminal_event_not_redelivered [OF g]) (simp_all add: isTerminalStatus_def env0_def)
qed

text \<open>
  at least once. When a delivery ends with nil its lease is gone; when it ends with an error,
  and neither acknowledgement nor dead-letter call lost its reply, every lease is as before, so the
  recoverer will bring the event back.
\<close>

theorem process_lease:
  assumes "redis R"
  shows "(fst (Process R h env p raw w) = None \<longrightarrow>
      raw \<notin> zmembers (proc (dq_of R (prefix (h_queue h)) (w_redis (snd (Process R h env p raw w)))))) \<and>
    (fst (Process R h env p raw w) \<noteq> None \<and> e_ack env \<noteq> IoLost \<and> e_dead env \<noteq> IoLost \<longrightarrow>
      proc (dq_of R (prefix (h_queue h)) (w_redis (snd (Process R h env p raw w)))) =
      proc (dq_of R (prefix (h_queue h)) (w_redis w)))"
  using redis.lease_Process [OF assms, of h env raw w p] by (simp add: lease_ok_def Q_def)

theorem process_lease_witness:
  "raw0 \<notin> zmembers (proc (dq_of mem_redis (prefix (h_queue h0)) (w_redis (snd (Process mem_redis h0 (env0 500) (pl org_a) raw0 w0)))))"
  using process_lease [OF mem.redis_axioms, of h0 "env0 500" "pl org_a" raw0 w0] Process0_nil [of 500] by blast

text \<open>
  C7: how a delivery ends, for every event and every outcome of the calls. With an error, when neither acknowledgement nor dead-letter
  call lost its reply, every lease is as before, so that the recoverer brings the event back, and nothing was put on the
  dead list. With nil the lease is gone, and the task is on the dead list; or scheduled again as it is, without a request sent; or
  scheduled as its next attempt, with retries left; or done with: its row is gone, terminal or of a CLI destination, the request that
  was sent was answered with 2xx, or the event is marked filtered. Failed status updates and attempt records change nothing of that.
\<close>

theorem process_fate:
  assumes "redis R" "h_queue h = NewClient" "Process R h env p raw w = (r, w')"
  shows "let q = dq_of R (prefix NewClient) (w_redis w); q' = dq_of R (prefix NewClient) (w_redis w');
             row = GetEventForDelivery (p_EventID p) (w_db w)
    in case r of
         Some e \<Rightarrow> e_ack env \<noteq> IoLost \<and> e_dead env \<noteq> IoLost \<longrightarrow>
           proc q' = proc q \<and> deadq q' = deadq q \<and> pend q' = pend q \<and> ring q' = ring q
       | None \<Rightarrow>
           proc q' = zdel raw (proc q) \<and> pend q' = pend q \<and> ring q' = ring q \<and>
           (deadq q' = last_n 10000 (deadq q @ [stripToken raw]) \<and> sched q' = sched q \<or>
            deadq q' = deadq q \<and> (\<exists>t. sched q' = zins t (marshal payload_json (p\<lparr>p_EnqueuedAt := UnixMilli (e_now env)\<rparr>)) (sched q)) \<and> w_sent w' = w_sent w \<or>
            deadq q' = deadq q \<and> (\<exists>t. sched q' = zins t (marshal payload_json (p\<lparr>p_Attempt := p_Attempt p + 1\<rparr>)) (sched q)) \<and>
              (\<exists>x. row = Some x \<and> p_Attempt p < cn_max_retries (d_conn x)) \<or>
            deadq q' = deadq q \<and> sched q' = sched q \<and>
              (case row of
                 None \<Rightarrow> True
               | Some x \<Rightarrow> isTerminalStatus (ev_status (d_event x)) \<or> ds_type (d_dest x) = ''cli'' \<or>
                   (\<exists>req resp. w_sent w' = w_sent w @ [req] \<and> e_http env req = Some resp \<and>
                      200 \<le> to_int32 (rs_status resp) \<and> to_int32 (rs_status resp) < 300) \<or>
                   (\<exists>e. find_event (p_EventID p) (w_db w') = Some e \<and> ev_status e = ''filtered'')))"
proof (cases "GetEventForDelivery (p_EventID p) (w_db w)")
  case None
  with Process_gone [OF assms(1) None, of h env raw] assms(2,3) show ?thesis
    by (auto simp: Let_def Q_def dq_release_def split: option.split)
next
  case (Some x)
  note e = redis.ending_Process [OF assms(1,2) Some, of env raw, unfolded ending_def assms(3) Let_def fst_conv snd_conv Q_def assms(2)]
  show ?thesis
  proof (cases r)
    case None
    with e show ?thesis
      by (auto simp: Let_def Some finished_def requeue_def deferred_def retried_def dq_release_def dq_bury_def dq_sched_def
          delivery_row_event [OF Some])
  next
    case (Some y)
    with e show ?thesis
      by (auto simp: Let_def requeue_def deferred_def retried_def dq_release_def dq_bury_def dq_sched_def)
  qed
qed

theorem process_fate_witness:
  "let w' = snd (Process mem_redis h0 (env0 500) (pl org_a) raw0 w0);
       q = dq_of mem_redis (prefix NewClient) (w_redis w0); q' = dq_of mem_redis (prefix NewClient) (w_redis w')
    in proc q' = zdel raw0 (proc q) \<and> pend q' = pend q \<and> (deadq q' = deadq q \<or> deadq q' = last_n 10000 (deadq q @ [stripToken raw0]))"
proof -
  have "h_queue h0 = NewClient" by (simp add: h0_def)
  moreover have "Process mem_redis h0 (env0 500) (pl org_a) raw0 w0 = (None, snd (Process mem_redis h0 (env0 500) (pl org_a) raw0 w0))"
    using Process0_nil [of 500] by (simp add: prod_eq_iff)
  ultimately show ?thesis using process_fate [OF mem.redis_axioms, of h0 "env0 500" "pl org_a" raw0 w0 None] unfolding Let_def option.case by blast
qed

text \<open>
  A chain of deliveries of one event: each task is one that the delivery before put on the schedule. The number counts the
  requests that the deliveries sent. The connection may be changed in between, its budget stays at most \<open>N\<close>.
\<close>

inductive retry_chain :: "'r redis \<Rightarrow> handler \<Rightarrow> int \<Rightarrow> payload \<Rightarrow> nat \<Rightarrow> payload \<Rightarrow> bool" for R h N p where
  chain_start: "retry_chain R h N p 0 p"
| chain_next: "retry_chain R h N p n p1 \<Longrightarrow> Process R h env p1 raw w = (r, w') \<Longrightarrow>
    (\<forall>row. GetEventForDelivery (p_EventID p1) (w_db w) = Some row \<longrightarrow> cn_max_retries (d_conn row) \<le> N) \<Longrightarrow>
    payload_ok p2 \<Longrightarrow> int_ok 64 (UnixMilli (e_now env)) \<Longrightarrow>
    marshal payload_json p2 \<in> zmembers (sched (dq_of R (prefix (h_queue h)) (w_redis w'))) \<Longrightarrow>
    marshal payload_json p2 \<notin> zmembers (sched (dq_of R (prefix (h_queue h)) (w_redis w))) \<Longrightarrow>
    retry_chain R h N p (n + (length (w_sent w') - length (w_sent w))) p2"

lemma payload_ok_next:
  assumes "payload_ok p"
  shows "int_ok 64 (UnixMilli (e_now env)) \<Longrightarrow> payload_ok (deferred env p)" "int_ok 64 (p_Attempt p + 1) \<Longrightarrow> payload_ok (retried p)"
  using assms by (simp_all add: payload_ok_def deferred_def retried_def)

lemma marshal_inj: "payload_ok p \<Longrightarrow> payload_ok p' \<Longrightarrow> marshal payload_json p = marshal payload_json p' \<Longrightarrow> p = p'"
  using json.unmarshal_marshal by (metis option.inject)

text \<open>What one delivery adds to the schedule, whatever its calls come to.\<close>

lemma Process_adds:
  assumes "redis R" "h_queue h = NewClient" "Process R h env p raw w = (r, w')" "x \<in> zmembers (sched (Q R h w'))" "x \<notin> zmembers (sched (Q R h w))"
  shows "\<exists>row. GetEventForDelivery (p_EventID p) (w_db w) = Some row \<and>
    (w_sent w' = w_sent w \<and> x = marshal payload_json (deferred env p) \<or>
     length (w_sent w') \<le> Suc (length (w_sent w)) \<and> p_Attempt p < cn_max_retries (d_conn row) \<and> x = marshal payload_json (retried p))"
proof (cases "GetEventForDelivery (p_EventID p) (w_db w)")
  case None
  with Process_gone [OF assms(1) None, of h env raw] assms(3-5) show ?thesis by (auto simp: dq_release_def split: if_splits)
next
  case (Some row)
  with redis.ending_Process [OF assms(1,2) Some, of env raw] assms(3-5) show ?thesis
    by (auto simp: ending_def Let_def requeue_def dq_release_def dq_bury_def dq_sched_def split: option.splits)
qed

lemma Process_sends: "length (w_sent (snd (Process R h env p raw w))) \<le> Suc (length (w_sent w))"
proof -
  have "length (w_sent (snd (orgGate R h env row p raw qf url w))) \<le> Suc (length (w_sent w))" for row qf url
    using sends_gates [of row url w R h env p raw qf] by (auto simp: sends_def)
  then show ?thesis by (simp add: Process_def Let_def split: option.split)
qed

lemma chain_attempts:
  assumes "redis R" "h_queue h = NewClient" "payload_ok p" "N < 2 ^ 31" "p_Attempt p \<le> N" "retry_chain R h N p n p1"
  shows "payload_ok p1 \<and> p_Attempt p + int n \<le> p_Attempt p1 \<and> p_Attempt p1 \<le> N"
  using assms(6)
proof (induction rule: retry_chain.induct)
  case (chain_next n p1 env raw w r w' p2)
  obtain row where row: "GetEventForDelivery (p_EventID p1) (w_db w) = Some row"
    "w_sent w' = w_sent w \<and> marshal payload_json p2 = marshal payload_json (deferred env p1) \<or>
     length (w_sent w') \<le> Suc (length (w_sent w)) \<and> p_Attempt p1 < cn_max_retries (d_conn row) \<and> marshal payload_json p2 = marshal payload_json (retried p1)"
    using Process_adds [OF assms(1,2) chain_next(2)] chain_next(6,7) unfolding Q_def by blast
  have max: "cn_max_retries (d_conn row) \<le> N" using chain_next(3) row(1) by blast
  from row(2) show ?case
  proof
    assume d: "w_sent w' = w_sent w \<and> marshal payload_json p2 = marshal payload_json (deferred env p1)"
    then have "p2 = deferred env p1"
      using chain_next(4,5,8) payload_ok_next(1) marshal_inj by blast
    then show ?thesis using d chain_next(4,8) by (simp add: deferred_def)
  next
    assume d: "length (w_sent w') \<le> Suc (length (w_sent w)) \<and> p_Attempt p1 < cn_max_retries (d_conn row) \<and>
      marshal payload_json p2 = marshal payload_json (retried p1)"
    moreover have "int_ok 64 (p_Attempt p1 + 1)"
      using chain_next(8) d max assms(4) by (auto simp: int_ok_def payload_ok_def)
    ultimately have "p2 = retried p1" using chain_next(4,8) payload_ok_next(2) marshal_inj by blast
    moreover have "int (length (w_sent w') - length (w_sent w)) \<le> 1" using d by linarith
    ultimately show ?thesis using d chain_next(4,8) max by (simp add: retried_def)
  qed
qed (use assms in simp)

text \<open>The exact effect of a failed attempt when all its calls succeed.\<close>

lemma failed_attempt:
  assumes "redis R" "e_sched env = IoOk" "e_ack env = IoOk" "e_dead env = IoOk" "e_mark env ''failed'' = IoOk"
    and w': "failAttempt R h env row p raw w = (r, w')"
  shows "let q = dq_of R (prefix (h_queue h)) (w_redis w); q' = dq_of R (prefix (h_queue h)) (w_redis w') in
    r = None \<and>
    (if p_Attempt p < cn_max_retries (d_conn row)
     then sched q' = zins (UnixMilli (e_now env + RetryDelay (e_draw env) (connFromRow row) (p_Attempt p + 1)))
            (marshal payload_json (p\<lparr>p_Attempt := p_Attempt p + 1\<rparr>)) (sched q) \<and>
          deadq q' = deadq q \<and> proc q' = zdel raw (proc q) \<and> w_db w' = w_db w
     else sched q' = sched q \<and> stripToken raw \<in> set (deadq q') \<and> proc q' = zdel raw (proc q) \<and>
          w_db w' = MarkEventFailed (e_now env) (ev_id (d_event row)) (w_db w))"
proof -
  have r: "r = fst (failAttempt R h env row p raw w)" "w' = snd (failAttempt R h env row p raw w)"
    using w' by simp_all
  note Q = redis.Q_ack [OF assms(1), unfolded Q_def] redis.Q_dead [OF assms(1), unfolded Q_def]
    redis.Q_sched [OF assms(1), unfolded Q_def]
  show ?thesis
    unfolding r using assms(2-5)
    by (auto simp: failAttempt_def Let_def case_prod_unfold Q in_last_n)
qed

text \<open>
  C8: the retry budget. Along any chain of deliveries of an event in which each is of a task that the one before rescheduled, whatever
  the outcomes of their calls and however often an attempt is deferred, and while the connection's \<open>max_retries\<close> stays at most \<open>N\<close>,
  at most \<open>N + 1\<close> requests are sent, counted from attempt 0. And the budget is not cut short: a delivery that sent its request puts
  the event on the dead list only when no retries are left.
\<close>

theorem retry_budget:
  assumes "redis R" "h_queue h = NewClient" "payload_ok p" "p_Attempt p \<le> N" "N < 2 ^ 31"
    and "retry_chain R h N p n p1" "Process R h env p1 raw w = (r, w')"
  shows "int n + int (length (w_sent w') - length (w_sent w)) \<le> N - p_Attempt p + 1 \<and>
    (\<forall>row. GetEventForDelivery (p_EventID p1) (w_db w) = Some row \<and> w_sent w' \<noteq> w_sent w \<and>
       deadq (dq_of R (prefix NewClient) (w_redis w')) \<noteq> deadq (dq_of R (prefix NewClient) (w_redis w)) \<longrightarrow>
       cn_max_retries (d_conn row) \<le> p_Attempt p1)"
proof -
  note c = chain_attempts [OF assms(1-3,5,4,6)]
  have "length (w_sent w') - length (w_sent w) \<le> 1" using Process_sends [of R h env p1 raw w] assms(7) by simp
  moreover have "cn_max_retries (d_conn row) \<le> p_Attempt p1"
    if "GetEventForDelivery (p_EventID p1) (w_db w) = Some row" "w_sent w' \<noteq> w_sent w"
      "deadq (dq_of R (prefix NewClient) (w_redis w')) \<noteq> deadq (dq_of R (prefix NewClient) (w_redis w))" for row
    using redis.ending_Process [OF assms(1,2) that(1), of env raw] that(2,3) assms(2,7)
    by (auto simp: ending_def Let_def Q_def requeue_def dq_release_def dq_sched_def split: option.splits)
  ultimately show ?thesis using c by (auto simp: of_nat_diff)
qed

lemma queue0: "dq_of mem_redis (prefix NewClient) (w_redis w0) = dq_run payload_json [enq_a, pick1] dq_empty"
  by (simp add: w0_def mem.run_refines mem_dq_empty)

text \<open>The first attempt of the event of \<open>pl org_a\<close>.\<close>

definition p0 :: payload where
  "p0 = (pl org_a)\<lparr>p_Attempt := 0\<rparr>"

lemma p0_ok: "payload_ok p0"
  using pl_ok(1) by (simp add: p0_def payload_ok_def int_ok_def)

lemma p0_event: "p_EventID p0 = uuid_Nil" by (simp add: p0_def pl_def)

lemma Process0_first:
  "Process mem_redis h0 (env0 st) p0 raw0 w0 =
     deliverBody mem_redis h0 (env0 st) row0 p0 raw0 (9000000 - 5 * millisecond) ''https://x'' w0"
  by (simp add: Process_def p0_event env0_def row0_sel row0_found isTerminalStatus_def opt_nonempty_def ValidateDestinationURL_def
      orgGate_def rateGate_def destGate_def h0_def) (simp add: p0_def pl_def)

theorem retry_budget_witness:
  "let w1 = snd (Process mem_redis h0 (env0 500) p0 raw0 w0);
       w2 = snd (Process mem_redis h0 (env0 500) (retried p0) raw0 w1)
   in length (w_sent w1) = 1 \<and> 1 + int (length (w_sent w2) - length (w_sent w1)) \<le> 2"
proof -
  let ?w1 = "snd (Process mem_redis h0 (env0 500) p0 raw0 w0)"
  have s: "w_sent ?w1 = [buildRequest row0 ''https://x'' [] ''{}'']"
    unfolding Process0_first
    by (simp add: deliverBody_def Let_def prod.case_eq_if env0_def row0_sel opt_nonempty_def transformAndSend_def sendRequest_def to_int32_def)
       (simp add: req0_def unmarshalHeaders_def)
  have q: "sched (Q mem_redis h0 w0) = []" by (simp add: Q_def h0_def queue0 wit_eval dq_push_def dq_trim_def dq_pick_def dq_empty_def)
  have "\<exists>t. sched (Q mem_redis h0 ?w1) = zins t (marshal payload_json (retried p0)) []"
    unfolding Process0_first
    by (simp add: deliverBody_def Let_def prod.case_eq_if env0_def row0_sel opt_nonempty_def transformAndSend_def sendRequest_def
        to_int32_def failAttempt_def q retried_def case_prod_unfold mem.Q_sched mem.Q_ack) (auto simp: p0_def pl_def)
  then obtain t where t: "sched (Q mem_redis h0 ?w1) = zins t (marshal payload_json (retried p0)) []" ..
  have "retry_chain mem_redis h0 1 p0 (0 + (length (w_sent ?w1) - length (w_sent w0))) (retried p0)"
  proof (rule retry_chain.chain_next [OF retry_chain.chain_start, where env = "env0 500" and raw = raw0 and w = w0 and w' = ?w1])
    show "Process mem_redis h0 (env0 500) p0 raw0 w0 = (fst (Process mem_redis h0 (env0 500) p0 raw0 w0), ?w1)" by simp
    show "payload_ok (retried p0)" using payload_ok_next(2) [OF p0_ok] by (simp add: int_ok_def p0_def pl_def)
  qed (use q t in \<open>simp_all add: Q_def p0_event row0_found row0_sel env0_def int_ok_def UnixMilli_def zmembers_def\<close>)
  then have c: "retry_chain mem_redis h0 1 p0 1 (retried p0)" by (simp add: s row0_sel)
  have h: "h_queue h0 = NewClient" "payload_ok p0" "p_Attempt p0 \<le> 1" "(1::int) < 2 ^ 31"
    by (simp_all add: h0_def p0_ok) (simp add: p0_def pl_def)
  from retry_budget [OF mem.redis_axioms h c surjective_pairing, where env = "env0 500" and raw = raw0 and w = ?w1] s show ?thesis
    by (simp add: Let_def p0_def pl_def)
qed

lemma slot_kinds: "\<not> (has_prefix k ''inflight:org:'' \<and> has_prefix k ''inflight:dest:'')"
proof
  assume "has_prefix k ''inflight:org:'' \<and> has_prefix k ''inflight:dest:''"
  then have "k ! 9 = CHR ''o''" "k ! 9 = CHR ''d''" unfolding has_prefix_def by (auto dest!: arg_cong [where f = "\<lambda>s. s ! 9"])
  then show False by simp
qed

text \<open>
  C9: in-flight slots. Whatever the path through a delivery and the outcome of its calls, early returns and errors included, an in-flight
  counter never ends below where it was and at most one above; and it ends exactly where it was unless the increment of its kind
  lost its reply, or the decrement of its kind did not reach Redis.
\<close>

theorem slots_released:
  assumes "redis R"
  shows "let n = count_of (GET R k (w_redis w)); n' = count_of (GET R k (w_redis (snd (Process R h env p raw w))))
    in n \<le> n' \<and> n' \<le> n + 1 \<and>
       (n' \<noteq> n \<longrightarrow> has_prefix k ''inflight:org:'' \<and> (e_orgincr env = IoLost \<or> e_orgdecr env = IoErr) \<or>
                 has_prefix k ''inflight:dest:'' \<and> (e_destincr env = IoLost \<or> e_destdecr env = IoErr))"
  using redis.slots_Process_bounds [OF assms, of w k h env p raw]
    slot_kinds [of k]
  by (auto simp: Let_def slots_def leak_def split: if_splits)

theorem slots_released_witness:
  "let h = h0\<lparr>PerOrgMaxInflight := 2\<rparr>
   in count_of (GET mem_redis (orgKey row0) (w_redis (snd (Process mem_redis h (env0 500) (pl org_a) raw0 w0)))) =
      count_of (GET mem_redis (orgKey row0) (w_redis w0))"
  using slots_released [OF mem.redis_axioms, of "orgKey row0" w0 "h0\<lparr>PerOrgMaxInflight := 2\<rparr>" "env0 500" "pl org_a" raw0]
  by (auto simp: Let_def env0_def)

text \<open>
  C10: the request. A delivery hands the HTTP client at most one request, for the URL of its own destination, which
  passed the structural check; the request carries none of the headers meant for dstream or for one
  hop, in any letter case, and a hop count one above the stored request's, in 64 bits. Redirects that the client follows on its own
  (at most ten, each to an http or https URL and a public address) are not part of this count.
\<close>

theorem request_sent:
  assumes "w_sent (snd (Process R h env p raw w)) \<noteq> w_sent w"
  shows "\<exists>row url req. GetEventForDelivery (p_EventID p) (w_db w) = Some row \<and>
    w_sent (snd (Process R h env p raw w)) = w_sent w @ [req] \<and>
    \<not> isTerminalStatus (ev_status (d_event row)) \<and>
    ds_url (d_dest row) = Some url \<and> hr_url req = url \<and> ValidateDestinationURL (e_url env url) = None \<and>
    list_all (\<lambda>k. k = hopsHeader \<or> map_of (hr_headers req) k = None) sensitiveHeaders \<and>
    map_of (hr_headers req) hopsHeader = Some [show_int (to_int64 (incomingHops (unmarshalHeaders (rq_headers (d_req row))) + 1))]"
proof -
  obtain row where row: "GetEventForDelivery (p_EventID p) (w_db w) = Some row" "\<not> isTerminalStatus (ev_status (d_event row))"
    "ds_type (d_dest row) \<noteq> ''cli''" "opt_nonempty (ds_url (d_dest row))"
    "ValidateDestinationURL (e_url env (the (ds_url (d_dest row)))) = None"
    "snd (Process R h env p raw w) = snd (orgGate R h env row p raw
       (if p_EnqueuedAt p > 0 then e_now env - p_EnqueuedAt p * millisecond else 0) (the (ds_url (d_dest row))) w)"
    using assms by (auto simp: Process_def Let_def split: if_splits option.splits)
  obtain url where url: "ds_url (d_dest row) = Some url" using row(4) by (auto simp: opt_nonempty_def)
  obtain req where "w_sent (snd (Process R h env p raw w)) = w_sent w @ [req]" "built row url req"
    using sends_gates [of row url w R h env p raw "if p_EnqueuedAt p > 0 then e_now env - p_EnqueuedAt p * millisecond else 0"]
      assms row(6) url by (auto simp: sends_def)
  moreover from this(2) have "list_all (\<lambda>k. k = hopsHeader \<or> map_of (hr_headers req) k = None) sensitiveHeaders"
    unfolding list_all_iff by (auto dest: built_headers(3))
  ultimately show ?thesis using row url built_headers(1,2) [of row url req] by (intro exI conjI) auto
qed

theorem request_sent_witness:
  "\<exists>row url req. GetEventForDelivery (p_EventID (pl org_a)) (w_db w0) = Some row \<and>
    w_sent (snd (Process mem_redis h0 (env0 200) (pl org_a) raw0 w0)) = w_sent w0 @ [req] \<and>
    \<not> isTerminalStatus (ev_status (d_event row)) \<and>
    ds_url (d_dest row) = Some url \<and> hr_url req = url \<and> ValidateDestinationURL (e_url (env0 200) url) = None \<and>
    list_all (\<lambda>k. k = hopsHeader \<or> map_of (hr_headers req) k = None) sensitiveHeaders \<and>
    map_of (hr_headers req) hopsHeader = Some [show_int (to_int64 (incomingHops (unmarshalHeaders (rq_headers (d_req row))) + 1))]"
proof (rule request_sent)
  show "w_sent (snd (Process mem_redis h0 (env0 200) (pl org_a) raw0 w0)) \<noteq> w_sent w0"
    unfolding Process0
    by (simp add: deliverBody_def Let_def prod.case_eq_if env0_def row0_sel opt_nonempty_def transformAndSend_def
        sendRequest_def to_int32_def)
qed

text \<open>
  a lost attempt record. A delivery that ends because its destination has no URL records attempt
  \<open>attempt_count + 1\<close> but does not count it; the next delivery of that event (after the URL is mended
  and the event retried by hand, which keeps the count) uses the same number, and its record is
  refused by the unique key and dropped without an error.
\<close>

theorem attempt_number_reused:
  assumes "GetEventForDelivery (p_EventID p) (w_db w) = Some row" "\<not> isTerminalStatus (ev_status (d_event row))"
    and "ds_type (d_dest row) = ''http''" "ds_url (d_dest row) = None" "e_load env = IoOk" "e_attempt env = IoOk"
    and w1: "w1 = snd (Process R h env p raw w)"
    and w2: "w_db w2 = ResetEventForManualRetry now (p_EventID p) (w_db w1)"
  shows "\<exists>e. find_event (p_EventID p) (w_db w2) = Some e \<and> ev_attempt_count e = ev_attempt_count (d_event row) \<and>
    recordAttempt env2 (p_EventID p) (ev_attempt_count e + 1) resp qf dur err w2 = w2"
proof -
  let ?n = "to_int32 (ev_attempt_count (d_event row) + 1)"
  have ev: "find_event (p_EventID p) (w_db w) = Some (d_event row)" "ev_id (d_event row) = p_EventID p"
    using delivery_row_event [OF assms(1)] by simp_all
  have P: "snd (Process R h env p raw w) = snd (terminate R h env row raw
      (if p_EnqueuedAt p > 0 then e_now env - p_EnqueuedAt p * millisecond else 0) AeNoUrl w)"
    using assms(1-5) by (simp add: Process_def opt_nonempty_def)
  have a: "list_ex (\<lambda>x. at_event_id x = p_EventID p \<and> at_attempt_num x = ?n) (t_attempts (w_db w1))"
    unfolding w1 P using assms(6) ev
    by (auto simp: terminate_def Let_def recordAttempt_def CreateAttempt_def mark_defs)
  have e: "\<exists>e. find_event (p_EventID p) (w_db w1) = Some e \<and> ev_attempt_count e = ev_attempt_count (d_event row)"
    unfolding w1 P using assms(6) ev
    by (auto simp: terminate_def Let_def recordAttempt_def CreateAttempt_def mark_defs find_upd_event)
  have "snd (run_io o1 (CreateAttempt x) (w_db w2)) = w_db w2"
    if "at_event_id x = p_EventID p" "at_attempt_num x = ?n" for o1 x
    using that a w2 by (cases o1) (auto simp: CreateAttempt_def mark_defs)
  then have "recordAttempt env2 (p_EventID p) (ev_attempt_count (d_event row) + 1) resp qf dur err w2 = w2"
    by (simp add: recordAttempt_def on_db_def case_prod_unfold Let_def)
  moreover have "\<exists>e. find_event (p_EventID p) (w_db w2) = Some e \<and> ev_attempt_count e = ev_attempt_count (d_event row)"
  proof -
    from e obtain e where "find_event (p_EventID p) (w_db w1) = Some e" "ev_attempt_count e = ev_attempt_count (d_event row)" by blast
    then show ?thesis by (simp add: w2 mark_defs find_upd_event)
  qed
  ultimately show ?thesis by auto
qed

theorem attempt_number_reused_witness:
  "let d = db0\<lparr>t_destinations := [dest0\<lparr>ds_url := None\<rparr>]\<rparr>;
       w1 = snd (Process mem_redis h0 (env0 200) (pl org_a) raw0 (w0\<lparr>w_db := d\<rparr>));
       w2 = w1\<lparr>w_db := ResetEventForManualRetry 4 (p_EventID (pl org_a)) (w_db w1)\<rparr>
   in \<exists>e. find_event (p_EventID (pl org_a)) (w_db w2) = Some e \<and> ev_attempt_count e = 0 \<and>
    recordAttempt (env0 200) (p_EventID (pl org_a)) (ev_attempt_count e + 1) None 0 0 None w2 = w2"
proof -
  let ?w = "w0\<lparr>w_db := db0\<lparr>t_destinations := [dest0\<lparr>ds_url := None\<rparr>]\<rparr>\<rparr>"
  let ?row = "row0\<lparr>d_dest := dest0\<lparr>ds_url := None\<rparr>\<rparr>"
  have "GetEventForDelivery (p_EventID (pl org_a)) (w_db ?w) = Some ?row"
    by (simp add: row0_sel GetEventForDelivery_def find_event_def GetConnectionByID_def find_dest_def find_req_def db0_def ev0_def
        conn0_def dest0_def req0_def row0_def)
  note * = attempt_number_reused [OF this, where R = mem_redis and h = h0 and env = "env0 200" and raw = raw0 and now = 4]
  have "ev_attempt_count (d_event ?row) = 0" by (simp add: row0_sel) (simp add: ev0_def)
  note ** = * [unfolded this]
  show ?thesis unfolding Let_def
    by (rule **) (simp_all add: row0_sel isTerminalStatus_def env0_def)
qed

end
