(* ===== verification/Webhook_Props.thy ===== *)
theory Webhook_Props
  imports Webhook Deliver_Props
begin

text \<open>
  Properties of the outbound engine: signatures and secrets, the lease discipline of the handler, the
  retry schedule, the guard against recursive operational events, automatic disabling, and what a
  replay does to the attempt history.
\<close>

section \<open>What the primitive steps change\<close>

definition MQ :: "'r redis \<Rightarrow> client \<Rightarrow> 'r mworld \<Rightarrow> dq" where
  "MQ R c w = dq_of R (prefix c) (mw_redis w)"

lemma stmt_simps [simp]:
  "mw_redis (snd (stmt o1 f w)) = mw_redis w" "mw_sent (snd (stmt o1 f w)) = mw_sent w"
  "mw_db (snd (stmt o1 f w)) = (if o1 = IoErr then mw_db w else snd (f (mw_db w)))"
  "fst (stmt o1 f w) = (if o1 = IoOk then fst (f (mw_db w)) else Inl ErrDb)"
  by (cases o1; simp add: stmt_def Let_def case_prod_unfold)+

lemma upd_stmt_simps [simp]:
  "mw_redis (snd (upd_stmt o1 g w)) = mw_redis w" "mw_sent (snd (upd_stmt o1 g w)) = mw_sent w"
  "mw_db (snd (upd_stmt o1 g w)) = (if o1 = IoErr then mw_db w else g (mw_db w))"
  "fst (upd_stmt o1 g w) = (if o1 = IoOk then None else Some ErrDb)"
  by (cases o1; simp add: upd_stmt_def Let_def case_prod_unfold)+

lemma m_mark_simps [simp]:
  "mw_redis (snd (m_mark env x g w)) = mw_redis w" "mw_sent (snd (m_mark env x g w)) = mw_sent w"
  "mw_db (snd (m_mark env x g w)) = (if g_mark env x = IoErr then mw_db w else g (mw_db w))"
  "fst (m_mark env x g w) = (if g_mark env x = IoOk then None else Some ErrDb)"
  by (simp_all add: m_mark_def)

lemma record_msg_simps [simp]:
  "mw_redis (recordAttempt_msg env did n st hs b d e w) = mw_redis w"
  "mw_sent (recordAttempt_msg env did n st hs b d e w) = mw_sent w"
  by (simp_all add: recordAttempt_msg_def)

lemma MQ_simps [simp]:
  "MQ R c (w\<lparr>mw_db := d\<rparr>) = MQ R c w" "MQ R c (w\<lparr>mw_sent := l\<rparr>) = MQ R c w"
  "MQ R c (snd (m_mark env x g w)) = MQ R c w" "MQ R c (recordAttempt_msg env did n st hs b d' e w) = MQ R c w"
  "MQ R c (snd (stmt o1 f w)) = MQ R c w" "MQ R c (snd (upd_stmt o1 g w)) = MQ R c w"
  by (simp_all add: MQ_def)

lemma m_queue_simps [simp]:
  "fst (m_ack R h env raw w) = (if g_ack env = IoOk then None else Some ErrRedis)"
  "fst (m_dead R h env raw w) = (if g_dead env = IoOk then None else Some ErrRedis)"
  "fst (m_sched R h env p t w) = (if g_sched env = IoOk then None else Some ErrRedis)"
  "mw_db (snd (m_ack R h env raw w)) = mw_db w" "mw_sent (snd (m_ack R h env raw w)) = mw_sent w"
  "mw_db (snd (m_dead R h env raw w)) = mw_db w" "mw_sent (snd (m_dead R h env raw w)) = mw_sent w"
  "mw_db (snd (m_sched R h env p t w)) = mw_db w" "mw_sent (snd (m_sched R h env p t w)) = mw_sent w"
  by (simp_all add: m_ack_def m_dead_def m_sched_def m_queue_def Ack_def DeadLetter_def Schedule_def Let_def
      case_prod_unfold io_err_run)

lemma enqueue_delivery_simps [simp]:
  "mw_db (snd (enqueue_delivery R c o1 tr now org i w)) = mw_db w"
  "mw_sent (snd (enqueue_delivery R c o1 tr now org i w)) = mw_sent w"
  by (simp_all add: enqueue_delivery_def Let_def case_prod_unfold)

lemma enqueue_deliveries_simps [simp]:
  "mw_db (enqueue_deliveries R c enq tr now org ids w) = mw_db w"
  "mw_sent (enqueue_deliveries R c enq tr now org ids w) = mw_sent w"
  by (induction ids arbitrary: w) simp_all

context redis
begin

lemma MQ_ack [simp]:
  "MQ R (mh_queue h) (snd (m_ack R h env raw w)) =
     (if g_ack env = IoErr then MQ R (mh_queue h) w else dq_release raw (MQ R (mh_queue h) w))"
  using exec_refines [of "mh_queue h" payload_json "OpAck (g_ack env) raw" "mw_redis w"]
  by (simp add: MQ_def m_ack_def m_queue_def Let_def case_prod_unfold)

lemma MQ_dead [simp]:
  "MQ R (mh_queue h) (snd (m_dead R h env raw w)) =
     (if g_dead env = IoErr then MQ R (mh_queue h) w else dq_bury 10000 raw (MQ R (mh_queue h) w))"
  using exec_refines [of "mh_queue h" payload_json "OpDead (g_dead env) raw" "mw_redis w"]
  by (simp add: MQ_def m_dead_def m_queue_def Let_def case_prod_unfold)

lemma MQ_sched [simp]:
  "MQ R (mh_queue h) (snd (m_sched R h env p t w)) =
     (if g_sched env = IoErr then MQ R (mh_queue h) w
      else dq_sched t (marshal payload_json p) (MQ R (mh_queue h) w))"
  using exec_refines [of "mh_queue h" payload_json "OpSchedule (g_sched env) p t" "mw_redis w"]
  by (simp add: MQ_def m_sched_def m_queue_def Let_def case_prod_unfold)

end

section \<open>Publishing leaves leases, schedule and dead list alone\<close>

definition kept :: "dq \<Rightarrow> dq \<Rightarrow> bool" where
  "kept q q' \<longleftrightarrow> proc q' = proc q \<and> sched q' = sched q \<and> deadq q' = deadq q"

lemma kept_refl [simp]: "kept q q"
  by (simp add: kept_def)

lemma kept_trans: "kept a b \<Longrightarrow> kept b c \<Longrightarrow> kept a c"
  by (simp add: kept_def)

lemma kept_push [simp]: "kept q (dq_trim (dq_push org e q))"
  by (simp add: kept_def dq_trim_def dq_push_def Let_def)

lemma seedTypes_frame [simp]:
  "mw_redis (snd (seedTypes env org ts w)) = mw_redis w" "mw_sent (snd (seedTypes env org ts w)) = mw_sent w"
  by (induction ts arbitrary: w) (auto simp: prod.case_eq_if split: option.split)

lemma SeedOperationalApp_frame [simp]:
  "mw_redis (snd (SeedOperationalApp env org w)) = mw_redis w" "mw_sent (snd (SeedOperationalApp env org w)) = mw_sent w"
  by (simp_all add: SeedOperationalApp_def Let_def case_prod_unfold prod.case_eq_if split: sum.split option.split)

lemma Publish_sent [simp]: "mw_sent (snd (Publish R c env org t fs w)) = mw_sent w"
  by (simp add: Publish_def Let_def prod.case_eq_if split: sum.split)

context redis
begin

lemma kept_enqueue: "kept (MQ R c w) (MQ R c (snd (enqueue_delivery R c o1 tr now org i w)))"
  using exec_refines [of c payload_json "OpEnqueue o1 tr (message_task org (UnixMilli now) i)" "mw_redis w"]
  by (simp add: MQ_def enqueue_delivery_def Let_def case_prod_unfold)

lemma kept_enqueues: "kept (MQ R c w) (MQ R c (enqueue_deliveries R c enq tr now org ids w))"
  by (induction ids arbitrary: w) (auto intro: kept_trans kept_enqueue)

lemma kept_Publish: "kept (MQ R c w) (MQ R c (snd (Publish R c env org t fs w)))"
proof -
  have s: "MQ R c (snd (SeedOperationalApp env org w)) = MQ R c w" by (simp add: MQ_def)
  have e: "kept (MQ R c w) (MQ R c (enqueue_deliveries R c enq tr now org ids w'))" if "MQ R c w' = MQ R c w" for enq tr now ids w'
    using kept_enqueues [of c w' enq tr now org ids] that by simp
  show ?thesis
    by (auto simp: Publish_def Let_def prod.case_eq_if s intro!: e split: sum.split)
qed

end

section \<open>Leases\<close>

definition mlease_ok :: "'r redis \<Rightarrow> mhandler \<Rightarrow> menv \<Rightarrow> string \<Rightarrow> zset \<Rightarrow> go_error option \<times> 'r mworld \<Rightarrow> bool" where
  "mlease_ok R h env raw z rw \<longleftrightarrow>
     (fst rw = None \<longrightarrow> raw \<notin> zmembers (proc (MQ R (mh_queue h) (snd rw)))) \<and>
     (fst rw \<noteq> None \<and> g_ack env \<noteq> IoLost \<and> g_dead env \<noteq> IoLost \<longrightarrow> proc (MQ R (mh_queue h) (snd rw)) = z)"

context redis
begin

lemma mlease_ack: "proc (MQ R (mh_queue h) w) = z \<Longrightarrow> mlease_ok R h env raw z (m_ack R h env raw w)"
  by (cases "g_ack env") (simp_all add: mlease_ok_def)

lemma mlease_dead: "proc (MQ R (mh_queue h) w) = z \<Longrightarrow> mlease_ok R h env raw z (m_dead R h env raw w)"
  by (cases "g_dead env") (simp_all add: mlease_ok_def)

lemma mlease_err: "proc (MQ R (mh_queue h) w) = z \<Longrightarrow> mlease_ok R h env raw z (Some e, w)"
  by (simp add: mlease_ok_def)

lemma mlease_sched_ack:
  "proc (MQ R (mh_queue h) w) = z \<Longrightarrow>
    mlease_ok R h env raw z (case m_sched R h env p t w of
       (err, w) \<Rightarrow> (case err of Some e \<Rightarrow> (Some e, w) | None \<Rightarrow> m_ack R h env raw w))"
  by (auto simp: case_prod_unfold mlease_err mlease_ack)

lemma mlease_defer: "proc (MQ R (mh_queue h) w) = z \<Longrightarrow> mlease_ok R h env raw z (deferSend R h env p raw delay w)"
  by (simp add: deferSend_def Let_def mlease_sched_ack)

lemma mlease_terminate: "proc (MQ R (mh_queue h) w) = z \<Longrightarrow> mlease_ok R h env raw z (terminate_msg R h env row raw reason w)"
  by (simp add: terminate_msg_def Let_def mlease_dead)

lemma proc_Publish [simp]: "proc (MQ R c (snd (Publish R c env org t fs w))) = proc (MQ R c w)"
  using kept_Publish [of c w env org t fs] by (simp add: kept_def)

lemma mlease_fail: "proc (MQ R (mh_queue h) w) = z \<Longrightarrow> mlease_ok R h env raw z (failAttempt_msg R h env row p raw n w)"
  unfolding failAttempt_msg_def Let_def
  by (simp add: case_prod_unfold prod.case_eq_if mlease_err mlease_dead mlease_ack split: option.split sum.split)

lemma mlease_send: "proc (MQ R (mh_queue h) w) = z \<Longrightarrow> mlease_ok R h env raw z (sendMessage R h env row p raw body sig w)"
  unfolding sendMessage_def Let_def
  by (auto simp: prod.case_eq_if mlease_err intro!: mlease_fail mlease_ack split: option.split)

lemma mlease_prepare: "proc (MQ R (mh_queue h) w) = z \<Longrightarrow> mlease_ok R h env raw z (prepareMessage R h env row p raw w)"
  unfolding prepareMessage_def transformMessage_def rateMessage_def signMessage_def Let_def
  by (auto simp: mlease_terminate mlease_defer mlease_send mlease_ack split: option.split sum.split list.split)

lemma MQ_counters [simp]:
  "MQ R c (w\<lparr>mw_redis := snd (run_io o1 (inflightIncrScript R key ttl cap) (mw_redis w))\<rparr>) = MQ R c w"
  "MQ R c (w\<lparr>mw_redis := snd (run_io o1 (Decr R key) (mw_redis w))\<rparr>) = MQ R c w"
  "MQ R c (w\<lparr>mw_redis := snd (run_io o2 (Decr R key) (snd (run_io o1 (inflightIncrScript R key ttl cap) (mw_redis w))))\<rparr>) = MQ R c w"
  by (cases o1; cases o2; auto simp: MQ_def inflightIncrScript_def Decr_def Let_def case_prod_unfold dq_of_def redis_simps)+

lemma mlease_release:
  "mlease_ok R h env raw z rw \<Longrightarrow>
    mlease_ok R h env raw z (fst rw, (snd rw)\<lparr>mw_redis := snd (run_io o1 (Decr R key) (mw_redis (snd rw)))\<rparr>)"
  by (simp add: mlease_ok_def)

lemma mlease_Process: "mlease_ok R h env raw (proc (MQ R (mh_queue h) w)) (Process_msg R h env p raw w)"
  unfolding Process_msg_def Let_def
  by (auto simp: mlease_err mlease_ack mlease_dead mlease_prepare mlease_defer case_prod_unfold prod.case_eq_if
      intro!: mlease_release split: option.split)

end

section \<open>Quiet steps: no message, no delivery row and no queue entry is added\<close>

definition quiet :: "'r redis \<Rightarrow> client \<Rightarrow> 'r mworld \<Rightarrow> 'r mworld \<Rightarrow> bool" where
  "quiet R c w w' \<longleftrightarrow>
     t_messages (mw_db w') = t_messages (mw_db w) \<and>
     map dl_id (t_deliveries (mw_db w')) = map dl_id (t_deliveries (mw_db w)) \<and>
     pend (MQ R c w') = pend (MQ R c w)"

lemma quiet_refl [simp]: "quiet R c w w"
  by (simp add: quiet_def)

lemma quiet_trans: "quiet R c a b \<Longrightarrow> quiet R c b d \<Longrightarrow> quiet R c a d"
  by (simp add: quiet_def)

lemma map_id_upd_where: "(\<And>x. key (f x) = key x) \<Longrightarrow> map key (upd_where P f xs) = map key xs"
  by (simp add: upd_where_def)

lemma map_id_delivery [simp]: "(\<And>x. dl_id (f x) = dl_id x) \<Longrightarrow> map dl_id (t_deliveries (upd_delivery i f d)) = map dl_id (t_deliveries d)"
  by (simp add: upd_delivery_def map_id_upd_where)

lemma mark_quiet [simp]:
  "(\<And>d. t_messages (g d) = t_messages d) \<Longrightarrow> (\<And>d. map dl_id (t_deliveries (g d)) = map dl_id (t_deliveries d)) \<Longrightarrow>
    quiet R c w (snd (m_mark env x g w))"
  by (simp add: quiet_def)

lemma attempt_tables [simp]:
  "t_messages (snd (CreateMessageDeliveryAttempt a d)) = t_messages d"
  "t_deliveries (snd (CreateMessageDeliveryAttempt a d)) = t_deliveries d"
  "t_endpoints (snd (CreateMessageDeliveryAttempt a d)) = t_endpoints d"
  by (simp_all add: CreateMessageDeliveryAttempt_def)

lemma failures_tables [simp]:
  "t_messages (snd (IncrEndpointFailures now i n d)) = t_messages d"
  "t_deliveries (snd (IncrEndpointFailures now i n d)) = t_deliveries d"
  "t_msg_attempts (snd (IncrEndpointFailures now i n d)) = t_msg_attempts d"
  by (simp_all add: IncrEndpointFailures_def Let_def split: option.split)

lemma record_quiet [simp]: "quiet R c w (recordAttempt_msg env did n st hs b d e w)"
  by (simp add: quiet_def recordAttempt_msg_def)

lemma sent_quiet [simp]: "quiet R c w (w'\<lparr>mw_sent := l\<rparr>) = quiet R c w w'"
  by (simp add: quiet_def)

context redis
begin

lemma queue_quiet [simp]:
  "quiet R (mh_queue h) w (snd (m_ack R h env raw w))" "quiet R (mh_queue h) w (snd (m_dead R h env raw w))"
  "quiet R (mh_queue h) w (snd (m_sched R h env p t w))"
  by (simp_all add: quiet_def dq_release_def dq_bury_def dq_sched_def)

lemma quiet_ack: "quiet R (mh_queue h) v w \<Longrightarrow> quiet R (mh_queue h) v (snd (m_ack R h env raw w))"
  by (rule quiet_trans [OF _ queue_quiet(1)])

lemma quiet_dead: "quiet R (mh_queue h) v w \<Longrightarrow> quiet R (mh_queue h) v (snd (m_dead R h env raw w))"
  by (rule quiet_trans [OF _ queue_quiet(2)])

lemma quiet_sched: "quiet R (mh_queue h) v w \<Longrightarrow> quiet R (mh_queue h) v (snd (m_sched R h env p t w))"
  by (rule quiet_trans [OF _ queue_quiet(3)])

lemma quiet_sched_ack:
  "quiet R (mh_queue h) v w \<Longrightarrow>
    quiet R (mh_queue h) v (snd (case m_sched R h env p t w of
       (err, w) \<Rightarrow> (case err of Some e \<Rightarrow> (Some e, w) | None \<Rightarrow> m_ack R h env raw w)))"
  by (simp add: case_prod_unfold quiet_ack quiet_sched split: option.split)

lemma quiet_mark:
  "quiet R c v w \<Longrightarrow> (\<And>d. t_messages (g d) = t_messages d) \<Longrightarrow>
    (\<And>d. map dl_id (t_deliveries (g d)) = map dl_id (t_deliveries d)) \<Longrightarrow> quiet R c v (snd (m_mark env x g w))"
  by (rule quiet_trans [OF _ mark_quiet])

lemma quiet_record: "quiet R c v w \<Longrightarrow> quiet R c v (recordAttempt_msg env did n st hs b d e w)"
  by (rule quiet_trans [OF _ record_quiet])

lemma quiet_defer: "quiet R (mh_queue h) v w \<Longrightarrow> quiet R (mh_queue h) v (snd (deferSend R h env p raw delay w))"
  unfolding deferSend_def Let_def by (rule quiet_sched_ack)

lemma quiet_terminate: "quiet R (mh_queue h) v w \<Longrightarrow> quiet R (mh_queue h) v (snd (terminate_msg R h env row raw reason w))"
  unfolding terminate_msg_def Let_def by (intro quiet_dead quiet_mark quiet_record) (simp_all add: delivery_marks)

lemmas quiet_ends = quiet_ack quiet_dead quiet_defer quiet_terminate

lemma quiet_failures: "quiet R c v w \<Longrightarrow> quiet R c v (snd (stmt o1 (IncrEndpointFailures now i n) w))"
  by (simp add: quiet_def)

lemma quiet_fail:
  assumes "ap_is_operational (sr_app row)" "quiet R (mh_queue h) v w"
  shows "quiet R (mh_queue h) v (snd (failAttempt_msg R h env row p raw n w))"
  unfolding failAttempt_msg_def Let_def
  using assms quiet_failures
  by (auto simp: prod.case_eq_if case_prod_unfold delivery_marks intro!: quiet_ends quiet_mark quiet_sched
      quiet_failures split: option.split sum.split)

lemma quiet_send:
  assumes "ap_is_operational (sr_app row)" "quiet R (mh_queue h) v w"
  shows "quiet R (mh_queue h) v (snd (sendMessage R h env row p raw body sig w))"
  unfolding sendMessage_def Let_def
  using assms
  by (auto simp: prod.case_eq_if delivery_marks ResetEndpointFailures_def intro!: quiet_ends quiet_mark quiet_record quiet_fail
      split: option.split)

lemma quiet_sign:
  assumes "ap_is_operational (sr_app row)" "quiet R (mh_queue h) v w"
  shows "quiet R (mh_queue h) v (snd (signMessage R h env row p raw body w))"
    "quiet R (mh_queue h) v (snd (rateMessage R h env row p raw body w))"
    "quiet R (mh_queue h) v (snd (transformMessage R h env row p raw body hs w))"
proof -
  show s: "quiet R (mh_queue h) v (snd (signMessage R h env row p raw body w))" for body
    using assms by (simp add: signMessage_def Let_def quiet_terminate quiet_send split: option.split)
  show r: "quiet R (mh_queue h) v (snd (rateMessage R h env row p raw body w))" for body
    using assms by (auto simp: rateMessage_def Let_def s quiet_defer split: option.split)
  show "quiet R (mh_queue h) v (snd (transformMessage R h env row p raw body hs w))"
    using assms by (simp add: transformMessage_def r quiet_terminate split: sum.split)
qed

lemma quiet_prepare:
  assumes "ap_is_operational (sr_app row)" "quiet R (mh_queue h) v w"
  shows "quiet R (mh_queue h) v (snd (prepareMessage R h env row p raw w))"
  using assms
  by (simp add: prepareMessage_def Let_def quiet_sign(3) quiet_terminate quiet_ack quiet_mark delivery_marks
      split: option.split sum.split list.split)

lemma quiet_redis [simp]: "MQ R c (w\<lparr>mw_redis := s\<rparr>) = MQ R c w' \<Longrightarrow> mw_db w = mw_db w' \<Longrightarrow> quiet R c w' (w\<lparr>mw_redis := s\<rparr>)"
  by (simp add: quiet_def)

lemma quiet_release: "quiet R c v w \<Longrightarrow> quiet R c v (w\<lparr>mw_redis := snd (run_io o1 (Decr R key) (mw_redis w))\<rparr>)"
  by (simp add: quiet_def)

lemma quiet_Process:
  assumes "deliveryID p = Some did" "GetMessageDeliveryForSend did (mw_db w) = Some row" "ap_is_operational (sr_app row)"
  shows "quiet R (mh_queue h) w (snd (Process_msg R h env p raw w))"
  unfolding Process_msg_def Let_def
  using assms
  by (auto simp: delivery_marks case_prod_unfold prod.case_eq_if intro!: quiet_ends quiet_mark quiet_prepare quiet_release
      split: option.split)

end

section \<open>The request\<close>

lemma msent_ends [simp]:
  "mw_sent (snd (deferSend R h env p raw delay w)) = mw_sent w"
  "mw_sent (snd (terminate_msg R h env row raw reason w)) = mw_sent w"
  "mw_sent (snd (failAttempt_msg R h env row p raw n w)) = mw_sent w"
  by (simp_all add: deferSend_def terminate_msg_def failAttempt_msg_def Let_def case_prod_unfold prod.case_eq_if
      split: option.split sum.split)

text \<open>The signature of a body, and a request that carries the signature of its own body.\<close>

definition signature_of :: "menv \<Rightarrow> send_row \<Rightarrow> bytes \<Rightarrow> string option" where
  "signature_of env row body =
     signHeader (g_hmac env) (g_now env) (ep_secret (sr_endpoint row)) (ep_prev_secret (sr_endpoint row))
       (ep_prev_secret_expires_at (sr_endpoint row)) (ms_id (sr_message row)) (Unix (ms_created_at (sr_message row))) body"

definition signed_request :: "menv \<Rightarrow> send_row \<Rightarrow> http_req \<Rightarrow> bool" where
  "signed_request env row req \<longleftrightarrow>
     ValidateDestinationURL (g_url env (ep_url (sr_endpoint row))) = None \<and>
     (\<exists>body sig. signature_of env row body = Some sig \<and> req = buildRequest_msg row body sig)"

definition msends :: "menv \<Rightarrow> send_row \<Rightarrow> http_req list \<Rightarrow> 'r mworld \<Rightarrow> bool" where
  "msends env row l w \<longleftrightarrow> mw_sent w = l \<or> (\<exists>req. mw_sent w = l @ [req] \<and> signed_request env row req)"

lemma msends_sign: "mw_sent w = l \<Longrightarrow> msends env row l (snd (signMessage R h env row p raw body w))"
proof -
  assume w: "mw_sent w = l"
  have "msends env row l (snd (sendMessage R h env row p raw body sig w))"
    if "signature_of env row body = Some sig" "ValidateDestinationURL (g_url env (ep_url (sr_endpoint row))) = None" for sig
    using that w by (auto simp: sendMessage_def Let_def prod.case_eq_if msends_def signed_request_def split: option.split)
  then show ?thesis
    using w by (simp add: signMessage_def Let_def signature_of_def msends_def split: option.split)
qed

lemma msends_prepare: "mw_sent w = l \<Longrightarrow> msends env row l (snd (prepareMessage R h env row p raw w))"
proof -
  assume w: "mw_sent w = l"
  have r: "msends env row l (snd (rateMessage R h env row p raw body w))" for body
    using w by (auto simp: rateMessage_def Let_def msends_sign split: option.split) (simp_all add: msends_def)
  have t: "msends env row l (snd (transformMessage R h env row p raw body hs w))" for body hs
    using w by (simp add: transformMessage_def r split: sum.split) (simp add: msends_def)
  show ?thesis
    using w by (simp add: prepareMessage_def Let_def t split: option.split sum.split list.split) (simp add: msends_def)
qed

lemma msends_Process:
  assumes "deliveryID p = Some did" "GetMessageDeliveryForSend did (mw_db w) = Some row"
  shows "msends env row (mw_sent w) (snd (Process_msg R h env p raw w))"
proof -
  have p: "msends env row (mw_sent w) (snd (prepareMessage R h env row p raw (w\<lparr>mw_redis := s\<rparr>)))" for s
    by (rule msends_prepare) simp
  have r: "msends env row l (w'\<lparr>mw_redis := s\<rparr>) = msends env row l w'" for l w' s by (simp add: msends_def)
  have n: "mw_sent w' = l \<Longrightarrow> msends env row l w'" for w' :: "'a mworld" and l by (simp add: msends_def)
  show ?thesis
    using assms by (simp add: Process_msg_def Let_def case_prod_unfold prod.case_eq_if p r n msends_prepare split: option.split)
qed

lemma canonical_reserved:
  "CanonicalHeaderKey ''Content-Type'' = ''Content-Type''" "CanonicalHeaderKey ''webhook-id'' = ''Webhook-Id''"
  "CanonicalHeaderKey ''webhook-timestamp'' = ''Webhook-Timestamp''"
  "CanonicalHeaderKey ''webhook-signature'' = ''Webhook-Signature''"
  by code_simp+

lemma reserved_headers:
  "map_of (hr_headers (buildRequest_msg row body sig)) ''Webhook-Id'' = Some [ms_id (sr_message row)]"
  "map_of (hr_headers (buildRequest_msg row body sig)) ''Webhook-Timestamp'' = Some [show_int (Unix (ms_created_at (sr_message row)))]"
  "map_of (hr_headers (buildRequest_msg row body sig)) ''Webhook-Signature'' = Some [sig]"
  "map_of (hr_headers (buildRequest_msg row body sig)) ''Content-Type'' = Some [''application/json'']"
  "map_of (hr_headers (buildRequest_msg row body sig)) ''Dstream-Webhook-Hops'' = Some [''1'']"
  "hr_body (buildRequest_msg row body sig) = body" "hr_url (buildRequest_msg row body sig) = ep_url (sr_endpoint row)"
  by (simp_all add: buildRequest_msg_def Let_def Set_def map_of_hput canonical_reserved canonical_own)

section \<open>The attempt table\<close>

lemma mark_attempts [simp]:
  "t_msg_attempts (MarkDeliveryDead now i d) = t_msg_attempts d" "t_msg_attempts (MarkDeliveryDelivered now i d) = t_msg_attempts d"
  "t_msg_attempts (MarkDeliveryDisabled now i d) = t_msg_attempts d" "t_msg_attempts (MarkDeliveryFiltered now i d) = t_msg_attempts d"
  "t_msg_attempts (MarkDeliveryForRetry now i t d) = t_msg_attempts d" "t_msg_attempts (MarkDeliveryInFlight now i d) = t_msg_attempts d"
  "t_msg_attempts (ResetEndpointFailures now i d) = t_msg_attempts d" "t_msg_attempts (ResetDeliveryForReplay now i d) = t_msg_attempts d"
  by (simp_all add: delivery_marks ResetEndpointFailures_def)

lemma publish_attempts [simp]: "t_msg_attempts (mw_db (snd (Publish R c env org t fs w))) = t_msg_attempts (mw_db w)"
proof -
  have e: "t_msg_attempts (snd (EnsureOperationalApp now i r org d)) = t_msg_attempts d" for now i r d
    by (simp add: EnsureOperationalApp_def Let_def split: sum.split)
  have s: "t_msg_attempts (SeedEventType now i org n x d) = t_msg_attempts d" for now i n x d
    by (simp add: SeedEventType_def CreateEventType_def Let_def)
  have ts: "t_msg_attempts (mw_db (snd (seedTypes env org ts w))) = t_msg_attempts (mw_db w)" for ts and w :: "'a mworld"
    by (induction ts arbitrary: w) (auto simp: prod.case_eq_if s split: option.split)
  have a: "t_msg_attempts (mw_db (snd (SeedOperationalApp env org w))) = t_msg_attempts (mw_db w)"
    by (simp add: SeedOperationalApp_def Let_def case_prod_unfold prod.case_eq_if e ts split: sum.split option.split)
  have m: "t_msg_attempts (snd (CreateMessage now i app org ty b hash ev ch d)) = t_msg_attempts d" for now i app ty b hash ev ch d
    by (simp add: CreateMessage_def Let_def)
  have b: "t_msg_attempts (snd (CreateMessageDeliveriesBatch now ids m org eps d)) = t_msg_attempts d" for now ids m eps d
    by (simp add: CreateMessageDeliveriesBatch_def case_prod_unfold Let_def)
  show ?thesis
    by (simp add: Publish_def Let_def prod.case_eq_if a m b split: sum.split)
qed

definition recorded :: "string \<Rightarrow> int \<Rightarrow> msg_attempt_row list \<Rightarrow> bool" where
  "recorded did n l \<longleftrightarrow> list_ex (\<lambda>a. ma_delivery_id a = did \<and> ma_attempt_num a = n) l"

lemma record_dropped:
  "recorded did (to_int32 n) (t_msg_attempts (mw_db w)) \<Longrightarrow>
    t_msg_attempts (mw_db (recordAttempt_msg env did n st hs b d e w)) = t_msg_attempts (mw_db w)"
  by (simp add: recordAttempt_msg_def CreateMessageDeliveryAttempt_def recorded_def)

text \<open>The number of the next attempt is taken already.\<close>

definition next_recorded :: "send_row \<Rightarrow> msg_attempt_row list \<Rightarrow> bool" where
  "next_recorded row l \<longleftrightarrow> recorded (dl_id (sr_delivery row)) (to_int32 (dl_attempt_count (sr_delivery row) + 1)) l"

lemma dropped_terminate:
  "next_recorded row l \<Longrightarrow> t_msg_attempts (mw_db w) = l \<Longrightarrow> t_msg_attempts (mw_db (snd (terminate_msg R h env row raw reason w))) = l"
  by (simp add: terminate_msg_def Let_def record_dropped next_recorded_def)

lemma dropped_defer: "t_msg_attempts (mw_db w) = l \<Longrightarrow> t_msg_attempts (mw_db (snd (deferSend R h env p raw delay w))) = l"
  by (simp add: deferSend_def Let_def case_prod_unfold split: option.split)

lemma dropped_fail: "t_msg_attempts (mw_db w) = l \<Longrightarrow> t_msg_attempts (mw_db (snd (failAttempt_msg R h env row p raw n w))) = l"
  by (simp add: failAttempt_msg_def Let_def case_prod_unfold prod.case_eq_if split: option.split sum.split)

lemma dropped_send: "next_recorded row l \<Longrightarrow> t_msg_attempts (mw_db w) = l \<Longrightarrow> t_msg_attempts (mw_db (snd (sendMessage R h env row p raw body sig w))) = l"
  by (simp add: sendMessage_def Let_def prod.case_eq_if record_dropped next_recorded_def dropped_fail split: option.split)

lemma dropped_prepare: "next_recorded row l \<Longrightarrow> t_msg_attempts (mw_db w) = l \<Longrightarrow> t_msg_attempts (mw_db (snd (prepareMessage R h env row p raw w))) = l"
proof -
  assume w: "next_recorded row l" "t_msg_attempts (mw_db w) = l"
  have s: "t_msg_attempts (mw_db (snd (signMessage R h env row p raw body w))) = l" for body
    using w by (simp add: signMessage_def Let_def dropped_terminate dropped_send split: option.split)
  have r: "t_msg_attempts (mw_db (snd (rateMessage R h env row p raw body w))) = l" for body
    using w by (auto simp: rateMessage_def Let_def s dropped_defer split: option.split)
  have t: "t_msg_attempts (mw_db (snd (transformMessage R h env row p raw body hs w))) = l" for body hs
    using w by (simp add: transformMessage_def r dropped_terminate split: sum.split)
  show ?thesis
    using w by (simp add: prepareMessage_def Let_def t dropped_terminate split: option.split sum.split list.split)
qed

section \<open>Secrets\<close>

lemma std_decode_encode: "b64_decode std_alphabet True (b64_encode std_alphabet True bs) = Some bs"
  by (rule b64_roundtrip[OF std_ok])

lemma secret_decode: "rnd \<noteq> [] \<Longrightarrow> decodeSecret (GenerateSecret rnd) = Some rnd"
  by (simp add: decodeSecret_def GenerateSecret_def std_decode_encode)

lemma b64_no_prefix: "trim_prefix (b64_encode std_alphabet True bs) secretPrefix = b64_encode std_alphabet True bs"
proof -
  have "CHR ''_'' \<notin> set (b64_encode std_alphabet True bs)" using b64_chars [of bs] by (auto simp: std_alphabet_def)
  then have "\<not> has_prefix (b64_encode std_alphabet True bs) secretPrefix" by (auto simp: has_prefix_iff secretPrefix_def)
  then show ?thesis by (simp add: trim_prefix_def)
qed

section \<open>A concrete delivery\<close>

definition app0 :: app_row where
  "app0 = \<lparr>ap_id = ''a'', ap_org_id = org_a, ap_uid = None, ap_name = ''A'', ap_metadata = ''{}'', ap_created_at = 0,
     ap_updated_at = 0, ap_portal_epoch = 0, ap_is_operational = False\<rparr>"

definition ep0 :: endpoint_row where
  "ep0 = \<lparr>ep_id = ''e'', ep_app_id = ''a'', ep_org_id = org_a, ep_uid = None, ep_url = ''https://x'', ep_description = [],
     ep_secret = GenerateSecret ''ABC'', ep_filter_event_types = None, ep_disabled = False, ep_created_at = 0, ep_updated_at = 0,
     ep_prev_secret = None, ep_prev_secret_expires_at = None, ep_consecutive_failures = 0, ep_disabled_at = None,
     ep_headers = [], ep_rate_limit = None, ep_channels = None, ep_filter_expr = None, ep_transform_js = None\<rparr>"

definition msg0 :: message_row where
  "msg0 = \<lparr>ms_id = ''m'', ms_app_id = ''a'', ms_org_id = org_a, ms_event_type = ''t'', ms_payload = Some ''{}'',
     ms_payload_hash = [], ms_event_id = None, ms_created_at = 0, ms_channels = None\<rparr>"

definition del0 :: msg_delivery_row where
  "del0 = \<lparr>dl_id = uuid_Nil, dl_message_id = ''m'', dl_endpoint_id = ''e'', dl_org_id = org_a, dl_status = ''queued'',
     dl_attempt_count = 0, dl_next_retry_at = None, dl_last_attempt_at = None, dl_created_at = 0, dl_updated_at = 0\<rparr>"

definition mdb0 :: mdb where
  "mdb0 = \<lparr>t_apps = [app0], t_event_types = [], t_endpoints = [ep0], t_messages = [msg0], t_deliveries = [del0],
     t_msg_attempts = []\<rparr>"

definition srow0 :: send_row where
  "srow0 = \<lparr>sr_delivery = del0, sr_message = msg0, sr_endpoint = ep0, sr_app = app0\<rparr>"

definition task0 :: payload where
  "task0 = message_task org_a 5 uuid_Nil"

definition mraw0 :: string where
  "mraw0 = ''t1'' @ leaseSep # marshal payload_json task0"

definition mw0 :: "mem mworld" where
  "mw0 = \<lparr>mw_db = mdb0,
     mw_redis = q_run mem_redis payload_json NewClient [OpEnqueue IoOk [] task0, OpPick IoOk 0 60000 ''t1''] mem_empty,
     mw_sent = []\<rparr>"

definition mh0 :: mhandler where
  "mh0 = \<lparr>mh_queue = NewClient, mh_redis = True, mh_limiter = True, MaxConsecutiveFailures = 1, mh_PerOrgMaxInflight = 0\<rparr>"

definition penv0 :: penv where
  "penv0 = \<lparr>pe_ensure = IoOk, pe_raced = False, pe_get = IoOk, pe_seed = (\<lambda>_. IoOk), pe_message = IoOk, pe_match = IoOk,
     pe_batch = IoOk, pe_enqueue = (\<lambda>_. IoOk), pe_now = 9000000, pe_appid = ''o'', pe_typeid = id, pe_msgid = ''n'',
     pe_delid = (\<lambda>_. ''k''), pe_sha256 = id, pe_trace = []\<rparr>"

definition menv0 :: "int \<Rightarrow> menv" where
  "menv0 st = \<lparr>g_load = IoOk, g_mark = (\<lambda>_. IoOk), g_attempt = IoOk, g_ack = IoOk, g_dead = IoOk, g_sched = IoOk,
     g_incr = IoOk, g_decr = IoOk, g_failures = IoOk, g_limiter = None,
     g_url = (\<lambda>_. Some \<lparr>u_Scheme = ''https'', u_Hostname = ''x''\<rparr>), g_filter = (\<lambda>_ _ _ _ _. Inr True),
     g_transform = (\<lambda>_ b _. Inr b), g_newreq = (\<lambda>_. True),
     g_http = (\<lambda>_. Some \<lparr>rs_status = st, rs_headers = [], rs_body = []\<rparr>), g_hmac = (\<lambda>k m. k @ m),
     g_pub = (\<lambda>_. penv0), g_now = 9000000, g_dur = 1\<rparr>"

lemma menv0_sel:
  "g_load (menv0 st) = IoOk" "g_mark (menv0 st) x = IoOk" "g_attempt (menv0 st) = IoOk" "g_ack (menv0 st) = IoOk"
  "g_dead (menv0 st) = IoOk" "g_sched (menv0 st) = IoOk" "g_failures (menv0 st) = IoOk" "g_now (menv0 st) = 9000000"
  "g_newreq (menv0 st) u = True" "g_http (menv0 st) r = Some \<lparr>rs_status = st, rs_headers = [], rs_body = []\<rparr>"
  "g_url (menv0 st) u = Some \<lparr>u_Scheme = ''https'', u_Hostname = ''x''\<rparr>" "g_hmac (menv0 st) = (\<lambda>k m. k @ m)"
  by (simp_all add: menv0_def)

lemma srow0_found: "GetMessageDeliveryForSend uuid_Nil mdb0 = Some srow0"
  by (simp add: GetMessageDeliveryForSend_def find_delivery_def find_message_def find_endpoint_def find_app_def mdb0_def
      del0_def msg0_def ep0_def app0_def srow0_def)

lemma task_delivery:
  assumes "uuid_parse i = Some i"
  shows "deliveryID (message_task org ms i) = Some i"
proof -
  have "jok (JObj [(''delivery_id'', JStr i)])" using uuid_ascii [OF assms] by (simp add: ascii_def)
  from jparse_show [OF this] show ?thesis
    using uuid_Parse_canonical [OF assms]
    by (simp add: deliveryID_def message_task_def delivery_data_def get_str_def)
qed

lemma task0_delivery: "deliveryID task0 = Some uuid_Nil"
  unfolding task0_def by (rule task_delivery) (rule wit_uuids(3))

lemma srow0_sel: "sr_delivery srow0 = del0" "sr_message srow0 = msg0" "sr_endpoint srow0 = ep0" "sr_app srow0 = app0"
  "dl_id del0 = uuid_Nil" "dl_status del0 = ''queued''" "dl_attempt_count del0 = 0" "ep_disabled ep0 = False"
  "ms_payload msg0 = Some ''{}''" "ep_filter_expr ep0 = None" "ep_transform_js ep0 = None" "ep_rate_limit ep0 = None"
  "ep_url ep0 = ''https://x''" "mw_db mw0 = mdb0" "mw_sent mw0 = []" "mh_PerOrgMaxInflight mh0 = 0" "mh_queue mh0 = NewClient"
  by (simp_all add: srow0_def del0_def msg0_def ep0_def mw0_def mh0_def)

lemma secret0: "decodeSecret (ep_secret ep0) = Some ''ABC''"
  by (simp add: ep0_def secret_decode)

lemma Process0_msg:
  "\<exists>sig. Process_msg mem_redis mh0 (menv0 st) task0 mraw0 mw0 = sendMessage mem_redis mh0 (menv0 st) srow0 task0 mraw0 ''{}'' sig mw0"
  using secret0
  by (auto simp: Process_msg_def task0_delivery menv0_sel srow0_sel srow0_found terminal_delivery_def prepareMessage_def
      transformMessage_def opt_nonempty_def rateMessage_def signMessage_def ValidateDestinationURL_def signHeader_def Sign_def
      Let_def split: option.split)

section \<open>A delivery row is not lost\<close>

lemma find_append_Some: "find P xs = Some x \<Longrightarrow> find P (xs @ ys) = Some x"
  by (induction xs) auto

lemma insert_deliveries_append:
  "\<exists>new. snd (insert_deliveries now ids m org eps k ds) = ds @ new"
proof (induction eps arbitrary: k ds)
  case (Cons ep eps)
  show ?case
    using Cons.IH [of k ds] Cons.IH [of "Suc k" "ds @ [x]" for x] by (fastforce simp: Let_def case_prod_unfold)
qed simp

lemma find_batch: "find_delivery i d = Some x \<Longrightarrow> find_delivery i (snd (CreateMessageDeliveriesBatch now ids m org eps d)) = Some x"
proof -
  obtain new where "snd (insert_deliveries now ids m org eps 0 (t_deliveries d)) = t_deliveries d @ new"
    using insert_deliveries_append by blast
  then show "find_delivery i d = Some x \<Longrightarrow> ?thesis"
    by (simp add: CreateMessageDeliveriesBatch_def case_prod_unfold Let_def find_delivery_def find_append_Some)
qed

lemma find_Publish:
  "find_delivery i (mw_db w) = Some x \<Longrightarrow> find_delivery i (mw_db (snd (Publish R c env org t fs w))) = Some x"
proof -
  assume x: "find_delivery i (mw_db w) = Some x"
  have t: "t_deliveries (mw_db (snd (seedTypes env org ts w))) = t_deliveries (mw_db w)" for ts and w :: "'a mworld"
    by (induction ts arbitrary: w)
      (auto simp: prod.case_eq_if SeedEventType_def CreateEventType_def Let_def split: option.split)
  have "find_delivery i (mw_db (snd (SeedOperationalApp env org w))) = find_delivery i (mw_db w)"
    by (simp add: find_delivery_def SeedOperationalApp_def EnsureOperationalApp_def Let_def case_prod_unfold prod.case_eq_if t
        split: sum.split option.split)
  moreover have "find_delivery i (snd (CreateMessage now j app org ty b hash ev ch d)) = find_delivery i d"
    for now j app ty b hash ev ch d
    by (simp add: find_delivery_def CreateMessage_def Let_def)
  ultimately show ?thesis
    using x by (simp add: Publish_def Let_def prod.case_eq_if find_batch split: sum.split)
qed

lemma find_failures: "find_delivery i (snd (IncrEndpointFailures now e n d)) = find_delivery i d"
  by (simp add: find_delivery_def)

section \<open>Properties\<close>

text \<open>
  leases of the outbound engine. When the handling of a message task ends with nil its lease is
  gone; when it ends with an error, and neither the acknowledgement nor the dead-letter call lost
  its reply, every lease is as before: the recoverer brings the task back.
\<close>

theorem message_lease:
  assumes "redis R"
  shows "(fst (Process_msg R h env p raw w) = None \<longrightarrow>
      raw \<notin> zmembers (proc (dq_of R (prefix (mh_queue h)) (mw_redis (snd (Process_msg R h env p raw w)))))) \<and>
    (fst (Process_msg R h env p raw w) \<noteq> None \<and> g_ack env \<noteq> IoLost \<and> g_dead env \<noteq> IoLost \<longrightarrow>
      proc (dq_of R (prefix (mh_queue h)) (mw_redis (snd (Process_msg R h env p raw w)))) =
      proc (dq_of R (prefix (mh_queue h)) (mw_redis w)))"
  using redis.mlease_Process [OF assms, of h env raw w p] by (simp add: mlease_ok_def MQ_def)

theorem message_lease_witness:
  "mraw0 \<notin> zmembers (proc (dq_of mem_redis ''dq'' (mw_redis (snd (Process_msg mem_redis mh0 (menv0 200) task0 mraw0 mw0)))))"
proof -
  obtain sig where "Process_msg mem_redis mh0 (menv0 200) task0 mraw0 mw0 =
      sendMessage mem_redis mh0 (menv0 200) srow0 task0 mraw0 ''{}'' sig mw0" using Process0_msg by blast
  then have "fst (Process_msg mem_redis mh0 (menv0 200) task0 mraw0 mw0) = None"
    by (simp add: sendMessage_def Let_def prod.case_eq_if menv0_sel)
  then show ?thesis
    using message_lease [OF mem.redis_axioms, of mh0 "menv0 200" task0 mraw0 mw0]
    by (simp add: srow0_sel NewClient_def)
qed

text \<open>
  the outbound schedule. The failed attempts one to seven of a delivery are retried after 5 s, 5 min,
  30 min, 2 h, 5 h, 10 h and 10 h, the same task scheduled and its lease released; the eighth, and any
  later one, marks the delivery dead and dead-letters the task, whatever happens to the operational
  events it triggers.
\<close>

theorem message_retry_schedule:
  assumes "redis R" "\<And>x. g_mark env x = IoOk" "g_sched env = IoOk" "g_ack env = IoOk" "g_dead env = IoOk" "1 \<le> n"
    and x: "find_delivery (dl_id (sr_delivery row)) (mw_db w) = Some x"
    and w': "failAttempt_msg R h env row p raw n w = (r, w')"
  shows "let q = dq_of R (prefix (mh_queue h)) (mw_redis w); q' = dq_of R (prefix (mh_queue h)) (mw_redis w') in
    r = None \<and> proc q' = zdel raw (proc q) \<and>
    (if n \<le> 7
     then sched q' = zins (UnixMilli (g_now env + [5, 300, 1800, 7200, 18000, 36000, 36000] ! nat (n - 1) * second))
            (marshal payload_json p) (sched q) \<and> deadq q' = deadq q \<and>
          mw_db w' = MarkDeliveryForRetry (g_now env) (dl_id (sr_delivery row))
            (g_now env + [5, 300, 1800, 7200, 18000, 36000, 36000] ! nat (n - 1) * second) (mw_db w)
     else sched q' = sched q \<and> stripToken raw \<in> set (deadq q') \<and>
          map_option dl_status (find_delivery (dl_id (sr_delivery row)) (mw_db w')) = Some ''dead'')"
proof -
  have r: "r = fst (failAttempt_msg R h env row p raw n w)" "w' = snd (failAttempt_msg R h env row p raw n w)"
    using w' by simp_all
  note MQ = redis.MQ_ack [OF assms(1), unfolded MQ_def] redis.MQ_dead [OF assms(1), unfolded MQ_def]
    redis.MQ_sched [OF assms(1), unfolded MQ_def]
  show ?thesis
  proof (cases "n \<le> 7")
    case True
    then have "nat (n - 1) < 7" using assms(6) by linarith
    then have "retrySchedule ! nat (n - 1) = [5, 300, 1800, 7200, 18000, 36000, 36000] ! nat (n - 1) * second"
      unfolding retrySchedule_def by (simp add: nth_Cons' millisecond_def second_def)
    moreover have "nextDelay n = (retrySchedule ! nat (n - 1), True)"
      using True assms(6) by (simp add: nextDelay_def retrySchedule_def)
    ultimately show ?thesis
      unfolding r using True assms(2-5)
      by (simp add: failAttempt_msg_def Let_def case_prod_unfold prod.case_eq_if MQ)
  next
    case False
    then have n: "nextDelay n = (0, False)" by (simp add: nextDelay_def retrySchedule_def)
    have "find_delivery (dl_id (sr_delivery row)) (MarkDeliveryDead t (dl_id (sr_delivery row)) (mw_db w)) =
        Some (x\<lparr>dl_status := ''dead'', dl_updated_at := t\<rparr>)" for t
      using x find_delivery_id [OF x] by (simp add: delivery_marks find_upd_delivery)
    note find = this find_Publish find_failures
    note K = redis.kept_Publish [OF assms(1), unfolded kept_def MQ_def]
    show ?thesis
      unfolding r using False assms(2-5) n
      by (auto simp: failAttempt_msg_def Let_def prod.case_eq_if MQ K find in_last_n split: sum.split)
  qed
qed

theorem message_retry_schedule_witness:
  "let rw = failAttempt_msg mem_redis mh0 (menv0 500) srow0 task0 mraw0 8 mw0;
       q = dq_of mem_redis (prefix (mh_queue mh0)) (mw_redis (snd rw))
   in fst rw = None \<and> stripToken mraw0 \<in> set (deadq q) \<and>
      map_option dl_status (find_delivery uuid_Nil (mw_db (snd rw))) = Some ''dead''"
proof -
  have "find_delivery (dl_id (sr_delivery srow0)) (mw_db mw0) = Some del0"
    by (simp add: srow0_sel find_delivery_def mdb0_def)
  from message_retry_schedule [OF mem.redis_axioms menv0_sel(2) menv0_sel(6) menv0_sel(4) menv0_sel(5) _ this surjective_pairing, of 8 mh0 500 task0 mraw0]
  show ?thesis by (simp add: Let_def srow0_sel)
qed

text \<open>
  C11: signed requests. A message task sends at most one request, for a delivery that is not terminal and an
  endpoint that is enabled, to that endpoint's checked URL. Its signature header starts with the
  signature of exactly the bytes sent, under the endpoint's current secret; all that can follow is
  the signature of the same bytes under the previous secret, before its expiry. Identifier,
  timestamp, content type and hop count are dstream's own, whatever custom headers the endpoint has.
\<close>

theorem signed_request_sent:
  assumes "mw_sent (snd (Process_msg R h env p raw w)) \<noteq> mw_sent w"
  shows "\<exists>did row req sig rest. deliveryID p = Some did \<and> GetMessageDeliveryForSend did (mw_db w) = Some row \<and>
    \<not> terminal_delivery (dl_status (sr_delivery row)) \<and> \<not> ep_disabled (sr_endpoint row) \<and>
    mw_sent (snd (Process_msg R h env p raw w)) = mw_sent w @ [req] \<and>
    hr_url req = ep_url (sr_endpoint row) \<and> ValidateDestinationURL (g_url env (hr_url req)) = None \<and>
    Sign (g_hmac env) (ep_secret (sr_endpoint row)) (ms_id (sr_message row)) (Unix (ms_created_at (sr_message row))) (hr_body req) = Some sig \<and>
    map_of (hr_headers req) ''Webhook-Signature'' = Some [sig @ rest] \<and>
    (rest = [] \<or> (\<exists>prev t ps. ep_prev_secret (sr_endpoint row) = Some prev \<and>
       ep_prev_secret_expires_at (sr_endpoint row) = Some t \<and> g_now env < t \<and> rest = '' '' @ ps \<and>
       Sign (g_hmac env) prev (ms_id (sr_message row)) (Unix (ms_created_at (sr_message row))) (hr_body req) = Some ps)) \<and>
    map_of (hr_headers req) ''Webhook-Id'' = Some [ms_id (sr_message row)] \<and>
    map_of (hr_headers req) ''Webhook-Timestamp'' = Some [show_int (Unix (ms_created_at (sr_message row)))] \<and>
    map_of (hr_headers req) ''Content-Type'' = Some [''application/json''] \<and>
    map_of (hr_headers req) ''Dstream-Webhook-Hops'' = Some [''1'']"
proof -
  obtain did where did: "deliveryID p = Some did"
    using assms by (cases "deliveryID p") (simp_all add: Process_msg_def)
  obtain row where row: "GetMessageDeliveryForSend did (mw_db w) = Some row"
    using assms did by (cases "GetMessageDeliveryForSend did (mw_db w)") (simp_all add: Process_msg_def split: if_splits)
  have live: "\<not> terminal_delivery (dl_status (sr_delivery row))" "\<not> ep_disabled (sr_endpoint row)"
    using assms did row by (auto simp: Process_msg_def Let_def split: if_splits)
  obtain req where req: "mw_sent (snd (Process_msg R h env p raw w)) = mw_sent w @ [req]" "signed_request env row req"
    using msends_Process [OF did row, of env R h raw] assms by (auto simp: msends_def)
  then obtain body sh where b: "signature_of env row body = Some sh" "req = buildRequest_msg row body sh"
    "ValidateDestinationURL (g_url env (ep_url (sr_endpoint row))) = None" by (auto simp: signed_request_def)
  obtain sig rest where "sh = sig @ rest"
    "Sign (g_hmac env) (ep_secret (sr_endpoint row)) (ms_id (sr_message row)) (Unix (ms_created_at (sr_message row))) body = Some sig"
    "rest = [] \<or> (\<exists>prev t ps. ep_prev_secret (sr_endpoint row) = Some prev \<and>
       ep_prev_secret_expires_at (sr_endpoint row) = Some t \<and> g_now env < t \<and> rest = '' '' @ ps \<and>
       Sign (g_hmac env) prev (ms_id (sr_message row)) (Unix (ms_created_at (sr_message row))) body = Some ps)"
    using b(1) by (auto simp: signature_of_def signHeader_def opt_nonempty_def split: option.splits if_splits)
  then show ?thesis
    using did row live req(1) b by (intro exI [of _ did] exI [of _ row] exI [of _ req] exI [of _ sig] exI [of _ rest]) (simp add: reserved_headers)
qed

theorem signed_request_sent_witness:
  "\<exists>did row req sig rest. deliveryID task0 = Some did \<and> GetMessageDeliveryForSend did (mw_db mw0) = Some row \<and>
    \<not> terminal_delivery (dl_status (sr_delivery row)) \<and> \<not> ep_disabled (sr_endpoint row) \<and>
    mw_sent (snd (Process_msg mem_redis mh0 (menv0 200) task0 mraw0 mw0)) = mw_sent mw0 @ [req] \<and>
    hr_url req = ep_url (sr_endpoint row) \<and> ValidateDestinationURL (g_url (menv0 200) (hr_url req)) = None \<and>
    Sign (g_hmac (menv0 200)) (ep_secret (sr_endpoint row)) (ms_id (sr_message row)) (Unix (ms_created_at (sr_message row))) (hr_body req) = Some sig \<and>
    map_of (hr_headers req) ''Webhook-Signature'' = Some [sig @ rest] \<and>
    map_of (hr_headers req) ''Webhook-Id'' = Some [ms_id (sr_message row)]"
proof -
  obtain sig where "Process_msg mem_redis mh0 (menv0 200) task0 mraw0 mw0 =
      sendMessage mem_redis mh0 (menv0 200) srow0 task0 mraw0 ''{}'' sig mw0" using Process0_msg by blast
  then have "mw_sent (snd (Process_msg mem_redis mh0 (menv0 200) task0 mraw0 mw0)) \<noteq> mw_sent mw0"
    by (simp add: sendMessage_def Let_def prod.case_eq_if menv0_sel srow0_sel)
  from signed_request_sent [OF this] show ?thesis by blast
qed

text \<open>
  secrets. A generated secret is valid and reads back as the random bytes it was made of, and so does the
  same secret stored without its prefix; signing with it uses exactly these bytes as the key.
\<close>

theorem secret_roundtrip:
  assumes "rnd \<noteq> []"
  shows "decodeSecret (GenerateSecret rnd) = Some rnd \<and> ValidSecret (GenerateSecret rnd) \<and>
    decodeSecret (trim_prefix (GenerateSecret rnd) secretPrefix) = Some rnd \<and>
    Sign hmac (GenerateSecret rnd) m ts body =
      Some (''v1,'' @ b64_encode std_alphabet True (hmac rnd (m @ ''.'' @ show_int ts @ ''.'' @ body)))"
  using secret_decode [OF assms] assms
  by (simp add: ValidSecret_def Sign_def signed_text_def decodeSecret_def GenerateSecret_def b64_no_prefix std_decode_encode)

theorem secret_roundtrip_witness:
  "decodeSecret (GenerateSecret ''AB'') = Some ''AB'' \<and> ValidSecret (GenerateSecret ''AB'')"
  using secret_roundtrip [of "''AB''"] by simp

text \<open>
  C12: no recursion. Whatever happens to a delivery of an operational application (failure, exhaustion,
  automatic disabling), handling it creates no message and no delivery and enqueues nothing, so an
  operational event never causes another one.
\<close>

theorem operational_no_recursion:
  assumes "redis R" "deliveryID p = Some did" "GetMessageDeliveryForSend did (mw_db w) = Some row"
    and "ap_is_operational (sr_app row)"
  shows "let w' = snd (Process_msg R h env p raw w) in
    t_messages (mw_db w') = t_messages (mw_db w) \<and>
    map dl_id (t_deliveries (mw_db w')) = map dl_id (t_deliveries (mw_db w)) \<and>
    pend (dq_of R (prefix (mh_queue h)) (mw_redis w')) = pend (dq_of R (prefix (mh_queue h)) (mw_redis w))"
  using redis.quiet_Process [OF assms, of h env raw] by (simp add: quiet_def MQ_def Let_def)

theorem operational_no_recursion_witness:
  "let w = mw0\<lparr>mw_db := mdb0\<lparr>t_apps := [app0\<lparr>ap_is_operational := True\<rparr>], t_deliveries := [del0\<lparr>dl_attempt_count := 7\<rparr>]\<rparr>\<rparr>;
       w' = snd (Process_msg mem_redis mh0 (menv0 500) task0 mraw0 w)
   in t_messages (mw_db w') = t_messages (mw_db w) \<and>
      map dl_id (t_deliveries (mw_db w')) = map dl_id (t_deliveries (mw_db w)) \<and>
      pend (dq_of mem_redis (prefix (mh_queue mh0)) (mw_redis w')) = pend (dq_of mem_redis (prefix (mh_queue mh0)) (mw_redis w))"
proof -
  let ?w = "mw0\<lparr>mw_db := mdb0\<lparr>t_apps := [app0\<lparr>ap_is_operational := True\<rparr>], t_deliveries := [del0\<lparr>dl_attempt_count := 7\<rparr>]\<rparr>\<rparr>"
  have "GetMessageDeliveryForSend uuid_Nil (mw_db ?w) =
      Some (srow0\<lparr>sr_app := app0\<lparr>ap_is_operational := True\<rparr>, sr_delivery := del0\<lparr>dl_attempt_count := 7\<rparr>\<rparr>)"
    by (simp add: GetMessageDeliveryForSend_def find_delivery_def find_message_def find_endpoint_def find_app_def mdb0_def
        del0_def msg0_def ep0_def app0_def srow0_def)
  from operational_no_recursion [OF mem.redis_axioms task0_delivery this, of mh0 "menv0 500" mraw0]
  show ?thesis by (simp add: Let_def)
qed

text \<open>
  lost replay history. Replaying a delivery sets its attempt count back to zero but keeps its attempt
  rows, whose numbers are unique per delivery; so the first attempt after a replay of a delivery that
  was tried before is never recorded, however it ends.
\<close>

theorem replay_attempt_lost:
  assumes "find_delivery did d = Some x" "recorded did 1 (t_msg_attempts d)" "deliveryID p = Some did"
    and w: "mw_db w = ResetDeliveryForReplay now did d"
  shows "t_msg_attempts (mw_db (snd (Process_msg R h env p raw w))) = t_msg_attempts d"
proof (cases "GetMessageDeliveryForSend did (mw_db w)")
  case None
  then show ?thesis using assms by (simp add: Process_msg_def)
next
  case (Some row)
  have "sr_delivery row = x\<lparr>dl_status := ''queued'', dl_attempt_count := 0, dl_next_retry_at := None, dl_updated_at := now\<rparr>"
    using send_row_parts(1) [OF Some] assms(1) find_delivery_id [OF assms(1)]
    by (simp add: w delivery_marks find_upd_delivery)
  then have n: "next_recorded row (t_msg_attempts d)"
    using assms(2) find_delivery_id [OF assms(1)] by (simp add: next_recorded_def to_int32_def)
  have "t_msg_attempts (mw_db w) = t_msg_attempts d" by (simp add: w)
  then show ?thesis
    using assms(3) Some
    by (simp add: dropped_prepare [OF n] dropped_defer Process_msg_def Let_def case_prod_unfold prod.case_eq_if split: option.split)
qed

theorem replay_attempt_lost_witness:
  "let d = mdb0\<lparr>t_msg_attempts := [\<lparr>ma_delivery_id = uuid_Nil, ma_attempt_num = 1, ma_response_status = Some 500,
         ma_response_headers = None, ma_response_body = None, ma_duration_ms = None, ma_error_message = None, ma_attempted_at = 0\<rparr>]\<rparr>;
       w = mw0\<lparr>mw_db := ResetDeliveryForReplay 7 uuid_Nil d\<rparr>
   in t_msg_attempts (mw_db (snd (Process_msg mem_redis mh0 (menv0 200) task0 mraw0 w))) = t_msg_attempts d"
  unfolding Let_def
  by (rule replay_attempt_lost [OF _ _ task0_delivery, where x = del0])
    (simp_all add: find_delivery_def mdb0_def srow0_sel recorded_def)

end
