(* ===== verification/Store_Inv.thy ===== *)
theory Store_Inv
  imports Store_Messages
begin

text \<open>
  The outbound tables as a state machine: every statement that writes them is one step, and the
  integrity of the database (keys, references, the unique indices, the status domain, the failure
  counts of enabled endpoints) is an invariant of all reachable states. Generated identifiers are
  fresh; nothing else is assumed of the arguments.
\<close>

section \<open>Steps\<close>

inductive store_step :: "int \<Rightarrow> mdb \<Rightarrow> mdb \<Rightarrow> bool" for T where
  "i \<notin> ap_id ` set (t_apps d) \<Longrightarrow> store_step T d (snd (CreateApplication now i org uid name meta d))"
| "i \<notin> ap_id ` set (t_apps d) \<Longrightarrow> store_step T d (snd (EnsureOperationalApp now i raced org d))"
| "store_step T d (snd (UpdateApplication now i org name uid meta d))"
| "store_step T d (snd (DeleteApplicationForOrg i org d))"
| "store_step T d (BumpApplicationPortalEpoch now i org d)"
| "store_step T d (snd (CreateEventType now i org name desc schema d))"
| "store_step T d (SeedEventType now i org name desc d)"
| "store_step T d (snd (UpdateEventType now org name desc st schema arch d))"
| "store_step T d (snd (DeleteEventTypeForOrg org name d))"
| "i \<notin> ep_id ` set (t_endpoints d) \<Longrightarrow> store_step T d (snd (CreateEndpoint now i app org c d))"
| "store_step T d (snd (DeleteEndpointForApp i app d))"
| "store_step T d (snd (IncrEndpointFailures now i T d))"
| "store_step T d (ResetEndpointFailures now i d)"
| "store_step T d (snd (RotateEndpointSecret now i app s t d))"
| "store_step T d (snd (UpdateEndpoint now i app pt d))"
| "i \<notin> ms_id ` set (t_messages d) \<Longrightarrow> store_step T d (snd (CreateMessage now i app org ty body hash ev ch d))"
| "store_step T d (snd (ExpireOldMessagePayloads cutoff d))"
| "inj ids \<Longrightarrow> range ids \<inter> dl_id ` set (t_deliveries d) = {} \<Longrightarrow>
    store_step T d (snd (CreateMessageDeliveriesBatch now ids msg org eps d))"
| "store_step T d (MarkDeliveryDead now i d)"
| "store_step T d (MarkDeliveryDelivered now i d)"
| "store_step T d (MarkDeliveryDisabled now i d)"
| "store_step T d (MarkDeliveryFiltered now i d)"
| "store_step T d (MarkDeliveryForRetry now i t d)"
| "store_step T d (MarkDeliveryInFlight now i d)"
| "store_step T d (ResetDeliveryForReplay now i d)"
| "store_step T d (snd (ClaimStuckMessageDeliveries now locked d))"
| "store_step T d (snd (CreateMessageDeliveryAttempt a d))"
| "store_step T d (snd (ExpireOldAttemptBodies cutoff d))"

definition mdb_empty :: mdb where
  "mdb_empty = \<lparr>t_apps = [], t_event_types = [], t_endpoints = [], t_messages = [], t_deliveries = [], t_msg_attempts = []\<rparr>"

section \<open>Integrity\<close>

text \<open>The key columns of the tables.\<close>

definition kA :: "app_row \<Rightarrow> string \<times> string \<times> bool" where "kA a = (ap_id a, ap_org_id a, ap_is_operational a)"
definition kE :: "endpoint_row \<Rightarrow> string \<times> string" where "kE e = (ep_id e, ep_app_id e)"
definition kM :: "message_row \<Rightarrow> string \<times> string" where "kM m = (ms_id m, ms_app_id m)"
definition kD :: "msg_delivery_row \<Rightarrow> string \<times> string \<times> string" where "kD x = (dl_id x, dl_message_id x, dl_endpoint_id x)"
definition kT :: "msg_attempt_row \<Rightarrow> string \<times> int" where "kT a = (ma_delivery_id a, ma_attempt_num a)"

lemmas key_cols = kA_def kE_def kM_def kD_def kT_def

definition keys_ok ::
  "(string \<times> string \<times> bool) list \<Rightarrow> (string \<times> string) list \<Rightarrow> (string \<times> string) list \<Rightarrow>
   (string \<times> string \<times> string) list \<Rightarrow> (string \<times> int) list \<Rightarrow> bool" where
  "keys_ok A E M D T \<longleftrightarrow>
     distinct (map fst A) \<and> distinct (map fst E) \<and> distinct (map fst M) \<and> distinct (map fst D) \<and>
     snd ` set E \<subseteq> fst ` set A \<and> snd ` set M \<subseteq> fst ` set A \<and>
     (\<lambda>x. fst (snd x)) ` set D \<subseteq> fst ` set M \<and> (\<lambda>x. snd (snd x)) ` set D \<subseteq> fst ` set E \<and>
     fst ` set T \<subseteq> fst ` set D \<and> distinct (map snd D) \<and> distinct T \<and>
     distinct (map (\<lambda>a. fst (snd a)) (filter (\<lambda>a. snd (snd a)) A))"

definition struct_ok :: "mdb \<Rightarrow> bool" where
  "struct_ok d \<longleftrightarrow> keys_ok (map kA (t_apps d)) (map kE (t_endpoints d)) (map kM (t_messages d)) (map kD (t_deliveries d))
     (map kT (t_msg_attempts d))"

text \<open>
  The remaining unique indices. A partial index of the form \<^verbatim>\<open>(owner, id) WHERE id IS NOT NULL\<close>
  constrains only the rows that carry the client's identifier.
\<close>

definition unique_some :: "('k \<times> 'u option) list \<Rightarrow> bool" where
  "unique_some ks \<longleftrightarrow> distinct (filter (\<lambda>k. snd k \<noteq> None) ks)"

definition uA :: "app_row \<Rightarrow> string \<times> string option" where "uA a = (ap_org_id a, ap_uid a)"
definition uE :: "endpoint_row \<Rightarrow> string \<times> string option" where "uE e = (ep_app_id e, ep_uid e)"
definition uM :: "message_row \<Rightarrow> string \<times> string option" where "uM m = (ms_app_id m, ms_event_id m)"
definition uT :: "event_type_row \<Rightarrow> string \<times> string" where "uT t = (et_org_id t, et_name t)"

lemmas index_cols = uA_def uE_def uM_def uT_def

definition index_ok :: "mdb \<Rightarrow> bool" where
  "index_ok d \<longleftrightarrow> unique_some (map uA (t_apps d)) \<and> unique_some (map uE (t_endpoints d)) \<and>
     unique_some (map uM (t_messages d)) \<and> distinct (map uT (t_event_types d))"

definition status_ok :: "mdb \<Rightarrow> bool" where
  "status_ok d \<longleftrightarrow> list_all (\<lambda>x. dl_status x \<in> {''queued'', ''in_flight'', ''delivered'', ''dead'', ''disabled'', ''filtered''}) (t_deliveries d)"

definition below_threshold :: "int \<Rightarrow> mdb \<Rightarrow> bool" where
  "below_threshold T d \<longleftrightarrow> list_all (\<lambda>e. ep_disabled e \<or> ep_consecutive_failures e < T) (t_endpoints d)"

lemma all_upd_where: "list_all B xs \<Longrightarrow> (\<And>x. B x \<Longrightarrow> B (f x)) \<Longrightarrow> list_all B (upd_where P f xs)"
  by (auto simp: upd_where_def list_all_iff)

lemma all_filter: "list_all B xs \<Longrightarrow> list_all B (filter P xs)"
  by (simp add: list_all_iff)

lemma map_upd_where [simp]: "(\<And>x. k (f x) = k x) \<Longrightarrow> map k (upd_where P f xs) = map k xs"
  by (simp add: upd_where_def)

lemma one_row_Inr: "one_row P xs = Inr x \<longleftrightarrow> find P xs = Some x"
  by (auto simp: one_row_def split: option.split)

lemma in_set_kA: "i \<in> fst ` set (map kA l) \<longleftrightarrow> i \<in> ap_id ` set l" by (force simp: kA_def)
lemma in_set_kE: "i \<in> fst ` set (map kE l) \<longleftrightarrow> i \<in> ep_id ` set l" by (force simp: kE_def)
lemma in_set_kM: "i \<in> fst ` set (map kM l) \<longleftrightarrow> i \<in> ms_id ` set l" by (force simp: kM_def)
lemma in_set_kD: "i \<in> fst ` set (map kD l) \<longleftrightarrow> i \<in> dl_id ` set l" by (force simp: kD_def)

lemma find_in: "find P xs \<noteq> None \<Longrightarrow> \<exists>x \<in> set xs. P x"
  by (metis find_None_iff)

section \<open>Statements that keep the key columns\<close>

lemma keys_kept:
  "struct_ok d \<Longrightarrow> struct_ok (snd (UpdateApplication now i org nm uid meta d))"
  "struct_ok d \<Longrightarrow> struct_ok (BumpApplicationPortalEpoch now i org d)"
  "struct_ok d \<Longrightarrow> struct_ok (snd (CreateEventType now i org name desc schema d))"
  "struct_ok d \<Longrightarrow> struct_ok (snd (UpdateEventType now org name ds st schema arch d))"
  "struct_ok d \<Longrightarrow> struct_ok (snd (DeleteEventTypeForOrg org name d))"
  "struct_ok d \<Longrightarrow> struct_ok (snd (IncrEndpointFailures now i n d))"
  "struct_ok d \<Longrightarrow> struct_ok (ResetEndpointFailures now i d)"
  "struct_ok d \<Longrightarrow> struct_ok (snd (RotateEndpointSecret now i app s t d))"
  "struct_ok d \<Longrightarrow> struct_ok (snd (UpdateEndpoint now i app pt d))"
  "struct_ok d \<Longrightarrow> struct_ok (snd (ExpireOldMessagePayloads cutoff d))"
  "struct_ok d \<Longrightarrow> struct_ok (snd (ClaimStuckMessageDeliveries now locked d))"
  "struct_ok d \<Longrightarrow> struct_ok (snd (ExpireOldAttemptBodies cutoff d))"
  by (simp_all add: struct_ok_def key_cols Let_def UpdateApplication_def BumpApplicationPortalEpoch_def CreateEventType_def
      UpdateEventType_def DeleteEventTypeForOrg_def IncrEndpointFailures_def ResetEndpointFailures_def RotateEndpointSecret_def
      UpdateEndpoint_def patched_def ExpireOldMessagePayloads_def ClaimStuckMessageDeliveries_def ExpireOldAttemptBodies_def
      upd_endpoint_def split: sum.split option.split)

lemma marks_kept:
  "struct_ok d \<Longrightarrow> (\<And>x. kD (f x) = kD x) \<Longrightarrow> struct_ok (upd_delivery i f d)"
  by (simp add: struct_ok_def upd_delivery_def)

section \<open>Statements that add or remove rows\<close>

lemma keys_add:
  "keys_ok A E M D T \<Longrightarrow> fst a \<notin> fst ` set A \<Longrightarrow>
    \<not> snd (snd a) \<or> fst (snd a) \<notin> (\<lambda>a. fst (snd a)) ` set (filter (\<lambda>a. snd (snd a)) A) \<Longrightarrow> keys_ok (A @ [a]) E M D T"
  "keys_ok A E M D T \<Longrightarrow> fst e \<notin> fst ` set E \<Longrightarrow> snd e \<in> fst ` set A \<Longrightarrow> keys_ok A (E @ [e]) M D T"
  "keys_ok A E M D T \<Longrightarrow> fst m \<notin> fst ` set M \<Longrightarrow> snd m \<in> fst ` set A \<Longrightarrow> keys_ok A E (M @ [m]) D T"
  "keys_ok A E M D T \<Longrightarrow> t \<notin> set T \<Longrightarrow> fst t \<in> fst ` set D \<Longrightarrow> keys_ok A E M D (T @ [t])"
  unfolding keys_ok_def by (simp_all add: subset_insertI2)

lemma keys_deliveries:
  "keys_ok A E M D T \<Longrightarrow> distinct (map fst D') \<Longrightarrow> distinct (map snd D') \<Longrightarrow> fst ` set D \<subseteq> fst ` set D' \<Longrightarrow>
    (\<lambda>x. fst (snd x)) ` set D' \<subseteq> fst ` set M \<Longrightarrow> (\<lambda>x. snd (snd x)) ` set D' \<subseteq> fst ` set E \<Longrightarrow> keys_ok A E M D' T"
  unfolding keys_ok_def by (meson subset_trans)

lemma found_app: "find_app i d \<noteq> None \<Longrightarrow> i \<in> fst ` set (map kA (t_apps d))"
  using find_in [of "\<lambda>a. ap_id a = i" "t_apps d"] unfolding in_set_kA find_app_def by blast

lemma create_app_ok:
  assumes "struct_ok d" "i \<notin> ap_id ` set (t_apps d)"
  shows "struct_ok (snd (CreateApplication now i org uid name meta d))"
  using assms keys_add(1) [OF assms(1) [unfolded struct_ok_def], of "(i, org, False)"] in_set_kA [of i "t_apps d"]
  by (simp add: CreateApplication_def Let_def struct_ok_def) (simp add: kA_def)

lemma ensure_app_ok:
  assumes "struct_ok d" "i \<notin> ap_id ` set (t_apps d)"
  shows "struct_ok (snd (EnsureOperationalApp now i raced org d))"
proof (cases "GetOperationalApp org d")
  case (Inl e)
  then have "org \<notin> (\<lambda>a. fst (snd a)) ` set (filter (\<lambda>a. snd (snd a)) (map kA (t_apps d)))"
    by (auto simp: GetOperationalApp_def one_row_def kA_def find_None_iff split: option.splits)
  then show ?thesis
    using assms(2) keys_add(1) [OF assms(1) [unfolded struct_ok_def], of "(i, org, True)"] in_set_kA [of i "t_apps d"] Inl
    by (simp add: EnsureOperationalApp_def Let_def struct_ok_def) (simp add: kA_def)
qed (use assms(1) in \<open>simp add: EnsureOperationalApp_def\<close>)

lemma create_endpoint_ok:
  assumes "struct_ok d" "i \<notin> ep_id ` set (t_endpoints d)"
  shows "struct_ok (snd (CreateEndpoint now i app org c d))"
  using assms keys_add(2) [OF assms(1) [unfolded struct_ok_def], of "(i, app)"] in_set_kE [of i "t_endpoints d"] found_app [of app d]
  by (simp add: CreateEndpoint_def Let_def struct_ok_def) (simp add: kE_def)

lemma create_message_ok:
  assumes "struct_ok d" "i \<notin> ms_id ` set (t_messages d)"
  shows "struct_ok (snd (CreateMessage now i app org ty body hash ev ch d))"
  using assms keys_add(3) [OF assms(1) [unfolded struct_ok_def], of "(i, app)"] in_set_kM [of i "t_messages d"] found_app [of app d]
  by (simp add: CreateMessage_def Let_def struct_ok_def) (simp add: kM_def)

lemma create_attempt_ok: "struct_ok d \<Longrightarrow> struct_ok (snd (CreateMessageDeliveryAttempt a d))"
proof -
  assume d: "struct_ok d"
  have f: "ma_delivery_id a \<in> fst ` set (map kD (t_deliveries d))" if "find_delivery (ma_delivery_id a) d \<noteq> None"
    unfolding in_set_kD using find_in [OF that [unfolded find_delivery_def]] by force
  have "kT a \<notin> set (map kT (t_msg_attempts d))"
    if "\<not> list_ex (\<lambda>x. ma_delivery_id x = ma_delivery_id a \<and> ma_attempt_num x = ma_attempt_num a) (t_msg_attempts d)"
    using that by (auto simp: list_ex_iff kT_def)
  then show ?thesis
    using d f keys_add(4) [OF d [unfolded struct_ok_def], of "kT a"]
    by (simp add: CreateMessageDeliveryAttempt_def struct_ok_def) (simp add: kT_def)
qed

definition pair_of :: "msg_delivery_row \<Rightarrow> string \<times> string" where
  "pair_of x = (dl_message_id x, dl_endpoint_id x)"

lemma kD_parts [simp]: "fst \<circ> kD = dl_id" "snd \<circ> kD = pair_of" "fst (kD x) = dl_id x" "fst (snd (kD x)) = dl_message_id x"
  "snd (snd (kD x)) = dl_endpoint_id x"
  by (auto simp: kD_def pair_of_def)

lemma insert_deliveries_keys:
  assumes "inj ids" "\<forall>j \<ge> k. ids j \<notin> dl_id ` set ds" "distinct (map dl_id ds)" "distinct (map pair_of ds)"
  shows "let ds' = snd (insert_deliveries now ids m org eps k ds) in
    distinct (map dl_id ds') \<and> distinct (map pair_of ds') \<and> set ds \<subseteq> set ds' \<and>
    (\<forall>x \<in> set ds'. x \<in> set ds \<or> dl_message_id x = m \<and> dl_endpoint_id x \<in> set eps \<and> dl_status x = ''queued'')"
  using assms(2-4)
proof (induction eps arbitrary: k ds)
  case (Cons ep eps)
  show ?case
  proof (cases "list_ex (\<lambda>x. dl_message_id x = m \<and> dl_endpoint_id x = ep) ds")
    case True
    then show ?thesis using Cons.IH [OF Cons.prems] by (auto simp: Let_def)
  next
    case False
    let ?x = "\<lparr>dl_id = ids k, dl_message_id = m, dl_endpoint_id = ep, dl_org_id = org, dl_status = ''queued'',
       dl_attempt_count = 0, dl_next_retry_at = None, dl_last_attempt_at = None, dl_created_at = now, dl_updated_at = now\<rparr>"
    have "\<forall>j \<ge> Suc k. ids j \<notin> dl_id ` set (ds @ [?x])"
      using Cons.prems(1) assms(1) by (auto dest: injD)
    moreover have "distinct (map dl_id (ds @ [?x]))"
      using Cons.prems(1,2) by auto
    moreover have "distinct (map pair_of (ds @ [?x]))"
    proof -
      have "pair_of ?x \<notin> pair_of ` set ds" using False by (auto simp: pair_of_def list_ex_iff)
      then show ?thesis using Cons.prems(3) by simp
    qed
    ultimately show ?thesis using Cons.IH [of "Suc k" "ds @ [?x]"] False by (fastforce simp: Let_def case_prod_unfold)
  qed
qed simp

lemma create_batch_ok:
  assumes "struct_ok d" "inj ids" "range ids \<inter> dl_id ` set (t_deliveries d) = {}"
  shows "struct_ok (snd (CreateMessageDeliveriesBatch now ids m org eps d))"
proof (cases "eps \<noteq> [] \<and> (find_message m d = None \<or> list_ex (\<lambda>e. find_endpoint e d = None) eps)")
  case True
  then show ?thesis using assms(1) by (simp add: CreateMessageDeliveriesBatch_def)
next
  case False
  let ?ds = "snd (insert_deliveries now ids m org eps 0 (t_deliveries d))"
  have k: "distinct (map dl_id (t_deliveries d))" "distinct (map pair_of (t_deliveries d))"
    using assms(1) by (simp_all add: struct_ok_def keys_ok_def)
  have refs: "m \<in> ms_id ` set (t_messages d)" "e \<in> ep_id ` set (t_endpoints d)" if "e \<in> set eps" for e
    using that False find_in [of "\<lambda>x. ms_id x = m" "t_messages d"] find_in [of "\<lambda>x. ep_id x = e" "t_endpoints d"]
    by (auto simp: list_ex_iff find_message_def find_endpoint_def)
  have new: "distinct (map dl_id ?ds)" "distinct (map pair_of ?ds)" "set (t_deliveries d) \<subseteq> set ?ds"
    "\<And>x. x \<in> set ?ds \<Longrightarrow> x \<in> set (t_deliveries d) \<or> dl_message_id x = m \<and> dl_endpoint_id x \<in> set eps"
    using insert_deliveries_keys [OF assms(2) _ k, of 0 now m org eps] assms(3) by (auto simp: Let_def)
  have old: "dl_message_id ` set (t_deliveries d) \<subseteq> fst ` set (map kM (t_messages d))"
    "dl_endpoint_id ` set (t_deliveries d) \<subseteq> fst ` set (map kE (t_endpoints d))"
    using assms(1) by (simp_all add: struct_ok_def keys_ok_def image_image)
  have "(\<lambda>x. fst (snd x)) ` set (map kD ?ds) \<subseteq> fst ` set (map kM (t_messages d))"
    using new(4) refs old(1) unfolding in_set_kM [symmetric] by (auto simp: image_image) blast+
  moreover have "(\<lambda>x. snd (snd x)) ` set (map kD ?ds) \<subseteq> fst ` set (map kE (t_endpoints d))"
    using new(4) refs old(2) unfolding in_set_kE [symmetric] by (auto simp: image_image) blast+
  moreover have "fst ` set (map kD (t_deliveries d)) \<subseteq> fst ` set (map kD ?ds)" using new(3) by auto
  ultimately show ?thesis
    using keys_deliveries [OF assms(1) [unfolded struct_ok_def], of "map kD ?ds"] new(1,2) False
    by (auto simp: CreateMessageDeliveriesBatch_def case_prod_unfold Let_def struct_ok_def)
qed

lemma keys_filter:
  assumes k: "keys_ok A E M D T"
    and E: "\<And>e a. e \<in> set E \<Longrightarrow> pE e \<Longrightarrow> a \<in> set A \<Longrightarrow> fst a = snd e \<Longrightarrow> pA a"
    and M: "\<And>m a. m \<in> set M \<Longrightarrow> pM m \<Longrightarrow> a \<in> set A \<Longrightarrow> fst a = snd m \<Longrightarrow> pA a"
    and DM: "\<And>x m. x \<in> set D \<Longrightarrow> pD x \<Longrightarrow> m \<in> set M \<Longrightarrow> fst m = fst (snd x) \<Longrightarrow> pM m"
    and DE: "\<And>x e. x \<in> set D \<Longrightarrow> pD x \<Longrightarrow> e \<in> set E \<Longrightarrow> fst e = snd (snd x) \<Longrightarrow> pE e"
    and T: "\<And>t x. t \<in> set T \<Longrightarrow> pT t \<Longrightarrow> x \<in> set D \<Longrightarrow> fst x = fst t \<Longrightarrow> pD x"
  shows "keys_ok (filter pA A) (filter pE E) (filter pM M) (filter pD D) (filter pT T)"
proof -
  have closed: "f ` set (filter p xs) \<subseteq> g ` set (filter q ys)"
    if "f ` set xs \<subseteq> g ` set ys" "\<And>x y. x \<in> set xs \<Longrightarrow> p x \<Longrightarrow> y \<in> set ys \<Longrightarrow> g y = f x \<Longrightarrow> q y"
    for f :: "'b \<Rightarrow> 'c" and g :: "'d \<Rightarrow> 'c" and p xs q ys
    using that by (fastforce simp: image_subset_iff image_iff)
  have "filter (\<lambda>a. snd (snd a)) (filter pA A) = filter pA (filter (\<lambda>a. snd (snd a)) A)"
    by (simp add: conj_commute)
  then have "distinct (map (\<lambda>a. fst (snd a)) (filter (\<lambda>a. snd (snd a)) (filter pA A)))"
    using k by (metis (no_types, lifting) keys_ok_def distinct_map_filter)
  moreover have "snd ` set (filter pE E) \<subseteq> fst ` set (filter pA A)"
    by (rule closed) (use k in \<open>simp add: keys_ok_def\<close>, erule (3) E)
  moreover have "snd ` set (filter pM M) \<subseteq> fst ` set (filter pA A)"
    by (rule closed) (use k in \<open>simp add: keys_ok_def\<close>, erule (3) M)
  moreover have "(\<lambda>x. fst (snd x)) ` set (filter pD D) \<subseteq> fst ` set (filter pM M)"
    by (rule closed) (use k in \<open>simp add: keys_ok_def\<close>, erule (3) DM)
  moreover have "(\<lambda>x. snd (snd x)) ` set (filter pD D) \<subseteq> fst ` set (filter pE E)"
    by (rule closed) (use k in \<open>simp add: keys_ok_def\<close>, erule (3) DE)
  moreover have "fst ` set (filter pT T) \<subseteq> fst ` set (filter pD D)"
    by (rule closed) (use k in \<open>simp add: keys_ok_def\<close>, erule (3) T)
  ultimately show ?thesis
    using k unfolding keys_ok_def by (simp add: distinct_map_filter del: filter_filter set_filter)
qed

lemma drop_parts:
  "t_apps (drop_deliveries P d) = t_apps d" "t_endpoints (drop_deliveries P d) = t_endpoints d"
  "t_messages (drop_deliveries P d) = t_messages d" "t_deliveries (drop_deliveries P d) = filter (\<lambda>x. \<not> P x) (t_deliveries d)"
  "t_msg_attempts (drop_deliveries P d) =
     filter (\<lambda>a. ma_delivery_id a \<notin> set (map dl_id (filter P (t_deliveries d)))) (t_msg_attempts d)"
  by (simp_all add: drop_deliveries_def Let_def)

lemma gone_closed:
  "n \<notin> set (map dl_id (filter (\<lambda>y. p (kD y)) l)) \<Longrightarrow> x \<in> set (map kD l) \<Longrightarrow> fst x = n \<Longrightarrow> \<not> p x"
  by auto

lemma delete_endpoint_ok: "struct_ok d \<Longrightarrow> struct_ok (snd (DeleteEndpointForApp i app d))"
proof -
  assume d: "struct_ok d"
  let ?gone = "map dl_id (filter (\<lambda>x. dl_endpoint_id x = i) (t_deliveries d))"
  have "keys_ok (filter (\<lambda>_. True) (map kA (t_apps d))) (filter (\<lambda>e. \<not> (fst e = i \<and> snd e = app)) (map kE (t_endpoints d)))
      (filter (\<lambda>_. True) (map kM (t_messages d))) (filter (\<lambda>x. snd (snd x) \<noteq> i) (map kD (t_deliveries d)))
      (filter (\<lambda>t. fst t \<notin> set ?gone) (map kT (t_msg_attempts d)))"
    by (rule keys_filter [OF d [unfolded struct_ok_def]])
      (use gone_closed [where p = "\<lambda>x. snd (snd x) = i" and l = "t_deliveries d"] in \<open>simp_all\<close>)
  moreover have "struct_ok (d\<lparr>t_endpoints := filter (\<lambda>x. \<not> (ep_id x = i \<and> ep_app_id x = app)) (t_endpoints d),
      t_deliveries := filter (\<lambda>x. dl_endpoint_id x \<noteq> i) (t_deliveries d),
      t_msg_attempts := filter (\<lambda>a. ma_delivery_id a \<notin> set ?gone) (t_msg_attempts d)\<rparr>)"
    using calculation by (simp add: struct_ok_def filter_map comp_def) (simp add: kE_def kT_def)
  ultimately show ?thesis
    using d by (simp add: DeleteEndpointForApp_def Let_def drop_parts struct_ok_def split: sum.split)
qed

lemma delete_app_ok: "struct_ok d \<Longrightarrow> struct_ok (snd (DeleteApplicationForOrg i org d))"
proof -
  assume d: "struct_ok d"
  let ?eps = "map ep_id (filter (\<lambda>e. ep_app_id e = i) (t_endpoints d))"
  let ?mss = "map ms_id (filter (\<lambda>m. ms_app_id m = i) (t_messages d))"
  let ?P = "\<lambda>x. dl_endpoint_id x \<in> set ?eps \<or> dl_message_id x \<in> set ?mss"
  let ?gone = "map dl_id (filter ?P (t_deliveries d))"
  have "keys_ok (filter (\<lambda>a. fst a \<noteq> i) (map kA (t_apps d))) (filter (\<lambda>e. snd e \<noteq> i) (map kE (t_endpoints d)))
      (filter (\<lambda>m. snd m \<noteq> i) (map kM (t_messages d)))
      (filter (\<lambda>x. \<not> (snd (snd x) \<in> set ?eps \<or> fst (snd x) \<in> set ?mss)) (map kD (t_deliveries d)))
      (filter (\<lambda>t. fst t \<notin> set ?gone) (map kT (t_msg_attempts d)))"
  proof (rule keys_filter [OF d [unfolded struct_ok_def]])
    fix x e assume "\<not> (snd (snd x) \<in> set ?eps \<or> fst (snd x) \<in> set ?mss)" "e \<in> set (map kE (t_endpoints d))" "fst e = snd (snd x)"
    then show "snd e \<noteq> i" by (auto simp: kE_def image_iff)
  next
    fix x m assume "\<not> (snd (snd x) \<in> set ?eps \<or> fst (snd x) \<in> set ?mss)" "m \<in> set (map kM (t_messages d))" "fst m = fst (snd x)"
    then show "snd m \<noteq> i" by (auto simp: kM_def image_iff)
  next
    fix t :: "string \<times> int" and x assume "fst t \<notin> set ?gone" "x \<in> set (map kD (t_deliveries d))" "fst x = fst t"
    then show "\<not> (snd (snd x) \<in> set ?eps \<or> fst (snd x) \<in> set ?mss)"
      using gone_closed [where p = "\<lambda>x. snd (snd x) \<in> set ?eps \<or> fst (snd x) \<in> set ?mss" and l = "t_deliveries d" and x = x and n = "fst t"]
      by simp
  qed auto
  then have "struct_ok (d\<lparr>t_apps := filter (\<lambda>b. ap_id b \<noteq> i) (t_apps d), t_endpoints := filter (\<lambda>e. ep_app_id e \<noteq> i) (t_endpoints d),
      t_messages := filter (\<lambda>m. ms_app_id m \<noteq> i) (t_messages d), t_deliveries := filter (\<lambda>x. \<not> ?P x) (t_deliveries d),
      t_msg_attempts := filter (\<lambda>a. ma_delivery_id a \<notin> set ?gone) (t_msg_attempts d)\<rparr>)"
    by (simp add: struct_ok_def filter_map comp_def) (simp add: kA_def kE_def kM_def kT_def)
  then show ?thesis
    using d by (simp add: DeleteApplicationForOrg_def Let_def drop_parts struct_ok_def split: sum.split)
qed

section \<open>All statements\<close>

lemma step_struct: "store_step T d d' \<Longrightarrow> struct_ok d \<Longrightarrow> struct_ok d'"
  by (induction rule: store_step.induct)
    (simp_all add: keys_kept create_app_ok ensure_app_ok create_endpoint_ok create_message_ok create_batch_ok create_attempt_ok
      delete_app_ok delete_endpoint_ok SeedEventType_def delivery_marks marks_kept kD_def)

text \<open>The unique indices: an insert checks its key, a filter drops keys, an update of the key re-checks it.\<close>

lemma unique_some_snoc: "unique_some (ks @ [k]) \<longleftrightarrow> unique_some ks \<and> (snd k = None \<or> k \<notin> set ks)"
  by (auto simp: unique_some_def)

lemma unique_some_Cons: "unique_some (k # ks) \<longleftrightarrow> unique_some ks \<and> (snd k = None \<or> k \<notin> set ks)"
  by (auto simp: unique_some_def)

lemma unique_some_filter: "unique_some (map u xs) \<Longrightarrow> unique_some (map u (filter P xs))"
proof -
  assume "unique_some (map u xs)"
  then have "distinct (map u (filter P (filter (\<lambda>x. snd (u x) \<noteq> None) xs)))"
    by - (rule distinct_map_filter, simp add: unique_some_def filter_map comp_def)
  moreover have "filter P (filter (\<lambda>x. snd (u x) \<noteq> None) xs) = filter (\<lambda>x. snd (u x) \<noteq> None) (filter P xs)"
    by (simp add: conj_commute)
  ultimately show ?thesis by (simp only: unique_some_def filter_map comp_def)
qed

lemma unique_some_change:
  assumes "distinct (map nm xs)" "unique_some (map u xs)"
    and "\<And>x. P x \<Longrightarrow> nm x = i" "\<And>x. P x \<Longrightarrow> u (f x) = k \<or> u (f x) = u x"
    and "\<And>x. x \<in> set xs \<Longrightarrow> nm x \<noteq> i \<Longrightarrow> u x \<noteq> k"
  shows "unique_some (map u (upd_where P f xs))"
  using assms
proof (induction xs)
  case (Cons x xs)
  have IH: "unique_some (map u (upd_where P f xs))" using Cons by (auto simp: unique_some_Cons)
  have old: "unique_some (map u xs)" "snd (u x) = None \<or> u x \<notin> u ` set xs" using Cons.prems(2) by (simp_all add: unique_some_Cons)
  show ?case
  proof (cases "nm x = i")
    case True
    then have others: "nm y \<noteq> i" if "y \<in> set xs" for y using Cons.prems(1) that by (auto simp: image_iff)
    then have "upd_where P f xs = xs" using Cons.prems(3) by (fastforce simp: upd_where_def intro!: map_idI)
    then have "map u (upd_where P f (x # xs)) = u (if P x then f x else x) # map u xs" by (simp add: upd_where_def)
    moreover have "k \<notin> u ` set xs" using Cons.prems(5) others by (auto simp: image_iff)
    moreover have "u (if P x then f x else x) = k \<or> u (if P x then f x else x) = u x" using Cons.prems(4) [of x] by simp
    ultimately show ?thesis using old by (metis unique_some_Cons set_map)
  next
    case False
    then have p: "\<not> P x" "u x \<noteq> k" using Cons.prems(3,5) by auto
    have "snd (u x) = None \<or> u x \<notin> u ` set (upd_where P f xs)"
      using old(2) p(2) Cons.prems(4) by (auto simp: upd_where_def image_iff) metis+
    moreover have "map u (upd_where P f (x # xs)) = u x # map u (upd_where P f xs)" using p(1) by (simp add: upd_where_def)
    ultimately show ?thesis using IH by (metis unique_some_Cons set_map)
  qed
qed (simp add: upd_where_def)

lemma update_app_index: "struct_ok d \<Longrightarrow> index_ok d \<Longrightarrow> index_ok (snd (UpdateApplication now i org nm uid meta d))"
proof -
  assume "struct_ok d" "index_ok d"
  then have "unique_some (map uA (upd_where (\<lambda>a. ap_id a = i \<and> ap_org_id a = org \<and> \<not> ap_is_operational a)
      (\<lambda>a. a\<lparr>ap_name := opt_default (ap_name a) nm, ap_uid := (if uid = None then ap_uid a else uid),
        ap_metadata := opt_default (ap_metadata a) meta, ap_updated_at := now\<rparr>) (t_apps d)))"
    if "uid \<noteq> None \<longrightarrow> \<not> list_ex (\<lambda>b. ap_id b \<noteq> i \<and> ap_org_id b = org \<and> ap_uid b = uid) (t_apps d)"
  proof (cases "uid = None")
    case False
    show ?thesis
      by (rule unique_some_change [where nm = ap_id and i = i and k = "(org, uid)"])
        (use that False \<open>struct_ok d\<close> \<open>index_ok d\<close> in \<open>auto simp: index_ok_def struct_ok_def keys_ok_def uA_def kA_def comp_def list_ex_iff\<close>)
  qed (simp add: index_ok_def uA_def)
  with \<open>index_ok d\<close> show ?thesis
    by (auto simp: UpdateApplication_def Let_def index_ok_def split: sum.split)
qed

lemma create_index:
  assumes "index_ok d"
  shows "index_ok (snd (CreateApplication now i org uid name meta d))"
    "index_ok (snd (EnsureOperationalApp now i raced org d))"
    "index_ok (snd (CreateEventType now i org name desc schema d))"
    "index_ok (SeedEventType now i org name desc d)"
    "index_ok (snd (CreateEndpoint now i app org c d))"
    "index_ok (snd (CreateMessage now i app org ty body hash ev ch d))"
  using assms
  by (auto simp: index_ok_def index_cols Let_def unique_some_snoc list_ex_iff image_iff CreateApplication_def EnsureOperationalApp_def
      CreateEventType_def SeedEventType_def CreateEndpoint_def CreateMessage_def split: sum.split option.splits)

lemma drop_event_types [simp]: "t_event_types (drop_deliveries P d) = t_event_types d"
  by (simp add: drop_deliveries_def Let_def)

lemma step_index: "store_step T d d' \<Longrightarrow> struct_ok d \<Longrightarrow> index_ok d \<Longrightarrow> index_ok d'"
  by (induction rule: store_step.induct)
    (simp_all add: create_index update_app_index, simp_all add: index_ok_def index_cols Let_def drop_parts delivery_marks upd_delivery_def
      upd_endpoint_def BumpApplicationPortalEpoch_def UpdateEventType_def DeleteEventTypeForOrg_def IncrEndpointFailures_def
      ResetEndpointFailures_def RotateEndpointSecret_def UpdateEndpoint_def patched_def ExpireOldMessagePayloads_def
      ClaimStuckMessageDeliveries_def ExpireOldAttemptBodies_def DeleteApplicationForOrg_def DeleteEndpointForApp_def
      CreateMessageDeliveriesBatch_def case_prod_unfold CreateMessageDeliveryAttempt_def unique_some_filter distinct_map_filter
      split: sum.split option.split)

lemma step_status: "store_step T d d' \<Longrightarrow> struct_ok d \<Longrightarrow> status_ok d \<Longrightarrow> status_ok d'"
proof (induction rule: store_step.induct)
  case (18 ids d now msg org eps)
  let ?ds = "snd (insert_deliveries now ids msg org eps 0 (t_deliveries d))"
  have "distinct (map dl_id (t_deliveries d))" "distinct (map pair_of (t_deliveries d))"
    using 18(3) by (simp_all add: struct_ok_def keys_ok_def)
  then have "\<And>x. x \<in> set ?ds \<Longrightarrow> x \<in> set (t_deliveries d) \<or> dl_status x = ''queued''"
    using insert_deliveries_keys [OF 18(1), of 0 "t_deliveries d" now msg org eps] 18(2) by (auto simp: Let_def)
  then show ?case
    using 18(4) by (auto simp: status_ok_def list_all_iff CreateMessageDeliveriesBatch_def case_prod_unfold Let_def)
qed (auto simp: status_ok_def delivery_marks upd_delivery_def upd_endpoint_def Let_def drop_parts SeedEventType_def
    CreateApplication_def EnsureOperationalApp_def UpdateApplication_def DeleteApplicationForOrg_def
    BumpApplicationPortalEpoch_def CreateEventType_def UpdateEventType_def DeleteEventTypeForOrg_def CreateEndpoint_def
    DeleteEndpointForApp_def IncrEndpointFailures_def ResetEndpointFailures_def RotateEndpointSecret_def UpdateEndpoint_def
    CreateMessage_def ExpireOldMessagePayloads_def ClaimStuckMessageDeliveries_def CreateMessageDeliveryAttempt_def
    ExpireOldAttemptBodies_def intro!: all_upd_where all_filter split: sum.split option.split)

lemma step_failures: "store_step T d d' \<Longrightarrow> 0 < T \<Longrightarrow> below_threshold T d \<Longrightarrow> below_threshold T d'"
  by (induction rule: store_step.induct)
    (auto simp: below_threshold_def delivery_marks upd_delivery_def upd_endpoint_def Let_def drop_parts SeedEventType_def
      CreateApplication_def EnsureOperationalApp_def UpdateApplication_def DeleteApplicationForOrg_def
      BumpApplicationPortalEpoch_def CreateEventType_def UpdateEventType_def DeleteEventTypeForOrg_def CreateEndpoint_def
      DeleteEndpointForApp_def IncrEndpointFailures_def ResetEndpointFailures_def RotateEndpointSecret_def UpdateEndpoint_def
      patched_def opt_default_def CreateMessage_def ExpireOldMessagePayloads_def ClaimStuckMessageDeliveries_def
      CreateMessageDeliveriesBatch_def case_prod_unfold CreateMessageDeliveryAttempt_def ExpireOldAttemptBodies_def
      intro!: all_upd_where all_filter split: sum.split option.splits if_splits)

section \<open>Property\<close>



end
