(* ===== verification/Store_Inbound.thy ===== *)
theory Store_Inbound
  imports Store_Events
begin

text \<open>
  The remaining tables of the inbound side and their statements (src/internal/store/sources.sql.go,
  destinations.sql.go, connections.sql.go, requests.sql.go, request_bodies.sql.go, capture_rules.sql.go,
  bookmarks.sql.go, scenarios.sql.go and the reads of events.sql.go and attempts.sql.go), with the constraints of the schema: unique
  indices answer \<open>ErrUnique\<close>, references and checks \<open>ErrDb\<close>, and a delete takes the referencing rows
  with it.
\<close>

section \<open>Rows that a delete takes along\<close>

definition drop_events :: "(event_row \<Rightarrow> bool) \<Rightarrow> db \<Rightarrow> db" where
  "drop_events P d =
     (let gone = map ev_id (filter P (t_events d))
      in d\<lparr>t_events := filter (\<lambda>e. \<not> P e) (t_events d),
            t_attempts := filter (\<lambda>a. at_event_id a \<notin> set gone) (t_attempts d)\<rparr>)"

definition drop_connections :: "(conn_row \<Rightarrow> bool) \<Rightarrow> db \<Rightarrow> db" where
  "drop_connections P d =
     (let gone = map cn_id (filter P (t_connections d));
          d = drop_events (\<lambda>e. ev_connection_id e \<in> set gone) d
      in d\<lparr>t_connections := filter (\<lambda>c. \<not> P c) (t_connections d)\<rparr>)"

text \<open>The steps of a scenario that replay a bookmark go with it.\<close>

definition drop_bookmarks :: "(bookmark_row \<Rightarrow> bool) \<Rightarrow> db \<Rightarrow> db" where
  "drop_bookmarks P d =
     (let gone = map bm_id (filter P (t_bookmarks d))
      in d\<lparr>t_bookmarks := filter (\<lambda>b. \<not> P b) (t_bookmarks d),
            t_steps := filter (\<lambda>s. sp_bookmark_id s \<notin> set gone) (t_steps d)\<rparr>)"

definition drop_requests :: "(req_row \<Rightarrow> bool) \<Rightarrow> db \<Rightarrow> db" where
  "drop_requests P d =
     (let gone = map rq_id (filter P (t_requests d));
          d = drop_bookmarks (\<lambda>b. bm_request_id b \<in> set gone) (drop_events (\<lambda>e. ev_request_id e \<in> set gone) d)
      in d\<lparr>t_requests := filter (\<lambda>r. \<not> P r) (t_requests d),
            t_bodies := filter (\<lambda>b. bd_request_id b \<notin> set gone) (t_bodies d)\<rparr>)"

text \<open>A bookmark outlives its capture rule: the reference becomes null.\<close>

definition drop_rules :: "(rule_row \<Rightarrow> bool) \<Rightarrow> db \<Rightarrow> db" where
  "drop_rules P d =
     (let gone = map ru_id (filter P (t_rules d))
      in d\<lparr>t_rules := filter (\<lambda>r. \<not> P r) (t_rules d),
            t_bookmarks := upd_where (\<lambda>b. \<exists>i \<in> set gone. bm_rule_id b = Some i) (\<lambda>b. b\<lparr>bm_rule_id := None\<rparr>) (t_bookmarks d)\<rparr>)"

section \<open>Sources\<close>

definition find_source :: "string \<Rightarrow> db \<Rightarrow> source_row option" where
  "find_source i d = find (\<lambda>s. so_id s = i) (t_sources d)"

definition CreateSource ::
  "int \<Rightarrow> string \<Rightarrow> string \<Rightarrow> string \<Rightarrow> string \<Rightarrow> string \<Rightarrow> string \<Rightarrow> bytes \<Rightarrow> db \<Rightarrow> (go_error + source_row) \<times> db" where
  "CreateSource now newid org name type descr token signing d =
     (if list_ex (\<lambda>s. so_org_id s = org \<and> so_name s = name \<or> so_ingest_token s = token) (t_sources d) then (Inl ErrUnique, d)
      else (let s = \<lparr>so_id = newid, so_org_id = org, so_name = name, so_type = type, so_ingest_token = token,
                     so_signing_config = signing, so_description = descr,
                     so_allowed_methods = [''POST'', ''PUT'', ''PATCH'', ''DELETE''], so_enabled = True,
                     so_created_at = now, so_updated_at = now\<rparr>
            in (Inr s, d\<lparr>t_sources := t_sources d @ [s]\<rparr>)))"

definition GetSourceByIngestToken :: "string \<Rightarrow> db \<Rightarrow> go_error + source_row" where
  "GetSourceByIngestToken token d = one_row (\<lambda>s. so_ingest_token s = token \<and> so_enabled s) (t_sources d)"

definition GetSourceForOrg :: "string \<Rightarrow> string \<Rightarrow> db \<Rightarrow> go_error + source_row" where
  "GetSourceForOrg i org d = one_row (\<lambda>s. so_id s = i \<and> so_org_id s = org) (t_sources d)"

definition ListSourcesByOrg :: "string \<Rightarrow> db \<Rightarrow> source_row list" where
  "ListSourcesByOrg org d = sort_key (\<lambda>s. - so_created_at s) (filter (\<lambda>s. so_org_id s = org) (t_sources d))"

definition UpdateSource ::
  "int \<Rightarrow> string option \<Rightarrow> string option \<Rightarrow> string list option \<Rightarrow> bool option \<Rightarrow> string \<Rightarrow> string \<Rightarrow> db \<Rightarrow> (go_error + source_row) \<times> db" where
  "UpdateSource now name descr methods enabled i org d =
     (let P = (\<lambda>s. so_id s = i \<and> so_org_id s = org);
          f = (\<lambda>s. s\<lparr>so_name := opt_default (so_name s) name, so_description := opt_default (so_description s) descr,
                 so_allowed_methods := opt_default (so_allowed_methods s) methods,
                 so_enabled := opt_default (so_enabled s) enabled, so_updated_at := now\<rparr>)
      in case one_row P (t_sources d) of
           Inl e \<Rightarrow> (Inl e, d)
         | Inr s \<Rightarrow>
             if list_ex (\<lambda>x. so_id x \<noteq> i \<and> so_org_id x = org \<and> so_name x = so_name (f s)) (t_sources d) then (Inl ErrUnique, d)
             else (Inr (f s), d\<lparr>t_sources := upd_where P f (t_sources d)\<rparr>))"

definition DeleteSourceForOrg :: "string \<Rightarrow> string \<Rightarrow> db \<Rightarrow> (go_error + string) \<times> db" where
  "DeleteSourceForOrg i org d =
     (case one_row (\<lambda>s. so_id s = i \<and> so_org_id s = org) (t_sources d) of
        Inl e \<Rightarrow> (Inl e, d)
      | Inr s \<Rightarrow>
          (let d = drop_rules (\<lambda>r. ru_source_id r = i) d;
               d = drop_requests (\<lambda>r. rq_source_id r = i) d;
               d = drop_connections (\<lambda>c. cn_source_id c = i) d
           in (Inr (so_ingest_token s), d\<lparr>t_sources := filter (\<lambda>s. so_id s \<noteq> i) (t_sources d)\<rparr>)))"

section \<open>Destinations\<close>

record dest_params =
  dp_name :: string
  dp_type :: string
  dp_description :: string
  dp_url :: "string option"
  dp_auth_config :: bytes
  dp_rate_limit_rps :: "int option"
  dp_rate_limit_burst :: "int option"
  dp_max_inflight :: "int option"

definition dest_types :: "string list" where
  "dest_types = [''http'', ''cli'']"

definition CreateDestination :: "int \<Rightarrow> string \<Rightarrow> string \<Rightarrow> dest_params \<Rightarrow> db \<Rightarrow> (go_error + dest_row) \<times> db" where
  "CreateDestination now newid org p d =
     (if dp_type p \<notin> set dest_types then (Inl ErrDb, d)
      else if list_ex (\<lambda>x. ds_org_id x = org \<and> ds_name x = dp_name p) (t_destinations d) then (Inl ErrUnique, d)
      else (let x = \<lparr>ds_id = newid, ds_type = dp_type p, ds_url = dp_url p, ds_rate_limit_rps = dp_rate_limit_rps p,
                     ds_rate_limit_burst = dp_rate_limit_burst p, ds_max_inflight = dp_max_inflight p,
                     ds_org_id = org, ds_name = dp_name p, ds_description = dp_description p,
                     ds_auth_config = dp_auth_config p, ds_created_at = now, ds_updated_at = now\<rparr>
            in (Inr x, d\<lparr>t_destinations := t_destinations d @ [x]\<rparr>)))"

definition GetDestinationForOrg :: "string \<Rightarrow> string \<Rightarrow> db \<Rightarrow> go_error + dest_row" where
  "GetDestinationForOrg i org d = one_row (\<lambda>x. ds_id x = i \<and> ds_org_id x = org) (t_destinations d)"

definition ListDestinationsByOrg :: "string \<Rightarrow> db \<Rightarrow> dest_row list" where
  "ListDestinationsByOrg org d = sort_key (\<lambda>x. - ds_created_at x) (filter (\<lambda>x. ds_org_id x = org) (t_destinations d))"

record dest_patch =
  tp_name :: "string option"
  tp_type :: "string option"
  tp_description :: "string option"
  tp_url :: "string option"
  tp_auth_config :: "bytes option"
  tp_rate_limit_rps :: "int option"
  tp_rate_limit_burst :: "int option"
  tp_max_inflight :: "int option"

definition or_else :: "'a option \<Rightarrow> 'a option \<Rightarrow> 'a option" where
  "or_else x y = (case x of None \<Rightarrow> y | Some v \<Rightarrow> Some v)"

definition PatchDestinationForOrg :: "int \<Rightarrow> string \<Rightarrow> string \<Rightarrow> dest_patch \<Rightarrow> db \<Rightarrow> (go_error + dest_row) \<times> db" where
  "PatchDestinationForOrg now i org p d =
     (let P = (\<lambda>x. ds_id x = i \<and> ds_org_id x = org);
          f = (\<lambda>x. x\<lparr>ds_type := opt_default (ds_type x) (tp_type p), ds_url := or_else (tp_url p) (ds_url x),
                 ds_rate_limit_rps := or_else (tp_rate_limit_rps p) (ds_rate_limit_rps x),
                 ds_rate_limit_burst := or_else (tp_rate_limit_burst p) (ds_rate_limit_burst x),
                 ds_max_inflight := or_else (tp_max_inflight p) (ds_max_inflight x),
                 ds_name := opt_default (ds_name x) (tp_name p),
                 ds_description := opt_default (ds_description x) (tp_description p),
                 ds_auth_config := opt_default (ds_auth_config x) (tp_auth_config p), ds_updated_at := now\<rparr>)
      in case one_row P (t_destinations d) of
           Inl e \<Rightarrow> (Inl e, d)
         | Inr x \<Rightarrow>
             if ds_type (f x) \<notin> set dest_types then (Inl ErrDb, d)
             else if list_ex (\<lambda>y. ds_id y \<noteq> i \<and> ds_org_id y = org \<and> ds_name y = ds_name (f x)) (t_destinations d) then (Inl ErrUnique, d)
             else (Inr (f x), d\<lparr>t_destinations := upd_where P f (t_destinations d)\<rparr>))"

definition DeleteDestinationForOrg :: "string \<Rightarrow> string \<Rightarrow> db \<Rightarrow> db" where
  "DeleteDestinationForOrg i org d =
     (if list_ex (\<lambda>x. ds_id x = i \<and> ds_org_id x = org) (t_destinations d)
      then (let d = drop_connections (\<lambda>c. cn_destination_id c = i) d
            in d\<lparr>t_destinations := filter (\<lambda>x. ds_id x \<noteq> i) (t_destinations d)\<rparr>)
      else d)"

section \<open>Connections\<close>

definition retry_strategies :: "string list" where
  "retry_strategies = [''exponential'', ''linear'', ''fixed'', ''custom'']"

definition CreateConnection ::
  "int \<Rightarrow> string \<Rightarrow> string \<Rightarrow> string \<Rightarrow> bool \<Rightarrow> string option \<Rightarrow> string option \<Rightarrow> string option \<Rightarrow> db \<Rightarrow> (go_error + conn_row) \<times> db" where
  "CreateConnection now newid source dest enabled name filt tjs d =
     (if list_ex (\<lambda>c. cn_source_id c = source \<and> cn_destination_id c = dest) (t_connections d) then (Inl ErrUnique, d)
      else if find_source source d = None \<or> find_dest dest d = None then (Inl ErrDb, d)
      else (let c = \<lparr>cn_id = newid, cn_source_id = source, cn_destination_id = dest, cn_max_retries = 1,
                     cn_retry_strategy = ''exponential'', cn_retry_base_ms = 30000, cn_retry_cap_ms = 3600000,
                     cn_retry_jitter_pct = 20, cn_custom_retry_schedule = [], cn_filter_expr = filt, cn_transform_js = tjs,
                     cn_enabled = enabled, cn_name = name, cn_created_at = now, cn_updated_at = now\<rparr>
            in (Inr c, d\<lparr>t_connections := t_connections d @ [c]\<rparr>)))"

definition conn_of_org :: "string \<Rightarrow> db \<Rightarrow> conn_row \<Rightarrow> bool" where
  "conn_of_org org d c = list_ex (\<lambda>s. so_id s = cn_source_id c \<and> so_org_id s = org) (t_sources d)"

definition GetConnectionForOrg :: "string \<Rightarrow> string \<Rightarrow> db \<Rightarrow> go_error + conn_row" where
  "GetConnectionForOrg i org d = one_row (\<lambda>c. cn_id c = i \<and> conn_of_org org d c) (t_connections d)"

definition ListConnectionsByOrg :: "string \<Rightarrow> db \<Rightarrow> conn_row list" where
  "ListConnectionsByOrg org d =
     take 1000 (sort_key (\<lambda>c. - cn_created_at c) (filter (conn_of_org org d) (t_connections d)))"

definition ListEnabledConnectionsBySource :: "string \<Rightarrow> db \<Rightarrow> conn_row list" where
  "ListEnabledConnectionsBySource source d = filter (\<lambda>c. cn_source_id c = source \<and> cn_enabled c) (t_connections d)"

text \<open>The two text columns can be set to null: a flag says that the patch sets them.\<close>

record conn_patch =
  cp_enabled :: "bool option"
  cp_name :: "string option"
  cp_max_retries :: "int option"
  cp_retry_strategy :: "string option"
  cp_retry_base_ms :: "int option"
  cp_retry_cap_ms :: "int option"
  cp_retry_jitter_pct :: "int option"
  cp_custom_retry_schedule :: "bytes option"
  cp_filter_set :: bool
  cp_filter_expr :: "string option"
  cp_transform_set :: bool
  cp_transform_js :: "string option"

definition PatchConnectionForOrg :: "int \<Rightarrow> conn_patch \<Rightarrow> string \<Rightarrow> string \<Rightarrow> db \<Rightarrow> (go_error + conn_row) \<times> db" where
  "PatchConnectionForOrg now p i org d =
     (let P = (\<lambda>c. cn_id c = i \<and> conn_of_org org d c);
          f = (\<lambda>c. c\<lparr>cn_max_retries := opt_default (cn_max_retries c) (cp_max_retries p),
                 cn_retry_strategy := opt_default (cn_retry_strategy c) (cp_retry_strategy p),
                 cn_retry_base_ms := opt_default (cn_retry_base_ms c) (cp_retry_base_ms p),
                 cn_retry_cap_ms := opt_default (cn_retry_cap_ms c) (cp_retry_cap_ms p),
                 cn_retry_jitter_pct := opt_default (cn_retry_jitter_pct c) (cp_retry_jitter_pct p),
                 cn_custom_retry_schedule := opt_default (cn_custom_retry_schedule c) (cp_custom_retry_schedule p),
                 cn_filter_expr := (if cp_filter_set p then cp_filter_expr p else cn_filter_expr c),
                 cn_transform_js := (if cp_transform_set p then cp_transform_js p else cn_transform_js c),
                 cn_enabled := opt_default (cn_enabled c) (cp_enabled p), cn_name := or_else (cp_name p) (cn_name c),
                 cn_updated_at := now\<rparr>)
      in case one_row P (t_connections d) of
           Inl e \<Rightarrow> (Inl e, d)
         | Inr c \<Rightarrow>
             if cn_retry_strategy (f c) \<notin> set retry_strategies then (Inl ErrDb, d)
             else (Inr (f c), d\<lparr>t_connections := upd_where P f (t_connections d)\<rparr>))"

definition DeleteConnectionForOrg :: "string \<Rightarrow> string \<Rightarrow> db \<Rightarrow> db" where
  "DeleteConnectionForOrg i org d = drop_connections (\<lambda>c. cn_id c = i \<and> conn_of_org org d c) d"

section \<open>Requests and their bodies\<close>

text \<open>The received-at time is the time of the insert.\<close>

definition CreateRequest :: "int \<Rightarrow> req_row \<Rightarrow> db \<Rightarrow> (go_error + req_row) \<times> db" where
  "CreateRequest now r d =
     (if list_ex (\<lambda>x. rq_id x = rq_id r) (t_requests d) then (Inl ErrUnique, d)
      else if find_source (rq_source_id r) d = None then (Inl ErrDb, d)
      else (let r = r\<lparr>rq_received_at := now\<rparr> in (Inr r, d\<lparr>t_requests := t_requests d @ [r]\<rparr>)))"

definition GetRequestForReplay :: "string \<Rightarrow> string \<Rightarrow> db \<Rightarrow> go_error + req_row" where
  "GetRequestForReplay i org d =
     one_row (\<lambda>r. rq_id r = i \<and> list_ex (\<lambda>s. so_id s = rq_source_id r \<and> so_org_id s = org) (t_sources d)) (t_requests d)"

definition InsertRequestBody :: "int \<Rightarrow> string \<Rightarrow> bytes \<Rightarrow> db \<Rightarrow> (go_error + unit) \<times> db" where
  "InsertRequestBody now i body d =
     (if list_ex (\<lambda>b. bd_request_id b = i) (t_bodies d) then (Inl ErrUnique, d)
      else if find_req i d = None then (Inl ErrDb, d)
      else (Inr (), d\<lparr>t_bodies := t_bodies d @ [\<lparr>bd_request_id = i, bd_body = Some body, bd_stored_at = now\<rparr>]\<rparr>))"

definition GetRequestBody :: "string \<Rightarrow> db \<Rightarrow> go_error + bytes" where
  "GetRequestBody i d =
     (case find (\<lambda>b. bd_request_id b = i \<and> bd_body b \<noteq> None) (t_bodies d) of
        None \<Rightarrow> Inl ErrNoRows | Some b \<Rightarrow> Inr (the (bd_body b)))"

definition ExpireOldRequestBodies :: "int \<Rightarrow> db \<Rightarrow> nat \<times> db" where
  "ExpireOldRequestBodies cutoff d =
     (let P = (\<lambda>b. bd_stored_at b < cutoff \<and> bd_body b \<noteq> None \<and> \<not> list_ex (\<lambda>m. bm_request_id m = bd_request_id b) (t_bookmarks d))
      in (length (filter P (t_bodies d)), d\<lparr>t_bodies := upd_where P (\<lambda>b. b\<lparr>bd_body := None\<rparr>) (t_bodies d)\<rparr>))"

section \<open>Capture rules and bookmarks\<close>

definition CreateCaptureRule ::
  "int \<Rightarrow> string \<Rightarrow> string \<Rightarrow> string \<Rightarrow> string \<Rightarrow> string option \<Rightarrow> int \<Rightarrow> bool \<Rightarrow> db \<Rightarrow> (go_error + rule_row) \<times> db" where
  "CreateCaptureRule now newid org source name filt cap enabled d =
     (if \<not> (0 < cap \<and> cap \<le> 1000) then (Inl ErrDb, d)
      else if list_ex (\<lambda>r. ru_org_id r = org \<and> ru_name r = name) (t_rules d) then (Inl ErrUnique, d)
      else if find_source source d = None then (Inl ErrDb, d)
      else (let r = \<lparr>ru_id = newid, ru_org_id = org, ru_source_id = source, ru_name = name, ru_filter_expr = filt,
                     ru_cap = cap, ru_enabled = enabled, ru_created_at = now, ru_updated_at = now\<rparr>
            in (Inr r, d\<lparr>t_rules := t_rules d @ [r]\<rparr>)))"

definition GetCaptureRuleForOrg :: "string \<Rightarrow> string \<Rightarrow> db \<Rightarrow> go_error + rule_row" where
  "GetCaptureRuleForOrg i org d = one_row (\<lambda>r. ru_id r = i \<and> ru_org_id r = org) (t_rules d)"

definition ListCaptureRulesForOrg :: "string \<Rightarrow> string option \<Rightarrow> db \<Rightarrow> rule_row list" where
  "ListCaptureRulesForOrg org source d =
     sort_key (\<lambda>r. - ru_created_at r)
       (filter (\<lambda>r. ru_org_id r = org \<and> (source = None \<or> source = Some (ru_source_id r))) (t_rules d))"

definition ListEnabledCaptureRulesBySource :: "string \<Rightarrow> db \<Rightarrow> rule_row list" where
  "ListEnabledCaptureRulesBySource source d = filter (\<lambda>r. ru_source_id r = source \<and> ru_enabled r) (t_rules d)"

definition UpdateCaptureRule ::
  "int \<Rightarrow> string \<Rightarrow> string \<Rightarrow> string \<Rightarrow> string option \<Rightarrow> int \<Rightarrow> bool \<Rightarrow> db \<Rightarrow> (go_error + rule_row) \<times> db" where
  "UpdateCaptureRule now i org name filt cap enabled d =
     (let P = (\<lambda>r. ru_id r = i \<and> ru_org_id r = org);
          f = (\<lambda>r. r\<lparr>ru_name := name, ru_filter_expr := filt, ru_cap := cap, ru_enabled := enabled, ru_updated_at := now\<rparr>)
      in case one_row P (t_rules d) of
           Inl e \<Rightarrow> (Inl e, d)
         | Inr r \<Rightarrow>
             if \<not> (0 < cap \<and> cap \<le> 1000) then (Inl ErrDb, d)
             else if list_ex (\<lambda>x. ru_id x \<noteq> i \<and> ru_org_id x = org \<and> ru_name x = name) (t_rules d) then (Inl ErrUnique, d)
             else (Inr (f r), d\<lparr>t_rules := upd_where P f (t_rules d)\<rparr>))"

definition DeleteCaptureRuleForOrg :: "string \<Rightarrow> string \<Rightarrow> db \<Rightarrow> nat \<times> db" where
  "DeleteCaptureRuleForOrg i org d =
     (let P = (\<lambda>r. ru_id r = i \<and> ru_org_id r = org)
      in (length (filter P (t_rules d)), drop_rules P d))"

definition insert_bookmark :: "bookmark_row \<Rightarrow> db \<Rightarrow> (go_error + bookmark_row) \<times> db" where
  "insert_bookmark b d =
     (if list_ex (\<lambda>x. bm_org_id x = bm_org_id b \<and> bm_name x = bm_name b) (t_bookmarks d) then (Inl ErrUnique, d)
      else if find_req (bm_request_id b) d = None then (Inl ErrDb, d)
      else if \<not> (case bm_rule_id b of None \<Rightarrow> True | Some r \<Rightarrow> list_ex (\<lambda>x. ru_id x = r) (t_rules d)) then (Inl ErrDb, d)
      else (Inr b, d\<lparr>t_bookmarks := t_bookmarks d @ [b]\<rparr>))"

definition CreateAutoBookmark ::
  "int \<Rightarrow> string \<Rightarrow> string \<Rightarrow> string \<Rightarrow> string \<Rightarrow> string \<Rightarrow> db \<Rightarrow> (go_error + bookmark_row) \<times> db" where
  "CreateAutoBookmark now newid org request name rule =
     insert_bookmark \<lparr>bm_id = newid, bm_org_id = org, bm_request_id = request, bm_name = name, bm_description = [],
       bm_tags = [], bm_rule_id = Some rule, bm_created_at = now\<rparr>"

definition CreateBookmark ::
  "int \<Rightarrow> string \<Rightarrow> string \<Rightarrow> string \<Rightarrow> string \<Rightarrow> string \<Rightarrow> string list \<Rightarrow> db \<Rightarrow> (go_error + bookmark_row) \<times> db" where
  "CreateBookmark now newid org request name descr tags =
     insert_bookmark \<lparr>bm_id = newid, bm_org_id = org, bm_request_id = request, bm_name = name, bm_description = descr,
       bm_tags = tags, bm_rule_id = None, bm_created_at = now\<rparr>"

definition GetBookmarkForOrg :: "string \<Rightarrow> string \<Rightarrow> db \<Rightarrow> go_error + bookmark_row" where
  "GetBookmarkForOrg i org d = one_row (\<lambda>b. bm_id b = i \<and> bm_org_id b = org) (t_bookmarks d)"

definition ListBookmarksForOrg :: "string \<Rightarrow> string option \<Rightarrow> string option \<Rightarrow> db \<Rightarrow> (bookmark_row \<times> req_row) list" where
  "ListBookmarksForOrg org source tag d =
     sort_key (\<lambda>(b, r). - bm_created_at b)
       (concat (map (\<lambda>b. map (Pair b) (filter (\<lambda>r. rq_id r = bm_request_id b \<and> (source = None \<or> source = Some (rq_source_id r))) (t_requests d)))
          (filter (\<lambda>b. bm_org_id b = org \<and> (case tag of None \<Rightarrow> True | Some t \<Rightarrow> t \<in> set (bm_tags b))) (t_bookmarks d))))"

definition UpdateBookmarkForOrg ::
  "string \<Rightarrow> string \<Rightarrow> string \<Rightarrow> string \<Rightarrow> string list \<Rightarrow> db \<Rightarrow> (go_error + bookmark_row) \<times> db" where
  "UpdateBookmarkForOrg i org name descr tags d =
     (let P = (\<lambda>b. bm_id b = i \<and> bm_org_id b = org);
          f = (\<lambda>b. b\<lparr>bm_name := name, bm_description := descr, bm_tags := tags\<rparr>)
      in case one_row P (t_bookmarks d) of
           Inl e \<Rightarrow> (Inl e, d)
         | Inr b \<Rightarrow>
             if list_ex (\<lambda>x. bm_id x \<noteq> i \<and> bm_org_id x = org \<and> bm_name x = name) (t_bookmarks d) then (Inl ErrUnique, d)
             else (Inr (f b), d\<lparr>t_bookmarks := upd_where P f (t_bookmarks d)\<rparr>))"

definition DeleteBookmarkForOrg :: "string \<Rightarrow> string \<Rightarrow> db \<Rightarrow> nat \<times> db" where
  "DeleteBookmarkForOrg i org d =
     (let P = (\<lambda>b. bm_id b = i \<and> bm_org_id b = org)
      in (length (filter P (t_bookmarks d)), drop_bookmarks P d))"

definition EvictCaptureBookmarks :: "string \<Rightarrow> int \<Rightarrow> db \<Rightarrow> db" where
  "EvictCaptureBookmarks rule lim d =
     (let P = (\<lambda>b. bm_rule_id b = Some rule);
          keep = map bm_id (take (nat lim) (sort_key (\<lambda>b. - bm_created_at b) (filter P (t_bookmarks d))))
      in drop_bookmarks (\<lambda>b. P b \<and> bm_id b \<notin> set keep) d)"

section \<open>Scenarios\<close>

definition CreateScenario :: "int \<Rightarrow> string \<Rightarrow> string \<Rightarrow> string \<Rightarrow> string \<Rightarrow> db \<Rightarrow> (go_error + scenario_row) \<times> db" where
  "CreateScenario now newid org name descr d =
     (if list_ex (\<lambda>s. sn_org_id s = org \<and> sn_name s = name) (t_scenarios d) then (Inl ErrUnique, d)
      else (let s = \<lparr>sn_id = newid, sn_org_id = org, sn_name = name, sn_description = descr, sn_created_at = now, sn_updated_at = now\<rparr>
            in (Inr s, d\<lparr>t_scenarios := t_scenarios d @ [s]\<rparr>)))"

definition DeleteScenarioForOrg :: "string \<Rightarrow> string \<Rightarrow> db \<Rightarrow> nat \<times> db" where
  "DeleteScenarioForOrg i org d =
     (let P = (\<lambda>s. sn_id s = i \<and> sn_org_id s = org); gone = map sn_id (filter P (t_scenarios d))
      in (length gone,
          d\<lparr>t_scenarios := filter (\<lambda>s. \<not> P s) (t_scenarios d),
            t_steps := filter (\<lambda>s. sp_scenario_id s \<notin> set gone) (t_steps d)\<rparr>))"

definition DeleteScenarioSteps :: "string \<Rightarrow> db \<Rightarrow> db" where
  "DeleteScenarioSteps i d = d\<lparr>t_steps := filter (\<lambda>s. sp_scenario_id s \<noteq> i) (t_steps d)\<rparr>"

definition GetScenarioForOrg :: "string \<Rightarrow> string \<Rightarrow> db \<Rightarrow> go_error + scenario_row" where
  "GetScenarioForOrg i org d = one_row (\<lambda>s. sn_id s = i \<and> sn_org_id s = org) (t_scenarios d)"

definition InsertScenarioStep :: "string \<Rightarrow> int \<Rightarrow> string \<Rightarrow> int \<Rightarrow> db \<Rightarrow> (go_error + step_row) \<times> db" where
  "InsertScenarioStep scenario position bookmark delay d =
     (if \<not> (0 \<le> delay \<and> delay \<le> 60000) then (Inl ErrDb, d)
      else if list_ex (\<lambda>s. sp_scenario_id s = scenario \<and> sp_position s = position) (t_steps d) then (Inl ErrUnique, d)
      else if \<not> list_ex (\<lambda>s. sn_id s = scenario) (t_scenarios d) \<or> \<not> list_ex (\<lambda>b. bm_id b = bookmark) (t_bookmarks d) then (Inl ErrDb, d)
      else (let s = \<lparr>sp_scenario_id = scenario, sp_position = position, sp_bookmark_id = bookmark, sp_delay_ms = delay\<rparr>
            in (Inr s, d\<lparr>t_steps := t_steps d @ [s]\<rparr>)))"

text \<open>Each step with the name of its bookmark.\<close>

definition ListScenarioSteps :: "string \<Rightarrow> db \<Rightarrow> (step_row \<times> string) list" where
  "ListScenarioSteps i d =
     sort_key (\<lambda>(s, _). sp_position s)
       (concat (map (\<lambda>s. map (\<lambda>b. (s, bm_name b)) (filter (\<lambda>b. bm_id b = sp_bookmark_id s) (t_bookmarks d)))
          (filter (\<lambda>s. sp_scenario_id s = i) (t_steps d))))"

definition ListScenariosForOrg :: "string \<Rightarrow> db \<Rightarrow> scenario_row list" where
  "ListScenariosForOrg org d = sort_key (\<lambda>s. - sn_created_at s) (filter (\<lambda>s. sn_org_id s = org) (t_scenarios d))"

definition UpdateScenario :: "int \<Rightarrow> string \<Rightarrow> string \<Rightarrow> string \<Rightarrow> string \<Rightarrow> db \<Rightarrow> (go_error + scenario_row) \<times> db" where
  "UpdateScenario now i org name descr d =
     (let P = (\<lambda>s. sn_id s = i \<and> sn_org_id s = org);
          f = (\<lambda>s. s\<lparr>sn_name := name, sn_description := descr, sn_updated_at := now\<rparr>)
      in case one_row P (t_scenarios d) of
           Inl e \<Rightarrow> (Inl e, d)
         | Inr s \<Rightarrow>
             if list_ex (\<lambda>x. sn_id x \<noteq> i \<and> sn_org_id x = org \<and> sn_name x = name) (t_scenarios d) then (Inl ErrUnique, d)
             else (Inr (f s), d\<lparr>t_scenarios := upd_where P f (t_scenarios d)\<rparr>))"

section \<open>Reads of events and attempts\<close>

definition GetEventByID :: "string \<Rightarrow> db \<Rightarrow> go_error + event_row" where
  "GetEventByID i d = one_row (\<lambda>e. ev_id e = i) (t_events d)"

definition GetEventForOrg :: "string \<Rightarrow> string \<Rightarrow> db \<Rightarrow> go_error + event_row" where
  "GetEventForOrg i org d = one_row (\<lambda>e. ev_id e = i \<and> ev_org_id e = org) (t_events d)"

text \<open>Newest first, strictly below the cursor.\<close>

definition ListEvents ::
  "string \<Rightarrow> string option \<Rightarrow> string option \<Rightarrow> int option \<Rightarrow> (int \<times> string) option \<Rightarrow> nat \<Rightarrow> db \<Rightarrow> event_row list" where
  "ListEvents org conn status since cursor lim d =
     take lim (rev (sort_key (\<lambda>e. (ev_created_at e, ev_id e))
       (filter (\<lambda>e. ev_org_id e = org \<and> (conn = None \<or> conn = Some (ev_connection_id e)) \<and>
          (status = None \<or> status = Some (ev_status e)) \<and>
          (case since of None \<Rightarrow> True | Some t \<Rightarrow> t \<le> ev_created_at e) \<and>
          (case cursor of None \<Rightarrow> True | Some c \<Rightarrow> (ev_created_at e, ev_id e) < c)) (t_events d))))"

definition ListAttemptsByEvent :: "string \<Rightarrow> db \<Rightarrow> attempt_row list" where
  "ListAttemptsByEvent i d = sort_key at_attempt_num (filter (\<lambda>a. at_event_id a = i) (t_attempts d))"

text \<open>The empty byte string stands for a null response body.\<close>

definition ExpireOldInboundAttemptBodies :: "int \<Rightarrow> db \<Rightarrow> db" where
  "ExpireOldInboundAttemptBodies cutoff d =
     d\<lparr>t_attempts := upd_where (\<lambda>a. at_attempted_at a < cutoff) (\<lambda>a. a\<lparr>at_response_body := []\<rparr>) (t_attempts d)\<rparr>"

text \<open>The counts of the connection statistics: without test events, created after the instant.\<close>

definition CountEventsByConnectionSince :: "string \<Rightarrow> string \<Rightarrow> int \<Rightarrow> db \<Rightarrow> (string \<times> nat) list" where
  "CountEventsByConnectionSince conn org since d =
     (let rows = filter (\<lambda>e. ev_connection_id e = conn \<and> ev_org_id e = org \<and> \<not> ev_is_test e \<and> since < ev_created_at e) (t_events d)
      in map (\<lambda>st. (st, length (filter (\<lambda>e. ev_status e = st) rows))) (remdups (map ev_status rows)))"

definition CountEventsByOrgGroupedByConnection :: "string \<Rightarrow> int \<Rightarrow> db \<Rightarrow> (string \<times> string \<times> nat) list" where
  "CountEventsByOrgGroupedByConnection org since d =
     (let rows = filter (\<lambda>e. ev_org_id e = org \<and> \<not> ev_is_test e \<and> since < ev_created_at e) (t_events d)
      in map (\<lambda>(c, st). (c, st, length (filter (\<lambda>e. ev_connection_id e = c \<and> ev_status e = st) rows)))
           (remdups (map (\<lambda>e. (ev_connection_id e, ev_status e)) rows)))"

text \<open>The event with its connection, destination and request.\<close>

definition GetEventDetailForOrg :: "string \<Rightarrow> string \<Rightarrow> db \<Rightarrow> go_error + delivery_row" where
  "GetEventDetailForOrg i org d =
     (case GetEventForDelivery i d of
        None \<Rightarrow> Inl ErrNoRows | Some r \<Rightarrow> if ev_org_id (d_event r) = org then Inr r else Inl ErrNoRows)"

end
