(* ===== verification/Store_Identity.thy ===== *)
theory Store_Identity
  imports Store_Inbound Store_Messages Go_Time
begin

text \<open>
  Organizations with their plan and quota, users, memberships, API keys, magic-link tokens, invitations, the
  audit log and the usage rollups, with their statements (src/internal/store/identity.sql.go, admin.sql.go, api_keys.sql.go,
  magic_link_tokens.sql.go, org_invites.sql.go, audit_logs.sql.go and usage.sql.go), in the conventions of
  the other stores. The column type of an email compares without regard to case.
\<close>

section \<open>Rows\<close>

record org_row =
  og_id :: string
  og_name :: string
  og_slug :: string
  og_created_at :: int
  og_updated_at :: int
  og_plan :: string
  og_events_soft :: int
  og_events_hard :: int
  og_messages_soft :: int
  og_messages_hard :: int
  og_period :: string

record user_row =
  us_id :: string
  us_email :: string
  us_name :: "string option"
  us_is_super_admin :: bool
  us_session_epoch :: int
  us_created_at :: int
  us_updated_at :: int

record member_row =
  mb_org_id :: string
  mb_user_id :: string
  mb_role :: string
  mb_created_at :: int

record key_row =
  ak_id :: string
  ak_org_id :: string
  ak_name :: string
  ak_role :: string
  ak_prefix :: string
  ak_key_hash :: bytes
  ak_last_used_at :: "int option"
  ak_revoked_at :: "int option"
  ak_expires_at :: "int option"
  ak_created_at :: int

record link_row =
  ml_id :: string
  ml_email :: string
  ml_token_hash :: bytes
  ml_expires_at :: int
  ml_used_at :: "int option"
  ml_created_at :: int

record invite_row =
  iv_id :: string
  iv_org_id :: string
  iv_email :: string
  iv_role :: string
  iv_token_hash :: bytes
  iv_invited_by :: string
  iv_expires_at :: int
  iv_accepted_at :: "int option"
  iv_created_at :: int

record audit_row =
  au_org_id :: "string option"
  au_org_name :: "string option"
  au_actor_user :: "string option"
  au_actor_key :: "string option"
  au_actor_email :: "string option"
  au_action :: string
  au_target_type :: string
  au_target_id :: "string option"
  au_metadata :: bytes
  au_created_at :: int

record rollup_row =
  ur_org_id :: string
  ur_period_start :: int
  ur_metric :: string
  ur_count :: int
  ur_updated_at :: int

record idb =
  t_orgs :: "org_row list"
  t_users :: "user_row list"
  t_members :: "member_row list"
  t_keys :: "key_row list"
  t_links :: "link_row list"
  t_invites :: "invite_row list"
  t_audit :: "audit_row list"
  t_rollups :: "rollup_row list"

definition ci_eq :: "string \<Rightarrow> string \<Rightarrow> bool" where
  "ci_eq a b \<longleftrightarrow> map lower_char a = map lower_char b"

definition find_org :: "string \<Rightarrow> idb \<Rightarrow> org_row option" where
  "find_org i d = find (\<lambda>g. og_id g = i) (t_orgs d)"

definition find_user :: "string \<Rightarrow> idb \<Rightarrow> user_row option" where
  "find_user i d = find (\<lambda>u. us_id u = i) (t_users d)"

section \<open>Organizations\<close>

text \<open>The columns of the plan take the schema's defaults, the free plan.\<close>

definition CreateOrganization :: "int \<Rightarrow> string \<Rightarrow> string \<Rightarrow> string \<Rightarrow> idb \<Rightarrow> (go_error + org_row) \<times> idb" where
  "CreateOrganization now newid name slug d =
     (if list_ex (\<lambda>g. og_slug g = slug) (t_orgs d) then (Inl ErrUnique, d)
      else (let g = \<lparr>og_id = newid, og_name = name, og_slug = slug, og_created_at = now, og_updated_at = now,
                     og_plan = ''free'', og_events_soft = 8000, og_events_hard = 10000, og_messages_soft = 8000,
                     og_messages_hard = 10000, og_period = ''month''\<rparr>
            in (Inr g, d\<lparr>t_orgs := t_orgs d @ [g]\<rparr>)))"

definition GetOrganizationByID :: "string \<Rightarrow> idb \<Rightarrow> go_error + org_row" where
  "GetOrganizationByID i d = one_row (\<lambda>g. og_id g = i) (t_orgs d)"

definition GetOrganizationBySlug :: "string \<Rightarrow> idb \<Rightarrow> go_error + org_row" where
  "GetOrganizationBySlug s d = one_row (\<lambda>g. og_slug g = s) (t_orgs d)"

definition UpdateOrgName :: "int \<Rightarrow> string \<Rightarrow> string \<Rightarrow> idb \<Rightarrow> (go_error + org_row) \<times> idb" where
  "UpdateOrgName now i name d =
     (let f = (\<lambda>g. g\<lparr>og_name := name, og_updated_at := now\<rparr>)
      in case one_row (\<lambda>g. og_id g = i) (t_orgs d) of
           Inl e \<Rightarrow> (Inl e, d)
         | Inr g \<Rightarrow> (Inr (f g), d\<lparr>t_orgs := upd_where (\<lambda>g. og_id g = i) f (t_orgs d)\<rparr>))"

text \<open>
  Of the tables here, memberships, keys, invitations and rollups go with their organization, and the audit log
  keeps its rows without the reference.
\<close>

definition DeleteOrganization :: "string \<Rightarrow> idb \<Rightarrow> idb" where
  "DeleteOrganization i d = d\<lparr>t_orgs := filter (\<lambda>g. og_id g \<noteq> i) (t_orgs d),
     t_members := filter (\<lambda>m. mb_org_id m \<noteq> i) (t_members d), t_keys := filter (\<lambda>k. ak_org_id k \<noteq> i) (t_keys d),
     t_invites := filter (\<lambda>v. iv_org_id v \<noteq> i) (t_invites d), t_rollups := filter (\<lambda>r. ur_org_id r \<noteq> i) (t_rollups d),
     t_audit := upd_where (\<lambda>a. au_org_id a = Some i) (\<lambda>a. a\<lparr>au_org_id := None\<rparr>) (t_audit d)\<rparr>"

definition CountOrganizations :: "idb \<Rightarrow> nat" where
  "CountOrganizations d = length (t_orgs d)"

definition CountUsers :: "idb \<Rightarrow> nat" where
  "CountUsers d = length (t_users d)"

definition ListAllOrganizations :: "idb \<Rightarrow> org_row list" where
  "ListAllOrganizations d = take 200 (sort_key (\<lambda>g. - og_created_at g) (t_orgs d))"

section \<open>Users\<close>

definition CreateUser :: "int \<Rightarrow> string \<Rightarrow> string \<Rightarrow> string option \<Rightarrow> idb \<Rightarrow> (go_error + user_row) \<times> idb" where
  "CreateUser now newid email name d =
     (if list_ex (\<lambda>u. ci_eq (us_email u) email) (t_users d) then (Inl ErrUnique, d)
      else (let u = \<lparr>us_id = newid, us_email = email, us_name = name, us_is_super_admin = False, us_session_epoch = 0,
                     us_created_at = now, us_updated_at = now\<rparr>
            in (Inr u, d\<lparr>t_users := t_users d @ [u]\<rparr>)))"

definition GetUserByEmail :: "string \<Rightarrow> idb \<Rightarrow> go_error + user_row" where
  "GetUserByEmail email d = one_row (\<lambda>u. ci_eq (us_email u) email) (t_users d)"

definition GetUserByID :: "string \<Rightarrow> idb \<Rightarrow> go_error + user_row" where
  "GetUserByID i d = one_row (\<lambda>u. us_id u = i) (t_users d)"

definition BumpUserSessionEpoch :: "int \<Rightarrow> string \<Rightarrow> idb \<Rightarrow> idb" where
  "BumpUserSessionEpoch now i d = d\<lparr>t_users := upd_where (\<lambda>u. us_id u = i)
     (\<lambda>u. u\<lparr>us_session_epoch := us_session_epoch u + 1, us_updated_at := now\<rparr>) (t_users d)\<rparr>"

definition PromoteUserToSuperAdmin :: "int \<Rightarrow> string \<Rightarrow> idb \<Rightarrow> idb" where
  "PromoteUserToSuperAdmin now email d = d\<lparr>t_users := upd_where (\<lambda>u. ci_eq (us_email u) email)
     (\<lambda>u. u\<lparr>us_is_super_admin := True, us_updated_at := now\<rparr>) (t_users d)\<rparr>"

definition UpdateUserName :: "int \<Rightarrow> string \<Rightarrow> string option \<Rightarrow> idb \<Rightarrow> (go_error + user_row) \<times> idb" where
  "UpdateUserName now i name d =
     (let f = (\<lambda>u. u\<lparr>us_name := name, us_updated_at := now\<rparr>)
      in case one_row (\<lambda>u. us_id u = i) (t_users d) of
           Inl e \<Rightarrow> (Inl e, d)
         | Inr u \<Rightarrow> (Inr (f u), d\<lparr>t_users := upd_where (\<lambda>u. us_id u = i) f (t_users d)\<rparr>))"

section \<open>Memberships\<close>

definition member_roles :: "string list" where
  "member_roles = [''owner'', ''admin'', ''member'']"

definition is_member :: "string \<Rightarrow> string \<Rightarrow> member_row \<Rightarrow> bool" where
  "is_member org user m \<longleftrightarrow> mb_org_id m = org \<and> mb_user_id m = user"

definition owners :: "string \<Rightarrow> idb \<Rightarrow> member_row list" where
  "owners org d = filter (\<lambda>m. mb_org_id m = org \<and> mb_role m = ''owner'') (t_members d)"

definition AddOrgMember :: "int \<Rightarrow> string \<Rightarrow> string \<Rightarrow> string \<Rightarrow> idb \<Rightarrow> (go_error + unit) \<times> idb" where
  "AddOrgMember now org user role d =
     (if role \<notin> set member_roles then (Inl ErrDb, d)
      else if list_ex (is_member org user) (t_members d) then (Inl ErrUnique, d)
      else if find_org org d = None \<or> find_user user d = None then (Inl ErrDb, d)
      else (Inr (), d\<lparr>t_members := t_members d @ [\<lparr>mb_org_id = org, mb_user_id = user, mb_role = role, mb_created_at = now\<rparr>]\<rparr>))"

definition GetOrgMember :: "string \<Rightarrow> string \<Rightarrow> idb \<Rightarrow> go_error + member_row" where
  "GetOrgMember org user d = one_row (is_member org user) (t_members d)"

definition GetFirstOrgForUser :: "string \<Rightarrow> idb \<Rightarrow> go_error + string" where
  "GetFirstOrgForUser user d =
     (case sort_key (\<lambda>m. (mb_created_at m, mb_org_id m)) (filter (\<lambda>m. mb_user_id m = user) (t_members d)) of
        [] \<Rightarrow> Inl ErrNoRows | m # _ \<Rightarrow> Inr (mb_org_id m))"

definition CountOrgMembershipsForUser :: "string \<Rightarrow> idb \<Rightarrow> nat" where
  "CountOrgMembershipsForUser user d = length (filter (\<lambda>m. mb_user_id m = user) (t_members d))"

definition ListOrgMembersByOrg :: "string \<Rightarrow> idb \<Rightarrow> (member_row \<times> user_row) list" where
  "ListOrgMembersByOrg org d =
     sort_key (\<lambda>(m, u). mb_created_at m)
       (concat (map (\<lambda>m. map (Pair m) (filter (\<lambda>u. us_id u = mb_user_id m) (t_users d)))
          (filter (\<lambda>m. mb_org_id m = org) (t_members d))))"

definition ListOrgsForUser :: "string \<Rightarrow> idb \<Rightarrow> (org_row \<times> string) list" where
  "ListOrgsForUser user d =
     map (\<lambda>(g, m). (g, mb_role m))
       (sort_key (\<lambda>(g, m). (mb_created_at m, og_id g))
         (concat (map (\<lambda>g. map (Pair g) (filter (is_member (og_id g) user) (t_members d))) (t_orgs d))))"

definition DeleteOrgMember :: "string \<Rightarrow> string \<Rightarrow> idb \<Rightarrow> idb" where
  "DeleteOrgMember org user d = d\<lparr>t_members := filter (\<lambda>m. \<not> is_member org user m) (t_members d)\<rparr>"

definition UpdateOrgMemberRole :: "string \<Rightarrow> string \<Rightarrow> string \<Rightarrow> idb \<Rightarrow> (go_error + unit) \<times> idb" where
  "UpdateOrgMemberRole org user role d =
     (if list_ex (is_member org user) (t_members d) \<and> role \<notin> set member_roles then (Inl ErrDb, d)
      else (Inr (), d\<lparr>t_members := upd_where (is_member org user) (\<lambda>m. m\<lparr>mb_role := role\<rparr>) (t_members d)\<rparr>))"

text \<open>The two guarded statements act on an owner who is not the only one, and answer the number of rows.\<close>

definition guarded_owner :: "string \<Rightarrow> string \<Rightarrow> idb \<Rightarrow> member_row \<Rightarrow> bool" where
  "guarded_owner org user d m \<longleftrightarrow> is_member org user m \<and> mb_role m = ''owner'' \<and> 1 < length (owners org d)"

definition DeleteOrgOwnerIfNotLast :: "string \<Rightarrow> string \<Rightarrow> idb \<Rightarrow> nat \<times> idb" where
  "DeleteOrgOwnerIfNotLast org user d =
     (length (filter (guarded_owner org user d) (t_members d)),
      d\<lparr>t_members := filter (\<lambda>m. \<not> guarded_owner org user d m) (t_members d)\<rparr>)"

definition DemoteOrgOwnerIfNotLast :: "string \<Rightarrow> string \<Rightarrow> string \<Rightarrow> idb \<Rightarrow> (go_error + nat) \<times> idb" where
  "DemoteOrgOwnerIfNotLast org user role d =
     (let n = length (filter (guarded_owner org user d) (t_members d))
      in if n \<noteq> 0 \<and> role \<notin> set member_roles then (Inl ErrDb, d)
         else (Inr n, d\<lparr>t_members := upd_where (guarded_owner org user d) (\<lambda>m. m\<lparr>mb_role := role\<rparr>) (t_members d)\<rparr>))"

definition TransferOrgOwnership :: "string \<Rightarrow> string \<Rightarrow> string \<Rightarrow> idb \<Rightarrow> nat \<times> idb" where
  "TransferOrgOwnership newOwner oldOwner org d =
     (let P = (\<lambda>m. mb_org_id m = org \<and>
            list_ex (\<lambda>g. is_member org oldOwner g \<and> mb_role g = ''owner'') (t_members d) \<and>
            list_ex (is_member org newOwner) (t_members d));
          f = (\<lambda>m. m\<lparr>mb_role := (if mb_user_id m = newOwner then ''owner''
                  else if mb_role m = ''owner'' \<and> mb_user_id m = oldOwner then ''admin'' else mb_role m)\<rparr>)
      in (length (filter P (t_members d)), d\<lparr>t_members := upd_where P f (t_members d)\<rparr>))"

section \<open>API keys\<close>

definition CreateAPIKey ::
  "int \<Rightarrow> string \<Rightarrow> string \<Rightarrow> string \<Rightarrow> string \<Rightarrow> bytes \<Rightarrow> int option \<Rightarrow> string \<Rightarrow> idb \<Rightarrow> (go_error + key_row) \<times> idb" where
  "CreateAPIKey now newid org name prefix hash expires role d =
     (if role \<notin> {''admin'', ''member''} then (Inl ErrDb, d)
      else if list_ex (\<lambda>k. ak_prefix k = prefix \<and> ak_revoked_at k = None) (t_keys d) then (Inl ErrUnique, d)
      else if find_org org d = None then (Inl ErrDb, d)
      else (let k = \<lparr>ak_id = newid, ak_org_id = org, ak_name = name, ak_role = role, ak_prefix = prefix, ak_key_hash = hash,
                     ak_last_used_at = None, ak_revoked_at = None, ak_expires_at = expires, ak_created_at = now\<rparr>
            in (Inr k, d\<lparr>t_keys := t_keys d @ [k]\<rparr>)))"

definition GetAPIKeyByPrefix :: "int \<Rightarrow> string \<Rightarrow> idb \<Rightarrow> go_error + key_row" where
  "GetAPIKeyByPrefix now prefix d =
     one_row (\<lambda>k. ak_prefix k = prefix \<and> ak_revoked_at k = None \<and>
                (case ak_expires_at k of None \<Rightarrow> True | Some t \<Rightarrow> now < t)) (t_keys d)"

definition ListAPIKeysByOrg :: "string \<Rightarrow> idb \<Rightarrow> key_row list" where
  "ListAPIKeysByOrg org d =
     sort_key (\<lambda>k. - ak_created_at k) (filter (\<lambda>k. ak_org_id k = org \<and> ak_revoked_at k = None) (t_keys d))"

definition RevokeAPIKeyForOrg :: "int \<Rightarrow> string \<Rightarrow> string \<Rightarrow> idb \<Rightarrow> idb" where
  "RevokeAPIKeyForOrg now i org d = d\<lparr>t_keys := upd_where (\<lambda>k. ak_id k = i \<and> ak_org_id k = org \<and> ak_revoked_at k = None)
     (\<lambda>k. k\<lparr>ak_revoked_at := Some now\<rparr>) (t_keys d)\<rparr>"

definition TouchAPIKey :: "int \<Rightarrow> string \<Rightarrow> idb \<Rightarrow> idb" where
  "TouchAPIKey now i d = d\<lparr>t_keys := upd_where
     (\<lambda>k. ak_id k = i \<and> (case ak_last_used_at k of None \<Rightarrow> True | Some t \<Rightarrow> t < now - 60 * second))
     (\<lambda>k. k\<lparr>ak_last_used_at := Some now\<rparr>) (t_keys d)\<rparr>"

section \<open>Magic links and invitations\<close>

definition CreateMagicLinkToken :: "int \<Rightarrow> string \<Rightarrow> string \<Rightarrow> bytes \<Rightarrow> int \<Rightarrow> idb \<Rightarrow> (go_error + link_row) \<times> idb" where
  "CreateMagicLinkToken now newid email hash expires d =
     (let l = \<lparr>ml_id = newid, ml_email = email, ml_token_hash = hash, ml_expires_at = expires, ml_used_at = None, ml_created_at = now\<rparr>
      in (Inr l, d\<lparr>t_links := t_links d @ [l]\<rparr>))"

definition GetActiveMagicLinkToken :: "int \<Rightarrow> bytes \<Rightarrow> idb \<Rightarrow> go_error + link_row" where
  "GetActiveMagicLinkToken now hash d = one_row (\<lambda>l. ml_token_hash l = hash \<and> ml_used_at l = None \<and> now < ml_expires_at l) (t_links d)"

definition MarkMagicLinkUsed :: "int \<Rightarrow> string \<Rightarrow> idb \<Rightarrow> idb" where
  "MarkMagicLinkUsed now i d = d\<lparr>t_links := upd_where (\<lambda>l. ml_id l = i) (\<lambda>l. l\<lparr>ml_used_at := Some now\<rparr>) (t_links d)\<rparr>"

definition DeleteExpiredMagicLinkTokens :: "int \<Rightarrow> idb \<Rightarrow> nat \<times> idb" where
  "DeleteExpiredMagicLinkTokens cutoff d =
     (length (filter (\<lambda>l. ml_expires_at l < cutoff) (t_links d)),
      d\<lparr>t_links := filter (\<lambda>l. \<not> ml_expires_at l < cutoff) (t_links d)\<rparr>)"

text \<open>An organization has at most one pending invitation of an address.\<close>

definition CreateOrgInvite ::
  "int \<Rightarrow> string \<Rightarrow> string \<Rightarrow> string \<Rightarrow> string \<Rightarrow> bytes \<Rightarrow> string \<Rightarrow> int \<Rightarrow> idb \<Rightarrow> (go_error + invite_row) \<times> idb" where
  "CreateOrgInvite now newid org email role hash by expires d =
     (if role \<notin> {''admin'', ''member''} then (Inl ErrDb, d)
      else if list_ex (\<lambda>v. iv_org_id v = org \<and> ci_eq (iv_email v) email \<and> iv_accepted_at v = None) (t_invites d) then (Inl ErrUnique, d)
      else if find_org org d = None \<or> find_user by d = None then (Inl ErrDb, d)
      else (let v = \<lparr>iv_id = newid, iv_org_id = org, iv_email = email, iv_role = role, iv_token_hash = hash, iv_invited_by = by,
                     iv_expires_at = expires, iv_accepted_at = None, iv_created_at = now\<rparr>
            in (Inr v, d\<lparr>t_invites := t_invites d @ [v]\<rparr>)))"

definition GetActiveOrgInviteByTokenHash :: "int \<Rightarrow> bytes \<Rightarrow> idb \<Rightarrow> go_error + invite_row" where
  "GetActiveOrgInviteByTokenHash now hash d =
     one_row (\<lambda>v. iv_token_hash v = hash \<and> iv_accepted_at v = None \<and> now < iv_expires_at v \<and> find_org (iv_org_id v) d \<noteq> None) (t_invites d)"

definition ListOrgInvitesByOrg :: "string \<Rightarrow> idb \<Rightarrow> (invite_row \<times> string) list" where
  "ListOrgInvitesByOrg org d =
     sort_key (\<lambda>(v, e). - iv_created_at v)
       (concat (map (\<lambda>v. map (\<lambda>u. (v, us_email u)) (filter (\<lambda>u. us_id u = iv_invited_by v) (t_users d)))
          (filter (\<lambda>v. iv_org_id v = org) (t_invites d))))"

definition ListPendingOrgInvitesByEmail :: "int \<Rightarrow> string \<Rightarrow> idb \<Rightarrow> invite_row list" where
  "ListPendingOrgInvitesByEmail now email d =
     filter (\<lambda>v. ci_eq (iv_email v) email \<and> iv_accepted_at v = None \<and> now < iv_expires_at v) (t_invites d)"

definition MarkOrgInviteAccepted :: "int \<Rightarrow> string \<Rightarrow> idb \<Rightarrow> idb" where
  "MarkOrgInviteAccepted now i d = d\<lparr>t_invites := upd_where (\<lambda>v. iv_id v = i) (\<lambda>v. v\<lparr>iv_accepted_at := Some now\<rparr>) (t_invites d)\<rparr>"

definition DeleteOrgInvite :: "string \<Rightarrow> string \<Rightarrow> idb \<Rightarrow> idb" where
  "DeleteOrgInvite i org d = d\<lparr>t_invites := filter (\<lambda>v. \<not> (iv_id v = i \<and> iv_org_id v = org)) (t_invites d)\<rparr>"

definition DeleteExpiredOrgInvites :: "int \<Rightarrow> idb \<Rightarrow> nat \<times> idb" where
  "DeleteExpiredOrgInvites cutoff d =
     (length (filter (\<lambda>v. iv_expires_at v < cutoff) (t_invites d)),
      d\<lparr>t_invites := filter (\<lambda>v. \<not> iv_expires_at v < cutoff) (t_invites d)\<rparr>)"

section \<open>Audit log\<close>

text \<open>A row has exactly one actor.\<close>

definition InsertAuditLog :: "audit_row \<Rightarrow> idb \<Rightarrow> (go_error + unit) \<times> idb" where
  "InsertAuditLog a d =
     (if (au_actor_user a = None) = (au_actor_key a = None) then (Inl ErrDb, d)
      else if \<not> (case au_org_id a of None \<Rightarrow> True | Some g \<Rightarrow> find_org g d \<noteq> None) then (Inl ErrDb, d)
      else if \<not> (case au_actor_user a of None \<Rightarrow> True | Some u \<Rightarrow> find_user u d \<noteq> None) then (Inl ErrDb, d)
      else if \<not> (case au_actor_key a of None \<Rightarrow> True | Some k \<Rightarrow> list_ex (\<lambda>x. ak_id x = k) (t_keys d)) then (Inl ErrDb, d)
      else (Inr (), d\<lparr>t_audit := t_audit d @ [a]\<rparr>))"

section \<open>Quotas and usage\<close>

definition ListOrgQuotas :: "idb \<Rightarrow> org_row list" where
  "ListOrgQuotas d = sort_key og_name (t_orgs d)"

definition GetOrgQuota :: "string \<Rightarrow> idb \<Rightarrow> go_error + org_row" where
  "GetOrgQuota i d = one_row (\<lambda>g. og_id g = i) (t_orgs d)"

definition plan_names :: "string list" where
  "plan_names = [''free'', ''pro'', ''enterprise'', ''custom'']"

definition UpdateOrgQuota ::
  "int \<Rightarrow> string \<Rightarrow> string \<Rightarrow> int \<Rightarrow> int \<Rightarrow> int \<Rightarrow> int \<Rightarrow> string \<Rightarrow> idb \<Rightarrow> (go_error + org_row) \<times> idb" where
  "UpdateOrgQuota now i plan es eh ms mh period d =
     (let f = (\<lambda>g. g\<lparr>og_plan := plan, og_events_soft := es, og_events_hard := eh, og_messages_soft := ms,
                 og_messages_hard := mh, og_period := period, og_updated_at := now\<rparr>)
      in case one_row (\<lambda>g. og_id g = i) (t_orgs d) of
           Inl e \<Rightarrow> (Inl e, d)
         | Inr g \<Rightarrow>
             if plan \<notin> set plan_names \<or> period \<notin> {''day'', ''month''} then (Inl ErrDb, d)
             else (Inr (f g), d\<lparr>t_orgs := upd_where (\<lambda>g. og_id g = i) f (t_orgs d)\<rparr>))"

definition is_rollup :: "string \<Rightarrow> int \<Rightarrow> string \<Rightarrow> rollup_row \<Rightarrow> bool" where
  "is_rollup org start metric r \<longleftrightarrow> ur_org_id r = org \<and> ur_period_start r = start \<and> ur_metric r = metric"

definition UpsertUsageRollup :: "int \<Rightarrow> string \<Rightarrow> int \<Rightarrow> string \<Rightarrow> int \<Rightarrow> idb \<Rightarrow> (go_error + unit) \<times> idb" where
  "UpsertUsageRollup now org start metric n d =
     (if find_org org d = None then (Inl ErrDb, d)
      else if list_ex (is_rollup org start metric) (t_rollups d)
      then (Inr (), d\<lparr>t_rollups := upd_where (is_rollup org start metric) (\<lambda>r. r\<lparr>ur_count := n, ur_updated_at := now\<rparr>) (t_rollups d)\<rparr>)
      else (Inr (), d\<lparr>t_rollups := t_rollups d @ [\<lparr>ur_org_id = org, ur_period_start = start, ur_metric = metric,
              ur_count = n, ur_updated_at = now\<rparr>]\<rparr>))"

definition GetUsageForPeriod :: "string \<Rightarrow> int \<Rightarrow> idb \<Rightarrow> (string \<times> int) list" where
  "GetUsageForPeriod org start d =
     map (\<lambda>r. (ur_metric r, ur_count r)) (filter (\<lambda>r. ur_org_id r = org \<and> ur_period_start r = start) (t_rollups d))"

definition GetUsageHistory :: "string \<Rightarrow> string \<Rightarrow> int \<Rightarrow> idb \<Rightarrow> (int \<times> string \<times> int) list" where
  "GetUsageHistory org metric from d =
     map (\<lambda>r. (ur_period_start r, ur_metric r, ur_count r))
       (sort_key (\<lambda>r. - ur_period_start r)
         (filter (\<lambda>r. ur_org_id r = org \<and> ur_metric r = metric \<and> from \<le> ur_period_start r) (t_rollups d)))"

text \<open>\<^verbatim>\<open>date_trunc\<close> over a connection that is pinned to UTC.\<close>

definition date_trunc :: "string \<Rightarrow> int \<Rightarrow> int" where
  "date_trunc bucket t =
     (if bucket = ''day'' then t - t mod (24 * hour)
      else (let (y, m, d) = date_of (day_of t) in days_of y m 1 * (24 * hour)))"

text \<open>\<^verbatim>\<open>GROUP BY\<close> organization and bucket with the number of rows; the order of the groups is unspecified.\<close>

definition group_counts :: "(string \<times> int) list \<Rightarrow> (string \<times> int \<times> int) list" where
  "group_counts ks = map (\<lambda>(g, b). (g, b, int (count_list ks (g, b)))) (remdups ks)"

definition RollupEvents :: "string \<Rightarrow> int \<Rightarrow> db \<Rightarrow> (string \<times> int \<times> int) list" where
  "RollupEvents bucket after d =
     group_counts (map (\<lambda>e. (ev_org_id e, date_trunc bucket (ev_created_at e)))
       (filter (\<lambda>e. after \<le> ev_created_at e \<and> \<not> ev_is_test e) (t_events d)))"

definition RollupRequests :: "string \<Rightarrow> int \<Rightarrow> db \<Rightarrow> (string \<times> int \<times> int) list" where
  "RollupRequests bucket after d =
     group_counts (concat (map (\<lambda>r. map (\<lambda>s. (so_org_id s, date_trunc bucket (rq_received_at r)))
         (filter (\<lambda>s. so_id s = rq_source_id r) (t_sources d)))
       (filter (\<lambda>r. after \<le> rq_received_at r \<and> \<not> list_ex (\<lambda>e. ev_request_id e = rq_id r \<and> ev_is_test e) (t_events d)) (t_requests d))))"

definition RollupMessages :: "string \<Rightarrow> int \<Rightarrow> mdb \<Rightarrow> (string \<times> int \<times> int) list" where
  "RollupMessages bucket after d =
     group_counts (map (\<lambda>m. (ms_org_id m, date_trunc bucket (ms_created_at m)))
       (filter (\<lambda>m. after \<le> ms_created_at m) (t_messages d)))"

definition RollupAttempts :: "string \<Rightarrow> int \<Rightarrow> db \<Rightarrow> mdb \<Rightarrow> (string \<times> int \<times> int) list" where
  "RollupAttempts bucket after d m =
     group_counts
       (concat (map (\<lambda>a. map (\<lambda>e. (ev_org_id e, date_trunc bucket (at_attempted_at a)))
           (filter (\<lambda>e. ev_id e = at_event_id a \<and> \<not> ev_is_test e) (t_events d)))
         (filter (\<lambda>a. after \<le> at_attempted_at a) (t_attempts d))) @
        concat (map (\<lambda>a. map (\<lambda>x. (dl_org_id x, date_trunc bucket (ma_attempted_at a)))
           (filter (\<lambda>x. dl_id x = ma_delivery_id a) (t_deliveries m)))
         (filter (\<lambda>a. after \<le> ma_attempted_at a) (t_msg_attempts m))))"

end
