(* ===== verification/Usage.thy ===== *)
theory Usage
  imports Opevents Store_Identity
begin

text \<open>
  Usage metering and quotas: the quota decision and its live counter (src/internal/usage/usage.go), the
  plan presets (plans.go), the gate in front of the two hot paths with its cached limits and its alerts (gate.go), the sweep that
  recomputes usage and reconciles the counters (src/cmd/dstream/maintenance.go) and the operator's plan change
  (src/internal/admin/quota.go). What runs in a goroutine of its own (a reload of the limits, an alert) is
  returned as a job and run by a separate operation. Logging is left out.
\<close>

section \<open>The decision\<close>

datatype Decision = Allow | OverSoft | OverHard

definition Check :: "int \<Rightarrow> int \<Rightarrow> int \<Rightarrow> Decision" where
  "Check count soft hard =
     (if hard > 0 \<and> count \<ge> hard then OverHard
      else if soft > 0 \<and> count \<ge> soft then OverSoft
      else Allow)"

definition PeriodStart :: "int \<Rightarrow> string \<Rightarrow> int" where
  "PeriodStart now period =
     (let (y, m, d) = date_of (day_of now)
      in if period = ''day'' then days_of y m d * (24 * hour) else days_of y m 1 * (24 * hour))"

definition counterTTL :: int where
  "counterTTL = 62 * 24 * 3600"

definition CounterKey :: "string \<Rightarrow> string \<Rightarrow> int \<Rightarrow> string" where
  "CounterKey org metric periodStart = ''usage:'' @ org @ '':'' @ metric @ '':'' @ show_int (Unix periodStart)"

text \<open>The two commands are one transaction; on an error the count is 0.\<close>

definition Incr :: "'r redis \<Rightarrow> io \<Rightarrow> string \<Rightarrow> string \<Rightarrow> int \<Rightarrow> int \<Rightarrow> 'r \<Rightarrow> (int \<times> go_error option) \<times> 'r" where
  "Incr R o1 org metric periodStart n s =
     (let key = CounterKey org metric periodStart
      in case run_io o1 (\<lambda>s. let (v, s) = INCRBY R key n s in (v, EXPIRE R key counterTTL s)) s of
           (None, s) \<Rightarrow> ((0, Some ErrRedis), s)
         | (Some v, s) \<Rightarrow> ((v, None), s))"

definition SetCounter :: "'r redis \<Rightarrow> io \<Rightarrow> string \<Rightarrow> string \<Rightarrow> int \<Rightarrow> int \<Rightarrow> 'r \<Rightarrow> go_error option \<times> 'r" where
  "SetCounter R o1 org metric periodStart v s =
     (case run_io o1 (\<lambda>s. ((), SETEX R (CounterKey org metric periodStart) v counterTTL s)) s of
        (None, s) \<Rightarrow> (Some ErrRedis, s) | (Some _, s) \<Rightarrow> (None, s))"

section \<open>Plans\<close>

record Limits =
  EventsSoft :: int
  EventsHard :: int
  MessagesSoft :: int
  MessagesHard :: int
  Period :: string

definition no_limits :: Limits where
  "no_limits = \<lparr>EventsSoft = 0, EventsHard = 0, MessagesSoft = 0, MessagesHard = 0, Period = []\<rparr>"

definition PlanCustom :: string where
  "PlanCustom = ''custom''"

definition Presets :: "(string \<times> Limits) list" where
  "Presets =
     [(''free'', \<lparr>EventsSoft = 8000, EventsHard = 10000, MessagesSoft = 8000, MessagesHard = 10000, Period = ''month''\<rparr>),
      (''pro'', \<lparr>EventsSoft = 800000, EventsHard = 1000000, MessagesSoft = 800000, MessagesHard = 1000000, Period = ''month''\<rparr>),
      (''enterprise'', \<lparr>EventsSoft = 0, EventsHard = 0, MessagesSoft = 0, MessagesHard = 0, Period = ''month''\<rparr>)]"

definition PresetFor :: "string \<Rightarrow> Limits option" where
  "PresetFor plan = map_of Presets plan"

definition ValidPlan :: "string \<Rightarrow> bool" where
  "ValidPlan plan \<longleftrightarrow> plan = PlanCustom \<or> PresetFor plan \<noteq> None"

definition ValidPeriod :: "string \<Rightarrow> bool" where
  "ValidPeriod p \<longleftrightarrow> p = ''day'' \<or> p = ''month''"

section \<open>The gate\<close>

definition MetricEvents :: string where
  "MetricEvents = ''events''"

definition MetricMessages :: string where
  "MetricMessages = ''messages''"

definition LimitsTTL :: int where
  "LimitsTTL = 60 * second"

record snapshot =
  sn_at :: int
  sn_limits :: "(string \<times> Limits) list"

text \<open>The handles of a gate are present or nil; its mutable state is the snapshot and the refreshing flag.\<close>

record gate =
  g_redis :: bool
  g_queries :: bool
  g_queue :: "client option"
  g_snap :: "snapshot option"
  g_refreshing :: bool

record alert_job =
  aj_org :: string
  aj_metric :: string
  aj_start :: int
  aj_event :: string
  aj_count :: int
  aj_limit :: int

definition refresh :: "gate \<Rightarrow> gate" where
  "refresh g = (if \<not> g_queries g \<or> g_refreshing g then g else g\<lparr>g_refreshing := True\<rparr>)"

definition limits :: "gate \<Rightarrow> int \<Rightarrow> string \<Rightarrow> Limits \<times> gate" where
  "limits g now org =
     (let g' = (case g_snap g of None \<Rightarrow> refresh g | Some s \<Rightarrow> if now - sn_at s > LimitsTTL then refresh g else g)
      in (case g_snap g of None \<Rightarrow> no_limits
          | Some s \<Rightarrow> (case map_of (sn_limits s) org of None \<Rightarrow> no_limits | Some l \<Rightarrow> l), g'))"

text \<open>The goroutine's job, if one is started.\<close>

definition alert :: "gate \<Rightarrow> string \<Rightarrow> string \<Rightarrow> int \<Rightarrow> Decision \<Rightarrow> int \<Rightarrow> int \<Rightarrow> int \<Rightarrow> alert_job option" where
  "alert g org metric start dec count soft hard =
     (if \<not> g_queries g \<or> g_queue g = None then None
      else Some \<lparr>aj_org = org, aj_metric = metric, aj_start = start,
             aj_event = (if dec = OverHard then ''usage.quota_exceeded'' else ''usage.quota_warning''),
             aj_count = count, aj_limit = (if dec = OverHard then hard else soft)\<rparr>)"

definition check ::
  "'r redis \<Rightarrow> io \<Rightarrow> int \<Rightarrow> gate option \<Rightarrow> string \<Rightarrow> string \<Rightarrow> 'r \<Rightarrow> (Decision \<times> alert_job option) \<times> gate option \<times> 'r" where
  "check R o1 now g org metric s =
     (case g of
        None \<Rightarrow> ((Allow, None), None, s)
      | Some g \<Rightarrow>
          if \<not> g_redis g then ((Allow, None), Some g, s)
          else
            (let (lim, g) = limits g now org;
                 (soft, hard) = (if metric = MetricMessages then (MessagesSoft lim, MessagesHard lim) else (EventsSoft lim, EventsHard lim))
             in if soft = 0 \<and> hard = 0 then ((Allow, None), Some g, s)
                else
                  (let start = PeriodStart now (Period lim);
                       ((count, err), s) = Incr R o1 org metric start 1 s
                   in if err \<noteq> None then ((Allow, None), Some g, s)
                      else
                        (let dec = Check count soft hard
                         in ((dec, if dec \<noteq> Allow then alert g org metric start dec count soft hard else None), Some g, s)))))"

definition CheckIngest ::
  "'r redis \<Rightarrow> io \<Rightarrow> int \<Rightarrow> gate option \<Rightarrow> string \<Rightarrow> 'r \<Rightarrow> (Decision \<times> alert_job option) \<times> gate option \<times> 'r" where
  "CheckIngest R o1 now g org = check R o1 now g org MetricEvents"

definition CheckPublish ::
  "'r redis \<Rightarrow> io \<Rightarrow> int \<Rightarrow> gate option \<Rightarrow> string \<Rightarrow> 'r \<Rightarrow> (Decision \<times> alert_job option) \<times> gate option \<times> 'r" where
  "CheckPublish R o1 now g org = check R o1 now g org MetricMessages"

text \<open>
  The body of the alert goroutine: the latch of the organization, metric, period and tier, then the
  operational event. It answers whether the event was published.
\<close>

definition latch :: "alert_job \<Rightarrow> string" where
  "latch j = ''usage:alerted:'' @ aj_org j @ '':'' @ aj_metric j @ '':'' @ show_int (Unix (aj_start j)) @ '':'' @ aj_event j"

definition runAlert ::
  "'r redis \<Rightarrow> client \<Rightarrow> io \<Rightarrow> penv \<Rightarrow> alert_job \<Rightarrow> 'r mworld \<Rightarrow> bool \<times> 'r mworld" where
  "runAlert R c o1 env j w =
     (case run_io o1 (SETNX R (latch j) 1 counterTTL) (mw_redis w) of
        (None, s) \<Rightarrow> (False, w\<lparr>mw_redis := s\<rparr>)
      | (Some first, s) \<Rightarrow>
          (let w = w\<lparr>mw_redis := s\<rparr>
           in if \<not> first then (False, w)
              else (True, snd (Publish R c env (aj_org j) (aj_event j)
                     [(''metric'', JStr (aj_metric j)), (''count'', JNum (aj_count j)), (''limit'', JNum (aj_limit j)),
                      (''period_start'', JStr (rfc3339 (aj_start j)))] w))))"

definition Reload :: "io \<Rightarrow> int \<Rightarrow> idb \<Rightarrow> gate \<Rightarrow> go_error option \<times> gate" where
  "Reload o1 now d g =
     (if o1 \<noteq> IoOk then (Some ErrDb, g)
      else
        (let rows = filter (\<lambda>r. \<not> (og_events_soft r = 0 \<and> og_events_hard r = 0 \<and> og_messages_soft r = 0 \<and> og_messages_hard r = 0))
                      (ListOrgQuotas d);
             ls = fold (\<lambda>r m. AList.update (og_id r) \<lparr>EventsSoft = og_events_soft r, EventsHard = og_events_hard r,
                      MessagesSoft = og_messages_soft r, MessagesHard = og_messages_hard r, Period = og_period r\<rparr> m) rows []
         in (None, g\<lparr>g_snap := Some \<lparr>sn_at = now, sn_limits = ls\<rparr>\<rparr>)))"

text \<open>The body of the refresh goroutine: a failed reload keeps the snapshot.\<close>

definition runRefresh :: "io \<Rightarrow> int \<Rightarrow> idb \<Rightarrow> gate \<Rightarrow> gate" where
  "runRefresh o1 now d g = (snd (Reload o1 now d g))\<lparr>g_refreshing := False\<rparr>"

section \<open>The sweep\<close>

record 'r uworld =
  uw_idb :: idb
  uw_db :: db
  uw_mdb :: mdb
  uw_redis :: 'r

text \<open>The outcomes of the sweep's calls, by metric and organization; \<open>un_redis\<close>: Redis is configured.\<close>

record uenv =
  un_list :: io
  un_query :: "string \<Rightarrow> io"
  un_upsert :: "string \<Rightarrow> string \<Rightarrow> io"
  un_set :: "string \<Rightarrow> string \<Rightarrow> io"
  un_redis :: bool
  un_now :: int

definition rollup_query :: "string \<Rightarrow> string \<Rightarrow> int \<Rightarrow> 'r uworld \<Rightarrow> (string \<times> int \<times> int) list" where
  "rollup_query metric period after w =
     (if metric = ''events'' then RollupEvents period after (uw_db w)
      else if metric = ''requests'' then RollupRequests period after (uw_db w)
      else if metric = ''messages'' then RollupMessages period after (uw_mdb w)
      else RollupAttempts period after (uw_db w) (uw_mdb w))"

definition rollup_row_step ::
  "'r redis \<Rightarrow> uenv \<Rightarrow> string \<Rightarrow> int \<Rightarrow> string list \<Rightarrow> string \<times> int \<times> int \<Rightarrow> 'r uworld \<Rightarrow> 'r uworld" where
  "rollup_row_step R env metric after members row w =
     (case row of (org, start, n) \<Rightarrow>
        if org \<notin> set members then w
        else if start \<noteq> after then w
        else
          (case run_io (un_upsert env metric org) (UpsertUsageRollup (un_now env) org start metric n) (uw_idb w) of
             (Some (Inr _), d) \<Rightarrow>
               (let w = w\<lparr>uw_idb := d\<rparr>
                in if \<not> un_redis env then w
                   else w\<lparr>uw_redis := snd (SetCounter R (un_set env metric org) org metric after n (uw_redis w))\<rparr>)
           | (_, d) \<Rightarrow> w\<lparr>uw_idb := d\<rparr>))"

definition rollup_metric ::
  "'r redis \<Rightarrow> uenv \<Rightarrow> string \<Rightarrow> int \<Rightarrow> string list \<Rightarrow> string \<Rightarrow> 'r uworld \<Rightarrow> 'r uworld" where
  "rollup_metric R env period after members metric w =
     (if un_query env metric \<noteq> IoOk then w
      else fold (rollup_row_step R env metric after members) (rollup_query metric period after w) w)"

definition rollupPeriod :: "'r redis \<Rightarrow> uenv \<Rightarrow> string \<Rightarrow> int \<Rightarrow> string list \<Rightarrow> 'r uworld \<Rightarrow> 'r uworld" where
  "rollupPeriod R env period after members w =
     fold (rollup_metric R env period after members) [''events'', ''requests'', ''messages'', ''attempts''] w"

text \<open>The order in which Go ranges over the two periods is unspecified: \<open>day_first\<close>.\<close>

definition period_of :: "org_row \<Rightarrow> string" where
  "period_of g = (if og_period g \<noteq> ''day'' then ''month'' else ''day'')"

definition rollupUsage :: "'r redis \<Rightarrow> uenv \<Rightarrow> bool \<Rightarrow> 'r uworld \<Rightarrow> 'r uworld" where
  "rollupUsage R env day_first w =
     (if un_list env \<noteq> IoOk then w
      else
        (let orgs = ListOrgQuotas (uw_idb w);
             members = (\<lambda>p. map og_id (filter (\<lambda>g. period_of g = p) orgs));
             pass = (\<lambda>p w. if members p = [] then w else rollupPeriod R env p (PeriodStart (un_now env) p) (members p) w)
         in fold pass (if day_first then [''day'', ''month''] else [''month'', ''day'']) w))"

text \<open>
  One run of the maintenance sweep: purge of expired tokens and invitations, payload retention, rollup. The
  outcomes of the six purging statements come by name; each error is logged and the sweep goes on.
\<close>

definition expiredRetention :: int where
  "expiredRetention = 24 * hour"

definition purge :: "io \<Rightarrow> ('d \<Rightarrow> 'd) \<Rightarrow> 'd \<Rightarrow> 'd" where
  "purge o1 f d = snd (run_io o1 (\<lambda>d. ((), f d)) d)"

definition sweep :: "'r redis \<Rightarrow> uenv \<Rightarrow> (string \<Rightarrow> io) \<Rightarrow> bool \<Rightarrow> int \<Rightarrow> 'r uworld \<Rightarrow> 'r uworld" where
  "sweep R env outc day_first retention w =
     (let cutoff = un_now env - expiredRetention;
          w = w\<lparr>uw_idb := purge (outc ''links'') (snd \<circ> DeleteExpiredMagicLinkTokens cutoff) (uw_idb w)\<rparr>;
          w = w\<lparr>uw_idb := purge (outc ''invites'') (snd \<circ> DeleteExpiredOrgInvites cutoff) (uw_idb w)\<rparr>;
          cut = un_now env - retention;
          w = (if retention > 0
               then (let w = w\<lparr>uw_mdb := purge (outc ''payloads'') (snd \<circ> ExpireOldMessagePayloads cut) (uw_mdb w)\<rparr>;
                         w = w\<lparr>uw_mdb := purge (outc ''attempts'') (snd \<circ> ExpireOldAttemptBodies cut) (uw_mdb w)\<rparr>;
                         w = w\<lparr>uw_db := purge (outc ''bodies'') (snd \<circ> ExpireOldRequestBodies cut) (uw_db w)\<rparr>;
                         w = w\<lparr>uw_db := purge (outc ''inbound'') (ExpireOldInboundAttemptBodies cut) (uw_db w)\<rparr>
                     in w)
               else w)
      in rollupUsage R env day_first w)"

end
