(* ===== verification/Usage_Props.thy ===== *)
theory Usage_Props
  imports Usage Webhook_Props
begin

text \<open>
  Properties of usage metering: where a quota period starts, how many requests a ceiling admits, that the
  operational alert of a period is published at most once, and that the sweep puts the recomputed
  count under the key the gate reads.
\<close>

section \<open>Periods\<close>

lemma days_of_day: "days_of y m d = days_of y m 1 + d - 1"
  by (simp add: days_of_def Let_def)

lemma day_of_start [simp]: "day_of (k * (24 * hour)) = k"
  by (simp add: day_of_def hour_def second_def)

lemma PeriodStart_day: "PeriodStart now ''day'' = now - now mod (24 * hour)"
proof -
  obtain y m d where e: "date_of (day_of now) = (y, m, d)" by (metis prod_cases3)
  have "PeriodStart now ''day'' = day_of now * (24 * hour)"
    by (simp add: PeriodStart_def e date_of_valid(5)[OF e])
  then show ?thesis by (simp add: day_of_def minus_mod_eq_div_mult)
qed

lemma PeriodStart_month:
  assumes "p \<noteq> ''day''" "date_of (day_of now) = (y, m, d)"
  shows "PeriodStart now p = (day_of now - (d - 1)) * (24 * hour)"
  using assms date_of_valid(5)[OF assms(2)] by (simp add: PeriodStart_def days_of_day[of y m d])

lemma day_of_bounds: "day_of now * (24 * hour) \<le> now" "now < (day_of now + 1) * (24 * hour)"
proof -
  have "now = day_of now * (24 * hour) + now mod (24 * hour)" by (simp only: day_of_def div_mult_mod_eq)
  moreover have "0 \<le> now mod (24 * hour)" "now mod (24 * hour) < 24 * hour" by (simp_all add: hour_def second_def)
  ultimately show "day_of now * (24 * hour) \<le> now" "now < (day_of now + 1) * (24 * hour)"
    by (simp_all add: algebra_simps)
qed

lemma PeriodStart_bounds: "PeriodStart now p \<le> now" "now < PeriodStart now p + 31 * (24 * hour)"
proof -
  have h: "0 < hour" by (simp add: hour_def second_def)
  obtain y m d where e: "date_of (day_of now) = (y, m, d)" by (metis prod_cases3)
  note v = date_of_valid[OF e]
  have "PeriodStart now p \<le> now \<and> now < PeriodStart now p + 31 * (24 * hour)"
  proof (cases "p = ''day''")
    case True
    then have "PeriodStart now p = day_of now * (24 * hour)" using v(5) by (simp add: PeriodStart_def e)
    then show ?thesis using day_of_bounds[of now] h by (simp add: algebra_simps)
  next
    case False
    have "0 \<le> (d - 1) * hour" "(d - 1) * hour \<le> 30 * hour"
      using v(3,4) h by (auto intro: mult_right_mono)
    then show ?thesis
      using day_of_bounds[of now] unfolding PeriodStart_month[OF False e] left_diff_distrib distrib_right by linarith
  qed
  then show "PeriodStart now p \<le> now" "now < PeriodStart now p + 31 * (24 * hour)" by simp_all
qed

lemma PeriodStart_idem: "PeriodStart (PeriodStart now p) p = PeriodStart now p"
proof -
  obtain y m d where e: "date_of (day_of now) = (y, m, d)" by (metis prod_cases3)
  show ?thesis
    using date_of_valid(5,6)[OF e] by (auto simp: PeriodStart_def e)
qed

lemma PeriodStart_trunc: "PeriodStart now p = date_trunc p now"
  by (cases "p = ''day''") (auto simp: PeriodStart_day date_trunc_def, simp add: PeriodStart_def case_prod_unfold Let_def)

text \<open>
  A quota period contains its instant and starts at most 31 days before it, its start is the start of
  its own period, and it is the bucket that the rollup queries truncate the same instant to: the gate, the
  sweep and the reports meet at the same period start.
\<close>

theorem period_start:
  "PeriodStart now p \<le> now \<and> now < PeriodStart now p + 31 * 24 * hour \<and>
   PeriodStart (PeriodStart now p) p = PeriodStart now p \<and> PeriodStart now p = date_trunc p now"
  using PeriodStart_bounds[of now p] PeriodStart_idem PeriodStart_trunc by simp

section \<open>The ceiling\<close>

text \<open>The decisions of a series of requests of one organization, at the given instants.\<close>

fun checks :: "'r redis \<Rightarrow> gate option \<Rightarrow> string \<Rightarrow> string \<Rightarrow> int list \<Rightarrow> 'r \<Rightarrow> Decision list \<times> 'r" where
  "checks R g org metric [] s = ([], s)"
| "checks R g org metric (t # ts) s =
     (let ((dec, _), g, s) = check R IoOk t g org metric s;
          (decs, s) = checks R g org metric ts s
      in (dec # decs, s))"

definition gate_limits :: "gate \<Rightarrow> string \<Rightarrow> Limits" where
  "gate_limits g org = (case g_snap g of None \<Rightarrow> no_limits
     | Some s \<Rightarrow> (case map_of (sn_limits s) org of None \<Rightarrow> no_limits | Some l \<Rightarrow> l))"

definition soft_of :: "string \<Rightarrow> Limits \<Rightarrow> int" where
  "soft_of metric l = (if metric = MetricMessages then MessagesSoft l else EventsSoft l)"

definition hard_of :: "string \<Rightarrow> Limits \<Rightarrow> int" where
  "hard_of metric l = (if metric = MetricMessages then MessagesHard l else EventsHard l)"

lemma refresh_simps [simp]:
  "g_snap (refresh g) = g_snap g" "g_redis (refresh g) = g_redis g" "g_queries (refresh g) = g_queries g" "g_queue (refresh g) = g_queue g"
  by (simp_all add: refresh_def)

lemma limits_fst [simp]: "fst (limits g now org) = gate_limits g org"
  by (simp add: limits_def gate_limits_def Let_def)

lemma limits_snd [simp]:
  "g_snap (snd (limits g now org)) = g_snap g" "g_redis (snd (limits g now org)) = g_redis g"
  "g_queries (snd (limits g now org)) = g_queries g" "g_queue (snd (limits g now org)) = g_queue g"
  by (auto simp: limits_def Let_def split: option.split)

lemma gate_limits_snap: "g_snap g' = g_snap g \<Longrightarrow> gate_limits g' = gate_limits g"
  by (simp add: gate_limits_def fun_eq_iff)

context redis
begin

lemma incr_value: "fst (Incr R IoOk org metric start n s) = (count_of (v_strs (view R s) (CounterKey org metric start)) + n, None)"
  by (simp add: Incr_def Let_def case_prod_unfold redis_simps)

lemma incr_view:
  "v_strs (view R (snd (Incr R IoOk org metric start n s))) =
     (v_strs (view R s))(CounterKey org metric start := Some (count_of (v_strs (view R s) (CounterKey org metric start)) + n))"
  by (auto simp: Incr_def Let_def case_prod_unfold redis_simps fun_eq_iff)

lemma check_step:
  assumes "g_redis g" "0 < hard_of metric (gate_limits g org)" "PeriodStart t (Period (gate_limits g org)) = start"
  shows "fst (fst (check R IoOk t (Some g) org metric s)) =
      Check (count_of (v_strs (view R s) (CounterKey org metric start)) + 1) (soft_of metric (gate_limits g org)) (hard_of metric (gate_limits g org))"
    and "fst (snd (check R IoOk t (Some g) org metric s)) = Some (snd (limits g t org))"
    and "snd (snd (check R IoOk t (Some g) org metric s)) = snd (Incr R IoOk org metric start 1 s)"
  using assms unfolding check_def
  by (simp_all add: Let_def case_prod_unfold incr_value soft_of_def hard_of_def split: if_splits)

lemma checks_ceiling:
  assumes "g_redis g" "0 < hard_of metric (gate_limits g org)"
    and "\<And>t. t \<in> set ts \<Longrightarrow> PeriodStart t (Period (gate_limits g org)) = start"
  shows "fst (checks R (Some g) org metric ts s) =
      map (\<lambda>i. Check (count_of (v_strs (view R s) (CounterKey org metric start)) + 1 + int i)
                 (soft_of metric (gate_limits g org)) (hard_of metric (gate_limits g org))) [0..<length ts]"
  using assms
proof (induction ts arbitrary: g s)
  case (Cons t ts)
  let ?g = "snd (limits g t org)" and ?s = "snd (Incr R IoOk org metric start 1 s)"
  have l: "gate_limits ?g = gate_limits g" by (rule gate_limits_snap) simp
  have t: "PeriodStart t (Period (gate_limits g org)) = start" using Cons.prems(3) by simp
  note st = check_step[OF Cons.prems(1,2) t, of s]
  have "fst (checks R (Some g) org metric (t # ts) s) =
      fst (fst (check R IoOk t (Some g) org metric s)) # fst (checks R (Some ?g) org metric ts ?s)"
    by (simp add: Let_def case_prod_unfold st)
  also have "fst (checks R (Some ?g) org metric ts ?s) =
      map (\<lambda>i. Check (count_of (v_strs (view R ?s) (CounterKey org metric start)) + 1 + int i)
                 (soft_of metric (gate_limits g org)) (hard_of metric (gate_limits g org))) [0..<length ts]"
    using Cons.IH[of ?g ?s] Cons.prems by (simp add: l)
  finally show ?case
    by (simp add: st incr_view map_upt_Suc algebra_simps del: upt_Suc)
qed simp

end

lemma count_below: "length (filter (\<lambda>i. a + int i < h) [0..<n]) = min n (nat (h - a))"
proof (induction n)
  case (Suc n)
  then show ?case by (auto simp: min_def nat_less_iff) 
qed simp

text \<open>
  C28: While a period lasts and nothing else writes the counter, \<open>n\<close> requests of an organization with a
  hard limit, arriving when the counter stands at \<open>c\<close>, are decided in order: the first \<open>hard - 1 - c\<close> pass, all later ones are
  refused. In particular a fresh period admits \<open>hard - 1\<close> requests, whatever the snapshot's age.
\<close>

theorem quota_ceiling:
  assumes "redis R" "g_redis g" "0 < hard_of metric (gate_limits g org)"
    and "\<forall>t \<in> set ts. PeriodStart t (Period (gate_limits g org)) = start"
    and "GET R (CounterKey org metric start) s = c"
  shows "map (\<lambda>d. d = OverHard) (fst (checks R (Some g) org metric ts s)) =
      map (\<lambda>i. hard_of metric (gate_limits g org) \<le> count_of c + 1 + int i) [0..<length ts] \<and>
    length (filter (\<lambda>d. d \<noteq> OverHard) (fst (checks R (Some g) org metric ts s))) =
      min (length ts) (nat (hard_of metric (gate_limits g org) - 1 - count_of c))"
proof -
  have c: "v_strs (view R s) (CounterKey org metric start) = c" using assms(5) by (simp add: view_def)
  have d: "Check n soft (hard_of metric (gate_limits g org)) = OverHard \<longleftrightarrow> hard_of metric (gate_limits g org) \<le> n" for n soft
    using assms(3) by (simp add: Check_def)
  have "fst (checks R (Some g) org metric ts s) =
      map (\<lambda>i. Check (count_of c + 1 + int i) (soft_of metric (gate_limits g org)) (hard_of metric (gate_limits g org))) [0..<length ts]"
    using redis.checks_ceiling[OF assms(1-3), of ts start s] assms(4) by (simp add: c)
  then show ?thesis
    using count_below[of "count_of c + 1" "hard_of metric (gate_limits g org)" "length ts"]
    by (simp add: d filter_map o_def not_le algebra_simps)
qed

definition gate0 :: gate where
  "gate0 = \<lparr>g_redis = True, g_queries = False, g_queue = None,
     g_snap = Some \<lparr>sn_at = 0, sn_limits = [(''o'', \<lparr>EventsSoft = 0, EventsHard = 3, MessagesSoft = 0, MessagesHard = 0, Period = ''day''\<rparr>)]\<rparr>,
     g_refreshing = False\<rparr>"

lemma day_start_small: "0 \<le> t \<Longrightarrow> t < 24 * hour \<Longrightarrow> PeriodStart t ''day'' = 0"
  by (simp add: PeriodStart_day)

theorem quota_ceiling_witness:
  "length (filter (\<lambda>d. d \<noteq> OverHard) (fst (checks mem_redis (Some gate0) ''o'' ''events'' [10, 20, 30, 40] mem_empty))) = 2"
proof -
  have "gate_limits gate0 ''o'' = \<lparr>EventsSoft = 0, EventsHard = 3, MessagesSoft = 0, MessagesHard = 0, Period = ''day''\<rparr>"
    by (simp add: gate_limits_def gate0_def)
  moreover have "PeriodStart t ''day'' = 0" if "t \<in> set [10, 20, 30, 40]" for t
    using that by (intro day_start_small) (auto simp: hour_def second_def)
  ultimately show ?thesis
    using quota_ceiling[OF mem.redis_axioms, of gate0 "''events''" "''o''" "[10, 20, 30, 40]" 0 mem_empty None]
    by (simp add: hard_of_def MetricMessages_def gate0_def mem_sel mem_empty_def)
qed

section \<open>Alerts\<close>

text \<open>
  Alert jobs one after the other, each preceded by what other clients did to the keyspace in the
  meantime; the result tells which of them published their event.
\<close>

type_synonym 'r alert_run = "('r \<Rightarrow> 'r) \<times> io \<times> penv \<times> alert_job"

fun run_alerts :: "'r redis \<Rightarrow> client \<Rightarrow> 'r alert_run list \<Rightarrow> 'r mworld \<Rightarrow> bool list" where
  "run_alerts R c [] w = []"
| "run_alerts R c ((f, o1, env, j) # js) w =
     (let (b, w) = runAlert R c o1 env j (w\<lparr>mw_redis := f (mw_redis w)\<rparr>)
      in b # run_alerts R c js w)"

definition job :: "'r alert_run \<Rightarrow> alert_job" where
  "job x = snd (snd (snd x))"

definition published :: "string \<Rightarrow> bool list \<Rightarrow> 'r alert_run list \<Rightarrow> nat" where
  "published k bs js = length (filter (\<lambda>(b, x). b \<and> latch (job x) = k) (zip bs js))"

context redis
begin

lemma enqueue_strs [simp]: "v_strs (view R (snd (Enqueue R C c o1 tr p s))) = v_strs (view R s)"
  by (cases o1; simp add: Enqueue_def enqueueScript_def Let_def case_prod_unfold redis_simps)

lemma enqueue_delivery_strs [simp]:
  "v_strs (view R (mw_redis (snd (enqueue_delivery R c o1 tr now org i w)))) = v_strs (view R (mw_redis w))"
  by (simp add: enqueue_delivery_def Let_def case_prod_unfold)

lemma enqueue_deliveries_strs [simp]:
  "v_strs (view R (mw_redis (enqueue_deliveries R c enq tr now org ids w))) = v_strs (view R (mw_redis w))"
  by (induction ids arbitrary: w) simp_all

lemma publish_strs [simp]: "v_strs (view R (mw_redis (snd (Publish R c env org ty pl' w)))) = v_strs (view R (mw_redis w))"
  by (simp add: Publish_def Let_def prod.case_eq_if split: sum.split)

lemma runAlert_latch:
  assumes "k = latch j" "GET R k (mw_redis w) \<noteq> None"
  shows "\<not> fst (runAlert R c o1 env j w)"
proof -
  have "EXISTS R k (mw_redis w)" using assms(2) by (simp add: exists_v view_def)
  then show ?thesis using assms(1)
    by (cases o1; simp add: runAlert_def setnx_v Let_def)
qed

lemma runAlert_strs:
  "v_strs (view R (mw_redis (snd (runAlert R c o1 env j w)))) k =
     (if o1 \<noteq> IoErr \<and> k = latch j \<and> \<not> EXISTS R k (mw_redis w) then Some 1 else v_strs (view R (mw_redis w)) k)"
  by (cases o1; auto simp: runAlert_def setnx setnx_v Let_def)

lemma runAlert_published: "fst (runAlert R c o1 env j w) \<Longrightarrow> GET R (latch j) (mw_redis (snd (runAlert R c o1 env j w))) \<noteq> None"
  using runAlert_strs[of c o1 env j w "latch j"]
  by (cases o1; auto simp: runAlert_def setnx_v Let_def view_def split: if_splits)

lemma runAlert_keeps: "GET R k (mw_redis w) \<noteq> None \<Longrightarrow> GET R k (mw_redis (snd (runAlert R c o1 env j w))) \<noteq> None"
  using runAlert_strs[of c o1 env j w k] by (simp add: view_def split: if_splits)

lemma alerts_once:
  assumes "\<And>x s. x \<in> set js \<Longrightarrow> GET R k s \<noteq> None \<Longrightarrow> GET R k (fst x s) \<noteq> None"
  shows "published k (run_alerts R c js w) js \<le> (if GET R k (mw_redis w) = None then 1 else 0)"
  using assms
proof (induction js arbitrary: w)
  case (Cons x js)
  obtain f o1 env j where x: "x = (f, o1, env, j)" by (metis prod_cases4)
  let ?w = "w\<lparr>mw_redis := f (mw_redis w)\<rparr>"
  let ?r = "runAlert R c o1 env j ?w"
  have f: "GET R k (mw_redis w) \<noteq> None \<Longrightarrow> GET R k (mw_redis ?w) \<noteq> None"
    using Cons.prems[of x] x by simp
  have ih: "published k (run_alerts R c js (snd ?r)) js \<le> (if GET R k (mw_redis (snd ?r)) = None then 1 else 0)"
    using Cons.prems by (intro Cons.IH) auto
  have "published k (run_alerts R c (x # js) w) (x # js) =
      (if fst ?r \<and> latch j = k then 1 else 0) + published k (run_alerts R c js (snd ?r)) js"
    by (simp add: published_def x job_def Let_def case_prod_unfold)
  then show ?case
    using ih f runAlert_published[of c o1 env j ?w] runAlert_keeps[of k ?w c o1 env j] runAlert_latch[of k j ?w c o1 env]
    by (cases "fst ?r \<and> latch j = k"; cases "GET R k (mw_redis w) = None") (auto simp del: not_None_eq split: if_splits)
qed (simp add: published_def)

end

text \<open>
  Whatever alert jobs run, and whatever happens to the keyspace between them as long as
  it does not drop a latch, the operational event of one organization, metric, period and tier is
  published at most once, and not at all once its latch is set.
\<close>

theorem quota_alert_once:
  assumes "redis R"
    and "\<forall>x \<in> set js. \<forall>s. GET R k s \<noteq> None \<longrightarrow> GET R k (fst x s) \<noteq> None"
  shows "published k (run_alerts R c js w) js \<le> (if GET R k (mw_redis w) = None then 1 else 0)"
  using redis.alerts_once[OF assms(1), of js k c w] assms(2) by blast

definition alert0 :: alert_job where
  "alert0 = \<lparr>aj_org = ''o'', aj_metric = ''events'', aj_start = 0, aj_event = ''usage.quota_exceeded'', aj_count = 3, aj_limit = 3\<rparr>"

definition alerts0 :: "mem alert_run list" where
  "alerts0 = [(id, IoOk, penv0, alert0), (id, IoOk, penv0, alert0)]"

theorem quota_alert_once_witness:
  "published (latch alert0) (run_alerts mem_redis NewClient alerts0 (mw0\<lparr>mw_redis := mem_empty\<rparr>)) alerts0 \<le> 1 \<and>
   hd (run_alerts mem_redis NewClient alerts0 (mw0\<lparr>mw_redis := mem_empty\<rparr>))"
proof -
  have "published (latch alert0) (run_alerts mem_redis NewClient alerts0 (mw0\<lparr>mw_redis := mem_empty\<rparr>)) alerts0
      \<le> (if GET mem_redis (latch alert0) (mw_redis (mw0\<lparr>mw_redis := mem_empty\<rparr>)) = None then 1 else 0)"
    by (rule quota_alert_once[OF mem.redis_axioms]) (simp add: alerts0_def)
  moreover have "GET mem_redis (latch alert0) (mw_redis (mw0\<lparr>mw_redis := mem_empty\<rparr>)) = None" by (simp add: mem_sel mem_empty_def)
  moreover have "fst (runAlert mem_redis NewClient IoOk penv0 alert0 (mw0\<lparr>mw_redis := mem_empty\<rparr>))"
    by (simp add: runAlert_def mem.setnx_v mem_sel mem_exists_def mem_empty_def get_or_def Let_def)
  ultimately show ?thesis by (simp add: alerts0_def Let_def case_prod_unfold)
qed

section \<open>Reconciliation\<close>

definition metrics :: "string list" where
  "metrics = [''events'', ''requests'', ''messages'', ''attempts'']"

lemma split_at: "c \<notin> set a \<Longrightarrow> c \<notin> set b \<Longrightarrow> a @ c # r = b @ c # s \<longleftrightarrow> a = b \<and> r = s"
  by (induction a arbitrary: b) (case_tac b; auto)+

lemma CounterKey_inj:
  assumes "CHR '':'' \<notin> set a" "CHR '':'' \<notin> set b" "m \<in> set metrics" "k \<in> set metrics"
  shows "CounterKey a m t = CounterKey b k u \<Longrightarrow> a = b \<and> m = k"
proof -
  assume "CounterKey a m t = CounterKey b k u"
  then have "a @ CHR '':'' # m @ CHR '':'' # show_int (Unix t) = b @ CHR '':'' # k @ CHR '':'' # show_int (Unix u)"
    by (simp add: CounterKey_def)
  moreover have "CHR '':'' \<notin> set m" "CHR '':'' \<notin> set k" using assms(3,4) by (auto simp: metrics_def)
  ultimately show ?thesis using assms(1,2) by (simp add: split_at)
qed

lemma group_counts_keys: "distinct (map (\<lambda>(g, b, n). (g, b)) (group_counts ks))"
proof -
  have "map (\<lambda>(g, b, n). (g, b)) (group_counts ks) = remdups ks"
    by (simp add: group_counts_def o_def case_prod_unfold)
  then show ?thesis by simp
qed

lemma rollup_query_keys: "distinct (map (\<lambda>(g, b, n). (g, b)) (rollup_query m p t w))"
  by (simp add: rollup_query_def RollupEvents_def RollupRequests_def RollupMessages_def RollupAttempts_def group_counts_keys)

lemma rollup_row_frame [simp]:
  "uw_db (rollup_row_step R env m t ms row w) = uw_db w" "uw_mdb (rollup_row_step R env m t ms row w) = uw_mdb w"
  "t_orgs (uw_idb (rollup_row_step R env m t ms row w)) = t_orgs (uw_idb w)"
  by (cases "un_upsert env m (fst row)";
      auto simp: rollup_row_step_def UpsertUsageRollup_def Let_def case_prod_unfold split: sum.split option.split)+

lemma fold_frame: "(\<And>x w. f (g x w) = f w) \<Longrightarrow> f (fold g xs w) = f w"
  by (induction xs arbitrary: w) simp_all

lemma rollup_metric_frame [simp]:
  "uw_db (rollup_metric R env p t ms m w) = uw_db w" "uw_mdb (rollup_metric R env p t ms m w) = uw_mdb w"
  "t_orgs (uw_idb (rollup_metric R env p t ms m w)) = t_orgs (uw_idb w)"
  by (simp_all add: rollup_metric_def fold_frame[of uw_db] fold_frame[of uw_mdb] fold_frame[of "\<lambda>w. t_orgs (uw_idb w)"])

text \<open>What one row of the sweep leaves alone, and what it sets: the recorded usage and the counter of one key.\<close>

definition usage_of :: "'r redis \<Rightarrow> string \<Rightarrow> string \<Rightarrow> int \<Rightarrow> 'r uworld \<Rightarrow> int option \<times> int list" where
  "usage_of R org m t w = (GET R (CounterKey org m t) (uw_redis w), map ur_count (filter (is_rollup org t m) (t_rollups (uw_idb w))))"

definition sweep_ok :: "uenv \<Rightarrow> bool" where
  "sweep_ok env \<longleftrightarrow> un_list env = IoOk \<and> (\<forall>m \<in> set metrics. un_query env m = IoOk) \<and>
     (\<forall>m g. un_upsert env m g = IoOk \<and> un_set env m g = IoOk) \<and> un_redis env"

lemma upsert_counts:
  assumes "find_org org d \<noteq> None" "length (filter (is_rollup org t m) (t_rollups d)) \<le> 1"
  shows "map ur_count (filter (is_rollup org t m) (t_rollups (snd (UpsertUsageRollup now org t m n d)))) = [n]"
    and "fst (UpsertUsageRollup now org t m n d) = Inr ()"
proof -
  let ?P = "is_rollup org t m" and ?l = "t_rollups d"
  let ?f = "\<lambda>r. r\<lparr>ur_count := n, ur_updated_at := now\<rparr>"
  have f: "filter ?P (upd_where ?P ?f xs) = map ?f (filter ?P xs)" for xs
    by (induction xs) (auto simp: upd_where_def is_rollup_def)
  have "list_ex ?P ?l \<Longrightarrow> length (filter ?P ?l) = 1"
    using assms(2) by (metis filter_empty_conv length_0_conv less_one list_ex_iff nat_less_le)
  then have "list_ex ?P ?l \<Longrightarrow> map ur_count (map ?f (filter ?P ?l)) = [n]"
    by (auto simp: length_Suc_conv)
  moreover have "\<not> list_ex ?P ?l \<Longrightarrow> filter ?P ?l = []" by (auto simp: list_ex_iff filter_empty_conv)
  ultimately show "map ur_count (filter ?P (t_rollups (snd (UpsertUsageRollup now org t m n d)))) = [n]"
    using assms(1) by (auto simp: UpsertUsageRollup_def f) (simp add: is_rollup_def)
  show "fst (UpsertUsageRollup now org t m n d) = Inr ()" using assms(1) by (simp add: UpsertUsageRollup_def)
qed

lemma upsert_other:
  "(org, m) \<noteq> (org', m') \<Longrightarrow>
   filter (is_rollup org t m) (t_rollups (snd (UpsertUsageRollup now org' t' m' n d))) = filter (is_rollup org t m) (t_rollups d)"
proof -
  assume ne: "(org, m) \<noteq> (org', m')"
  have "filter (is_rollup org t m) (upd_where (is_rollup org' t' m') f xs) = filter (is_rollup org t m) xs"
    if "\<And>r. is_rollup org t m (f r) = is_rollup org t m r" for f xs
    using ne that by (induction xs) (auto simp: upd_where_def is_rollup_def)
  then show ?thesis using ne by (auto simp: UpsertUsageRollup_def is_rollup_def)
qed

lemma rollup_query_cong: "uw_db v = uw_db w \<Longrightarrow> uw_mdb v = uw_mdb w \<Longrightarrow> rollup_query m p t v = rollup_query m p t w"
  by (simp add: rollup_query_def)

lemma fold_frame_in: "(\<And>x w. x \<in> set xs \<Longrightarrow> f (g x w) = f w) \<Longrightarrow> f (fold g xs w) = f w"
  by (induction xs arbitrary: w) simp_all

context redis
begin

lemma set_counter_view:
  "v_strs (view R (snd (SetCounter R IoOk org m t n s))) = (v_strs (view R s))(CounterKey org m t := Some n)"
  by (simp add: SetCounter_def setex fun_eq_iff)

lemma row_hit:
  assumes "sweep_ok env" "org \<in> set ms" "find_org org (uw_idb w) \<noteq> None" "length (snd (usage_of R org m t w)) \<le> 1"
  shows "usage_of R org m t (rollup_row_step R env m t ms (org, t, n) w) = (Some n, [n])"
proof -
  have u: "un_upsert env m org = IoOk" "un_set env m org = IoOk" "un_redis env" using assms(1) by (auto simp: sweep_ok_def)
  have "v_strs (view R (snd (SetCounter R IoOk org m t n s))) (CounterKey org m t) = Some n" for s
    by (simp add: set_counter_view)
  then have "GET R (CounterKey org m t) (snd (SetCounter R IoOk org m t n s)) = Some n" for s
    by (simp add: view_def)
  then show ?thesis
    using assms u upsert_counts[OF assms(3), of t m "un_now env" n]
    by (simp add: rollup_row_step_def usage_of_def Let_def)
qed

lemma row_miss:
  assumes "sweep_ok env" "CHR '':'' \<notin> set org" "m \<in> set metrics" "m' \<in> set metrics"
    and "\<And>x. x \<in> set ms \<Longrightarrow> CHR '':'' \<notin> set x"
    and "m \<noteq> m' \<or> org \<notin> set ms \<or> (fst row, fst (snd row)) \<noteq> (org, t')"
  shows "usage_of R org m t (rollup_row_step R env m' t' ms row w) = usage_of R org m t w"
proof -
  obtain org' start n where row: "row = (org', start, n)" by (metis prod_cases3)
  show ?thesis
  proof (cases "org' \<in> set ms \<and> start = t'")
    case True
    then have ne: "(org, m) \<noteq> (org', m')" using assms(6) row by auto
    then have "CounterKey org m t \<noteq> CounterKey org' m' t'"
      using CounterKey_inj[of org org' m m' t t'] assms True by auto
    then have "v_strs (view R (snd (SetCounter R IoOk org' m' t' n s))) (CounterKey org m t) = v_strs (view R s) (CounterKey org m t)" for s
      by (simp add: set_counter_view)
    then have "GET R (CounterKey org m t) (snd (SetCounter R IoOk org' m' t' n s)) = GET R (CounterKey org m t) s" for s
      by (simp add: view_def)
    then show ?thesis
      using assms(1) upsert_other[OF ne]
      by (auto simp: row rollup_row_step_def usage_of_def Let_def sweep_ok_def case_prod_unfold split: sum.split)
  qed (auto simp: row rollup_row_step_def)
qed

lemma metric_miss:
  assumes "sweep_ok env" "CHR '':'' \<notin> set org" "m \<in> set metrics" "m' \<in> set metrics"
    and "\<And>x. x \<in> set ms \<Longrightarrow> CHR '':'' \<notin> set x" and "m \<noteq> m' \<or> org \<notin> set ms"
  shows "usage_of R org m t (rollup_metric R env p t' ms m' w) = usage_of R org m t w"
proof -
  have "usage_of R org m t (fold (rollup_row_step R env m' t' ms) rows w) = usage_of R org m t w" for rows w
    by (rule fold_frame, rule row_miss[OF assms(1-5)]) (use assms(6) in auto)
  then show ?thesis by (simp add: rollup_metric_def)
qed

lemma rows_miss:
  assumes "sweep_ok env" "CHR '':'' \<notin> set org" "m \<in> set metrics"
    and "\<And>x. x \<in> set ms \<Longrightarrow> CHR '':'' \<notin> set x"
    and "(org, t) \<notin> (\<lambda>(g, b, n). (g, b)) ` set rows"
  shows "usage_of R org m t (fold (rollup_row_step R env m t ms) rows w) = usage_of R org m t w"
  using assms(5)
proof (induction rows arbitrary: w)
  case (Cons row rows)
  have "usage_of R org m t (rollup_row_step R env m t ms row w) = usage_of R org m t w"
    by (rule row_miss[OF assms(1-3) assms(3) assms(4)]) (use Cons.prems in \<open>auto simp: case_prod_unfold\<close>)
  with Cons show ?case by simp
qed simp

lemma metric_hit:
  assumes "sweep_ok env" "CHR '':'' \<notin> set org" "m \<in> set metrics" "\<And>x. x \<in> set ms \<Longrightarrow> CHR '':'' \<notin> set x"
    and "org \<in> set ms" "find_org org (uw_idb w) \<noteq> None" "length (snd (usage_of R org m t w)) \<le> 1"
    and "(org, t, n) \<in> set (rollup_query m p t w)"
  shows "usage_of R org m t (rollup_metric R env p t ms m w) = (Some n, [n])"
proof -
  obtain xs ys where q: "rollup_query m p t w = xs @ (org, t, n) # ys" using assms(8) by (meson split_list)
  have k: "(org, t) \<notin> (\<lambda>(g, b, n). (g, b)) ` set xs" "(org, t) \<notin> (\<lambda>(g, b, n). (g, b)) ` set ys"
    using rollup_query_keys[of m p t w] by (auto simp: q)
  let ?f = "rollup_row_step R env m t ms"
  let ?w = "fold ?f xs w"
  have u: "usage_of R org m t ?w = usage_of R org m t w" by (rule rows_miss[OF assms(1-4) k(1)])
  have "t_orgs (uw_idb ?w) = t_orgs (uw_idb w)" by (rule fold_frame) simp
  then have fo: "find_org org (uw_idb ?w) \<noteq> None" using assms(6) by (simp add: find_org_def)
  have "usage_of R org m t (?f (org, t, n) ?w) = (Some n, [n])"
    by (rule row_hit[OF assms(1) assms(5) fo]) (use assms(7) in \<open>simp add: u\<close>)
  moreover have "un_query env m = IoOk" using assms(1,3) by (simp add: sweep_ok_def)
  ultimately show ?thesis
    using rows_miss[OF assms(1-4) k(2)] by (simp add: rollup_metric_def q)
qed

lemma period_miss:
  assumes "sweep_ok env" "CHR '':'' \<notin> set org" "m \<in> set metrics" "\<And>x. x \<in> set ms \<Longrightarrow> CHR '':'' \<notin> set x" "org \<notin> set ms"
  shows "usage_of R org m t (rollupPeriod R env p t' ms w) = usage_of R org m t w"
  using metric_miss[OF assms(1-3) _ assms(4)] assms(5) by (simp add: rollupPeriod_def metrics_def)

lemma period_hit:
  assumes "sweep_ok env" "CHR '':'' \<notin> set org" "m \<in> set metrics" "\<And>x. x \<in> set ms \<Longrightarrow> CHR '':'' \<notin> set x"
    and "org \<in> set ms" "find_org org (uw_idb w) \<noteq> None" "length (snd (usage_of R org m t w)) \<le> 1"
    and "(org, t, n) \<in> set (rollup_query m p t w)"
  shows "usage_of R org m t (rollupPeriod R env p t ms w) = (Some n, [n])"
proof -
  obtain a b where ks: "metrics = a @ m # b" using assms(3) by (meson split_list)
  have ab: "m \<notin> set a" "m \<notin> set b" "set a \<subseteq> set metrics" "set b \<subseteq> set metrics"
    using ks by (auto simp: metrics_def Cons_eq_append_conv)
  let ?f = "rollup_metric R env p t ms"
  have miss: "usage_of R org m t (fold ?f ks w) = usage_of R org m t w" if "m \<notin> set ks" "set ks \<subseteq> set metrics" for ks w
    using that by (intro fold_frame_in metric_miss[OF assms(1-3) _ assms(4)]) auto
  have fr: "uw_db (fold ?f a w) = uw_db w" "uw_mdb (fold ?f a w) = uw_mdb w" "t_orgs (uw_idb (fold ?f a w)) = t_orgs (uw_idb w)"
    by (rule fold_frame, simp)+
  have "usage_of R org m t (?f m (fold ?f a w)) = (Some n, [n])"
  proof (rule metric_hit[OF assms(1-5)])
    show "find_org org (uw_idb (fold ?f a w)) \<noteq> None" using assms(6) fr(3) by (simp add: find_org_def)
    show "length (snd (usage_of R org m t (fold ?f a w))) \<le> 1" using assms(7) miss[OF ab(1,3)] by simp
    show "(org, t, n) \<in> set (rollup_query m p t (fold ?f a w))" using assms(8) rollup_query_cong[OF fr(1,2)] by simp
  qed
  then show ?thesis unfolding rollupPeriod_def metrics_def[symmetric] ks
    using miss[OF ab(2,4)] by simp
qed

end


lemma period_frame [simp]:
  "uw_db (rollupPeriod R env p t ms w) = uw_db w" "uw_mdb (rollupPeriod R env p t ms w) = uw_mdb w"
  "t_orgs (uw_idb (rollupPeriod R env p t ms w)) = t_orgs (uw_idb w)"
  unfolding rollupPeriod_def by (rule fold_frame, simp)+

lemma PeriodStart_of: "PeriodStart now (period_of g) = PeriodStart now (og_period g)"
  by (simp add: PeriodStart_def period_of_def)

text \<open>
  After a sweep whose calls all succeed, for each organization and metric with a nonzero
  recomputed count of the current period, the counter under the key that the gate reads (the organization's own
  period) and the recorded usage both are that count, and the next increment answers one more. The order in
  which the two kinds of period are swept does not matter.
\<close>

theorem quota_reconciled:
  assumes "redis R" "sweep_ok env" "m \<in> set metrics"
    and "g \<in> set (t_orgs (uw_idb w))" "distinct (map og_id (t_orgs (uw_idb w)))"
    and "\<forall>x \<in> set (t_orgs (uw_idb w)). CHR '':'' \<notin> set (og_id x)"
    and "length (filter (is_rollup (og_id g) t m) (t_rollups (uw_idb w))) \<le> 1"
    and "t = PeriodStart (un_now env) (og_period g)"
    and "(og_id g, t, n) \<in> set (rollup_query m (period_of g) t w)"
  shows "GET R (CounterKey (og_id g) m t) (uw_redis (rollupUsage R env day_first w)) = Some n \<and>
    map ur_count (filter (is_rollup (og_id g) t m) (t_rollups (uw_idb (rollupUsage R env day_first w)))) = [n] \<and>
    fst (Incr R IoOk (og_id g) m t k (uw_redis (rollupUsage R env day_first w))) = (n + k, None)"
proof -
  let ?orgs = "ListOrgQuotas (uw_idb w)" and ?org = "og_id g"
  define mem where "mem p = map og_id (filter (\<lambda>x. period_of x = p) ?orgs)" for p
  define pass where "pass p v = (if mem p = [] then v else rollupPeriod R env p (PeriodStart (un_now env) p) (mem p) v)" for p and v :: "'a uworld"
  have so: "set ?orgs = set (t_orgs (uw_idb w))" by (simp add: ListOrgQuotas_def)
  have col: "CHR '':'' \<notin> set x" if "x \<in> set (mem p)" for x p using that assms(6) so by (auto simp: mem_def)
  have in_own: "?org \<in> set (mem (period_of g))" using assms(4) so by (auto simp: mem_def)
  have not_other: "?org \<notin> set (mem p)" if "p \<noteq> period_of g" for p
  proof
    assume "?org \<in> set (mem p)"
    then obtain x where x: "x \<in> set (t_orgs (uw_idb w))" "og_id x = ?org" "period_of x = p" using so by (auto simp: mem_def)
    then have "x = g" using assms(4,5) by (metis eq_key_imp_eq_value map_of_eq_Some_iff distinct_map inj_onD)
    with x that show False by simp
  qed
  have col_org: "CHR '':'' \<notin> set ?org" using assms(4,6) by blast
  have fo: "find_org ?org (uw_idb v) \<noteq> None" if "t_orgs (uw_idb v) = t_orgs (uw_idb w)" for v :: "'a uworld"
    using that assms(4) by (auto simp: find_org_def find_None_iff)
  have hit: "usage_of R ?org m t (pass (period_of g) v) = (Some n, [n])"
    if "uw_db v = uw_db w" "uw_mdb v = uw_mdb w" "t_orgs (uw_idb v) = t_orgs (uw_idb w)" "usage_of R ?org m t v = usage_of R ?org m t w" for v
  proof -
    have "usage_of R ?org m t (rollupPeriod R env (period_of g) t (mem (period_of g)) v) = (Some n, [n])"
    proof (rule redis.period_hit[OF assms(1,2) col_org assms(3) col in_own fo[OF that(3)]])
      show "length (snd (usage_of R ?org m t v)) \<le> 1" using assms(7) that(4) by (simp add: usage_of_def)
      show "(?org, t, n) \<in> set (rollup_query m (period_of g) t v)" using assms(9) rollup_query_cong[OF that(1,2)] by simp
    qed
    then show ?thesis using in_own unfolding pass_def PeriodStart_of assms(8)[symmetric] by auto
  qed
  have miss: "usage_of R ?org m t (pass p v) = usage_of R ?org m t v" if "p \<noteq> period_of g" for p v
    unfolding pass_def using redis.period_miss[OF assms(1,2) col_org assms(3) col not_other[OF that]] by simp
  have fr: "uw_db (pass p v) = uw_db v" "uw_mdb (pass p v) = uw_mdb v" "t_orgs (uw_idb (pass p v)) = t_orgs (uw_idb v)" for p v
    by (simp_all add: pass_def)
  have "period_of g = ''day'' \<or> period_of g = ''month''" by (simp add: period_of_def)
  moreover have "rollupUsage R env day_first w = fold pass (if day_first then [''day'', ''month''] else [''month'', ''day'']) w"
    using assms(2) by (simp add: rollupUsage_def sweep_ok_def Let_def pass_def mem_def fun_eq_iff)
  ultimately have u: "usage_of R ?org m t (rollupUsage R env day_first w) = (Some n, [n])"
    using hit[of w] hit[of "pass ''day'' w"] hit[of "pass ''month'' w"] by (auto simp: fr miss)
  then have "v_strs (view R (uw_redis (rollupUsage R env day_first w))) (CounterKey ?org m t) = Some n"
    by (simp add: usage_of_def view_def)
  then show ?thesis using u redis.incr_value[OF assms(1), of ?org m t k "uw_redis (rollupUsage R env day_first w)"]
    by (simp add: usage_of_def)
qed

definition org0 :: org_row where
  "org0 = \<lparr>og_id = ''o'', og_name = ''acme'', og_slug = ''acme'', og_created_at = 0, og_updated_at = 0, og_plan = ''custom'',
     og_events_soft = 0, og_events_hard = 3, og_messages_soft = 0, og_messages_hard = 0, og_period = ''day''\<rparr>"

definition idb0 :: idb where
  "idb0 = \<lparr>t_orgs = [org0], t_users = [], t_members = [], t_keys = [], t_links = [], t_invites = [], t_audit = [], t_rollups = []\<rparr>"

definition uworld0 :: "mem uworld" where
  "uworld0 = \<lparr>uw_idb = idb0, uw_db = db0\<lparr>t_events := [ev0\<lparr>ev_created_at := 5, ev_org_id := ''o''\<rparr>]\<rparr>, uw_mdb = mdb0, uw_redis = mem_empty\<rparr>"

definition uenv0 :: uenv where
  "uenv0 = \<lparr>un_list = IoOk, un_query = (\<lambda>_. IoOk), un_upsert = (\<lambda>_ _. IoOk), un_set = (\<lambda>_ _. IoOk), un_redis = True, un_now = 10\<rparr>"

theorem quota_reconciled_witness:
  "GET mem_redis (CounterKey ''o'' ''events'' 0) (uw_redis (rollupUsage mem_redis uenv0 True uworld0)) = Some 1"
proof -
  have p: "PeriodStart 10 ''day'' = 0" by (rule day_start_small) (simp_all add: hour_def second_def)
  have "date_trunc ''day'' 5 = 0" by (simp add: date_trunc_def hour_def second_def)
  then have q: "(''o'', 0, 1) \<in> set (rollup_query ''events'' ''day'' 0 uworld0)"
    by (simp add: rollup_query_def RollupEvents_def uworld0_def db0_def ev0_def group_counts_def)
  have m: "''events'' \<in> set metrics" by (simp add: metrics_def)
  have og: "org0 \<in> set (t_orgs (uw_idb uworld0))" by (simp add: uworld0_def idb0_def)
  show ?thesis
    using quota_reconciled[OF mem.redis_axioms _ m og, of uenv0 0 1 True 0] p q
    by (simp add: sweep_ok_def uenv0_def uworld0_def idb0_def org0_def period_of_def)
qed

end
