(* ===== verification/Auth.thy ===== *)
theory Auth
  imports Opevents Store_Identity
begin

text \<open>
  Authentication and authorization, src/internal/auth: roles and principals (principal.go, checks.go,
  rbac.go), API keys (keys.go), session cookies (session.go), portal tokens (portal.go), the middlewares
  (middleware.go, portal_middleware.go), invitations (invites.go) and magic links with the account bootstrap
  (magiclink.go). SHA-256 and HMAC-SHA256 are parameters, random bytes and generated identifiers arguments. A
  middleware answers a status, or passes a principal on to the handler.
\<close>

section \<open>Roles and principals\<close>

definition RoleMember :: string where "RoleMember = ''member''"
definition RoleAdmin :: string where "RoleAdmin = ''admin''"
definition RoleOwner :: string where "RoleOwner = ''owner''"

definition roleOrder :: "string \<Rightarrow> nat" where
  "roleOrder r = (if r = RoleMember then 1 else if r = RoleAdmin then 2 else if r = RoleOwner then 3 else 0)"

definition LessThan :: "string \<Rightarrow> string \<Rightarrow> bool" where
  "LessThan r other \<longleftrightarrow> roleOrder r < roleOrder other"

datatype Source = SourceSession | SourceAPIKey | SourcePortal

record Principal =
  pr_Source :: Source
  pr_UserID :: string
  pr_OrgID :: string
  pr_APIKeyID :: string
  pr_Role :: string
  pr_UserEmail :: string
  pr_APIKeyName :: string
  pr_SessionEpoch :: int

datatype auth_error =
    ErrNoPrincipal | ErrInsufficientRole | ErrSessionRequired
  | ErrInvalidAPIKey | ErrMissingAPIKey | ErrInvalidSession | ErrExpiredSession
  | ErrInvalidPortalToken | ErrExpiredPortalToken | ErrAuthDb

definition RequireMinRole :: "Principal option \<Rightarrow> string \<Rightarrow> auth_error option" where
  "RequireMinRole p least = (case p of None \<Rightarrow> Some ErrNoPrincipal
     | Some p \<Rightarrow> if LessThan (pr_Role p) least then Some ErrInsufficientRole else None)"

definition RequireSession :: "Principal option \<Rightarrow> auth_error option" where
  "RequireSession p = (case p of None \<Rightarrow> Some ErrNoPrincipal
     | Some p \<Rightarrow> if pr_Source p \<noteq> SourceSession then Some ErrSessionRequired else None)"

text \<open>The gates answer the status they refuse with, if they do.\<close>

definition RequireRole :: "string \<Rightarrow> Principal option \<Rightarrow> int option" where
  "RequireRole least p = (if RequireMinRole p least \<noteq> None then Some 403 else None)"

definition RequireAdminForURLChange :: "Principal option \<Rightarrow> int option" where
  "RequireAdminForURLChange p = (if RequireMinRole p RoleAdmin \<noteq> None then Some 403 else None)"

definition AdminForDestructive :: "string \<Rightarrow> Principal option \<Rightarrow> int option" where
  "AdminForDestructive httpMethod p = (if httpMethod = ''DELETE'' \<and> RequireMinRole p RoleAdmin \<noteq> None then Some 403 else None)"

section \<open>API keys\<close>

definition APIKeyPrefixLen :: nat where "APIKeyPrefixLen = 12"

definition apiKeyScheme :: string where "apiKeyScheme = ''Bearer ''"

definition apiKeyMark :: string where "apiKeyMark = ''dsk_''"

definition NewAPIKey :: "(bytes \<Rightarrow> bytes) \<Rightarrow> bytes \<Rightarrow> bytes \<Rightarrow> string \<times> string \<times> bytes" where
  "NewAPIKey sha pb sb =
     (let pfx = take APIKeyPrefixLen (b64_encode url_alphabet False pb);
          secret = b64_encode url_alphabet False sb
      in (apiKeyMark @ pfx @ ''_'' @ secret, pfx, sha secret))"

definition parseAPIKey :: "string \<Rightarrow> (string \<times> string) option" where
  "parseAPIKey raw =
     (if \<not> has_prefix raw apiKeyMark then None
      else
        (let rest = trim_prefix raw apiKeyMark
         in if length rest < APIKeyPrefixLen + 2 \<or> rest ! APIKeyPrefixLen \<noteq> CHR ''_'' then None
            else Some (take APIKeyPrefixLen rest, drop (APIKeyPrefixLen + 1) rest)))"

definition ExtractAPIKey :: "string \<Rightarrow> string" where
  "ExtractAPIKey authHeader =
     (if authHeader = [] then [] else if \<not> has_prefix authHeader apiKeyScheme then [] else trim_prefix authHeader apiKeyScheme)"

text \<open>A failed update of the last use is ignored.\<close>

definition VerifyAPIKey ::
  "(bytes \<Rightarrow> bytes) \<Rightarrow> io \<Rightarrow> io \<Rightarrow> int \<Rightarrow> string \<Rightarrow> idb \<Rightarrow> (auth_error + key_row) \<times> idb" where
  "VerifyAPIKey sha get touch now raw d =
     (if raw = [] then (Inl ErrMissingAPIKey, d)
      else case parseAPIKey raw of
             None \<Rightarrow> (Inl ErrInvalidAPIKey, d)
           | Some (pfx, secret) \<Rightarrow>
               if get \<noteq> IoOk then (Inl ErrAuthDb, d)
               else case GetAPIKeyByPrefix now pfx d of
                      Inl _ \<Rightarrow> (Inl ErrInvalidAPIKey, d)
                    | Inr row \<Rightarrow>
                        if sha secret \<noteq> ak_key_hash row then (Inl ErrInvalidAPIKey, d)
                        else (Inr row, snd (run_io touch (\<lambda>d. ((), TouchAPIKey now (ak_id row) d)) d)))"

section \<open>Signed tokens\<close>

text \<open>The 16 bytes of a UUID and back, and 64-bit integers in big-endian order.\<close>

definition uuid_bytes :: "string \<Rightarrow> bytes" where
  "uuid_bytes u = (case hex_decode (filter (\<lambda>c. c \<noteq> CHR ''-'') u) of None \<Rightarrow> [] | Some b \<Rightarrow> b)"

definition uuid_string :: "bytes \<Rightarrow> string" where
  "uuid_string b =
     (let h = hex_encode b
      in take 8 h @ ''-'' @ take 4 (drop 8 h) @ ''-'' @ take 4 (drop 12 h) @ ''-'' @ take 4 (drop 16 h) @ ''-'' @ drop 20 h)"

fun put_be :: "nat \<Rightarrow> int \<Rightarrow> bytes" where
  "put_be 0 i = []"
| "put_be (Suc n) i = char_of (nat (i div 256 ^ n mod 256)) # put_be n i"

fun get_be :: "bytes \<Rightarrow> int" where
  "get_be [] = 0"
| "get_be (c # cs) = int (of_char c) * 256 ^ length cs + get_be cs"

definition sessionMaxAge :: int where
  "sessionMaxAge = 30 * 24 * hour"

definition sessionPayloadLen :: nat where
  "sessionPayloadLen = 16 + 16 + 8 + 8"

definition session_encode :: "(bytes \<Rightarrow> bytes \<Rightarrow> bytes) \<Rightarrow> bytes \<Rightarrow> string \<Rightarrow> string \<Rightarrow> int \<Rightarrow> int \<Rightarrow> string" where
  "session_encode hmac key userID orgID epoch exp =
     (let payload = uuid_bytes userID @ uuid_bytes orgID @ put_be 8 exp @ put_be 8 epoch
      in b64_encode url_alphabet False (payload @ hmac key payload))"

definition session_decode :: "(bytes \<Rightarrow> bytes \<Rightarrow> bytes) \<Rightarrow> bytes \<Rightarrow> int \<Rightarrow> string \<Rightarrow> auth_error + (string \<times> string \<times> int)" where
  "session_decode hmac key now raw =
     (case b64_decode url_alphabet False raw of
        None \<Rightarrow> Inl ErrInvalidSession
      | Some buf \<Rightarrow>
          if length buf \<noteq> sessionPayloadLen + 32 then Inl ErrInvalidSession
          else
            (let payload = take sessionPayloadLen buf; sig = drop sessionPayloadLen buf
             in if sig \<noteq> hmac key payload then Inl ErrInvalidSession
                else if Unix now > to_int64 (get_be (take 8 (drop 32 payload))) then Inl ErrExpiredSession
                else Inr (uuid_string (take 16 payload), uuid_string (take 16 (drop 16 payload)),
                          to_int64 (get_be (take 8 (drop 40 payload))))))"

text \<open>The value of the cookie that \<^verbatim>\<open>Issue\<close> sets, and \<^verbatim>\<open>Parse\<close> of the cookie a request carries.\<close>

definition Issue :: "(bytes \<Rightarrow> bytes \<Rightarrow> bytes) \<Rightarrow> bytes \<Rightarrow> int \<Rightarrow> string \<Rightarrow> string \<Rightarrow> int \<Rightarrow> string" where
  "Issue hmac key now userID activeOrgID epoch =
     session_encode hmac key userID activeOrgID epoch (Unix (now + sessionMaxAge))"

definition session_Parse ::
  "(bytes \<Rightarrow> bytes \<Rightarrow> bytes) \<Rightarrow> bytes \<Rightarrow> int \<Rightarrow> string option \<Rightarrow> auth_error + (string \<times> string \<times> int)" where
  "session_Parse hmac key now cookie =
     (case cookie of None \<Rightarrow> Inl ErrInvalidSession | Some c \<Rightarrow> session_decode hmac key now c)"

definition portalTypeTag :: char where
  "portalTypeTag = CHR 0x02"

definition portalPayloadLen :: nat where
  "portalPayloadLen = 1 + 16 + 16 + 8 + 8"

definition Mint :: "(bytes \<Rightarrow> bytes \<Rightarrow> bytes) \<Rightarrow> bytes \<Rightarrow> int \<Rightarrow> int \<Rightarrow> string \<Rightarrow> string \<Rightarrow> int \<Rightarrow> string \<times> int" where
  "Mint hmac key ttl now appID orgID epoch =
     (let exp = now + ttl;
          payload = portalTypeTag # uuid_bytes appID @ uuid_bytes orgID @ put_be 8 epoch @ put_be 8 (Unix exp)
      in (b64_encode url_alphabet False (payload @ hmac key payload), exp))"

definition portal_Parse :: "(bytes \<Rightarrow> bytes \<Rightarrow> bytes) \<Rightarrow> bytes \<Rightarrow> int \<Rightarrow> string \<Rightarrow> auth_error + (string \<times> string \<times> int)" where
  "portal_Parse hmac key now token =
     (case b64_decode url_alphabet False token of
        None \<Rightarrow> Inl ErrInvalidPortalToken
      | Some buf \<Rightarrow>
          if length buf \<noteq> portalPayloadLen + 32 then Inl ErrInvalidPortalToken
          else
            (let payload = take portalPayloadLen buf; sig = drop portalPayloadLen buf
             in if payload ! 0 \<noteq> portalTypeTag then Inl ErrInvalidPortalToken
                else if sig \<noteq> hmac key payload then Inl ErrInvalidPortalToken
                else if Unix now > to_int64 (get_be (take 8 (drop 41 payload))) then Inl ErrExpiredPortalToken
                else Inr (uuid_string (take 16 (drop 1 payload)), uuid_string (take 16 (drop 17 payload)),
                          to_int64 (get_be (take 8 (drop 33 payload))))))"

section \<open>Middlewares\<close>

text \<open>The credentials of a request and the parameters of one call.\<close>

record creds =
  cr_authorization :: string
  cr_cookie :: "string option"

record aenv =
  ae_sha :: "bytes \<Rightarrow> bytes"
  ae_hmac :: "bytes \<Rightarrow> bytes \<Rightarrow> bytes"
  ae_secret :: bytes
  ae_now :: int
  ae_out :: "string \<Rightarrow> io"

definition no_principal :: Principal where
  "no_principal = \<lparr>pr_Source = SourceSession, pr_UserID = uuid_Nil, pr_OrgID = uuid_Nil, pr_APIKeyID = uuid_Nil, pr_Role = [],
     pr_UserEmail = [], pr_APIKeyName = [], pr_SessionEpoch = 0\<rparr>"

definition Authenticate :: "aenv \<Rightarrow> creds \<Rightarrow> idb \<Rightarrow> (int + Principal) \<times> idb" where
  "Authenticate env cr d =
     (let raw = ExtractAPIKey (cr_authorization cr)
      in if raw \<noteq> [] then
           (case VerifyAPIKey (ae_sha env) (ae_out env ''key'') (ae_out env ''touch'') (ae_now env) raw d of
              (Inr row, d) \<Rightarrow>
                (Inr (no_principal\<lparr>pr_Source := SourceAPIKey, pr_APIKeyID := ak_id row, pr_OrgID := ak_org_id row,
                        pr_APIKeyName := ak_name row, pr_Role := ak_role row\<rparr>), d)
            | (Inl _, d) \<Rightarrow> (Inl 401, d))
         else
           (case session_Parse (ae_hmac env) (ae_secret env) (ae_now env) (cr_cookie cr) of
              Inl _ \<Rightarrow> (Inl 401, d)
            | Inr (userID, orgID, epoch) \<Rightarrow>
                if ae_out env ''user'' \<noteq> IoOk then (Inl 401, d)
                else case GetUserByID userID d of
                       Inl _ \<Rightarrow> (Inl 401, d)
                     | Inr u \<Rightarrow>
                         if us_session_epoch u \<noteq> epoch then (Inl 401, d)
                         else (Inr (no_principal\<lparr>pr_Source := SourceSession, pr_UserID := userID, pr_OrgID := orgID,
                                 pr_UserEmail := us_email u, pr_SessionEpoch := us_session_epoch u\<rparr>), d)))"

text \<open>The nil UUID is written as null, which no membership row matches.\<close>

definition RequireOrg :: "aenv \<Rightarrow> Principal option \<Rightarrow> idb \<Rightarrow> int + Principal" where
  "RequireOrg env p d =
     (case p of
        None \<Rightarrow> Inl 401
      | Some p \<Rightarrow>
          if pr_OrgID p = uuid_Nil then Inl 409
          else if pr_Source p = SourceAPIKey then Inr p
          else if ae_out env ''member'' \<noteq> IoOk then Inl 500
          else case GetOrgMember (pr_OrgID p) (pr_UserID p) d of
                 Inl _ \<Rightarrow> Inl 403
               | Inr m \<Rightarrow> Inr (p\<lparr>pr_Role := mb_role m\<rparr>))"

definition SuperAdminOnly :: "aenv \<Rightarrow> creds \<Rightarrow> idb \<Rightarrow> int + Principal" where
  "SuperAdminOnly env cr d =
     (case session_Parse (ae_hmac env) (ae_secret env) (ae_now env) (cr_cookie cr) of
        Inl _ \<Rightarrow> Inl 401
      | Inr (uid, _, epoch) \<Rightarrow>
          if ae_out env ''user'' \<noteq> IoOk then Inl 403
          else case GetUserByID uid d of
                 Inl _ \<Rightarrow> Inl 403
               | Inr u \<Rightarrow>
                   if \<not> us_is_super_admin u \<or> us_session_epoch u \<noteq> epoch then Inl 403
                   else Inr (no_principal\<lparr>pr_Source := SourceSession, pr_UserID := uid, pr_SessionEpoch := us_session_epoch u\<rparr>))"

text \<open>A portal request passes the application of its token on beside the principal.\<close>

definition RequirePortal :: "aenv \<Rightarrow> creds \<Rightarrow> mdb \<Rightarrow> int + (Principal \<times> string)" where
  "RequirePortal env cr d =
     (let raw = ExtractAPIKey (cr_authorization cr)
      in if raw = [] then Inl 401
         else case portal_Parse (ae_hmac env) (ae_secret env) (ae_now env) raw of
                Inl _ \<Rightarrow> Inl 401
              | Inr (appID, orgID, epoch) \<Rightarrow>
                  if ae_out env ''app'' \<noteq> IoOk then Inl 500
                  else case GetApplicationForOrg appID orgID d of
                         Inl _ \<Rightarrow> Inl 401
                       | Inr app \<Rightarrow>
                           if ap_portal_epoch app \<noteq> epoch then Inl 401
                           else Inr (no_principal\<lparr>pr_Source := SourcePortal, pr_OrgID := orgID\<rparr>, appID))"

section \<open>Transactions\<close>

text \<open>
  A login works on the identity tables and, for a new workspace, on the outbound ones. In a transaction
  an error of any statement rolls everything back; so does a failed commit, unless only its reply is
  lost. A savepoint undoes its statement and reports a unique violation.
\<close>

record 'r aworld =
  aw_idb :: idb
  aw_m :: "'r mworld"

definition in_tx :: "io \<Rightarrow> io \<Rightarrow> ('w \<Rightarrow> ('e + 'a) \<times> 'w) \<Rightarrow> 'e \<Rightarrow> 'w \<Rightarrow> ('e + 'a) \<times> 'w" where
  "in_tx opened commit body dberr w =
     (if opened \<noteq> IoOk then (Inl dberr, w)
      else case body w of
             (Inl e, _) \<Rightarrow> (Inl e, w)
           | (Inr x, w') \<Rightarrow>
               (case commit of IoOk \<Rightarrow> (Inr x, w') | IoErr \<Rightarrow> (Inl dberr, w) | IoLost \<Rightarrow> (Inl dberr, w')))"

definition inSavepoint :: "io \<Rightarrow> (idb \<Rightarrow> (go_error + 'a) \<times> idb) \<Rightarrow> idb \<Rightarrow> (go_error + 'a option) \<times> idb" where
  "inSavepoint o1 fn d =
     (if o1 \<noteq> IoOk then (Inl ErrDb, d)
      else case fn d of
             (Inl e, _) \<Rightarrow> if e = ErrUnique then (Inr None, d) else (Inl e, d)
           | (Inr x, d') \<Rightarrow> (Inr (Some x), d'))"

section \<open>Invitations\<close>

datatype login_error = LoginErr go_error | ErrInvalidOrgInvite | ErrInvalidMagicToken | ErrDefaultOrgNotFound

definition IssueOrgInvite ::
  "(bytes \<Rightarrow> bytes) \<Rightarrow> io \<Rightarrow> int \<Rightarrow> string \<Rightarrow> bytes \<Rightarrow> string \<Rightarrow> string \<Rightarrow> string \<Rightarrow> string \<Rightarrow> int \<Rightarrow> idb \<Rightarrow> (go_error + string) \<times> idb" where
  "IssueOrgInvite sha o1 now newid rnd org by email role ttl d =
     (let token = b64_encode url_alphabet False rnd
      in case run_io o1 (CreateOrgInvite now newid org email role (sha token) by (now + ttl)) d of
           (None, d) \<Rightarrow> (Inl ErrDb, d)
         | (Some (Inl e), d) \<Rightarrow> (Inl e, d)
         | (Some (Inr _), d) \<Rightarrow> (Inr token, d))"

definition accept_invite :: "io \<Rightarrow> io \<Rightarrow> int \<Rightarrow> string \<Rightarrow> invite_row \<Rightarrow> idb \<Rightarrow> (go_error + unit) \<times> idb" where
  "accept_invite add mark now user v d =
     (case inSavepoint add (AddOrgMember now (iv_org_id v) user (iv_role v)) d of
        (Inl e, d) \<Rightarrow> (Inl e, d)
      | (Inr _, d) \<Rightarrow> if mark \<noteq> IoOk then (Inl ErrDb, d) else (Inr (), MarkOrgInviteAccepted now (iv_id v) d))"

definition ConsumeOrgInvite ::
  "(bytes \<Rightarrow> bytes) \<Rightarrow> (string \<Rightarrow> io) \<Rightarrow> int \<Rightarrow> string \<Rightarrow> string \<Rightarrow> idb \<Rightarrow> (login_error + invite_row) \<times> idb" where
  "ConsumeOrgInvite sha outc now token user d =
     in_tx (outc ''begin'') (outc ''commit'')
       (\<lambda>d. if outc ''invite'' \<noteq> IoOk then (Inl (LoginErr ErrDb), d)
            else case GetActiveOrgInviteByTokenHash now (sha token) d of
                   Inl e \<Rightarrow> (Inl (if e = ErrNoRows then ErrInvalidOrgInvite else LoginErr e), d)
                 | Inr v \<Rightarrow>
                     (case accept_invite (outc ''add'') (outc ''accepted'') now user v d of
                        (Inl e, d) \<Rightarrow> (Inl (LoginErr e), d)
                      | (Inr _, d) \<Rightarrow> (Inr v, d)))
       (LoginErr ErrDb) d"

section \<open>Magic links\<close>

definition IssueMagicLink ::
  "(bytes \<Rightarrow> bytes) \<Rightarrow> io \<Rightarrow> int \<Rightarrow> string \<Rightarrow> bytes \<Rightarrow> string \<Rightarrow> int \<Rightarrow> idb \<Rightarrow> (go_error + string) \<times> idb" where
  "IssueMagicLink sha o1 now newid rnd email ttl d =
     (let token = b64_encode url_alphabet False rnd
      in case run_io o1 (CreateMagicLinkToken now newid email (sha token) (now + ttl)) d of
           (None, d) \<Rightarrow> (Inl ErrDb, d)
         | (Some (Inl e), d) \<Rightarrow> (Inl e, d)
         | (Some (Inr _), d) \<Rightarrow> (Inr token, d))"

definition personalOrgName :: "string \<Rightarrow> string" where
  "personalOrgName email = email @ CHR 0x27 # ''s Workspace''"


text \<open>ASCII letters, digits and dashes of the local part; the suffix is 6 random bytes.\<close>

definition slugifyEmail :: "bytes \<Rightarrow> string \<Rightarrow> string" where
  "slugifyEmail suffix email =
     (let local = fst (cut email CHR ''@'');
          b = filter (\<lambda>r. CHR ''a'' \<le> r \<and> r \<le> CHR ''z'' \<or> CHR ''0'' \<le> r \<and> r \<le> CHR ''9'' \<or> r = CHR ''-'') (map lower_char local)
      in (if b = [] then ''user'' else b) @ ''-'' @ hex_encode suffix)"

text \<open>The generated values of one login, and the outcome of each statement.\<close>

record benv =
  be_out :: "string \<Rightarrow> io"
  be_now :: int
  be_userid :: string
  be_orgid :: string
  be_suffix :: bytes
  be_pub :: penv

fun apply_invites :: "benv \<Rightarrow> string \<Rightarrow> invite_row list \<Rightarrow> idb \<Rightarrow> (go_error + unit) \<times> idb" where
  "apply_invites env user [] d = (Inr (), d)"
| "apply_invites env user (v # vs) d =
     (case accept_invite (be_out env (''add:'' @ iv_id v)) (be_out env (''accepted:'' @ iv_id v)) (be_now env) user v d of
        (Inl e, d) \<Rightarrow> (Inl e, d)
      | (Inr _, d) \<Rightarrow> apply_invites env user vs d)"

definition get_or_create_user :: "benv \<Rightarrow> string \<Rightarrow> idb \<Rightarrow> (go_error + user_row) \<times> idb" where
  "get_or_create_user env email d =
     (if be_out env ''user'' \<noteq> IoOk then (Inl ErrDb, d)
      else case GetUserByEmail email d of
             Inr u \<Rightarrow> (Inr u, d)
           | Inl _ \<Rightarrow>
               (case inSavepoint (be_out env ''create'') (CreateUser (be_now env) (be_userid env) email None) d of
                  (Inl e, d) \<Rightarrow> (Inl e, d)
                | (Inr (Some u), d) \<Rightarrow> (Inr u, d)
                | (Inr None, d) \<Rightarrow> (if be_out env ''reload'' \<noteq> IoOk then Inl ErrDb else GetUserByEmail email d, d)))"

definition join_default_org ::
  "benv \<Rightarrow> user_row \<Rightarrow> string \<Rightarrow> string \<Rightarrow> idb \<Rightarrow> (login_error + user_row) \<times> idb" where
  "join_default_org env u slug role d =
     (if be_out env ''org'' \<noteq> IoOk then (Inl (LoginErr ErrDb), d)
      else case GetOrganizationBySlug slug d of
             Inl e \<Rightarrow> (Inl (if e = ErrNoRows then ErrDefaultOrgNotFound else LoginErr e), d)
           | Inr g \<Rightarrow>
               (case inSavepoint (be_out env ''join'') (AddOrgMember (be_now env) (og_id g) (us_id u) role) d of
                  (Inl e, d) \<Rightarrow> (Inl (LoginErr e), d)
                | (Inr _, d) \<Rightarrow> (Inr u, d)))"

definition personal_workspace :: "benv \<Rightarrow> user_row \<Rightarrow> 'r aworld \<Rightarrow> (login_error + user_row) \<times> 'r aworld" where
  "personal_workspace env u w =
     (if be_out env ''neworg'' \<noteq> IoOk then (Inl (LoginErr ErrDb), w)
      else case CreateOrganization (be_now env) (be_orgid env) (personalOrgName (us_email u))
                  (slugifyEmail (be_suffix env) (us_email u)) (aw_idb w) of
             (Inl e, _) \<Rightarrow> (Inl (LoginErr e), w)
           | (Inr g, d) \<Rightarrow>
               if be_out env ''owner'' \<noteq> IoOk then (Inl (LoginErr ErrDb), w)
               else case AddOrgMember (be_now env) (og_id g) (us_id u) RoleOwner d of
                      (Inl e, _) \<Rightarrow> (Inl (LoginErr e), w)
                    | (Inr _, d) \<Rightarrow>
                        (case SeedOperationalApp (be_pub env) (og_id g) (aw_m w) of
                           (Inl e, _) \<Rightarrow> (Inl (LoginErr e), w)
                         | (Inr _, m) \<Rightarrow> (Inr u, w\<lparr>aw_idb := d, aw_m := m\<rparr>)))"

definition BootstrapSession ::
  "benv \<Rightarrow> string \<Rightarrow> string \<Rightarrow> string \<Rightarrow> 'r aworld \<Rightarrow> (login_error + user_row) \<times> 'r aworld" where
  "BootstrapSession env email defaultOrgSlug defaultRole w =
     (case get_or_create_user env email (aw_idb w) of
        (Inl e, _) \<Rightarrow> (Inl (LoginErr e), w)
      | (Inr u, d) \<Rightarrow>
          if be_out env ''invites'' \<noteq> IoOk then (Inl (LoginErr ErrDb), w)
          else case apply_invites env (us_id u) (ListPendingOrgInvitesByEmail (be_now env) (us_email u) d) d of
                 (Inl e, _) \<Rightarrow> (Inl (LoginErr e), w)
               | (Inr _, d) \<Rightarrow>
                   (let w = w\<lparr>aw_idb := d\<rparr>
                    in if be_out env ''count'' \<noteq> IoOk then (Inl (LoginErr ErrDb), w)
                       else if CountOrgMembershipsForUser (us_id u) d > 0 then (Inr u, w)
                       else if defaultOrgSlug \<noteq> [] then
                         (case join_default_org env u defaultOrgSlug defaultRole d of
                            (r, d) \<Rightarrow> (r, w\<lparr>aw_idb := d\<rparr>))
                       else personal_workspace env u w))"

definition ConsumeMagicLink ::
  "(bytes \<Rightarrow> bytes) \<Rightarrow> benv \<Rightarrow> string \<Rightarrow> 'r aworld \<Rightarrow> (login_error + (user_row \<times> string)) \<times> 'r aworld" where
  "ConsumeMagicLink sha env token w =
     in_tx (be_out env ''begin'') (be_out env ''commit'')
       (\<lambda>w. if be_out env ''token'' \<noteq> IoOk then (Inl (LoginErr ErrDb), w)
            else case GetActiveMagicLinkToken (be_now env) (sha token) (aw_idb w) of
                   Inl e \<Rightarrow> (Inl (if e = ErrNoRows then ErrInvalidMagicToken else LoginErr e), w)
                 | Inr row \<Rightarrow>
                     (case BootstrapSession env (ml_email row) [] RoleMember w of
                        (Inl e, w) \<Rightarrow> (Inl e, w)
                      | (Inr u, w) \<Rightarrow>
                          if be_out env ''used'' \<noteq> IoOk then (Inl (LoginErr ErrDb), w)
                          else
                            (let w = w\<lparr>aw_idb := MarkMagicLinkUsed (be_now env) (ml_id row) (aw_idb w)\<rparr>
                             in if be_out env ''first'' \<noteq> IoOk then (Inl (LoginErr ErrDb), w)
                                else case GetFirstOrgForUser (us_id u) (aw_idb w) of
                                       Inl e \<Rightarrow> (Inl (LoginErr e), w)
                                     | Inr g \<Rightarrow> (Inr (u, g), w))))
       (LoginErr ErrDb) w"

end
