(* ===== verification/Identity.thy ===== *)
theory Identity
  imports Auth Usage
begin

text \<open>
  The audit log (src/internal/audit/log.go) and the session-only management of organizations and members
  (src/internal/api/identity/members.go, orgs.go), and the operator's plan change (src/internal/admin/quota.go).
  A handler takes the principal that the middlewares attached, the parameters of its path and its decoded body
  (\<open>None\<close>: not JSON), and answers a status and the session cookie it sets, if any. \<open>ie_between\<close> is what
  other requests commit between a handler's reads and its write.
\<close>

section \<open>Audit log\<close>

record entry =
  ent_action :: string
  ent_target_type :: string
  ent_target :: "string option"
  ent_meta :: "(string \<times> jval) list"
  ent_org :: string

record ienv =
  ie_out :: "string \<Rightarrow> io"
  ie_now :: int
  ie_between :: "idb \<Rightarrow> idb"
  ie_hmac :: "bytes \<Rightarrow> bytes \<Rightarrow> bytes"
  ie_secret :: bytes
  ie_newid :: string
  ie_suffix :: bytes
  ie_pub :: penv

definition audit_Log :: "ienv \<Rightarrow> Principal option \<Rightarrow> entry \<Rightarrow> idb \<Rightarrow> idb" where
  "audit_Log env p e d =
     (case p of
        None \<Rightarrow> d
      | Some p \<Rightarrow>
          if pr_Source p = SourcePortal then d
          else
            (let orgID = (if ent_org e = uuid_Nil then pr_OrgID p else ent_org e)
             in if orgID = uuid_Nil then d
                else
                  (let name = (if ie_out env ''audit_org'' \<noteq> IoOk then None
                               else case GetOrganizationByID orgID d of Inl _ \<Rightarrow> None | Inr g \<Rightarrow> Some (og_name g));
                       session = (pr_Source p = SourceSession);
                       row = \<lparr>au_org_id = Some orgID, au_org_name = name,
                              au_actor_user = (if session then Some (pr_UserID p) else None),
                              au_actor_key = (if session then None else Some (pr_APIKeyID p)),
                              au_actor_email = (if session \<and> pr_UserEmail p \<noteq> [] then Some (pr_UserEmail p) else None),
                              au_action = ent_action e, au_target_type = ent_target_type e, au_target_id = ent_target e,
                              au_metadata = jshow (JObj (sort_key fst (ent_meta e))), au_created_at = ie_now env\<rparr>
                   in snd (run_io (ie_out env ''audit'') (InsertAuditLog row) d))))"

section \<open>Members\<close>

type_synonym answer = "int \<times> string option"

definition validMemberRole :: "string \<Rightarrow> bool" where
  "validMemberRole s \<longleftrightarrow> s = RoleOwner \<or> s = RoleAdmin \<or> s = RoleMember"

text \<open>An errored lookup of the caller reads as no membership; one of the target is told apart.\<close>

definition fetchCallerAndTarget ::
  "ienv \<Rightarrow> string \<Rightarrow> string \<Rightarrow> string \<Rightarrow> idb \<Rightarrow> (go_error + member_row) \<times> (go_error + member_row)" where
  "fetchCallerAndTarget env org callerID targetID d =
     (if ie_out env ''caller'' \<noteq> IoOk then Inl ErrDb else GetOrgMember org callerID d,
      if ie_out env ''target'' \<noteq> IoOk then Inl ErrDb else GetOrgMember org targetID d)"

definition user_of :: "Principal option \<Rightarrow> string" where
  "user_of p = (case p of None \<Rightarrow> uuid_Nil | Some p \<Rightarrow> pr_UserID p)"

definition role_change :: "string \<Rightarrow> string \<Rightarrow> string \<Rightarrow> string \<Rightarrow> entry" where
  "role_change org user from to = \<lparr>ent_action = ''member.role_change'', ent_target_type = ''member'', ent_target = Some user,
     ent_meta = [(''user_id'', JStr user), (''from'', JStr from), (''to'', JStr to)], ent_org = org\<rparr>"

definition PatchMember ::
  "ienv \<Rightarrow> Principal option \<Rightarrow> string \<Rightarrow> string \<Rightarrow> string option \<Rightarrow> idb \<Rightarrow> answer \<times> idb" where
  "PatchMember env p orgParam userParam body d =
     (if RequireSession p \<noteq> None then ((403, None), d)
      else case uuid_Parse orgParam of None \<Rightarrow> ((400, None), d) | Some org \<Rightarrow>
           case uuid_Parse userParam of None \<Rightarrow> ((400, None), d) | Some user \<Rightarrow>
           case body of None \<Rightarrow> ((400, None), d) | Some role \<Rightarrow>
           if \<not> validMemberRole role then ((400, None), d)
           else case fetchCallerAndTarget env org (user_of p) user d of
                  (Inl _, _) \<Rightarrow> ((403, None), d)
                | (Inr caller, target) \<Rightarrow>
                    if LessThan (mb_role caller) RoleAdmin then ((403, None), d)
                    else case target of
                           Inl e \<Rightarrow> ((if e = ErrNoRows then 404 else 500, None), d)
                         | Inr target \<Rightarrow>
                             if role = RoleOwner \<and> mb_role target \<noteq> RoleOwner then ((400, None), d)
                             else if mb_role target = RoleOwner \<and> role \<noteq> RoleOwner then
                               (if mb_role caller \<noteq> RoleOwner then ((403, None), d)
                                else case run_io (ie_out env ''write'') (DemoteOrgOwnerIfNotLast org user role) (ie_between env d) of
                                       (Some (Inr n), d) \<Rightarrow>
                                         if n = 0 then ((409, None), d)
                                         else ((204, None), audit_Log env p (role_change org user (mb_role target) role) d)
                                     | (_, d) \<Rightarrow> ((500, None), d))
                             else if mb_role target = role then ((204, None), d)
                             else case run_io (ie_out env ''write'') (UpdateOrgMemberRole org user role) (ie_between env d) of
                                    (Some (Inr _), d) \<Rightarrow> ((204, None), audit_Log env p (role_change org user (mb_role target) role) d)
                                  | (_, d) \<Rightarrow> ((500, None), d))"

text \<open>The cookie for the next organization of a user who left the active one.\<close>

definition next_cookie :: "ienv \<Rightarrow> Principal option \<Rightarrow> string \<Rightarrow> idb \<Rightarrow> string option" where
  "next_cookie env p org d =
     (case p of
        None \<Rightarrow> None
      | Some p \<Rightarrow>
          if pr_OrgID p \<noteq> org then None
          else
            (let nextOrg = (if ie_out env ''next'' \<noteq> IoOk then uuid_Nil
                            else case GetFirstOrgForUser (pr_UserID p) d of Inl _ \<Rightarrow> uuid_Nil | Inr g \<Rightarrow> g)
             in Some (Issue (ie_hmac env) (ie_secret env) (ie_now env) (pr_UserID p) nextOrg (pr_SessionEpoch p))))"

definition removed :: "ienv \<Rightarrow> Principal option \<Rightarrow> string \<Rightarrow> string \<Rightarrow> idb \<Rightarrow> answer \<times> idb" where
  "removed env p org user d =
     (let isSelf = (user = user_of p);
          d = audit_Log env p \<lparr>ent_action = ''member.remove'', ent_target_type = ''member'', ent_target = Some user,
                ent_meta = [(''user_id'', JStr user), (''removed_by_self'', JBool isSelf)], ent_org = org\<rparr> d
      in ((204, if isSelf then next_cookie env p org d else None), d))"

definition RemoveMember :: "ienv \<Rightarrow> Principal option \<Rightarrow> string \<Rightarrow> string \<Rightarrow> idb \<Rightarrow> answer \<times> idb" where
  "RemoveMember env p orgParam userParam d =
     (if RequireSession p \<noteq> None then ((403, None), d)
      else case uuid_Parse orgParam of None \<Rightarrow> ((400, None), d) | Some org \<Rightarrow>
           case uuid_Parse userParam of None \<Rightarrow> ((400, None), d) | Some user \<Rightarrow>
           let isSelf = (user = user_of p)
           in case fetchCallerAndTarget env org (user_of p) user d of
                (Inl _, _) \<Rightarrow> ((403, None), d)
              | (Inr caller, target) \<Rightarrow>
                  if \<not> isSelf \<and> LessThan (mb_role caller) RoleAdmin then ((403, None), d)
                  else case target of
                         Inl e \<Rightarrow> ((if e = ErrNoRows then 404 else 500, None), d)
                       | Inr target \<Rightarrow>
                           if mb_role target = RoleOwner then
                             (if \<not> isSelf \<and> mb_role caller \<noteq> RoleOwner then ((403, None), d)
                              else case run_io (ie_out env ''write'') (DeleteOrgOwnerIfNotLast org user) (ie_between env d) of
                                     (None, d) \<Rightarrow> ((500, None), d)
                                   | (Some n, d) \<Rightarrow> if n = 0 then ((409, None), d) else removed env p org user d)
                           else case run_io (ie_out env ''write'') (\<lambda>d. ((), DeleteOrgMember org user d)) (ie_between env d) of
                                  (None, d) \<Rightarrow> ((500, None), d)
                                | (Some _, d) \<Rightarrow> removed env p org user d)"

definition ListMembers ::
  "ienv \<Rightarrow> Principal option \<Rightarrow> string \<Rightarrow> idb \<Rightarrow> int + (member_row \<times> user_row) list" where
  "ListMembers env p orgParam d =
     (if RequireSession p \<noteq> None then Inl 403
      else case uuid_Parse orgParam of None \<Rightarrow> Inl 400 | Some org \<Rightarrow>
           if ie_out env ''caller'' \<noteq> IoOk then Inl 403
           else case GetOrgMember org (user_of p) d of
                  Inl _ \<Rightarrow> Inl 403
                | Inr _ \<Rightarrow> if ie_out env ''list'' \<noteq> IoOk then Inl 500 else Inr (ListOrgMembersByOrg org d))"

section \<open>Organizations\<close>

fun trim_left :: "string \<Rightarrow> string" where
  "trim_left s = dropWhile (\<lambda>c. c \<in> {CHR '' '', CHR 0x09, CHR 0x0A, CHR 0x0B, CHR 0x0C, CHR 0x0D}) s"

text \<open>\<^verbatim>\<open>strings.TrimSpace\<close> on ASCII white space.\<close>

definition TrimSpace :: "string \<Rightarrow> string" where
  "TrimSpace s = rev (trim_left (rev (trim_left s)))"

fun slug_runes :: "string \<Rightarrow> bool \<Rightarrow> string \<Rightarrow> string" where
  "slug_runes b prevDash [] = b"
| "slug_runes b prevDash (r # rs) =
     (if CHR ''a'' \<le> r \<and> r \<le> CHR ''z'' \<or> CHR ''0'' \<le> r \<and> r \<le> CHR ''9'' then slug_runes (b @ [r]) False rs
      else if \<not> prevDash \<and> b \<noteq> [] then slug_runes (b @ ''-'') True rs
      else slug_runes b prevDash rs)"

definition slugifyName :: "bytes \<Rightarrow> string \<Rightarrow> string" where
  "slugifyName suffix name =
     (let b = rev (dropWhile (\<lambda>c. c = CHR ''-'') (rev (slug_runes [] False (map lower_char name))))
      in (if b = [] then ''org'' else b) @ ''-'' @ hex_encode suffix)"

definition CreateOrg :: "ienv \<Rightarrow> Principal option \<Rightarrow> string option \<Rightarrow> 'r aworld \<Rightarrow> answer \<times> 'r aworld" where
  "CreateOrg env p body w =
     (if RequireSession p \<noteq> None then ((403, None), w)
      else case body of None \<Rightarrow> ((400, None), w) | Some name \<Rightarrow>
        (let name = TrimSpace name; slug = slugifyName (ie_suffix env) name
         in if name = [] then ((400, None), w)
            else
              (case in_tx (ie_out env ''begin'') (ie_out env ''commit'')
                 (\<lambda>w. if ie_out env ''neworg'' \<noteq> IoOk then (Inl 400, w)
                      else case CreateOrganization (ie_now env) (ie_newid env) name slug (aw_idb w) of
                             (Inl _, _) \<Rightarrow> (Inl 400, w)
                           | (Inr g, d) \<Rightarrow>
                               if ie_out env ''owner'' \<noteq> IoOk then (Inl 500, w)
                               else case AddOrgMember (ie_now env) (og_id g) (user_of p) RoleOwner d of
                                      (Inl _, _) \<Rightarrow> (Inl 500, w)
                                    | (Inr _, d) \<Rightarrow>
                                        (case SeedOperationalApp (ie_pub env) (og_id g) (aw_m w) of
                                           (Inl _, _) \<Rightarrow> (Inl 500, w)
                                         | (Inr _, m) \<Rightarrow> (Inr g, w\<lparr>aw_idb := d, aw_m := m\<rparr>)))
                 500 w of
                 (Inl st, w) \<Rightarrow> ((st, None), w)
               | (Inr g, w) \<Rightarrow>
                   ((201, None), w\<lparr>aw_idb := audit_Log env p \<lparr>ent_action = ''org.create'', ent_target_type = ''org'',
                       ent_target = Some (og_id g), ent_meta = [(''name'', JStr (og_name g)), (''slug'', JStr (og_slug g))],
                       ent_org = og_id g\<rparr> (aw_idb w)\<rparr>))))"

definition SelectOrg :: "ienv \<Rightarrow> Principal option \<Rightarrow> string option \<Rightarrow> idb \<Rightarrow> answer" where
  "SelectOrg env p body d =
     (if RequireSession p \<noteq> None then (403, None)
      else case body of None \<Rightarrow> (400, None) | Some orgParam \<Rightarrow>
           case uuid_Parse orgParam of None \<Rightarrow> (400, None) | Some org \<Rightarrow>
           if org = uuid_Nil then (400, None)
           else if ie_out env ''caller'' \<noteq> IoOk then (500, None)
           else case GetOrgMember org (user_of p) d of
                  Inl _ \<Rightarrow> (403, None)
                | Inr _ \<Rightarrow>
                    (200, map_option (\<lambda>p. Issue (ie_hmac env) (ie_secret env) (ie_now env) (pr_UserID p) org (pr_SessionEpoch p)) p))"

text \<open>The body may leave the name out.\<close>

definition UpdateOrg :: "ienv \<Rightarrow> Principal option \<Rightarrow> string \<Rightarrow> string option option \<Rightarrow> idb \<Rightarrow> answer \<times> idb" where
  "UpdateOrg env p orgParam body d =
     (if RequireSession p \<noteq> None then ((403, None), d)
      else case uuid_Parse orgParam of None \<Rightarrow> ((400, None), d) | Some org \<Rightarrow>
           if ie_out env ''caller'' \<noteq> IoOk then ((403, None), d)
           else case GetOrgMember org (user_of p) d of
                  Inl _ \<Rightarrow> ((403, None), d)
                | Inr caller \<Rightarrow>
                    if LessThan (mb_role caller) RoleAdmin then ((403, None), d)
                    else case body of None \<Rightarrow> ((400, None), d) | Some None \<Rightarrow> ((400, None), d) | Some (Some name) \<Rightarrow>
                      (let newName = TrimSpace name
                       in if newName = [] then ((400, None), d)
                          else if ie_out env ''org'' \<noteq> IoOk then ((500, None), d)
                          else case GetOrganizationByID org d of
                                 Inl e \<Rightarrow> ((404, None), d)
                               | Inr old \<Rightarrow>
                                   if og_name old = newName then ((200, None), d)
                                   else case run_io (ie_out env ''write'') (UpdateOrgName (ie_now env) org newName) d of
                                          (Some (Inr g), d) \<Rightarrow>
                                            ((200, None), audit_Log env p \<lparr>ent_action = ''org.update'', ent_target_type = ''org'',
                                               ent_target = Some org,
                                               ent_meta = [(''changed'', JObj [(''name'', JObj [(''from'', JStr (og_name old)), (''to'', JStr (og_name g))])])],
                                               ent_org = org\<rparr> d)
                                        | (_, d) \<Rightarrow> ((500, None), d)))"

text \<open>The deletion also answers the ingest tokens to drop from the source cache (\<open>evict\<close>: a cache is wired).\<close>

definition DeleteOrg ::
  "ienv \<Rightarrow> bool \<Rightarrow> db \<Rightarrow> Principal option \<Rightarrow> string \<Rightarrow> idb \<Rightarrow> (answer \<times> string list) \<times> idb" where
  "DeleteOrg env evict sd p orgParam d =
     (if RequireSession p \<noteq> None then (((403, None), []), d)
      else case uuid_Parse orgParam of None \<Rightarrow> (((400, None), []), d) | Some org \<Rightarrow>
           if ie_out env ''caller'' \<noteq> IoOk then (((403, None), []), d)
           else case GetOrgMember org (user_of p) d of
                  Inl _ \<Rightarrow> (((403, None), []), d)
                | Inr caller \<Rightarrow>
                    if mb_role caller \<noteq> RoleOwner then (((403, None), []), d)
                    else
                      (let meta = (if ie_out env ''org'' \<noteq> IoOk then []
                                   else case GetOrganizationByID org d of
                                          Inl _ \<Rightarrow> [] | Inr g \<Rightarrow> [(''name'', JStr (og_name g)), (''slug'', JStr (og_slug g))]);
                           d = audit_Log env p \<lparr>ent_action = ''org.delete'', ent_target_type = ''org'', ent_target = Some org,
                                 ent_meta = meta, ent_org = org\<rparr> d;
                           tokens = (if evict \<and> ie_out env ''sources'' = IoOk then map so_ingest_token (ListSourcesByOrg org sd) else [])
                       in case run_io (ie_out env ''write'') (\<lambda>d. ((), DeleteOrganization org d)) d of
                            (None, d) \<Rightarrow> (((500, None), []), d)
                          | (Some _, d) \<Rightarrow> (((204, next_cookie env p org d), tokens), d)))"

definition TransferOwnership ::
  "ienv \<Rightarrow> Principal option \<Rightarrow> string \<Rightarrow> string option \<Rightarrow> idb \<Rightarrow> answer \<times> idb" where
  "TransferOwnership env p orgParam body d =
     (if RequireSession p \<noteq> None then ((403, None), d)
      else case uuid_Parse orgParam of None \<Rightarrow> ((400, None), d) | Some org \<Rightarrow>
           case body of None \<Rightarrow> ((400, None), d) | Some toParam \<Rightarrow>
           case uuid_Parse toParam of None \<Rightarrow> ((400, None), d) | Some toID \<Rightarrow>
           if toID = user_of p then ((400, None), d)
           else case run_io (ie_out env ''write'') (TransferOrgOwnership toID (user_of p) org) d of
                  (None, d) \<Rightarrow> ((500, None), d)
                | (Some n, d) \<Rightarrow>
                    if n = 0 then ((403, None), d)
                    else ((204, None), audit_Log env p \<lparr>ent_action = ''org.transfer'', ent_target_type = ''org'', ent_target = Some org,
                           ent_meta = [(''to_user_id'', JStr toID), (''from_user_id'', JStr (user_of p))], ent_org = org\<rparr> d))"

section \<open>Plans\<close>

record plan_body =
  pb_plan :: "string option"
  pb_events_soft :: "int option"
  pb_events_hard :: "int option"
  pb_messages_soft :: "int option"
  pb_messages_hard :: "int option"
  pb_period :: "string option"

definition quota_given :: "plan_body \<Rightarrow> bool" where
  "quota_given b \<longleftrightarrow> pb_events_soft b \<noteq> None \<or> pb_events_hard b \<noteq> None \<or> pb_messages_soft b \<noteq> None \<or>
     pb_messages_hard b \<noteq> None \<or> pb_period b \<noteq> None"

text \<open>The limits a request asks for: the preset's, or the stored ones with the given fields replaced.\<close>

definition next_limits :: "plan_body \<Rightarrow> string \<Rightarrow> org_row \<Rightarrow> Limits" where
  "next_limits b plan cur =
     (case PresetFor plan of
        Some l \<Rightarrow> l
      | None \<Rightarrow> \<lparr>EventsSoft = opt_default (og_events_soft cur) (pb_events_soft b), EventsHard = opt_default (og_events_hard cur) (pb_events_hard b),
                 MessagesSoft = opt_default (og_messages_soft cur) (pb_messages_soft b),
                 MessagesHard = opt_default (og_messages_hard cur) (pb_messages_hard b), Period = opt_default (og_period cur) (pb_period b)\<rparr>)"

definition handlePatchOrgPlan :: "ienv \<Rightarrow> Principal option \<Rightarrow> string \<Rightarrow> plan_body option \<Rightarrow> idb \<Rightarrow> int \<times> idb" where
  "handlePatchOrgPlan env p orgParam body d =
     (case uuid_Parse orgParam of None \<Rightarrow> (400, d) | Some org \<Rightarrow>
      case body of None \<Rightarrow> (400, d) | Some b \<Rightarrow>
      if ie_out env ''quota'' \<noteq> IoOk then (500, d)
      else case GetOrgQuota org d of
             Inl _ \<Rightarrow> (404, d)
           | Inr cur \<Rightarrow>
               (let plan = opt_default (og_plan cur) (pb_plan b)
                in if \<not> ValidPlan plan then (400, d)
                   else if PresetFor plan \<noteq> None \<and> quota_given b then (400, d)
                   else
                     (let l = next_limits b plan cur
                      in if \<not> ValidPeriod (Period l) then (400, d)
                         else if EventsSoft l < 0 \<or> EventsHard l < 0 \<or> MessagesSoft l < 0 \<or> MessagesHard l < 0 then (400, d)
                         else case run_io (ie_out env ''write'')
                                (UpdateOrgQuota (ie_now env) org plan (EventsSoft l) (EventsHard l) (MessagesSoft l) (MessagesHard l) (Period l)) d of
                                (Some (Inr g), d) \<Rightarrow>
                                  (200, audit_Log env p \<lparr>ent_action = ''org.plan.update'', ent_target_type = ''org'', ent_target = Some org,
                                     ent_meta = [(''preset'', JBool (PresetFor plan \<noteq> None)), (''plan'', JStr (og_plan g)),
                                       (''quota_period'', JStr (og_period g)), (''quota_events_soft'', JNum (og_events_soft g)),
                                       (''quota_events_hard'', JNum (og_events_hard g)), (''quota_messages_soft'', JNum (og_messages_soft g)),
                                       (''quota_messages_hard'', JNum (og_messages_hard g))], ent_org = org\<rparr> d)
                              | (_, d) \<Rightarrow> (500, d))))"

end
