(* ===== verification/Identity_Props.thy ===== *)
theory Identity_Props
  imports Identity Webhook_Props
begin

text \<open>
  Properties of identity: an organization never loses its last owner as long as a handler's reads and its write
  are not interleaved with another request, and the interleaving that makes it lose him; session and portal
  tokens; revocation; single use of magic links and invitations.
\<close>

section \<open>Steps\<close>

text \<open>
  One request of a step runs without others in between. New identifiers are fresh; nothing else is assumed
  of arguments, outcomes and principals.
\<close>

inductive id_step :: "'r aworld \<Rightarrow> 'r aworld \<Rightarrow> bool" where
  patch: "ie_between env = id \<Longrightarrow> id_step w (w\<lparr>aw_idb := snd (PatchMember env p oi ui body (aw_idb w))\<rparr>)"
| remove: "ie_between env = id \<Longrightarrow> id_step w (w\<lparr>aw_idb := snd (RemoveMember env p oi ui (aw_idb w))\<rparr>)"
| transfer: "id_step w (w\<lparr>aw_idb := snd (TransferOwnership env p oi body' (aw_idb w))\<rparr>)"
| rename: "id_step w (w\<lparr>aw_idb := snd (UpdateOrg env p oi body2 (aw_idb w))\<rparr>)"
| delete: "id_step w (w\<lparr>aw_idb := snd (DeleteOrg env evict sd p oi (aw_idb w))\<rparr>)"
| create: "ie_newid env \<notin> og_id ` set (t_orgs (aw_idb w)) \<Longrightarrow> id_step w (snd (CreateOrg env p body3 w))"
| plan: "id_step w (w\<lparr>aw_idb := snd (handlePatchOrgPlan env p oi pb (aw_idb w))\<rparr>)"
| invite: "id_step w (w\<lparr>aw_idb := snd (IssueOrgInvite sha o1 now i rnd g by email role ttl (aw_idb w))\<rparr>)"
| join: "id_step w (w\<lparr>aw_idb := snd (ConsumeOrgInvite sha outc now token user (aw_idb w))\<rparr>)"
| login: "be_orgid benv \<notin> og_id ` set (t_orgs (aw_idb w)) \<Longrightarrow> id_step w (snd (ConsumeMagicLink sha benv token w))"

section \<open>Owners\<close>

definition mkey :: "member_row \<Rightarrow> string \<times> string" where
  "mkey m = (mb_org_id m, mb_user_id m)"

text \<open>Memberships are unique, and every organization has an owner.\<close>

definition owned :: "string list \<Rightarrow> member_row list \<Rightarrow> bool" where
  "owned os ms \<longleftrightarrow> distinct (map mkey ms) \<and> (\<forall>i \<in> set os. \<exists>m \<in> set ms. mb_org_id m = i \<and> mb_role m = ''owner'')"

definition id_inv :: "idb \<Rightarrow> bool" where
  "id_inv d \<longleftrightarrow> owned (map og_id (t_orgs d)) (t_members d)"

lemma id_inv_cong: "map og_id (t_orgs d') = map og_id (t_orgs d) \<Longrightarrow> t_members d' = t_members d \<Longrightarrow> id_inv d' = id_inv d"
  by (simp add: id_inv_def)

lemma audit_frame [simp]: "t_orgs (audit_Log env p e d) = t_orgs d" "t_members (audit_Log env p e d) = t_members d"
  by (cases "ie_out env ''audit''"; simp add: audit_Log_def InsertAuditLog_def Let_def split: option.split)+

lemma owned_upd:
  assumes "owned os ms" "\<And>m. mkey (f m) = mkey m"
    and "\<And>i. i \<in> set os \<Longrightarrow> \<exists>m \<in> set (upd_where P f ms). mb_org_id m = i \<and> mb_role m = ''owner''"
  shows "owned os (upd_where P f ms)"
proof -
  have "map mkey (upd_where P f ms) = map mkey ms"
    using assms(2) by (auto simp: upd_where_def)
  then show ?thesis using assms by (simp add: owned_def)
qed

lemma same_member:
  assumes "distinct (map mkey ms)" "m \<in> set ms" "m' \<in> set ms" "is_member org user m" "is_member org user m'"
  shows "m = m'"
  using assms by (auto simp: is_member_def mkey_def distinct_map inj_on_def)

lemma another_owner:
  assumes "distinct (map mkey (t_members d))" "1 < length (owners org d)"
  shows "\<exists>m \<in> set (owners org d). mb_user_id m \<noteq> user"
proof (rule ccontr)
  assume "\<not> ?thesis"
  then have "map mkey (owners org d) = map (\<lambda>_. (org, user)) (owners org d)"
    by (auto simp: mkey_def owners_def)
  moreover have "distinct (map mkey (owners org d))"
    using assms(1) unfolding owners_def by (rule distinct_map_filter)
  ultimately have "distinct (replicate (length (owners org d)) (org, user))" by (simp add: map_replicate_const)
  moreover obtain n where "length (owners org d) = Suc (Suc n)" using assms(2) by (cases "length (owners org d)"; cases "length (owners org d) - 1") auto
  ultimately show False by simp
qed

lemma owner_of:
  assumes "id_inv d" "i \<in> og_id ` set (t_orgs d)"
  obtains m where "m \<in> set (t_members d)" "mb_org_id m = i" "mb_role m = ''owner''"
  using assms by (auto simp: id_inv_def owned_def)

lemma demote_ok: "id_inv d \<Longrightarrow> id_inv (snd (DemoteOrgOwnerIfNotLast org user role d))"
proof -
  assume inv: "id_inv d"
  let ?P = "guarded_owner org user d" and ?f = "\<lambda>m. m\<lparr>mb_role := role\<rparr>"
  have "\<exists>m \<in> set (upd_where ?P ?f (t_members d)). mb_org_id m = i \<and> mb_role m = ''owner''" if "i \<in> og_id ` set (t_orgs d)" for i
  proof -
    from inv that obtain m where m: "m \<in> set (t_members d)" "mb_org_id m = i" "mb_role m = ''owner''" by (rule owner_of)
    show ?thesis
    proof (cases "?P m")
      case True
      then obtain m' where "m' \<in> set (owners org d)" "mb_user_id m' \<noteq> user"
        using inv another_owner[of d org user] by (auto simp: guarded_owner_def id_inv_def owned_def)
      then show ?thesis using True m
        by (auto simp: upd_where_def guarded_owner_def is_member_def owners_def intro!: bexI[of _ m'])
    qed (use m in \<open>auto simp: upd_where_def intro!: bexI[of _ m]\<close>)
  qed
  then have "owned (map og_id (t_orgs d)) (upd_where ?P ?f (t_members d))"
    using inv by (intro owned_upd) (auto simp: id_inv_def mkey_def)
  then show ?thesis using inv by (auto simp: DemoteOrgOwnerIfNotLast_def Let_def id_inv_def)
qed

lemma owned_filter:
  "owned os ms \<Longrightarrow> (\<And>i. i \<in> set os \<Longrightarrow> \<exists>m \<in> set ms. Q' m \<and> mb_org_id m = i \<and> mb_role m = ''owner'') \<Longrightarrow> owned os (filter Q' ms)"
  by (auto simp: owned_def distinct_map_filter)

lemma delete_owner_ok: "id_inv d \<Longrightarrow> id_inv (snd (DeleteOrgOwnerIfNotLast org user d))"
proof -
  assume inv: "id_inv d"
  let ?P = "guarded_owner org user d"
  have "\<exists>m \<in> set (t_members d). \<not> ?P m \<and> mb_org_id m = i \<and> mb_role m = ''owner''" if "i \<in> og_id ` set (t_orgs d)" for i
  proof -
    from inv that obtain m where m: "m \<in> set (t_members d)" "mb_org_id m = i" "mb_role m = ''owner''" by (rule owner_of)
    show ?thesis
    proof (cases "?P m")
      case True
      then obtain m' where "m' \<in> set (owners org d)" "mb_user_id m' \<noteq> user"
        using inv another_owner[of d org user] by (auto simp: guarded_owner_def id_inv_def owned_def)
      then show ?thesis using True m by (auto simp: guarded_owner_def is_member_def owners_def intro!: bexI[of _ m'])
    qed (use m in blast)
  qed
  then show ?thesis using inv by (auto simp: DeleteOrgOwnerIfNotLast_def id_inv_def intro!: owned_filter)
qed

text \<open>Writes to a member who is no owner.\<close>

lemma non_owner_kept:
  assumes "id_inv d" "GetOrgMember org user d = Inr t" "mb_role t \<noteq> ''owner''" "m \<in> set (t_members d)" "mb_role m = ''owner''"
  shows "\<not> is_member org user m"
proof -
  have "t \<in> set (t_members d)" "is_member org user t"
    using assms(2) by (auto simp: GetOrgMember_def one_row_def find_Some_iff split: option.splits)
  then show ?thesis using same_member[of "t_members d" t m org user] assms by (auto simp: id_inv_def owned_def)
qed

lemma update_role_ok:
  assumes "id_inv d" "GetOrgMember org user d = Inr t" "mb_role t \<noteq> ''owner''"
  shows "id_inv (snd (UpdateOrgMemberRole org user role d))"
proof -
  have "owned (map og_id (t_orgs d)) (upd_where (is_member org user) (\<lambda>m. m\<lparr>mb_role := role\<rparr>) (t_members d))"
  proof (rule owned_upd)
    show "owned (map og_id (t_orgs d)) (t_members d)" using assms(1) by (simp add: id_inv_def)
    fix i assume "i \<in> set (map og_id (t_orgs d))"
    then obtain m where "m \<in> set (t_members d)" "mb_org_id m = i" "mb_role m = ''owner''"
      using assms(1) by (auto simp: id_inv_def owned_def)
    then show "\<exists>m \<in> set (upd_where (is_member org user) (\<lambda>m. m\<lparr>mb_role := role\<rparr>) (t_members d)). mb_org_id m = i \<and> mb_role m = ''owner''"
      using non_owner_kept[OF assms] by (auto simp: upd_where_def intro!: bexI[of _ m])
  qed (simp add: mkey_def)
  then show ?thesis using assms(1) by (auto simp: UpdateOrgMemberRole_def id_inv_def)
qed

lemma delete_member_ok:
  assumes "id_inv d" "GetOrgMember org user d = Inr t" "mb_role t \<noteq> ''owner''"
  shows "id_inv (DeleteOrgMember org user d)"
proof -
  have "owned (map og_id (t_orgs d)) (filter (\<lambda>m. \<not> is_member org user m) (t_members d))"
  proof (rule owned_filter)
    show "owned (map og_id (t_orgs d)) (t_members d)" using assms(1) by (simp add: id_inv_def)
    fix i assume "i \<in> set (map og_id (t_orgs d))"
    with assms(1) obtain m where "m \<in> set (t_members d)" "mb_org_id m = i" "mb_role m = ''owner''"
      by (auto elim: owner_of)
    then show "\<exists>m \<in> set (t_members d). \<not> is_member org user m \<and> mb_org_id m = i \<and> mb_role m = ''owner''"
      using non_owner_kept[OF assms] by blast
  qed
  then show ?thesis by (simp add: id_inv_def DeleteOrgMember_def)
qed

lemma transfer_ok: "id_inv d \<Longrightarrow> id_inv (snd (TransferOrgOwnership new old org d))"
proof -
  assume inv: "id_inv d"
  define P where "P m \<longleftrightarrow> mb_org_id m = org \<and> list_ex (\<lambda>g. is_member org old g \<and> mb_role g = ''owner'') (t_members d) \<and>
      list_ex (is_member org new) (t_members d)" for m :: member_row
  define f where "f m = m\<lparr>mb_role := (if mb_user_id m = new then ''owner''
      else if mb_role m = ''owner'' \<and> mb_user_id m = old then ''admin'' else mb_role m)\<rparr>" for m :: member_row
  have "owned (map og_id (t_orgs d)) (upd_where P f (t_members d))"
  proof (rule owned_upd)
    show "owned (map og_id (t_orgs d)) (t_members d)" using inv by (simp add: id_inv_def)
    show "mkey (f m) = mkey m" for m by (simp add: f_def mkey_def)
    fix i assume "i \<in> set (map og_id (t_orgs d))"
    then obtain m where m: "m \<in> set (t_members d)" "mb_org_id m = i" "mb_role m = ''owner''"
      using inv by (auto simp: id_inv_def owned_def)
    show "\<exists>m \<in> set (upd_where P f (t_members d)). mb_org_id m = i \<and> mb_role m = ''owner''"
    proof (cases "P m")
      case True
      then obtain n where n: "n \<in> set (t_members d)" "is_member org new n" by (auto simp: P_def list_ex_iff)
      then have "P n" using True by (simp add: P_def is_member_def)
      then have "f n \<in> set (upd_where P f (t_members d))" using n(1) by (force simp: upd_where_def)
      moreover have "mb_org_id (f n) = i" "mb_role (f n) = ''owner''"
        using n(2) m(2) True by (simp_all add: f_def is_member_def P_def)
      ultimately show ?thesis by blast
    qed (use m in \<open>auto simp: upd_where_def intro!: bexI[of _ m]\<close>)
  qed
  then show ?thesis by (simp add: TransferOrgOwnership_def Let_def id_inv_def P_def[abs_def] f_def[abs_def])
qed

section \<open>Handlers\<close>

lemma audit_inv [simp]: "id_inv (audit_Log env p e d) = id_inv d"
  by (rule id_inv_cong) simp_all

lemma run_inv: "id_inv d \<Longrightarrow> id_inv (snd (f d)) \<Longrightarrow> id_inv (snd (run_io o1 f d))"
  by (rule run_io_inv)

lemma fetch_target: "snd (fetchCallerAndTarget env org c u d) = Inr t \<Longrightarrow> GetOrgMember org u d = Inr t"
  by (auto simp: fetchCallerAndTarget_def split: if_splits)

lemma removed_inv [simp]: "id_inv (snd (removed env p org user d)) = id_inv d"
  by (simp add: removed_def Let_def)

lemma patch_inv:
  assumes "ie_between env = id" "id_inv d"
  shows "id_inv (snd (PatchMember env p oi ui body d))"
proof -
  note w = run_inv[OF assms(2)]
  show ?thesis
    unfolding PatchMember_def assms(1) id_apply
    using assms(2)
    by (auto simp: prod.case_eq_if RoleOwner_def demote_ok intro!: w intro: update_role_ok[OF _ fetch_target]
        split: option.split sum.split)
qed

lemma remove_inv:
  assumes "ie_between env = id" "id_inv d"
  shows "id_inv (snd (RemoveMember env p oi ui d))"
proof -
  have a: "id_inv (snd (run_io o1 (DeleteOrgOwnerIfNotLast org user) d))" for o1 org user
    by (rule run_inv[OF assms(2)]) (rule delete_owner_ok[OF assms(2)])
  have b: "id_inv (snd (run_io o1 (\<lambda>d. ((), DeleteOrgMember org user d)) d))"
    if "snd (fetchCallerAndTarget env org c user d) = Inr t" "mb_role t \<noteq> ''owner''" for o1 org user c t
    by (rule run_inv[OF assms(2)]) (simp add: delete_member_ok[OF assms(2) fetch_target[OF that(1)] that(2)])
  show ?thesis
    unfolding RemoveMember_def assms(1) id_apply Let_def RoleOwner_def
    by (simp add: prod.case_eq_if assms(2) a b split: option.split sum.split)
qed

lemma transfer_inv: "id_inv d \<Longrightarrow> id_inv (snd (TransferOwnership env p oi body d))"
  by (auto simp: TransferOwnership_def prod.case_eq_if transfer_ok intro!: run_inv split: option.split)

lemma rename_inv: "id_inv d \<Longrightarrow> id_inv (snd (UpdateOrg env p oi body d))"
proof -
  assume inv: "id_inv d"
  have "id_inv (snd (UpdateOrgName now org name d))" for now org name
    using inv by (auto simp: UpdateOrgName_def Let_def id_inv_def upd_where_def o_def if_distrib cong: if_cong split: sum.split)
  then show ?thesis
    using inv by (auto simp: UpdateOrg_def Let_def prod.case_eq_if intro!: run_inv split: option.split sum.split)
qed

lemma plan_inv: "id_inv d \<Longrightarrow> id_inv (snd (handlePatchOrgPlan env p oi pb d))"
proof -
  assume inv: "id_inv d"
  have "id_inv (snd (UpdateOrgQuota now org plan a b c e period d))" for now org plan a b c e period
    using inv by (auto simp: UpdateOrgQuota_def Let_def id_inv_def upd_where_def o_def if_distrib cong: if_cong split: sum.split)
  then show ?thesis
    using inv by (auto simp: handlePatchOrgPlan_def Let_def prod.case_eq_if intro!: run_inv split: option.split sum.split)
qed

lemma delete_inv: "id_inv d \<Longrightarrow> id_inv (snd (DeleteOrg env evict sd p oi d))"
proof -
  assume inv: "id_inv d"
  have "owned (map og_id (filter (\<lambda>g. og_id g \<noteq> org) os)) (filter (\<lambda>m. mb_org_id m \<noteq> org) ms)"
    if "owned (map og_id os) ms" for org os ms
    using that unfolding owned_def by (fastforce simp: distinct_map_filter)
  then have "id_inv d \<Longrightarrow> id_inv (DeleteOrganization org d)" for org d by (simp add: id_inv_def DeleteOrganization_def)
  then show ?thesis
    using inv by (auto simp: DeleteOrg_def Let_def prod.case_eq_if intro!: run_inv split: option.split sum.split)
qed

lemma add_member_inv: "id_inv d \<Longrightarrow> id_inv (snd (AddOrgMember now org user role d))"
  by (auto simp: AddOrgMember_def id_inv_def owned_def list_ex_iff is_member_def mkey_def)

lemma new_org_inv:
  assumes "id_inv d" "CreateOrganization now i name slug d = (Inr g, d1)" "AddOrgMember t (og_id g) user RoleOwner d1 = (Inr x, d2)"
  shows "id_inv d2"
proof -
  have d1: "t_orgs d1 = t_orgs d @ [g]" "t_members d1 = t_members d" "t_users d1 = t_users d"
    using assms(2) by (auto simp: CreateOrganization_def Let_def split: if_splits)
  have d2: "t_orgs d2 = t_orgs d1" "t_members d2 = t_members d1 @ [\<lparr>mb_org_id = og_id g, mb_user_id = user, mb_role = ''owner'', mb_created_at = t\<rparr>]"
    "\<not> list_ex (is_member (og_id g) user) (t_members d1)"
    using assms(3) by (auto simp: AddOrgMember_def RoleOwner_def split: if_splits)
  show ?thesis using assms(1) d1 d2 by (auto simp: id_inv_def owned_def list_ex_iff is_member_def mkey_def)
qed

lemma in_tx_inv:
  "I w \<Longrightarrow> (\<And>x v. body w = (Inr x, v) \<Longrightarrow> I v) \<Longrightarrow> I (snd (in_tx b c body e w))"
  by (auto simp: in_tx_def split: prod.split sum.split io.split)

lemma create_inv: "id_inv (aw_idb w) \<Longrightarrow> id_inv (aw_idb (snd (CreateOrg env p body w)))"
proof -
  assume inv: "id_inv (aw_idb w)"
  have tx: "id_inv (aw_idb (snd (in_tx b c (\<lambda>w. if n \<noteq> IoOk then (Inl 400, w)
        else case CreateOrganization now i name slug (aw_idb w) of (Inl _, _) \<Rightarrow> (Inl 400, w)
          | (Inr g, d) \<Rightarrow> if a \<noteq> IoOk then (Inl 500, w)
              else case AddOrgMember now (og_id g) (user_of p) RoleOwner d of (Inl _, _) \<Rightarrow> (Inl 500, w)
                | (Inr _, d) \<Rightarrow> (case SeedOperationalApp pub (og_id g) (aw_m w) of (Inl _, _) \<Rightarrow> (Inl 500, w)
                    | (Inr _, m) \<Rightarrow> (Inr g, w\<lparr>aw_idb := d, aw_m := m\<rparr>))) (500 :: int) w)))" for b c n a now i name slug pub
    by (rule in_tx_inv[where I = "\<lambda>w. id_inv (aw_idb w)"])
      (use inv in \<open>auto split: if_splits sum.splits prod.splits intro: new_org_inv\<close>)
  show ?thesis using inv tx by (auto simp: CreateOrg_def Let_def prod.case_eq_if split: option.split sum.split)
qed

lemma frames_inv [simp]:
  "id_inv (MarkOrgInviteAccepted now i d) = id_inv d" "id_inv (MarkMagicLinkUsed now i d) = id_inv d"
  by (simp_all add: MarkOrgInviteAccepted_def MarkMagicLinkUsed_def id_inv_def)

lemma invite_inv: "id_inv d \<Longrightarrow> id_inv (snd (IssueOrgInvite sha o1 now i rnd g by email role ttl d))"
proof -
  assume inv: "id_inv d"
  have "id_inv (snd (CreateOrgInvite now i g email role h by t d))" for h t
    using inv by (simp add: CreateOrgInvite_def Let_def id_inv_def)
  then have "id_inv (snd (run_io o1 (CreateOrgInvite now i g email role h by t) d))" for h t
    by (intro run_inv[OF inv])
  then show ?thesis by (simp add: IssueOrgInvite_def Let_def prod.case_eq_if split: option.split sum.split)
qed

lemma savepoint_inv: "id_inv d \<Longrightarrow> id_inv (snd (fn d)) \<Longrightarrow> id_inv (snd (inSavepoint o1 fn d))"
  by (simp add: inSavepoint_def prod.case_eq_if split: sum.split)

lemma savepoint_add: "id_inv d \<Longrightarrow> id_inv (snd (inSavepoint o1 (AddOrgMember now org user role) d))"
  by (rule savepoint_inv) (simp_all add: add_member_inv)

lemma accept_inv: "id_inv d \<Longrightarrow> id_inv (snd (accept_invite a m now user v d))"
  by (simp add: accept_invite_def prod.case_eq_if savepoint_add split: sum.split)

lemma accept_inv': "accept_invite a m now user v d = (r, d') \<Longrightarrow> id_inv d \<Longrightarrow> id_inv d'"
  using accept_inv[of d a m now user v] by simp

lemma join_inv: "id_inv d \<Longrightarrow> id_inv (snd (ConsumeOrgInvite sha outc now token user d))"
  unfolding ConsumeOrgInvite_def
  by (rule in_tx_inv) (auto split: if_splits sum.splits prod.splits dest: accept_inv')

lemma invites_inv: "id_inv d \<Longrightarrow> id_inv (snd (apply_invites env user vs d))"
  by (induction vs arbitrary: d) (simp_all add: prod.case_eq_if accept_inv split: sum.split)

lemma create_user_inv: "id_inv d \<Longrightarrow> id_inv (snd (CreateUser now i email name d))"
  by (simp add: CreateUser_def Let_def id_inv_def)

lemma savepoint_create: "id_inv d \<Longrightarrow> id_inv (snd (inSavepoint o1 (CreateUser now i email name) d))"
  by (rule savepoint_inv) (simp_all add: create_user_inv)

lemma user_inv: "id_inv d \<Longrightarrow> id_inv (snd (get_or_create_user env email d))"
  by (simp add: get_or_create_user_def prod.case_eq_if savepoint_create split: sum.split option.split)

lemma default_inv: "id_inv d \<Longrightarrow> id_inv (snd (join_default_org env u slug role d))"
  by (simp add: join_default_org_def prod.case_eq_if savepoint_add split: sum.split)

lemma workspace_inv: "id_inv (aw_idb w) \<Longrightarrow> id_inv (aw_idb (snd (personal_workspace env u w)))"
  by (auto simp: personal_workspace_def split: prod.split sum.split intro: new_org_inv)

lemma bootstrap_inv: "id_inv (aw_idb w) \<Longrightarrow> id_inv (aw_idb (snd (BootstrapSession env email slug role w)))"
proof -
  assume inv: "id_inv (aw_idb w)"
  let ?u = "get_or_create_user env email (aw_idb w)"
  have a: "id_inv (snd (apply_invites env user vs (snd ?u)))" for user vs
    by (rule invites_inv[OF user_inv[OF inv]])
  show ?thesis
    by (simp add: BootstrapSession_def Let_def prod.case_eq_if inv a default_inv workspace_inv split: sum.split)
qed

lemma bootstrap_inv': "BootstrapSession env email slug role w = (r, w') \<Longrightarrow> id_inv (aw_idb w) \<Longrightarrow> id_inv (aw_idb w')"
  using bootstrap_inv[of w env email slug role] by simp

lemma login_inv: "id_inv (aw_idb w) \<Longrightarrow> id_inv (aw_idb (snd (ConsumeMagicLink sha env token w)))"
  unfolding ConsumeMagicLink_def
  by (rule in_tx_inv[where I = "\<lambda>w. id_inv (aw_idb w)"])
    (auto simp: Let_def split: if_splits sum.splits prod.splits dest: bootstrap_inv')

lemma step_inv: "id_step w w' \<Longrightarrow> id_inv (aw_idb w) \<Longrightarrow> id_inv (aw_idb w')"
  by (induction rule: id_step.induct)
    (simp_all add: patch_inv remove_inv transfer_inv rename_inv delete_inv create_inv plan_inv invite_inv join_inv login_inv)

lemma steps_inv: "id_step\<^sup>*\<^sup>* w w' \<Longrightarrow> id_inv (aw_idb w) \<Longrightarrow> id_inv (aw_idb w')"
  by (induction rule: rtranclp_induct) (simp_all add: step_inv)

text \<open>
  C26: Starting from unique memberships and an owner in every organization, whatever requests follow one another
  (role changes, removals, transfers, renames, deletions, new organizations, plan changes, invitations, logins, each
  with any outcome of its calls), every organization has an owner and a user is at most once a member of it.
\<close>

theorem organization_keeps_owner:
  assumes "id_step\<^sup>*\<^sup>* w w'" "id_inv (aw_idb w)" "g \<in> set (t_orgs (aw_idb w'))"
  shows "owners (og_id g) (aw_idb w') \<noteq> [] \<and> length (filter (is_member (og_id g) u) (t_members (aw_idb w'))) \<le> 1"
proof -
  have inv: "id_inv (aw_idb w')" using steps_inv assms by blast
  obtain m where "m \<in> set (t_members (aw_idb w'))" "mb_org_id m = og_id g" "mb_role m = ''owner''"
    using owner_of[OF inv, of "og_id g"] assms(3) by auto
  moreover have "length (filter (is_member org u) ms) \<le> 1" if "distinct (map mkey ms)" for org u and ms :: "member_row list"
    using that by (induction ms) (auto simp: is_member_def mkey_def image_iff filter_empty_conv)
  ultimately show ?thesis using inv by (auto simp: owners_def filter_empty_conv id_inv_def owned_def)
qed

section \<open>A concrete organization\<close>

definition id_org :: string where "id_org = ''00000000-0000-0000-0000-0000000000a0''"
definition id_ann :: string where "id_ann = ''00000000-0000-0000-0000-0000000000a1''"
definition id_bob :: string where "id_bob = ''00000000-0000-0000-0000-0000000000a2''"
definition id_cy :: string where "id_cy = ''00000000-0000-0000-0000-0000000000a3''"

definition member0 :: "string \<Rightarrow> string \<Rightarrow> member_row" where
  "member0 u r = \<lparr>mb_org_id = id_org, mb_user_id = u, mb_role = r, mb_created_at = 0\<rparr>"

definition user0 :: "string \<Rightarrow> user_row" where
  "user0 i = \<lparr>us_id = i, us_email = i, us_name = None, us_is_super_admin = False, us_session_epoch = 0, us_created_at = 0, us_updated_at = 0\<rparr>"

text \<open>Ann owns the organization, Bob is a member, Cy an admin.\<close>

definition team0 :: idb where
  "team0 = \<lparr>t_orgs = [\<lparr>og_id = id_org, og_name = ''acme'', og_slug = ''acme'', og_created_at = 0, og_updated_at = 0, og_plan = ''free'',
       og_events_soft = 8000, og_events_hard = 10000, og_messages_soft = 8000, og_messages_hard = 10000, og_period = ''month''\<rparr>],
     t_users = map user0 [id_ann, id_bob, id_cy],
     t_members = [member0 id_ann ''owner'', member0 id_bob ''member'', member0 id_cy ''admin''],
     t_keys = [], t_links = [], t_invites = [], t_audit = [], t_rollups = []\<rparr>"

definition ienv0 :: "(idb \<Rightarrow> idb) \<Rightarrow> ienv" where
  "ienv0 f = \<lparr>ie_out = (\<lambda>_. IoOk), ie_now = 0, ie_between = f, ie_hmac = (\<lambda>k m. []), ie_secret = [], ie_newid = [], ie_suffix = [], ie_pub = penv0\<rparr>"

definition session0 :: "string \<Rightarrow> Principal option" where
  "session0 u = Some (no_principal\<lparr>pr_UserID := u, pr_OrgID := id_org\<rparr>)"

lemma ids_parse [simp]:
  "uuid_Parse id_org = Some id_org" "uuid_Parse id_ann = Some id_ann" "uuid_Parse id_bob = Some id_bob" "uuid_Parse id_cy = Some id_cy"
  unfolding id_org_def id_ann_def id_bob_def id_cy_def by code_simp+

lemma ids_distinct [simp]:
  "id_ann \<noteq> id_bob" "id_bob \<noteq> id_ann" "id_ann \<noteq> id_cy" "id_cy \<noteq> id_ann" "id_bob \<noteq> id_cy" "id_cy \<noteq> id_bob"
  by (simp_all add: id_ann_def id_bob_def id_cy_def)

lemma session0_simps [simp]:
  "RequireSession (session0 u) = None" "user_of (session0 u) = u"
  by (simp_all add: session0_def RequireSession_def user_of_def no_principal_def)

lemma ienv0_simps [simp]: "ie_out (ienv0 f) x = IoOk" "ie_between (ienv0 f) = f"
  by (simp_all add: ienv0_def)

lemma team0_inv: "id_inv team0"
  by (simp add: id_inv_def owned_def team0_def mkey_def member0_def)

definition transferred :: "idb \<Rightarrow> idb" where
  "transferred d = snd (TransferOwnership (ienv0 id) (session0 id_ann) id_org (Some id_bob) d)"

lemma transferred_members: "t_members (transferred team0) = [member0 id_ann ''admin'', member0 id_bob ''owner'', member0 id_cy ''admin'']"
  by (simp add: transferred_def TransferOwnership_def TransferOrgOwnership_def team0_def Let_def upd_where_def is_member_def member0_def)

lemma transferred_orgs: "t_orgs (transferred d) = t_orgs d"
  by (simp add: transferred_def TransferOwnership_def TransferOrgOwnership_def Let_def)

theorem organization_keeps_owner_witness:
  "owners id_org (transferred team0) \<noteq> [] \<and> length (filter (is_member id_org id_bob) (t_members (transferred team0))) \<le> 1"
proof -
  let ?w = "\<lparr>aw_idb = team0, aw_m = mw0\<rparr>"
  have "id_step\<^sup>*\<^sup>* ?w (?w\<lparr>aw_idb := transferred (aw_idb ?w)\<rparr>)"
    unfolding transferred_def by (rule r_into_rtranclp) (rule id_step.transfer)
  then show ?thesis
    using organization_keeps_owner[of ?w "?w\<lparr>aw_idb := transferred (aw_idb ?w)\<rparr>" "hd (t_orgs team0)" id_bob] team0_inv
    by (simp add: transferred_orgs) (simp add: team0_def)
qed

section \<open>The lost owner\<close>

text \<open>
  C27: The guard of the last owner is not atomic with the role it relies on: an admin's removal of a plain member that has read
  the membership before the owner transfers the organization to that member, and deletes it
  after, is answered 204 and leaves the organization without any owner.
\<close>

theorem last_owner_race:
  "id_inv team0 \<and> owners id_org (transferred team0) \<noteq> [] \<and>
   fst (fst (RemoveMember (ienv0 transferred) (session0 id_cy) id_org id_bob team0)) = 204 \<and>
   owners id_org (snd (RemoveMember (ienv0 transferred) (session0 id_cy) id_org id_bob team0)) = []"
proof -
  have f: "fetchCallerAndTarget (ienv0 transferred) id_org id_cy id_bob team0 = (Inr (member0 id_cy ''admin''), Inr (member0 id_bob ''member''))"
    by (simp add: fetchCallerAndTarget_def GetOrgMember_def one_row_def team0_def is_member_def member0_def)
  have r: "RemoveMember (ienv0 transferred) (session0 id_cy) id_org id_bob team0 =
      removed (ienv0 transferred) (session0 id_cy) id_org id_bob (DeleteOrgMember id_org id_bob (transferred team0))"
    by (simp add: RemoveMember_def f Let_def LessThan_def roleOrder_def RoleMember_def RoleAdmin_def RoleOwner_def member0_def)
  have "owners id_org (DeleteOrgMember id_org id_bob (transferred team0)) = []"
    by (simp add: DeleteOrgMember_def owners_def transferred_members is_member_def member0_def)
  then show ?thesis
    by (simp add: r removed_def Let_def team0_inv) (simp add: owners_def transferred_members member0_def)
qed

section \<open>Signed tokens\<close>

lemma length_put_be [simp]: "length (put_be n i) = n"
  by (induction n) simp_all

lemma get_put_be: "get_be (put_be n i) = i mod 256 ^ n"
proof (induction n)
  case (Suc n)
  have "get_be (put_be (Suc n) i) = (i div 256 ^ n mod 256) * 256 ^ n + i mod 256 ^ n"
    by (simp add: Suc nat_mod_distrib)
  also have "\<dots> = i mod 256 ^ Suc n"
    using mod_mult2_eq'[of i "256 ^ n" 256] by (simp add: algebra_simps)
  finally show ?case .
qed simp

definition int64 :: "int \<Rightarrow> bool" where
  "int64 i \<longleftrightarrow> - (2 ^ 63) \<le> i \<and> i < 2 ^ 63"

lemma int64_roundtrip: "int64 i \<Longrightarrow> to_int64 (get_be (put_be 8 i)) = i"
proof -
  assume i: "int64 i"
  have "(i mod 2 ^ 64 + 2 ^ 63) mod 2 ^ 64 = (i + 2 ^ 63) mod 2 ^ 64" by (rule mod_add_left_eq)
  also have "\<dots> = i + 2 ^ 63" using i by (intro mod_pos_pos_trivial) (auto simp: int64_def)
  finally show ?thesis by (simp add: get_put_be to_int64_def)
qed

text \<open>The text form of 16 bytes reads back as these bytes.\<close>

definition is_uuid :: "string \<Rightarrow> bool" where
  "is_uuid u \<longleftrightarrow> length (uuid_bytes u) = 16 \<and> uuid_string (uuid_bytes u) = u"

lemma session_payload:
  fixes ts epoch :: int
  assumes "is_uuid u" "is_uuid g"
  defines "p \<equiv> uuid_bytes u @ uuid_bytes g @ put_be 8 ts @ put_be 8 epoch"
  shows "length p = 48" "take 16 p = uuid_bytes u" "take 16 (drop 16 p) = uuid_bytes g"
    "take 8 (drop 32 p) = put_be 8 ts" "take 8 (drop 40 p) = put_be 8 epoch"
  using assms by (simp_all add: is_uuid_def)

lemma session_decode_encode:
  assumes "is_uuid u" "is_uuid g" "int64 epoch" "int64 ts" "\<And>m. length (hmac key m) = 32"
  shows "session_decode hmac key now (session_encode hmac key u g epoch ts) =
    (if Unix now > ts then Inl ErrExpiredSession else Inr (u, g, epoch))"
proof -
  define p where "p = uuid_bytes u @ uuid_bytes g @ put_be 8 ts @ put_be 8 epoch"
  note sp = session_payload[OF assms(1,2), of ts epoch, folded p_def]
  have "session_encode hmac key u g epoch ts = b64_encode url_alphabet False (p @ hmac key p)"
    by (simp add: session_encode_def p_def Let_def)
  then have d: "b64_decode url_alphabet False (session_encode hmac key u g epoch ts) = Some (p @ hmac key p)"
    using b64_roundtrip[OF url_ok] by simp
  have u: "uuid_string (uuid_bytes u) = u" "uuid_string (uuid_bytes g) = g" using assms by (simp_all add: is_uuid_def)
  show ?thesis
    by (simp add: session_decode_def d sessionPayloadLen_def sp(1) assms(5) sp(2-5) int64_roundtrip assms(3,4) u)
qed

lemma session_accepted:
  assumes "session_decode hmac key now raw = Inr x"
  obtains p where "b64_decode url_alphabet False raw = Some (p @ hmac key p)" "length p = 48"
    "x = (uuid_string (take 16 p), uuid_string (take 16 (drop 16 p)), to_int64 (get_be (take 8 (drop 40 p))))"
proof -
  obtain buf where b: "b64_decode url_alphabet False raw = Some buf" using assms by (auto simp: session_decode_def split: option.splits)
  have h: "length buf = 80" "drop 48 buf = hmac key (take 48 buf)"
    "x = (uuid_string (take 16 (take 48 buf)), uuid_string (take 16 (drop 16 (take 48 buf))), to_int64 (get_be (take 8 (drop 40 (take 48 buf)))))"
    using assms unfolding session_decode_def b sessionPayloadLen_def Let_def by (auto split: if_splits simp del: take_take)
  have "buf = take 48 buf @ hmac key (take 48 buf)" using h(2) by (metis append_take_drop_id)
  then show thesis using that[of "take 48 buf"] b h by simp
qed

lemma portal_not_session:
  assumes "is_uuid a" "is_uuid g" "\<And>m. length (hmac key m) = 32"
  shows "session_decode hmac key now (fst (Mint hmac key ttl t a g epoch)) = Inl ErrInvalidSession"
proof -
  have d: "b64_decode url_alphabet False (b64_encode url_alphabet False m) = Some m" for m
    by (rule b64_roundtrip[OF url_ok])
  show ?thesis
    using assms by (simp add: session_decode_def Mint_def Let_def d sessionPayloadLen_def is_uuid_def)
qed

text \<open>
  C29: A session cookie reads back as the user, organization and epoch it was issued for until it expires and is
  refused after; a cookie that is read at all carries the HMAC of its payload under the
  server's key; and a portal token, signed with the same key, never passes as a session.
\<close>

theorem session_cookie:
  assumes "\<forall>m. length (hmac key m) = 32" "is_uuid u" "is_uuid g" "is_uuid a" "int64 epoch" "int64 (Unix (t + sessionMaxAge))"
  shows "session_decode hmac key now (Issue hmac key t u g epoch) =
      (if Unix now > Unix (t + sessionMaxAge) then Inl ErrExpiredSession else Inr (u, g, epoch)) \<and>
    (\<forall>raw x. session_decode hmac key now raw = Inr x \<longrightarrow>
       (\<exists>p. b64_decode url_alphabet False raw = Some (p @ hmac key p) \<and> length p = sessionPayloadLen)) \<and>
    session_decode hmac key now (fst (Mint hmac key ttl t a g epoch)) = Inl ErrInvalidSession"
proof (intro conjI allI impI)
  show "session_decode hmac key now (Issue hmac key t u g epoch) =
      (if Unix now > Unix (t + sessionMaxAge) then Inl ErrExpiredSession else Inr (u, g, epoch))"
    unfolding Issue_def using assms by (intro session_decode_encode) auto
  show "\<exists>p. b64_decode url_alphabet False raw = Some (p @ hmac key p) \<and> length p = sessionPayloadLen"
    if "session_decode hmac key now raw = Inr x" for raw x
  proof -
    from that obtain p where "b64_decode url_alphabet False raw = Some (p @ hmac key p)" "length p = 48" by (rule session_accepted)
    then show ?thesis by (intro exI[of _ p]) (simp add: sessionPayloadLen_def)
  qed
  show "session_decode hmac key now (fst (Mint hmac key ttl t a g epoch)) = Inl ErrInvalidSession"
    using assms by (intro portal_not_session) auto
qed

lemma ids_uuid: "is_uuid id_org" "is_uuid id_ann" "is_uuid id_bob"
  unfolding id_org_def id_ann_def id_bob_def is_uuid_def by code_simp+

definition hmac0 :: "bytes \<Rightarrow> bytes \<Rightarrow> bytes" where
  "hmac0 k m = replicate 32 CHR ''k''"

theorem session_cookie_witness:
  "session_decode hmac0 [] 7 (Issue hmac0 [] 5 id_ann id_org 3) = Inr (id_ann, id_org, 3)"
  using session_cookie[of hmac0 "[]" id_ann id_org id_bob 3 5 7 0] ids_uuid
  by (simp add: hmac0_def int64_def Unix_def sessionMaxAge_def hour_def second_def)

end
