(* ===== verification/Ingest.thy ===== *)
theory Ingest
  imports Deliver Usage
begin

text \<open>
  The ingest endpoint, src/internal/ingest: \<open>handleIngest\<close> (handler.go) takes a webhook from the source cache
  through the method check, the loop guard, the rate limit, the quota and the duplicate check to the request row,
  its body, one event per enabled connection and their queue entries, and captures it into bookmarks by the
  source's rules. The state is the database, Redis, the in-process source cache and the quota gate. What
  the environment decides during one call is a record of arguments: the outcome of each call, the
  limiter, the filter package, the hash, the generated identifiers and the clock.
\<close>

section \<open>Data\<close>

definition MaxBodyBytes :: nat where
  "MaxBodyBytes = 5 * 2 ^ 20"

definition DedupWindow :: int where
  "DedupWindow = 60 * second"

definition SourceCacheTTL :: int where
  "SourceCacheTTL = 60 * second"

definition NegativeSourceCacheTTL :: int where
  "NegativeSourceCacheTTL = 3 * second"

definition negSweepEvery :: nat where
  "negSweepEvery = 4096"

text \<open>A compiled filter is known by its expression; none means that the rule matches every request.\<close>

record compiledRule =
  cr_id :: string
  cr_cap :: int
  cr_name :: string
  cr_prg :: "string option"

record sourceCacheEntry =
  ce_src :: "source_row option"
  ce_rules :: "compiledRule list"
  ce_expires :: int

record ingest_handler =
  ig_queue :: client
  ig_limiter :: bool
  RateLimitRPS :: int
  RateLimitBurst :: int
  MaxWebhookHops :: int

record http_in =
  hi_method :: string
  hi_path :: string
  hi_headers :: headers
  hi_body :: "bytes option"
  hi_remote :: string

record 'r iworld =
  iw_db :: db
  iw_redis :: 'r
  iw_cache :: "(string \<times> sourceCacheEntry) list"
  iw_neg :: nat
  iw_gate :: "gate option"

text \<open>
  The limiter answers an error, or how many are allowed and when to retry (nanoseconds). A rule's
  filter may also panic (None). Identifiers of bookmarks come by rule, outcomes of enqueues by event.
\<close>

record nenv =
  n_source :: io
  n_rules :: io
  n_compile :: "string \<Rightarrow> bool"
  n_limit :: "string \<Rightarrow> int \<Rightarrow> int \<Rightarrow> (int \<times> int) option"
  n_quota :: io
  n_dedup :: io
  n_undo :: io
  n_create :: io
  n_put :: io
  n_conns :: io
  n_events :: io
  n_enqueue :: "string \<Rightarrow> io"
  n_eval :: "string \<Rightarrow> bytes \<Rightarrow> (string \<times> string) list \<Rightarrow> (go_error + bool) option"
  n_bookmark :: "string \<Rightarrow> io"
  n_evict :: "string \<Rightarrow> io"
  n_sha256 :: "bytes \<Rightarrow> bytes"
  n_reqID :: string
  n_evIDs :: "nat \<Rightarrow> string"
  n_bmIDs :: "string \<Rightarrow> string"
  n_trace :: "(string \<times> string) list"
  n_now :: int

datatype ingest_answer =
    Refused int "string option"
  | Accepted string "string list" bool

section \<open>Helpers\<close>

definition methodAllowed :: "string list \<Rightarrow> string \<Rightarrow> bool" where
  "methodAllowed allowed method = list_ex (\<lambda>a. a = map upper_char method) allowed"

definition Header_Get :: "headers \<Rightarrow> string \<Rightarrow> string" where
  "Header_Get h k = (case hget h k of [] \<Rightarrow> [] | v # _ \<Rightarrow> v)"

definition hopCount :: "http_in \<Rightarrow> int" where
  "hopCount r = (case Atoi (Header_Get (hi_headers r) hopsHeader) of Some n \<Rightarrow> if n > 0 then n else 0 | None \<Rightarrow> 0)"

definition optStr :: "string \<Rightarrow> string option" where
  "optStr s = (if s = [] then None else Some s)"

definition trim_brackets :: "string \<Rightarrow> string" where
  "trim_brackets s =
     (let brackets = (\<lambda>c. c = CHR ''['' \<or> c = CHR '']'')
      in rev (dropWhile brackets (rev (dropWhile brackets s))))"

definition parseRemoteAddr :: "http_in \<Rightarrow> addr option" where
  "parseRemoteAddr r =
     ParseAddr (case SplitHostPort (hi_remote r) of Some host \<Rightarrow> host | None \<Rightarrow> trim_brackets (hi_remote r))"

definition redactedHeaders :: "string list" where
  "redactedHeaders = [''Authorization'', ''Cookie'', ''Proxy-Authorization'']"

definition captureHeaders :: "headers \<Rightarrow> bytes" where
  "captureHeaders h =
     marshalHeader (map (\<lambda>(k, v). (k, if CanonicalHeaderKey k \<in> set redactedHeaders then [''[redacted]''] else v)) h)"

definition dedupKey :: "string \<Rightarrow> string \<Rightarrow> string" where
  "dedupKey source tag = ''dedup:'' @ source @ '':'' @ tag"

text \<open>Whether the request is a duplicate, and whether the call failed.\<close>

definition checkDedup :: "'r redis \<Rightarrow> io \<Rightarrow> string \<Rightarrow> string \<Rightarrow> 'r \<Rightarrow> (bool \<times> bool) \<times> 'r" where
  "checkDedup R o1 source tag s =
     (case run_io o1 (SETNX R (dedupKey source tag) 1 DedupWindow) s of
        (None, s) \<Rightarrow> ((False, True), s)
      | (Some ok, s) \<Rightarrow> ((\<not> ok, False), s))"

section \<open>Bodies\<close>

definition body_Put :: "io \<Rightarrow> int \<Rightarrow> string \<Rightarrow> bytes \<Rightarrow> db \<Rightarrow> (go_error + string) \<times> db" where
  "body_Put o1 now request body d =
     (case run_io o1 (InsertRequestBody now request body) d of
        (None, d) \<Rightarrow> (Inl ErrDb, d)
      | (Some (Inl e), d) \<Rightarrow> (Inl e, d)
      | (Some (Inr _), d) \<Rightarrow> (Inr (''pg:'' @ request), d))"

definition body_Get :: "io \<Rightarrow> string \<Rightarrow> db \<Rightarrow> go_error + bytes" where
  "body_Get o1 ref d =
     (if length ref \<le> 3 \<or> take 3 ref \<noteq> ''pg:'' then Inl (ErrOther ''unknown body ref'')
      else case uuid_Parse (drop 3 ref) of
             None \<Rightarrow> Inl ErrDecode
           | Some i \<Rightarrow> if o1 = IoOk then GetRequestBody i d else Inl ErrDb)"

section \<open>The source cache\<close>

definition sweepExpiredSources :: "int \<Rightarrow> (string \<times> sourceCacheEntry) list \<Rightarrow> (string \<times> sourceCacheEntry) list" where
  "sweepExpiredSources now cache = filter (\<lambda>(k, e). \<not> now > ce_expires e) cache"

definition InvalidateSource :: "string \<Rightarrow> 'r iworld \<Rightarrow> 'r iworld" where
  "InvalidateSource token w = w\<lparr>iw_cache := AList.delete token (iw_cache w)\<rparr>"

definition compileRules :: "nenv \<Rightarrow> rule_row list \<Rightarrow> compiledRule list" where
  "compileRules env rows =
     concat (map (\<lambda>r.
       let prg = (case ru_filter_expr r of None \<Rightarrow> None | Some f \<Rightarrow> if f = [] then None else Some f)
       in case prg of
            Some f \<Rightarrow> if n_compile env f then [\<lparr>cr_id = ru_id r, cr_cap = ru_cap r, cr_name = ru_name r, cr_prg = Some f\<rparr>] else []
          | None \<Rightarrow> [\<lparr>cr_id = ru_id r, cr_cap = ru_cap r, cr_name = ru_name r, cr_prg = None\<rparr>]) rows)"

definition lookupSource :: "nenv \<Rightarrow> string \<Rightarrow> 'r iworld \<Rightarrow> (go_error + source_row \<times> compiledRule list) \<times> 'r iworld" where
  "lookupSource env token w =
     (if n_source env \<noteq> IoOk then (Inl ErrDb, w)
      else case GetSourceByIngestToken token (iw_db w) of
        Inl e \<Rightarrow>
          (let cache = AList.update token \<lparr>ce_src = None, ce_rules = [], ce_expires = n_now env + NegativeSourceCacheTTL\<rparr> (iw_cache w);
               n = (iw_neg w + 1) mod 2 ^ 64
           in (Inl ErrNoRows, w\<lparr>iw_cache := (if n mod negSweepEvery = 0 then sweepExpiredSources (n_now env) cache else cache), iw_neg := n\<rparr>))
      | Inr src \<Rightarrow>
          (let rows = (if n_rules env = IoOk then ListEnabledCaptureRulesBySource (so_id src) (iw_db w) else []);
               rules = compileRules env rows
           in (Inr (src, rules),
               w\<lparr>iw_cache := AList.update token \<lparr>ce_src = Some src, ce_rules = rules, ce_expires = n_now env + SourceCacheTTL\<rparr> (iw_cache w)\<rparr>)))"

definition resolveSource :: "nenv \<Rightarrow> string \<Rightarrow> 'r iworld \<Rightarrow> (go_error + source_row \<times> compiledRule list) \<times> 'r iworld" where
  "resolveSource env token w =
     (case map_of (iw_cache w) token of
        Some e \<Rightarrow>
          if n_now env < ce_expires e then
            (case ce_src e of None \<Rightarrow> (Inl ErrNoRows, w) | Some src \<Rightarrow> (Inr (src, ce_rules e), w))
          else lookupSource env token (w\<lparr>iw_cache := AList.delete token (iw_cache w)\<rparr>)
      | None \<Rightarrow> lookupSource env token w)"

section \<open>Capture\<close>

text \<open>A panic ends the loop; every error is logged and skipped.\<close>

fun capture :: "nenv \<Rightarrow> compiledRule list \<Rightarrow> string \<Rightarrow> string \<Rightarrow> bytes \<Rightarrow> (string \<times> string) list \<Rightarrow> db \<Rightarrow> db" where
  "capture env [] org reqID body hdr d = d"
| "capture env (rule # rules) org reqID body hdr d =
     (case (case cr_prg rule of None \<Rightarrow> Some (Inr True) | Some p \<Rightarrow> n_eval env p body hdr) of
        None \<Rightarrow> d
      | Some (Inl _) \<Rightarrow> capture env rules org reqID body hdr d
      | Some (Inr False) \<Rightarrow> capture env rules org reqID body hdr d
      | Some (Inr True) \<Rightarrow>
          (case run_io (n_bookmark env (cr_id rule))
                  (CreateAutoBookmark (n_now env) (n_bmIDs env (cr_id rule)) org reqID (cr_name rule @ ''-'' @ reqID) (cr_id rule)) d of
             (Some (Inr _), d) \<Rightarrow>
               capture env rules org reqID body hdr
                 (snd (run_io (n_evict env (cr_id rule)) (\<lambda>d. ((), EvictCaptureBookmarks (cr_id rule) (cr_cap rule) d)) d))
           | (_, d) \<Rightarrow> capture env rules org reqID body hdr d))"

section \<open>The handler\<close>

definition request_row :: "nenv \<Rightarrow> http_in \<Rightarrow> source_row \<Rightarrow> string \<Rightarrow> bytes \<Rightarrow> req_row" where
  "request_row env r src bodyHash body =
     \<lparr>rq_id = n_reqID env, rq_body_ref = ''pg:'' @ n_reqID env, rq_headers = captureHeaders (hi_headers r),
      rq_http_method = hi_method r, rq_http_path = hi_path r, rq_source_id = so_id src, rq_body_hash = bodyHash,
      rq_body_size = to_int32 (int (length body)), rq_content_type = optStr (Header_Get (hi_headers r) ''Content-Type''),
      rq_sig_verified = False, rq_ingest_ip = parseRemoteAddr r, rq_received_at = n_now env\<rparr>"

definition persist :: "nenv \<Rightarrow> http_in \<Rightarrow> source_row \<Rightarrow> string \<Rightarrow> bytes \<Rightarrow> db \<Rightarrow> bool \<times> db" where
  "persist env r src bodyHash body d =
     (case run_io (n_create env) (CreateRequest (n_now env) (request_row env r src bodyHash body)) d of
        (Some (Inr req), d) \<Rightarrow>
          (case body_Put (n_put env) (n_now env) (rq_id req) body d of
             (Inl _, d) \<Rightarrow> (False, d) | (Inr _, d) \<Rightarrow> (True, d))
      | (_, d) \<Rightarrow> (False, d))"

definition no_conn :: conn_row where
  "no_conn = \<lparr>cn_id = [], cn_source_id = [], cn_destination_id = [], cn_max_retries = 0, cn_retry_strategy = [],
     cn_retry_base_ms = 0, cn_retry_cap_ms = 0, cn_retry_jitter_pct = 0, cn_custom_retry_schedule = [],
     cn_filter_expr = None, cn_transform_js = None, cn_enabled = False, cn_name = None, cn_created_at = 0, cn_updated_at = 0\<rparr>"

definition event_payload :: "int \<Rightarrow> conn_row \<Rightarrow> event_row \<Rightarrow> payload" where
  "event_payload now c ev =
     \<lparr>p_EventID = ev_id ev, p_OrgID = ev_org_id ev, p_Attempt = 0, p_EnqueuedAt = UnixMilli now, p_Manual = False,
      p_RetryStrategy = cn_retry_strategy c, p_RetryBaseMs = cn_retry_base_ms c, p_RetryCapMs = cn_retry_cap_ms c,
      p_RetryJitterPct = cn_retry_jitter_pct c, p_CustomRetrySchedule = cn_custom_retry_schedule c,
      p_Trace = [], p_Kind = [], p_Data = []\<rparr>"

text \<open>The identifiers of the events whose enqueue succeeded; the connections are looked up by identifier.\<close>

fun enqueueEvents ::
  "'r redis \<Rightarrow> ingest_handler \<Rightarrow> nenv \<Rightarrow> (string \<rightharpoonup> conn_row) \<Rightarrow> event_row list \<Rightarrow> 'r \<Rightarrow> string list \<times> 'r" where
  "enqueueEvents R h env connByID [] s = ([], s)"
| "enqueueEvents R h env connByID (ev # evs) s =
     (let c = (case connByID (ev_connection_id ev) of Some c \<Rightarrow> c | None \<Rightarrow> no_conn);
          (err, s) = Enqueue R payload_json (ig_queue h) (n_enqueue env (ev_id ev)) (n_trace env) (event_payload (n_now env) c ev) s;
          (ids, s) = enqueueEvents R h env connByID evs s
      in (if err = None then ev_id ev # ids else ids, s))"

text \<open>
  From the stored request on: the answer, whether the duplicate marker is kept, and the new state.
\<close>

definition fanout ::
  "'r redis \<Rightarrow> ingest_handler \<Rightarrow> nenv \<Rightarrow> http_in \<Rightarrow> source_row \<Rightarrow> compiledRule list \<Rightarrow> bytes \<Rightarrow> 'r iworld \<Rightarrow>
     (ingest_answer \<times> bool) \<times> 'r iworld" where
  "fanout R h env r src rules body w =
     (let hdr = map (\<lambda>(k, _). (k, Header_Get (hi_headers r) k)) (hi_headers r);
          cap = (\<lambda>w. w\<lparr>iw_db := capture env rules (so_org_id src) (n_reqID env) body hdr (iw_db w)\<rparr>)
      in if n_conns env \<noteq> IoOk then ((Refused 500 None, False), w)
         else
           (let conns = ListEnabledConnectionsBySource (so_id src) (iw_db w)
            in if conns = [] then ((Accepted (n_reqID env) [] False, True), cap w)
               else
                 (case run_io (n_events env)
                         (CreateEventsBatch (n_now env) (n_evIDs env) (n_reqID env) (so_org_id src) False (map cn_id conns)) (iw_db w) of
                    (Some (Inr events), d) \<Rightarrow>
                      (let connByID = map_of (rev (map (\<lambda>c. (cn_id c, c)) conns));
                           (ids, s) = enqueueEvents R h env connByID events (iw_redis w)
                       in ((Accepted (n_reqID env) ids False, True), cap (w\<lparr>iw_db := d, iw_redis := s\<rparr>)))
                  | (_, d) \<Rightarrow> ((Refused 500 None, False), w\<lparr>iw_db := d\<rparr>))))"

definition dedupTag :: "(bytes \<Rightarrow> bytes) \<Rightarrow> http_in \<Rightarrow> bytes \<Rightarrow> string" where
  "dedupTag sha r body = hex_encode (sha (hi_method r @ [CHR 0x0A] @ hi_path r @ [CHR 0x0A] @ hex_encode (sha body)))"

text \<open>
  From the body on. The marker that this call set is deleted again when no events were committed; the deletion
  runs after the answer was decided and its error is ignored.
\<close>

definition ingestBody ::
  "'r redis \<Rightarrow> ingest_handler \<Rightarrow> nenv \<Rightarrow> http_in \<Rightarrow> source_row \<Rightarrow> compiledRule list \<Rightarrow> bytes \<Rightarrow> 'r iworld \<Rightarrow>
     ingest_answer \<times> 'r iworld" where
  "ingestBody R h env r src rules body w =
     (let tag = dedupTag (n_sha256 env) r body;
          ((dup, failed), s) = checkDedup R (n_dedup env) (so_id src) tag (iw_redis w);
          w = w\<lparr>iw_redis := s\<rparr>;
          dedupClaimed = (\<not> dup \<and> \<not> failed);
          (stored, d) = persist env r src (hex_encode (n_sha256 env body)) body (iw_db w);
          w = w\<lparr>iw_db := d\<rparr>;
          ((ans, committed), w) =
            (if \<not> stored then ((Refused 500 None, False), w)
             else if dup then ((Accepted (n_reqID env) [] True, False), w)
             else fanout R h env r src rules body w)
      in (ans,
          if dedupClaimed \<and> \<not> committed
          then w\<lparr>iw_redis := snd (run_io (n_undo env) (\<lambda>s. ((), DEL R (dedupKey (so_id src) tag) s)) (iw_redis w))\<rparr>
          else w))"

definition rateLimited :: "ingest_handler \<Rightarrow> nenv \<Rightarrow> source_row \<Rightarrow> string option" where
  "rateLimited h env src =
     (if ig_limiter h \<and> RateLimitRPS h > 0 then
        (let burst = (if RateLimitBurst h \<le> 0 then RateLimitRPS h else RateLimitBurst h)
         in case n_limit env (''ingest:src:'' @ so_id src) (RateLimitRPS h) burst of
              Some (allowed, retryAfter) \<Rightarrow> if allowed = 0 then Some (show_int (quo retryAfter second + 1)) else None
            | None \<Rightarrow> None)
      else None)"

definition RetryAfter :: string where
  "RetryAfter = ''3600''"

definition handleIngest ::
  "'r redis \<Rightarrow> ingest_handler \<Rightarrow> nenv \<Rightarrow> string \<Rightarrow> http_in \<Rightarrow> 'r iworld \<Rightarrow> (ingest_answer \<times> alert_job option) \<times> 'r iworld" where
  "handleIngest R h env token r w =
     (case resolveSource env token w of
        (Inl e, w) \<Rightarrow> ((Refused (if e = ErrNoRows then 404 else 500) None, None), w)
      | (Inr (src, rules), w) \<Rightarrow>
          if \<not> methodAllowed (so_allowed_methods src) (hi_method r) then ((Refused 405 None, None), w)
          else if MaxWebhookHops h > 0 \<and> hopCount r \<ge> MaxWebhookHops h then ((Refused 403 None, None), w)
          else
            (case rateLimited h env src of
               Some t \<Rightarrow> ((Refused 429 (Some t), None), w)
             | None \<Rightarrow>
                 (let ((dec, job), g, s) = CheckIngest R (n_quota env) (n_now env) (iw_gate w) (so_org_id src) (iw_redis w);
                      w = w\<lparr>iw_gate := g, iw_redis := s\<rparr>
                  in if dec = OverHard then ((Refused 429 (Some RetryAfter), job), w)
                     else
                       (case hi_body r of
                          None \<Rightarrow> ((Refused 413 None, job), w)
                        | Some body \<Rightarrow>
                            if length body > MaxBodyBytes then ((Refused 413 None, job), w)
                            else (let (ans, w) = ingestBody R h env r src rules body w in ((ans, job), w))))))"

end
