(* ===== verification/Ingest_Props.thy ===== *)
theory Ingest_Props
  imports Ingest Usage_Props
begin

text \<open>
  The ingest endpoint keeps its promise to the sender: an accepted webhook is stored with its body and one queued
  event per enabled connection, and a refused one leaves no duplicate marker behind, so that the
  sender's retry is not taken for a duplicate. The one exception, a marker whose reply was lost, is shown by a run.
\<close>

section \<open>Resolution and rows\<close>

lemma find_append: "find P (xs @ ys) = (case find P xs of None \<Rightarrow> find P ys | Some x \<Rightarrow> Some x)"
  by (induction xs) auto

lemma lookupSource_frame:
  "iw_db (snd (lookupSource env token w)) = iw_db w" "iw_redis (snd (lookupSource env token w)) = iw_redis w"
  by (simp_all add: lookupSource_def Let_def split: sum.split)

lemma resolveSource_frame:
  "iw_db (snd (resolveSource env token w)) = iw_db w" "iw_redis (snd (resolveSource env token w)) = iw_redis w"
  by (simp_all add: resolveSource_def lookupSource_frame split: option.split)

text \<open>Capture writes bookmarks only.\<close>

lemma capture_frame:
  "t_events (capture env rules org i body hdr d) = t_events d \<and>
   t_requests (capture env rules org i body hdr d) = t_requests d \<and>
   t_bodies (capture env rules org i body hdr d) = t_bodies d"
proof (induction rules arbitrary: d)
  case (Cons rule rules)
  have b: "t_events (snd (run_io o1 (CreateAutoBookmark now newid org i name rl) d)) = t_events d"
    "t_requests (snd (run_io o1 (CreateAutoBookmark now newid org i name rl) d)) = t_requests d"
    "t_bodies (snd (run_io o1 (CreateAutoBookmark now newid org i name rl) d)) = t_bodies d" for o1 now newid name rl d
    by (cases o1; simp add: CreateAutoBookmark_def insert_bookmark_def)+
  have e: "t_events (snd (run_io o1 (\<lambda>d. ((), EvictCaptureBookmarks rl cap d)) d)) = t_events d"
    "t_requests (snd (run_io o1 (\<lambda>d. ((), EvictCaptureBookmarks rl cap d)) d)) = t_requests d"
    "t_bodies (snd (run_io o1 (\<lambda>d. ((), EvictCaptureBookmarks rl cap d)) d)) = t_bodies d" for o1 rl cap d
    by (cases o1; simp add: EvictCaptureBookmarks_def drop_bookmarks_def Let_def)+
  show ?case
    by (auto simp: Cons.IH b e prod.case_eq_if simp del: run_io.simps split: option.split sum.split bool.split)
qed simp

lemma capture_reads:
  "find_req j (capture env rules org i body hdr d) = find_req j d"
  "GetRequestBody j (capture env rules org i body hdr d) = GetRequestBody j d"
  using capture_frame[of env rules org i body hdr d] by (simp_all add: find_req_def GetRequestBody_def)

text \<open>What a successful persist has stored.\<close>

lemma CreateRequest_Inr:
  assumes "CreateRequest now row d = (Inr req, d')"
  shows "req = row\<lparr>rq_received_at := now\<rparr> \<and> find_req (rq_id row) d = None \<and> d' = d\<lparr>t_requests := t_requests d @ [req]\<rparr>"
  using assms by (auto simp: CreateRequest_def find_req_def find_None_iff list_ex_iff Let_def split: if_splits)

lemma InsertRequestBody_Inr:
  assumes "InsertRequestBody now i body d = (Inr u, d')"
  shows "d' = d\<lparr>t_bodies := t_bodies d @ [\<lparr>bd_request_id = i, bd_body = Some body, bd_stored_at = now\<rparr>]\<rparr> \<and> GetRequestBody i d' = Inr body"
proof -
  have "\<not> list_ex (\<lambda>b. bd_request_id b = i) (t_bodies d)" "d' = d\<lparr>t_bodies := t_bodies d @ [\<lparr>bd_request_id = i, bd_body = Some body, bd_stored_at = now\<rparr>]\<rparr>"
    using assms by (auto simp: InsertRequestBody_def split: if_splits)
  moreover from this(1) have "find (\<lambda>b. bd_request_id b = i \<and> bd_body b \<noteq> None) (t_bodies d) = None"
    by (auto simp: find_None_iff list_ex_iff)
  ultimately show ?thesis by (simp add: GetRequestBody_def find_append)
qed

lemma persist_steps:
  assumes "persist env r src bodyHash body d = (True, d')"
  obtains req d1 where "CreateRequest (n_now env) (request_row env r src bodyHash body) d = (Inr req, d1)"
    "InsertRequestBody (n_now env) (rq_id req) body d1 = (Inr (), d')"
proof -
  obtain x d1 where c: "run_io (n_create env) (CreateRequest (n_now env) (request_row env r src bodyHash body)) d = (x, d1)" by fastforce
  then obtain req where x: "x = Some (Inr req)" using assms by (auto simp: persist_def split: option.splits sum.splits)
  obtain y where b: "body_Put (n_put env) (n_now env) (rq_id req) body d1 = (Inr y, d')"
    using assms by (auto simp: persist_def c x split: prod.splits sum.splits)
  show ?thesis
    using that c x b by (cases "n_create env"; cases "n_put env") (auto simp: body_Put_def prod_eq_iff split: sum.splits prod.splits)
qed

lemma persist_stored:
  assumes "persist env r src bodyHash body d = (True, d')"
  shows "find_req (n_reqID env) d' = Some (request_row env r src bodyHash body)"
    and "GetRequestBody (n_reqID env) d' = Inr body"
    and "t_events d' = t_events d" "t_connections d' = t_connections d"
proof -
  obtain req d1 where s: "CreateRequest (n_now env) (request_row env r src bodyHash body) d = (Inr req, d1)"
    "InsertRequestBody (n_now env) (rq_id req) body d1 = (Inr (), d')"
    using persist_steps[OF assms] by blast
  have i: "rq_id (request_row env r src bodyHash body) = n_reqID env"
    "request_row env r src bodyHash body\<lparr>rq_received_at := n_now env\<rparr> = request_row env r src bodyHash body"
    by (simp_all add: request_row_def)
  note c = CreateRequest_Inr[OF s(1), unfolded i]
  note b = InsertRequestBody_Inr[OF s(2)]
  show "find_req (n_reqID env) d' = Some (request_row env r src bodyHash body)"
    using c b i by (simp add: find_req_def find_append)
  show "GetRequestBody (n_reqID env) d' = Inr body" "t_events d' = t_events d" "t_connections d' = t_connections d"
    using c b i by auto
qed

text \<open>The enqueue loop appends the payload of each reported event to the list of its organization.\<close>

definition queue_entry :: "nenv \<Rightarrow> (string \<rightharpoonup> conn_row) \<Rightarrow> event_row \<Rightarrow> string" where
  "queue_entry env m ev = marshal payload_json (injectTrace (n_trace env)
     (event_payload (n_now env) (case m (ev_connection_id ev) of Some c \<Rightarrow> c | None \<Rightarrow> no_conn) ev))"

lemma enqueueEvents_ids:
  "fst (enqueueEvents R h env m evs s) = map ev_id (filter (\<lambda>e. n_enqueue env (ev_id e) = IoOk) evs)"
proof (induction evs arbitrary: s)
  case (Cons ev evs)
  have "fst (Enqueue R payload_json c o1 tr p s) = None \<longleftrightarrow> o1 = IoOk" for c o1 tr p s
    by (cases o1) (simp_all add: Enqueue_def Let_def io_err_def)
  then show ?case by (simp add: Let_def case_prod_unfold Cons.IH)
qed simp

context redis
begin

lemma enqueue_pending:
  "v_lists (view R (snd (Enqueue R payload_json c o1 tr p s))) (pendingKey (prefix c) org) =
     v_lists (view R s) (pendingKey (prefix c) org) @
       (if o1 \<noteq> IoErr \<and> org = p_OrgID p then [marshal payload_json (injectTrace tr p)] else [])"
  by (cases o1) (auto simp: Enqueue_def enqueueScript_def Let_def case_prod_unfold redis_simps injectTrace_def)

lemma enqueueEvents_pending:
  "v_lists (view R (snd (enqueueEvents R h env m evs s))) (pendingKey (prefix (ig_queue h)) org) =
     v_lists (view R s) (pendingKey (prefix (ig_queue h)) org) @
       map (queue_entry env m) (filter (\<lambda>e. n_enqueue env (ev_id e) \<noteq> IoErr \<and> ev_org_id e = org) evs)"
  by (induction evs arbitrary: s)
    (auto simp: Let_def case_prod_unfold enqueue_pending queue_entry_def event_payload_def simp del: append_assoc)

end

section \<open>Accepted webhooks\<close>

definition conn_map :: "conn_row list \<Rightarrow> string \<rightharpoonup> conn_row" where
  "conn_map conns = map_of (rev (map (\<lambda>c. (cn_id c, c)) conns))"

text \<open>The events of a webhook: one per connection, queued for the source's organization.\<close>

definition events_of :: "string \<Rightarrow> string \<Rightarrow> conn_row list \<Rightarrow> event_row list \<Rightarrow> bool" where
  "events_of rid org conns es \<longleftrightarrow> map ev_connection_id es = map cn_id conns \<and>
     list_all (\<lambda>e. ev_status e = ''queued'' \<and> ev_request_id e = rid \<and> ev_org_id e = org \<and> ev_attempt_count e = 0) es"

lemma CreateEventsBatch_Inr:
  assumes "CreateEventsBatch now ids rid org test (map cn_id conns) d = (Inr es, d')"
  shows "d' = d\<lparr>t_events := t_events d @ es\<rparr> \<and> events_of rid org conns es"
proof -
  have "map snd (zip (map ids [0..<length conns]) (map cn_id conns)) = map cn_id conns" by (simp add: map_snd_zip)
  then show ?thesis
    using assms by (auto simp: CreateEventsBatch_def events_of_def Let_def case_prod_unfold list_all_iff comp_def split: if_splits)
qed

lemma fanout_accepted:
  assumes "fanout R h env r src rules body w = ((Accepted rid ids dup, c), w')"
  defines "conns \<equiv> ListEnabledConnectionsBySource (so_id src) (iw_db w)"
  obtains es where "\<not> dup" "c" "rid = n_reqID env" "t_events (iw_db w') = t_events (iw_db w) @ es"
    "events_of rid (so_org_id src) conns es" "t_requests (iw_db w') = t_requests (iw_db w)" "t_bodies (iw_db w') = t_bodies (iw_db w)"
    "ids = map ev_id (filter (\<lambda>e. n_enqueue env (ev_id e) = IoOk) es)"
    "iw_redis w' = snd (enqueueEvents R h env (conn_map conns) es (iw_redis w))"
proof (cases "conns = []")
  case True
  then show ?thesis
    using assms(1) that[of "[]"] by (auto simp: fanout_def Let_def conns_def capture_frame events_of_def split: if_splits)
next
  case False
  obtain x d where b: "run_io (n_events env) (CreateEventsBatch (n_now env) (n_evIDs env) (n_reqID env) (so_org_id src) False (map cn_id conns)) (iw_db w) = (x, d)"
    by fastforce
  then obtain es where x: "x = Some (Inr es)"
    using assms(1) False by (auto simp: fanout_def Let_def conns_def split: if_splits option.splits sum.splits)
  then have "CreateEventsBatch (n_now env) (n_evIDs env) (n_reqID env) (so_org_id src) False (map cn_id conns) (iw_db w) = (Inr es, d)"
    using b by (cases "n_events env") (auto simp: prod_eq_iff)
  note e = CreateEventsBatch_Inr[OF this]
  have n: "n_conns env = IoOk" using assms(1) by (auto simp: fanout_def Let_def split: if_splits)
  have "rid = n_reqID env \<and> \<not> dup \<and> c \<and> ids = fst (enqueueEvents R h env (conn_map conns) es (iw_redis w)) \<and>
      iw_redis w' = snd (enqueueEvents R h env (conn_map conns) es (iw_redis w)) \<and>
      iw_db w' = capture env rules (so_org_id src) (n_reqID env) body (map (\<lambda>(k, _). (k, Header_Get (hi_headers r) k)) (hi_headers r)) d"
    using assms(1) False unfolding fanout_def Let_def conns_def[symmetric] b x n
    by (auto simp: case_prod_unfold conn_map_def)
  then show ?thesis using e by (intro that[of es]) (simp_all add: capture_frame enqueueEvents_ids)
qed

text \<open>A handler that reaches the body has resolved the source, passed the guards and counted the request.\<close>

lemma handleIngest_accepted:
  assumes "handleIngest R h env token r w = ((Accepted rid ids dup, aj), w')"
  obtains src rules body g s where "fst (resolveSource env token w) = Inr (src, rules)" "hi_body r = Some body"
    "length body \<le> MaxBodyBytes"
    "s = snd (snd (CheckIngest R (n_quota env) (n_now env) (iw_gate (snd (resolveSource env token w))) (so_org_id src) (iw_redis w)))"
    "ingestBody R h env r src rules body ((snd (resolveSource env token w))\<lparr>iw_gate := g, iw_redis := s\<rparr>) = (Accepted rid ids dup, w')"
proof -
  obtain src rules w1 where r: "resolveSource env token w = (Inr (src, rules), w1)"
    using assms by (auto simp: handleIngest_def split: prod.splits sum.splits)
  have f: "iw_redis w1 = iw_redis w" using resolveSource_frame[of env token w] r by simp
  obtain dec aj' g s where q: "CheckIngest R (n_quota env) (n_now env) (iw_gate w1) (so_org_id src) (iw_redis w) = ((dec, aj'), g, s)"
    by (metis surj_pair)
  have "\<exists>body. hi_body r = Some body \<and> length body \<le> MaxBodyBytes \<and>
      ingestBody R h env r src rules body (w1\<lparr>iw_gate := g, iw_redis := s\<rparr>) = (Accepted rid ids dup, w')"
    using assms unfolding handleIngest_def r
    by (auto simp: q f Let_def split: if_splits option.splits prod.splits)
  then show ?thesis using that r q by auto
qed

lemma ingestBody_split:
  fixes R :: "'r redis" and w :: "'r iworld"
  defines "tag r env body \<equiv> dedupTag (n_sha256 env) r body"
  assumes "ingestBody R h env r src rules body w = (ans, w')"
  obtains dup failed s stored d committed w1 where
    "checkDedup R (n_dedup env) (so_id src) (tag r env body) (iw_redis w) = ((dup, failed), s)"
    "persist env r src (hex_encode (n_sha256 env body)) body (iw_db w) = (stored, d)"
    "((ans, committed), w1) =
        (if \<not> stored then ((Refused 500 None, False), w\<lparr>iw_redis := s, iw_db := d\<rparr>)
         else if dup then ((Accepted (n_reqID env) [] True, False), w\<lparr>iw_redis := s, iw_db := d\<rparr>)
         else fanout R h env r src rules body (w\<lparr>iw_redis := s, iw_db := d\<rparr>))"
    "w' = (if \<not> dup \<and> \<not> failed \<and> \<not> committed
           then w1\<lparr>iw_redis := snd (run_io (n_undo env) (\<lambda>s. ((), DEL R (dedupKey (so_id src) (tag r env body)) s)) (iw_redis w1))\<rparr> else w1)"
proof -
  obtain dup failed s where c: "checkDedup R (n_dedup env) (so_id src) (tag r env body) (iw_redis w) = ((dup, failed), s)" by (metis surj_pair)
  obtain stored d where p: "persist env r src (hex_encode (n_sha256 env body)) body (iw_db w) = (stored, d)" by fastforce
  obtain a committed w1 where f: "((a, committed), w1) =
        (if \<not> stored then ((Refused 500 None, False), w\<lparr>iw_redis := s, iw_db := d\<rparr>)
         else if dup then ((Accepted (n_reqID env) [] True, False), w\<lparr>iw_redis := s, iw_db := d\<rparr>)
         else fanout R h env r src rules body (w\<lparr>iw_redis := s, iw_db := d\<rparr>))" by (metis surj_pair)
  show ?thesis
    using assms(2) unfolding ingestBody_def Let_def c[unfolded tag_def] by (intro that[OF c p]) (auto simp: p f[symmetric] tag_def)
qed

context redis
begin

lemma Incr_view: "\<exists>x t. view R (snd (Incr R o1 org metric start n s)) = v_str (CounterKey org metric start) x t (view R s)"
proof -
  have "v_str k (v_strs v k) (v_ttls v k) v = v" for k v by (simp add: v_str_def)
  then have "\<exists>x t. view R s = v_str (CounterKey org metric start) x t (view R s)" by metis
  moreover have "v_str k x t (v_str k x' t' v) = v_str k x t v" for k x t x' t' v by (simp add: v_str_def)
  ultimately show ?thesis
    by (cases o1) (auto simp: Incr_def Let_def case_prod_unfold redis_simps)
qed

lemma check_state: "snd (snd (check R o1 now g org metric s)) = s \<or> (\<exists>start. snd (snd (check R o1 now g org metric s)) = snd (Incr R o1 org metric start 1 s))"
proof (cases g)
  case (Some x)
  show ?thesis unfolding check_def Some by (simp add: Let_def case_prod_unfold) blast
qed (simp add: check_def)

lemma check_view: "\<exists>k x t. has_prefix k ''usage:'' \<and> view R (snd (snd (check R o1 now g org metric s))) = v_str k x t (view R s)"
proof -
  have "v_str k (v_strs v k) (v_ttls v k) v = v" for k v by (simp add: v_str_def)
  then have "\<exists>k x t. has_prefix k ''usage:'' \<and> view R s = v_str k x t (view R s)"
    by (metis has_prefix_append)
  moreover have "has_prefix (CounterKey org metric start) ''usage:''" for start by (simp add: CounterKey_def has_prefix_def)
  ultimately show ?thesis using check_state[of o1 now g org metric s] Incr_view by metis
qed

lemma check_lists: "v_lists (view R (snd (snd (check R o1 now g org metric s)))) = v_lists (view R s)"
  using check_view[of o1 now g org metric s] by auto

lemma checkDedup_lists: "v_lists (view R (snd (checkDedup R o1 source tag s))) = v_lists (view R s)"
  by (cases o1) (simp_all add: checkDedup_def redis_simps)

lemma ingestBody_accepted:
  assumes "ingestBody R h env r src rules body w = (Accepted rid ids False, w')"
  defines "conns \<equiv> ListEnabledConnectionsBySource (so_id src) (iw_db w)"
  obtains es where "find_req rid (iw_db w') = Some (request_row env r src (hex_encode (n_sha256 env body)) body)"
    "GetRequestBody rid (iw_db w') = Inr body"
    "t_events (iw_db w') = t_events (iw_db w) @ es" "events_of rid (so_org_id src) conns es"
    "ids = map ev_id (filter (\<lambda>e. n_enqueue env (ev_id e) = IoOk) es)"
    "v_lists (view R (iw_redis w')) (pendingKey (prefix (ig_queue h)) (so_org_id src)) =
       v_lists (view R (iw_redis w)) (pendingKey (prefix (ig_queue h)) (so_org_id src)) @
         map (queue_entry env (conn_map conns)) (filter (\<lambda>e. n_enqueue env (ev_id e) \<noteq> IoErr) es)"
proof (rule ingestBody_split[OF assms(1)])
  fix dup failed s stored d committed w1
  assume c: "checkDedup R (n_dedup env) (so_id src) (dedupTag (n_sha256 env) r body) (iw_redis w) = ((dup, failed), s)"
    and p: "persist env r src (hex_encode (n_sha256 env body)) body (iw_db w) = (stored, d)"
    and f: "((Accepted rid ids False, committed), w1) =
        (if \<not> stored then ((Refused 500 None, False), w\<lparr>iw_redis := s, iw_db := d\<rparr>)
         else if dup then ((Accepted (n_reqID env) [] True, False), w\<lparr>iw_redis := s, iw_db := d\<rparr>)
         else fanout R h env r src rules body (w\<lparr>iw_redis := s, iw_db := d\<rparr>))"
    and w': "w' = (if \<not> dup \<and> \<not> failed \<and> \<not> committed
           then w1\<lparr>iw_redis := snd (run_io (n_undo env) (\<lambda>s. ((), DEL R (dedupKey (so_id src) (dedupTag (n_sha256 env) r body)) s)) (iw_redis w1))\<rparr> else w1)"
  have st: "stored" and fo: "fanout R h env r src rules body (w\<lparr>iw_redis := s, iw_db := d\<rparr>) = ((Accepted rid ids False, committed), w1)"
    using f by (auto split: if_splits)
  note ps = persist_stored[OF p[unfolded eqTrueI[OF st]]]
  have s: "v_lists (view R s) = v_lists (view R (iw_redis w))"
    using checkDedup_lists[of "n_dedup env" "so_id src" "dedupTag (n_sha256 env) r body" "iw_redis w"] c by simp
  have cs: "ListEnabledConnectionsBySource (so_id src) (iw_db (w\<lparr>iw_redis := s, iw_db := d\<rparr>)) = conns"
    using ps by (simp add: ListEnabledConnectionsBySource_def conns_def)
  show ?thesis
  proof (rule fanout_accepted[OF fo], unfold cs)
    fix es
    assume e: "committed" "rid = n_reqID env" "t_events (iw_db w1) = t_events (iw_db (w\<lparr>iw_redis := s, iw_db := d\<rparr>)) @ es"
      "events_of rid (so_org_id src) conns es" "t_requests (iw_db w1) = t_requests (iw_db (w\<lparr>iw_redis := s, iw_db := d\<rparr>))"
      "t_bodies (iw_db w1) = t_bodies (iw_db (w\<lparr>iw_redis := s, iw_db := d\<rparr>))"
      "ids = map ev_id (filter (\<lambda>e. n_enqueue env (ev_id e) = IoOk) es)"
      "iw_redis w1 = snd (enqueueEvents R h env (conn_map conns) es (iw_redis (w\<lparr>iw_redis := s, iw_db := d\<rparr>)))"
    have "filter (\<lambda>e. n_enqueue env (ev_id e) \<noteq> IoErr \<and> ev_org_id e = so_org_id src) es = filter (\<lambda>e. n_enqueue env (ev_id e) \<noteq> IoErr) es"
      using e(4) by (intro filter_cong) (auto simp: events_of_def list_all_iff)
    then show ?thesis
      using e ps w' by (intro that[of es]) (simp_all add: find_req_def GetRequestBody_def enqueueEvents_pending s)
  qed
qed

end

text \<open>
  C22: A webhook that is answered 202 and not as a duplicate is stored: its request row with the digest of its body,
  the body itself, and exactly one new queued event for each enabled connection of its source, owned by the
  source's organization. The event identifiers of the answer are those whose enqueue succeeded, and their
  tasks stand at the end of the organization's pending list in the order of the connections.
\<close>

theorem ingest_recorded:
  assumes "redis R" "handleIngest R h env token r w = ((Accepted rid ids False, aj), w')"
  shows "\<exists>src rules body es. fst (resolveSource env token w) = Inr (src, rules) \<and> hi_body r = Some body \<and>
    find_req rid (iw_db w') = Some (request_row env r src (hex_encode (n_sha256 env body)) body) \<and>
    GetRequestBody rid (iw_db w') = Inr body \<and>
    t_events (iw_db w') = t_events (iw_db w) @ es \<and>
    events_of rid (so_org_id src) (ListEnabledConnectionsBySource (so_id src) (iw_db w)) es \<and>
    ids = map ev_id (filter (\<lambda>e. n_enqueue env (ev_id e) = IoOk) es) \<and>
    LRANGE R (pendingKey (prefix (ig_queue h)) (so_org_id src)) 0 (-1) (iw_redis w') =
      LRANGE R (pendingKey (prefix (ig_queue h)) (so_org_id src)) 0 (-1) (iw_redis w) @
      map (queue_entry env (conn_map (ListEnabledConnectionsBySource (so_id src) (iw_db w))))
        (filter (\<lambda>e. n_enqueue env (ev_id e) \<noteq> IoErr) es)"
proof (rule handleIngest_accepted[OF assms(2)])
  fix src rules body g s
  let ?w = "(snd (resolveSource env token w))\<lparr>iw_gate := g, iw_redis := s\<rparr>"
  assume a: "fst (resolveSource env token w) = Inr (src, rules)" "hi_body r = Some body"
    and s: "s = snd (snd (CheckIngest R (n_quota env) (n_now env) (iw_gate (snd (resolveSource env token w))) (so_org_id src) (iw_redis w)))"
    and b: "ingestBody R h env r src rules body ?w = (Accepted rid ids False, w')"
  have l: "v_lists (view R s) = v_lists (view R (iw_redis w))"
    unfolding s CheckIngest_def by (rule redis.check_lists[OF assms(1)])
  have v: "LRANGE R k 0 (-1) s = v_lists (view R s) k" for k s by (simp add: view_def)
  show ?thesis
    by (rule redis.ingestBody_accepted[OF assms(1) b]) (use a in \<open>auto simp: v l resolveSource_frame\<close>)
qed

section \<open>Refused webhooks and duplicates\<close>

lemma fanout_refused:
  assumes "fanout R h env r src rules body w = ((Refused st ra, c), w')"
  shows "iw_redis w' = iw_redis w \<and> \<not> c"
  using assms by (auto simp: fanout_def Let_def case_prod_unfold split: if_splits option.splits sum.splits prod.splits)

lemma handleIngest_refused:
  assumes "handleIngest R h env token r w = ((Refused st ra, aj), w')"
  shows "iw_redis w' = iw_redis w \<or>
    (\<exists>g org. iw_redis w' = snd (snd (CheckIngest R (n_quota env) (n_now env) g org (iw_redis w)))) \<or>
    (\<exists>g gw org src rules body. ingestBody R h env r src rules body (gw\<lparr>iw_redis := snd (snd (CheckIngest R (n_quota env) (n_now env) g org (iw_redis w)))\<rparr>) = (Refused st ra, w'))"
proof -
  obtain x w1 where r: "resolveSource env token w = (x, w1)" by fastforce
  have f: "iw_redis w1 = iw_redis w" using resolveSource_frame[of env token w] r by simp
  show ?thesis
  proof (cases x)
    case (Inl e)
    then show ?thesis using assms f by (auto simp: handleIngest_def r)
  next
    case (Inr y)
    obtain src rules where y: "y = (src, rules)" by fastforce
    obtain dec aj' g s where q: "CheckIngest R (n_quota env) (n_now env) (iw_gate w1) (so_org_id src) (iw_redis w) = ((dec, aj'), g, s)"
      by (metis surj_pair)
    then have s: "s = snd (snd (CheckIngest R (n_quota env) (n_now env) (iw_gate w1) (so_org_id src) (iw_redis w)))" by simp
    have "iw_redis w' = iw_redis w \<or> iw_redis w' = s \<or> (\<exists>body. ingestBody R h env r src rules body ((w1\<lparr>iw_gate := g\<rparr>)\<lparr>iw_redis := s\<rparr>) = (Refused st ra, w'))"
      using assms f unfolding handleIngest_def r Inr y
      by (auto simp: q Let_def split: if_splits option.splits prod.splits)
    then show ?thesis unfolding s by blast
  qed
qed

context redis
begin

lemma check_exists:
  assumes "has_prefix k ''dedup:''"
  shows "EXISTS R k (snd (snd (CheckIngest R o1 now g org s))) = EXISTS R k s"
proof -
  obtain c x t where c: "has_prefix c ''usage:''" "view R (snd (snd (CheckIngest R o1 now g org s))) = v_str c x t (view R s)"
    using check_view[of o1 now g org MetricEvents s] unfolding CheckIngest_def by blast
  then have "c \<noteq> k" using assms by (auto simp: has_prefix_iff)
  then show ?thesis by (simp add: exists_v c)
qed

lemma dedup_undone:
  assumes "checkDedup R o1 source tag s = ((dup, failed), s')" "o1 \<noteq> IoLost"
  shows "EXISTS R k (if \<not> dup \<and> \<not> failed then DEL R (dedupKey source tag) s' else s') = EXISTS R k s"
  using assms by (cases o1) (auto simp: checkDedup_def redis_simps)

lemma ingestBody_refused:
  assumes "ingestBody R h env r src rules body w = (Refused st ra, w')" "n_dedup env \<noteq> IoLost" "n_undo env = IoOk"
  shows "EXISTS R k (iw_redis w') = EXISTS R k (iw_redis w)"
proof (rule ingestBody_split[OF assms(1)])
  fix dup failed s stored d committed w1
  assume c: "checkDedup R (n_dedup env) (so_id src) (dedupTag (n_sha256 env) r body) (iw_redis w) = ((dup, failed), s)"
    and f: "((Refused st ra, committed), w1) =
        (if \<not> stored then ((Refused 500 None, False), w\<lparr>iw_redis := s, iw_db := d\<rparr>)
         else if dup then ((Accepted (n_reqID env) [] True, False), w\<lparr>iw_redis := s, iw_db := d\<rparr>)
         else fanout R h env r src rules body (w\<lparr>iw_redis := s, iw_db := d\<rparr>))"
    and w': "w' = (if \<not> dup \<and> \<not> failed \<and> \<not> committed
           then w1\<lparr>iw_redis := snd (run_io (n_undo env) (\<lambda>s. ((), DEL R (dedupKey (so_id src) (dedupTag (n_sha256 env) r body)) s)) (iw_redis w1))\<rparr> else w1)"
  have "iw_redis w1 = s \<and> \<not> committed"
    using f fanout_refused[of R h env r src rules body "w\<lparr>iw_redis := s, iw_db := d\<rparr>" st ra committed w1] by (auto split: if_splits)
  then have "iw_redis w' = (if \<not> dup \<and> \<not> failed then DEL R (dedupKey (so_id src) (dedupTag (n_sha256 env) r body)) s else s)"
    using w' assms(3) by simp
  then show ?thesis using dedup_undone[OF c assms(2), of k] by simp
qed

lemma refused_unmarked:
  assumes "handleIngest R h env token r w = ((Refused st ra, aj), w')" "n_dedup env \<noteq> IoLost" "n_undo env = IoOk"
    and "has_prefix k ''dedup:''"
  shows "EXISTS R k (iw_redis w') = EXISTS R k (iw_redis w)"
  using handleIngest_refused[OF assms(1)]
proof (elim disjE exE)
  fix gw g org src rules body
  assume "ingestBody R h env r src rules body (gw\<lparr>iw_redis := snd (snd (CheckIngest R (n_quota env) (n_now env) g org (iw_redis w)))\<rparr>) = (Refused st ra, w')"
  from ingestBody_refused[OF this assms(2,3), of k] show ?thesis by (simp add: check_exists[OF assms(4)])
qed (simp_all add: check_exists[OF assms(4)])

lemma deduped_marked:
  assumes "handleIngest R h env token r w = ((Accepted rid ids True, aj), w')"
    and "hi_body r = Some body" "fst (resolveSource env token w) = Inr (src, rules)"
  shows "EXISTS R (dedupKey (so_id src) (dedupTag (n_sha256 env) r body)) (iw_redis w)"
proof (rule handleIngest_accepted[OF assms(1)])
  fix src' rules' body' g s
  let ?w = "(snd (resolveSource env token w))\<lparr>iw_gate := g, iw_redis := s\<rparr>"
  let ?k = "dedupKey (so_id src) (dedupTag (n_sha256 env) r body)"
  assume a: "fst (resolveSource env token w) = Inr (src', rules')" "hi_body r = Some body'"
    and s: "s = snd (snd (CheckIngest R (n_quota env) (n_now env) (iw_gate (snd (resolveSource env token w))) (so_org_id src') (iw_redis w)))"
    and b: "ingestBody R h env r src' rules' body' ?w = (Accepted rid ids True, w')"
  have eq: "src' = src" "rules' = rules" "body' = body" using a assms by simp_all
  have "EXISTS R ?k s"
  proof (rule ingestBody_split[OF b[unfolded eq]])
    fix dup failed s1 stored d committed w1
    assume c: "checkDedup R (n_dedup env) (so_id src) (dedupTag (n_sha256 env) r body) (iw_redis ?w) = ((dup, failed), s1)"
      and f: "((Accepted rid ids True, committed), w1) =
        (if \<not> stored then ((Refused 500 None, False), ?w\<lparr>iw_redis := s1, iw_db := d\<rparr>)
         else if dup then ((Accepted (n_reqID env) [] True, False), ?w\<lparr>iw_redis := s1, iw_db := d\<rparr>)
         else fanout R h env r src rules body (?w\<lparr>iw_redis := s1, iw_db := d\<rparr>))"
    have "dup"
      using f fanout_accepted[of R h env r src rules body "?w\<lparr>iw_redis := s1, iw_db := d\<rparr>" rid ids True committed w1]
      by (auto split: if_splits)
    then show ?thesis using c by (cases "n_dedup env") (auto simp: checkDedup_def redis_simps)
  qed
  then show ?thesis unfolding s eq by (subst (asm) check_exists) (auto simp: dedupKey_def has_prefix_def)
qed

end

text \<open>
  C23: A webhook that was refused is not taken for a duplicate when its sender tries again: if no marker of it stood
  before the refused attempt, the retry is not answered as deduped, whatever happened in between to the rest
  of the state. The marker's own two calls are the only ones that matter: the claim did not lose its reply, and the
  deletion went through.
\<close>

theorem failed_ingest_retried:
  assumes "redis R" "handleIngest R h env token r w = ((Refused st ra, aj), w1)"
    and "n_dedup env \<noteq> IoLost" "n_undo env = IoOk" "iw_redis w2 = iw_redis w1"
    and "hi_body r = Some body" "fst (resolveSource env2 token w2) = Inr (src, rules)"
    and "\<not> EXISTS R (dedupKey (so_id src) (dedupTag (n_sha256 env2) r body)) (iw_redis w)"
  shows "fst (fst (handleIngest R h env2 token r w2)) \<noteq> Accepted rid ids True"
proof
  assume "fst (fst (handleIngest R h env2 token r w2)) = Accepted rid ids True"
  then obtain aj2 w3 where "handleIngest R h env2 token r w2 = ((Accepted rid ids True, aj2), w3)" by (metis prod.collapse)
  from redis.deduped_marked[OF assms(1) this assms(6,7)] show False
    using redis.refused_unmarked[OF assms(1-4)] assms(5,8) by (simp add: dedupKey_def has_prefix_def)
qed

section \<open>A concrete source\<close>

definition src0 :: source_row where
  "src0 = \<lparr>so_id = ''s'', so_org_id = org_a, so_name = ''hook'', so_type = ''http'', so_ingest_token = ''tok'', so_signing_config = [],
     so_description = [], so_allowed_methods = [''POST''], so_enabled = True, so_created_at = 0, so_updated_at = 0\<rparr>"

definition iw0 :: "mem iworld" where
  "iw0 = \<lparr>iw_db = db0\<lparr>t_sources := [src0], t_requests := [], t_events := []\<rparr>, iw_redis = mem_empty, iw_cache = [], iw_neg = 0, iw_gate = None\<rparr>"

definition ig0 :: ingest_handler where
  "ig0 = \<lparr>ig_queue = NewClient, ig_limiter = False, RateLimitRPS = 0, RateLimitBurst = 0, MaxWebhookHops = 0\<rparr>"

definition post0 :: http_in where
  "post0 = \<lparr>hi_method = ''POST'', hi_path = ''/e/tok'', hi_headers = [], hi_body = Some ''{}'', hi_remote = ''127.0.0.1:80''\<rparr>"

text \<open>Every call succeeds but the duplicate claim and the request insert, whose outcomes are given.\<close>

definition nenv0 :: "string \<Rightarrow> io \<Rightarrow> io \<Rightarrow> nenv" where
  "nenv0 rid dedup create = \<lparr>n_source = IoOk, n_rules = IoOk, n_compile = (\<lambda>_. True), n_limit = (\<lambda>_ _ _. None), n_quota = IoOk,
     n_dedup = dedup, n_undo = IoOk, n_create = create, n_put = IoOk, n_conns = IoOk, n_events = IoOk, n_enqueue = (\<lambda>_. IoOk),
     n_eval = (\<lambda>_ _ _. None), n_bookmark = (\<lambda>_. IoOk), n_evict = (\<lambda>_. IoOk), n_sha256 = id, n_reqID = rid,
     n_evIDs = (\<lambda>_. uuid_Nil), n_bmIDs = (\<lambda>_. []), n_trace = [], n_now = 5\<rparr>"

definition entry0 :: "(string \<times> sourceCacheEntry) list" where
  "entry0 = [(''tok'', \<lparr>ce_src = Some src0, ce_rules = [], ce_expires = 5 + SourceCacheTTL\<rparr>)]"

lemma resolve0:
  "resolveSource (nenv0 rid dd cc) ''tok'' iw0 = (Inr (src0, []), iw0\<lparr>iw_cache := entry0\<rparr>)"
  "iw_cache w = entry0 \<Longrightarrow> resolveSource (nenv0 rid dd cc) ''tok'' w = (Inr (src0, []), w)"
  by (simp_all add: resolveSource_def lookupSource_def iw0_def nenv0_def GetSourceByIngestToken_def one_row_def src0_def
      ListEnabledCaptureRulesBySource_def compileRules_def db0_def entry0_def SourceCacheTTL_def second_def)

lemma handleIngest0:
  assumes "resolveSource (nenv0 rid dd cc) ''tok'' w = (Inr (src0, []), w1)" "iw_gate w1 = None"
  shows "handleIngest mem_redis ig0 (nenv0 rid dd cc) ''tok'' post0 w =
    (let (ans, w) = ingestBody mem_redis ig0 (nenv0 rid dd cc) post0 src0 [] ''{}'' w1 in ((ans, None), w))"
  using assms by (cases w1) (simp add: handleIngest_def assms(1) src0_def post0_def ig0_def methodAllowed_def upper_char_def rateLimited_def
      CheckIngest_def check_def MaxBodyBytes_def)

definition key0 :: string where
  "key0 = dedupKey ''s'' (dedupTag id post0 ''{}'')"

lemma nenv0_sel:
  "n_dedup (nenv0 rid dd cc) = dd" "n_create (nenv0 rid dd cc) = cc" "n_undo (nenv0 rid dd cc) = IoOk"
  "n_sha256 (nenv0 rid dd cc) = id" "n_reqID (nenv0 rid dd cc) = rid" "n_conns (nenv0 rid dd cc) = IoOk"
  "n_put (nenv0 rid dd cc) = IoOk" "n_events (nenv0 rid dd cc) = IoOk" "so_id src0 = ''s''"
  by (simp_all add: nenv0_def src0_def)

lemma persist_err0: "persist (nenv0 rid dd IoErr) r src hash body d = (False, d)"
  by (simp add: persist_def nenv0_sel)

lemma persist0:
  assumes "t_requests d = []" "t_bodies d = []" "t_sources d = [src0]"
  shows "\<exists>d'. persist (nenv0 rid dd IoOk) r src0 hash body d = (True, d') \<and> t_events d' = t_events d"
  using assms by (simp add: persist_def body_Put_def CreateRequest_def InsertRequestBody_def find_source_def find_req_def
      request_row_def nenv0_sel Let_def)

definition leaked :: "mem iworld" where
  "leaked = iw0\<lparr>iw_cache := entry0, iw_redis := snd (SETNX mem_redis key0 1 DedupWindow mem_empty)\<rparr>"

lemma refused0:
  "handleIngest mem_redis ig0 (nenv0 rid IoLost IoErr) ''tok'' post0 iw0 = ((Refused 500 None, None), leaked)"
  by (subst handleIngest0[OF resolve0(1)])
    (simp_all add: ingestBody_def checkDedup_def nenv0_sel persist_err0 leaked_def key0_def iw0_def)

lemma leaked_marked: "EXISTS mem_redis key0 (iw_redis leaked)"
  by (simp add: leaked_def mem.exists_v mem.setnx)

text \<open>
  C24: A duplicate marker that was set but whose reply was lost is not deleted when the request fails: the handler
  takes the claim for not made. The sender gets 500, and its retry within the window is answered 202 as a duplicate
  although no event of the webhook was ever created.
\<close>

theorem dedup_claim_leaked:
  "\<exists>w1 w2. handleIngest mem_redis ig0 (nenv0 ''r1'' IoLost IoErr) ''tok'' post0 iw0 = ((Refused 500 None, None), w1) \<and>
     handleIngest mem_redis ig0 (nenv0 ''r2'' IoOk IoOk) ''tok'' post0 w1 = ((Accepted ''r2'' [] True, None), w2) \<and>
     t_events (iw_db w2) = []"
proof -
  have t: "t_requests (iw_db leaked) = []" "t_bodies (iw_db leaked) = []" "t_sources (iw_db leaked) = [src0]" "t_events (iw_db leaked) = []"
    by (simp_all add: leaked_def iw0_def db0_def)
  obtain d where p: "persist (nenv0 ''r2'' IoOk IoOk) post0 src0 (hex_encode ''{}'') ''{}'' (iw_db leaked) = (True, d)" "t_events d = []"
    using persist0[OF t(1-3)] t(4) by metis
  have "iw_cache leaked = entry0" "iw_gate leaked = None" by (simp_all add: leaked_def iw0_def)
  note h = handleIngest0[OF resolve0(2)[OF this(1)] this(2), of "''r2''" IoOk IoOk]
  have "\<exists>w2. handleIngest mem_redis ig0 (nenv0 ''r2'' IoOk IoOk) ''tok'' post0 leaked = ((Accepted ''r2'' [] True, None), w2) \<and> iw_db w2 = d"
    unfolding h using leaked_marked
    by (simp add: ingestBody_def checkDedup_def nenv0_sel mem.setnx_v key0_def p Let_def del: hex_encode.simps)
  then show ?thesis using refused0 p(2) by metis
qed

text \<open>A webhook accepted, and one refused and accepted on the retry.\<close>

lemma accepted0:
  assumes "iw_cache w = entry0 \<or> w = iw0" "iw_gate w = None" "iw_db w = iw_db iw0" "\<not> EXISTS mem_redis key0 (iw_redis w)"
  shows "\<exists>w'. handleIngest mem_redis ig0 (nenv0 ''r'' IoOk IoOk) ''tok'' post0 w = ((Accepted ''r'' [uuid_Nil] False, None), w')"
proof -
  obtain w1 where r: "resolveSource (nenv0 ''r'' IoOk IoOk) ''tok'' w = (Inr (src0, []), w1)" "iw_gate w1 = None" "iw_db w1 = iw_db w" "iw_redis w1 = iw_redis w"
  proof (cases "w = iw0")
    case True
    then show ?thesis by (intro that[of "iw0\<lparr>iw_cache := entry0\<rparr>"]) (simp add: resolve0, simp_all add: iw0_def)
  next
    case False
    then show ?thesis using assms(1,2) by (intro that[of w]) (simp_all add: resolve0(2))
  qed
  have t: "t_requests (iw_db w1) = []" "t_bodies (iw_db w1) = []" "t_sources (iw_db w1) = [src0]" "t_connections (iw_db w1) = [conn0]"
    by (simp_all add: r assms(3) iw0_def db0_def)
  obtain d where p: "persist (nenv0 ''r'' IoOk IoOk) post0 src0 (hex_encode ''{}'') ''{}'' (iw_db w1) = (True, d)"
    using persist0[OF t(1-3)] by metis
  note s = persist_stored[OF p, unfolded nenv0_sel t(4)]
  have c: "ListEnabledConnectionsBySource ''s'' d = [conn0]" "cn_id conn0 = ''c''"
    by (simp_all add: ListEnabledConnectionsBySource_def s conn0_def)
  have "\<exists>x. fanout mem_redis ig0 (nenv0 ''r'' IoOk IoOk) post0 src0 [] ''{}'' (w1\<lparr>iw_redis := s1, iw_db := d\<rparr>) =
      ((Accepted ''r'' [uuid_Nil] False, True), x)" for s1
    by (simp add: fanout_def nenv0_sel c CreateEventsBatch_def s GetConnectionByID_def Let_def case_prod_unfold
        enqueueEvents_ids del: enqueueEvents.simps)
      (simp add: nenv0_def)
  then obtain x where "fanout mem_redis ig0 (nenv0 ''r'' IoOk IoOk) post0 src0 [] ''{}''
      (w1\<lparr>iw_redis := snd (SETNX mem_redis key0 1 DedupWindow (iw_redis w)), iw_db := d\<rparr>) = ((Accepted ''r'' [uuid_Nil] False, True), x)" by blast
  then show ?thesis
    unfolding handleIngest0[OF r(1,2)] using assms(4)
    by (simp add: ingestBody_def checkDedup_def nenv0_sel mem.setnx_v key0_def p r(4) Let_def del: hex_encode.simps)
qed

theorem ingest_recorded_witness:
  "\<exists>w'. handleIngest mem_redis ig0 (nenv0 ''r'' IoOk IoOk) ''tok'' post0 iw0 = ((Accepted ''r'' [uuid_Nil] False, None), w') \<and>
     GetRequestBody ''r'' (iw_db w') = Inr ''{}'' \<and> map ev_connection_id (t_events (iw_db w')) = [''c'']"
proof -
  have "\<not> EXISTS mem_redis key0 (iw_redis iw0)" "iw_gate iw0 = None" by (simp_all add: mem_sel mem_exists_def iw0_def mem_empty_def get_or_def)
  then obtain w' where w': "handleIngest mem_redis ig0 (nenv0 ''r'' IoOk IoOk) ''tok'' post0 iw0 = ((Accepted ''r'' [uuid_Nil] False, None), w')"
    using accepted0[of iw0] by blast
  have c: "ListEnabledConnectionsBySource (so_id src0) (iw_db iw0) = [conn0]" "t_events (iw_db iw0) = []" "hi_body post0 = Some ''{}''"
    by (simp_all add: ListEnabledConnectionsBySource_def iw0_def db0_def conn0_def src0_def post0_def)
  show ?thesis
    using ingest_recorded[OF mem.redis_axioms w'] w' by (auto simp: resolve0(1) c events_of_def conn0_def)
qed

theorem failed_ingest_retried_witness:
  "\<exists>w1 w2. handleIngest mem_redis ig0 (nenv0 ''q'' IoOk IoErr) ''tok'' post0 iw0 = ((Refused 500 None, None), w1) \<and>
     handleIngest mem_redis ig0 (nenv0 ''r'' IoOk IoOk) ''tok'' post0 w1 = ((Accepted ''r'' [uuid_Nil] False, None), w2) \<and>
     fst (fst (handleIngest mem_redis ig0 (nenv0 ''r'' IoOk IoOk) ''tok'' post0 w1)) \<noteq> Accepted ''r'' [] True"
proof -
  define w1 where "w1 = snd (handleIngest mem_redis ig0 (nenv0 ''q'' IoOk IoErr) ''tok'' post0 iw0)"
  have h: "handleIngest mem_redis ig0 (nenv0 ''q'' IoOk IoErr) ''tok'' post0 iw0 =
      (let (ans, w) = ingestBody mem_redis ig0 (nenv0 ''q'' IoOk IoErr) post0 src0 [] ''{}'' (iw0\<lparr>iw_cache := entry0\<rparr>) in ((ans, None), w))"
    by (rule handleIngest0[OF resolve0(1)]) (simp add: iw0_def)
  have a: "handleIngest mem_redis ig0 (nenv0 ''q'' IoOk IoErr) ''tok'' post0 iw0 = ((Refused 500 None, None), w1) \<and>
      iw_cache w1 = entry0 \<and> iw_gate w1 = None \<and> iw_db w1 = iw_db iw0"
    unfolding w1_def h
    by (simp add: ingestBody_def checkDedup_def nenv0_sel persist_err0 iw0_def mem.setnx_v Let_def del: hex_encode.simps)
  have e: "\<not> EXISTS mem_redis key0 (iw_redis iw0)" by (simp add: mem_sel mem_exists_def iw0_def mem_empty_def get_or_def)
  have "hi_body post0 = Some ''{}''" by (simp add: post0_def)
  moreover have "fst (resolveSource (nenv0 ''r'' IoOk IoOk) ''tok'' w1) = Inr (src0, [])" by (subst resolve0(2)) (simp_all add: a)
  ultimately have "fst (fst (handleIngest mem_redis ig0 (nenv0 ''r'' IoOk IoOk) ''tok'' post0 w1)) \<noteq> Accepted ''r'' [] True"
    using e a by (intro failed_ingest_retried[OF mem.redis_axioms, where w = iw0 and ?w1.0 = w1 and env = "nenv0 ''q'' IoOk IoErr"])
      (auto simp: nenv0_sel key0_def)
  moreover have "\<not> EXISTS mem_redis key0 (iw_redis w1)"
    using mem.refused_unmarked[of ig0 "nenv0 ''q'' IoOk IoErr" "''tok''" post0 iw0 500 None None w1 key0] a e
    by (simp add: nenv0_sel key0_def dedupKey_def has_prefix_def)
  then obtain w2 where "handleIngest mem_redis ig0 (nenv0 ''r'' IoOk IoOk) ''tok'' post0 w1 = ((Accepted ''r'' [uuid_Nil] False, None), w2)"
    using accepted0[OF disjI1, of w1] a by auto
  ultimately show ?thesis using a by (intro exI[of _ w1] exI[of _ w2]) simp
qed

end
