(* ===== verification/Outbound.thy ===== *)
theory Outbound
  imports Webhook Identity
begin

text \<open>
  The outbound API, src/internal/api/outbound: applications, event types, endpoints, messages, the portal link
  and the reads. A handler takes the principal that the middlewares attached, the parameters of its path and its
  decoded body (\<open>None\<close>: not JSON; a raw JSON member that the decoder accepted is valid JSON) and
  answers an error status, or a success status with the row its view shows. The state is the outbound database with Redis,
  the identity database (audit log) and the quota gate. JSON Schema, CEL and JavaScript compilers, \<open>url.Parse\<close> and
  \<open>time.Parse\<close> are arguments.
\<close>

section \<open>State and environment\<close>

record 'r oworld =
  ow_m :: "'r mworld"
  ow_idb :: idb
  ow_gate :: "gate option"

record oenv =
  oe_out :: "string \<Rightarrow> io"
  oe_enqueue :: "string \<Rightarrow> io"
  oe_now :: int
  oe_newid :: string
  oe_delid :: "nat \<Rightarrow> string"
  oe_rnd :: bytes
  oe_sha256 :: "bytes \<Rightarrow> bytes"
  oe_trace :: "(string \<times> string) list"
  oe_ienv :: ienv
  oe_url :: "string \<Rightarrow> url option"
  oe_filter :: "string \<Rightarrow> bool"
  oe_transform :: "string \<Rightarrow> bool"
  oe_schema :: "bytes \<Rightarrow> bool"
  oe_validate :: "bytes \<Rightarrow> bytes \<Rightarrow> bool"
  oe_time :: "string \<Rightarrow> int option"

record ohandlers =
  oh_queue :: client
  SelfHosts :: "string list"
  SecretGrace :: int
  oh_ttl :: int

type_synonym 'a reply = "int + int \<times> 'a"

definition ostmt :: "io \<Rightarrow> (mdb \<Rightarrow> (go_error + 'a) \<times> mdb) \<Rightarrow> 'r oworld \<Rightarrow> (go_error + 'a) \<times> 'r oworld" where
  "ostmt o1 f w = (let (r, m) = stmt o1 f (ow_m w) in (r, w\<lparr>ow_m := m\<rparr>))"

definition oread :: "io \<Rightarrow> (mdb \<Rightarrow> go_error + 'a) \<Rightarrow> 'r oworld \<Rightarrow> go_error + 'a" where
  "oread o1 f w = read_stmt o1 f (ow_m w)"

definition oaudit ::
  "oenv \<Rightarrow> Principal option \<Rightarrow> string \<Rightarrow> string \<Rightarrow> string option \<Rightarrow> (string \<times> jval) list \<Rightarrow> 'r oworld \<Rightarrow> 'r oworld" where
  "oaudit env p action type target meta w =
     w\<lparr>ow_idb := audit_Log (oe_ienv env) p \<lparr>ent_action = action, ent_target_type = type, ent_target = target,
         ent_meta = meta, ent_org = uuid_Nil\<rparr> (ow_idb w)\<rparr>"

text \<open>The guard of every handler: a principal with an active organization.\<close>

definition active_org ::
  "Principal option \<Rightarrow> (string \<Rightarrow> 'w \<Rightarrow> 'a reply \<times> 'w) \<Rightarrow> 'w \<Rightarrow> 'a reply \<times> 'w" where
  "active_org p f w =
     (case p of None \<Rightarrow> (Inl 401, w) | Some p \<Rightarrow> if pr_OrgID p = uuid_Nil then (Inl 401, w) else f (pr_OrgID p) w)"

definition enqueueDelivery :: "'r redis \<Rightarrow> ohandlers \<Rightarrow> oenv \<Rightarrow> string \<Rightarrow> string \<Rightarrow> 'r oworld \<Rightarrow> go_error option \<times> 'r oworld" where
  "enqueueDelivery R h env org i w =
     (let (err, m) = enqueue_delivery R (oh_queue h) (oe_enqueue env i) (oe_trace env) (oe_now env) org i (ow_m w)
      in (err, w\<lparr>ow_m := m\<rparr>))"

section \<open>Validation\<close>

definition maxHeaders :: nat where "maxHeaders = 20"
definition maxHeadersBytes :: nat where "maxHeadersBytes = 4096"
definition maxChannels :: nat where "maxChannels = 10"
definition maxRateLimit :: int where "maxRateLimit = 1000000"

definition channel_char :: "char \<Rightarrow> bool" where
  "channel_char c \<longleftrightarrow> (CHR ''a'' \<le> c \<and> c \<le> CHR ''z'') \<or> (CHR ''A'' \<le> c \<and> c \<le> CHR ''Z'') \<or>
     (CHR ''0'' \<le> c \<and> c \<le> CHR ''9'') \<or> c \<in> set ''-_.''"

definition validateChannels :: "string list \<Rightarrow> bool" where
  "validateChannels chs \<longleftrightarrow> length chs \<le> maxChannels \<and>
     list_all (\<lambda>c. 1 \<le> length c \<and> length c \<le> 128 \<and> list_all channel_char c) chs"

definition reservedHeaderNames :: "string list" where
  "reservedHeaderNames = [''content-type'', ''webhook-id'', ''webhook-timestamp'', ''webhook-signature'']"

definition reservedHeader :: "string \<Rightarrow> bool" where
  "reservedHeader name \<longleftrightarrow>
     (let l = map lower_char name in has_prefix l ''dstream-'' \<or> l \<in> set reservedHeaderNames)"

definition separators :: string where
  "separators = ''()<>@,;:'' @ [CHR 0x5C, CHR 0x22] @ ''/[]?={} '' @ [CHR 0x09]"

definition isTokenName :: "string \<Rightarrow> bool" where
  "isTokenName s \<longleftrightarrow> s \<noteq> [] \<and> list_all (\<lambda>c. \<not> (c \<le> CHR '' '' \<or> CHR 0x7F \<le> c) \<and> c \<notin> set separators) s"

definition validateEndpointHeaders :: "(string \<times> string) list \<Rightarrow> bool" where
  "validateEndpointHeaders h \<longleftrightarrow> length h \<le> maxHeaders \<and>
     list_all (\<lambda>(k, v). isTokenName k \<and> \<not> reservedHeader k) h \<and>
     sum_list (map (\<lambda>(k, v). length k + length v) h) \<le> maxHeadersBytes"

definition compileSchema :: "oenv \<Rightarrow> bytes option \<Rightarrow> bool" where
  "compileSchema env raw \<longleftrightarrow> (case raw of None \<Rightarrow> True | Some s \<Rightarrow> s = [] \<or> oe_schema env s)"

definition validatePayloadAgainstSchema :: "oenv \<Rightarrow> bytes option \<Rightarrow> bytes \<Rightarrow> bool" where
  "validatePayloadAgainstSchema env schema payload \<longleftrightarrow>
     (case schema of None \<Rightarrow> True | Some s \<Rightarrow> s = [] \<or> oe_schema env s \<and> oe_validate env s payload)"

text \<open>Nil and empty clear the column; a nonempty expression must compile.\<close>

definition compiledExpr :: "(string \<Rightarrow> bool) \<Rightarrow> string option \<Rightarrow> string option option" where
  "compiledExpr compile p =
     (case p of None \<Rightarrow> Some None | Some e \<Rightarrow> if e = [] then Some None else if compile e then Some (Some e) else None)"

definition badRateLimit :: "int option \<Rightarrow> bool" where
  "badRateLimit x \<longleftrightarrow> (case x of None \<Rightarrow> False | Some n \<Rightarrow> n < 0 \<or> n > maxRateLimit)"

definition int32PtrFromInt :: "int option \<Rightarrow> int option" where
  "int32PtrFromInt x = map_option to_int32 x"

text \<open>\<open>json.Compact\<close> on valid JSON: white space outside of strings goes.\<close>

fun json_compact :: "bool \<Rightarrow> bytes \<Rightarrow> bytes" where
  "json_compact q [] = []"
| "json_compact False (c # cs) =
     (if c \<in> {CHR '' '', CHR 0x09, CHR 0x0A, CHR 0x0D} then json_compact False cs
      else c # json_compact (c = CHR 0x22) cs)"
| "json_compact True [c] = [c]"
| "json_compact True (c # x # cs) =
     (if c = CHR 0x5C then c # x # json_compact True cs else c # json_compact (c \<noteq> CHR 0x22) (x # cs))"

definition isJSONNull :: "bytes \<Rightarrow> bool" where
  "isJSONNull raw \<longleftrightarrow> TrimSpace raw = ''null''"

section \<open>Applications\<close>

definition appForOrg :: "oenv \<Rightarrow> string \<Rightarrow> string \<Rightarrow> 'r oworld \<Rightarrow> int + app_row" where
  "appForOrg env appParam org w =
     (case uuid_Parse appParam of
        None \<Rightarrow> Inl 400
      | Some i \<Rightarrow> (case oread (oe_out env ''app'') (GetApplicationForOrg i org) w of Inl _ \<Rightarrow> Inl 404 | Inr a \<Rightarrow> Inr a))"

text \<open>The guard shared by the handlers below an application.\<close>

definition in_app ::
  "oenv \<Rightarrow> Principal option \<Rightarrow> string \<Rightarrow> (string \<Rightarrow> app_row \<Rightarrow> 'r oworld \<Rightarrow> 'a reply \<times> 'r oworld) \<Rightarrow> 'r oworld \<Rightarrow> 'a reply \<times> 'r oworld" where
  "in_app env p appParam f =
     active_org p (\<lambda>org w. case appForOrg env appParam org w of Inl st \<Rightarrow> (Inl st, w) | Inr app \<Rightarrow> f org app w)"

record createAppReq =
  ca_uid :: "string option"
  ca_name :: string
  ca_metadata :: bytes

definition CreateApplication_api ::
  "oenv \<Rightarrow> Principal option \<Rightarrow> createAppReq option \<Rightarrow> 'r oworld \<Rightarrow> app_row reply \<times> 'r oworld" where
  "CreateApplication_api env p body =
     active_org p (\<lambda>org w.
       case body of None \<Rightarrow> (Inl 400, w) | Some b \<Rightarrow>
       if ca_name b = [] then (Inl 400, w)
       else case ostmt (oe_out env ''create'') (CreateApplication (oe_now env) (oe_newid env) org (ca_uid b) (ca_name b)
                    (if ca_metadata b = [] then ''{}'' else ca_metadata b)) w of
              (Inl e, w) \<Rightarrow> (Inl (if e = ErrUnique then 409 else 500), w)
            | (Inr a, w) \<Rightarrow> (Inr (201, a), oaudit env p ''application.create'' ''application'' (Some (ap_id a)) [(''name'', JStr (ap_name a))] w))"

definition pageSize :: nat where "pageSize = 50"
definition listLimit :: nat where "listLimit = 100"

text \<open>The cursor before the first page: the end of the year 9999 and the greatest identifier.\<close>

definition maxCursor :: "int \<times> string" where
  "maxCursor = (253402300799 * second, ''ffffffff-ffff-ffff-ffff-ffffffffffff'')"

definition pageCursor :: "oenv \<Rightarrow> string \<Rightarrow> int \<times> string" where
  "pageCursor env c =
     (if c = [] then maxCursor
      else case b64_decode url_alphabet False c of
             None \<Rightarrow> maxCursor
           | Some b \<Rightarrow>
               (case cut b (CHR ''|'') of
                  (ts, i, found) \<Rightarrow>
                    if \<not> found then maxCursor
                    else case (oe_time env ts, uuid_Parse i) of (Some t, Some i) \<Rightarrow> (t, i) | _ \<Rightarrow> maxCursor))"

definition encodeCursor :: "int \<Rightarrow> string \<Rightarrow> string" where
  "encodeCursor ts i = b64_encode url_alphabet False (rfc3339 ts @ ''|'' @ i)"

definition next_cursor :: "('a \<Rightarrow> int) \<Rightarrow> ('a \<Rightarrow> string) \<Rightarrow> 'a list \<Rightarrow> string option" where
  "next_cursor ts i rows = (if length rows = pageSize then Some (encodeCursor (ts (last rows)) (i (last rows))) else None)"

definition ListApplications ::
  "oenv \<Rightarrow> Principal option \<Rightarrow> string \<Rightarrow> 'r oworld \<Rightarrow> (app_row list \<times> string option) reply \<times> 'r oworld" where
  "ListApplications env p cursor =
     active_org p (\<lambda>org w.
       case oread (oe_out env ''list'') (\<lambda>d. Inr (ListApplicationsByOrg org (pageCursor env cursor) pageSize d)) w of
         Inl _ \<Rightarrow> (Inl 500, w) | Inr rows \<Rightarrow> (Inr (200, rows, next_cursor ap_created_at ap_id rows), w))"

definition GetApplication :: "oenv \<Rightarrow> Principal option \<Rightarrow> string \<Rightarrow> 'r oworld \<Rightarrow> app_row reply \<times> 'r oworld" where
  "GetApplication env p appParam = in_app env p appParam (\<lambda>org app w. (Inr (200, app), w))"

record patchAppReq =
  pa_name :: "string option"
  pa_uid :: "string option"
  pa_metadata :: bytes

definition PatchApplication ::
  "oenv \<Rightarrow> Principal option \<Rightarrow> string \<Rightarrow> patchAppReq option \<Rightarrow> 'r oworld \<Rightarrow> app_row reply \<times> 'r oworld" where
  "PatchApplication env p appParam body =
     active_org p (\<lambda>org w.
       case uuid_Parse appParam of None \<Rightarrow> (Inl 400, w) | Some i \<Rightarrow>
       case body of None \<Rightarrow> (Inl 400, w) | Some b \<Rightarrow>
       case ostmt (oe_out env ''update'') (UpdateApplication (oe_now env) i org (pa_name b) (pa_uid b)
              (if pa_metadata b = [] then None else Some (pa_metadata b))) w of
         (Inl e, w) \<Rightarrow> (Inl (if e = ErrNoRows then 404 else if e = ErrUnique then 409 else 500), w)
       | (Inr a, w) \<Rightarrow> (Inr (200, a), oaudit env p ''application.update'' ''application'' (Some i) [(''name'', JStr (ap_name a))] w))"

definition DeleteApplication :: "oenv \<Rightarrow> Principal option \<Rightarrow> string \<Rightarrow> 'r oworld \<Rightarrow> unit reply \<times> 'r oworld" where
  "DeleteApplication env p appParam =
     active_org p (\<lambda>org w.
       case uuid_Parse appParam of None \<Rightarrow> (Inl 400, w) | Some i \<Rightarrow>
       case ostmt (oe_out env ''delete'') (DeleteApplicationForOrg i org) w of
         (Inl e, w) \<Rightarrow> (Inl (if e = ErrNoRows then 404 else 500), w)
       | (Inr _, w) \<Rightarrow> (Inr (204, ()), oaudit env p ''application.delete'' ''application'' (Some i) [] w))"

definition GetOperationalApp_api :: "oenv \<Rightarrow> Principal option \<Rightarrow> 'r oworld \<Rightarrow> app_row reply \<times> 'r oworld" where
  "GetOperationalApp_api env p =
     active_org p (\<lambda>org w.
       case SeedOperationalApp (ie_pub (oe_ienv env)) org (ow_m w) of
         (Inl _, m) \<Rightarrow> (Inl 500, w\<lparr>ow_m := m\<rparr>)
       | (Inr i, m) \<Rightarrow>
           (case oread (oe_out env ''load'') (GetApplicationForOrg i org) (w\<lparr>ow_m := m\<rparr>) of
              Inl _ \<Rightarrow> (Inl 500, w\<lparr>ow_m := m\<rparr>) | Inr a \<Rightarrow> (Inr (200, a), w\<lparr>ow_m := m\<rparr>)))"

section \<open>The portal link\<close>

definition CreatePortalAccess ::
  "ohandlers \<Rightarrow> oenv \<Rightarrow> Principal option \<Rightarrow> string \<Rightarrow> 'r oworld \<Rightarrow> (string \<times> int) reply \<times> 'r oworld" where
  "CreatePortalAccess h env p appParam =
     in_app env p appParam (\<lambda>org app w.
       (Inr (200, Mint (ie_hmac (oe_ienv env)) (ie_secret (oe_ienv env)) (oh_ttl h) (oe_now env) (ap_id app) org (ap_portal_epoch app)), w))"

definition RevokePortalAccess :: "oenv \<Rightarrow> Principal option \<Rightarrow> string \<Rightarrow> 'r oworld \<Rightarrow> unit reply \<times> 'r oworld" where
  "RevokePortalAccess env p appParam =
     in_app env p appParam (\<lambda>org app w.
       case ostmt (oe_out env ''bump'') (\<lambda>d. (Inr (), BumpApplicationPortalEpoch (oe_now env) (ap_id app) org d)) w of
         (Inl _, w) \<Rightarrow> (Inl 500, w) | (Inr _, w) \<Rightarrow> (Inr (204, ()), w))"

section \<open>Event types\<close>

record createEventTypeReq =
  ct_name :: string
  ct_description :: string
  ct_schema :: bytes

definition CreateEventType_api ::
  "oenv \<Rightarrow> Principal option \<Rightarrow> createEventTypeReq option \<Rightarrow> 'r oworld \<Rightarrow> event_type_row reply \<times> 'r oworld" where
  "CreateEventType_api env p body =
     active_org p (\<lambda>org w.
       case body of None \<Rightarrow> (Inl 400, w) | Some b \<Rightarrow>
       if ct_name b = [] then (Inl 400, w)
       else
         (let schema = (if ct_schema b \<noteq> [] \<and> \<not> isJSONNull (ct_schema b) then Some (ct_schema b) else None)
          in if \<not> compileSchema env schema then (Inl 400, w)
             else case ostmt (oe_out env ''create'') (CreateEventType (oe_now env) (oe_newid env) org (ct_name b) (ct_description b) schema) w of
                    (Inl e, w) \<Rightarrow> (Inl (if e = ErrUnique then 409 else 500), w)
                  | (Inr t, w) \<Rightarrow> (Inr (201, t), oaudit env p ''event_type.create'' ''event_type'' (Some (et_id t)) [(''name'', JStr (et_name t))] w)))"

definition ListEventTypes :: "oenv \<Rightarrow> Principal option \<Rightarrow> 'r oworld \<Rightarrow> event_type_row list reply \<times> 'r oworld" where
  "ListEventTypes env p =
     active_org p (\<lambda>org w.
       case oread (oe_out env ''list'') (\<lambda>d. Inr (ListEventTypesByOrg org listLimit d)) w of
         Inl _ \<Rightarrow> (Inl 500, w) | Inr rows \<Rightarrow> (Inr (200, rows), w))"

definition GetEventType :: "oenv \<Rightarrow> Principal option \<Rightarrow> string \<Rightarrow> 'r oworld \<Rightarrow> event_type_row reply \<times> 'r oworld" where
  "GetEventType env p name =
     active_org p (\<lambda>org w.
       case oread (oe_out env ''get'') (GetEventTypeForOrg org name) w of Inl _ \<Rightarrow> (Inl 404, w) | Inr t \<Rightarrow> (Inr (200, t), w))"

record patchEventTypeReq =
  pt_description :: "string option"
  pt_schema :: bytes
  pt_archived :: "bool option"

definition PatchEventType ::
  "oenv \<Rightarrow> Principal option \<Rightarrow> string \<Rightarrow> patchEventTypeReq option \<Rightarrow> 'r oworld \<Rightarrow> event_type_row reply \<times> 'r oworld" where
  "PatchEventType env p name body =
     active_org p (\<lambda>org w.
       case body of None \<Rightarrow> (Inl 400, w) | Some b \<Rightarrow>
       let setSchema = (pt_schema b \<noteq> []);
           schema = (if setSchema \<and> \<not> isJSONNull (pt_schema b) then Some (pt_schema b) else None)
       in if \<not> compileSchema env schema then (Inl 400, w)
          else case ostmt (oe_out env ''update'') (UpdateEventType (oe_now env) org name (pt_description b) setSchema schema (pt_archived b)) w of
                 (Inl e, w) \<Rightarrow> (Inl (if e = ErrNoRows then 404 else 500), w)
               | (Inr t, w) \<Rightarrow> (Inr (200, t), oaudit env p ''event_type.update'' ''event_type'' (Some (et_id t))
                     [(''name'', JStr (et_name t)), (''archived'', JBool (et_archived t))] w))"

definition DeleteEventType :: "oenv \<Rightarrow> Principal option \<Rightarrow> string \<Rightarrow> 'r oworld \<Rightarrow> unit reply \<times> 'r oworld" where
  "DeleteEventType env p name =
     active_org p (\<lambda>org w.
       case ostmt (oe_out env ''delete'') (DeleteEventTypeForOrg org name) w of
         (Inl e, w) \<Rightarrow> (Inl (if e = ErrNoRows then 404 else 500), w)
       | (Inr _, w) \<Rightarrow> (Inr (204, ()), oaudit env p ''event_type.delete'' ''event_type'' None [(''name'', JStr name)] w))"

section \<open>Endpoints\<close>

record createEndpointReq =
  ce_uid :: "string option"
  ce_url :: string
  ce_description :: string
  ce_filter_event_types :: "string list option"
  ce_headers :: "(string \<times> string) list"
  ce_rate_limit :: "int option"
  ce_channels :: "string list option"
  ce_filter_expr :: "string option"
  ce_transform_js :: "string option"

text \<open>\<open>json.Marshal\<close> of a string map.\<close>

definition marshalStrings :: "(string \<times> string) list \<Rightarrow> bytes" where
  "marshalStrings h = jshow (JObj (map (\<lambda>(k, v). (k, JStr v)) (sort_key fst h)))"

text \<open>The view of an endpoint leaves the secrets out; the answers to creation and rotation show the current one.\<close>

definition endpointView :: "endpoint_row \<Rightarrow> endpoint_row" where
  "endpointView e = e\<lparr>ep_secret := [], ep_prev_secret := None, ep_prev_secret_expires_at := None\<rparr>"

definition endpointCreateView :: "endpoint_row \<Rightarrow> endpoint_row" where
  "endpointCreateView e = (endpointView e)\<lparr>ep_secret := ep_secret e\<rparr>"

definition badURL :: "ohandlers \<Rightarrow> oenv \<Rightarrow> string \<Rightarrow> bool" where
  "badURL h env url \<longleftrightarrow> ValidateDestinationURL (oe_url env url) \<noteq> None \<or> IsSelfHost (oe_url env url) (SelfHosts h)"

definition CreateEndpoint_api ::
  "ohandlers \<Rightarrow> oenv \<Rightarrow> Principal option \<Rightarrow> string \<Rightarrow> createEndpointReq option \<Rightarrow> 'r oworld \<Rightarrow> endpoint_row reply \<times> 'r oworld" where
  "CreateEndpoint_api h env p appParam body =
     in_app env p appParam (\<lambda>org app w.
       case body of None \<Rightarrow> (Inl 400, w) | Some b \<Rightarrow>
       if badURL h env (ce_url b) then (Inl 400, w)
       else if \<not> validateEndpointHeaders (ce_headers b) then (Inl 400, w)
       else if badRateLimit (ce_rate_limit b) then (Inl 400, w)
       else if \<not> validateChannels (opt_default [] (ce_channels b)) then (Inl 400, w)
       else case compiledExpr (oe_filter env) (ce_filter_expr b) of None \<Rightarrow> (Inl 400, w) | Some fe \<Rightarrow>
            case compiledExpr (oe_transform env) (ce_transform_js b) of None \<Rightarrow> (Inl 400, w) | Some tj \<Rightarrow>
            case ostmt (oe_out env ''create'') (CreateEndpoint (oe_now env) (oe_newid env) (ap_id app) org
                   \<lparr>cep_uid = ce_uid b, cep_url = ce_url b, cep_description = ce_description b, cep_secret = GenerateSecret (oe_rnd env),
                    cep_filter_event_types = ce_filter_event_types b, cep_headers = marshalStrings (ce_headers b),
                    cep_rate_limit = int32PtrFromInt (ce_rate_limit b), cep_channels = ce_channels b,
                    cep_filter_expr = fe, cep_transform_js = tj\<rparr>) w of
              (Inl e, w) \<Rightarrow> (Inl (if e = ErrUnique then 409 else 500), w)
            | (Inr e, w) \<Rightarrow> (Inr (201, endpointCreateView e), oaudit env p ''endpoint.create'' ''endpoint'' (Some (ep_id e))
                 [(''app_id'', JStr (ap_id app)), (''url'', JStr (ep_url e)), (''headers'', JBool (ce_headers b \<noteq> []))] w))"

definition ListEndpoints :: "oenv \<Rightarrow> Principal option \<Rightarrow> string \<Rightarrow> 'r oworld \<Rightarrow> endpoint_row list reply \<times> 'r oworld" where
  "ListEndpoints env p appParam =
     in_app env p appParam (\<lambda>org app w.
       case oread (oe_out env ''list'') (\<lambda>d. Inr (ListEndpointsByApp (ap_id app) listLimit d)) w of
         Inl _ \<Rightarrow> (Inl 500, w) | Inr rows \<Rightarrow> (Inr (200, map endpointView rows), w))"

definition endpointForAppID :: "oenv \<Rightarrow> string \<Rightarrow> string \<Rightarrow> 'r oworld \<Rightarrow> int + endpoint_row" where
  "endpointForAppID env app i w =
     (case oread (oe_out env ''endpoint'') (GetEndpointForApp i app) w of Inl _ \<Rightarrow> Inl 404 | Inr e \<Rightarrow> Inr e)"

definition endpointForApp :: "oenv \<Rightarrow> string \<Rightarrow> string \<Rightarrow> 'r oworld \<Rightarrow> int + endpoint_row" where
  "endpointForApp env app idParam w =
     (case uuid_Parse idParam of None \<Rightarrow> Inl 400 | Some i \<Rightarrow> endpointForAppID env app i w)"

definition GetEndpoint :: "oenv \<Rightarrow> Principal option \<Rightarrow> string \<Rightarrow> string \<Rightarrow> 'r oworld \<Rightarrow> endpoint_row reply \<times> 'r oworld" where
  "GetEndpoint env p appParam idParam =
     in_app env p appParam (\<lambda>org app w.
       case endpointForApp env (ap_id app) idParam w of Inl st \<Rightarrow> (Inl st, w) | Inr e \<Rightarrow> (Inr (200, endpointView e), w))"

definition GetEndpointSecret_api :: "oenv \<Rightarrow> Principal option \<Rightarrow> string \<Rightarrow> string \<Rightarrow> 'r oworld \<Rightarrow> string reply \<times> 'r oworld" where
  "GetEndpointSecret_api env p appParam idParam =
     in_app env p appParam (\<lambda>org app w.
       case uuid_Parse idParam of None \<Rightarrow> (Inl 400, w) | Some i \<Rightarrow>
       case oread (oe_out env ''endpoint'') (GetEndpointSecret i (ap_id app)) w of Inl _ \<Rightarrow> (Inl 404, w) | Inr s \<Rightarrow> (Inr (200, s), w))"

text \<open>The body of a rotation: not JSON, or the secret the caller brings.\<close>

definition RotateEndpointSecret_api ::
  "ohandlers \<Rightarrow> oenv \<Rightarrow> Principal option \<Rightarrow> string \<Rightarrow> string \<Rightarrow> string option option \<Rightarrow> 'r oworld \<Rightarrow> endpoint_row reply \<times> 'r oworld" where
  "RotateEndpointSecret_api h env p appParam idParam body =
     in_app env p appParam (\<lambda>org app w.
       case uuid_Parse idParam of None \<Rightarrow> (Inl 400, w) | Some i \<Rightarrow>
       case body of None \<Rightarrow> (Inl 400, w) | Some own \<Rightarrow>
       case (case own of None \<Rightarrow> Some (GenerateSecret (oe_rnd env))
             | Some s \<Rightarrow> if s = [] then Some (GenerateSecret (oe_rnd env)) else if ValidSecret s then Some s else None) of
         None \<Rightarrow> (Inl 400, w)
       | Some newSecret \<Rightarrow>
           (let grace = (if SecretGrace h \<le> 0 then 24 * hour else SecretGrace h)
            in case ostmt (oe_out env ''rotate'') (RotateEndpointSecret (oe_now env) i (ap_id app) newSecret (oe_now env + grace)) w of
                 (Inl e, w) \<Rightarrow> (Inl (if e = ErrNoRows then 404 else 500), w)
               | (Inr e, w) \<Rightarrow> (Inr (200, endpointCreateView e), oaudit env p ''endpoint.rotate_secret'' ''endpoint'' (Some i) [] w)))"

record patchEndpointReq =
  pe_url :: "string option"
  pe_description :: "string option"
  pe_disabled :: "bool option"
  pe_filter_event_types :: "string list option"
  pe_headers :: "(string \<times> string) list option"
  pe_rate_limit :: "int option"
  pe_channels :: "string list option"
  pe_filter_expr :: "string option"
  pe_transform_js :: "string option"

text \<open>The checks of a new URL: an error status, or none.\<close>

definition patchURL :: "ohandlers \<Rightarrow> oenv \<Rightarrow> Principal option \<Rightarrow> string \<Rightarrow> string \<Rightarrow> string option \<Rightarrow> 'r oworld \<Rightarrow> int option" where
  "patchURL h env p app i url w =
     (case url of None \<Rightarrow> None | Some url \<Rightarrow>
      case oread (oe_out env ''endpoint'') (GetEndpointForApp i app) w of
        Inl _ \<Rightarrow> Some 404
      | Inr cur \<Rightarrow>
          if url \<noteq> ep_url cur \<and> RequireAdminForURLChange p \<noteq> None then RequireAdminForURLChange p
          else if badURL h env url then Some 400 else None)"

definition PatchEndpoint ::
  "ohandlers \<Rightarrow> oenv \<Rightarrow> Principal option \<Rightarrow> string \<Rightarrow> string \<Rightarrow> patchEndpointReq option \<Rightarrow> 'r oworld \<Rightarrow> endpoint_row reply \<times> 'r oworld" where
  "PatchEndpoint h env p appParam idParam body =
     in_app env p appParam (\<lambda>org app w.
       case uuid_Parse idParam of None \<Rightarrow> (Inl 400, w) | Some i \<Rightarrow>
       case body of None \<Rightarrow> (Inl 400, w) | Some b \<Rightarrow>
       case patchURL h env p (ap_id app) i (pe_url b) w of Some st \<Rightarrow> (Inl st, w) | None \<Rightarrow>
       if \<not> validateEndpointHeaders (opt_default [] (pe_headers b)) then (Inl 400, w)
       else if badRateLimit (pe_rate_limit b) then (Inl 400, w)
       else if \<not> validateChannels (opt_default [] (pe_channels b)) then (Inl 400, w)
       else case compiledExpr (oe_filter env) (pe_filter_expr b) of None \<Rightarrow> (Inl 400, w) | Some fe \<Rightarrow>
            case compiledExpr (oe_transform env) (pe_transform_js b) of None \<Rightarrow> (Inl 400, w) | Some tj \<Rightarrow>
            case ostmt (oe_out env ''update'') (UpdateEndpoint (oe_now env) i (ap_id app)
                   \<lparr>pep_url = pe_url b, pep_description = pe_description b, pep_disabled = pe_disabled b,
                    pep_filter_event_types = map_option Some (pe_filter_event_types b),
                    pep_headers = map_option marshalStrings (pe_headers b), pep_rate_limit = int32PtrFromInt (pe_rate_limit b),
                    pep_channels = map_option Some (pe_channels b),
                    pep_filter_expr = (if pe_filter_expr b = None then None else Some fe),
                    pep_transform_js = (if pe_transform_js b = None then None else Some tj)\<rparr>) w of
              (Inl e, w) \<Rightarrow> (Inl (if e = ErrNoRows then 404 else if e = ErrUnique then 409 else 500), w)
            | (Inr e, w) \<Rightarrow> (Inr (200, endpointView e), oaudit env p ''endpoint.update'' ''endpoint'' (Some i)
                 [(''url'', JStr (ep_url e)), (''disabled'', JBool (ep_disabled e)), (''headers'', JBool (pe_headers b \<noteq> None))] w))"

definition recoverMaxBatch :: nat where "recoverMaxBatch = 1000"

text \<open>The identifiers of the deliveries that were reset and enqueued; both errors skip the delivery.\<close>

fun recoverLoop_api ::
  "'r redis \<Rightarrow> ohandlers \<Rightarrow> oenv \<Rightarrow> string \<Rightarrow> string list \<Rightarrow> 'r oworld \<Rightarrow> nat \<times> 'r oworld" where
  "recoverLoop_api R h env org [] w = (0, w)"
| "recoverLoop_api R h env org (i # ids) w =
     (case ostmt (oe_out env (''reset:'' @ i)) (\<lambda>d. (Inr (), ResetDeliveryForReplay (oe_now env) i d)) w of
        (Inl _, w) \<Rightarrow> recoverLoop_api R h env org ids w
      | (Inr _, w) \<Rightarrow>
          (case enqueueDelivery R h env org i w of
             (Some _, w) \<Rightarrow> recoverLoop_api R h env org ids w
           | (None, w) \<Rightarrow> (let (n, w) = recoverLoop_api R h env org ids w in (Suc n, w))))"

definition RecoverEndpoint ::
  "'r redis \<Rightarrow> ohandlers \<Rightarrow> oenv \<Rightarrow> Principal option \<Rightarrow> string \<Rightarrow> string \<Rightarrow> string option \<Rightarrow> 'r oworld \<Rightarrow> (nat \<times> bool) reply \<times> 'r oworld" where
  "RecoverEndpoint R h env p appParam idParam body =
     in_app env p appParam (\<lambda>org app w.
       case endpointForApp env (ap_id app) idParam w of Inl st \<Rightarrow> (Inl st, w) | Inr ep \<Rightarrow>
       case body of None \<Rightarrow> (Inl 400, w) | Some sinceText \<Rightarrow>
       case oe_time env sinceText of None \<Rightarrow> (Inl 400, w) | Some since \<Rightarrow>
       case oread (oe_out env ''list'') (\<lambda>d. Inr (ListDeadDeliveriesForEndpointSince (ep_id ep) since recoverMaxBatch d)) w of
         Inl _ \<Rightarrow> (Inl 500, w)
       | Inr ids \<Rightarrow>
           (let (n, w) = recoverLoop_api R h env org ids w
            in (Inr (202, n, length ids = recoverMaxBatch),
                oaudit env p ''endpoint.recover'' ''endpoint'' (Some (ep_id ep)) [(''recovered'', JNum (int n))] w)))"

definition DeleteEndpoint :: "oenv \<Rightarrow> Principal option \<Rightarrow> string \<Rightarrow> string \<Rightarrow> 'r oworld \<Rightarrow> unit reply \<times> 'r oworld" where
  "DeleteEndpoint env p appParam idParam =
     in_app env p appParam (\<lambda>org app w.
       case uuid_Parse idParam of None \<Rightarrow> (Inl 400, w) | Some i \<Rightarrow>
       case ostmt (oe_out env ''delete'') (DeleteEndpointForApp i (ap_id app)) w of
         (Inl e, w) \<Rightarrow> (Inl (if e = ErrNoRows then 404 else 500), w)
       | (Inr _, w) \<Rightarrow> (Inr (204, ()), oaudit env p ''endpoint.delete'' ''endpoint'' (Some i) [] w))"

section \<open>Messages\<close>

record sendMessageReq =
  sm_event_type :: string
  sm_payload :: bytes
  sm_event_id :: "string option"
  sm_channels :: "string list option"

text \<open>The publish quota: whether the request is refused. The alert it may start runs in a goroutine of its own.\<close>

definition overQuota :: "'r redis \<Rightarrow> oenv \<Rightarrow> string \<Rightarrow> 'r oworld \<Rightarrow> bool \<times> 'r oworld" where
  "overQuota R env org w =
     (let ((dec, _), g, s) = CheckPublish R (oe_out env ''quota'') (oe_now env) (ow_gate w) org (mw_redis (ow_m w))
      in (dec = OverHard, w\<lparr>ow_gate := g, ow_m := (ow_m w)\<lparr>mw_redis := s\<rparr>\<rparr>))"

text \<open>The transaction of a publish: the message and one delivery per matching endpoint.\<close>

definition publishTx ::
  "oenv \<Rightarrow> string \<Rightarrow> string \<Rightarrow> string \<Rightarrow> bytes \<Rightarrow> string option \<Rightarrow> string list option \<Rightarrow> mdb \<Rightarrow>
     (go_error + message_row \<times> (string \<times> string) list) \<times> mdb" where
  "publishTx env app org eventType payload eventID chans d =
     (case run_io (oe_out env ''message'') (CreateMessage (oe_now env) (oe_newid env) app org eventType payload
              (hex_encode (oe_sha256 env payload)) eventID chans) d of
        (None, d) \<Rightarrow> (Inl ErrDb, d)
      | (Some (Inl e), d) \<Rightarrow> (Inl e, d)
      | (Some (Inr msg), d) \<Rightarrow>
          if oe_out env ''match'' \<noteq> IoOk then (Inl ErrDb, d)
          else
            (let eps = ListMatchingEndpoints app eventType chans d
             in if eps = [] then (Inr (msg, []), d)
                else (case run_io (oe_out env ''batch'') (CreateMessageDeliveriesBatch (oe_now env) (oe_delid env) (ms_id msg) org eps) d of
                        (None, d) \<Rightarrow> (Inl ErrDb, d)
                      | (Some (Inl e), d) \<Rightarrow> (Inl (if e = ErrNoRows then ErrDb else e), d)
                      | (Some (Inr dels), d) \<Rightarrow> (Inr (msg, dels), d))))"

fun enqueueDeliveries :: "'r redis \<Rightarrow> ohandlers \<Rightarrow> oenv \<Rightarrow> string \<Rightarrow> string list \<Rightarrow> 'r oworld \<Rightarrow> 'r oworld" where
  "enqueueDeliveries R h env org [] w = w"
| "enqueueDeliveries R h env org (i # ids) w = enqueueDeliveries R h env org ids (snd (enqueueDelivery R h env org i w))"

text \<open>From the decoded request on. The answer is the message and whether it is a replay.\<close>

definition publishMessage ::
  "'r redis \<Rightarrow> ohandlers \<Rightarrow> oenv \<Rightarrow> string \<Rightarrow> string \<Rightarrow> sendMessageReq \<Rightarrow> 'r oworld \<Rightarrow> (string \<times> bool) reply \<times> 'r oworld" where
  "publishMessage R h env org app req w =
     (if sm_event_type req = [] then (Inl 400, w)
      else
        (let eventID = (if sm_event_id req = Some [] then None else sm_event_id req)
         in if sm_payload req = [] then (Inl 400, w)
            else case oread (oe_out env ''type'') (GetEventTypeForOrg org (sm_event_type req)) w of
                   Inl _ \<Rightarrow> (Inl 422, w)
                 | Inr et \<Rightarrow>
                     if et_archived et then (Inl 422, w)
                     else if \<not> validateChannels (opt_default [] (sm_channels req)) then (Inl 422, w)
                     else if \<not> validatePayloadAgainstSchema env (et_schema et) (sm_payload req) then (Inl 422, w)
                     else
                       (case in_tx (oe_out env ''begin'') (oe_out env ''commit'')
                               (publishTx env app org (sm_event_type req) (json_compact False (sm_payload req)) eventID (sm_channels req))
                               ErrDb (mw_db (ow_m w)) of
                          (Inl e, d) \<Rightarrow>
                            (let w = w\<lparr>ow_m := (ow_m w)\<lparr>mw_db := d\<rparr>\<rparr>
                             in if e = ErrNoRows \<and> eventID \<noteq> None then
                                  (case oread (oe_out env ''existing'') (GetMessageByAppEventID app eventID) w of
                                     Inl _ \<Rightarrow> (Inl 500, w) | Inr m \<Rightarrow> (Inr (200, ms_id m, True), w))
                                else (Inl 500, w))
                        | (Inr (msg, dels), d) \<Rightarrow>
                            (Inr (202, ms_id msg, False),
                             enqueueDeliveries R h env org (map fst dels) (w\<lparr>ow_m := (ow_m w)\<lparr>mw_db := d\<rparr>\<rparr>)))))"

text \<open>A body over 5 MiB, unreadable or not JSON is \<open>None\<close>.\<close>

definition CreateMessage_api ::
  "'r redis \<Rightarrow> ohandlers \<Rightarrow> oenv \<Rightarrow> Principal option \<Rightarrow> string \<Rightarrow> sendMessageReq option \<Rightarrow> 'r oworld \<Rightarrow> (string \<times> bool) reply \<times> 'r oworld" where
  "CreateMessage_api R h env p appParam body =
     in_app env p appParam (\<lambda>org app w.
       let (over, w) = overQuota R env org w
       in if over then (Inl 429, w)
          else case body of None \<Rightarrow> (Inl 400, w) | Some req \<Rightarrow> publishMessage R h env org (ap_id app) req w)"

text \<open>
  Replay: the delivery is found or created, reset and enqueued. \<open>raced\<close> is what a concurrent replay commits between the
  lookup and the insert.
\<close>

definition replayID ::
  "oenv \<Rightarrow> (mdb \<Rightarrow> mdb) \<Rightarrow> string \<Rightarrow> string \<Rightarrow> string \<Rightarrow> 'r oworld \<Rightarrow> (int + string) \<times> 'r oworld" where
  "replayID env raced org msg ep w =
     (let reset = (\<lambda>i w. case ostmt (oe_out env ''reset'') (\<lambda>d. (Inr (), ResetDeliveryForReplay (oe_now env) i d)) w of
                          (Inl _, w) \<Rightarrow> (Inl 500, w) | (Inr _, w) \<Rightarrow> (Inr i, w))
      in case oread (oe_out env ''delivery'') (GetDeliveryByMessageEndpoint msg ep) w of
           Inr del \<Rightarrow> reset (dl_id del) w
         | Inl e \<Rightarrow>
             if e \<noteq> ErrNoRows then (Inl 500, w)
             else
               (let w = w\<lparr>ow_m := (ow_m w)\<lparr>mw_db := raced (mw_db (ow_m w))\<rparr>\<rparr>
                in case ostmt (oe_out env ''batch'') (CreateMessageDeliveriesBatch (oe_now env) (oe_delid env) msg org [ep]) w of
                     (Inl _, w) \<Rightarrow> (Inl 500, w)
                   | (Inr created, w) \<Rightarrow>
                       (case created of
                          [(i, _)] \<Rightarrow> (Inr i, w)
                        | _ \<Rightarrow>
                            (case oread (oe_out env ''again'') (GetDeliveryByMessageEndpoint msg ep) w of
                               Inl _ \<Rightarrow> (Inl 500, w) | Inr ex \<Rightarrow> reset (dl_id ex) w))))"

definition ReplayDelivery ::
  "'r redis \<Rightarrow> ohandlers \<Rightarrow> oenv \<Rightarrow> (mdb \<Rightarrow> mdb) \<Rightarrow> Principal option \<Rightarrow> string \<Rightarrow> string \<Rightarrow> string \<Rightarrow> 'r oworld \<Rightarrow> string reply \<times> 'r oworld" where
  "ReplayDelivery R h env raced p appParam msgParam epParam =
     in_app env p appParam (\<lambda>org app w.
       case uuid_Parse msgParam of None \<Rightarrow> (Inl 400, w) | Some msgID \<Rightarrow>
       case uuid_Parse epParam of None \<Rightarrow> (Inl 400, w) | Some epID \<Rightarrow>
       case oread (oe_out env ''message'') (GetMessageForApp msgID (ap_id app)) w of Inl _ \<Rightarrow> (Inl 404, w) | Inr msg \<Rightarrow>
       if ms_payload msg = None \<or> ms_payload msg = Some [] then (Inl 422, w)
       else case endpointForAppID env (ap_id app) epID w of Inl st \<Rightarrow> (Inl st, w) | Inr _ \<Rightarrow>
            case replayID env raced org msgID epID w of
              (Inl st, w) \<Rightarrow> (Inl st, w)
            | (Inr i, w) \<Rightarrow>
                (case enqueueDelivery R h env org i w of
                   (Some _, w) \<Rightarrow> (Inl 500, w)
                 | (None, w) \<Rightarrow> (Inr (202, i), oaudit env p ''message.replay'' ''message_delivery'' (Some i) [] w)))"

text \<open>The test send: a message and one delivery to this endpoint, in two statements of their own.\<close>

definition testMessage ::
  "oenv \<Rightarrow> string \<Rightarrow> string \<Rightarrow> string \<Rightarrow> string \<Rightarrow> bytes \<Rightarrow> 'r oworld \<Rightarrow> (int + string \<times> string) \<times> 'r oworld" where
  "testMessage env org app ep eventType payload w =
     (case ostmt (oe_out env ''message'') (CreateMessage (oe_now env) (oe_newid env) app org eventType payload
             (hex_encode (oe_sha256 env payload)) None None) w of
        (Inl _, w) \<Rightarrow> (Inl 500, w)
      | (Inr msg, w) \<Rightarrow>
          (case ostmt (oe_out env ''batch'') (CreateMessageDeliveriesBatch (oe_now env) (oe_delid env) (ms_id msg) org [ep]) w of
             (Inr [(i, _)], w) \<Rightarrow> (Inr (ms_id msg, i), w)
           | (_, w) \<Rightarrow> (Inl 500, w)))"

definition TestEndpoint ::
  "'r redis \<Rightarrow> ohandlers \<Rightarrow> oenv \<Rightarrow> Principal option \<Rightarrow> string \<Rightarrow> string \<Rightarrow> (string \<times> bytes) option \<Rightarrow> 'r oworld \<Rightarrow> (string \<times> string) reply \<times> 'r oworld" where
  "TestEndpoint R h env p appParam idParam body =
     in_app env p appParam (\<lambda>org app w.
       case endpointForApp env (ap_id app) idParam w of Inl st \<Rightarrow> (Inl st, w) | Inr ep \<Rightarrow>
       case body of None \<Rightarrow> (Inl 400, w) | Some (eventType, raw) \<Rightarrow>
       if eventType = [] then (Inl 400, w)
       else case oread (oe_out env ''type'') (GetEventTypeForOrg org eventType) w of Inl _ \<Rightarrow> (Inl 422, w) | Inr et \<Rightarrow>
       if et_archived et then (Inl 422, w)
       else
         (let raw = (if raw = [] then ''{}'' else raw)
          in if \<not> validatePayloadAgainstSchema env (et_schema et) raw then (Inl 422, w)
             else
               (let (over, w) = overQuota R env org w
                in if over then (Inl 429, w)
                   else case testMessage env org (ap_id app) (ep_id ep) eventType (json_compact False raw) w of
                          (Inl st, w) \<Rightarrow> (Inl st, w)
                        | (Inr (m, i), w) \<Rightarrow>
                            (case enqueueDelivery R h env org i w of
                               (Some _, w) \<Rightarrow> (Inl 500, w)
                             | (None, w) \<Rightarrow> (Inr (202, m, i), oaudit env p ''endpoint.test'' ''endpoint'' (Some (ep_id ep))
                                  [(''event_type'', JStr eventType)] w)))))"

section \<open>Reads\<close>

definition ListMessages ::
  "oenv \<Rightarrow> Principal option \<Rightarrow> string \<Rightarrow> string \<Rightarrow> 'r oworld \<Rightarrow> (message_row list \<times> string option) reply \<times> 'r oworld" where
  "ListMessages env p appParam cursor =
     in_app env p appParam (\<lambda>org app w.
       case oread (oe_out env ''list'') (\<lambda>d. Inr (ListMessagesByApp (ap_id app) (pageCursor env cursor) pageSize d)) w of
         Inl _ \<Rightarrow> (Inl 500, w) | Inr rows \<Rightarrow> (Inr (200, rows, next_cursor ms_created_at ms_id rows), w))"

text \<open>The message of the path, if it belongs to the application.\<close>

definition messageForApp :: "oenv \<Rightarrow> string \<Rightarrow> string \<Rightarrow> 'r oworld \<Rightarrow> int + message_row" where
  "messageForApp env app idParam w =
     (case uuid_Parse idParam of None \<Rightarrow> Inl 400 | Some i \<Rightarrow>
      case oread (oe_out env ''message'') (GetMessageForApp i app) w of Inl _ \<Rightarrow> Inl 404 | Inr m \<Rightarrow> Inr m)"

definition GetMessage :: "oenv \<Rightarrow> Principal option \<Rightarrow> string \<Rightarrow> string \<Rightarrow> 'r oworld \<Rightarrow> message_row reply \<times> 'r oworld" where
  "GetMessage env p appParam idParam =
     in_app env p appParam (\<lambda>org app w.
       case messageForApp env (ap_id app) idParam w of Inl st \<Rightarrow> (Inl st, w) | Inr m \<Rightarrow> (Inr (200, m), w))"

definition ListMessageAttempts :: "oenv \<Rightarrow> Principal option \<Rightarrow> string \<Rightarrow> string \<Rightarrow> 'r oworld \<Rightarrow> msg_attempt_row list reply \<times> 'r oworld" where
  "ListMessageAttempts env p appParam idParam =
     in_app env p appParam (\<lambda>org app w.
       case messageForApp env (ap_id app) idParam w of Inl st \<Rightarrow> (Inl st, w) | Inr m \<Rightarrow>
       case oread (oe_out env ''list'') (\<lambda>d. Inr (ListAttemptsByMessage (ms_id m) listLimit d)) w of
         Inl _ \<Rightarrow> (Inl 500, w) | Inr rows \<Rightarrow> (Inr (200, rows), w))"

definition ListMessageDeliveries ::
  "oenv \<Rightarrow> Principal option \<Rightarrow> string \<Rightarrow> string \<Rightarrow> 'r oworld \<Rightarrow> (msg_delivery_row \<times> string) list reply \<times> 'r oworld" where
  "ListMessageDeliveries env p appParam idParam =
     in_app env p appParam (\<lambda>org app w.
       case messageForApp env (ap_id app) idParam w of Inl st \<Rightarrow> (Inl st, w) | Inr m \<Rightarrow>
       case oread (oe_out env ''list'') (\<lambda>d. Inr (ListDeliveriesForMessage (ms_id m) d)) w of
         Inl _ \<Rightarrow> (Inl 500, w) | Inr rows \<Rightarrow> (Inr (200, rows), w))"

definition ListEndpointAttempts :: "oenv \<Rightarrow> Principal option \<Rightarrow> string \<Rightarrow> string \<Rightarrow> 'r oworld \<Rightarrow> msg_attempt_row list reply \<times> 'r oworld" where
  "ListEndpointAttempts env p appParam idParam =
     in_app env p appParam (\<lambda>org app w.
       case endpointForApp env (ap_id app) idParam w of Inl st \<Rightarrow> (Inl st, w) | Inr ep \<Rightarrow>
       case oread (oe_out env ''list'') (\<lambda>d. Inr (ListAttemptsByEndpoint (ep_id ep) listLimit d)) w of
         Inl _ \<Rightarrow> (Inl 500, w) | Inr rows \<Rightarrow> (Inr (200, rows), w))"

end
