(* ===== verification/Outbound_Props.thy ===== *)
theory Outbound_Props
  imports Outbound Store_Inv Webhook_Props
begin

text \<open>
  Tenancy of the outbound API: whatever handlers the members of an organization call, the rows of every other
  organization stay as they are.
\<close>

section \<open>Ownership\<close>

text \<open>A row below an application, an endpoint or a message carries the organization of what it belongs to.\<close>

definition org_ok :: "mdb \<Rightarrow> bool" where
  "org_ok d \<longleftrightarrow>
     (\<forall>e \<in> set (t_endpoints d). \<forall>a \<in> set (t_apps d). ap_id a = ep_app_id e \<longrightarrow> ap_org_id a = ep_org_id e) \<and>
     (\<forall>m \<in> set (t_messages d). \<forall>a \<in> set (t_apps d). ap_id a = ms_app_id m \<longrightarrow> ap_org_id a = ms_org_id m) \<and>
     (\<forall>x \<in> set (t_deliveries d). \<forall>e \<in> set (t_endpoints d). ep_id e = dl_endpoint_id x \<longrightarrow> ep_org_id e = dl_org_id x) \<and>
     (\<forall>x \<in> set (t_deliveries d). \<forall>m \<in> set (t_messages d). ms_id m = dl_message_id x \<longrightarrow> ms_org_id m = dl_org_id x)"

definition tenant_inv :: "mdb \<Rightarrow> bool" where
  "tenant_inv d \<longleftrightarrow> struct_ok d \<and> org_ok d"

text \<open>The rows of one organization.\<close>

definition slice :: "string \<Rightarrow> mdb \<Rightarrow> mdb" where
  "slice B d = \<lparr>t_apps = filter (\<lambda>a. ap_org_id a = B) (t_apps d), t_event_types = filter (\<lambda>t. et_org_id t = B) (t_event_types d),
     t_endpoints = filter (\<lambda>e. ep_org_id e = B) (t_endpoints d), t_messages = filter (\<lambda>m. ms_org_id m = B) (t_messages d),
     t_deliveries = filter (\<lambda>x. dl_org_id x = B) (t_deliveries d),
     t_msg_attempts = filter (\<lambda>a. ma_delivery_id a \<in> dl_id ` set (filter (\<lambda>x. dl_org_id x = B) (t_deliveries d))) (t_msg_attempts d)\<rparr>"

definition only_of :: "string \<Rightarrow> mdb \<Rightarrow> mdb \<Rightarrow> bool" where
  "only_of A d d' \<longleftrightarrow> (tenant_inv d \<longrightarrow> tenant_inv d' \<and> (\<forall>B. B \<noteq> A \<longrightarrow> slice B d' = slice B d))"

lemma only_refl [simp]: "only_of A d d"
  by (simp add: only_of_def)

lemma only_trans: "only_of A d d1 \<Longrightarrow> only_of A d1 d2 \<Longrightarrow> only_of A d d2"
  by (auto simp: only_of_def)

lemma only_run: "only_of A d (snd (f d)) \<Longrightarrow> only_of A d (snd (run_io o1 f d))"
  by (cases o1) simp_all

lemma filter_upd_where:
  assumes "\<And>x. P x \<Longrightarrow> \<not> keep x" "\<And>x. P x \<Longrightarrow> \<not> keep (f x)"
  shows "filter keep (upd_where P f xs) = filter keep xs"
  using assms by (induction xs) (auto simp: upd_where_def)

lemma filter_keep: "(\<And>x. x \<in> set xs \<Longrightarrow> keep x \<Longrightarrow> P x) \<Longrightarrow> filter keep (filter P xs) = filter keep xs"
  by (induction xs) auto

lemma one_row_set: "one_row P xs = Inr x \<Longrightarrow> x \<in> set xs \<and> P x"
  by (auto simp: one_row_def find_Some_iff split: option.splits)

lemma set_upd_where: "set (upd_where P f xs) = (\<lambda>x. if P x then f x else x) ` set xs"
  by (simp add: upd_where_def)

section \<open>Statements\<close>

lemma only_event_types:
  assumes "\<And>B. B \<noteq> A \<Longrightarrow> filter (\<lambda>t. et_org_id t = B) ts = filter (\<lambda>t. et_org_id t = B) (t_event_types d)"
  shows "only_of A d (d\<lparr>t_event_types := ts\<rparr>)"
  using assms by (auto simp: only_of_def tenant_inv_def struct_ok_def org_ok_def slice_def)

lemma only_CreateEventType: "only_of A d (snd (CreateEventType now i A name desc schema d))"
  by (auto simp: CreateEventType_def Let_def intro: only_event_types)

lemma only_SeedEventType: "only_of A d (SeedEventType now i A name desc d)"
  unfolding SeedEventType_def by (rule only_CreateEventType)

lemma only_UpdateEventType: "only_of A d (snd (UpdateEventType now A name desc st schema arch d))"
  by (auto simp: UpdateEventType_def Let_def split: sum.split intro!: only_event_types filter_upd_where)

lemma only_DeleteEventType: "only_of A d (snd (DeleteEventTypeForOrg A name d))"
proof -
  have "filter (\<lambda>t. et_org_id t = B) (filter (\<lambda>t. \<not> (et_org_id t = A \<and> et_name t = name)) ts) = filter (\<lambda>t. et_org_id t = B) ts" if "B \<noteq> A" for B ts
    using that by (induction ts) auto
  then show ?thesis by (auto simp: DeleteEventTypeForOrg_def Let_def split: sum.split intro!: only_event_types)
qed

lemma onlyI:
  assumes "store_step 1 d d'" "tenant_inv d \<Longrightarrow> org_ok d'" "\<And>B. tenant_inv d \<Longrightarrow> B \<noteq> A \<Longrightarrow> slice B d' = slice B d"
  shows "only_of A d d'"
  using assms step_struct[OF assms(1)] by (auto simp: only_of_def tenant_inv_def)

text \<open>What the keys give.\<close>

lemma inv_keys:
  assumes "tenant_inv d"
  shows "distinct (map ap_id (t_apps d))" "distinct (map ep_id (t_endpoints d))" "distinct (map ms_id (t_messages d))"
    "distinct (map dl_id (t_deliveries d))"
    "ep_app_id ` set (t_endpoints d) \<subseteq> ap_id ` set (t_apps d)" "ms_app_id ` set (t_messages d) \<subseteq> ap_id ` set (t_apps d)"
    "dl_message_id ` set (t_deliveries d) \<subseteq> ms_id ` set (t_messages d)" "dl_endpoint_id ` set (t_deliveries d) \<subseteq> ep_id ` set (t_endpoints d)"
  using assms by (auto simp: tenant_inv_def struct_ok_def keys_ok_def key_cols comp_def image_image)

lemma key_unique: "distinct (map k xs) \<Longrightarrow> x \<in> set xs \<Longrightarrow> y \<in> set xs \<Longrightarrow> k x = k y \<Longrightarrow> x = y"
  by (auto simp: distinct_map dest: inj_onD)

lemma only_CreateApplication:
  assumes "i \<notin> ap_id ` set (t_apps d)"
  shows "only_of A d (snd (CreateApplication now i A uid name meta d))"
proof (rule onlyI[OF store_step.intros(1)[OF assms]])
  assume inv: "tenant_inv d"
  show "org_ok (snd (CreateApplication now i A uid name meta d))"
    using inv inv_keys(5,6)[OF inv] assms by (auto simp: CreateApplication_def Let_def org_ok_def tenant_inv_def)
qed (auto simp: CreateApplication_def Let_def slice_def)

lemma only_EnsureOperationalApp:
  assumes "i \<notin> ap_id ` set (t_apps d)"
  shows "only_of A d (snd (EnsureOperationalApp now i raced A d))"
proof (rule onlyI[OF store_step.intros(2)[OF assms]])
  assume inv: "tenant_inv d"
  show "org_ok (snd (EnsureOperationalApp now i raced A d))"
    using inv inv_keys(5,6)[OF inv] assms by (auto simp: EnsureOperationalApp_def Let_def org_ok_def tenant_inv_def split: sum.split)
qed (auto simp: EnsureOperationalApp_def Let_def slice_def split: sum.split)

lemma org_ok_apps:
  assumes "org_ok d" "\<And>a. ap_id (f a) = ap_id a \<and> ap_org_id (f a) = ap_org_id a"
  shows "org_ok (d\<lparr>t_apps := upd_where P f (t_apps d)\<rparr>)"
  using assms by (auto simp: org_ok_def set_upd_where)

lemma only_UpdateApplication: "only_of A d (snd (UpdateApplication now i A name uid meta d))"
proof (rule onlyI[OF store_step.intros(3)])
  assume "tenant_inv d"
  then show "org_ok (snd (UpdateApplication now i A name uid meta d))"
    by (auto simp: UpdateApplication_def Let_def tenant_inv_def split: sum.split intro!: org_ok_apps)
qed (auto simp: UpdateApplication_def Let_def slice_def split: sum.split intro!: filter_upd_where)

lemma only_BumpApplicationPortalEpoch: "only_of A d (BumpApplicationPortalEpoch now i A d)"
proof (rule onlyI[OF store_step.intros(5)])
  assume "tenant_inv d"
  then show "org_ok (BumpApplicationPortalEpoch now i A d)"
    by (auto simp: BumpApplicationPortalEpoch_def tenant_inv_def intro!: org_ok_apps)
qed (auto simp: BumpApplicationPortalEpoch_def slice_def intro!: filter_upd_where)

text \<open>Dropping rows of one organization.\<close>

lemma org_ok_subset:
  assumes "org_ok d" "set (t_apps d') \<subseteq> set (t_apps d)" "set (t_endpoints d') \<subseteq> set (t_endpoints d)"
    "set (t_messages d') \<subseteq> set (t_messages d)" "set (t_deliveries d') \<subseteq> set (t_deliveries d)"
  shows "org_ok d'"
  using assms unfolding org_ok_def by blast

lemma slice_drop_deliveries:
  assumes "distinct (map dl_id (t_deliveries d))" "\<And>x. x \<in> set (t_deliveries d) \<Longrightarrow> P x \<Longrightarrow> dl_org_id x \<noteq> B"
  shows "filter (\<lambda>x. dl_org_id x = B) (t_deliveries (drop_deliveries P d)) = filter (\<lambda>x. dl_org_id x = B) (t_deliveries d)"
    and "t_msg_attempts (slice B (drop_deliveries P d)) = t_msg_attempts (slice B d)"
proof -
  show k: "filter (\<lambda>x. dl_org_id x = B) (t_deliveries (drop_deliveries P d)) = filter (\<lambda>x. dl_org_id x = B) (t_deliveries d)"
    using assms(2) by (auto simp: drop_deliveries_def Let_def intro!: filter_cong)
  have "ma_delivery_id a \<notin> set (map dl_id (filter P (t_deliveries d)))"
    if b: "ma_delivery_id a \<in> dl_id ` set (filter (\<lambda>x. dl_org_id x = B) (t_deliveries d))" for a
  proof
    assume "ma_delivery_id a \<in> set (map dl_id (filter P (t_deliveries d)))"
    then obtain y where y: "y \<in> set (t_deliveries d)" "P y" "dl_id y = ma_delivery_id a" by auto
    obtain x where x: "x \<in> set (t_deliveries d)" "dl_org_id x = B" "dl_id x = ma_delivery_id a" using b by auto
    show False using key_unique[OF assms(1) x(1) y(1)] x y assms(2) by simp
  qed
  then show "t_msg_attempts (slice B (drop_deliveries P d)) = t_msg_attempts (slice B d)"
    unfolding slice_def mdb.select_convs k
    by (simp add: drop_deliveries_def Let_def del: filter_filter set_map) (intro filter_keep, blast)
qed

lemma only_DeleteApplication: "only_of A d (snd (DeleteApplicationForOrg i A d))"
proof (rule onlyI[OF store_step.intros(4)])
  assume "tenant_inv d"
  then show "org_ok (snd (DeleteApplicationForOrg i A d))"
    unfolding tenant_inv_def
    by (elim conjE) (erule org_ok_subset, auto simp: DeleteApplicationForOrg_def drop_deliveries_def Let_def split: sum.splits)
next
  fix B
  assume inv: "tenant_inv d" and B: "B \<noteq> A"
  show "slice B (snd (DeleteApplicationForOrg i A d)) = slice B d"
  proof (cases "one_row (\<lambda>a. ap_id a = i \<and> ap_org_id a = A \<and> \<not> ap_is_operational a) (t_apps d)")
    case (Inr a)
    then have a: "a \<in> set (t_apps d)" "ap_id a = i" "ap_org_id a = A" by (auto simp: one_row_Inr find_Some_iff)
    have ap: "b = a" if "b \<in> set (t_apps d)" "ap_id b = i" for b using key_unique[OF inv_keys(1)[OF inv]] that a by metis
    have e: "ep_org_id e = A" if "e \<in> set (t_endpoints d)" "ep_app_id e = i" for e
      using that inv a by (auto simp: tenant_inv_def org_ok_def)
    have m: "ms_org_id m = A" if "m \<in> set (t_messages d)" "ms_app_id m = i" for m
      using that inv a by (auto simp: tenant_inv_def org_ok_def)
    let ?P = "\<lambda>x. dl_endpoint_id x \<in> set (map ep_id (filter (\<lambda>e. ep_app_id e = i) (t_endpoints d))) \<or>
        dl_message_id x \<in> set (map ms_id (filter (\<lambda>m. ms_app_id m = i) (t_messages d)))"
    have "dl_org_id x = A" if "x \<in> set (t_deliveries d)" "?P x" for x
    proof -
      have "(\<exists>y \<in> set (t_endpoints d). ep_id y = dl_endpoint_id x \<and> ep_org_id y = A) \<or> (\<exists>y \<in> set (t_messages d). ms_id y = dl_message_id x \<and> ms_org_id y = A)"
        using that(2) e m by auto
      then show ?thesis using inv that(1) unfolding tenant_inv_def org_ok_def by metis
    qed
    then have "filter (\<lambda>x. dl_org_id x = B) (t_deliveries (drop_deliveries ?P d)) = filter (\<lambda>x. dl_org_id x = B) (t_deliveries d)"
      "t_msg_attempts (slice B (drop_deliveries ?P d)) = t_msg_attempts (slice B d)"
      using slice_drop_deliveries[OF inv_keys(4)[OF inv], of ?P B] B by metis+
    moreover have "filter (\<lambda>x. ap_org_id x = B) (filter (\<lambda>b. ap_id b \<noteq> i) (t_apps d)) = filter (\<lambda>x. ap_org_id x = B) (t_apps d)"
      using B a ap by (intro filter_keep) metis
    moreover have "filter (\<lambda>x. ep_org_id x = B) (filter (\<lambda>e. ep_app_id e \<noteq> i) (t_endpoints d)) = filter (\<lambda>x. ep_org_id x = B) (t_endpoints d)"
      using B e by (intro filter_keep) metis
    moreover have "filter (\<lambda>x. ms_org_id x = B) (filter (\<lambda>m. ms_app_id m \<noteq> i) (t_messages d)) = filter (\<lambda>x. ms_org_id x = B) (t_messages d)"
      using B m by (intro filter_keep) metis
    ultimately show ?thesis
      by (simp add: DeleteApplicationForOrg_def Inr Let_def slice_def drop_deliveries_def)
  qed (simp add: DeleteApplicationForOrg_def)
qed

text \<open>Below an application of the organization.\<close>

definition owns :: "string \<Rightarrow> string \<Rightarrow> mdb \<Rightarrow> bool" where
  "owns A app d \<longleftrightarrow> (\<exists>a \<in> set (t_apps d). ap_id a = app \<and> ap_org_id a = A)"

lemma owned_rows:
  assumes "tenant_inv d" "owns A app d"
  shows "e \<in> set (t_endpoints d) \<Longrightarrow> ep_app_id e = app \<Longrightarrow> ep_org_id e = A"
    and "m \<in> set (t_messages d) \<Longrightarrow> ms_app_id m = app \<Longrightarrow> ms_org_id m = A"
    and "a \<in> set (t_apps d) \<Longrightarrow> ap_id a = app \<Longrightarrow> ap_org_id a = A"
proof -
  show "a \<in> set (t_apps d) \<Longrightarrow> ap_id a = app \<Longrightarrow> ap_org_id a = A"
    using assms(2) key_unique[OF inv_keys(1)[OF assms(1)]] unfolding owns_def by metis
qed (use assms in \<open>auto simp: tenant_inv_def org_ok_def owns_def\<close>)

lemma only_CreateEndpoint:
  assumes "i \<notin> ep_id ` set (t_endpoints d)" "owns A app d"
  shows "only_of A d (snd (CreateEndpoint now i app A c d))"
proof (rule onlyI[OF store_step.intros(10)[OF assms(1)]])
  assume inv: "tenant_inv d"
  show "org_ok (snd (CreateEndpoint now i app A c d))"
    using inv inv_keys(8)[OF inv] owned_rows(3)[OF inv assms(2)] assms(1)
    by (auto simp: CreateEndpoint_def Let_def org_ok_def tenant_inv_def)
qed (auto simp: CreateEndpoint_def Let_def slice_def)

lemma only_endpoints:
  assumes "store_step 1 d (d\<lparr>t_endpoints := upd_where (\<lambda>e. ep_id e = i \<and> ep_app_id e = app) f (t_endpoints d)\<rparr>)" "owns A app d"
    and "\<And>e. ep_id (f e) = ep_id e \<and> ep_app_id (f e) = ep_app_id e \<and> ep_org_id (f e) = ep_org_id e"
  shows "only_of A d (d\<lparr>t_endpoints := upd_where (\<lambda>e. ep_id e = i \<and> ep_app_id e = app) f (t_endpoints d)\<rparr>)"
proof (rule onlyI[OF assms(1)])
  assume "tenant_inv d"
  then show "org_ok (d\<lparr>t_endpoints := upd_where (\<lambda>e. ep_id e = i \<and> ep_app_id e = app) f (t_endpoints d)\<rparr>)"
    using assms(3) by (auto simp: tenant_inv_def org_ok_def set_upd_where)
next
  fix B
  assume inv: "tenant_inv d" and B: "B \<noteq> A"
  have "map (\<lambda>e. if ep_id e = i \<and> ep_app_id e = app then f e else e) xs = ys \<Longrightarrow> set xs \<subseteq> set (t_endpoints d) \<Longrightarrow>
      filter (\<lambda>e. ep_org_id e = B) ys = filter (\<lambda>e. ep_org_id e = B) xs" for xs ys
    using owned_rows(1)[OF inv assms(2)] assms(3) B by (induction xs arbitrary: ys) auto
  then show "slice B (d\<lparr>t_endpoints := upd_where (\<lambda>e. ep_id e = i \<and> ep_app_id e = app) f (t_endpoints d)\<rparr>) = slice B d"
    by (simp add: slice_def upd_where_def)
qed

lemma only_RotateEndpointSecret:
  assumes "owns A app d"
  shows "only_of A d (snd (RotateEndpointSecret now i app s t d))"
proof (cases "one_row (\<lambda>e. ep_id e = i \<and> ep_app_id e = app) (t_endpoints d)")
  case (Inr e)
  show ?thesis
    using only_endpoints[OF _ assms] store_step.intros(14)[of 1 d now i app s t] Inr by (simp add: RotateEndpointSecret_def Let_def)
qed (simp add: RotateEndpointSecret_def)

lemma only_UpdateEndpoint:
  assumes "owns A app d"
  shows "only_of A d (snd (UpdateEndpoint now i app c d))"
proof (cases "one_row (\<lambda>e. ep_id e = i \<and> ep_app_id e = app) (t_endpoints d)")
  case (Inr e)
  show ?thesis
    using only_endpoints[OF _ assms] store_step.intros(15)[of 1 d now i app c] Inr by (simp add: UpdateEndpoint_def Let_def patched_def)
qed (simp add: UpdateEndpoint_def)

lemma only_DeleteEndpoint:
  assumes "owns A app d"
  shows "only_of A d (snd (DeleteEndpointForApp i app d))"
proof (rule onlyI[OF store_step.intros(11)])
  assume "tenant_inv d"
  then show "org_ok (snd (DeleteEndpointForApp i app d))"
    unfolding tenant_inv_def
    by (elim conjE) (erule org_ok_subset, auto simp: DeleteEndpointForApp_def drop_deliveries_def Let_def split: sum.splits)
next
  fix B
  assume inv: "tenant_inv d" and B: "B \<noteq> A"
  show "slice B (snd (DeleteEndpointForApp i app d)) = slice B d"
  proof (cases "GetEndpointForApp i app d")
    case (Inr e)
    then have e: "e \<in> set (t_endpoints d)" "ep_id e = i" "ep_app_id e = app" by (auto simp: GetEndpointForApp_def one_row_Inr find_Some_iff)
    then have eo: "ep_org_id e = A" using owned_rows(1)[OF inv assms] by blast
    have "dl_org_id x = A" if "x \<in> set (t_deliveries d)" "dl_endpoint_id x = i" for x
      using that inv e eo by (auto simp: tenant_inv_def org_ok_def)
    then have "filter (\<lambda>x. dl_org_id x = B) (t_deliveries (drop_deliveries (\<lambda>x. dl_endpoint_id x = i) d)) = filter (\<lambda>x. dl_org_id x = B) (t_deliveries d)"
      "t_msg_attempts (slice B (drop_deliveries (\<lambda>x. dl_endpoint_id x = i) d)) = t_msg_attempts (slice B d)"
      using slice_drop_deliveries[OF inv_keys(4)[OF inv], of "\<lambda>x. dl_endpoint_id x = i" B] B by metis+
    moreover have "filter (\<lambda>x. ep_org_id x = B) (filter (\<lambda>x. \<not> (ep_id x = i \<and> ep_app_id x = app)) (t_endpoints d)) = filter (\<lambda>x. ep_org_id x = B) (t_endpoints d)"
      using B owned_rows(1)[OF inv assms] by (intro filter_keep) metis
    ultimately show ?thesis by (simp add: DeleteEndpointForApp_def Inr Let_def slice_def drop_deliveries_def)
  qed (simp add: DeleteEndpointForApp_def)
qed

lemma only_CreateMessage:
  assumes "i \<notin> ms_id ` set (t_messages d)" "owns A app d"
  shows "only_of A d (snd (CreateMessage now i app A ty body hash ev ch d))"
proof (rule onlyI[OF store_step.intros(16)[OF assms(1)]])
  assume inv: "tenant_inv d"
  show "org_ok (snd (CreateMessage now i app A ty body hash ev ch d))"
    using inv inv_keys(7)[OF inv] owned_rows(3)[OF inv assms(2)] assms(1)
    by (auto simp: CreateMessage_def Let_def org_ok_def tenant_inv_def)
qed (auto simp: CreateMessage_def Let_def slice_def)

lemma insert_deliveries_new:
  "\<exists>new. snd (insert_deliveries now ids msg org eps k ds) = ds @ new \<and>
     list_all (\<lambda>x. dl_org_id x = org \<and> dl_message_id x = msg \<and> dl_endpoint_id x \<in> set eps \<and> dl_status x = ''queued'') new"
proof (induction eps arbitrary: k ds)
  case (Cons ep eps)
  show ?case
  proof (cases "list_ex (\<lambda>x. dl_message_id x = msg \<and> dl_endpoint_id x = ep) ds")
    case True
    then show ?thesis using Cons[of k ds] by (auto simp: list_all_iff)
  next
    case False
    let ?x = "\<lparr>dl_id = ids k, dl_message_id = msg, dl_endpoint_id = ep, dl_org_id = org, dl_status = ''queued'',
      dl_attempt_count = 0, dl_next_retry_at = None, dl_last_attempt_at = None, dl_created_at = now, dl_updated_at = now\<rparr>"
    obtain new where "snd (insert_deliveries now ids msg org eps (Suc k) (ds @ [?x])) = (ds @ [?x]) @ new"
      "list_all (\<lambda>x. dl_org_id x = org \<and> dl_message_id x = msg \<and> dl_endpoint_id x \<in> set eps \<and> dl_status x = ''queued'') new"
      using Cons[of "Suc k" "ds @ [?x]"] by blast
    then show ?thesis using False by (intro exI[of _ "?x # new"]) (auto simp: Let_def case_prod_unfold list_all_iff)
  qed
qed simp

lemma only_CreateMessageDeliveriesBatch:
  assumes "inj ids" "range ids \<inter> dl_id ` set (t_deliveries d) = {}"
    and m: "\<And>m. tenant_inv d \<Longrightarrow> m \<in> set (t_messages d) \<Longrightarrow> ms_id m = msg \<Longrightarrow> ms_org_id m = A"
    and e: "\<And>e. tenant_inv d \<Longrightarrow> e \<in> set (t_endpoints d) \<Longrightarrow> ep_id e \<in> set eps \<Longrightarrow> ep_org_id e = A"
  shows "only_of A d (snd (CreateMessageDeliveriesBatch now ids msg A eps d))"
proof (cases "eps \<noteq> [] \<and> (find_message msg d = None \<or> list_ex (\<lambda>e. find_endpoint e d = None) eps)")
  case False
  obtain new where n: "snd (insert_deliveries now ids msg A eps 0 (t_deliveries d)) = t_deliveries d @ new"
    "\<And>x. x \<in> set new \<Longrightarrow> dl_org_id x = A \<and> dl_message_id x = msg \<and> dl_endpoint_id x \<in> set eps"
    using insert_deliveries_new[of now ids msg A eps 0 "t_deliveries d"] by (auto simp: list_all_iff)
  have d': "snd (CreateMessageDeliveriesBatch now ids msg A eps d) = d\<lparr>t_deliveries := t_deliveries d @ new\<rparr>"
    using False n(1) by (auto simp: CreateMessageDeliveriesBatch_def case_prod_unfold Let_def)
  show ?thesis
  proof (rule onlyI[OF store_step.intros(18)[OF assms(1,2)]], unfold d')
    assume inv: "tenant_inv d"
    show "org_ok (d\<lparr>t_deliveries := t_deliveries d @ new\<rparr>)"
      using inv n(2) m[OF inv] e[OF inv] unfolding tenant_inv_def org_ok_def by (simp add: ball_Un)
  next
    fix B assume "B \<noteq> A"
    then have "filter (\<lambda>x. dl_org_id x = B) new = []" using n(2) by (auto simp: filter_empty_conv)
    then show "slice B (d\<lparr>t_deliveries := t_deliveries d @ new\<rparr>) = slice B d"
      by (simp add: slice_def del: set_filter)
  qed
qed (simp add: CreateMessageDeliveriesBatch_def)

lemma only_ResetDelivery:
  assumes x: "\<And>x. tenant_inv d \<Longrightarrow> x \<in> set (t_deliveries d) \<Longrightarrow> dl_id x = i \<Longrightarrow> dl_org_id x = A"
  shows "only_of A d (ResetDeliveryForReplay now i d)"
proof (rule onlyI[OF store_step.intros(25)])
  assume "tenant_inv d"
  then show "org_ok (ResetDeliveryForReplay now i d)"
    by (auto simp: ResetDeliveryForReplay_def upd_delivery_def tenant_inv_def org_ok_def set_upd_where)
next
  fix B assume inv: "tenant_inv d" and B: "B \<noteq> A"
  let ?f = "\<lambda>x. if dl_id x = i then x\<lparr>dl_status := ''queued'', dl_attempt_count := 0, dl_next_retry_at := None, dl_updated_at := now\<rparr> else x"
  have "set xs \<subseteq> set (t_deliveries d) \<Longrightarrow> filter (\<lambda>x. dl_org_id x = B) (map ?f xs) = filter (\<lambda>x. dl_org_id x = B) xs" for xs
    using x[OF inv] B by (induction xs) auto
  then show "slice B (ResetDeliveryForReplay now i d) = slice B d"
    by (simp add: slice_def ResetDeliveryForReplay_def upd_delivery_def upd_where_def del: set_filter)
qed

section \<open>Handlers\<close>

text \<open>The database of a state, and what the environment generates anew.\<close>

abbreviation odb :: "'r oworld \<Rightarrow> mdb" where
  "odb w \<equiv> mw_db (ow_m w)"

definition fresh :: "oenv \<Rightarrow> mdb \<Rightarrow> bool" where
  "fresh env d \<longleftrightarrow> oe_newid env \<notin> ap_id ` set (t_apps d) \<and> oe_newid env \<notin> ep_id ` set (t_endpoints d) \<and>
     oe_newid env \<notin> ms_id ` set (t_messages d) \<and> inj (oe_delid env) \<and> range (oe_delid env) \<inter> dl_id ` set (t_deliveries d) = {} \<and>
     pe_appid (ie_pub (oe_ienv env)) \<notin> ap_id ` set (t_apps d)"

lemma only_ostmt: "only_of A (odb w) (snd (f (odb w))) \<Longrightarrow> only_of A (odb w) (odb (snd (ostmt o1 f w)))"
  by (cases o1) (simp_all add: ostmt_def stmt_def Let_def)

lemma odb_oaudit [simp]: "odb (oaudit env p act ty tg meta w) = odb w"
  by (simp add: oaudit_def)

lemma odb_enqueue [simp]: "odb (snd (enqueueDelivery R h env org i w)) = odb w"
  by (simp add: enqueueDelivery_def enqueue_delivery_def Let_def case_prod_unfold)

lemma odb_enqueues [simp]: "odb (enqueueDeliveries R h env org ids w) = odb w"
  by (induction ids arbitrary: w) simp_all

lemma odb_quota [simp]: "odb (snd (overQuota R env org w)) = odb w"
  by (simp add: overQuota_def Let_def case_prod_unfold)

definition member_of :: "string \<Rightarrow> Principal option \<Rightarrow> bool" where
  "member_of A p \<longleftrightarrow> (\<exists>pr. p = Some pr \<and> pr_OrgID pr = A)"

lemma active_orgI:
  assumes "member_of A p" "\<And>w'. only_of A (odb w) (odb (snd (f A w)))"
  shows "only_of A (odb w) (odb (snd (active_org p f w)))"
  using assms by (auto simp: active_org_def member_of_def)

lemma in_appI:
  assumes "member_of A p" "\<And>app. owns A (ap_id app) (odb w) \<Longrightarrow> only_of A (odb w) (odb (snd (f A app w)))"
  shows "only_of A (odb w) (odb (snd (in_app env p param f w)))"
proof (unfold in_app_def, rule active_orgI[OF assms(1)])
  show "only_of A (odb w) (odb (snd (case appForOrg env param A w of Inl st \<Rightarrow> (Inl st, w) | Inr app \<Rightarrow> f A app w)))"
  proof (cases "appForOrg env param A w")
    case (Inr app)
    then have "owns A (ap_id app) (odb w)"
      by (auto simp: appForOrg_def oread_def read_stmt_def GetApplicationForOrg_def owns_def dest!: one_row_set
          split: option.splits sum.splits if_splits)
    then show ?thesis using assms(2) Inr by simp
  qed simp
qed

lemma only_CreateApplication_api: "member_of A p \<Longrightarrow> fresh env (odb w) \<Longrightarrow> only_of A (odb w) (odb (snd (CreateApplication_api env p body w)))"
  unfolding CreateApplication_api_def
  by (rule active_orgI) (auto simp: fresh_def prod.case_eq_if split: option.split sum.split intro!: only_ostmt only_CreateApplication)

lemma only_PatchApplication: "member_of A p \<Longrightarrow> only_of A (odb w) (odb (snd (PatchApplication env p i body w)))"
  unfolding PatchApplication_def
  by (rule active_orgI) (auto simp: prod.case_eq_if split: option.split sum.split intro!: only_ostmt only_UpdateApplication)

lemma only_DeleteApplication_api: "member_of A p \<Longrightarrow> only_of A (odb w) (odb (snd (DeleteApplication env p i w)))"
  unfolding DeleteApplication_def
  by (rule active_orgI) (auto simp: prod.case_eq_if split: option.split sum.split intro!: only_ostmt only_DeleteApplication)

lemma only_RevokePortalAccess: "member_of A p \<Longrightarrow> only_of A (odb w) (odb (snd (RevokePortalAccess env p i w)))"
  unfolding RevokePortalAccess_def
  by (rule in_appI) (auto simp: prod.case_eq_if split: sum.split intro!: only_ostmt only_BumpApplicationPortalEpoch)

lemma only_CreateEventType_api: "member_of A p \<Longrightarrow> only_of A (odb w) (odb (snd (CreateEventType_api env p body w)))"
  unfolding CreateEventType_api_def Let_def
  by (rule active_orgI) (auto simp: prod.case_eq_if split: option.split sum.split intro!: only_ostmt only_CreateEventType)

lemma only_PatchEventType: "member_of A p \<Longrightarrow> only_of A (odb w) (odb (snd (PatchEventType env p name body w)))"
  unfolding PatchEventType_def Let_def
  by (rule active_orgI) (auto simp: prod.case_eq_if split: option.split sum.split intro!: only_ostmt only_UpdateEventType)

lemma only_DeleteEventType_api: "member_of A p \<Longrightarrow> only_of A (odb w) (odb (snd (DeleteEventType env p name w)))"
  unfolding DeleteEventType_def
  by (rule active_orgI) (auto simp: prod.case_eq_if split: sum.split intro!: only_ostmt only_DeleteEventType)

lemma only_CreateEndpoint_api:
  "member_of A p \<Longrightarrow> fresh env (odb w) \<Longrightarrow> only_of A (odb w) (odb (snd (CreateEndpoint_api h env p i body w)))"
  unfolding CreateEndpoint_api_def
  by (rule in_appI) (auto simp: fresh_def prod.case_eq_if split: option.split sum.split intro!: only_ostmt only_CreateEndpoint)

lemma only_RotateEndpointSecret_api: "member_of A p \<Longrightarrow> only_of A (odb w) (odb (snd (RotateEndpointSecret_api h env p i j body w)))"
  unfolding RotateEndpointSecret_api_def Let_def
  by (rule in_appI) (auto simp: prod.case_eq_if split: option.split sum.split intro!: only_ostmt only_RotateEndpointSecret)

lemma only_PatchEndpoint: "member_of A p \<Longrightarrow> only_of A (odb w) (odb (snd (PatchEndpoint h env p i j body w)))"
  unfolding PatchEndpoint_def
  by (rule in_appI) (auto simp: prod.case_eq_if split: option.split sum.split intro!: only_ostmt only_UpdateEndpoint)

lemma only_DeleteEndpoint_api: "member_of A p \<Longrightarrow> only_of A (odb w) (odb (snd (DeleteEndpoint env p i j w)))"
  unfolding DeleteEndpoint_def
  by (rule in_appI) (auto simp: prod.case_eq_if split: option.split sum.split intro!: only_ostmt only_DeleteEndpoint)

text \<open>The operational application.\<close>

lemma only_stmt: "only_of A (mw_db m) (snd (f (mw_db m))) \<Longrightarrow> only_of A (mw_db m) (mw_db (snd (stmt o1 f m)))"
  by (cases o1) (simp_all add: stmt_def Let_def)

lemma only_upd_stmt: "only_of A (mw_db m) (f (mw_db m)) \<Longrightarrow> only_of A (mw_db m) (mw_db (snd (upd_stmt o1 f m)))"
  by (cases o1) (simp_all add: upd_stmt_def Let_def)

lemma only_seedTypes: "only_of A (mw_db m) (mw_db (snd (seedTypes env A ts m)))"
proof (induction ts arbitrary: m)
  case (Cons t ts)
  obtain name desc where t: "t = (name, desc)" by fastforce
  obtain e m1 where u: "upd_stmt (pe_seed env name) (SeedEventType (pe_now env) (pe_typeid env name) A name desc) m = (e, m1)" by fastforce
  have "only_of A (mw_db m) (mw_db (snd (upd_stmt (pe_seed env name) (SeedEventType (pe_now env) (pe_typeid env name) A name desc) m)))"
    by (intro only_upd_stmt only_SeedEventType)
  then have "only_of A (mw_db m) (mw_db m1)" using u by simp
  then show ?case using Cons[of m1] only_trans by (auto simp: t u split: option.split)
qed simp

lemma only_SeedOperationalApp:
  assumes "pe_appid env \<notin> ap_id ` set (t_apps (mw_db m))"
  shows "only_of A (mw_db m) (mw_db (snd (SeedOperationalApp env A m)))"
proof -
  obtain x m1 where e: "stmt (pe_ensure env) (EnsureOperationalApp (pe_now env) (pe_appid env) (pe_raced env) A) m = (x, m1)" by fastforce
  have "only_of A (mw_db m) (mw_db (snd (stmt (pe_ensure env) (EnsureOperationalApp (pe_now env) (pe_appid env) (pe_raced env) A) m)))"
    by (intro only_stmt only_EnsureOperationalApp assms)
  then have 1: "only_of A (mw_db m) (mw_db m1)" using e by simp
  then have "only_of A (mw_db m) (mw_db (snd (seedTypes env A opEventTypes m1)))" using only_seedTypes only_trans by blast
  then show ?thesis using 1 by (auto simp: SeedOperationalApp_def e Let_def prod.case_eq_if split: sum.split option.split)
qed

lemma only_GetOperationalApp: "member_of A p \<Longrightarrow> fresh env (odb w) \<Longrightarrow> only_of A (odb w) (odb (snd (GetOperationalApp_api env p w)))"
  unfolding GetOperationalApp_api_def
  by (rule active_orgI) (auto simp: fresh_def prod.case_eq_if split: sum.split intro!: only_SeedOperationalApp)

text \<open>Deliveries of an organization.\<close>

definition delivs_of :: "string \<Rightarrow> string set \<Rightarrow> mdb \<Rightarrow> bool" where
  "delivs_of A ids d \<longleftrightarrow> (\<forall>x \<in> set (t_deliveries d). dl_id x \<in> ids \<longrightarrow> dl_org_id x = A)"

lemma delivs_reset: "delivs_of A ids d \<Longrightarrow> delivs_of A ids (ResetDeliveryForReplay now i d)"
  by (auto simp: delivs_of_def ResetDeliveryForReplay_def upd_delivery_def set_upd_where)

lemma only_recoverLoop: "delivs_of A (set ids) (odb w) \<Longrightarrow> only_of A (odb w) (odb (snd (recoverLoop_api R h env A ids w)))"
proof (induction ids arbitrary: w)
  case (Cons i ids)
  define r where "r = ostmt (oe_out env (''reset:'' @ i)) (\<lambda>d. (Inr (), ResetDeliveryForReplay (oe_now env) i d)) w"
  have d: "odb (snd r) = odb w \<or> odb (snd r) = ResetDeliveryForReplay (oe_now env) i (odb w)"
    by (cases "oe_out env (''reset:'' @ i)") (simp_all add: r_def ostmt_def stmt_def Let_def)
  have 1: "only_of A (odb w) (odb (snd r))"
    unfolding r_def using Cons.prems by (intro only_ostmt) (auto simp: delivs_of_def intro!: only_ResetDelivery)
  have 2: "delivs_of A (set ids) (odb (snd r))"
  proof -
    have "delivs_of A (set ids) (odb w)" using Cons.prems by (simp add: delivs_of_def)
    then show ?thesis using d delivs_reset by metis
  qed
  let ?e = "enqueueDelivery R h env A i (snd r)"
  have 3: "only_of A (odb (snd r)) (odb (snd (recoverLoop_api R h env A ids (snd r))))" using Cons.IH[OF 2] .
  have 4: "only_of A (odb (snd r)) (odb (snd (recoverLoop_api R h env A ids (snd ?e))))" using Cons.IH[of "snd ?e"] 2 by simp
  have "only_of A (odb (snd r)) (odb (snd (recoverLoop_api R h env A (i # ids) w)))"
    unfolding recoverLoop_api.simps r_def[symmetric] using 3 4 by (auto simp: prod.case_eq_if Let_def split: sum.split option.split)
  then show ?case using 1 only_trans by blast
qed simp

lemma endpointForApp_owned:
  "endpointForApp env app idParam w = Inr ep \<Longrightarrow> ep \<in> set (t_endpoints (odb w)) \<and> ep_app_id ep = app"
  by (auto simp: endpointForApp_def endpointForAppID_def oread_def read_stmt_def GetEndpointForApp_def dest!: one_row_set
      split: option.splits sum.splits if_splits)

lemma only_RecoverEndpoint: 
  assumes "member_of A p"
  shows "only_of A (odb w) (odb (snd (RecoverEndpoint R h env p i j body w)))"
proof (cases "tenant_inv (odb w)")
  case inv: True
  show ?thesis
    unfolding RecoverEndpoint_def
  proof (rule in_appI[OF assms])
    fix app
    assume o1: "owns A (ap_id app) (odb w)"
    have "delivs_of A (set (ListDeadDeliveriesForEndpointSince (ep_id ep) since n (odb w))) (odb w)"
      if e: "endpointForApp env (ap_id app) j w = Inr ep" for ep since n
    proof -
      have ep: "ep \<in> set (t_endpoints (odb w))" "ep_org_id ep = A"
        using endpointForApp_owned[OF e] owned_rows(1)[OF inv o1] by blast+
      have "\<exists>y \<in> set (t_deliveries (odb w)). dl_id y = dl_id x \<and> dl_endpoint_id y = ep_id ep"
        if "dl_id x \<in> set (ListDeadDeliveriesForEndpointSince (ep_id ep) since n (odb w))" for x
        using that by (auto simp: ListDeadDeliveriesForEndpointSince_def dest!: in_set_takeD)
      then have "dl_endpoint_id x = ep_id ep" if "x \<in> set (t_deliveries (odb w))" "dl_id x \<in> set (ListDeadDeliveriesForEndpointSince (ep_id ep) since n (odb w))" for x
        using that key_unique[OF inv_keys(4)[OF inv]] by metis
      then show ?thesis using inv ep by (auto simp: delivs_of_def tenant_inv_def org_ok_def)
    qed
    then show "only_of A (odb w) (odb (snd (case endpointForApp env (ap_id app) j w of Inl st \<Rightarrow> (Inl st, w) | Inr ep \<Rightarrow>
       case body of None \<Rightarrow> (Inl 400, w) | Some sinceText \<Rightarrow>
       case oe_time env sinceText of None \<Rightarrow> (Inl 400, w) | Some since \<Rightarrow>
       case oread (oe_out env ''list'') (\<lambda>d. Inr (ListDeadDeliveriesForEndpointSince (ep_id ep) since recoverMaxBatch d)) w of
         Inl _ \<Rightarrow> (Inl 500, w)
       | Inr ids \<Rightarrow>
           (let (n, w) = recoverLoop_api R h env A ids w
            in (Inr (202, n, length ids = recoverMaxBatch),
                oaudit env p ''endpoint.recover'' ''endpoint'' (Some (ep_id ep)) [(''recovered'', JNum (int n))] w)))))"
      by (auto simp: Let_def prod.case_eq_if oread_def read_stmt_def split: sum.split option.split intro!: only_recoverLoop)
  qed
qed (simp add: only_of_def)

text \<open>A message and its deliveries.\<close>

lemma message_then_batch:
  assumes "owns A app d" "i \<notin> ms_id ` set (t_messages d)" "inj ids" "range ids \<inter> dl_id ` set (t_deliveries d) = {}"
    and c: "CreateMessage now i app A ty body hash ev ch d = (Inr msg, d1)"
    and e: "\<And>e. tenant_inv d1 \<Longrightarrow> e \<in> set (t_endpoints d1) \<Longrightarrow> ep_id e \<in> set eps \<Longrightarrow> ep_org_id e = A"
  shows "only_of A d1 (snd (CreateMessageDeliveriesBatch now ids (ms_id msg) A eps d1))"
proof -
  have d1: "ms_id msg = i" "d1 = d\<lparr>t_messages := t_messages d @ [msg]\<rparr>" "ms_org_id msg = A"
    using c by (auto simp: CreateMessage_def Let_def split: if_splits)
  have "m = msg" if "m \<in> set (t_messages d1)" "ms_id m = i" for m
    using that assms(2) by (auto simp: d1)
  then show ?thesis
    using assms(3,4) e d1 by (intro only_CreateMessageDeliveriesBatch) auto
qed

lemma run_io_Inr: "run_io o1 f s = (Some x, s') \<Longrightarrow> f s = (x, s')"
  by (cases o1) (auto simp: prod_eq_iff)

lemma only_publishTx:
  assumes "owns A app d" "fresh env d"
  shows "only_of A d (snd (publishTx env app A ty payload ev ch d))"
proof -
  let ?c = "CreateMessage (oe_now env) (oe_newid env) app A ty payload (hex_encode (oe_sha256 env payload)) ev ch"
  obtain x d1 where r: "run_io (oe_out env ''message'') ?c d = (x, d1)" by fastforce
  have "only_of A d (snd (run_io (oe_out env ''message'') ?c d))"
    using assms by (intro only_run only_CreateMessage) (simp_all add: fresh_def)
  then have 1: "only_of A d d1" using r by simp
  have 2: "only_of A d1 (snd (run_io o1 (CreateMessageDeliveriesBatch (oe_now env) (oe_delid env) (ms_id msg) A (ListMatchingEndpoints app ty ch d1)) d1))"
    if x: "x = Some (Inr msg)" for msg o1
  proof (rule only_run, rule message_then_batch[OF assms(1)])
    have c: "?c d = (Inr msg, d1)" using r x run_io_Inr by metis
    then show "?c d = (Inr msg, d1)" .
    fix e
    assume inv: "tenant_inv d1" and e: "e \<in> set (t_endpoints d1)" "ep_id e \<in> set (ListMatchingEndpoints app ty ch d1)"
    have o1: "owns A app d1" using assms(1) c by (auto simp: CreateMessage_def owns_def Let_def split: if_splits)
    obtain e' where "e' \<in> set (t_endpoints d1)" "ep_id e' = ep_id e" "ep_app_id e' = app"
      using e(2) by (auto simp: ListMatchingEndpoints_def)
    then show "ep_org_id e = A" using owned_rows(1)[OF inv o1] key_unique[OF inv_keys(2)[OF inv] e(1)] by metis
  qed (use assms(2) in \<open>auto simp: fresh_def\<close>)
  show ?thesis
    using 1 only_trans[OF 1 2] unfolding publishTx_def r by (auto simp: Let_def prod.case_eq_if split: option.split sum.split)
qed

lemma in_tx_state: "snd (in_tx o1 o2 f e w) = w \<or> snd (in_tx o1 o2 f e w) = snd (f w)"
  by (auto simp: in_tx_def split: prod.split sum.split io.split)

lemma only_publishMessage:
  assumes "owns A app (odb w)" "fresh env (odb w)"
  shows "only_of A (odb w) (odb (snd (publishMessage R h env A app req w)))"
proof -
  have "only_of A (odb w) (snd (in_tx b c (publishTx env app A ty payload ev ch) ErrDb (odb w)))" for b c ty payload ev ch
    using in_tx_state[of b c "publishTx env app A ty payload ev ch" ErrDb "odb w"] only_publishTx[OF assms] by auto
  then show ?thesis
    unfolding publishMessage_def by (simp add: Let_def prod.case_eq_if split: option.split sum.split)
qed

lemma only_CreateMessage_api:
  assumes "member_of A p" "fresh env (odb w)"
  shows "only_of A (odb w) (odb (snd (CreateMessage_api R h env p i body w)))"
  unfolding CreateMessage_api_def
proof (rule in_appI[OF assms(1)])
  fix app
  assume "owns A (ap_id app) (odb w)"
  then have "only_of A (odb w) (odb (snd (publishMessage R h env A (ap_id app) req (snd (overQuota R env A w)))))" for req
    using only_publishMessage[of A "ap_id app" "snd (overQuota R env A w)"] assms(2) by simp
  then show "only_of A (odb w) (odb (snd (let (over, w) = overQuota R env A w
       in if over then (Inl 429, w)
          else case body of None \<Rightarrow> (Inl 400, w) | Some req \<Rightarrow> publishMessage R h env A (ap_id app) req w)))"
    by (simp add: Let_def case_prod_unfold split: option.split)
qed

text \<open>What another request of the same organization commits in between leaves the rows of this one in the organization.\<close>

lemma kept_org:
  assumes "tenant_inv d" "only_of A d d'"
  shows "m \<in> set (t_messages d) \<Longrightarrow> ms_org_id m = A \<Longrightarrow> m' \<in> set (t_messages d') \<Longrightarrow> ms_id m' = ms_id m \<Longrightarrow> ms_org_id m' = A"
    and "e \<in> set (t_endpoints d) \<Longrightarrow> ep_org_id e = A \<Longrightarrow> e' \<in> set (t_endpoints d') \<Longrightarrow> ep_id e' = ep_id e \<Longrightarrow> ep_org_id e' = A"
proof -
  have s: "slice B d' = slice B d" if "B \<noteq> A" for B using assms that by (auto simp: only_of_def)
  have "m' \<in> set (t_messages d)" if "m' \<in> set (t_messages d')" "ms_org_id m' \<noteq> A"
  proof -
    have "m' \<in> set (t_messages (slice (ms_org_id m') d'))" using that(1) by (simp add: slice_def)
    then show ?thesis unfolding s[OF that(2)] by (simp add: slice_def)
  qed
  then show "m \<in> set (t_messages d) \<Longrightarrow> ms_org_id m = A \<Longrightarrow> m' \<in> set (t_messages d') \<Longrightarrow> ms_id m' = ms_id m \<Longrightarrow> ms_org_id m' = A"
    using key_unique[OF inv_keys(3)[OF assms(1)]] by metis
  have "e' \<in> set (t_endpoints d)" if "e' \<in> set (t_endpoints d')" "ep_org_id e' \<noteq> A"
  proof -
    have "e' \<in> set (t_endpoints (slice (ep_org_id e') d'))" using that(1) by (simp add: slice_def)
    then show ?thesis unfolding s[OF that(2)] by (simp add: slice_def)
  qed
  then show "e \<in> set (t_endpoints d) \<Longrightarrow> ep_org_id e = A \<Longrightarrow> e' \<in> set (t_endpoints d') \<Longrightarrow> ep_id e' = ep_id e \<Longrightarrow> ep_org_id e' = A"
    using key_unique[OF inv_keys(2)[OF assms(1)]] by metis
qed

lemma only_reset:
  assumes "tenant_inv (odb w) \<Longrightarrow> delivs_of A {i} (odb w)"
  shows "only_of A (odb w) (odb (snd (case ostmt o1 (\<lambda>d. (Inr (), ResetDeliveryForReplay now i d)) w of
    (Inl _, w) \<Rightarrow> (Inl (500 :: int), w) | (Inr _, w) \<Rightarrow> (Inr i, w))))"
proof -
  have "only_of A (odb w) (odb (snd (ostmt o1 (\<lambda>d. (Inr (), ResetDeliveryForReplay now i d)) w)))"
    using assms by (intro only_ostmt) (auto simp: delivs_of_def intro!: only_ResetDelivery)
  then show ?thesis by (simp add: prod.case_eq_if split: sum.split)
qed

lemma found_delivs:
  assumes "tenant_inv d" "GetDeliveryByMessageEndpoint msg ep d = Inr x"
    and "\<And>e. e \<in> set (t_endpoints d) \<Longrightarrow> ep_id e = ep \<Longrightarrow> ep_org_id e = A"
  shows "delivs_of A {dl_id x} d"
proof -
  have x: "x \<in> set (t_deliveries d)" "dl_endpoint_id x = ep"
    using one_row_set[OF assms(2)[unfolded GetDeliveryByMessageEndpoint_def]] by blast+
  then obtain e where "e \<in> set (t_endpoints d)" "ep_id e = ep" using inv_keys(8)[OF assms(1)] by force
  then have "dl_org_id x = A" using assms(1,3) x by (auto simp: tenant_inv_def org_ok_def)
  then show ?thesis using key_unique[OF inv_keys(4)[OF assms(1)]] x by (auto simp: delivs_of_def)
qed

text \<open>The pair of the path: every row with these identifiers is the organization's.\<close>

definition pair_owned :: "string \<Rightarrow> string \<Rightarrow> string \<Rightarrow> mdb \<Rightarrow> bool" where
  "pair_owned A msg ep d \<longleftrightarrow> (\<forall>m \<in> set (t_messages d). ms_id m = msg \<longrightarrow> ms_org_id m = A) \<and>
     (\<forall>e \<in> set (t_endpoints d). ep_id e = ep \<longrightarrow> ep_org_id e = A)"

lemma only_batch_pair:
  assumes "pair_owned A msg ep d" "inj ids" "range ids \<inter> dl_id ` set (t_deliveries d) = {}"
  shows "only_of A d (snd (CreateMessageDeliveriesBatch now ids msg A [ep] d))"
  using assms by (intro only_CreateMessageDeliveriesBatch) (auto simp: pair_owned_def)

lemma batch_pair: "pair_owned A msg ep d \<Longrightarrow> pair_owned A msg ep (snd (run_io o1 (CreateMessageDeliveriesBatch now ids msg A [ep]) d))"
  by (cases o1) (auto simp: pair_owned_def CreateMessageDeliveriesBatch_def Let_def case_prod_unfold)

lemma odb_ostmt: "odb (snd (ostmt o1 f w)) = snd (run_io o1 f (odb w))"
  by (simp add: ostmt_def stmt_def Let_def case_prod_unfold)

lemma only_replayID:
  assumes "only_of A (odb w) (raced (odb w))" "fresh env (raced (odb w))"
    and "pair_owned A msg ep (odb w)" "pair_owned A msg ep (raced (odb w))"
  shows "only_of A (odb w) (odb (snd (replayID env raced A msg ep w)))"
proof (cases "tenant_inv (odb w)")
  case inv: True
  let ?w = "w\<lparr>ow_m := (ow_m w)\<lparr>mw_db := raced (odb w)\<rparr>\<rparr>"
  obtain x w1 where b: "ostmt (oe_out env ''batch'') (CreateMessageDeliveriesBatch (oe_now env) (oe_delid env) msg A [ep]) ?w = (x, w1)" by fastforce
  have w1: "odb w1 = snd (run_io (oe_out env ''batch'') (CreateMessageDeliveriesBatch (oe_now env) (oe_delid env) msg A [ep]) (raced (odb w)))"
    using odb_ostmt[of "oe_out env ''batch''" "CreateMessageDeliveriesBatch (oe_now env) (oe_delid env) msg A [ep]" ?w] b by simp
  have "only_of A (raced (odb w)) (odb w1)"
    unfolding w1 using assms(2,4) by (intro only_run only_batch_pair) (auto simp: fresh_def)
  then have 1: "only_of A (odb w) (odb w1)" using assms(1) only_trans by blast
  have p1: "pair_owned A msg ep (odb w1)" unfolding w1 by (rule batch_pair[OF assms(4)])
  let ?reset = "\<lambda>i w. case ostmt (oe_out env ''reset'') (\<lambda>d. (Inr (), ResetDeliveryForReplay (oe_now env) i d)) w of
      (Inl _, w) \<Rightarrow> (Inl (500 :: int), w) | (Inr _, w) \<Rightarrow> (Inr i, w)"
  have r0: "only_of A (odb w) (odb (snd (?reset (dl_id x) w)))"
    if "oread o1 (GetDeliveryByMessageEndpoint msg ep) w = Inr x" for o1 x
    using that assms(3) found_delivs[of "odb w" msg ep x A]
    by (intro only_reset) (auto simp: oread_def read_stmt_def pair_owned_def split: if_splits)
  have r1: "only_of A (odb w) (odb (snd (?reset (dl_id x) w1)))"
    if "oread o1 (GetDeliveryByMessageEndpoint msg ep) w1 = Inr x" for o1 x
    using that p1 found_delivs[of "odb w1" msg ep x A]
    by (intro only_trans[OF 1] only_reset) (auto simp: oread_def read_stmt_def pair_owned_def split: if_splits)
  show ?thesis
    unfolding replayID_def Let_def b using r0 r1 1 by (auto split: sum.split list.split)
qed (simp add: only_of_def)

lemma only_ReplayDelivery:
  assumes "member_of A p" "only_of A (odb w) (raced (odb w))" "fresh env (raced (odb w))"
  shows "only_of A (odb w) (odb (snd (ReplayDelivery R h env raced p i j k w)))"
proof (cases "tenant_inv (odb w)")
  case inv: True
  show ?thesis
    unfolding ReplayDelivery_def
  proof (rule in_appI[OF assms(1)])
    fix app
    assume o1: "owns A (ap_id app) (odb w)"
    have r: "only_of A (odb w) (odb (snd (replayID env raced A msgID epID w)))"
      if m: "oread (oe_out env ''message'') (GetMessageForApp msgID (ap_id app)) w = Inr msg" and e: "endpointForAppID env (ap_id app) epID w = Inr ep"
      for msgID epID msg ep
    proof -
      have m: "msg \<in> set (t_messages (odb w))" "ms_id msg = msgID" "ms_org_id msg = A"
        using m owned_rows(2)[OF inv o1] by (auto simp: oread_def read_stmt_def GetMessageForApp_def dest!: one_row_set split: if_splits)
      have e: "ep \<in> set (t_endpoints (odb w))" "ep_id ep = epID" "ep_org_id ep = A"
        using e owned_rows(1)[OF inv o1]
        by (auto simp: endpointForAppID_def oread_def read_stmt_def GetEndpointForApp_def dest!: one_row_set split: if_splits sum.splits)
      have "pair_owned A msgID epID (odb w)"
        using m e kept_org[OF inv only_refl] unfolding pair_owned_def by metis
      moreover have "pair_owned A msgID epID (raced (odb w))"
        using m e kept_org[OF inv assms(2)] unfolding pair_owned_def by metis
      ultimately show ?thesis using assms(2,3) by (intro only_replayID)
    qed
    show "only_of A (odb w) (odb (snd (case uuid_Parse j of None \<Rightarrow> (Inl 400, w) | Some msgID \<Rightarrow>
       case uuid_Parse k of None \<Rightarrow> (Inl 400, w) | Some epID \<Rightarrow>
       case oread (oe_out env ''message'') (GetMessageForApp msgID (ap_id app)) w of Inl _ \<Rightarrow> (Inl 404, w) | Inr msg \<Rightarrow>
       if ms_payload msg = None \<or> ms_payload msg = Some [] then (Inl 422, w)
       else case endpointForAppID env (ap_id app) epID w of Inl st \<Rightarrow> (Inl st, w) | Inr _ \<Rightarrow>
            case replayID env raced A msgID epID w of
              (Inl st, w) \<Rightarrow> (Inl st, w)
            | (Inr i, w) \<Rightarrow>
                (case enqueueDelivery R h env A i w of
                   (Some _, w) \<Rightarrow> (Inl 500, w)
                 | (None, w) \<Rightarrow> (Inr (202, i), oaudit env p ''message.replay'' ''message_delivery'' (Some i) [] w)))))"
      using r by (auto simp: prod.case_eq_if split: option.split sum.split)
  qed
qed (simp add: only_of_def)

lemma only_testMessage:
  assumes "owns A app (odb w)" "fresh env (odb w)" "ep \<in> set (t_endpoints (odb w))" "ep_app_id ep = app"
  shows "only_of A (odb w) (odb (snd (testMessage env A app (ep_id ep) ty payload w)))"
proof -
  let ?c = "CreateMessage (oe_now env) (oe_newid env) app A ty payload (hex_encode (oe_sha256 env payload)) None None"
  obtain x w1 where r: "ostmt (oe_out env ''message'') ?c w = (x, w1)" by fastforce
  have "only_of A (odb w) (odb (snd (ostmt (oe_out env ''message'') ?c w)))"
    using assms by (intro only_ostmt only_CreateMessage) (simp_all add: fresh_def)
  then have 1: "only_of A (odb w) (odb w1)" using r by simp
  have 2: "only_of A (odb w1) (odb (snd (ostmt o1 (CreateMessageDeliveriesBatch (oe_now env) (oe_delid env) (ms_id msg) A [ep_id ep]) w1)))"
    if x: "x = Inr msg" for msg o1
  proof (rule only_ostmt, rule message_then_batch[OF assms(1)])
    have c: "?c (odb w) = (Inr msg, odb w1)"
      using r x by (cases "oe_out env ''message''") (auto simp: ostmt_def stmt_def prod_eq_iff)
    then show "?c (odb w) = (Inr msg, odb w1)" .
    then have "t_apps (odb w1) = t_apps (odb w)" "t_endpoints (odb w1) = t_endpoints (odb w)"
      by (auto simp: CreateMessage_def Let_def prod_eq_iff split: if_splits dest!: sym[of _ "odb w1"])
    then have o1: "owns A app (odb w1)" and e1: "ep \<in> set (t_endpoints (odb w1))" using assms by (simp_all add: owns_def)
    fix e
    assume inv: "tenant_inv (odb w1)" and e: "e \<in> set (t_endpoints (odb w1))" "ep_id e \<in> set [ep_id ep]"
    then show "ep_org_id e = A"
      using owned_rows(1)[OF inv o1 e1 assms(4)] key_unique[OF inv_keys(2)[OF inv] e(1) e1] by auto
  qed (use assms(2) in \<open>auto simp: fresh_def\<close>)
  show ?thesis
    using 1 only_trans[OF 1 2] unfolding testMessage_def r by (auto simp: prod.case_eq_if split: sum.split list.split)
qed

lemma only_TestEndpoint:
  assumes "member_of A p" "fresh env (odb w)"
  shows "only_of A (odb w) (odb (snd (TestEndpoint R h env p i j body w)))"
  unfolding TestEndpoint_def
proof (rule in_appI[OF assms(1)])
  fix app
  assume o1: "owns A (ap_id app) (odb w)"
  have t: "only_of A (odb w) (odb (snd (testMessage env A (ap_id app) (ep_id ep) ty payload (snd (overQuota R env A w)))))"
    if "endpointForApp env (ap_id app) j w = Inr ep" for ep ty payload
    using only_testMessage[of A "ap_id app" "snd (overQuota R env A w)" env ep ty payload] endpointForApp_owned[OF that] o1 assms(2) by simp
  show "only_of A (odb w) (odb (snd (case endpointForApp env (ap_id app) j w of Inl st \<Rightarrow> (Inl st, w) | Inr ep \<Rightarrow>
       case body of None \<Rightarrow> (Inl 400, w) | Some (eventType, raw) \<Rightarrow>
       if eventType = [] then (Inl 400, w)
       else case oread (oe_out env ''type'') (GetEventTypeForOrg A eventType) w of Inl _ \<Rightarrow> (Inl 422, w) | Inr et \<Rightarrow>
       if et_archived et then (Inl 422, w)
       else
         (let raw = (if raw = [] then ''{}'' else raw)
          in if \<not> validatePayloadAgainstSchema env (et_schema et) raw then (Inl 422, w)
             else
               (let (over, w) = overQuota R env A w
                in if over then (Inl 429, w)
                   else case testMessage env A (ap_id app) (ep_id ep) eventType (json_compact False raw) w of
                          (Inl st, w) \<Rightarrow> (Inl st, w)
                        | (Inr (m, i), w) \<Rightarrow>
                            (case enqueueDelivery R h env A i w of
                               (Some _, w) \<Rightarrow> (Inl 500, w)
                             | (None, w) \<Rightarrow> (Inr (202, m, i), oaudit env p ''endpoint.test'' ''endpoint'' (Some (ep_id ep))
                                  [(''event_type'', JStr eventType)] w)))))))"
    using t by (auto simp: Let_def prod.case_eq_if split: option.split sum.split)
qed

section \<open>Isolation\<close>

text \<open>One request of a member of \<open>A\<close>: any handler that writes, with any outcome of its calls.\<close>

inductive api_step :: "'r redis \<Rightarrow> string \<Rightarrow> 'r oworld \<Rightarrow> 'r oworld \<Rightarrow> bool" for R A where
  create_app: "member_of A p \<Longrightarrow> fresh env (odb w) \<Longrightarrow> api_step R A w (snd (CreateApplication_api env p ba w))"
| patch_app: "member_of A p \<Longrightarrow> api_step R A w (snd (PatchApplication env p i bp w))"
| delete_app: "member_of A p \<Longrightarrow> api_step R A w (snd (DeleteApplication env p i w))"
| operational: "member_of A p \<Longrightarrow> fresh env (odb w) \<Longrightarrow> api_step R A w (snd (GetOperationalApp_api env p w))"
| revoke: "member_of A p \<Longrightarrow> api_step R A w (snd (RevokePortalAccess env p i w))"
| create_type: "member_of A p \<Longrightarrow> api_step R A w (snd (CreateEventType_api env p bt w))"
| patch_type: "member_of A p \<Longrightarrow> api_step R A w (snd (PatchEventType env p name bq w))"
| delete_type: "member_of A p \<Longrightarrow> api_step R A w (snd (DeleteEventType env p name w))"
| create_endpoint: "member_of A p \<Longrightarrow> fresh env (odb w) \<Longrightarrow> api_step R A w (snd (CreateEndpoint_api h env p i be w))"
| rotate: "member_of A p \<Longrightarrow> api_step R A w (snd (RotateEndpointSecret_api h env p i j br w))"
| patch_endpoint: "member_of A p \<Longrightarrow> api_step R A w (snd (PatchEndpoint h env p i j bu w))"
| delete_endpoint: "member_of A p \<Longrightarrow> api_step R A w (snd (DeleteEndpoint env p i j w))"
| recover: "member_of A p \<Longrightarrow> api_step R A w (snd (RecoverEndpoint R h env p i j bs w))"
| test: "member_of A p \<Longrightarrow> fresh env (odb w) \<Longrightarrow> api_step R A w (snd (TestEndpoint R h env p i j bv w))"
| publish: "member_of A p \<Longrightarrow> fresh env (odb w) \<Longrightarrow> api_step R A w (snd (CreateMessage_api R h env p i bm w))"
| replay: "member_of A p \<Longrightarrow> only_of A (odb w) (raced (odb w)) \<Longrightarrow> fresh env (raced (odb w)) \<Longrightarrow>
    api_step R A w (snd (ReplayDelivery R h env raced p i j k w))"

lemma api_step_only: "api_step R A w w' \<Longrightarrow> only_of A (odb w) (odb w')"
  by (induction rule: api_step.induct)
    (simp_all add: only_CreateApplication_api only_PatchApplication only_DeleteApplication_api only_GetOperationalApp only_RevokePortalAccess
      only_CreateEventType_api only_PatchEventType only_DeleteEventType_api only_CreateEndpoint_api only_RotateEndpointSecret_api
      only_PatchEndpoint only_DeleteEndpoint_api only_RecoverEndpoint only_TestEndpoint only_CreateMessage_api only_ReplayDelivery)

definition foreign_step :: "'r redis \<Rightarrow> string \<Rightarrow> 'r oworld \<Rightarrow> 'r oworld \<Rightarrow> bool" where
  "foreign_step R B w w' \<longleftrightarrow> (\<exists>A. A \<noteq> B \<and> api_step R A w w')"

end
