(* ===== verification/Publish_Props.thy ===== *)
theory Publish_Props
  imports Outbound_Props Identity_Props
begin

text \<open>
  The properties of the outbound API: isolation of the tenants, publishing and the portal link. A publish is atomic: a message never stands without its deliveries, and a
  repeated event identifier creates nothing. A revoked portal link is refused.
\<close>

section \<open>Isolation\<close>

text \<open>
  C15: Whatever requests the members of other organizations make, in any order and with any outcome of their
  database calls, and whatever identifiers of another tenant they put into the path, every application,
  event type, endpoint, message, delivery and attempt of an organization stays exactly as it was; and the ownership of
  all rows stays consistent.
\<close>

theorem tenant_isolation:
  assumes "(foreign_step R B)\<^sup>*\<^sup>* w w'" "tenant_inv (odb w)"
  shows "slice B (odb w') = slice B (odb w) \<and> tenant_inv (odb w')"
  using assms
  by (induction rule: rtranclp_induct) (auto simp: foreign_step_def only_of_def dest!: api_step_only)

section \<open>Publishing\<close>

lemma insert_deliveries_exact:
  assumes "distinct eps" "\<And>x. x \<in> set ds \<Longrightarrow> dl_message_id x = msg \<Longrightarrow> dl_endpoint_id x \<notin> set eps"
  shows "\<exists>new. insert_deliveries now ids msg org eps k ds = (map (\<lambda>x. (dl_id x, dl_endpoint_id x)) new, ds @ new) \<and>
    map dl_endpoint_id new = eps \<and>
    list_all (\<lambda>x. dl_message_id x = msg \<and> dl_org_id x = org \<and> dl_status x = ''queued'' \<and> dl_attempt_count x = 0) new"
  using assms
proof (induction eps arbitrary: k ds)
  case (Cons ep eps)
  let ?x = "\<lparr>dl_id = ids k, dl_message_id = msg, dl_endpoint_id = ep, dl_org_id = org, dl_status = ''queued'',
    dl_attempt_count = 0, dl_next_retry_at = None, dl_last_attempt_at = None, dl_created_at = now, dl_updated_at = now\<rparr>"
  have n: "\<not> list_ex (\<lambda>x. dl_message_id x = msg \<and> dl_endpoint_id x = ep) ds"
    using Cons.prems(2) by (auto simp: list_ex_iff)
  have "dl_endpoint_id x \<notin> set eps" if "x \<in> set (ds @ [?x])" "dl_message_id x = msg" for x
  proof -
    have "x \<in> set ds \<or> dl_endpoint_id x = ep" using that(1) by fastforce
    then show ?thesis using that(2) Cons.prems by auto
  qed
  then obtain new where "insert_deliveries now ids msg org eps (Suc k) (ds @ [?x]) = (map (\<lambda>x. (dl_id x, dl_endpoint_id x)) new, (ds @ [?x]) @ new)"
    "map dl_endpoint_id new = eps"
    "list_all (\<lambda>x. dl_message_id x = msg \<and> dl_org_id x = org \<and> dl_status x = ''queued'' \<and> dl_attempt_count x = 0) new"
    using Cons.IH[of "ds @ [?x]" "Suc k"] Cons.prems(1) by auto
  then show ?case using n by (intro exI[of _ "?x # new"]) simp
qed simp

text \<open>What a committed publish adds.\<close>

definition published_as :: "string \<Rightarrow> string \<Rightarrow> sendMessageReq \<Rightarrow> message_row \<Rightarrow> mdb \<Rightarrow> mdb \<Rightarrow> bool" where
  "published_as app org req m d d' \<longleftrightarrow>
     (\<exists>dels. d' = d\<lparr>t_messages := t_messages d @ [m], t_deliveries := t_deliveries d @ dels\<rparr> \<and>
        ms_app_id m = app \<and> ms_org_id m = org \<and> ms_event_type m = sm_event_type req \<and>
        ms_payload m = Some (json_compact False (sm_payload req)) \<and>
        ms_event_id m = (if sm_event_id req = Some [] then None else sm_event_id req) \<and>
        (ms_event_id m \<noteq> None \<longrightarrow> \<not> list_ex (\<lambda>x. ms_app_id x = app \<and> ms_event_id x = ms_event_id m) (t_messages d)) \<and>
        map dl_endpoint_id dels = ListMatchingEndpoints app (sm_event_type req) (sm_channels req) d \<and>
        list_all (\<lambda>x. dl_message_id x = ms_id m \<and> dl_org_id x = org \<and> dl_status x = ''queued'' \<and> dl_attempt_count x = 0) dels)"

lemma CreateMessage_Inr:
  assumes "CreateMessage now i app org ty body hash ev ch d = (Inr m, d')"
  shows "m = \<lparr>ms_id = i, ms_app_id = app, ms_org_id = org, ms_event_type = ty, ms_payload = Some body, ms_payload_hash = hash,
      ms_event_id = ev, ms_created_at = now, ms_channels = ch\<rparr> \<and> d' = d\<lparr>t_messages := t_messages d @ [m]\<rparr> \<and>
    (ev \<noteq> None \<longrightarrow> \<not> list_ex (\<lambda>x. ms_app_id x = app \<and> ms_event_id x = ev) (t_messages d))"
  using assms by (auto simp: CreateMessage_def Let_def split: if_splits)

lemma struct_distinct:
  assumes "struct_ok d"
  shows "distinct (map ep_id (t_endpoints d))" "dl_message_id ` set (t_deliveries d) \<subseteq> ms_id ` set (t_messages d)"
  using assms by (auto simp: struct_ok_def keys_ok_def key_cols comp_def image_image)

lemma tx_result:
  assumes "(if g then (Inl e0, d1) else if b then (Inr (m1, []), d1)
      else case (y, d2) of (None, d) \<Rightarrow> (Inl e0, d) | (Some (Inl e), d) \<Rightarrow> (Inl (f e), d) | (Some (Inr dels), d) \<Rightarrow> (Inr (m1, dels), d)) =
      (Inr (m, dels), d')"
  shows "m1 = m \<and> (b \<and> d' = d1 \<or> \<not> b \<and> y = Some (Inr dels) \<and> d' = d2)"
  using assms by (auto split: if_splits option.splits sum.splits)

lemma publishTx_Inr:
  assumes "publishTx env app org (sm_event_type req) (json_compact False (sm_payload req)) (if sm_event_id req = Some [] then None else sm_event_id req) (sm_channels req) d = (Inr (m, dels), d')"
    and "struct_ok d" "fresh env d"
  shows "published_as app org req m d d'"
proof -
  let ?ev = "if sm_event_id req = Some [] then None else sm_event_id req" and ?pl = "json_compact False (sm_payload req)"
  let ?c = "CreateMessage (oe_now env) (oe_newid env) app org (sm_event_type req) ?pl (hex_encode (oe_sha256 env ?pl)) ?ev (sm_channels req)"
  obtain x d1 where r: "run_io (oe_out env ''message'') ?c d = (x, d1)" by fastforce
  then obtain m1 where x: "x = Some (Inr m1)" using assms(1) by (auto simp: publishTx_def split: option.splits sum.splits)
  then have "?c d = (Inr m1, d1)" using r run_io_Inr by metis
  note c = CreateMessage_Inr[OF this]
  let ?eps = "ListMatchingEndpoints app (sm_event_type req) (sm_channels req) d"
  have eps: "ListMatchingEndpoints app (sm_event_type req) (sm_channels req) d1 = ?eps" using c by (simp add: ListMatchingEndpoints_def)
  obtain y d2 where y: "run_io (oe_out env ''batch'') (CreateMessageDeliveriesBatch (oe_now env) (oe_delid env) (ms_id m1) org ?eps) d1 = (y, d2)"
    by fastforce
  have p: "(if oe_out env ''match'' \<noteq> IoOk then (Inl ErrDb, d1) else if ?eps = [] then (Inr (m1, []), d1)
      else case (y, d2) of (None, d) \<Rightarrow> (Inl ErrDb, d) | (Some (Inl e), d) \<Rightarrow> (Inl (if e = ErrNoRows then ErrDb else e), d)
           | (Some (Inr dels), d) \<Rightarrow> (Inr (m1, dels), d)) = (Inr (m, dels), d')"
    using assms(1) unfolding publishTx_def r x by (simp only: prod.case option.case sum.case Let_def eps y)
  note b = tx_result[OF p]
  have "dl_endpoint_id y \<notin> set ?eps" if "y \<in> set (t_deliveries d1)" "dl_message_id y = ms_id m1" for y
  proof -
    have "y \<in> set (t_deliveries d)" "dl_message_id y = oe_newid env" using that c by simp_all
    moreover have "oe_newid env \<notin> ms_id ` set (t_messages d)" using assms(3) by (simp add: fresh_def)
    ultimately show ?thesis using subsetD[OF struct_distinct(2)[OF assms(2)], OF imageI[of y]] by simp
  qed
  moreover have "distinct ?eps"
    using struct_distinct(1)[OF assms(2)] by (simp add: ListMatchingEndpoints_def distinct_map_filter)
  ultimately obtain new where n: "insert_deliveries (oe_now env) (oe_delid env) (ms_id m1) org ?eps 0 (t_deliveries d1) =
      (map (\<lambda>x. (dl_id x, dl_endpoint_id x)) new, t_deliveries d1 @ new)" "map dl_endpoint_id new = ?eps"
      "list_all (\<lambda>x. dl_message_id x = ms_id m1 \<and> dl_org_id x = org \<and> dl_status x = ''queued'' \<and> dl_attempt_count x = 0) new"
    using insert_deliveries_exact by blast
  have "d' = d1\<lparr>t_deliveries := t_deliveries d1 @ new\<rparr>"
  proof (cases "?eps = []")
    case True
    then show ?thesis using b n(2) by simp
  next
    case False
    then have "y = Some (Inr dels)" "d' = d2" using b by simp_all
    from run_io_Inr[OF y[unfolded this(1)]] \<open>d' = d2\<close>
    have "CreateMessageDeliveriesBatch (oe_now env) (oe_delid env) (ms_id m1) org ?eps d1 = (Inr dels, d')" by (simp only:)
    then show ?thesis using n(1) by (simp add: CreateMessageDeliveriesBatch_def split: if_splits)
  qed
  then show ?thesis
    unfolding published_as_def using c n b by (intro exI[of _ new]) auto
qed

lemma in_tx_cases:
  assumes "in_tx o1 o2 f e w = (r, w')"
  shows "w' = w \<and> (\<exists>x. r = Inl x) \<or> (\<exists>y. f w = (Inr y, w') \<and> (r = Inr y \<and> o2 = IoOk \<or> r = Inl e \<and> o2 = IoLost))"
  using assms by (auto simp: in_tx_def split: if_splits prod.splits sum.splits io.splits)


text \<open>The rows of a publish: none, or the message with its deliveries.\<close>

definition publish_rows :: "string \<Rightarrow> string \<Rightarrow> sendMessageReq \<Rightarrow> mdb \<Rightarrow> mdb \<Rightarrow> bool" where
  "publish_rows app org req d d' \<longleftrightarrow> d' = d \<or> (\<exists>m. published_as app org req m d d')"

text \<open>What an answer promises about the rows: a new message, an earlier one, or an error after which both are possible.\<close>

definition publish_ok :: "string \<Rightarrow> string \<Rightarrow> sendMessageReq \<Rightarrow> mdb \<Rightarrow> (string \<times> bool) reply \<Rightarrow> mdb \<Rightarrow> bool" where
  "publish_ok app org req d r d' \<longleftrightarrow>
     (case r of
        Inl st \<Rightarrow> publish_rows app org req d d'
      | Inr (st, i, replay) \<Rightarrow>
          if replay then st = 200 \<and> d' = d \<and> sm_event_id req \<noteq> Some [] \<and> sm_event_id req \<noteq> None \<and>
              list_ex (\<lambda>m. ms_id m = i \<and> ms_app_id m = app \<and> ms_event_id m = sm_event_id req) (t_messages d)
          else st = 202 \<and> (\<exists>m. ms_id m = i \<and> published_as app org req m d d'))"

lemma publish_ok_err: "publish_rows app org req d d' \<Longrightarrow> publish_ok app org req d (Inl st) d'"
  by (simp add: publish_ok_def)

lemma publishMessage_rows:
  fixes R :: "'r redis"
  assumes "struct_ok (odb w)" "fresh env (odb w)"
  shows "publish_ok app org req (odb w) (fst (publishMessage R h env org app req w)) (odb (snd (publishMessage R h env org app req w)))"
proof -
  define ev where "ev = (if sm_event_id req = Some [] then None else sm_event_id req)"
  let ?f = "publishTx env app org (sm_event_type req) (json_compact False (sm_payload req)) ev (sm_channels req)"
  obtain x d where t: "in_tx (oe_out env ''begin'') (oe_out env ''commit'') ?f ErrDb (odb w) = (x, d)" by fastforce
  have c: "publish_rows app org req (odb w) d"
    using in_tx_cases[OF t] by (auto simp: publish_rows_def dest!: publishTx_Inr[of env app org req, folded ev_def, OF _ assms])
  have i: "published_as app org req m (odb w) d" if "x = Inr (m, dels)" for m dels
    using in_tx_cases[OF t] that by (auto dest!: publishTx_Inr[of env app org req, folded ev_def, OF _ assms])
  have e: "d = odb w" if "x = Inl ErrNoRows"
    using in_tx_cases[OF t] that by auto
  have same: "publish_ok app org req (odb w) (Inl st) (odb w)" for st
    by (simp add: publish_ok_err publish_rows_def)
  let ?w = "w\<lparr>ow_m := (ow_m w)\<lparr>mw_db := d\<rparr>\<rparr>"
  have replay: "publish_ok app org req (odb w) (Inr (200, ms_id m, True)) d"
    if "x = Inl ErrNoRows" "ev \<noteq> None" "oread o1 (GetMessageByAppEventID app ev) ?w = Inr m" for m o1
  proof -
    have "GetMessageByAppEventID app ev d = Inr m" using that(3) by (simp add: oread_def read_stmt_def split: if_splits io.splits)
    then show ?thesis using that(2) e[OF that(1)]
      by (auto simp: ev_def publish_ok_def list_ex_iff GetMessageByAppEventID_def dest!: one_row_set split: if_splits)
  qed
  define res :: "(string \<times> bool) reply \<times> 'r oworld" where "res = (case (x, d) of
      (Inl e, d) \<Rightarrow>
        (let w = w\<lparr>ow_m := (ow_m w)\<lparr>mw_db := d\<rparr>\<rparr>
         in if e = ErrNoRows \<and> ev \<noteq> None then
              (case oread (oe_out env ''existing'') (GetMessageByAppEventID app ev) w of
                 Inl _ \<Rightarrow> (Inl 500, w) | Inr m \<Rightarrow> (Inr (200, ms_id m, True), w))
            else (Inl 500, w))
    | (Inr (msg, dels), d) \<Rightarrow>
        (Inr (202, ms_id msg, False), enqueueDeliveries R h env org (map fst dels) (w\<lparr>ow_m := (ow_m w)\<lparr>mw_db := d\<rparr>\<rparr>)))"
  have fin: "publish_ok app org req (odb w) (fst res) (odb (snd res))"
  proof (cases x)
    case (Inl e1)
    then show ?thesis unfolding res_def using replay publish_ok_err[OF c]
      by (cases "oread (oe_out env ''existing'') (GetMessageByAppEventID app ev) ?w") (simp_all add: Let_def)
  next
    case (Inr y)
    then show ?thesis unfolding res_def using i by (cases y) (auto simp: publish_ok_def)
  qed
  have "publishMessage R h env org app req w =
      (if sm_event_type req = [] then (Inl 400, w)
       else if sm_payload req = [] then (Inl 400, w)
       else case oread (oe_out env ''type'') (GetEventTypeForOrg org (sm_event_type req)) w of
              Inl _ \<Rightarrow> (Inl 422, w)
            | Inr et \<Rightarrow>
                if et_archived et then (Inl 422, w)
                else if \<not> validateChannels (opt_default [] (sm_channels req)) then (Inl 422, w)
                else if \<not> validatePayloadAgainstSchema env (et_schema et) (sm_payload req) then (Inl 422, w) else res)"
    unfolding publishMessage_def ev_def[symmetric] res_def by (simp only: Let_def t)
  then show ?thesis using same fin by (simp split: sum.split)
qed

lemma appForOrg_Inr:
  assumes "appForOrg env param org w = Inr a"
  shows "a \<in> set (t_apps (odb w)) \<and> uuid_Parse param = Some (ap_id a) \<and> ap_org_id a = org"
  using assms
  by (auto simp: appForOrg_def oread_def read_stmt_def GetApplicationForOrg_def dest!: one_row_set split: option.splits sum.splits if_splits)

lemma in_app_cases:
  assumes "in_app env p param f w = (r, w')"
  shows "(\<exists>st. r = Inl st) \<and> w' = w \<or>
    (\<exists>q a. p = Some q \<and> pr_OrgID q \<noteq> uuid_Nil \<and> a \<in> set (t_apps (odb w)) \<and> uuid_Parse param = Some (ap_id a) \<and> ap_org_id a = pr_OrgID q \<and>
       appForOrg env param (pr_OrgID q) w = Inr a \<and> f (pr_OrgID q) a w = (r, w'))"
  using assms appForOrg_Inr by (fastforce simp: in_app_def active_org_def split: option.splits if_splits sum.splits)

lemma in_app_ok:
  assumes "in_app env p param f w = (Inr x, w')"
  obtains q a where "p = Some q" "a \<in> set (t_apps (odb w))" "uuid_Parse param = Some (ap_id a)" "ap_org_id a = pr_OrgID q"
    "f (pr_OrgID q) a w = (Inr x, w')"
  using in_app_cases[OF assms]
proof (elim disjE exE conjE)
  fix q a
  assume h: "p = Some q" "a \<in> set (t_apps (odb w))" "uuid_Parse param = Some (ap_id a)" "ap_org_id a = pr_OrgID q"
    "f (pr_OrgID q) a w = (Inr x, w')"
  show thesis by (rule that[OF h])
qed simp

lemma publish_api:
  assumes "CreateMessage_api R h env p param (Some req) w = (r, w')" "struct_ok (odb w)" "fresh env (odb w)"
  shows "(\<exists>st. r = Inl st) \<and> odb w' = odb w \<or>
    (\<exists>q a. p = Some q \<and> a \<in> set (t_apps (odb w)) \<and> uuid_Parse param = Some (ap_id a) \<and> ap_org_id a = pr_OrgID q \<and>
       publish_ok (ap_id a) (pr_OrgID q) req (odb w) r (odb w'))"
proof -
  consider (err) "\<exists>st. r = Inl st" "w' = w"
    | (run) q a where "p = Some q" "a \<in> set (t_apps (odb w))" "uuid_Parse param = Some (ap_id a)" "ap_org_id a = pr_OrgID q"
      "(let (over, w) = overQuota R env (pr_OrgID q) w in if over then (Inl 429, w)
          else case Some req of None \<Rightarrow> (Inl 400, w) | Some req \<Rightarrow> publishMessage R h env (pr_OrgID q) (ap_id a) req w) = (r, w')"
    using in_app_cases[OF assms(1)[unfolded CreateMessage_api_def]] by blast
  then show ?thesis
  proof cases
    case run
    let ?w = "snd (overQuota R env (pr_OrgID q) w)"
    have "publish_ok (ap_id a) (pr_OrgID q) req (odb w) (fst (publishMessage R h env (pr_OrgID q) (ap_id a) req ?w))
        (odb (snd (publishMessage R h env (pr_OrgID q) (ap_id a) req ?w)))"
      using publishMessage_rows[of ?w env "ap_id a" "pr_OrgID q" req R h] assms(2,3) by simp
    moreover have "r = Inl 429 \<and> w' = ?w \<or> (r, w') = publishMessage R h env (pr_OrgID q) (ap_id a) req ?w"
      using run(5) by (auto simp: Let_def prod.case_eq_if split: if_splits)
    ultimately show ?thesis using run(1-4) by (metis fst_conv snd_conv odb_quota)
  qed simp
qed

text \<open>
  C16: A publish is atomic. Whatever fails on the way, the connection lost during the commit included, the database
  is as before or holds exactly one more message, of the caller's application, with one queued delivery for
  every endpoint that matches. An answer 202 means the latter; an answer 200 means that nothing changed
  and that the message of the answer is an earlier one of the same application with the same event identifier.
\<close>

theorem publish_atomic:
  assumes "CreateMessage_api R h env p param (Some req) w = (r, w')" "struct_ok (odb w)" "fresh env (odb w)"
  shows "(\<exists>st. r = Inl st) \<and> odb w' = odb w \<or>
    (\<exists>q a. p = Some q \<and> a \<in> set (t_apps (odb w)) \<and> uuid_Parse param = Some (ap_id a) \<and> ap_org_id a = pr_OrgID q \<and>
       publish_ok (ap_id a) (pr_OrgID q) req (odb w) r (odb w'))"
  by (rule publish_api[OF assms])

lemma published_again:
  assumes "published_as app org req m d d1" "sm_event_id req = Some ev" "ev \<noteq> []"
    and "publish_ok app org2 req2 d1 r d2" "sm_event_id req2 = Some ev"
  shows "d2 = d1 \<and> (\<forall>x. r = Inr x \<longrightarrow> x = (200, ms_id m, True))"
proof -
  have m: "t_messages d1 = t_messages d @ [m]" "ms_app_id m = app" "ms_event_id m = Some ev"
    "\<not> list_ex (\<lambda>x. ms_app_id x = app \<and> ms_event_id x = Some ev) (t_messages d)"
    using assms(1-3) by (auto simp: published_as_def)
  have "\<not> published_as app org2 req2 m2 d1 d2" for m2
    using m assms(3,5) by (auto simp: published_as_def)
  then show ?thesis
    using assms(4,5) m by (auto simp: publish_ok_def publish_rows_def list_ex_iff split: sum.splits if_splits)
qed

text \<open>
  C17: A retry of a publish with the same event identifier creates nothing. After an answer 202, whoever sends
  the identifier again to the same application, with whatever other content and whatever fails, no row changes and a
  success is the answer 200 with the identifier of the first message, marked as a replay.
\<close>

theorem publish_once:
  assumes "CreateMessage_api R h env p param (Some req) w = (Inr (st, i, False), w1)" "sm_event_id req = Some ev" "ev \<noteq> []"
    and "tenant_inv (odb w)" "fresh env (odb w)"
    and "CreateMessage_api R h2 env2 p2 param2 (Some req2) w2 = (r, w3)" "sm_event_id req2 = Some ev" "uuid_Parse param2 = uuid_Parse param"
    and "odb w2 = odb w1" "fresh env2 (odb w1)"
  shows "odb w3 = odb w1 \<and> (\<forall>x. r = Inr x \<longrightarrow> x = (200, i, True))"
proof -
  have s: "struct_ok (odb w)" using assms(4) by (simp add: tenant_inv_def)
  obtain q and a :: app_row where 1: "p = Some q" "uuid_Parse param = Some (ap_id a)"
      "publish_ok (ap_id a) (pr_OrgID q) req (odb w) (Inr (st, i, False)) (odb w1)"
    using publish_api[OF assms(1) s assms(5)] by blast
  then obtain m where m: "ms_id m = i" "published_as (ap_id a) (pr_OrgID q) req m (odb w) (odb w1)" by (auto simp: publish_ok_def)
  have "tenant_inv (odb w1)"
    using only_CreateMessage_api[of "pr_OrgID q" p env w R h param "Some req"] assms(1,4,5) 1(1) by (simp add: only_of_def member_of_def)
  then have "struct_ok (odb w2)" using assms(9) by (simp add: tenant_inv_def)
  from publish_api[OF assms(6) this] assms(9,10) obtain a2 :: app_row and q2 :: Principal where
    "(\<exists>st. r = Inl st) \<and> odb w3 = odb w1 \<or> uuid_Parse param2 = Some (ap_id a2) \<and> publish_ok (ap_id a2) (pr_OrgID q2) req2 (odb w1) r (odb w3)"
    by auto
  then show ?thesis
    using published_again[OF m(2) assms(2,3) _ assms(7), of "pr_OrgID q2" r "odb w3"] 1(2) assms(8) m(1) by auto
qed

section \<open>The portal link\<close>

lemma RequirePortal_Inr:
  assumes "RequirePortal env cr d = Inr (pr, app)"
  shows "\<exists>org a. portal_Parse (ae_hmac env) (ae_secret env) (ae_now env) (ExtractAPIKey (cr_authorization cr)) = Inr (app, org, ap_portal_epoch a) \<and>
    a \<in> set (t_apps d) \<and> ap_id a = app \<and> ap_org_id a = org"
  using assms
  by (auto simp: RequirePortal_def GetApplicationForOrg_def Let_def dest!: one_row_set split: if_splits sum.splits)

lemma portal_Parse_now:
  assumes "portal_Parse hmac key now tok = Inr x" "portal_Parse hmac key now' tok = Inr y"
  shows "y = x"
  using assms by (simp add: portal_Parse_def Let_def split: option.splits if_splits)

text \<open>
  C19: Revoking portal access kills every link that is out. Once an administrator has got the answer 204, a
  credential that the portal accepted before for this application is refused, at any time and whatever the
  database does.
\<close>

theorem portal_revoked:
  assumes "RequirePortal env cr (odb w) = Inr (pr, app)"
    and "RevokePortalAccess env2 p param w = (Inr (204, ()), w')" "uuid_Parse param = Some app"
    and "struct_ok (odb w)" "ae_hmac env3 = ae_hmac env" "ae_secret env3 = ae_secret env"
  shows "RequirePortal env3 cr (odb w') = Inl 401 \<or> RequirePortal env3 cr (odb w') = Inl 500"
proof -
  obtain q :: Principal and a where a: "a \<in> set (t_apps (odb w))" "uuid_Parse param = Some (ap_id a)" and og: "ap_org_id a = pr_OrgID q"
    and run: "(case ostmt (oe_out env2 ''bump'') (\<lambda>d. (Inr (), BumpApplicationPortalEpoch (oe_now env2) (ap_id a) (pr_OrgID q) d)) w of
         (Inl _, w) \<Rightarrow> (Inl 500, w) | (Inr _, w) \<Rightarrow> (Inr (204, ()), w)) = ((Inr (204, ()) :: unit reply), w')"
    by (rule in_app_ok[OF assms(2)[unfolded RevokePortalAccess_def]]) (rule that)
  have w': "odb w' = BumpApplicationPortalEpoch (oe_now env2) (ap_id a) (pr_OrgID q) (odb w)"
    using run by (cases "oe_out env2 ''bump''") (auto simp: ostmt_def stmt_def)
  have dist: "distinct (map ap_id (t_apps (odb w)))"
    using assms(4) by (auto simp: struct_ok_def keys_ok_def key_cols comp_def)
  obtain b where b: "portal_Parse (ae_hmac env) (ae_secret env) (ae_now env) (ExtractAPIKey (cr_authorization cr)) = Inr (app, ap_org_id b, ap_portal_epoch b)"
    "b \<in> set (t_apps (odb w))" "ap_id b = app"
    using RequirePortal_Inr[OF assms(1)] by blast
  have "b = a" using key_unique[OF dist b(2) a(1)] b(3) a(2) assms(3) by simp
  have False if acc: "RequirePortal env3 cr (odb w') = Inr (pr3, app3)" for pr3 app3
  proof -
    obtain c where c: "portal_Parse (ae_hmac env) (ae_secret env) (ae_now env3) (ExtractAPIKey (cr_authorization cr)) = Inr (app3, ap_org_id c, ap_portal_epoch c)"
      "c \<in> set (t_apps (odb w'))" "ap_id c = app3"
      using RequirePortal_Inr[OF acc] assms(5,6) by auto
    have eq: "ap_id c = ap_id a" "ap_portal_epoch c = ap_portal_epoch a"
      using portal_Parse_now[OF b(1) c(1)] \<open>b = a\<close> b(3) c(3) by simp_all
    obtain e where e: "e \<in> set (t_apps (odb w))"
      "c = (if ap_id e = ap_id a \<and> ap_org_id e = pr_OrgID q then e\<lparr>ap_portal_epoch := ap_portal_epoch e + 1, ap_updated_at := oe_now env2\<rparr> else e)"
      using c(2) unfolding w' by (auto simp: BumpApplicationPortalEpoch_def set_upd_where)
    have "e = a" using key_unique[OF dist e(1) a(1)] e(2) eq(1) by (simp split: if_splits)
    then show False using e(2) eq(2) og by simp
  qed
  then show ?thesis by (cases "RequirePortal env3 cr (odb w')") (auto simp: RequirePortal_def Let_def split: if_splits sum.splits)
qed

lemma portal_Parse_Mint:
  assumes "is_uuid a" "is_uuid g" "int64 epoch" "int64 (Unix (t + ttl))" "\<And>m. length (hmac key m) = 32" "Unix now \<le> Unix (t + ttl)"
  shows "portal_Parse hmac key now (fst (Mint hmac key ttl t a g epoch)) = Inr (a, g, epoch)"
proof -
  define q where "q = portalTypeTag # uuid_bytes a @ uuid_bytes g @ put_be 8 epoch @ put_be 8 (Unix (t + ttl))"
  have u: "length (uuid_bytes a) = 16" "length (uuid_bytes g) = 16" "uuid_string (uuid_bytes a) = a" "uuid_string (uuid_bytes g) = g"
    using assms by (simp_all add: is_uuid_def)
  then have p: "length q = 49" "q ! 0 = portalTypeTag" "take 16 (drop 1 q) = uuid_bytes a" "take 16 (drop 17 q) = uuid_bytes g"
    "take 8 (drop 33 q) = put_be 8 epoch" "take 8 (drop 41 q) = put_be 8 (Unix (t + ttl))"
    unfolding q_def by (simp_all add: drop_Cons' del: put_be.simps)
  have "b64_decode url_alphabet False (fst (Mint hmac key ttl t a g epoch)) = Some (q @ hmac key q)"
    using b64_roundtrip[OF url_ok] by (simp add: Mint_def Let_def q_def)
  then show ?thesis using p u assms(3-6)
    by (simp add: portal_Parse_def portalPayloadLen_def Let_def int64_roundtrip)
qed

section \<open>A concrete tenant\<close>

definition odb0 :: mdb where
  "odb0 = \<lparr>t_apps = [app0\<lparr>ap_id := id_ann, ap_org_id := id_org\<rparr>],
     t_event_types = [\<lparr>et_id = ''t'', et_org_id = id_org, et_name = ''user.created'', et_description = [], et_schema = None, et_archived = False,
       et_created_at = 0, et_updated_at = 0\<rparr>],
     t_endpoints = [ep0\<lparr>ep_app_id := id_ann, ep_org_id := id_org\<rparr>], t_messages = [], t_deliveries = [], t_msg_attempts = []\<rparr>"

definition ow0 :: "mem oworld" where
  "ow0 = \<lparr>ow_m = mw0\<lparr>mw_db := odb0\<rparr>, ow_idb = team0, ow_gate = None\<rparr>"

definition oenv0 :: "string \<Rightarrow> oenv" where
  "oenv0 i = \<lparr>oe_out = (\<lambda>_. IoOk), oe_enqueue = (\<lambda>_. IoOk), oe_now = 0, oe_newid = i, oe_delid = (\<lambda>k. i @ replicate k CHR ''d''), oe_rnd = [],
     oe_sha256 = id, oe_trace = [], oe_ienv = (ienv0 id)\<lparr>ie_hmac := hmac0\<rparr>, oe_url = (\<lambda>_. None), oe_filter = (\<lambda>_. True),
     oe_transform = (\<lambda>_. True), oe_schema = (\<lambda>_. True), oe_validate = (\<lambda>_ _. True), oe_time = (\<lambda>_. None)\<rparr>"

definition oh0 :: ohandlers where
  "oh0 = \<lparr>oh_queue = NewClient, SelfHosts = [], SecretGrace = 0, oh_ttl = hour\<rparr>"

definition send0 :: sendMessageReq where
  "send0 = \<lparr>sm_event_type = ''user.created'', sm_payload = ''{ }'', sm_event_id = Some ''once'', sm_channels = None\<rparr>"

abbreviation caller0 :: "string \<Rightarrow> Principal option" where
  "caller0 g \<equiv> Some (no_principal\<lparr>pr_Source := SourceAPIKey, pr_OrgID := g, pr_Role := ''owner''\<rparr>)"

lemma ids_Parse: "uuid_Parse id_ann = Some id_ann" "id_org \<noteq> uuid_Nil"
  unfolding id_ann_def id_org_def uuid_Nil_def by code_simp+

lemma oenv0_sel:
  "oe_out (oenv0 i) x = IoOk" "oe_enqueue (oenv0 i) x = IoOk" "oe_now (oenv0 i) = 0" "oe_newid (oenv0 i) = i"
  "oe_delid (oenv0 i) = (\<lambda>k. i @ replicate k CHR ''d'')" "oe_sha256 (oenv0 i) = id" "oe_ienv (oenv0 i) = (ienv0 id)\<lparr>ie_hmac := hmac0\<rparr>"
  by (simp_all add: oenv0_def)

lemma odb0_inv: "tenant_inv odb0"
  by (simp add: tenant_inv_def struct_ok_def keys_ok_def key_cols org_ok_def odb0_def app0_def ep0_def)

lemma ow0_fresh: "i \<notin> {id_ann, ''e''} \<Longrightarrow> fresh (oenv0 i) odb0"
  by (auto simp: fresh_def oenv0_sel odb0_def app0_def ep0_def ienv0_def penv0_def id_ann_def inj_def)

theorem tenant_isolation_witness:
  "slice id_org (odb (snd (CreateEventType_api (oenv0 ''x'') (caller0 ''other'') (Some \<lparr>ct_name = ''n'', ct_description = [], ct_schema = []\<rparr>) ow0))) =
   slice id_org odb0"
proof -
  let ?w = "snd (CreateEventType_api (oenv0 ''x'') (caller0 ''other'') (Some \<lparr>ct_name = ''n'', ct_description = [], ct_schema = []\<rparr>) ow0)"
  have "api_step mem_redis ''other'' ow0 ?w" by (rule api_step.create_type) (simp add: member_of_def)
  moreover have "''other'' \<noteq> id_org" by (simp add: id_org_def)
  ultimately have s: "(foreign_step mem_redis id_org)\<^sup>*\<^sup>* ow0 ?w" by (intro r_into_rtranclp) (auto simp: foreign_step_def)
  have o: "odb ow0 = odb0" by (simp add: ow0_def)
  show ?thesis using tenant_isolation[OF s, unfolded o, OF odb0_inv] by (rule conjunct1)
qed

lemma in_app0:
  assumes "t_apps (odb w) = t_apps odb0"
  shows "in_app (oenv0 i) (caller0 id_org) id_ann f w = f id_org (app0\<lparr>ap_id := id_ann, ap_org_id := id_org\<rparr>) w"
  using assms
  by (simp add: in_app_def active_org_def ids_Parse appForOrg_def oread_def read_stmt_def oenv0_sel GetApplicationForOrg_def one_row_def odb0_def)

definition token0 :: string where
  "token0 = fst (Mint hmac0 [] hour 0 id_ann id_org 0)"

definition creds0 :: creds where
  "creds0 = \<lparr>cr_authorization = apiKeyScheme @ token0, cr_cookie = None\<rparr>"

definition aenv0 :: aenv where
  "aenv0 = \<lparr>ae_sha = id, ae_hmac = hmac0, ae_secret = [], ae_now = 5, ae_out = (\<lambda>_. IoOk)\<rparr>"

lemma token0_Parse: "portal_Parse hmac0 [] 5 token0 = Inr (id_ann, id_org, 0)"
  unfolding token0_def using ids_uuid
  by (intro portal_Parse_Mint) (simp_all add: int64_def Unix_def hour_def second_def hmac0_def)

lemma portal0: "RequirePortal aenv0 creds0 odb0 = Inr (no_principal\<lparr>pr_Source := SourcePortal, pr_OrgID := id_org\<rparr>, id_ann)"
proof -
  have "token0 \<noteq> []" using token0_Parse by (auto simp: portal_Parse_def b64_decode_def portalPayloadLen_def)
  then have "ExtractAPIKey (cr_authorization creds0) = token0"
    by (simp add: creds0_def ExtractAPIKey_def apiKeyScheme_def has_prefix_def trim_prefix_def)
  then show ?thesis using token0_Parse \<open>token0 \<noteq> []\<close>
    by (simp add: RequirePortal_def aenv0_def GetApplicationForOrg_def one_row_def odb0_def app0_def)
qed

theorem portal_revoked_witness:
  "fst (CreatePortalAccess oh0 (oenv0 ''x'') (caller0 id_org) id_ann ow0) = Inr (200, token0, hour) \<and>
   RequirePortal aenv0 creds0 (odb ow0) = Inr (no_principal\<lparr>pr_Source := SourcePortal, pr_OrgID := id_org\<rparr>, id_ann) \<and>
   RequirePortal aenv0 creds0 (odb (snd (RevokePortalAccess (oenv0 ''x'') (caller0 id_org) id_ann ow0))) = Inl 401"
proof -
  have o: "odb ow0 = odb0" by (simp add: ow0_def)
  have c: "fst (CreatePortalAccess oh0 (oenv0 ''x'') (caller0 id_org) id_ann ow0) = Inr (200, token0, hour)"
    unfolding CreatePortalAccess_def in_app0[OF arg_cong[OF o]]
    by (simp add: oenv0_sel ienv0_def oh0_def token0_def Mint_def Let_def app0_def)
  obtain w' where r: "RevokePortalAccess (oenv0 ''x'') (caller0 id_org) id_ann ow0 = (Inr (204, ()), w')"
    unfolding RevokePortalAccess_def in_app0[OF arg_cong[OF o]] by (simp add: ostmt_def stmt_def oenv0_sel prod.case_eq_if)
  have "RequirePortal aenv0 creds0 (odb w') = Inl 401 \<or> RequirePortal aenv0 creds0 (odb w') = Inl 500"
    using portal0 odb0_inv by (intro portal_revoked[OF _ r]) (simp_all add: o ids_Parse tenant_inv_def)
  moreover have "RequirePortal aenv0 creds0 (odb w') \<noteq> Inl 500"
    by (simp add: RequirePortal_def aenv0_def Let_def split: sum.split)
  ultimately show ?thesis using c r portal0 o by simp
qed

definition ow1 :: "mem oworld" where
  "ow1 = snd (CreateMessage_api mem_redis oh0 (oenv0 ''m'') (caller0 id_org) id_ann (Some send0) ow0)"

lemma quota0: "ow_gate w = None \<Longrightarrow> overQuota R env g w = (False, w)"
  by (simp add: overQuota_def CheckPublish_def check_def)

lemma gate0: "ow_gate ow0 = None"
  by (simp add: ow0_def)

definition sent0 :: message_row where
  "sent0 = \<lparr>ms_id = ''m'', ms_app_id = id_ann, ms_org_id = id_org, ms_event_type = ''user.created'', ms_payload = Some ''{}'',
     ms_payload_hash = hex_encode ''{}'', ms_event_id = Some ''once'', ms_created_at = 0, ms_channels = None\<rparr>"

lemma publishTx0:
  "\<exists>dels d. publishTx (oenv0 ''m'') id_ann id_org ''user.created'' ''{}'' (Some ''once'') None odb0 = (Inr (sent0, dels), d) \<and>
     map dl_id (t_deliveries d) = [''m'']"
  by (simp add: publishTx_def oenv0_sel CreateMessage_def find_app_def odb0_def app0_def Let_def ListMatchingEndpoints_def matches_def unrestricted_def
      CreateMessageDeliveriesBatch_def find_message_def find_endpoint_def ep0_def sent0_def del: hex_encode.simps)

lemma type0: "et_archived (hd (t_event_types odb0)) = False" "et_schema (hd (t_event_types odb0)) = None"
  by (simp_all add: odb0_def)

lemma publishMessage0:
  assumes "t_event_types (odb w) = t_event_types odb0"
  shows "publishMessage mem_redis oh0 (oenv0 i) id_org id_ann send0 w =
    (case publishTx (oenv0 i) id_ann id_org ''user.created'' ''{}'' (Some ''once'') None (odb w) of
       (Inl e, _) \<Rightarrow>
         if e = ErrNoRows then
           (case GetMessageByAppEventID id_ann (Some ''once'') (odb w) of Inl _ \<Rightarrow> (Inl 500, w) | Inr m \<Rightarrow> (Inr (200, ms_id m, True), w))
         else (Inl 500, w)
     | (Inr (msg, dels), d) \<Rightarrow>
         (Inr (202, ms_id msg, False), enqueueDeliveries mem_redis oh0 (oenv0 i) id_org (map fst dels) (w\<lparr>ow_m := (ow_m w)\<lparr>mw_db := d\<rparr>\<rparr>)))"
proof -
  have "oread IoOk (GetEventTypeForOrg id_org ''user.created'') w = Inr (hd (t_event_types odb0))"
    by (simp add: oread_def read_stmt_def assms GetEventTypeForOrg_def one_row_def odb0_def)
  then show ?thesis
    by (simp add: publishMessage_def send0_def oenv0_sel type0 validateChannels_def opt_default_def validatePayloadAgainstSchema_def
        maxChannels_def in_tx_def oread_def read_stmt_def Let_def prod.case_eq_if split: sum.split)
qed

lemma publish0:
  "CreateMessage_api mem_redis oh0 (oenv0 ''m'') (caller0 id_org) id_ann (Some send0) ow0 = (Inr (202, ''m'', False), ow1)"
  "map dl_id (t_deliveries (odb ow1)) = [''m'']"
proof -
  have o: "odb ow0 = odb0" by (simp add: ow0_def)
  have "fst (CreateMessage_api mem_redis oh0 (oenv0 ''m'') (caller0 id_org) id_ann (Some send0) ow0) = Inr (202, ''m'', False) \<and>
      map dl_id (t_deliveries (odb (snd (CreateMessage_api mem_redis oh0 (oenv0 ''m'') (caller0 id_org) id_ann (Some send0) ow0)))) = [''m'']"
    unfolding CreateMessage_api_def in_app0[OF arg_cong[OF o]] using publishTx0
    by (auto simp: publishMessage0 quota0 gate0 o app0_def sent0_def)
  then show "CreateMessage_api mem_redis oh0 (oenv0 ''m'') (caller0 id_org) id_ann (Some send0) ow0 = (Inr (202, ''m'', False), ow1)"
    "map dl_id (t_deliveries (odb ow1)) = [''m'']"
    by (simp_all add: ow1_def prod_eq_iff)
qed

theorem publish_atomic_witness:
  "fst (CreateMessage_api mem_redis oh0 (oenv0 ''m'') (caller0 id_org) id_ann (Some send0) ow0) = Inr (202, ''m'', False) \<and>
   map dl_endpoint_id (t_deliveries (odb ow1)) = [''e'']"
proof -
  have o: "odb ow0 = odb0" by (simp add: ow0_def)
  have "\<exists>m. published_as id_ann id_org send0 m odb0 (odb ow1)"
    using publish_atomic[OF publish0(1)] odb0_inv ow0_fresh[of "''m''"]
    by (auto simp: o tenant_inv_def ids_Parse publish_ok_def id_ann_def odb0_def)
  then show ?thesis
    using publish0(1) by (auto simp: published_as_def odb0_def ListMatchingEndpoints_def matches_def unrestricted_def send0_def ep0_def)
qed

theorem publish_once_witness:
  "fst (CreateMessage_api mem_redis oh0 (oenv0 ''m'') (caller0 id_org) id_ann (Some send0) ow0) = Inr (202, ''m'', False) \<and>
   fst (CreateMessage_api mem_redis oh0 (oenv0 ''n'') (caller0 id_org) id_ann (Some send0) (ow0\<lparr>ow_m := ow_m ow1\<rparr>)) = Inr (200, ''m'', True) \<and>
   odb (snd (CreateMessage_api mem_redis oh0 (oenv0 ''n'') (caller0 id_org) id_ann (Some send0) (ow0\<lparr>ow_m := ow_m ow1\<rparr>))) = odb ow1"
proof -
  let ?w = "ow0\<lparr>ow_m := ow_m ow1\<rparr>"
  have o: "odb ow0 = odb0" by (simp add: ow0_def)
  have "\<exists>m. published_as id_ann id_org send0 m odb0 (odb ow1) \<and> ms_id m = ''m''"
    using publish_api[OF publish0(1)] odb0_inv ow0_fresh[of "''m''"]
    by (auto simp: o tenant_inv_def ids_Parse publish_ok_def id_ann_def odb0_def)
  then obtain m dels where m: "odb ow1 = odb0\<lparr>t_messages := [m], t_deliveries := dels\<rparr>" "ms_app_id m = id_ann" "ms_event_id m = Some ''once''" "ms_id m = ''m''"
    by (auto simp: published_as_def send0_def odb0_def)
  have f: "fresh (oenv0 ''n'') (odb ow1)"
    using publish0(2) m(1,4) by (auto simp: fresh_def oenv0_sel odb0_def app0_def ep0_def ienv0_def penv0_def id_ann_def inj_def)
  have a: "t_apps (odb ?w) = t_apps odb0" "t_event_types (odb ?w) = t_event_types odb0" by (simp_all add: m(1))
  have t: "publishTx (oenv0 ''n'') id_ann id_org ''user.created'' ''{}'' (Some ''once'') None (odb ow1) = (Inl ErrNoRows, odb ow1)"
    using m by (simp add: publishTx_def oenv0_sel CreateMessage_def)
  have "GetMessageByAppEventID id_ann (Some ''once'') (odb ow1) = Inr m"
    using m by (simp add: GetMessageByAppEventID_def one_row_def)
  then have r: "fst (CreateMessage_api mem_redis oh0 (oenv0 ''n'') (caller0 id_org) id_ann (Some send0) ?w) = Inr (200, ''m'', True)"
    unfolding CreateMessage_api_def in_app0[OF a(1)] by (simp add: quota0 gate0 publishMessage0[OF a(2)] t m(4) app0_def)
  obtain w3 where w3: "CreateMessage_api mem_redis oh0 (oenv0 ''n'') (caller0 id_org) id_ann (Some send0) ?w = (Inr (200, ''m'', True), w3)"
    using r by (metis prod.collapse)
  have "odb w3 = odb ow1"
    using publish_once[OF publish0(1) _ _ _ _ w3 _ refl _ f, of "''once''"] odb0_inv ow0_fresh[of "''m''"] by (simp add: send0_def o id_ann_def)
  then show ?thesis using publish0(1) w3 by simp
qed

end
