(* ===== verification/Pipeline.thy ===== *)
theory Pipeline
  imports Ingest Outbound
begin

text \<open>
  The pipeline API, src/internal/api/pipeline: sources, destinations, connections, capture rules and events. A handler
  takes the principal, the parameters of its path and its decoded body (\<open>None\<close>: not JSON) and answers an
  error status, or a success status with the row its view shows. The state is that of the ingest endpoint,
  whose source cache the handlers evict, with the identity database for the audit log. The parameters of a call are
  those of the outbound API.
\<close>

section \<open>State and statements\<close>

record 'r pworld =
  pw_i :: "'r iworld"
  pw_idb :: idb

record phandlers =
  ph_queue :: client
  ph_SelfHosts :: "string list"
  EvictSourceCache :: bool
  PublicBaseURL :: string

abbreviation pdb :: "'r pworld \<Rightarrow> db" where
  "pdb w \<equiv> iw_db (pw_i w)"

definition set_pdb :: "db \<Rightarrow> 'r pworld \<Rightarrow> 'r pworld" where
  "set_pdb d w = w\<lparr>pw_i := (pw_i w)\<lparr>iw_db := d\<rparr>\<rparr>"

definition pstmt :: "io \<Rightarrow> (db \<Rightarrow> (go_error + 'a) \<times> db) \<Rightarrow> 'r pworld \<Rightarrow> (go_error + 'a) \<times> 'r pworld" where
  "pstmt o1 f w =
     (let (r, d) = run_io o1 f (pdb w)
      in (case r of None \<Rightarrow> Inl ErrDb | Some x \<Rightarrow> x, set_pdb d w))"

definition pexec :: "io \<Rightarrow> (db \<Rightarrow> db) \<Rightarrow> 'r pworld \<Rightarrow> (go_error + unit) \<times> 'r pworld" where
  "pexec o1 f = pstmt o1 (\<lambda>d. (Inr (), f d))"

definition pread :: "io \<Rightarrow> (db \<Rightarrow> go_error + 'a) \<Rightarrow> 'r pworld \<Rightarrow> go_error + 'a" where
  "pread o1 f w = (if o1 = IoOk then f (pdb w) else Inl ErrDb)"

definition paudit ::
  "oenv \<Rightarrow> Principal option \<Rightarrow> string \<Rightarrow> string \<Rightarrow> string option \<Rightarrow> (string \<times> jval) list \<Rightarrow> 'r pworld \<Rightarrow> 'r pworld" where
  "paudit env p action type target meta w =
     w\<lparr>pw_idb := audit_Log (oe_ienv env) p \<lparr>ent_action = action, ent_target_type = type, ent_target = target,
         ent_meta = meta, ent_org = uuid_Nil\<rparr> (pw_idb w)\<rparr>"

definition evict :: "phandlers \<Rightarrow> string \<Rightarrow> 'r pworld \<Rightarrow> 'r pworld" where
  "evict h token w = (if EvictSourceCache h then w\<lparr>pw_i := InvalidateSource token (pw_i w)\<rparr> else w)"

definition penqueue :: "'r redis \<Rightarrow> phandlers \<Rightarrow> oenv \<Rightarrow> payload \<Rightarrow> 'r pworld \<Rightarrow> go_error option \<times> 'r pworld" where
  "penqueue R h env pay w =
     (let (err, s) = Enqueue R payload_json (ph_queue h) (oe_enqueue env (p_EventID pay)) (oe_trace env) pay (iw_redis (pw_i w))
      in (err, w\<lparr>pw_i := (pw_i w)\<lparr>iw_redis := s\<rparr>\<rparr>))"

text \<open>The guard of a handler below an identifier in the path.\<close>

definition with_id ::
  "Principal option \<Rightarrow> string \<Rightarrow> (string \<Rightarrow> string \<Rightarrow> 'w \<Rightarrow> 'a reply \<times> 'w) \<Rightarrow> 'w \<Rightarrow> 'a reply \<times> 'w" where
  "with_id p param f = active_org p (\<lambda>org w. case uuid_Parse param of None \<Rightarrow> (Inl 400, w) | Some i \<Rightarrow> f org i w)"

definition RawJSONOrEmpty :: "bytes \<Rightarrow> bytes" where
  "RawJSONOrEmpty b = (if b = [] then ''{}'' else b)"

definition DerefString :: "string option \<Rightarrow> jval" where
  "DerefString s = (case s of None \<Rightarrow> JNull | Some v \<Rightarrow> JStr v)"

definition DerefInt32 :: "int option \<Rightarrow> jval" where
  "DerefInt32 i = (case i of None \<Rightarrow> JNull | Some v \<Rightarrow> JNum v)"

section \<open>Sources\<close>

definition supportedIngestMethods :: "string list" where
  "supportedIngestMethods = [''POST'', ''PUT'', ''PATCH'', ''DELETE'']"

definition validateMethods :: "string list \<Rightarrow> string list option" where
  "validateMethods ms =
     (let out = map (\<lambda>m. map upper_char (TrimSpace m)) ms
      in if ms = [] \<or> \<not> list_all (\<lambda>u. u \<in> set supportedIngestMethods) out then None else Some out)"

definition generateIngestToken :: "bytes \<Rightarrow> string" where
  "generateIngestToken rnd = b64_encode url_alphabet False rnd"

text \<open>A source with the URL that its senders use.\<close>

definition sourceView :: "phandlers \<Rightarrow> source_row \<Rightarrow> source_row \<times> string" where
  "sourceView h s =
     (let base = PublicBaseURL h
      in (s, (if base \<noteq> [] \<and> last base = CHR ''/'' then butlast base else base) @ ''/e/'' @ so_ingest_token s))"

record createSourceReq =
  cs_name :: string
  cs_type :: string
  cs_description :: string
  cs_signing_config :: bytes

definition CreateSource_api ::
  "phandlers \<Rightarrow> oenv \<Rightarrow> Principal option \<Rightarrow> createSourceReq option \<Rightarrow> 'r pworld \<Rightarrow> (source_row \<times> string) reply \<times> 'r pworld" where
  "CreateSource_api h env p body =
     active_org p (\<lambda>org w.
       case body of None \<Rightarrow> (Inl 400, w) | Some b \<Rightarrow>
       if cs_name b = [] then (Inl 400, w)
       else case pstmt (oe_out env ''create'') (CreateSource (oe_now env) (oe_newid env) org (cs_name b)
                   (if cs_type b = [] then ''generic'' else cs_type b) (cs_description b) (generateIngestToken (oe_rnd env))
                   (RawJSONOrEmpty (cs_signing_config b))) w of
              (Inl _, w) \<Rightarrow> (Inl 500, w)
            | (Inr s, w) \<Rightarrow> (Inr (201, sourceView h s), paudit env p ''source.create'' ''source'' (Some (so_id s))
                 [(''name'', JStr (so_name s)), (''type'', JStr (so_type s))] w))"

definition ListSources :: "phandlers \<Rightarrow> oenv \<Rightarrow> Principal option \<Rightarrow> 'r pworld \<Rightarrow> (source_row \<times> string) list reply \<times> 'r pworld" where
  "ListSources h env p =
     active_org p (\<lambda>org w.
       case pread (oe_out env ''list'') (\<lambda>d. Inr (ListSourcesByOrg org d)) w of
         Inl _ \<Rightarrow> (Inl 500, w) | Inr rows \<Rightarrow> (Inr (200, map (sourceView h) rows), w))"

definition GetSource :: "phandlers \<Rightarrow> oenv \<Rightarrow> Principal option \<Rightarrow> string \<Rightarrow> 'r pworld \<Rightarrow> (source_row \<times> string) reply \<times> 'r pworld" where
  "GetSource h env p param =
     with_id p param (\<lambda>org i w.
       case pread (oe_out env ''get'') (GetSourceForOrg i org) w of Inl _ \<Rightarrow> (Inl 404, w) | Inr s \<Rightarrow> (Inr (200, sourceView h s), w))"

record patchSourceReq =
  ps_name :: "string option"
  ps_description :: "string option"
  ps_allowed_methods :: "string list option"
  ps_enabled :: "bool option"

definition PatchSource ::
  "phandlers \<Rightarrow> oenv \<Rightarrow> Principal option \<Rightarrow> string \<Rightarrow> patchSourceReq option \<Rightarrow> 'r pworld \<Rightarrow> (source_row \<times> string) reply \<times> 'r pworld" where
  "PatchSource h env p param body =
     with_id p param (\<lambda>org i w.
       case body of None \<Rightarrow> (Inl 400, w) | Some b \<Rightarrow>
       if ps_name b = None \<and> ps_description b = None \<and> ps_allowed_methods b = None \<and> ps_enabled b = None then (Inl 400, w)
       else case (case ps_allowed_methods b of None \<Rightarrow> Some None | Some ms \<Rightarrow> map_option Some (validateMethods ms)) of
              None \<Rightarrow> (Inl 400, w)
            | Some methods \<Rightarrow>
                (case pstmt (oe_out env ''update'') (UpdateSource (oe_now env) (ps_name b) (ps_description b) methods (ps_enabled b) i org) w of
                   (Inl e, w) \<Rightarrow> (Inl (if e = ErrNoRows then 404 else 500), w)
                 | (Inr s, w) \<Rightarrow> (Inr (200, sourceView h s), paudit env p ''source.update'' ''source'' (Some i)
                      [(''name'', JStr (so_name s)), (''description'', JStr (so_description s)),
                       (''allowed_methods'', JArr (map JStr (so_allowed_methods s))), (''enabled'', JBool (so_enabled s))]
                      (evict h (so_ingest_token s) w))))"

definition DeleteSource :: "phandlers \<Rightarrow> oenv \<Rightarrow> Principal option \<Rightarrow> string \<Rightarrow> 'r pworld \<Rightarrow> unit reply \<times> 'r pworld" where
  "DeleteSource h env p param =
     with_id p param (\<lambda>org i w.
       case pstmt (oe_out env ''delete'') (DeleteSourceForOrg i org) w of
         (Inl e, w) \<Rightarrow> (Inl (if e = ErrNoRows then 404 else 500), w)
       | (Inr token, w) \<Rightarrow> (Inr (204, ()), paudit env p ''source.delete'' ''source'' (Some i) [] (evict h token w)))"

section \<open>Destinations\<close>

text \<open>The view shows that credentials are there, not what they are.\<close>

definition destinationView :: "dest_row \<Rightarrow> dest_row \<times> bool" where
  "destinationView x = (x\<lparr>ds_auth_config := []\<rparr>, ds_auth_config x \<noteq> [] \<and> ds_auth_config x \<noteq> ''{}'')"

definition badDestURL :: "phandlers \<Rightarrow> oenv \<Rightarrow> string \<Rightarrow> bool" where
  "badDestURL h env url \<longleftrightarrow> ValidateDestinationURL (oe_url env url) \<noteq> None \<or> IsSelfHost (oe_url env url) (ph_SelfHosts h)"

record createDestinationReq =
  cd_name :: string
  cd_type :: string
  cd_description :: string
  cd_url :: "string option"
  cd_auth_config :: bytes
  cd_rate_limit_rps :: "int option"
  cd_rate_limit_burst :: "int option"
  cd_max_inflight :: "int option"

definition noURL :: "string option \<Rightarrow> bool" where
  "noURL u \<longleftrightarrow> u = None \<or> u = Some []"

definition CreateDestination_api ::
  "phandlers \<Rightarrow> oenv \<Rightarrow> Principal option \<Rightarrow> createDestinationReq option \<Rightarrow> 'r pworld \<Rightarrow> (dest_row \<times> bool) reply \<times> 'r pworld" where
  "CreateDestination_api h env p body =
     active_org p (\<lambda>org w.
       case body of None \<Rightarrow> (Inl 400, w) | Some b \<Rightarrow>
       if cd_name b = [] then (Inl 400, w)
       else if cd_type b \<noteq> ''http'' \<and> cd_type b \<noteq> ''cli'' then (Inl 400, w)
       else if cd_type b = ''http'' \<and> noURL (cd_url b) then (Inl 400, w)
       else if cd_type b = ''http'' \<and> badDestURL h env (opt_default [] (cd_url b)) then (Inl 400, w)
       else case pstmt (oe_out env ''create'') (CreateDestination (oe_now env) (oe_newid env) org
                   \<lparr>dp_name = cd_name b, dp_type = cd_type b, dp_description = cd_description b, dp_url = cd_url b,
                    dp_auth_config = RawJSONOrEmpty (cd_auth_config b), dp_rate_limit_rps = cd_rate_limit_rps b,
                    dp_rate_limit_burst = cd_rate_limit_burst b, dp_max_inflight = cd_max_inflight b\<rparr>) w of
              (Inl _, w) \<Rightarrow> (Inl 500, w)
            | (Inr x, w) \<Rightarrow> (Inr (201, destinationView x), paudit env p ''destination.create'' ''destination'' (Some (ds_id x))
                 ([(''name'', JStr (ds_name x)), (''type'', JStr (ds_type x))] @
                  (case ds_url x of None \<Rightarrow> [] | Some u \<Rightarrow> [(''url'', JStr u)])) w))"

definition ListDestinations :: "oenv \<Rightarrow> Principal option \<Rightarrow> 'r pworld \<Rightarrow> (dest_row \<times> bool) list reply \<times> 'r pworld" where
  "ListDestinations env p =
     active_org p (\<lambda>org w.
       case pread (oe_out env ''list'') (\<lambda>d. Inr (ListDestinationsByOrg org d)) w of
         Inl _ \<Rightarrow> (Inl 500, w) | Inr rows \<Rightarrow> (Inr (200, map destinationView rows), w))"

definition GetDestination :: "oenv \<Rightarrow> Principal option \<Rightarrow> string \<Rightarrow> 'r pworld \<Rightarrow> (dest_row \<times> bool) reply \<times> 'r pworld" where
  "GetDestination env p param =
     with_id p param (\<lambda>org i w.
       case pread (oe_out env ''get'') (GetDestinationForOrg i org) w of Inl _ \<Rightarrow> (Inl 404, w) | Inr x \<Rightarrow> (Inr (200, destinationView x), w))"

text \<open>The changed columns, old and new; credentials only as the fact that they changed.\<close>

definition change :: "string \<Rightarrow> ('a \<Rightarrow> jval) \<Rightarrow> 'a \<Rightarrow> 'a \<Rightarrow> (string \<times> jval) list" where
  "change k show old new = (if old = new then [] else [(k, JObj [(''from'', show old), (''to'', show new)])])"

definition diffDestination :: "dest_row \<Rightarrow> dest_row \<Rightarrow> (string \<times> jval) list" where
  "diffDestination old new =
     change ''name'' JStr (ds_name old) (ds_name new) @ change ''type'' JStr (ds_type old) (ds_type new) @
     change ''description'' JStr (ds_description old) (ds_description new) @ change ''url'' DerefString (ds_url old) (ds_url new) @
     change ''rate_limit_rps'' DerefInt32 (ds_rate_limit_rps old) (ds_rate_limit_rps new) @
     change ''rate_limit_burst'' DerefInt32 (ds_rate_limit_burst old) (ds_rate_limit_burst new) @
     change ''max_inflight'' DerefInt32 (ds_max_inflight old) (ds_max_inflight new) @
     change ''auth_config'' (\<lambda>_. JStr ''redacted'') (ds_auth_config old) (ds_auth_config new)"

record patchDestinationReq =
  pd_name :: "string option"
  pd_type :: "string option"
  pd_description :: "string option"
  pd_url :: "string option"
  pd_auth_config :: bytes
  pd_rate_limit_rps :: "int option"
  pd_rate_limit_burst :: "int option"
  pd_max_inflight :: "int option"

text \<open>What a patch must satisfy against the row that was read: an error status, or none.\<close>

definition patchDestCheck :: "phandlers \<Rightarrow> oenv \<Rightarrow> Principal option \<Rightarrow> dest_row \<Rightarrow> patchDestinationReq \<Rightarrow> int option" where
  "patchDestCheck h env p old b =
     (let effectiveType = opt_default (ds_type old) (pd_type b); effectiveURL = or_else (pd_url b) (ds_url old)
      in if pd_url b \<noteq> None \<and> pd_url b \<noteq> ds_url old \<and> RequireAdminForURLChange p \<noteq> None then RequireAdminForURLChange p
         else if effectiveType = ''http'' \<and> noURL effectiveURL then Some 400
         else if effectiveType = ''http'' \<and> badDestURL h env (opt_default [] effectiveURL) then Some 400
         else None)"

text \<open>\<open>raced\<close> is what concurrent requests commit between the read and the update.\<close>

definition PatchDestination ::
  "phandlers \<Rightarrow> oenv \<Rightarrow> (db \<Rightarrow> db) \<Rightarrow> Principal option \<Rightarrow> string \<Rightarrow> patchDestinationReq option \<Rightarrow> 'r pworld \<Rightarrow> (dest_row \<times> bool) reply \<times> 'r pworld" where
  "PatchDestination h env raced p param body =
     with_id p param (\<lambda>org i w.
       case body of None \<Rightarrow> (Inl 400, w) | Some b \<Rightarrow>
       if pd_type b \<noteq> None \<and> pd_type b \<noteq> Some ''http'' \<and> pd_type b \<noteq> Some ''cli'' then (Inl 400, w)
       else case pread (oe_out env ''get'') (GetDestinationForOrg i org) w of Inl _ \<Rightarrow> (Inl 404, w) | Inr old \<Rightarrow>
       case patchDestCheck h env p old b of Some st \<Rightarrow> (Inl st, w) | None \<Rightarrow>
       case pstmt (oe_out env ''update'') (PatchDestinationForOrg (oe_now env) i org
              \<lparr>tp_name = pd_name b, tp_type = pd_type b, tp_description = pd_description b, tp_url = pd_url b,
               tp_auth_config = (if pd_auth_config b = [] then None else Some (pd_auth_config b)),
               tp_rate_limit_rps = pd_rate_limit_rps b, tp_rate_limit_burst = pd_rate_limit_burst b,
               tp_max_inflight = pd_max_inflight b\<rparr>) (set_pdb (raced (pdb w)) w) of
         (Inl _, w) \<Rightarrow> (Inl 500, w)
       | (Inr x, w) \<Rightarrow>
           (Inr (200, destinationView x),
            if diffDestination old x = [] then w
            else paudit env p ''destination.update'' ''destination'' (Some (ds_id x)) [(''changed'', JObj (diffDestination old x))] w))"

definition DeleteDestination :: "oenv \<Rightarrow> Principal option \<Rightarrow> string \<Rightarrow> 'r pworld \<Rightarrow> unit reply \<times> 'r pworld" where
  "DeleteDestination env p param =
     with_id p param (\<lambda>org i w.
       case pexec (oe_out env ''delete'') (DeleteDestinationForOrg i org) w of
         (Inl _, w) \<Rightarrow> (Inl 500, w)
       | (Inr _, w) \<Rightarrow> (Inr (204, ()), paudit env p ''destination.delete'' ''destination'' (Some i) [] w))"

section \<open>Connections\<close>

record createConnectionReq =
  cc_source_id :: string
  cc_destination_id :: string
  cc_enabled :: "bool option"
  cc_name :: "string option"
  cc_filter_expr :: "string option"
  cc_transform_js :: "string option"

definition CreateConnection_api ::
  "oenv \<Rightarrow> Principal option \<Rightarrow> createConnectionReq option \<Rightarrow> 'r pworld \<Rightarrow> conn_row reply \<times> 'r pworld" where
  "CreateConnection_api env p body =
     active_org p (\<lambda>org w.
       case body of None \<Rightarrow> (Inl 400, w) | Some b \<Rightarrow>
       if cc_source_id b = uuid_Nil \<or> cc_destination_id b = uuid_Nil then (Inl 400, w)
       else case compiledExpr (oe_filter env) (cc_filter_expr b) of None \<Rightarrow> (Inl 400, w) | Some fe \<Rightarrow>
            case compiledExpr (oe_transform env) (cc_transform_js b) of None \<Rightarrow> (Inl 400, w) | Some tj \<Rightarrow>
            case pread (oe_out env ''source'') (GetSourceForOrg (cc_source_id b) org) w of Inl _ \<Rightarrow> (Inl 400, w) | Inr _ \<Rightarrow>
            case pread (oe_out env ''dest'') (GetDestinationForOrg (cc_destination_id b) org) w of Inl _ \<Rightarrow> (Inl 400, w) | Inr _ \<Rightarrow>
            case pstmt (oe_out env ''create'') (CreateConnection (oe_now env) (oe_newid env) (cc_source_id b) (cc_destination_id b)
                   (opt_default True (cc_enabled b)) (cc_name b) fe tj) w of
              (Inl _, w) \<Rightarrow> (Inl 500, w)
            | (Inr c, w) \<Rightarrow> (Inr (201, c), paudit env p ''connection.create'' ''connection'' (Some (cn_id c))
                 [(''source_id'', JStr (cn_source_id c)), (''destination_id'', JStr (cn_destination_id c))] w))"

definition ListConnections :: "oenv \<Rightarrow> Principal option \<Rightarrow> 'r pworld \<Rightarrow> conn_row list reply \<times> 'r pworld" where
  "ListConnections env p =
     active_org p (\<lambda>org w.
       case pread (oe_out env ''list'') (\<lambda>d. Inr (ListConnectionsByOrg org d)) w of
         Inl _ \<Rightarrow> (Inl 500, w) | Inr rows \<Rightarrow> (Inr (200, rows), w))"

definition GetConnection :: "oenv \<Rightarrow> Principal option \<Rightarrow> string \<Rightarrow> 'r pworld \<Rightarrow> conn_row reply \<times> 'r pworld" where
  "GetConnection env p param =
     with_id p param (\<lambda>org i w.
       case pread (oe_out env ''get'') (GetConnectionForOrg i org) w of Inl _ \<Rightarrow> (Inl 404, w) | Inr c \<Rightarrow> (Inr (200, c), w))"

text \<open>Delivered, failed, pending and all events of the counted rows.\<close>

record conn_stats =
  st_delivered :: nat
  st_failed :: nat
  st_pending :: nat
  st_total :: nat

definition tally :: "conn_stats \<Rightarrow> string \<times> nat \<Rightarrow> conn_stats" where
  "tally b = (\<lambda>(status, n).
     let b = b\<lparr>st_total := st_total b + n\<rparr>
     in if status = ''delivered'' then b\<lparr>st_delivered := st_delivered b + n\<rparr>
        else if status \<in> {''failed'', ''dead''} then b\<lparr>st_failed := st_failed b + n\<rparr>
        else if status \<in> {''queued'', ''in_flight''} then b\<lparr>st_pending := st_pending b + n\<rparr>
        else b)"

definition no_stats :: conn_stats where
  "no_stats = \<lparr>st_delivered = 0, st_failed = 0, st_pending = 0, st_total = 0\<rparr>"

definition ConnectionStats :: "oenv \<Rightarrow> Principal option \<Rightarrow> string \<Rightarrow> 'r pworld \<Rightarrow> conn_stats reply \<times> 'r pworld" where
  "ConnectionStats env p param =
     with_id p param (\<lambda>org i w.
       case pread (oe_out env ''get'') (GetConnectionForOrg i org) w of Inl _ \<Rightarrow> (Inl 404, w) | Inr _ \<Rightarrow>
       case pread (oe_out env ''stats'') (\<lambda>d. Inr (CountEventsByConnectionSince i org (oe_now env - 24 * hour) d)) w of
         Inl _ \<Rightarrow> (Inl 500, w) | Inr rows \<Rightarrow> (Inr (200, fold (\<lambda>r b. tally b r) rows no_stats), w))"

definition AllConnectionStats :: "oenv \<Rightarrow> Principal option \<Rightarrow> 'r pworld \<Rightarrow> (string \<times> conn_stats) list reply \<times> 'r pworld" where
  "AllConnectionStats env p =
     active_org p (\<lambda>org w.
       case pread (oe_out env ''stats'') (\<lambda>d. Inr (CountEventsByOrgGroupedByConnection org (oe_now env - 24 * hour) d)) w of
         Inl _ \<Rightarrow> (Inl 500, w)
       | Inr rows \<Rightarrow>
           (Inr (200, fold (\<lambda>(c, r) out. AList.update c (tally (opt_default no_stats (map_of out c)) r) out) rows []), w))"

record patchConnectionReq =
  pc_enabled :: "bool option"
  pc_name :: "string option"
  pc_max_retries :: "int option"
  pc_retry_strategy :: "string option"
  pc_retry_base_ms :: "int option"
  pc_retry_cap_ms :: "int option"
  pc_retry_jitter_pct :: "int option"
  pc_custom_retry_schedule :: bytes
  pc_filter_expr :: "string option"
  pc_transform_js :: "string option"

definition outside :: "int \<Rightarrow> int \<Rightarrow> int option \<Rightarrow> bool" where
  "outside lo hi x \<longleftrightarrow> (case x of None \<Rightarrow> False | Some v \<Rightarrow> v < lo \<or> v > hi)"

definition maxRetryMs :: int where
  "maxRetryMs = 7 * 24 * 3600 * 1000"

text \<open>Whether the numbers are refused.\<close>

definition validateRetryParams :: "patchConnectionReq \<Rightarrow> bool" where
  "validateRetryParams b \<longleftrightarrow>
     outside 0 100 (pc_max_retries b) \<or> outside 0 100 (pc_retry_jitter_pct b) \<or>
     outside 1 maxRetryMs (pc_retry_base_ms b) \<or> outside 1 maxRetryMs (pc_retry_cap_ms b) \<or>
     (case (pc_retry_base_ms b, pc_retry_cap_ms b) of (Some x, Some y) \<Rightarrow> x > y | _ \<Rightarrow> False)"

definition diffConnection :: "conn_row \<Rightarrow> conn_row \<Rightarrow> (string \<times> jval) list" where
  "diffConnection old new =
     change ''enabled'' JBool (cn_enabled old) (cn_enabled new) @ change ''max_retries'' JNum (cn_max_retries old) (cn_max_retries new) @
     change ''retry_strategy'' JStr (cn_retry_strategy old) (cn_retry_strategy new) @
     change ''retry_base_ms'' JNum (cn_retry_base_ms old) (cn_retry_base_ms new) @
     change ''retry_cap_ms'' JNum (cn_retry_cap_ms old) (cn_retry_cap_ms new) @
     change ''retry_jitter_pct'' JNum (cn_retry_jitter_pct old) (cn_retry_jitter_pct new) @
     (if cn_custom_retry_schedule old = cn_custom_retry_schedule new then []
      else [(''custom_retry_schedule'', JObj [(''changed'', JBool True)])])"

definition PatchConnection ::
  "oenv \<Rightarrow> (db \<Rightarrow> db) \<Rightarrow> Principal option \<Rightarrow> string \<Rightarrow> patchConnectionReq option \<Rightarrow> 'r pworld \<Rightarrow> conn_row reply \<times> 'r pworld" where
  "PatchConnection env raced p param body =
     with_id p param (\<lambda>org i w.
       case body of None \<Rightarrow> (Inl 400, w) | Some b \<Rightarrow>
       if (case pc_retry_strategy b of None \<Rightarrow> False | Some s \<Rightarrow> s \<notin> {''exponential'', ''linear'', ''fixed'', ''custom''}) then (Inl 400, w)
       else if validateRetryParams b then (Inl 400, w)
       else case compiledExpr (oe_filter env) (pc_filter_expr b) of None \<Rightarrow> (Inl 400, w) | Some fe \<Rightarrow>
            case compiledExpr (oe_transform env) (pc_transform_js b) of None \<Rightarrow> (Inl 400, w) | Some tj \<Rightarrow>
            case pread (oe_out env ''get'') (GetConnectionForOrg i org) w of Inl _ \<Rightarrow> (Inl 404, w) | Inr old \<Rightarrow>
            case pstmt (oe_out env ''update'') (PatchConnectionForOrg (oe_now env)
                   \<lparr>cp_enabled = pc_enabled b, cp_name = pc_name b, cp_max_retries = pc_max_retries b, cp_retry_strategy = pc_retry_strategy b,
                    cp_retry_base_ms = pc_retry_base_ms b, cp_retry_cap_ms = pc_retry_cap_ms b, cp_retry_jitter_pct = pc_retry_jitter_pct b,
                    cp_custom_retry_schedule = (if pc_custom_retry_schedule b = [] then None else Some (pc_custom_retry_schedule b)),
                    cp_filter_set = (pc_filter_expr b \<noteq> None), cp_filter_expr = fe,
                    cp_transform_set = (pc_transform_js b \<noteq> None), cp_transform_js = tj\<rparr> i org) (set_pdb (raced (pdb w)) w) of
              (Inl _, w) \<Rightarrow> (Inl 500, w)
            | (Inr c, w) \<Rightarrow>
                (Inr (200, c),
                 if diffConnection old c = [] then w
                 else paudit env p ''connection.update'' ''connection'' (Some (cn_id c)) [(''changed'', JObj (diffConnection old c))] w))"

definition DeleteConnection :: "oenv \<Rightarrow> Principal option \<Rightarrow> string \<Rightarrow> 'r pworld \<Rightarrow> unit reply \<times> 'r pworld" where
  "DeleteConnection env p param =
     with_id p param (\<lambda>org i w.
       case pexec (oe_out env ''delete'') (DeleteConnectionForOrg i org) w of
         (Inl _, w) \<Rightarrow> (Inl 500, w)
       | (Inr _, w) \<Rightarrow> (Inr (204, ()), paudit env p ''connection.delete'' ''connection'' (Some i) [] w))"

text \<open>The synthetic request of a test: its body carries the connection and the time in seconds.\<close>

definition test_body :: "string \<Rightarrow> int \<Rightarrow> bytes" where
  "test_body conn now =
     ''{'' @ quote ''dstream'' @ '':'' @ quote ''test.ping'' @ '','' @ quote ''connection_id'' @ '':'' @ quote conn @ '','' @
     quote ''sent_at'' @ '':'' @ quote (rfc3339 (Unix now * second)) @ ''}''"

definition test_headers :: bytes where
  "test_headers =
     ''{'' @ quote ''Content-Type'' @ '':['' @ quote ''application/json'' @ ''],'' @ quote ''Dstream-Test'' @ '':['' @ quote ''true'' @ '']}''"

definition new_request :: "oenv \<Rightarrow> string \<Rightarrow> string \<Rightarrow> string \<Rightarrow> string \<Rightarrow> bytes \<Rightarrow> string option \<Rightarrow> bytes \<Rightarrow> req_row" where
  "new_request env reqID source httpMethod path hdr ct body =
     \<lparr>rq_id = reqID, rq_body_ref = ''pg:'' @ reqID, rq_headers = hdr, rq_http_method = httpMethod, rq_http_path = path,
      rq_source_id = source, rq_body_hash = hex_encode (oe_sha256 env body), rq_body_size = to_int32 (int (length body)),
      rq_content_type = ct, rq_sig_verified = False, rq_ingest_ip = None, rq_received_at = oe_now env\<rparr>"

text \<open>A request row and its body, in two statements.\<close>

definition storeRequest :: "oenv \<Rightarrow> req_row \<Rightarrow> bytes \<Rightarrow> 'r pworld \<Rightarrow> bool \<times> 'r pworld" where
  "storeRequest env r body w =
     (case pstmt (oe_out env ''request'') (CreateRequest (oe_now env) r) w of
        (Inl _, w) \<Rightarrow> (False, w)
      | (Inr r, w) \<Rightarrow>
          (case pstmt IoOk (body_Put (oe_out env ''body'') (oe_now env) (rq_id r) body) w of
             (Inl _, w) \<Rightarrow> (False, w) | (Inr _, w) \<Rightarrow> (True, w)))"

definition TestConnection ::
  "'r redis \<Rightarrow> phandlers \<Rightarrow> oenv \<Rightarrow> Principal option \<Rightarrow> string \<Rightarrow> 'r pworld \<Rightarrow> string reply \<times> 'r pworld" where
  "TestConnection R h env p param =
     with_id p param (\<lambda>org i w.
       case pread (oe_out env ''get'') (GetConnectionForOrg i org) w of Inl _ \<Rightarrow> (Inl 404, w) | Inr conn \<Rightarrow>
       let body = test_body i (oe_now env)
       in case storeRequest env (new_request env (oe_newid env) (cn_source_id conn) ''POST'' ''/__dstream_test'' test_headers
                 (Some ''application/json'') body) body w of
            (False, w) \<Rightarrow> (Inl 500, w)
          | (True, w) \<Rightarrow>
              (case pstmt (oe_out env ''event'') (CreateEventsBatch (oe_now env) (oe_delid env) (oe_newid env) org True [cn_id conn]) w of
                 (Inr [ev], w) \<Rightarrow>
                   (case penqueue R h env (event_payload (oe_now env) conn ev) w of
                      (Some _, w) \<Rightarrow> (Inl 500, w)
                    | (None, w) \<Rightarrow> (Inr (201, ev_id ev), paudit env p ''connection.test'' ''connection'' (Some i) [(''event_id'', JStr (ev_id ev))] w))
               | (_, w) \<Rightarrow> (Inl 500, w)))"

section \<open>Capture rules\<close>

definition defaultCaptureRuleCap :: int where "defaultCaptureRuleCap = 50"
definition minCaptureRuleCap :: int where "minCaptureRuleCap = 1"
definition maxCaptureRuleCap :: int where "maxCaptureRuleCap = 1000"

definition validCaptureRuleCap :: "int \<Rightarrow> bool" where
  "validCaptureRuleCap cap \<longleftrightarrow> minCaptureRuleCap \<le> cap \<and> cap \<le> maxCaptureRuleCap"

definition invalidateSourceCache :: "phandlers \<Rightarrow> oenv \<Rightarrow> string \<Rightarrow> string \<Rightarrow> 'r pworld \<Rightarrow> 'r pworld" where
  "invalidateSourceCache h env org source w =
     (case pread (oe_out env ''evict'') (GetSourceForOrg source org) w of Inl _ \<Rightarrow> w | Inr s \<Rightarrow> evict h (so_ingest_token s) w)"

definition badFilter :: "oenv \<Rightarrow> string option \<Rightarrow> bool" where
  "badFilter env fe \<longleftrightarrow> (case fe of None \<Rightarrow> False | Some e \<Rightarrow> e \<noteq> [] \<and> \<not> oe_filter env e)"

record createCaptureRuleReq =
  cu_source_id :: string
  cu_name :: string
  cu_filter_expr :: "string option"
  cu_cap :: "int option"

definition CreateCaptureRule_api ::
  "phandlers \<Rightarrow> oenv \<Rightarrow> Principal option \<Rightarrow> createCaptureRuleReq option \<Rightarrow> 'r pworld \<Rightarrow> rule_row reply \<times> 'r pworld" where
  "CreateCaptureRule_api h env p body =
     active_org p (\<lambda>org w.
       case body of None \<Rightarrow> (Inl 400, w) | Some b \<Rightarrow>
       if cu_name b = [] \<or> cu_source_id b = [] then (Inl 400, w)
       else case uuid_Parse (cu_source_id b) of None \<Rightarrow> (Inl 400, w) | Some srcID \<Rightarrow>
            case pread (oe_out env ''source'') (GetSourceForOrg srcID org) w of
              Inl e \<Rightarrow> (Inl (if e = ErrNoRows then 404 else 500), w)
            | Inr src \<Rightarrow>
                if badFilter env (cu_filter_expr b) then (Inl 400, w)
                else
                  (let cap = opt_default defaultCaptureRuleCap (cu_cap b)
                   in if \<not> validCaptureRuleCap cap then (Inl 400, w)
                      else case pstmt (oe_out env ''create'') (CreateCaptureRule (oe_now env) (oe_newid env) org srcID (cu_name b)
                                  (cu_filter_expr b) cap True) w of
                             (Inl e, w) \<Rightarrow> (Inl (if e = ErrUnique then 409 else 500), w)
                           | (Inr r, w) \<Rightarrow> (Inr (201, r), evict h (so_ingest_token src) w)))"

text \<open>A source filter of the query: none for the empty text, refused for the nil UUID.\<close>

definition sourceFilter :: "string \<Rightarrow> string option option" where
  "sourceFilter s =
     (if s = [] then Some None
      else case uuid_Parse s of None \<Rightarrow> None | Some i \<Rightarrow> if i = uuid_Nil then None else Some (Some i))"

definition ListCaptureRules :: "oenv \<Rightarrow> Principal option \<Rightarrow> string \<Rightarrow> 'r pworld \<Rightarrow> rule_row list reply \<times> 'r pworld" where
  "ListCaptureRules env p source =
     active_org p (\<lambda>org w.
       case sourceFilter source of None \<Rightarrow> (Inl 400, w) | Some src \<Rightarrow>
       case pread (oe_out env ''list'') (\<lambda>d. Inr (ListCaptureRulesForOrg org src d)) w of
         Inl _ \<Rightarrow> (Inl 500, w) | Inr rows \<Rightarrow> (Inr (200, rows), w))"

definition GetCaptureRule :: "oenv \<Rightarrow> Principal option \<Rightarrow> string \<Rightarrow> 'r pworld \<Rightarrow> rule_row reply \<times> 'r pworld" where
  "GetCaptureRule env p param =
     with_id p param (\<lambda>org i w.
       case pread (oe_out env ''get'') (GetCaptureRuleForOrg i org) w of
         Inl e \<Rightarrow> (Inl (if e = ErrNoRows then 404 else 500), w) | Inr r \<Rightarrow> (Inr (200, r), w))"

record patchCaptureRuleReq =
  pu_name :: "string option"
  pu_filter_expr :: "string option"
  pu_cap :: "int option"
  pu_enabled :: "bool option"

definition PatchCaptureRule ::
  "phandlers \<Rightarrow> oenv \<Rightarrow> (db \<Rightarrow> db) \<Rightarrow> Principal option \<Rightarrow> string \<Rightarrow> patchCaptureRuleReq option \<Rightarrow> 'r pworld \<Rightarrow> rule_row reply \<times> 'r pworld" where
  "PatchCaptureRule h env raced p param body =
     with_id p param (\<lambda>org i w.
       case pread (oe_out env ''get'') (GetCaptureRuleForOrg i org) w of
         Inl e \<Rightarrow> (Inl (if e = ErrNoRows then 404 else 500), w)
       | Inr cur \<Rightarrow>
           (case body of None \<Rightarrow> (Inl 400, w) | Some b \<Rightarrow>
            let name = opt_default (ru_name cur) (pu_name b); fe = or_else (pu_filter_expr b) (ru_filter_expr cur);
                cap = opt_default (ru_cap cur) (pu_cap b); enabled = opt_default (ru_enabled cur) (pu_enabled b)
            in if badFilter env fe then (Inl 400, w)
               else if \<not> validCaptureRuleCap cap then (Inl 400, w)
               else case pstmt (oe_out env ''update'') (UpdateCaptureRule (oe_now env) i org name fe cap enabled) (set_pdb (raced (pdb w)) w) of
                      (Inl e, w) \<Rightarrow> (Inl (if e = ErrUnique then 409 else 500), w)
                    | (Inr r, w) \<Rightarrow> (Inr (200, r), invalidateSourceCache h env org (ru_source_id r) w)))"

definition DeleteCaptureRule :: "phandlers \<Rightarrow> oenv \<Rightarrow> Principal option \<Rightarrow> string \<Rightarrow> 'r pworld \<Rightarrow> unit reply \<times> 'r pworld" where
  "DeleteCaptureRule h env p param =
     with_id p param (\<lambda>org i w.
       case pread (oe_out env ''get'') (GetCaptureRuleForOrg i org) w of
         Inl e \<Rightarrow> (Inl (if e = ErrNoRows then 404 else 500), w)
       | Inr cur \<Rightarrow>
           (case pstmt (oe_out env ''delete'') (\<lambda>d. let (n, d) = DeleteCaptureRuleForOrg i org d in (Inr n, d)) w of
              (Inl _, w) \<Rightarrow> (Inl 500, w)
            | (Inr _, w) \<Rightarrow> (Inr (204, ()), invalidateSourceCache h env org (ru_source_id cur) w)))"

section \<open>Events\<close>

definition defaultEventsPageSize :: int where "defaultEventsPageSize = 50"

definition eventsLimit :: "string \<Rightarrow> int" where
  "eventsLimit v =
     (if v = [] then defaultEventsPageSize
      else case Atoi v of Some n \<Rightarrow> if n > 0 \<and> n \<le> 500 then n else defaultEventsPageSize | None \<Rightarrow> defaultEventsPageSize)"

definition encodeEventCursor :: "int \<Rightarrow> string \<Rightarrow> string" where
  "encodeEventCursor ts i = b64_encode url_alphabet False (rfc3339 ts @ ''|'' @ i)"

definition decodeEventCursor :: "oenv \<Rightarrow> string \<Rightarrow> (int \<times> string) option" where
  "decodeEventCursor env s =
     (case b64_decode url_alphabet False s of None \<Rightarrow> None | Some raw \<Rightarrow>
      case cut raw (CHR ''|'') of (ts, i, found) \<Rightarrow>
        if \<not> found then None
        else case (oe_time env ts, uuid_Parse i) of (Some t, Some i) \<Rightarrow> Some (t, i) | _ \<Rightarrow> None)"

definition eventStatuses :: "string list" where
  "eventStatuses = [''queued'', ''in_flight'', ''delivered'', ''failed'', ''paused'', ''dead'', ''discarded'']"

text \<open>Connection, status and start of the query, each optional; none for a bad value.\<close>

definition parseEventFilters :: "oenv \<Rightarrow> string \<Rightarrow> string \<Rightarrow> string \<Rightarrow> (string option \<times> string option \<times> int option) option" where
  "parseEventFilters env conn status after =
     (case (if conn = [] then Some None else map_option Some (uuid_Parse conn)) of None \<Rightarrow> None | Some c \<Rightarrow>
      case (if status = [] then Some None else if status \<in> set eventStatuses then Some (Some status) else None) of None \<Rightarrow> None | Some s \<Rightarrow>
      case (if after = [] then Some None else map_option Some (oe_time env after)) of None \<Rightarrow> None | Some a \<Rightarrow> Some (c, s, a))"

definition ListEvents_api ::
  "oenv \<Rightarrow> Principal option \<Rightarrow> string \<Rightarrow> string \<Rightarrow> string \<Rightarrow> string \<Rightarrow> string \<Rightarrow> 'r pworld \<Rightarrow> (event_row list \<times> string option) reply \<times> 'r pworld" where
  "ListEvents_api env p limit conn status after cursor =
     active_org p (\<lambda>org w.
       let lim = nat (eventsLimit limit)
       in case parseEventFilters env conn status after of None \<Rightarrow> (Inl 400, w) | Some (c, s, a) \<Rightarrow>
          case (if cursor = [] then Some None else map_option Some (decodeEventCursor env cursor)) of None \<Rightarrow> (Inl 400, w) | Some cur \<Rightarrow>
          case pread (oe_out env ''list'') (\<lambda>d. Inr (ListEvents org c s a cur lim d)) w of
            Inl _ \<Rightarrow> (Inl 500, w)
          | Inr rows \<Rightarrow>
              (Inr (200, rows, if length rows = lim \<and> lim > 0 then Some (encodeEventCursor (ev_created_at (last rows)) (ev_id (last rows))) else None), w))"

text \<open>An unreadable body and unreadable attempts leave their fields empty.\<close>

definition GetEvent :: "oenv \<Rightarrow> Principal option \<Rightarrow> string \<Rightarrow> 'r pworld \<Rightarrow> (delivery_row \<times> attempt_row list \<times> bytes) reply \<times> 'r pworld" where
  "GetEvent env p param =
     with_id p param (\<lambda>org i w.
       case pread (oe_out env ''get'') (GetEventDetailForOrg i org) w of Inl _ \<Rightarrow> (Inl 404, w) | Inr row \<Rightarrow>
       let attempts = (if oe_out env ''attempts'' = IoOk then ListAttemptsByEvent (ev_id (d_event row)) (pdb w) else []);
           body = (case body_Get (oe_out env ''body'') (rq_body_ref (d_req row)) (pdb w) of Inl _ \<Rightarrow> [] | Inr b \<Rightarrow> b)
       in (Inr (200, row, attempts, body), w))"

definition RetryEvent :: "'r redis \<Rightarrow> phandlers \<Rightarrow> oenv \<Rightarrow> Principal option \<Rightarrow> string \<Rightarrow> 'r pworld \<Rightarrow> unit reply \<times> 'r pworld" where
  "RetryEvent R h env p param =
     with_id p param (\<lambda>org i w.
       case pread (oe_out env ''get'') (GetEventForOrg i org) w of Inl _ \<Rightarrow> (Inl 404, w) | Inr ev \<Rightarrow>
       case pexec (oe_out env ''reset'') (ResetEventForManualRetry (oe_now env) (ev_id ev)) w of (Inl _, w) \<Rightarrow> (Inl 500, w) | (Inr _, w) \<Rightarrow>
       case (if oe_out env ''conn'' = IoOk then GetConnectionByID (ev_connection_id ev) (pdb w) else None) of None \<Rightarrow> (Inl 500, w) | Some conn \<Rightarrow>
       case penqueue R h env ((event_payload (oe_now env) conn ev)\<lparr>p_OrgID := org, p_Manual := True\<rparr>) w of
         (Some _, w) \<Rightarrow> (Inl 500, w)
       | (None, w) \<Rightarrow> (Inr (202, ()), paudit env p ''event.retry'' ''event'' (Some (ev_id ev)) [(''event_id'', JStr (ev_id ev))] w))"

end
