(* ===== verification/Bookmarks.thy ===== *)
theory Bookmarks
  imports Pipeline
begin

text \<open>
  Bookmarks and scenarios: the record and replay engine (src/internal/bookmark/bookmark.go) and its handlers
  (src/internal/api/pipeline/bookmarks.go and scenarios.go). A replay to a URL is recorded as the request
  that the guarded client is handed; its answer, its duration and a cancelled context are arguments, by step. Stored
  headers are always an object of string arrays, as the code writes them.
\<close>

section \<open>The engine\<close>

record bookmark_Request =
  br_SourceID :: string
  br_Method :: string
  br_Path :: string
  br_Headers :: headers
  br_Body :: bytes
  br_ContentType :: string

record bookmark_Response =
  bp_Status :: int
  bp_DurationMs :: int
  bp_Body :: bytes

definition replayRespCap :: nat where "replayRespCap = 64 * 2 ^ 10"

text \<open>The events whose enqueue succeeded; the reaper finds the others.\<close>

fun reinjectLoop ::
  "'r redis \<Rightarrow> phandlers \<Rightarrow> oenv \<Rightarrow> (string \<rightharpoonup> conn_row) \<Rightarrow> event_row list \<Rightarrow> 'r pworld \<Rightarrow> string list \<times> 'r pworld" where
  "reinjectLoop R h env byID [] w = ([], w)"
| "reinjectLoop R h env byID (ev # evs) w =
     (let c = (case byID (ev_connection_id ev) of Some c \<Rightarrow> c | None \<Rightarrow> no_conn);
          (err, w) = penqueue R h env (event_payload (oe_now env) c ev) w;
          (ids, w) = reinjectLoop R h env byID evs w
      in (if err = None then ev_id ev # ids else ids, w))"

definition Reinject ::
  "'r redis \<Rightarrow> phandlers \<Rightarrow> oenv \<Rightarrow> string \<Rightarrow> string \<Rightarrow> string \<Rightarrow> 'r pworld \<Rightarrow> (go_error + string list) \<times> 'r pworld" where
  "Reinject R h env requestID sourceID org w =
     (case pread (oe_out env ''conns'') (\<lambda>d. Inr (ListEnabledConnectionsBySource sourceID d)) w of
        Inl e \<Rightarrow> (Inl e, w)
      | Inr conns \<Rightarrow>
          if conns = [] then (Inr [], w)
          else case pstmt (oe_out env ''events'') (CreateEventsBatch (oe_now env) (oe_delid env) requestID org True (map cn_id conns)) w of
                 (Inl e, w) \<Rightarrow> (Inl e, w)
               | (Inr events, w) \<Rightarrow>
                   (let (ids, w) = reinjectLoop R h env (map_of (rev (map (\<lambda>c. (cn_id c, c)) conns))) events w in (Inr ids, w)))"

definition skippedHeaders :: "string list" where
  "skippedHeaders =
     [''Host'', ''Content-Length'', ''Content-Type'', ''Dstream-Webhook-Hops'', ''Connection'', ''Keep-Alive'', ''Proxy-Authenticate'',
      ''Proxy-Authorization'', ''Te'', ''Trailer'', ''Transfer-Encoding'', ''Upgrade'', ''X-Forwarded-For'', ''X-Forwarded-Proto'',
      ''X-Forwarded-Host'', ''X-Real-Ip'']"

definition skipHeader :: "string \<Rightarrow> string list \<Rightarrow> bool" where
  "skipHeader key vals \<longleftrightarrow> CanonicalHeaderKey key \<in> set skippedHeaders \<or> ''[redacted]'' \<in> set vals"

definition replayRequest :: "bookmark_Request \<Rightarrow> string \<Rightarrow> http_req" where
  "replayRequest req url =
     (let h = fold (\<lambda>(k, vs) h. if skipHeader k vs then h else fold (\<lambda>v h. Add h k v) vs h) (br_Headers req) [];
          h = (if br_ContentType req = [] then h else Set h ''Content-Type'' (br_ContentType req))
      in \<lparr>hr_url = url, hr_headers = h, hr_body = br_Body req\<rparr>)"

text \<open>What the client does with the request of a step, how long it takes, and whether the context ends in the delay before.\<close>

record replay_env =
  rp_newreq :: "string \<Rightarrow> bool"
  rp_http :: "nat \<Rightarrow> http_req \<Rightarrow> http_resp option"
  rp_ms :: "nat \<Rightarrow> int"
  rp_done :: "nat \<Rightarrow> bool"

definition ReplayTo ::
  "replay_env \<Rightarrow> nat \<Rightarrow> bookmark_Request \<Rightarrow> string \<Rightarrow> http_req list \<Rightarrow> bookmark_Response option \<times> http_req list" where
  "ReplayTo rp k req url sent =
     (if \<not> rp_newreq rp url then (None, sent)
      else
        (let q = replayRequest req url
         in (map_option (\<lambda>r. \<lparr>bp_Status = rs_status r, bp_DurationMs = rp_ms rp k, bp_Body = take replayRespCap (rs_body r)\<rparr>) (rp_http rp k q),
             sent @ [q])))"

text \<open>
  The portable fixture and the document that \<open>Export\<close> writes: the members carry the names of the struct tags, and a
  map is written in the order of its keys. A header map here is never nil (the column of a request always holds an object).
\<close>

record exportJSON =
  ex_method :: string
  ex_path :: string
  ex_headers :: headers
  ex_content_type :: string
  ex_body_base64 :: string

definition headers_json :: "headers \<Rightarrow> jval" where
  "headers_json hs = JObj (map (\<lambda>(k, vs). (k, JArr (map JStr vs))) (sort_key fst hs))"

definition exportJSON_json :: "exportJSON \<Rightarrow> jval" where
  "exportJSON_json ex =
     JObj [(''method'', JStr (ex_method ex)), (''path'', JStr (ex_path ex)), (''headers'', headers_json (ex_headers ex)),
           (''content_type'', JStr (ex_content_type ex)), (''body_base64'', JStr (ex_body_base64 ex))]"

definition export_of :: "bookmark_Request \<Rightarrow> exportJSON" where
  "export_of req =
     \<lparr>ex_method = br_Method req, ex_path = br_Path req, ex_headers = br_Headers req, ex_content_type = br_ContentType req,
      ex_body_base64 = b64_encode std_alphabet True (br_Body req)\<rparr>"

definition Export :: "bookmark_Request \<Rightarrow> bytes" where
  "Export req = MarshalIndent (exportJSON_json (export_of req))"

section \<open>Bookmarks\<close>

record createBookmarkReq =
  cb_request_id :: string
  cb_name :: string
  cb_description :: string
  cb_tags :: "string list"

definition CreateBookmark_api ::
  "oenv \<Rightarrow> Principal option \<Rightarrow> createBookmarkReq option \<Rightarrow> 'r pworld \<Rightarrow> bookmark_row reply \<times> 'r pworld" where
  "CreateBookmark_api env p body =
     active_org p (\<lambda>org w.
       case body of None \<Rightarrow> (Inl 400, w) | Some b \<Rightarrow>
       if cb_name b = [] then (Inl 400, w)
       else case uuid_Parse (cb_request_id b) of None \<Rightarrow> (Inl 400, w) | Some reqID \<Rightarrow>
            case pread (oe_out env ''request'') (GetRequestForReplay reqID org) w of
              Inl e \<Rightarrow> (Inl (if e = ErrNoRows then 404 else 500), w)
            | Inr _ \<Rightarrow>
                (case pstmt (oe_out env ''create'') (CreateBookmark (oe_now env) (oe_newid env) org reqID (cb_name b) (cb_description b) (cb_tags b)) w of
                   (Inl e, w) \<Rightarrow> (Inl (if e = ErrUnique then 409 else 500), w)
                 | (Inr bm, w) \<Rightarrow> (Inr (201, bm), w)))"

record patchBookmarkReq =
  pb_name :: "string option"
  pb_description :: "string option"
  pb_tags :: "string list option"

definition get_bookmark :: "oenv \<Rightarrow> string \<Rightarrow> string \<Rightarrow> 'r pworld \<Rightarrow> int + bookmark_row" where
  "get_bookmark env i org w =
     (case pread (oe_out env ''bookmark'') (GetBookmarkForOrg i org) w of
        Inl e \<Rightarrow> Inl (if e = ErrNoRows then 404 else 500) | Inr b \<Rightarrow> Inr b)"

definition PatchBookmark ::
  "oenv \<Rightarrow> (db \<Rightarrow> db) \<Rightarrow> Principal option \<Rightarrow> string \<Rightarrow> patchBookmarkReq option \<Rightarrow> 'r pworld \<Rightarrow> bookmark_row reply \<times> 'r pworld" where
  "PatchBookmark env raced p param body =
     with_id p param (\<lambda>org i w.
       case body of None \<Rightarrow> (Inl 400, w) | Some b \<Rightarrow>
       case get_bookmark env i org w of Inl st \<Rightarrow> (Inl st, w) | Inr cur \<Rightarrow>
       let name = (case pb_name b of None \<Rightarrow> bm_name cur | Some n \<Rightarrow> TrimSpace n)
       in if pb_name b \<noteq> None \<and> name = [] then (Inl 400, w)
          else case pstmt (oe_out env ''update'') (UpdateBookmarkForOrg i org name (opt_default (bm_description cur) (pb_description b))
                      (opt_default (bm_tags cur) (pb_tags b))) (set_pdb (raced (pdb w)) w) of
                 (Inl e, w) \<Rightarrow> (Inl (if e = ErrUnique then 409 else 500), w)
               | (Inr bm, w) \<Rightarrow> (Inr (200, bm), w))"

definition ListBookmarks ::
  "oenv \<Rightarrow> Principal option \<Rightarrow> string \<Rightarrow> string \<Rightarrow> 'r pworld \<Rightarrow> (bookmark_row \<times> req_row) list reply \<times> 'r pworld" where
  "ListBookmarks env p source tag =
     active_org p (\<lambda>org w.
       case sourceFilter source of None \<Rightarrow> (Inl 400, w) | Some src \<Rightarrow>
       case pread (oe_out env ''list'') (\<lambda>d. Inr (ListBookmarksForOrg org src (if tag = [] then None else Some tag) d)) w of
         Inl _ \<Rightarrow> (Inl 500, w) | Inr rows \<Rightarrow> (Inr (200, rows), w))"

definition GetBookmark :: "oenv \<Rightarrow> Principal option \<Rightarrow> string \<Rightarrow> 'r pworld \<Rightarrow> bookmark_row reply \<times> 'r pworld" where
  "GetBookmark env p param =
     with_id p param (\<lambda>org i w. case get_bookmark env i org w of Inl st \<Rightarrow> (Inl st, w) | Inr b \<Rightarrow> (Inr (200, b), w))"

definition DeleteBookmark :: "oenv \<Rightarrow> Principal option \<Rightarrow> string \<Rightarrow> 'r pworld \<Rightarrow> unit reply \<times> 'r pworld" where
  "DeleteBookmark env p param =
     with_id p param (\<lambda>org i w.
       case pstmt (oe_out env ''delete'') (\<lambda>d. let (n, d) = DeleteBookmarkForOrg i org d in (Inr n, d)) w of
         (Inl _, w) \<Rightarrow> (Inl 500, w)
       | (Inr n, w) \<Rightarrow> (if n = 0 then Inl 404 else Inr (204, ()), w))"

definition ReplayBookmark ::
  "'r redis \<Rightarrow> phandlers \<Rightarrow> oenv \<Rightarrow> Principal option \<Rightarrow> string \<Rightarrow> 'r pworld \<Rightarrow> string list reply \<times> 'r pworld" where
  "ReplayBookmark R h env p param =
     with_id p param (\<lambda>org i w.
       case get_bookmark env i org w of Inl st \<Rightarrow> (Inl st, w) | Inr bm \<Rightarrow>
       case pread (oe_out env ''request'') (GetRequestForReplay (bm_request_id bm) org) w of
         Inl e \<Rightarrow> (Inl (if e = ErrNoRows then 404 else 500), w)
       | Inr req \<Rightarrow>
           (case Reinject R h env (bm_request_id bm) (rq_source_id req) org w of
              (Inl _, w) \<Rightarrow> (Inl 500, w) | (Inr ids, w) \<Rightarrow> (Inr (200, ids), w)))"

text \<open>The captured request behind a bookmark, or an error status.\<close>

definition loadBookmarkRequestCore :: "oenv \<Rightarrow> nat \<Rightarrow> string \<Rightarrow> string \<Rightarrow> 'r pworld \<Rightarrow> int + bookmark_Request" where
  "loadBookmarkRequestCore env k requestID org w =
     (case pread (oe_out env (''request:'' @ show_nat k)) (GetRequestForReplay requestID org) w of
        Inl e \<Rightarrow> Inl (if e = ErrNoRows then 404 else 500)
      | Inr req \<Rightarrow>
          (case body_Get (oe_out env (''body:'' @ show_nat k)) (rq_body_ref req) (pdb w) of
             Inl _ \<Rightarrow> Inl 410
           | Inr body \<Rightarrow>
               Inr \<lparr>br_SourceID = rq_source_id req, br_Method = rq_http_method req, br_Path = rq_http_path req,
                    br_Headers = unmarshalHeaders (rq_headers req), br_Body = body, br_ContentType = opt_default [] (rq_content_type req)\<rparr>))"

definition loadError :: "int \<Rightarrow> string" where
  "loadError st =
     (if st = 404 then ''captured request no longer exists'' else if st = 410 then ''captured payload no longer stored'' else ''load request'')"

definition ReplayBookmarkTo ::
  "oenv \<Rightarrow> replay_env \<Rightarrow> Principal option \<Rightarrow> string \<Rightarrow> string option \<Rightarrow> 'r pworld \<times> http_req list \<Rightarrow>
     bookmark_Response reply \<times> 'r pworld \<times> http_req list" where
  "ReplayBookmarkTo env rp p param body =
     with_id p param (\<lambda>org i (w, sent).
       case body of None \<Rightarrow> (Inl 400, w, sent) | Some url \<Rightarrow>
       if ValidateDestinationURL (oe_url env url) \<noteq> None then (Inl 400, w, sent)
       else case get_bookmark env i org w of Inl st \<Rightarrow> (Inl st, w, sent) | Inr bm \<Rightarrow>
            case loadBookmarkRequestCore env 0 (bm_request_id bm) org w of Inl st \<Rightarrow> (Inl st, w, sent) | Inr breq \<Rightarrow>
            case ReplayTo rp 0 breq url sent of
              (None, sent) \<Rightarrow> (Inl 502, w, sent) | (Some r, sent) \<Rightarrow> (Inr (200, r), w, sent))"

text \<open>
  A download name: other characters become an underscore, one for each code point (continuation bytes are dropped).
\<close>

definition filename_char :: "char \<Rightarrow> bool" where
  "filename_char c \<longleftrightarrow> (CHR ''a'' \<le> c \<and> c \<le> CHR ''z'') \<or> (CHR ''A'' \<le> c \<and> c \<le> CHR ''Z'') \<or>
     (CHR ''0'' \<le> c \<and> c \<le> CHR ''9'') \<or> c \<in> set ''-_.''"

definition safeFilename :: "string \<Rightarrow> string" where
  "safeFilename name =
     (let f = map (\<lambda>c. if filename_char c then c else CHR ''_'') (filter (\<lambda>c. \<not> (CHR 0x80 \<le> c \<and> c \<le> CHR 0xBF)) name)
      in if f = [] \<or> f = ''.'' \<or> f = ''..'' then ''fixture'' else f)"

text \<open>The text of the fixture and the name it is downloaded under.\<close>

definition ExportBookmark ::
  "oenv \<Rightarrow> Principal option \<Rightarrow> string \<Rightarrow> 'r pworld \<Rightarrow> (bytes \<times> string) reply \<times> 'r pworld" where
  "ExportBookmark env p param =
     with_id p param (\<lambda>org i w.
       case get_bookmark env i org w of Inl st \<Rightarrow> (Inl st, w) | Inr bm \<Rightarrow>
       case loadBookmarkRequestCore env 0 (bm_request_id bm) org w of Inl st \<Rightarrow> (Inl st, w) | Inr breq \<Rightarrow>
       (Inr (200, Export breq, safeFilename (bm_name bm) @ ''.json''), w))"

record importBookmarkReq =
  im_source_id :: string
  im_name :: string
  im_description :: string
  im_tags :: "string list"
  im_method :: string
  im_path :: string
  im_headers :: headers
  im_content_type :: string
  im_body_base64 :: string

definition get_headers :: "(string \<times> jval) list \<Rightarrow> headers option" where
  "get_headers ms = (case jget ms ''headers'' of None \<Rightarrow> Some [] | Some JNull \<Rightarrow> Some []
     | Some (JObj hs) \<Rightarrow> map_option go_map (header_members hs) | _ \<Rightarrow> None)"

definition get_strings :: "(string \<times> jval) list \<Rightarrow> string \<Rightarrow> string list option" where
  "get_strings ms k = (case jget ms k of None \<Rightarrow> Some [] | Some JNull \<Rightarrow> Some [] | Some (JArr vs) \<Rightarrow> header_values vs | _ \<Rightarrow> None)"

text \<open>Decoding the request by the names of the struct tags.\<close>

definition importBookmarkReq_of :: "jval \<Rightarrow> importBookmarkReq option" where
  "importBookmarkReq_of v =
     (case v of
        JObj ms \<Rightarrow> do { src \<leftarrow> get_str ms ''source_id''; nm \<leftarrow> get_str ms ''name''; ds \<leftarrow> get_str ms ''description''; tg \<leftarrow> get_strings ms ''tags'';
                      m \<leftarrow> get_str ms ''method''; p \<leftarrow> get_str ms ''path''; hs \<leftarrow> get_headers ms;
                      ct \<leftarrow> get_str ms ''content_type''; b \<leftarrow> get_str ms ''body_base64'';
                      Some \<lparr>im_source_id = src, im_name = nm, im_description = ds, im_tags = tg, im_method = m, im_path = p,
                        im_headers = hs, im_content_type = ct, im_body_base64 = b\<rparr> }
      | JNull \<Rightarrow> Some \<lparr>im_source_id = [], im_name = [], im_description = [], im_tags = [], im_method = [], im_path = [],
                   im_headers = [], im_content_type = [], im_body_base64 = []\<rparr>
      | _ \<Rightarrow> None)"

definition maxImportBody :: nat where "maxImportBody = 5 * 2 ^ 20"
definition maxImportRequest :: nat where "maxImportRequest = 12 * 2 ^ 20"

text \<open>
  The reader of the body stops after \<open>maxImportRequest\<close> bytes. Request, payload and bookmark are three statements of their own.
\<close>

definition ImportBookmark ::
  "oenv \<Rightarrow> Principal option \<Rightarrow> bytes \<Rightarrow> 'r pworld \<Rightarrow> bookmark_row reply \<times> 'r pworld" where
  "ImportBookmark env p text =
     active_org p (\<lambda>org w.
       case Option.bind (jdecode (take maxImportRequest text)) importBookmarkReq_of of None \<Rightarrow> (Inl 400, w) | Some b \<Rightarrow>
       if im_name b = [] \<or> im_source_id b = [] \<or> im_method b = [] then (Inl 400, w)
       else case uuid_Parse (im_source_id b) of None \<Rightarrow> (Inl 400, w) | Some srcID \<Rightarrow>
            case pread (oe_out env ''source'') (GetSourceForOrg srcID org) w of
              Inl e \<Rightarrow> (Inl (if e = ErrNoRows then 404 else 500), w)
            | Inr _ \<Rightarrow>
                (case b64_decode std_alphabet True (im_body_base64 b) of None \<Rightarrow> (Inl 400, w) | Some raw \<Rightarrow>
                 if length raw > maxImportBody then (Inl 400, w)
                 else case storeRequest env (new_request env (oe_newid env) srcID (im_method b) (im_path b) (marshalHeader (im_headers b))
                             (if im_content_type b = [] then None else Some (im_content_type b)) raw) raw w of
                        (False, w) \<Rightarrow> (Inl 500, w)
                      | (True, w) \<Rightarrow>
                          (case pstmt (oe_out env ''create'') (CreateBookmark (oe_now env) (oe_delid env 0) org (oe_newid env) (im_name b)
                                  (im_description b) (im_tags b)) w of
                             (Inl e, w) \<Rightarrow> (Inl (if e = ErrUnique then 409 else 500), w)
                           | (Inr bm, w) \<Rightarrow> (Inr (201, bm), w))))"

section \<open>Scenarios\<close>

definition minStepDelayMs :: int where "minStepDelayMs = 0"
definition maxStepDelayMs :: int where "maxStepDelayMs = 60000"
definition maxScenarioSteps :: nat where "maxScenarioSteps = 50"

record scenarioStepInput =
  si_bookmark_id :: string
  si_delay_ms :: int

type_synonym scenario_view = "scenario_row \<times> (step_row \<times> string) list"

text \<open>The bookmarks of the steps, or the status of the first bad step.\<close>

fun validateStepList :: "oenv \<Rightarrow> string \<Rightarrow> nat \<Rightarrow> scenarioStepInput list \<Rightarrow> 'r pworld \<Rightarrow> int + string list" where
  "validateStepList env org k [] w = Inr []"
| "validateStepList env org k (s # steps) w =
     (case uuid_Parse (si_bookmark_id s) of
        None \<Rightarrow> Inl 400
      | Some bid \<Rightarrow>
          (case pread (oe_out env (''step:'' @ show_nat k)) (GetBookmarkForOrg bid org) w of
             Inl e \<Rightarrow> Inl (if e = ErrNoRows then 404 else 500)
           | Inr _ \<Rightarrow>
               if si_delay_ms s < minStepDelayMs \<or> si_delay_ms s > maxStepDelayMs then Inl 400
               else (case validateStepList env org (Suc k) steps w of Inl st \<Rightarrow> Inl st | Inr bids \<Rightarrow> Inr (bid # bids))))"

definition validateSteps :: "oenv \<Rightarrow> string \<Rightarrow> scenarioStepInput list \<Rightarrow> 'r pworld \<Rightarrow> int + string list" where
  "validateSteps env org steps w = (if length steps > maxScenarioSteps then Inl 400 else validateStepList env org 0 steps w)"

definition tx_stmt :: "io \<Rightarrow> (db \<Rightarrow> (go_error + 'a) \<times> db) \<Rightarrow> db \<Rightarrow> (go_error + 'a) \<times> db" where
  "tx_stmt o1 f d = (case run_io o1 f d of (None, d) \<Rightarrow> (Inl ErrDb, d) | (Some r, d) \<Rightarrow> (r, d))"

fun insertSteps :: "oenv \<Rightarrow> string \<Rightarrow> nat \<Rightarrow> (string \<times> int) list \<Rightarrow> db \<Rightarrow> (go_error + unit) \<times> db" where
  "insertSteps env sc k [] d = (Inr (), d)"
| "insertSteps env sc k ((bid, delay) # steps) d =
     (case tx_stmt (oe_out env (''insert:'' @ show_nat k)) (InsertScenarioStep sc (int k) bid delay) d of
        (Inl e, d) \<Rightarrow> (Inl ErrDb, d) | (Inr _, d) \<Rightarrow> insertSteps env sc (Suc k) steps d)"

text \<open>An error of a step is not told apart from other errors by the callers.\<close>

definition writeSteps :: "oenv \<Rightarrow> string \<Rightarrow> scenarioStepInput list \<Rightarrow> string list \<Rightarrow> db \<Rightarrow> (go_error + unit) \<times> db" where
  "writeSteps env sc steps bids d =
     (case tx_stmt (oe_out env ''clear'') (\<lambda>d. (Inr (), DeleteScenarioSteps sc d)) d of
        (Inl e, d) \<Rightarrow> (Inl ErrDb, d) | (Inr _, d) \<Rightarrow> insertSteps env sc 0 (zip bids (map si_delay_ms steps)) d)"

definition scenario_tx ::
  "oenv \<Rightarrow> (db \<Rightarrow> (go_error + scenario_row) \<times> db) \<Rightarrow> (scenarioStepInput list \<times> string list) option \<Rightarrow> db \<Rightarrow> (go_error + scenario_row) \<times> db" where
  "scenario_tx env write steps d =
     (case tx_stmt (oe_out env ''write'') write d of
        (Inl e, d) \<Rightarrow> (Inl e, d)
      | (Inr sc, d) \<Rightarrow>
          (case steps of
             None \<Rightarrow> (Inr sc, d)
           | Some (ss, bids) \<Rightarrow> (case writeSteps env (sn_id sc) ss bids d of (Inl e, d) \<Rightarrow> (Inl e, d) | (Inr _, d) \<Rightarrow> (Inr sc, d))))"

text \<open>The transaction and the answer of both writes.\<close>

definition saveScenario ::
  "oenv \<Rightarrow> int \<Rightarrow> (db \<Rightarrow> (go_error + scenario_row) \<times> db) \<Rightarrow> (scenarioStepInput list \<times> string list) option \<Rightarrow> 'r pworld \<Rightarrow>
     scenario_view reply \<times> 'r pworld" where
  "saveScenario env status write steps w =
     (case in_tx (oe_out env ''begin'') (oe_out env ''commit'') (scenario_tx env write steps) ErrDb (pdb w) of
        (Inl e, d) \<Rightarrow> (Inl (if e = ErrUnique then 409 else 500), set_pdb d w)
      | (Inr sc, d) \<Rightarrow>
          (let w = set_pdb d w
           in case pread (oe_out env ''steps'') (\<lambda>d. Inr (ListScenarioSteps (sn_id sc) d)) w of
                Inl _ \<Rightarrow> (Inl 500, w) | Inr rows \<Rightarrow> (Inr (status, sc, rows), w)))"

record createScenarioReq =
  cx_name :: string
  cx_description :: string
  cx_steps :: "scenarioStepInput list"

definition CreateScenario_api ::
  "oenv \<Rightarrow> Principal option \<Rightarrow> createScenarioReq option \<Rightarrow> 'r pworld \<Rightarrow> scenario_view reply \<times> 'r pworld" where
  "CreateScenario_api env p body =
     active_org p (\<lambda>org w.
       case body of None \<Rightarrow> (Inl 400, w) | Some b \<Rightarrow>
       if cx_name b = [] then (Inl 400, w)
       else case validateSteps env org (cx_steps b) w of Inl st \<Rightarrow> (Inl st, w) | Inr bids \<Rightarrow>
            saveScenario env 201 (CreateScenario (oe_now env) (oe_newid env) org (cx_name b) (cx_description b)) (Some (cx_steps b, bids)) w)"

fun withSteps :: "oenv \<Rightarrow> scenario_row list \<Rightarrow> 'r pworld \<Rightarrow> go_error + scenario_view list" where
  "withSteps env [] w = Inr []"
| "withSteps env (sc # scs) w =
     (case pread (oe_out env (''steps:'' @ sn_id sc)) (\<lambda>d. Inr (ListScenarioSteps (sn_id sc) d)) w of
        Inl e \<Rightarrow> Inl e
      | Inr rows \<Rightarrow> (case withSteps env scs w of Inl e \<Rightarrow> Inl e | Inr out \<Rightarrow> Inr ((sc, rows) # out)))"

definition ListScenarios :: "oenv \<Rightarrow> Principal option \<Rightarrow> 'r pworld \<Rightarrow> scenario_view list reply \<times> 'r pworld" where
  "ListScenarios env p =
     active_org p (\<lambda>org w.
       case pread (oe_out env ''list'') (\<lambda>d. Inr (ListScenariosForOrg org d)) w of Inl _ \<Rightarrow> (Inl 500, w) | Inr rows \<Rightarrow>
       case withSteps env rows w of Inl _ \<Rightarrow> (Inl 500, w) | Inr out \<Rightarrow> (Inr (200, out), w))"

definition get_scenario :: "oenv \<Rightarrow> string \<Rightarrow> string \<Rightarrow> 'r pworld \<Rightarrow> int + scenario_row" where
  "get_scenario env i org w =
     (case pread (oe_out env ''scenario'') (GetScenarioForOrg i org) w of
        Inl e \<Rightarrow> Inl (if e = ErrNoRows then 404 else 500) | Inr s \<Rightarrow> Inr s)"

definition GetScenario :: "oenv \<Rightarrow> Principal option \<Rightarrow> string \<Rightarrow> 'r pworld \<Rightarrow> scenario_view reply \<times> 'r pworld" where
  "GetScenario env p param =
     with_id p param (\<lambda>org i w.
       case get_scenario env i org w of Inl st \<Rightarrow> (Inl st, w) | Inr sc \<Rightarrow>
       case pread (oe_out env ''steps'') (\<lambda>d. Inr (ListScenarioSteps (sn_id sc) d)) w of
         Inl _ \<Rightarrow> (Inl 500, w) | Inr rows \<Rightarrow> (Inr (200, sc, rows), w))"

record patchScenarioReq =
  px_name :: "string option"
  px_description :: "string option"
  px_steps :: "scenarioStepInput list option"

definition PatchScenario ::
  "oenv \<Rightarrow> (db \<Rightarrow> db) \<Rightarrow> Principal option \<Rightarrow> string \<Rightarrow> patchScenarioReq option \<Rightarrow> 'r pworld \<Rightarrow> scenario_view reply \<times> 'r pworld" where
  "PatchScenario env raced p param body =
     with_id p param (\<lambda>org i w.
       case get_scenario env i org w of Inl st \<Rightarrow> (Inl st, w) | Inr cur \<Rightarrow>
       case body of None \<Rightarrow> (Inl 400, w) | Some b \<Rightarrow>
       let name = opt_default (sn_name cur) (px_name b); desc = opt_default (sn_description cur) (px_description b);
           write = UpdateScenario (oe_now env) i org name desc
       in if name = [] then (Inl 400, w)
          else case px_steps b of
                 None \<Rightarrow> saveScenario env 200 write None (set_pdb (raced (pdb w)) w)
               | Some steps \<Rightarrow>
                   (case validateSteps env org steps w of Inl st \<Rightarrow> (Inl st, w) | Inr bids \<Rightarrow>
                    saveScenario env 200 write (Some (steps, bids)) (set_pdb (raced (pdb w)) w)))"

definition DeleteScenario :: "oenv \<Rightarrow> Principal option \<Rightarrow> string \<Rightarrow> 'r pworld \<Rightarrow> unit reply \<times> 'r pworld" where
  "DeleteScenario env p param =
     with_id p param (\<lambda>org i w.
       case pstmt (oe_out env ''delete'') (\<lambda>d. let (n, d) = DeleteScenarioForOrg i org d in (Inr n, d)) w of
         (Inl _, w) \<Rightarrow> (Inl 500, w)
       | (Inr n, w) \<Rightarrow> (if n = 0 then Inl 404 else Inr (204, ()), w))"

record scenarioReplayResult =
  rr_Position :: int
  rr_Status :: int
  rr_DurationMs :: int
  rr_Error :: string

text \<open>One step after the other, up to the first that fails or the end of the context; the sum of the delays slept.\<close>

fun replaySteps ::
  "oenv \<Rightarrow> replay_env \<Rightarrow> string \<Rightarrow> string \<Rightarrow> nat \<Rightarrow> (step_row \<times> string) list \<Rightarrow> 'r pworld \<Rightarrow> http_req list \<Rightarrow>
     scenarioReplayResult list \<times> http_req list \<times> int" where
  "replaySteps env rp org url k [] w sent = ([], sent, 0)"
| "replaySteps env rp org url k ((step, _) # steps) w sent =
     (let delay = (if sp_delay_ms step > 0 then (if sp_delay_ms step > maxStepDelayMs then maxStepDelayMs else sp_delay_ms step) else 0);
          failed = (\<lambda>st msg. [\<lparr>rr_Position = sp_position step, rr_Status = st, rr_DurationMs = 0, rr_Error = msg\<rparr>])
      in if delay > 0 \<and> rp_done rp k then ([], sent, delay)
         else case pread (oe_out env (''bookmark:'' @ show_nat k)) (GetBookmarkForOrg (sp_bookmark_id step) org) w of
                Inl _ \<Rightarrow> (failed 0 ''bookmark unavailable'', sent, delay)
              | Inr bm \<Rightarrow>
                  (case loadBookmarkRequestCore env k (bm_request_id bm) org w of
                     Inl st \<Rightarrow> (failed st (loadError st), sent, delay)
                   | Inr req \<Rightarrow>
                       (case ReplayTo rp k req url sent of
                          (None, sent) \<Rightarrow> (failed 0 ''replay target failed'', sent, delay)
                        | (Some r, sent) \<Rightarrow>
                            (let (res, sent, slept) = replaySteps env rp org url (Suc k) steps w sent
                             in (\<lparr>rr_Position = sp_position step, rr_Status = bp_Status r, rr_DurationMs = bp_DurationMs r, rr_Error = []\<rparr> # res,
                                 sent, delay + slept)))))"

definition ReplayScenarioTo ::
  "oenv \<Rightarrow> replay_env \<Rightarrow> Principal option \<Rightarrow> string \<Rightarrow> string option \<Rightarrow> 'r pworld \<times> http_req list \<Rightarrow>
     (scenarioReplayResult list \<times> int) reply \<times> 'r pworld \<times> http_req list" where
  "ReplayScenarioTo env rp p param body =
     with_id p param (\<lambda>org i (w, sent).
       case body of None \<Rightarrow> (Inl 400, w, sent) | Some url \<Rightarrow>
       if ValidateDestinationURL (oe_url env url) \<noteq> None then (Inl 400, w, sent)
       else case get_scenario env i org w of Inl st \<Rightarrow> (Inl st, w, sent) | Inr _ \<Rightarrow>
            case pread (oe_out env ''steps'') (\<lambda>d. Inr (ListScenarioSteps i d)) w of Inl _ \<Rightarrow> (Inl 500, w, sent) | Inr steps \<Rightarrow>
            (let (res, sent, slept) = replaySteps env rp org url 0 steps w sent in (Inr (200, res, slept), w, sent)))"

end
