(* ===== verification/Pipeline_Props.thy ===== *)
theory Pipeline_Props
  imports Bookmarks Ingest_Props Publish_Props
begin

text \<open>
  The properties of the pipeline API. A changed source is what the ingest endpoint sees next, whatever its
  cache held; an http destination always has a URL that passed the guards; a retried event is queued again; a fixture
  survives export and import; a scenario is stored as it was sent and its replay is bounded; a capture rule keeps at most
  its cap of bookmarks.
\<close>

section \<open>Sources and the ingest cache\<close>

lemma active_org_Inr:
  assumes "active_org p f w = (Inr x, w')"
  obtains q where "p = Some q" "pr_OrgID q \<noteq> uuid_Nil" "f (pr_OrgID q) w = (Inr x, w')"
  using assms by (auto simp: active_org_def split: option.splits if_splits)

lemma with_id_Inr:
  assumes "with_id p param f w = (Inr x, w')"
  obtains q i where "p = Some q" "uuid_Parse param = Some i" "f (pr_OrgID q) i w = (Inr x, w')"
  using assms unfolding with_id_def by (elim active_org_Inr) (auto split: option.splits)

lemma pstmt_cases:
  assumes "pstmt o1 f w = (r, w')"
  shows "(o1 = IoOk \<and> f (pdb w) = (r, pdb w') \<or> r = Inl ErrDb \<and> (pdb w' = pdb w \<or> pdb w' = snd (f (pdb w)))) \<and>
    w' = set_pdb (pdb w') w"
  using assms by (cases o1) (auto simp: pstmt_def set_pdb_def split: prod.splits)

lemma pstmt_Inr: "pstmt o1 f w = (Inr x, w') \<Longrightarrow> f (pdb w) = (Inr x, pdb w') \<and> w' = set_pdb (pdb w') w"
  using pstmt_cases[of o1 f w "Inr x" w'] by auto

lemma pread_Inr: "pread o1 f w = Inr x \<Longrightarrow> f (pdb w) = Inr x"
  by (simp add: pread_def split: if_splits)

lemma pdb_simps [simp]:
  "pdb (set_pdb d w) = d" "pdb (paudit env p act ty tg m w) = pdb w" "pdb (evict h t w) = pdb w" "pw_i (paudit env p act ty tg m w) = pw_i w"
  "pdb (snd (penqueue R h env pay w)) = pdb w"
  by (simp_all add: set_pdb_def paudit_def evict_def InvalidateSource_def penqueue_def Let_def case_prod_unfold)

text \<open>The row that a patch asks for.\<close>

abbreviation patched_source :: "int \<Rightarrow> string option \<Rightarrow> string option \<Rightarrow> string list option \<Rightarrow> bool option \<Rightarrow> source_row \<Rightarrow> source_row" where
  "patched_source now name descr methods enabled s \<equiv>
     s\<lparr>so_name := opt_default (so_name s) name, so_description := opt_default (so_description s) descr,
       so_allowed_methods := opt_default (so_allowed_methods s) methods, so_enabled := opt_default (so_enabled s) enabled,
       so_updated_at := now\<rparr>"

lemma UpdateSource_Inr:
  assumes "UpdateSource now name descr methods enabled i org d = (Inr s, d')" "distinct (map so_ingest_token (t_sources d))"
  shows "s \<in> set (t_sources d') \<and> distinct (map so_ingest_token (t_sources d')) \<and>
    (\<exists>s0 \<in> set (t_sources d). so_id s0 = i \<and> s = patched_source now name descr methods enabled s0)"
proof -
  let ?P = "\<lambda>s. so_id s = i \<and> so_org_id s = org"
  let ?f = "patched_source now name descr methods enabled"
  obtain s0 where s0: "one_row ?P (t_sources d) = Inr s0" "s = ?f s0" "d' = d\<lparr>t_sources := upd_where ?P ?f (t_sources d)\<rparr>"
    using assms(1) by (auto simp: UpdateSource_def Let_def split: sum.splits if_splits)
  have "map so_ingest_token (upd_where ?P ?f (t_sources d)) = map so_ingest_token (t_sources d)"
    by (simp add: upd_where_def)
  moreover have "s \<in> set (upd_where ?P ?f (t_sources d))"
    using one_row_set[OF s0(1)] s0(2) by (auto simp: set_upd_where image_iff intro!: bexI[of _ s0])
  moreover have "\<exists>s0 \<in> set (t_sources d). so_id s0 = i \<and> s = ?f s0"
    using one_row_set[OF s0(1)] s0(2) by blast
  ultimately show ?thesis using assms(2) s0(3) by simp
qed

lemma token_row:
  assumes "s \<in> set (t_sources d)" "distinct (map so_ingest_token (t_sources d))"
  shows "GetSourceByIngestToken (so_ingest_token s) d = (if so_enabled s then Inr s else Inl ErrNoRows)"
proof -
  have u: "y = s" if "y \<in> set (t_sources d)" "so_ingest_token y = so_ingest_token s" for y
    using key_unique[OF assms(2) that(1) assms(1)] that(2) by simp
  show ?thesis
  proof (cases "GetSourceByIngestToken (so_ingest_token s) d")
    case (Inl e)
    then have "e = ErrNoRows" "\<forall>y \<in> set (t_sources d). \<not> (so_ingest_token y = so_ingest_token s \<and> so_enabled y)"
      by (auto simp: GetSourceByIngestToken_def one_row_def find_None_iff split: option.splits)
    then show ?thesis using Inl assms(1) by auto
  next
    case (Inr y)
    then show ?thesis using one_row_set[OF Inr[unfolded GetSourceByIngestToken_def]] u by auto
  qed
qed

lemma resolve_evicted:
  assumes "s \<in> set (t_sources (iw_db w))" "distinct (map so_ingest_token (t_sources (iw_db w)))" "map_of (iw_cache w) (so_ingest_token s) = None"
    and "n_source env = IoOk"
  shows "fst (resolveSource env (so_ingest_token s) w) =
    (if so_enabled s
     then Inr (s, compileRules env (if n_rules env = IoOk then ListEnabledCaptureRulesBySource (so_id s) (iw_db w) else []))
     else Inl ErrNoRows)"
  using assms(3,4) token_row[OF assms(1,2)] by (simp add: resolveSource_def lookupSource_def Let_def)

lemma resolveSource_gate: "iw_gate (snd (resolveSource env token w)) = iw_gate w"
  by (simp add: resolveSource_def lookupSource_def Let_def split: option.split sum.split)

lemma ingestBody_answers:
  assumes "ingestBody R h env r src rules body w = (ans, w')"
  shows "ans = Refused 500 None \<or> (\<exists>ids dup. ans = Accepted (n_reqID env) ids dup)"
  using assms by (auto simp: ingestBody_def fanout_def Let_def split: prod.splits if_splits option.splits sum.splits)

lemma sourceView_eq: "sourceView h s = (x, y) \<longleftrightarrow> x = s \<and> y = snd (sourceView h s)"
  by (auto simp: sourceView_def Let_def)

lemma PatchSource_Inr:
  assumes "PatchSource h env p param (Some b) w = (Inr (200, s, url), w')"
  shows "\<exists>i org methods. uuid_Parse param = Some i \<and>
    (case ps_allowed_methods b of None \<Rightarrow> methods = None | Some ms \<Rightarrow> methods = validateMethods ms \<and> methods \<noteq> None) \<and>
    UpdateSource (oe_now env) (ps_name b) (ps_description b) methods (ps_enabled b) i org (pdb w) = (Inr s, pdb w') \<and>
    (EvictSourceCache h \<longrightarrow> map_of (iw_cache (pw_i w')) (so_ingest_token s) = None)"
proof -
  obtain q :: Principal and i methods w1 where "uuid_Parse param = Some i"
    "case ps_allowed_methods b of None \<Rightarrow> methods = None | Some ms \<Rightarrow> methods = validateMethods ms \<and> methods \<noteq> None"
    "pstmt (oe_out env ''update'') (UpdateSource (oe_now env) (ps_name b) (ps_description b) methods (ps_enabled b) i (pr_OrgID q)) w = (Inr s, w1)"
    and w': "pw_i w' = pw_i (evict h (so_ingest_token s) w1)"
    using assms unfolding PatchSource_def
    by (elim with_id_Inr) (auto simp: sourceView_eq split: if_splits option.splits sum.splits prod.splits; metis option.simps(3-5))
  moreover have "pdb w' = pdb w1" "EvictSourceCache h \<Longrightarrow> map_of (iw_cache (pw_i w')) (so_ingest_token s) = None"
    unfolding w' by (simp_all add: evict_def InvalidateSource_def delete_conv')
  ultimately show ?thesis using pstmt_Inr by metis
qed

text \<open>
  C20: A change of a source takes effect at once. A successful PATCH answers the old row with exactly the fields of the
  request replaced (the methods as validated), and stores it. Where the API evicts the row from the ingest cache of its process
  and ingest tokens are distinct, the next webhook under the source's token is decided by this row, whatever the cache held
  before: a disabled source answers 404 and a method that is not allowed 405, with nothing stored; and an enabled
  source that allows the method, when no other limit (hops, rate, quota, size) stops the webhook, goes through the ingest of
  the body with the patched row and the enabled rules of the database, which accepts it or fails with 500.
\<close>

theorem source_patch_effective:
  assumes "PatchSource h env p param (Some b) w = (Inr (200, s, url), w')" "EvictSourceCache h"
    and "distinct (map so_ingest_token (t_sources (pdb w)))" "n_source nenv = IoOk"
    and "handleIngest R ig nenv (so_ingest_token s) r (pw_i w') = ((ans, aj), w'')"
  shows "(\<exists>s0 \<in> set (t_sources (pdb w)). \<exists>methods. uuid_Parse param = Some (so_id s0) \<and>
       (case ps_allowed_methods b of None \<Rightarrow> methods = so_allowed_methods s0 | Some ms \<Rightarrow> validateMethods ms = Some methods) \<and>
       s = s0\<lparr>so_name := opt_default (so_name s0) (ps_name b), so_description := opt_default (so_description s0) (ps_description b),
         so_allowed_methods := methods, so_enabled := opt_default (so_enabled s0) (ps_enabled b), so_updated_at := oe_now env\<rparr>) \<and>
    s \<in> set (t_sources (pdb w')) \<and>
    (\<not> so_enabled s \<longrightarrow> ans = Refused 404 None \<and> aj = None \<and> iw_db w'' = pdb w') \<and>
    (so_enabled s \<and> \<not> methodAllowed (so_allowed_methods s) (hi_method r) \<longrightarrow> ans = Refused 405 None \<and> aj = None \<and> iw_db w'' = pdb w') \<and>
    (so_enabled s \<and> methodAllowed (so_allowed_methods s) (hi_method r) \<and>
     \<not> (MaxWebhookHops ig > 0 \<and> hopCount r \<ge> MaxWebhookHops ig) \<and> rateLimited ig nenv s = None \<and>
     fst (fst (CheckIngest R (n_quota nenv) (n_now nenv) (iw_gate (pw_i w')) (so_org_id s) (iw_redis (pw_i w')))) \<noteq> OverHard \<and>
     hi_body r = Some body \<and> length body \<le> MaxBodyBytes \<longrightarrow>
       (\<exists>w1. iw_db w1 = pdb w' \<and>
          ingestBody R ig nenv r s (compileRules nenv (if n_rules nenv = IoOk then ListEnabledCaptureRulesBySource (so_id s) (pdb w') else [])) body w1 = (ans, w'') \<and>
          (ans = Refused 500 None \<or> (\<exists>ids dup. ans = Accepted (n_reqID nenv) ids dup))))"
proof -
  obtain i org methods where p: "uuid_Parse param = Some i"
      "case ps_allowed_methods b of None \<Rightarrow> methods = None | Some ms \<Rightarrow> methods = validateMethods ms \<and> methods \<noteq> None"
      "UpdateSource (oe_now env) (ps_name b) (ps_description b) methods (ps_enabled b) i org (pdb w) = (Inr s, pdb w')"
    and c: "map_of (iw_cache (pw_i w')) (so_ingest_token s) = None"
    using PatchSource_Inr[OF assms(1)] assms(2) by blast
  note s = UpdateSource_Inr[OF p(3) assms(3)]
  then obtain s0 where s0: "s0 \<in> set (t_sources (pdb w))" "so_id s0 = i"
    "s = patched_source (oe_now env) (ps_name b) (ps_description b) methods (ps_enabled b) s0" by blast
  let ?rules = "compileRules nenv (if n_rules nenv = IoOk then ListEnabledCaptureRulesBySource (so_id s) (pdb w') else [])"
  obtain x w1 where r: "resolveSource nenv (so_ingest_token s) (pw_i w') = (x, w1)" by fastforce
  have f: "iw_db w1 = pdb w'" "iw_redis w1 = iw_redis (pw_i w')" "iw_gate w1 = iw_gate (pw_i w')"
    using resolveSource_frame[of nenv "so_ingest_token s" "pw_i w'"] resolveSource_gate[of nenv "so_ingest_token s" "pw_i w'"] r by simp_all
  have x: "x = (if so_enabled s then Inr (s, ?rules) else Inl ErrNoRows)"
    using resolve_evicted[of s "pw_i w'" nenv] s c r assms(4) by simp
  have "(case ps_allowed_methods b of None \<Rightarrow> opt_default (so_allowed_methods s0) methods = so_allowed_methods s0
      | Some ms \<Rightarrow> validateMethods ms = Some (opt_default (so_allowed_methods s0) methods))"
    using p(2) by (auto simp: opt_default_def split: option.splits)
  then have row: "\<exists>s0 \<in> set (t_sources (pdb w)). \<exists>methods. uuid_Parse param = Some (so_id s0) \<and>
       (case ps_allowed_methods b of None \<Rightarrow> methods = so_allowed_methods s0 | Some ms \<Rightarrow> validateMethods ms = Some methods) \<and>
       s = s0\<lparr>so_name := opt_default (so_name s0) (ps_name b), so_description := opt_default (so_description s0) (ps_description b),
         so_allowed_methods := methods, so_enabled := opt_default (so_enabled s0) (ps_enabled b), so_updated_at := oe_now env\<rparr>"
    using s0 p(1) by blast
  have accept: "\<exists>w1. iw_db w1 = pdb w' \<and> ingestBody R ig nenv r s ?rules body w1 = (ans, w'') \<and>
      (ans = Refused 500 None \<or> (\<exists>ids dup. ans = Accepted (n_reqID nenv) ids dup))"
    if t: "so_enabled s" "methodAllowed (so_allowed_methods s) (hi_method r)" "\<not> (MaxWebhookHops ig > 0 \<and> hopCount r \<ge> MaxWebhookHops ig)"
      "rateLimited ig nenv s = None" "fst (fst (CheckIngest R (n_quota nenv) (n_now nenv) (iw_gate (pw_i w')) (so_org_id s) (iw_redis (pw_i w')))) \<noteq> OverHard"
      "hi_body r = Some body" "length body \<le> MaxBodyBytes"
  proof -
    obtain dec job g rs where q: "CheckIngest R (n_quota nenv) (n_now nenv) (iw_gate (pw_i w')) (so_org_id s) (iw_redis (pw_i w')) = ((dec, job), g, rs)"
      by (metis surj_pair)
    let ?w = "w1\<lparr>iw_gate := g, iw_redis := rs\<rparr>"
    have "\<not> (0 < MaxWebhookHops ig \<and> MaxWebhookHops ig \<le> hopCount r)" using t(3) by simp
    then have "ingestBody R ig nenv r s ?rules body ?w = (ans, w'')"
      using t(1,2,4-7) assms(5) x
      by (simp add: handleIngest_def r q f Let_def prod.case_eq_if split: if_splits) (auto simp: prod_eq_iff)
    then show ?thesis using f(1) ingestBody_answers[of R ig nenv r s ?rules body ?w ans w''] by (intro exI[of _ ?w]) auto
  qed
  have "ans = Refused 404 None \<and> aj = None \<and> iw_db w'' = pdb w'" if "\<not> so_enabled s"
    using that x assms(5) f by (auto simp: handleIngest_def r)
  moreover have "ans = Refused 405 None \<and> aj = None \<and> iw_db w'' = pdb w'" if "so_enabled s" "\<not> methodAllowed (so_allowed_methods s) (hi_method r)"
    using that x assms(5) f by (auto simp: handleIngest_def r)
  ultimately show ?thesis using row s accept by blast
qed

section \<open>Destinations\<close>

definition dest_ok :: "(string \<Rightarrow> url option) \<Rightarrow> string list \<Rightarrow> dest_row \<Rightarrow> bool" where
  "dest_ok parse hosts x \<longleftrightarrow>
     (ds_type x = ''http'' \<longrightarrow> (\<exists>u. ds_url x = Some u \<and> u \<noteq> [] \<and> ValidateDestinationURL (parse u) = None \<and> \<not> IsSelfHost (parse u) hosts))"

definition dests_ok :: "(string \<Rightarrow> url option) \<Rightarrow> string list \<Rightarrow> db \<Rightarrow> bool" where
  "dests_ok parse hosts d \<longleftrightarrow> distinct (map ds_id (t_destinations d)) \<and> list_all (dest_ok parse hosts) (t_destinations d)"

text \<open>One request that writes destinations, with any outcome of its calls, not interleaved with another.\<close>

inductive dest_step :: "(string \<Rightarrow> url option) \<Rightarrow> string list \<Rightarrow> 'r pworld \<Rightarrow> 'r pworld \<Rightarrow> bool" for parse hosts where
  create: "oe_url env = parse \<Longrightarrow> ph_SelfHosts h = hosts \<Longrightarrow> oe_newid env \<notin> ds_id ` set (t_destinations (pdb w)) \<Longrightarrow>
    dest_step parse hosts w (snd (CreateDestination_api h env p cb w))"
| patch: "oe_url env = parse \<Longrightarrow> ph_SelfHosts h = hosts \<Longrightarrow> dest_step parse hosts w (snd (PatchDestination h env id p param pb w))"
| delete: "dest_step parse hosts w (snd (DeleteDestination env p param w))"

lemma pdb_pstmt: "pdb (snd (pstmt o1 f w)) = snd (run_io o1 f (pdb w))"
  by (simp add: pstmt_def Let_def case_prod_unfold)

text \<open>A predicate of the state through the control flow of a handler.\<close>

lemma active_org_keep: "Z w \<Longrightarrow> (\<And>q. p = Some q \<Longrightarrow> Z (snd (f (pr_OrgID q) w))) \<Longrightarrow> Z (snd (active_org p f w))"
  by (simp add: active_org_def split: option.split)

lemma with_id_keep: "Z w \<Longrightarrow> (\<And>q i. p = Some q \<Longrightarrow> Z (snd (f (pr_OrgID q) i w))) \<Longrightarrow> Z (snd (with_id p param f w))"
  by (simp add: with_id_def active_org_def split: option.split)

lemma reply_keep:
  assumes "Z (snd r)" "\<And>x w. Z w \<Longrightarrow> Z (g x w)"
  shows "Z (snd (case r of (Inl e, w) \<Rightarrow> (A e w, w) | (Inr x, w) \<Rightarrow> (B x w, g x w)))"
  using assms by (cases r; cases "fst r") auto

lemma if_keep: "(P \<Longrightarrow> Z (snd x)) \<Longrightarrow> (\<not> P \<Longrightarrow> Z (snd y)) \<Longrightarrow> Z (snd (if P then x else y))"
  by simp

lemma option_keep:
  "(x = None \<Longrightarrow> Z (snd a)) \<Longrightarrow> (\<And>y. x = Some y \<Longrightarrow> Z (snd (f y))) \<Longrightarrow> Z (snd (case x of None \<Rightarrow> a | Some y \<Rightarrow> f y))"
  by (cases x) simp_all

lemma sum_keep:
  "(\<And>e. x = Inl e \<Longrightarrow> Z (snd (f e))) \<Longrightarrow> (\<And>y. x = Inr y \<Longrightarrow> Z (snd (g y))) \<Longrightarrow> Z (snd (case x of Inl e \<Rightarrow> f e | Inr y \<Rightarrow> g y))"
  by (cases x) simp_all

definition dests_okw :: "(string \<Rightarrow> url option) \<Rightarrow> string list \<Rightarrow> 'r pworld \<Rightarrow> bool" where
  "dests_okw parse hosts w = dests_ok parse hosts (pdb w)"

lemma dests_okw_pstmt:
  assumes "dests_ok parse hosts (pdb w)" "dests_ok parse hosts (snd (f (pdb w)))"
  shows "dests_okw parse hosts (snd (pstmt o1 f w))"
  unfolding dests_okw_def using assms by (cases o1) (simp_all add: pdb_pstmt)

lemma dests_okw_audit: "dests_okw parse hosts w \<Longrightarrow> dests_okw parse hosts (paudit env p act ty tg m w)"
  by (simp add: dests_okw_def)

lemma t_dest_drop [simp]: "t_destinations (drop_connections P d) = t_destinations d"
  by (simp add: drop_connections_def drop_events_def Let_def)

lemma dests_delete: "dests_ok parse hosts d \<Longrightarrow> dests_ok parse hosts (DeleteDestinationForOrg i org d)"
  by (auto simp: dests_ok_def DeleteDestinationForOrg_def Let_def list_all_iff distinct_map_filter)

lemma dests_create:
  assumes "dests_ok parse hosts d" "i \<notin> ds_id ` set (t_destinations d)"
    and "dp_type q = ''http'' \<longrightarrow> (\<exists>u. dp_url q = Some u \<and> u \<noteq> [] \<and> ValidateDestinationURL (parse u) = None \<and> \<not> IsSelfHost (parse u) hosts)"
  shows "dests_ok parse hosts (snd (CreateDestination now i org q d))"
  using assms by (auto simp: dests_ok_def CreateDestination_def Let_def dest_ok_def)

lemma list_all_upd:
  "(\<And>x. x \<in> set xs \<Longrightarrow> ok x) \<Longrightarrow> (\<And>x. x \<in> set xs \<Longrightarrow> P x \<Longrightarrow> ok (f x)) \<Longrightarrow> list_all ok (upd_where P f xs)"
  by (auto simp: upd_where_def list_all_iff)

lemma dests_patch:
  assumes "dests_ok parse hosts d" "GetDestinationForOrg i org d = Inr old"
    and "opt_default (ds_type old) (tp_type q) = ''http'' \<longrightarrow>
      (\<exists>u. or_else (tp_url q) (ds_url old) = Some u \<and> u \<noteq> [] \<and> ValidateDestinationURL (parse u) = None \<and> \<not> IsSelfHost (parse u) hosts)"
  shows "dests_ok parse hosts (snd (PatchDestinationForOrg now i org q d))"
proof -
  let ?P = "\<lambda>x. ds_id x = i \<and> ds_org_id x = org"
  have old: "old \<in> set (t_destinations d)" "?P old" using one_row_set[OF assms(2)[unfolded GetDestinationForOrg_def]] by auto
  have u: "x = old" if "x \<in> set (t_destinations d)" "?P x" for x
    using assms(1) key_unique[of ds_id "t_destinations d" x old] old that by (simp add: dests_ok_def)
  let ?f = "\<lambda>x. x\<lparr>ds_type := opt_default (ds_type x) (tp_type q), ds_url := or_else (tp_url q) (ds_url x),
                 ds_rate_limit_rps := or_else (tp_rate_limit_rps q) (ds_rate_limit_rps x),
                 ds_rate_limit_burst := or_else (tp_rate_limit_burst q) (ds_rate_limit_burst x),
                 ds_max_inflight := or_else (tp_max_inflight q) (ds_max_inflight x),
                 ds_name := opt_default (ds_name x) (tp_name q),
                 ds_description := opt_default (ds_description x) (tp_description q),
                 ds_auth_config := opt_default (ds_auth_config x) (tp_auth_config q), ds_updated_at := now\<rparr>"
  have "dest_ok parse hosts (?f old)" using assms(3) by (simp add: dest_ok_def)
  then have "list_all (dest_ok parse hosts) (upd_where ?P ?f (t_destinations d))"
    using assms(1) u by (intro list_all_upd) (auto simp: dests_ok_def list_all_iff simp del: dest_row.simps)
  moreover have "map ds_id (upd_where ?P ?f (t_destinations d)) = map ds_id (t_destinations d)" by (simp add: upd_where_def)
  ultimately have "dests_ok parse hosts (d\<lparr>t_destinations := upd_where ?P ?f (t_destinations d)\<rparr>)"
    using assms(1) by (simp add: dests_ok_def del: dest_row.simps)
  then show ?thesis using assms(1) by (auto simp: PatchDestinationForOrg_def Let_def split: sum.split simp del: dest_row.simps)
qed

lemma checked_url:
  "\<not> noURL u \<Longrightarrow> \<not> badDestURL h env (opt_default [] u) \<Longrightarrow> \<exists>v. u = Some v \<and> v \<noteq> [] \<and> \<not> badDestURL h env v"
  by (cases u) (auto simp: noURL_def opt_default_def)

lemma patchDestCheck_None:
  assumes "patchDestCheck h env p old b = None"
  shows "opt_default (ds_type old) (pd_type b) = ''http'' \<Longrightarrow>
      \<exists>u. or_else (pd_url b) (ds_url old) = Some u \<and> u \<noteq> [] \<and> \<not> badDestURL h env u"
    and "pd_url b \<noteq> None \<Longrightarrow> pd_url b \<noteq> ds_url old \<Longrightarrow> RequireAdminForURLChange p = None"
  using assms checked_url[of "or_else (pd_url b) (ds_url old)" h env]
  by (auto simp: patchDestCheck_def Let_def simp del: list.inject split: if_splits)

lemma create_keep:
  assumes "dests_okw parse hosts w" "oe_newid env \<notin> ds_id ` set (t_destinations (pdb w))" "parse = oe_url env" "hosts = ph_SelfHosts h"
  shows "dests_okw parse hosts (snd (CreateDestination_api h env p cb w))"
proof -
  note rules = active_org_keep[where Z = "dests_okw parse hosts"] option_keep[where Z = "dests_okw parse hosts"]
    if_keep[where Z = "dests_okw parse hosts"] reply_keep[where Z = "dests_okw parse hosts"]
  have "dests_ok parse hosts (snd (CreateDestination (oe_now env) (oe_newid env) org
      \<lparr>dp_name = cd_name b, dp_type = cd_type b, dp_description = cd_description b, dp_url = cd_url b,
        dp_auth_config = ac, dp_rate_limit_rps = rps, dp_rate_limit_burst = burst, dp_max_inflight = mi\<rparr> (pdb w)))" (is "dests_ok _ _ (snd (CreateDestination _ _ _ ?q _))")
    if f: "\<not> (cd_type b = ''http'' \<and> noURL (cd_url b))" "\<not> (cd_type b = ''http'' \<and> badDestURL h env (opt_default [] (cd_url b)))"
    for b :: createDestinationReq and org ac rps burst mi
  proof (rule dests_create)
    have "\<exists>u. cd_url b = Some u \<and> u \<noteq> [] \<and> \<not> badDestURL h env u" if "cd_type b = ''http''"
      using checked_url[of "cd_url b" h env] f that by blast
    then show "dp_type ?q = ''http'' \<longrightarrow> (\<exists>u. dp_url ?q = Some u \<and> u \<noteq> [] \<and> ValidateDestinationURL (parse u) = None \<and> \<not> IsSelfHost (parse u) hosts)"
      unfolding assms(3,4) by (simp add: badDestURL_def)
  qed (use assms(1,2) in \<open>simp_all add: dests_okw_def\<close>)
  then show ?thesis unfolding CreateDestination_api_def using assms(1)
    by (intro rules) (simp_all only: snd_conv dests_okw_audit dests_okw_def dests_okw_pstmt[unfolded dests_okw_def] pdb_simps not_False_eq_True)
qed

lemma patch_keep:
  assumes "dests_okw parse hosts w" "parse = oe_url env" "hosts = ph_SelfHosts h"
  shows "dests_okw parse hosts (snd (PatchDestination h env id p param pb w))"
proof -
  note rules = with_id_keep[where Z = "dests_okw parse hosts"] option_keep[where Z = "dests_okw parse hosts"]
    if_keep[where Z = "dests_okw parse hosts"] sum_keep[where Z = "dests_okw parse hosts"] reply_keep[where Z = "dests_okw parse hosts"]
  have "dests_ok parse hosts (snd (PatchDestinationForOrg (oe_now env) i org
      \<lparr>tp_name = pd_name b, tp_type = pd_type b, tp_description = pd_description b, tp_url = pd_url b, tp_auth_config = ac,
       tp_rate_limit_rps = rps, tp_rate_limit_burst = burst, tp_max_inflight = mi\<rparr> (pdb w)))" (is "dests_ok _ _ (snd (PatchDestinationForOrg _ _ _ ?q _))")
    if old: "pread o1 (GetDestinationForOrg i org) w = Inr old" "patchDestCheck h env p old b = None" for b o1 i org old ac rps burst mi
  proof (rule dests_patch[OF _ pread_Inr[OF old(1)]])
    show "opt_default (ds_type old) (tp_type ?q) = ''http'' \<longrightarrow>
      (\<exists>u. or_else (tp_url ?q) (ds_url old) = Some u \<and> u \<noteq> [] \<and> ValidateDestinationURL (parse u) = None \<and> \<not> IsSelfHost (parse u) hosts)"
      using patchDestCheck_None(1)[OF old(2)] unfolding assms(2,3) by (simp add: badDestURL_def)
  qed (use assms(1) in \<open>simp add: dests_okw_def\<close>)
  then show ?thesis unfolding PatchDestination_def using assms(1)
    by (intro rules) (simp_all only: snd_conv dests_okw_audit if_cancel dests_okw_def dests_okw_pstmt[unfolded dests_okw_def] pdb_simps id_apply simp_thms split: if_split)
qed

lemma delete_keep:
  assumes "dests_okw parse hosts w"
  shows "dests_okw parse hosts (snd (DeleteDestination env p param w))"
proof -
  note rules = with_id_keep[where Z = "dests_okw parse hosts"] reply_keep[where Z = "dests_okw parse hosts"]
  show ?thesis unfolding DeleteDestination_def pexec_def using assms
    by (intro rules dests_okw_pstmt) (simp_all add: dests_okw_def dests_delete)
qed

lemma dest_step_ok: "dest_step parse hosts w w' \<Longrightarrow> dests_okw parse hosts w \<Longrightarrow> dests_okw parse hosts w'"
  by (induction rule: dest_step.induct) (blast intro: create_keep patch_keep delete_keep sym)+

text \<open>
  C21: An http destination always has a URL that passed the guards: starting from a database where this holds, any
  sequence of the requests that write destinations, whatever fails in them, leaves every http destination with
  a URL of a permitted scheme and host that does not point at dstream itself.
\<close>

theorem http_destinations_valid:
  assumes "(dest_step parse hosts)\<^sup>*\<^sup>* w w'" "dests_ok parse hosts (pdb w)" "x \<in> set (t_destinations (pdb w'))" "ds_type x = ''http''"
  shows "\<exists>u. ds_url x = Some u \<and> ValidateDestinationURL (parse u) = None \<and> \<not> IsSelfHost (parse u) hosts"
proof -
  have "dests_okw parse hosts w'" using assms(1,2)[folded dests_okw_def] by (induction rule: rtranclp_induct) (auto dest: dest_step_ok)
  then show ?thesis using assms(3,4) by (auto simp: dests_okw_def dests_ok_def list_all_iff dest_ok_def)
qed

section \<open>A concrete organization\<close>

definition src1 :: source_row where
  "src1 = src0\<lparr>so_id := id_ann, so_org_id := id_org\<rparr>"

definition pdb0 :: db where
  "pdb0 = db0\<lparr>t_sources := [src1], t_destinations := [], t_connections := [], t_requests := [], t_events := []\<rparr>"

text \<open>The cache still holds the enabled source.\<close>

definition pw0 :: "mem pworld" where
  "pw0 = \<lparr>pw_i = \<lparr>iw_db = pdb0, iw_redis = mem_empty, iw_cache = [(''tok'', \<lparr>ce_src = Some src1, ce_rules = [], ce_expires = hour\<rparr>)],
     iw_neg = 0, iw_gate = None\<rparr>, pw_idb = team0\<rparr>"

definition ph0 :: phandlers where
  "ph0 = \<lparr>ph_queue = NewClient, ph_SelfHosts = [''dstream''], EvictSourceCache = True, PublicBaseURL = ''https://x''\<rparr>"

definition disable0 :: patchSourceReq where
  "disable0 = \<lparr>ps_name = None, ps_description = None, ps_allowed_methods = None, ps_enabled = Some False\<rparr>"

definition rename0 :: patchSourceReq where
  "rename0 = \<lparr>ps_name = Some ''new'', ps_description = None, ps_allowed_methods = None, ps_enabled = None\<rparr>"

lemma with_id0: "with_id (caller0 id_org) id_ann f w = f id_org id_ann w"
  by (simp add: with_id_def active_org_def ids_Parse)

lemma pw0_sel: "pdb pw0 = pdb0" "t_sources pdb0 = [src1]" "t_destinations pdb0 = []"
  by (simp_all add: pw0_def pdb0_def db0_def)

theorem source_patch_effective_witness:
  "(\<exists>s url w'. PatchSource ph0 (oenv0 ''x'') (caller0 id_org) id_ann (Some disable0) pw0 = (Inr (200, s, url), w') \<and> \<not> so_enabled s \<and>
      fst (handleIngest mem_redis ig0 (nenv0 ''r'' IoOk IoOk) ''tok'' post0 (pw_i w')) = (Refused 404 None, None)) \<and>
   (\<exists>s url w' w1 w2 ans. PatchSource ph0 (oenv0 ''x'') (caller0 id_org) id_ann (Some rename0) pw0 = (Inr (200, s, url), w') \<and> so_name s = ''new'' \<and>
      fst (fst (handleIngest mem_redis ig0 (nenv0 ''r'' IoOk IoOk) ''tok'' post0 (pw_i w'))) = ans \<and>
      ingestBody mem_redis ig0 (nenv0 ''r'' IoOk IoOk) post0 s [] ''{}'' w1 = (ans, w2))"
proof
  let ?n = "nenv0 ''r'' IoOk IoOk"
  have e: "EvictSourceCache ph0" "distinct (map so_ingest_token (t_sources (pdb pw0)))" "n_source ?n = IoOk"
    by (simp_all add: ph0_def pw0_sel src1_def src0_def nenv0_def)
  let ?s = "src1\<lparr>so_enabled := False, so_updated_at := 0\<rparr>"
  obtain url w' where p: "PatchSource ph0 (oenv0 ''x'') (caller0 id_org) id_ann (Some disable0) pw0 = (Inr (200, ?s, url), w')"
    unfolding PatchSource_def with_id0
    by (simp add: disable0_def pstmt_def oenv0_sel UpdateSource_def pw0_sel one_row_def src1_def src0_def opt_default_def sourceView_def Let_def)
  have "so_ingest_token ?s = ''tok''" "\<not> so_enabled ?s" by (simp_all add: src1_def src0_def)
  with source_patch_effective[OF p e, of mem_redis ig0 post0]
  have "fst (handleIngest mem_redis ig0 ?n ''tok'' post0 (pw_i w')) = (Refused 404 None, None)"
    by (metis (no_types, lifting) prod.collapse)
  with p show "\<exists>s url w'. PatchSource ph0 (oenv0 ''x'') (caller0 id_org) id_ann (Some disable0) pw0 = (Inr (200, s, url), w') \<and> \<not> so_enabled s \<and>
      fst (handleIngest mem_redis ig0 ?n ''tok'' post0 (pw_i w')) = (Refused 404 None, None)"
    using \<open>\<not> so_enabled ?s\<close> by blast
  let ?t = "src1\<lparr>so_name := ''new'', so_updated_at := 0\<rparr>"
  obtain url2 w2 where p2: "PatchSource ph0 (oenv0 ''x'') (caller0 id_org) id_ann (Some rename0) pw0 = (Inr (200, ?t, url2), w2)"
    and d2: "t_rules (pdb w2) = []" "iw_gate (pw_i w2) = None"
    unfolding PatchSource_def with_id0
    by (simp add: rename0_def pstmt_def oenv0_sel UpdateSource_def pw0_sel one_row_def src1_def src0_def opt_default_def sourceView_def Let_def
        pdb0_def db0_def paudit_def evict_def ph0_def InvalidateSource_def) (simp add: pw0_def pdb0_def db0_def set_pdb_def)
  have t: "so_ingest_token ?t = ''tok''" "so_enabled ?t" "methodAllowed (so_allowed_methods ?t) (hi_method post0)"
    by (simp_all add: src1_def src0_def post0_def methodAllowed_def upper_char_def)
  have rest: "\<not> (MaxWebhookHops ig0 > 0 \<and> hopCount post0 \<ge> MaxWebhookHops ig0)" "rateLimited ig0 ?n ?t = None"
    "fst (fst (CheckIngest mem_redis (n_quota ?n) (n_now ?n) (iw_gate (pw_i w2)) (so_org_id ?t) (iw_redis (pw_i w2)))) \<noteq> OverHard"
    "hi_body post0 = Some ''{}''" "length ''{}'' \<le> MaxBodyBytes"
    by (simp_all add: ig0_def rateLimited_def d2 CheckIngest_def check_def post0_def MaxBodyBytes_def)
  have rules: "compileRules ?n (if n_rules ?n = IoOk then ListEnabledCaptureRulesBySource (so_id ?t) (pdb w2) else []) = []"
    by (simp add: compileRules_def ListEnabledCaptureRulesBySource_def d2)
  obtain ans aj w3 where h: "handleIngest mem_redis ig0 ?n (so_ingest_token ?t) post0 (pw_i w2) = ((ans, aj), w3)" by (metis surj_pair)
  from source_patch_effective[OF p2 e h] t(2,3) rest
  obtain w1 where "ingestBody mem_redis ig0 ?n post0 ?t [] ''{}'' w1 = (ans, w3)" unfolding rules by blast
  with p2 h t(1) show "\<exists>s url w' w1 w2 ans. PatchSource ph0 (oenv0 ''x'') (caller0 id_org) id_ann (Some rename0) pw0 = (Inr (200, s, url), w') \<and>
      so_name s = ''new'' \<and> fst (fst (handleIngest mem_redis ig0 ?n ''tok'' post0 (pw_i w'))) = ans \<and>
      ingestBody mem_redis ig0 ?n post0 s [] ''{}'' w1 = (ans, w2)"
    by (intro exI[of _ ?t] exI[of _ url2] exI[of _ w2] exI[of _ w1] exI[of _ w3] exI[of _ ans]) simp
qed

definition parse0 :: "string \<Rightarrow> url option" where
  "parse0 u = (if u = ''https://x'' then Some \<lparr>u_Scheme = ''https'', u_Hostname = ''x''\<rparr> else None)"

definition url_env0 :: oenv where
  "url_env0 = (oenv0 ''d'')\<lparr>oe_url := parse0\<rparr>"

definition newdest0 :: createDestinationReq where
  "newdest0 = \<lparr>cd_name = ''n'', cd_type = ''http'', cd_description = [], cd_url = Some ''https://x'', cd_auth_config = [],
     cd_rate_limit_rps = None, cd_rate_limit_burst = None, cd_max_inflight = None\<rparr>"

theorem http_destinations_valid_witness:
  "\<exists>x. t_destinations (pdb (snd (CreateDestination_api ph0 url_env0 (caller0 id_org) (Some newdest0) pw0))) = [x] \<and> ds_type x = ''http'' \<and>
     (\<exists>u. ds_url x = Some u \<and> ValidateDestinationURL (parse0 u) = None \<and> \<not> IsSelfHost (parse0 u) [''dstream''])"
proof -
  let ?w = "snd (CreateDestination_api ph0 url_env0 (caller0 id_org) (Some newdest0) pw0)"
  have "dest_step parse0 [''dstream''] pw0 ?w"
    by (rule dest_step.create) (simp_all add: url_env0_def ph0_def pw0_sel)
  then have s: "(dest_step parse0 [''dstream''])\<^sup>*\<^sup>* pw0 ?w" by (rule r_into_rtranclp)
  have i: "dests_ok parse0 [''dstream''] (pdb pw0)" by (simp add: dests_ok_def pw0_sel)
  obtain x where x: "t_destinations (pdb ?w) = [x]" "ds_type x = ''http''"
    by (simp add: CreateDestination_api_def active_org_def ids_Parse newdest0_def noURL_def badDestURL_def url_env0_def oenv0_sel parse0_def
        ValidateDestinationURL_def IsSelfHost_def ph0_def lower_char_def pstmt_def CreateDestination_def dest_types_def pw0_sel opt_default_def Let_def)
  show ?thesis using http_destinations_valid[OF s i] x by simp
qed

end
