(* ===== verification/Bookmark_Props.thy ===== *)
theory Bookmark_Props
  imports Pipeline_Props
begin

text \<open>
  The properties of bookmarks and scenarios: the steps of a scenario are replaced as a whole or not at all; a
  replay sends only to its target, at most one request for each step, and sleeps a bounded time; an
  exported fixture that is imported again is the same request.
\<close>

section \<open>Scenarios\<close>

definition step_rows :: "string \<Rightarrow> nat \<Rightarrow> (string \<times> int) list \<Rightarrow> step_row list" where
  "step_rows sc k xs = map (\<lambda>(j, b, dl). \<lparr>sp_scenario_id = sc, sp_position = int j, sp_bookmark_id = b, sp_delay_ms = dl\<rparr>) (enumerate k xs)"

lemma step_rows_simps [simp]:
  "step_rows sc k [] = []"
  "step_rows sc k (x # xs) = \<lparr>sp_scenario_id = sc, sp_position = int k, sp_bookmark_id = fst x, sp_delay_ms = snd x\<rparr> # step_rows sc (Suc k) xs"
  by (simp_all add: step_rows_def case_prod_unfold)

lemma tx_stmt_Inr: "tx_stmt o1 f d = (Inr x, d') \<Longrightarrow> f d = (Inr x, d')"
  by (cases o1) (auto simp: tx_stmt_def split: prod.splits)

lemma InsertScenarioStep_Inr:
  assumes "InsertScenarioStep sc ps b dl d = (Inr s, d')"
  shows "d' = d\<lparr>t_steps := t_steps d @ [\<lparr>sp_scenario_id = sc, sp_position = ps, sp_bookmark_id = b, sp_delay_ms = dl\<rparr>]\<rparr> \<and>
    b \<in> bm_id ` set (t_bookmarks d)"
  using assms by (auto simp: InsertScenarioStep_def list_ex_iff Let_def split: if_splits)

lemma insertSteps_Inr:
  assumes "insertSteps env sc k xs d = (Inr u, d')"
  shows "d' = d\<lparr>t_steps := t_steps d @ step_rows sc k xs\<rparr> \<and> fst ` set xs \<subseteq> bm_id ` set (t_bookmarks d)"
  using assms
proof (induction xs arbitrary: k d)
  case (Cons x xs)
  obtain b dl where x: "x = (b, dl)" by fastforce
  obtain s d1 where s: "InsertScenarioStep sc (int k) b dl d = (Inr s, d1)" "insertSteps env sc (Suc k) xs d1 = (Inr u, d')"
    using Cons.prems by (auto simp: x split: prod.splits sum.splits dest!: tx_stmt_Inr)
  show ?case using Cons.IH[OF s(2)] InsertScenarioStep_Inr[OF s(1)] by (simp add: x)
qed simp

lemma writeSteps_Inr:
  assumes "writeSteps env sc steps bids d = (Inr u, d')"
  shows "d' = d\<lparr>t_steps := filter (\<lambda>s. sp_scenario_id s \<noteq> sc) (t_steps d) @ step_rows sc 0 (zip bids (map si_delay_ms steps))\<rparr> \<and>
    fst ` set (zip bids (map si_delay_ms steps)) \<subseteq> bm_id ` set (t_bookmarks d)"
proof -
  have "insertSteps env sc 0 (zip bids (map si_delay_ms steps)) (DeleteScenarioSteps sc d) = (Inr u, d')"
    using assms by (auto simp: writeSteps_def split: prod.splits sum.splits dest!: tx_stmt_Inr)
  from insertSteps_Inr[OF this] show ?thesis by (simp add: DeleteScenarioSteps_def)
qed

lemma validateStepList_Inr:
  assumes "validateStepList env org k steps w = Inr bids"
  shows "map Some bids = map (\<lambda>s. uuid_Parse (si_bookmark_id s)) steps \<and> (\<forall>s \<in> set steps. 0 \<le> si_delay_ms s \<and> si_delay_ms s \<le> maxStepDelayMs)"
  using assms
  by (induction steps arbitrary: k bids) (auto simp: minStepDelayMs_def split: option.splits sum.splits if_splits)

text \<open>What a scenario's steps are, in the order of the replay.\<close>

lemma listed_rows:
  assumes "distinct (map bm_id bs)" "sp_bookmark_id ` set xs \<subseteq> bm_id ` set bs"
  shows "map fst (concat (map (\<lambda>s. map (\<lambda>b. (s, bm_name b)) (filter (\<lambda>b. bm_id b = sp_bookmark_id s) bs)) xs)) = xs"
  using assms(2)
proof (induction xs)
  case (Cons s xs)
  then obtain b where b: "b \<in> set bs" "bm_id b = sp_bookmark_id s" by auto
  have "filter (\<lambda>b. bm_id b = sp_bookmark_id s) bs = [b]"
    using assms(1) b
  proof (induction bs)
    case (Cons c bs)
    then show ?case by (cases "c = b") (auto simp: filter_empty_conv image_iff)
  qed simp
  then show ?case using Cons by simp
qed simp

lemma ListScenarioSteps_rows:
  assumes "distinct (map bm_id (t_bookmarks d))" "fst ` set xs \<subseteq> bm_id ` set (t_bookmarks d)"
    and "filter (\<lambda>s. sp_scenario_id s = sc) (t_steps d) = step_rows sc 0 xs"
  shows "map fst (ListScenarioSteps sc d) = step_rows sc 0 xs"
proof -
  have r: "sp_bookmark_id ` set (step_rows sc k xs) \<subseteq> fst ` set xs" "sorted (map sp_position (step_rows sc k xs)) \<and> (\<forall>s \<in> set (step_rows sc k xs). int k \<le> sp_position s)" for k
    by (induction xs arbitrary: k) (auto, fastforce+)
  let ?rows = "concat (map (\<lambda>s. map (\<lambda>b. (s, bm_name b)) (filter (\<lambda>b. bm_id b = sp_bookmark_id s) (t_bookmarks d))) (step_rows sc 0 xs))"
  have m: "map fst ?rows = step_rows sc 0 xs" using r(1)[of 0] assms(1,2) by (intro listed_rows) auto
  have "map (\<lambda>(s, _). sp_position s) ?rows = map sp_position (map fst ?rows)" by (simp add: case_prod_unfold)
  also have "\<dots> = map sp_position (step_rows sc 0 xs)" unfolding m ..
  finally have "sorted (map (\<lambda>(s, _). sp_position s) ?rows)" using r(2)[of 0] by simp
  then show ?thesis using m unfolding ListScenarioSteps_def assms(3) by (simp only: sort_key_id_if_sorted)
qed


text \<open>The steps that were sent, in their order, and those of the other scenarios as they were.\<close>

definition steps_saved :: "string \<Rightarrow> scenarioStepInput list \<Rightarrow> db \<Rightarrow> db \<Rightarrow> bool" where
  "steps_saved sc steps d d' \<longleftrightarrow>
     map (\<lambda>(s, _). (sp_position s, Some (sp_bookmark_id s), sp_delay_ms s)) (ListScenarioSteps sc d') =
       map (\<lambda>(k, s). (int k, uuid_Parse (si_bookmark_id s), si_delay_ms s)) (enumerate 0 steps) \<and>
     filter (\<lambda>s. sp_scenario_id s \<noteq> sc) (t_steps d') = filter (\<lambda>s. sp_scenario_id s \<noteq> sc) (t_steps d) \<and>
     length steps \<le> maxScenarioSteps"

lemma step_rows_sent:
  assumes "map Some bids = map (\<lambda>s. uuid_Parse (si_bookmark_id s)) steps"
  shows "map (\<lambda>s. (sp_position s, Some (sp_bookmark_id s), sp_delay_ms s)) (step_rows sc k (zip bids (map si_delay_ms steps))) =
    map (\<lambda>(k, s). (int k, uuid_Parse (si_bookmark_id s), si_delay_ms s)) (enumerate k steps)"
  using assms by (induction steps arbitrary: bids k) auto

lemma written_steps:
  assumes "writeSteps env sc steps bids d = (Inr u, d')" "validateSteps env org steps v = Inr bids" "distinct (map bm_id (t_bookmarks d))"
  shows "steps_saved sc steps d d'"
proof -
  let ?xs = "zip bids (map si_delay_ms steps)"
  have b: "map Some bids = map (\<lambda>s. uuid_Parse (si_bookmark_id s)) steps" "length steps \<le> maxScenarioSteps"
    using assms(2) validateStepList_Inr[of env org 0 steps v bids] by (simp_all add: validateSteps_def split: if_splits)
  have sc: "sp_scenario_id s = sc" if "s \<in> set (step_rows sc k xs)" for s k xs
    using that by (induction xs arbitrary: k) auto
  note d' = conjunct1[OF writeSteps_Inr[OF assms(1)]]
  have f: "filter (\<lambda>s. sp_scenario_id s = sc) (t_steps d') = step_rows sc 0 ?xs"
    "filter (\<lambda>s. sp_scenario_id s \<noteq> sc) (t_steps d') = filter (\<lambda>s. sp_scenario_id s \<noteq> sc) (t_steps d)"
    unfolding d' by (auto simp: filter_id_conv filter_empty_conv dest: sc)
  have "map fst (ListScenarioSteps sc d') = step_rows sc 0 ?xs"
    using conjunct2[OF writeSteps_Inr[OF assms(1)]] assms(3) f(1) by (intro ListScenarioSteps_rows) (simp_all add: d')
  then have "map (\<lambda>s. (sp_position s, Some (sp_bookmark_id s), sp_delay_ms s)) (map fst (ListScenarioSteps sc d')) =
      map (\<lambda>(k, s). (int k, uuid_Parse (si_bookmark_id s), si_delay_ms s)) (enumerate 0 steps)"
    using step_rows_sent[OF b(1)] by simp
  then show ?thesis using b(2) f(2) by (simp add: steps_saved_def case_prod_unfold comp_def)
qed

text \<open>The rows that a write of the scenario row leaves alone, and the scenario it answers with.\<close>

definition row_write :: "string \<Rightarrow> (db \<Rightarrow> (go_error + scenario_row) \<times> db) \<Rightarrow> bool" where
  "row_write sc f \<longleftrightarrow> (\<forall>d x d'. f d = (Inr x, d') \<longrightarrow> sn_id x = sc \<and> t_steps d' = t_steps d \<and> t_bookmarks d' = t_bookmarks d)"

lemma row_writes:
  "row_write i (CreateScenario now i org name descr)" "row_write i (UpdateScenario now i org name descr)"
  by (auto simp: row_write_def CreateScenario_def UpdateScenario_def Let_def split: if_splits sum.splits dest!: one_row_set)

lemma saveScenario_atomic:
  assumes "saveScenario env status f (Some (steps, bids)) w = (ans, w')" "row_write sc f"
    and "validateSteps env org steps v = Inr bids" "distinct (map bm_id (t_bookmarks (pdb w)))"
  shows "pdb w' = pdb w \<and> (\<exists>e. ans = Inl e) \<or>
    steps_saved sc steps (pdb w) (pdb w') \<and> (\<forall>st x rows. ans = Inr (st, x, rows) \<longrightarrow> rows = ListScenarioSteps sc (pdb w'))"
proof -
  obtain r d where t: "in_tx (oe_out env ''begin'') (oe_out env ''commit'') (scenario_tx env f (Some (steps, bids))) ErrDb (pdb w) = (r, d)" by fastforce
  have d: "pdb w' = d" "\<And>st x rows. ans = Inr (st, x, rows) \<Longrightarrow> r = Inr x \<and> rows = ListScenarioSteps (sn_id x) d" "\<And>e. r = Inl e \<Longrightarrow> \<exists>e. ans = Inl e"
    using assms(1) t by (auto simp: saveScenario_def Let_def pread_def split: sum.splits if_splits)
  from in_tx_cases[OF t] consider x where "d = pdb w" "r = Inl x"
    | y where "scenario_tx env f (Some (steps, bids)) (pdb w) = (Inr y, d)" "r = Inr y \<or> r = Inl ErrDb"
    by blast
  then show ?thesis
  proof cases
    case 1
    then show ?thesis using d(1,3) by blast
  next
    case (2 y)
    obtain d1 u where d1: "f (pdb w) = (Inr y, d1)" "writeSteps env (sn_id y) steps bids d1 = (Inr u, d)"
      using 2(1) by (auto simp: scenario_tx_def split: prod.splits sum.splits dest!: tx_stmt_Inr)
    have s: "sn_id y = sc" "t_steps d1 = t_steps (pdb w)" "t_bookmarks d1 = t_bookmarks (pdb w)" using assms(2) d1(1) by (auto simp: row_write_def)
    have "steps_saved sc steps (pdb w) d"
      using written_steps[OF d1(2) assms(3)] assms(4) s by (simp add: steps_saved_def)
    then show ?thesis using d 2(2) s(1) by auto
  qed
qed

lemma with_id_cases:
  assumes "with_id p param f w = (r, w')"
  shows "w' = w \<and> (\<exists>e. r = Inl e) \<or> (\<exists>q i. p = Some q \<and> uuid_Parse param = Some i \<and> f (pr_OrgID q) i w = (r, w'))"
  using assms by (auto simp: with_id_def active_org_def split: option.splits if_splits)

text \<open>
  The steps of a scenario are replaced as a whole or not at all, whatever call fails and whatever other requests
  commit between the checks and the transaction: after a PATCH with steps, either the database has only what those
  requests wrote and the answer is an error, or the scenario's steps are exactly the given ones, at the positions
  from zero, and those of every other scenario are as they were; a success answers with the stored steps.
\<close>

theorem scenario_steps_atomic:
  assumes "PatchScenario env raced p param (Some b) w = (ans, w')" "px_steps b = Some steps"
    and "distinct (map bm_id (t_bookmarks (raced (pdb w))))"
  shows "(pdb w' = pdb w \<or> pdb w' = raced (pdb w)) \<and> (\<exists>e. ans = Inl e) \<or>
    (\<exists>sc. uuid_Parse param = Some sc \<and> steps_saved sc steps (raced (pdb w)) (pdb w') \<and>
       (\<forall>st x rows. ans = Inr (st, x, rows) \<longrightarrow> rows = ListScenarioSteps sc (pdb w')))"
  using with_id_cases[OF assms(1)[unfolded PatchScenario_def]]
proof (elim disjE exE conjE)
  fix q :: Principal and i
  assume i: "uuid_Parse param = Some i" "(case get_scenario env i (pr_OrgID q) w of Inl st \<Rightarrow> (Inl st, w) | Inr cur \<Rightarrow>
       case Some b of None \<Rightarrow> (Inl 400, w) | Some b \<Rightarrow>
       let name = opt_default (sn_name cur) (px_name b); desc = opt_default (sn_description cur) (px_description b);
           write = UpdateScenario (oe_now env) i (pr_OrgID q) name desc
       in if name = [] then (Inl 400, w)
          else case px_steps b of
                 None \<Rightarrow> saveScenario env 200 write None (set_pdb (raced (pdb w)) w)
               | Some steps \<Rightarrow>
                   (case validateSteps env (pr_OrgID q) steps w of Inl st \<Rightarrow> (Inl st, w) | Inr bids \<Rightarrow>
                    saveScenario env 200 write (Some (steps, bids)) (set_pdb (raced (pdb w)) w))) = (ans, w')"
  then consider "w' = w" "\<exists>e. ans = Inl e" | name desc bids where "validateSteps env (pr_OrgID q) steps w = Inr bids"
      "saveScenario env 200 (UpdateScenario (oe_now env) i (pr_OrgID q) name desc) (Some (steps, bids)) (set_pdb (raced (pdb w)) w) = (ans, w')"
    using assms(2) by (auto simp: Let_def split: sum.splits if_splits)
  then show ?thesis
  proof cases
    case 2
    from saveScenario_atomic[OF 2(2) row_writes(2) 2(1)] assms(3) i(1) show ?thesis by auto
  qed simp
qed simp

section \<open>Replays\<close>

text \<open>A replayed request: to its target, without hop-by-hop headers and without the marks of redacted values.\<close>

definition safe_replay :: "string \<Rightarrow> http_req \<Rightarrow> bool" where
  "safe_replay url q \<longleftrightarrow> hr_url q = url \<and>
     (\<forall>k vs. map_of (hr_headers q) k = Some vs \<longrightarrow> k \<noteq> ''Content-Type'' \<longrightarrow> k \<notin> set skippedHeaders \<and> ''[redacted]'' \<notin> set vs)"

definition clean :: "string set \<Rightarrow> string \<Rightarrow> headers \<Rightarrow> bool" where
  "clean S bad h \<longleftrightarrow> (\<forall>k vs. map_of h k = Some vs \<longrightarrow> k \<notin> S \<and> bad \<notin> set vs)"

lemma clean_Add:
  assumes "clean S bad h" "CanonicalHeaderKey k \<notin> S" "v \<noteq> bad"
  shows "clean S bad (Add h k v)"
proof -
  have "bad \<notin> set (hget h k)" using assms(1) by (auto simp: clean_def hget_def split: option.split)
  then show ?thesis using assms by (simp add: clean_def Add_def map_of_hput)
qed

lemma clean_Adds:
  assumes "clean S bad h" "CanonicalHeaderKey k \<notin> S" "bad \<notin> set vs"
  shows "clean S bad (fold (\<lambda>v h. Add h k v) vs h)"
  using assms
proof (induction vs arbitrary: h)
  case (Cons v vs)
  from Cons.prems have "clean S bad (Add h k v)" by (intro clean_Add) auto
  then show ?case using Cons.IH[of "Add h k v"] Cons.prems(2,3) by simp
qed simp

lemma replay_headers:
  "clean (set skippedHeaders) ''[redacted]'' h \<Longrightarrow>
   clean (set skippedHeaders) ''[redacted]'' (fold (\<lambda>(k, vs) h. if skipHeader k vs then h else fold (\<lambda>v h. Add h k v) vs h) hs h)"
proof (induction hs arbitrary: h)
  case (Cons y hs)
  obtain k vs where y: "y = (k, vs)" by fastforce
  have "clean (set skippedHeaders) ''[redacted]'' (if skipHeader k vs then h else fold (\<lambda>v h. Add h k v) vs h)"
    using Cons.prems clean_Adds[OF Cons.prems, of k vs] unfolding skipHeader_def de_Morgan_disj by (simp only: if_split) blast
  from Cons.IH[OF this] show ?case by (simp only: y fold_simps prod.case)
qed simp

lemma canonical_content_type: "CanonicalHeaderKey ''Content-Type'' = ''Content-Type''"
  by code_simp

lemma ReplayTo_sent:
  assumes "ReplayTo rp k req url sent = (r, sent')"
  shows "\<exists>qs. sent' = sent @ qs \<and> length qs \<le> 1 \<and> (\<forall>q \<in> set qs. safe_replay url q)"
proof -
  have "clean (set skippedHeaders) ''[redacted]'' (fold (\<lambda>(k, vs) h. if skipHeader k vs then h else fold (\<lambda>v h. Add h k v) vs h) (br_Headers req) [])"
    by (rule replay_headers) (simp add: clean_def)
  then have "safe_replay url (replayRequest req url)"
    unfolding clean_def safe_replay_def replayRequest_def Let_def Set_def by (simp add: map_of_hput canonical_content_type split: if_split)
  then show ?thesis using assms by (auto simp: ReplayTo_def Let_def split: if_splits)
qed

text \<open>What a run over the steps may have sent, answered and slept.\<close>

definition replayed :: "string \<Rightarrow> (step_row \<times> string) list \<Rightarrow> http_req list \<Rightarrow> scenarioReplayResult list \<times> http_req list \<times> int \<Rightarrow> bool" where
  "replayed url steps sent r \<longleftrightarrow> (case r of (res, sent', slept) \<Rightarrow>
     (\<exists>qs. sent' = sent @ qs \<and> length qs \<le> length steps \<and> (\<forall>q \<in> set qs. safe_replay url q)) \<and>
     0 \<le> slept \<and> slept \<le> maxStepDelayMs * int (length steps) \<and>
     map rr_Position res = take (length res) (map (\<lambda>(s, _). sp_position s) steps) \<and>
     list_all (\<lambda>x. rr_Error x = []) (butlast res))"

lemma replayed_stop:
  assumes "0 \<le> t" "t \<le> maxStepDelayMs" "\<exists>qs. sent' = sent @ qs \<and> length qs \<le> 1 \<and> (\<forall>q \<in> set qs. safe_replay url q)"
    and "res = [] \<or> (\<exists>x. res = [x] \<and> rr_Position x = sp_position s)"
  shows "replayed url ((s, n) # steps) sent (res, sent', t)"
proof -
  have "t \<le> maxStepDelayMs * int (length ((s, n) # steps))" using assms(1,2) by (simp add: maxStepDelayMs_def)
  then show ?thesis using assms by (auto simp: replayed_def intro: le_SucI)
qed

lemma replayed_next:
  assumes "0 \<le> t" "t \<le> maxStepDelayMs" "\<exists>qs. sent1 = sent @ qs \<and> length qs \<le> 1 \<and> (\<forall>q \<in> set qs. safe_replay url q)"
    and "replayed url steps sent1 (res, sent', slept)" "rr_Position x = sp_position s" "rr_Error x = []"
  shows "replayed url ((s, n) # steps) sent (x # res, sent', t + slept)"
proof -
  obtain qs qs' where q: "sent1 = sent @ qs" "length qs \<le> 1" "\<forall>q \<in> set qs. safe_replay url q" "sent' = sent1 @ qs'"
    "length qs' \<le> length steps" "\<forall>q \<in> set qs'. safe_replay url q"
    using assms(3,4) by (auto simp: replayed_def)
  have "sent' = sent @ (qs @ qs')" "length (qs @ qs') \<le> length ((s, n) # steps)" "\<forall>q \<in> set (qs @ qs'). safe_replay url q" using q by auto
  moreover have "t + slept \<le> maxStepDelayMs * int (length ((s, n) # steps))" "0 \<le> t + slept"
    using assms(1,2,4) by (simp_all add: replayed_def algebra_simps)
  ultimately show ?thesis using assms(4-6) unfolding replayed_def by (simp only: prod.case) (auto simp: butlast_append)
qed

lemma replaySteps_bounds: "replayed url steps sent (replaySteps env rp org url k steps w sent)"
proof (induction steps arbitrary: k sent)
  case (Cons x steps)
  obtain s n where x: "x = (s, n)" by fastforce
  define t where "t = (if sp_delay_ms s > 0 then (if sp_delay_ms s > maxStepDelayMs then maxStepDelayMs else sp_delay_ms s) else 0)"
  have t: "0 \<le> t" "t \<le> maxStepDelayMs" by (auto simp: t_def maxStepDelayMs_def)
  have nil: "\<exists>qs. sent = sent @ qs \<and> length qs \<le> 1 \<and> (\<forall>q \<in> set qs. safe_replay url q)" by simp
  show ?case
  proof (cases "t > 0 \<and> rp_done rp k \<or> (\<exists>e. pread (oe_out env (''bookmark:'' @ show_nat k)) (GetBookmarkForOrg (sp_bookmark_id s) org) w = Inl e)")
    case True
    then show ?thesis unfolding x replaySteps.simps Let_def t_def[symmetric] by (auto intro!: replayed_stop[OF t nil])
  next
    case False
    then obtain bm where bm: "\<not> (t > 0 \<and> rp_done rp k)" "pread (oe_out env (''bookmark:'' @ show_nat k)) (GetBookmarkForOrg (sp_bookmark_id s) org) w = Inr bm"
      by (cases "pread (oe_out env (''bookmark:'' @ show_nat k)) (GetBookmarkForOrg (sp_bookmark_id s) org) w") auto
    show ?thesis
    proof (cases "loadBookmarkRequestCore env k (bm_request_id bm) org w")
      case (Inl st)
      then show ?thesis unfolding x replaySteps.simps Let_def t_def[symmetric] bm(2) by (simp add: bm(1) replayed_stop[OF t nil])
    next
      case (Inr req)
      obtain r sent1 where r: "ReplayTo rp k req url sent = (r, sent1)" by fastforce
      obtain res sent' slept where q: "replaySteps env rp org url (Suc k) steps w sent1 = (res, sent', slept)" using prod_cases3 by blast
      note sent1 = ReplayTo_sent[OF r]
      show ?thesis unfolding x replaySteps.simps Let_def t_def[symmetric] bm(2)
        using replayed_stop[OF t sent1] replayed_next[OF t sent1 Cons.IH[of sent1 "Suc k", unfolded q]]
        by (cases r) (simp_all add: Inr bm(1) r q)
    qed
  qed
qed (simp add: replayed_def)


text \<open>
  A replay of a scenario is bounded and goes nowhere else. It changes no row; every request it sends goes to
  the given URL, which passed the URL guard, and carries neither a hop-by-hop header nor a redacted
  value; it sends at most one request for each step, sleeps at most a minute for each, and answers with the results of
  the first steps in their order, of which only the last can be an error.
\<close>

theorem replay_bounded:
  assumes "ReplayScenarioTo env rp p param body (w, sent) = (ans, w', sent')"
  shows "w' = w \<and> (sent' = sent \<and> (\<exists>e. ans = Inl e) \<or>
    (\<exists>url sc res slept. body = Some url \<and> ValidateDestinationURL (oe_url env url) = None \<and> uuid_Parse param = Some sc \<and>
       ans = Inr (200, res, slept) \<and> replayed url (ListScenarioSteps sc (pdb w)) sent (res, sent', slept)))"
  using with_id_cases[OF assms(1)[unfolded ReplayScenarioTo_def]]
proof (elim disjE exE conjE)
  fix q :: Principal and i
  assume i: "uuid_Parse param = Some i" and "(case (w, sent) of (w, sent) \<Rightarrow>
       case body of None \<Rightarrow> (Inl 400, w, sent) | Some url \<Rightarrow>
       if ValidateDestinationURL (oe_url env url) \<noteq> None then (Inl 400, w, sent)
       else case get_scenario env i (pr_OrgID q) w of Inl st \<Rightarrow> (Inl st, w, sent) | Inr _ \<Rightarrow>
            case pread (oe_out env ''steps'') (\<lambda>d. Inr (ListScenarioSteps i d)) w of Inl _ \<Rightarrow> (Inl 500, w, sent) | Inr steps \<Rightarrow>
            (let (res, sent, slept) = replaySteps env rp (pr_OrgID q) url 0 steps w sent in (Inr (200, res, slept), w, sent))) = (ans, w', sent')"
  then consider "w' = w" "sent' = sent" "\<exists>e. ans = Inl e"
    | url res slept where "body = Some url" "ValidateDestinationURL (oe_url env url) = None" "w' = w" "ans = Inr (200, res, slept)"
        "replaySteps env rp (pr_OrgID q) url 0 (ListScenarioSteps i (pdb w)) w sent = (res, sent', slept)"
    by (auto simp: pread_def split: option.splits sum.splits if_splits prod.splits)
  then show ?thesis
  proof cases
    case (2 url res slept)
    from replaySteps_bounds[of url "ListScenarioSteps i (pdb w)" sent env rp "pr_OrgID q" 0 w] 2 i show ?thesis by auto
  qed simp
qed simp

section \<open>Fixtures\<close>

lemma header_values_map: "header_values (map JStr vs) = Some vs"
  by (induction vs) simp_all

lemma header_members_map: "header_members (map (\<lambda>(k, vs). (k, JArr (map JStr vs))) hs) = Some hs"
  by (induction hs) (auto simp: header_values_map)

lemma go_map_of: "map_of (go_map hs) k = map_of (rev hs) k"
proof -
  have "map_of (fold (\<lambda>(k, v) m. AList.update k v m) hs m) k = map_of (rev hs @ m) k" for m
    by (induction hs arbitrary: m) (auto simp: update_conv' map_add_def split: option.split)
  from this[of "[]"] show ?thesis by (simp add: go_map_def)
qed

lemma distinct_go_map: "distinct (map fst (go_map hs))"
proof -
  have "distinct (map fst m) \<Longrightarrow> distinct (map fst (fold (\<lambda>(k, v) m. AList.update k v m) hs m))" for m
    by (induction hs arbitrary: m) (auto simp: distinct_update)
  from this[of "[]"] show ?thesis by (simp add: go_map_def)
qed

definition ascii_headers :: "headers \<Rightarrow> bool" where
  "ascii_headers h \<longleftrightarrow> list_all (\<lambda>(k, vs). ascii k \<and> list_all ascii vs) h"

lemma jok_headers: "jok (JObj (map (\<lambda>(k, vs). (k, JArr (map JStr vs))) h)) \<longleftrightarrow> ascii_headers h"
proof -
  have v: "jok_vs (map JStr vs) \<longleftrightarrow> list_all ascii vs" for vs by (induction vs) auto
  show ?thesis by (induction h) (auto simp: ascii_headers_def v)
qed

lemma update_new: "k \<notin> fst ` set m \<Longrightarrow> AList.update k v m = m @ [(k, v)]"
  by (induction m) auto

lemma go_map_distinct: "distinct (map fst hs) \<Longrightarrow> go_map hs = hs"
proof -
  have "distinct (map fst (m @ hs)) \<Longrightarrow> fold (\<lambda>(k, v) m. AList.update k v m) hs m = m @ hs" for m
    by (induction hs arbitrary: m) (auto simp: update_new)
  from this [of "[]"] show "distinct (map fst hs) \<Longrightarrow> go_map hs = hs" by (simp add: go_map_def)
qed

lemma distinct_unmarshal: "distinct (map fst (unmarshalHeaders raw))"
  by (simp add: unmarshalHeaders_def distinct_go_map split: option.split jval.split)

lemma get_headers_map:
  assumes "jget ms ''headers'' = Some (JObj (map (\<lambda>(k, vs). (k, JArr (map JStr vs))) hs))" "distinct (map fst hs)"
  shows "get_headers ms = Some hs"
  using assms by (simp add: get_headers_def header_members_map go_map_distinct)

lemma unmarshal_marshal:
  assumes "ascii_headers h"
  shows "unmarshalHeaders (marshalHeader h) = go_map (sort_key fst h)"
proof -
  have a: "ascii_headers (sort_key fst h)" using assms by (simp add: ascii_headers_def list_all_iff)
  have "marshalHeader h \<noteq> []" using jshow_pos by (simp add: marshalHeader_def del: jshow.simps)
  then show ?thesis
    using jparse_show[OF jok_headers[THEN iffD2, OF a]] by (simp add: unmarshalHeaders_def marshalHeader_def header_members_map del: jshow.simps)
qed

lemma headers_roundtrip:
  assumes "ascii_headers h" "distinct (map fst h)"
  shows "map_of (unmarshalHeaders (marshalHeader h)) = map_of h"
proof -
  have d: "distinct (map fst (sort_key fst h))" using assms(2) by (simp add: distinct_map)
  have "map_of (unmarshalHeaders (marshalHeader h)) = map_of (rev (sort_key fst h))"
    by (simp add: unmarshal_marshal[OF assms(1)] go_map_of fun_eq_iff)
  also have "\<dots> = map_of h" using assms(2) d by (intro map_of_inject_set[THEN iffD2]) (simp_all add: distinct_rev rev_map[symmetric])
  finally show ?thesis .
qed

text \<open>
  What a client posts to import a fixture: the members of the exported document, with the source and the name of the new bookmark.
\<close>

definition fixture_req :: "bytes \<Rightarrow> string \<Rightarrow> string \<Rightarrow> bytes" where
  "fixture_req doc source name =
     (case jparse doc of
        Some (JObj ms) \<Rightarrow> jshow (JObj (ms @ [(''source_id'', JStr source), (''name'', JStr name)]))
      | _ \<Rightarrow> [])"

text \<open>The import decodes what the export wrote, member by member.\<close>

abbreviation fixture_members :: "bookmark_Request \<Rightarrow> string \<Rightarrow> string \<Rightarrow> (string \<times> jval) list" where
  "fixture_members req source name \<equiv>
     [(''method'', JStr (br_Method req)), (''path'', JStr (br_Path req)), (''headers'', headers_json (br_Headers req)),
      (''content_type'', JStr (br_ContentType req)), (''body_base64'', JStr (b64_encode std_alphabet True (br_Body req))),
      (''source_id'', JStr source), (''name'', JStr name)]"

lemma export_jok: "ascii (Export req) \<Longrightarrow> jok (exportJSON_json (export_of req))"
  using jok_indent(1) by (simp only: Export_def MarshalIndent_def)

lemma fixture_req_text:
  assumes "ascii (Export req)" "ascii source" "ascii name"
  shows "fixture_req (Export req) source name = jshow (JObj (fixture_members req source name))"
    and "jok (JObj (fixture_members req source name))"
proof -
  have "jparse (Export req) = Some (exportJSON_json (export_of req))"
    unfolding Export_def by (rule jparse_indent [OF export_jok [OF assms(1)]])
  then show "fixture_req (Export req) source name = jshow (JObj (fixture_members req source name))"
    by (simp add: fixture_req_def exportJSON_json_def export_of_def del: jshow.simps)
  show "jok (JObj (fixture_members req source name))"
    using export_jok [OF assms(1)] assms(2,3) by (simp add: exportJSON_json_def export_of_def) (simp add: ascii_def)
qed

lemma export_decoded:
  assumes "ascii (Export req)" "ascii source" "ascii name" "distinct (map fst (br_Headers req))"
    and "length (fixture_req (Export req) source name) \<le> maxImportRequest"
  shows "Option.bind (jdecode (take maxImportRequest (fixture_req (Export req) source name))) importBookmarkReq_of =
      Some \<lparr>im_source_id = source, im_name = name, im_description = [], im_tags = [], im_method = br_Method req, im_path = br_Path req,
        im_headers = sort_key fst (br_Headers req), im_content_type = br_ContentType req,
        im_body_base64 = b64_encode std_alphabet True (br_Body req)\<rparr>"
    and "ascii_headers (sort_key fst (br_Headers req))"
proof -
  note x = fixture_req_text [OF assms(1-3)]
  have "jdecode (take maxImportRequest (fixture_req (Export req) source name)) = Some (JObj (fixture_members req source name))"
    using assms(5) jdecode_parse [OF jparse_show [OF x(2)]] by (simp add: x(1) del: jshow.simps)
  moreover have "get_headers (fixture_members req source name) = Some (sort_key fst (br_Headers req))"
    by (rule get_headers_map) (use assms(4) in \<open>simp_all add: jget_def headers_json_def distinct_map\<close>)
  ultimately show "Option.bind (jdecode (take maxImportRequest (fixture_req (Export req) source name))) importBookmarkReq_of =
      Some \<lparr>im_source_id = source, im_name = name, im_description = [], im_tags = [], im_method = br_Method req, im_path = br_Path req,
        im_headers = sort_key fst (br_Headers req), im_content_type = br_ContentType req,
        im_body_base64 = b64_encode std_alphabet True (br_Body req)\<rparr>"
    by (simp add: importBookmarkReq_of_def get_str_def get_strings_def jget_def)
  show "ascii_headers (sort_key fst (br_Headers req))"
    using x(2) jok_headers [of "sort_key fst (br_Headers req)"] by (simp add: headers_json_def)
qed

lemma storeRequest_True:
  assumes "storeRequest env r body w = (True, w')"
  shows "find_req (rq_id r) (pdb w) = None \<and> t_sources (pdb w') = t_sources (pdb w) \<and>
    t_requests (pdb w') = t_requests (pdb w) @ [r\<lparr>rq_received_at := oe_now env\<rparr>] \<and> GetRequestBody (rq_id r) (pdb w') = Inr body"
proof -
  obtain req w1 x where c: "pstmt (oe_out env ''request'') (CreateRequest (oe_now env) r) w = (Inr req, w1)"
    "pstmt IoOk (body_Put (oe_out env ''body'') (oe_now env) (rq_id req) body) w1 = (Inr x, w')"
    using assms by (auto simp: storeRequest_def split: prod.splits sum.splits)
  note r = CreateRequest_Inr[OF conjunct1[OF pstmt_Inr[OF c(1)]]]
  have "InsertRequestBody (oe_now env) (rq_id req) body (pdb w1) = (Inr (), pdb w')"
    using conjunct1[OF pstmt_Inr[OF c(2)]] by (cases "oe_out env ''body''") (auto simp: body_Put_def prod_eq_iff split: prod.splits sum.splits option.splits)
  note b = InsertRequestBody_Inr[OF this]
  have "GetRequestBody (rq_id r) (pdb w') = Inr body" using conjunct2[OF b] conjunct1[OF r] by simp
  then show ?thesis using conjunct1[OF b] r by simp
qed

lemma CreateBookmark_Inr:
  assumes "CreateBookmark now i org r name descr tags d = (Inr bm, d')"
  shows "bm_request_id bm = r" "bm_name bm = name" "t_requests d' = t_requests d" "t_bodies d' = t_bodies d" "t_sources d' = t_sources d"
  using assms by (auto simp: CreateBookmark_def insert_bookmark_def split: if_splits)

lemma ImportBookmark_Inr:
  assumes "ImportBookmark env p text w = (Inr (201, bm), w')" "Option.bind (jdecode (take maxImportRequest text)) importBookmarkReq_of = Some b"
  obtains q :: Principal and src raw where "p = Some q" "b64_decode std_alphabet True (im_body_base64 b) = Some raw" "bm_request_id bm = oe_newid env" "bm_name bm = im_name b"
    "list_ex (\<lambda>s. so_id s = src \<and> so_org_id s = pr_OrgID q) (t_sources (pdb w'))" "find_req (oe_newid env) (pdb w) = None"
    "t_requests (pdb w') = t_requests (pdb w) @ [new_request env (oe_newid env) src (im_method b) (im_path b) (marshalHeader (im_headers b))
       (if im_content_type b = [] then None else Some (im_content_type b)) raw]" "GetRequestBody (oe_newid env) (pdb w') = Inr raw"
proof -
  obtain q :: Principal and src raw s w1 where q: "p = Some q" "GetSourceForOrg src (pr_OrgID q) (pdb w) = Inr s"
    "b64_decode std_alphabet True (im_body_base64 b) = Some raw"
    "storeRequest env (new_request env (oe_newid env) src (im_method b) (im_path b) (marshalHeader (im_headers b))
      (if im_content_type b = [] then None else Some (im_content_type b)) raw) raw w = (True, w1)"
    "pstmt (oe_out env ''create'') (CreateBookmark (oe_now env) (oe_delid env 0) (pr_OrgID q) (oe_newid env) (im_name b) (im_description b) (im_tags b)) w1 = (Inr bm, w')"
    using assms(1) unfolding ImportBookmark_def assms(2)
    by (elim active_org_Inr) (auto split: if_splits option.splits sum.splits prod.splits bool.splits dest!: pread_Inr)
  have "CreateBookmark (oe_now env) (oe_delid env 0) (pr_OrgID q) (oe_newid env) (im_name b) (im_description b) (im_tags b) (pdb w1) = (Inr bm, pdb w')"
    using pstmt_Inr[OF q(5)] by blast
  note c = CreateBookmark_Inr[OF this]
  have "GetRequestBody i (pdb w') = GetRequestBody i (pdb w1)" for i by (simp add: GetRequestBody_def c)
  moreover have "list_ex (\<lambda>s. so_id s = src \<and> so_org_id s = pr_OrgID q) (t_sources (pdb w))"
    using one_row_set[OF q(2)[unfolded GetSourceForOrg_def]] by (auto simp: list_ex_iff)
  ultimately show ?thesis using that[of q raw src] q c storeRequest_True[OF q(4)] by (simp add: new_request_def)
qed

text \<open>
  C25: A fixture survives export and import. When the document that the export of a bookmark answers is parsed and its members
  are posted, with a source and a name, as a new bookmark (possibly by another organization and into another database), then the
  request that a replay of the new bookmark loads has the method, the path, the headers, the content type and the body of the
  request that was exported. The document, the source and the name are taken to be ASCII text, the posted request to be within
  the import limit, and the new identifier to be a canonical UUID.
\<close>

theorem fixture_roundtrip:
  assumes "ExportBookmark env p param w = (Inr (200, doc, file), w1)" "ascii doc" "ascii source" "ascii name"
    and "length (fixture_req doc source name) \<le> maxImportRequest"
    and "ImportBookmark env2 (Some p2) (fixture_req doc source name) w2 = (Inr (201, bm), w3)"
    and "uuid_Parse (oe_newid env2) = Some (oe_newid env2)" "\<And>x. oe_out env3 x = IoOk"
  shows "\<exists>i org bm0 breq breq2. uuid_Parse param = Some i \<and> GetBookmarkForOrg i org (pdb w) = Inr bm0 \<and>
    loadBookmarkRequestCore env 0 (bm_request_id bm0) org w = Inr breq \<and> bm_name bm = name \<and>
    loadBookmarkRequestCore env3 k (bm_request_id bm) (pr_OrgID p2) w3 = Inr breq2 \<and>
    br_Method breq2 = br_Method breq \<and> br_Path breq2 = br_Path breq \<and> map_of (br_Headers breq2) = map_of (br_Headers breq) \<and>
    br_ContentType breq2 = br_ContentType breq \<and> br_Body breq2 = br_Body breq"
proof -
  obtain q :: Principal and i bm0 breq where e: "uuid_Parse param = Some i" "GetBookmarkForOrg i (pr_OrgID q) (pdb w) = Inr bm0"
    "loadBookmarkRequestCore env 0 (bm_request_id bm0) (pr_OrgID q) w = Inr breq" "doc = Export breq"
    using assms(1) unfolding ExportBookmark_def
    by (elim with_id_Inr) (auto simp: get_bookmark_def split: sum.splits dest!: pread_Inr)
  have d: "distinct (map fst (br_Headers breq))"
    using e(3) by (auto simp: loadBookmarkRequestCore_def distinct_unmarshal split: sum.splits)
  let ?hs = "sort_key fst (br_Headers breq)"
  note x = export_decoded [OF assms(2) [unfolded e(4)] assms(3,4) d assms(5) [unfolded e(4)]]
  obtain src raw where m: "b64_decode std_alphabet True (b64_encode std_alphabet True (br_Body breq)) = Some raw" "bm_request_id bm = oe_newid env2" "bm_name bm = name"
    "list_ex (\<lambda>s. so_id s = src \<and> so_org_id s = pr_OrgID p2) (t_sources (pdb w3))" "find_req (oe_newid env2) (pdb w2) = None"
    "t_requests (pdb w3) = t_requests (pdb w2) @ [new_request env2 (oe_newid env2) src (br_Method breq) (br_Path breq) (marshalHeader ?hs)
       (if br_ContentType breq = [] then None else Some (br_ContentType breq)) raw]" "GetRequestBody (oe_newid env2) (pdb w3) = Inr raw"
    by (rule ImportBookmark_Inr [OF assms(6) [unfolded e(4)] x(1)]) simp
  have raw: "raw = br_Body breq" using m(1) b64_roundtrip [OF std_ok, of True "br_Body breq"] by simp
  have "map_of (unmarshalHeaders (marshalHeader ?hs)) = map_of ?hs"
    by (rule headers_roundtrip [OF x(2)]) (use d in \<open>simp add: distinct_map\<close>)
  also have "\<dots> = map_of (br_Headers breq)" using d by (intro map_of_inject_set [THEN iffD2]) (simp_all add: distinct_map)
  finally have h: "map_of (unmarshalHeaders (marshalHeader ?hs)) = map_of (br_Headers breq)" .
  have n: "oe_newid env2 \<noteq> []" using assms(7) uuid_length[of "[]"] by (auto simp: uuid_Parse_def)
  have "find (\<lambda>r. rq_id r = oe_newid env2 \<and> list_ex (\<lambda>s. so_id s = rq_source_id r \<and> so_org_id s = pr_OrgID p2) (t_sources (pdb w3))) (t_requests (pdb w2)) = None"
    using m(5) by (auto simp: find_req_def find_None_iff)
  then have "GetRequestForReplay (oe_newid env2) (pr_OrgID p2) (pdb w3) = Inr (last (t_requests (pdb w3)))"
    using m(4) by (simp add: GetRequestForReplay_def one_row_def m(6) find_append) (simp add: new_request_def)
  then have "loadBookmarkRequestCore env3 k (bm_request_id bm) (pr_OrgID p2) w3 =
    Inr \<lparr>br_SourceID = src, br_Method = br_Method breq, br_Path = br_Path breq, br_Headers = unmarshalHeaders (marshalHeader ?hs), br_Body = raw,
      br_ContentType = br_ContentType breq\<rparr>"
    using assms(7) by (simp add: loadBookmarkRequestCore_def pread_def assms(8) m(2,6,7)) (simp add: new_request_def body_Get_def m(7) opt_default_def n)
  then show ?thesis using e(1-3) raw h m(3)
    by - (rule exI[of _ i], rule exI[of _ "pr_OrgID q"], rule exI[of _ bm0], rule exI[of _ breq], simp)
qed


section \<open>A concrete scenario\<close>

definition bm1 :: bookmark_row where
  "bm1 = \<lparr>bm_id = id_bob, bm_org_id = id_org, bm_request_id = id_cy, bm_name = ''n'', bm_description = [], bm_tags = [], bm_rule_id = None,
     bm_created_at = 0\<rparr>"

definition sc1 :: scenario_row where
  "sc1 = \<lparr>sn_id = id_ann, sn_org_id = id_org, sn_name = ''s'', sn_description = [], sn_created_at = 0, sn_updated_at = 0\<rparr>"

definition pdb1 :: db where
  "pdb1 = pdb0\<lparr>t_requests := [req0\<lparr>rq_id := id_cy, rq_body_ref := ''pg:'' @ id_cy, rq_source_id := id_ann,
       rq_headers := marshalHeader [(''X-A'', [''1'', ''2''])], rq_content_type := Some ''text/plain''\<rparr>],
     t_bodies := [\<lparr>bd_request_id = id_cy, bd_body = Some ''{}'', bd_stored_at = 0\<rparr>], t_bookmarks := [bm1], t_scenarios := [sc1],
     t_steps := [\<lparr>sp_scenario_id = id_ann, sp_position = 0, sp_bookmark_id = id_bob, sp_delay_ms = 5\<rparr>]\<rparr>"

definition pw1 :: "mem pworld" where
  "pw1 = set_pdb pdb1 pw0"

lemma pw1_sel:
  "pdb pw1 = pdb1" "t_bookmarks pdb1 = [bm1]" "t_scenarios pdb1 = [sc1]" "t_sources pdb1 = [src1]"
  "t_steps pdb1 = [\<lparr>sp_scenario_id = id_ann, sp_position = 0, sp_bookmark_id = id_bob, sp_delay_ms = 5\<rparr>]"
  by (simp_all add: pw1_def pdb1_def pdb0_def db0_def)

lemma ids_Parse': "uuid_Parse id_bob = Some id_bob" "uuid_Parse id_org = Some id_org" "uuid_Parse id_cy = Some id_cy"
  unfolding id_bob_def id_org_def id_cy_def by code_simp+

definition steps1 :: "scenarioStepInput list" where
  "steps1 = [\<lparr>si_bookmark_id = id_bob, si_delay_ms = 7\<rparr>, \<lparr>si_bookmark_id = id_bob, si_delay_ms = 0\<rparr>]"

definition patch1 :: patchScenarioReq where
  "patch1 = \<lparr>px_name = None, px_description = None, px_steps = Some steps1\<rparr>"

lemma scenario1: "get_scenario (oenv0 i) id_ann id_org pw1 = Inr sc1" "get_scenario url_env0 id_ann id_org pw1 = Inr sc1"
  by (simp_all add: get_scenario_def pread_def oenv0_sel url_env0_def GetScenarioForOrg_def one_row_def pw1_sel sc1_def)

lemma valid1: "validateSteps (oenv0 i) id_org steps1 pw1 = Inr [id_bob, id_bob]"
  by (simp add: validateSteps_def steps1_def maxScenarioSteps_def ids_Parse' pread_def oenv0_sel GetBookmarkForOrg_def one_row_def pw1_sel
      bm1_def minStepDelayMs_def maxStepDelayMs_def)

theorem scenario_steps_atomic_witness:
  "\<exists>x rows w'. PatchScenario (oenv0 ''x'') id (caller0 id_org) id_ann (Some patch1) pw1 = (Inr (200, x, rows), w') \<and>
     steps_saved id_ann steps1 pdb1 (pdb w') \<and> rows = ListScenarioSteps id_ann (pdb w')"
proof -
  have s: "set_pdb (id (pdb pw1)) pw1 = pw1" by (simp add: set_pdb_def)
  obtain x rows w' where r: "PatchScenario (oenv0 ''x'') id (caller0 id_org) id_ann (Some patch1) pw1 = (Inr (200, x, rows), w')"
    unfolding PatchScenario_def with_id0 scenario1 sum.case option.case s
    by (simp add: patch1_def valid1 opt_default_def sc1_def, simp add: sc1_def saveScenario_def in_tx_def scenario_tx_def tx_stmt_def oenv0_sel UpdateScenario_def
        one_row_def pw1_sel writeSteps_def steps1_def DeleteScenarioSteps_def InsertScenarioStep_def bm1_def upd_where_def pread_def Let_def)
  have "px_steps patch1 = Some steps1" "distinct (map bm_id (t_bookmarks (id (pdb pw1))))" by (simp_all add: patch1_def pw1_sel)
  from scenario_steps_atomic[OF r this] r show ?thesis by (auto simp: ids_Parse pw1_sel)
qed

lemma url_env0_out: "oe_out url_env0 x = IoOk"
  by (simp add: url_env0_def oenv0_sel)

definition rp1 :: replay_env where
  "rp1 = \<lparr>rp_newreq = (\<lambda>_. True), rp_http = (\<lambda>_ _. Some \<lparr>rs_status = 200, rs_headers = [], rs_body = []\<rparr>), rp_ms = (\<lambda>_. 1), rp_done = (\<lambda>_. False)\<rparr>"

theorem replay_bounded_witness:
  "\<exists>res slept sent. ReplayScenarioTo url_env0 rp1 (caller0 id_org) id_ann (Some ''https://x'') (pw1, []) = (Inr (200, res, slept), pw1, sent) \<and>
     replayed ''https://x'' (ListScenarioSteps id_ann pdb1) [] (res, sent, slept)"
proof -
  have v: "ValidateDestinationURL (oe_url url_env0 ''https://x'') = None" by (simp add: url_env0_def parse0_def ValidateDestinationURL_def)
  obtain ans w' sent where r: "ReplayScenarioTo url_env0 rp1 (caller0 id_org) id_ann (Some ''https://x'') (pw1, []) = (ans, w', sent)"
    using prod_cases3 by blast
  have "\<exists>y. ans = Inr y" using r
    unfolding ReplayScenarioTo_def with_id0 prod.case option.case scenario1 sum.case
    by (auto simp: v pread_def url_env0_out simp del: not_None_eq split: prod.splits)
  then show ?thesis using replay_bounded[OF r] r by (auto simp: ids_Parse pw1_sel)
qed

definition breq1 :: bookmark_Request where
  "breq1 = \<lparr>br_SourceID = id_ann, br_Method = ''POST'', br_Path = ''/'', br_Headers = [(''X-A'', [''1'', ''2''])], br_Body = ''{}'',
     br_ContentType = ''text/plain''\<rparr>"

lemma headers1: "unmarshalHeaders (marshalHeader [(''X-A'', [''1'', ''2''])]) = [(''X-A'', [''1'', ''2''])]"
  by (simp add: unmarshal_marshal ascii_headers_def ascii_def go_map_def)

lemma load1: "loadBookmarkRequestCore (oenv0 i) 0 id_cy id_org pw1 = Inr breq1"
proof -
  let ?r = "req0\<lparr>rq_id := id_cy, rq_body_ref := ''pg:'' @ id_cy, rq_source_id := id_ann,
       rq_headers := marshalHeader [(''X-A'', [''1'', ''2''])], rq_content_type := Some ''text/plain''\<rparr>"
  have "GetRequestForReplay id_cy id_org pdb1 = Inr ?r" "GetRequestBody id_cy pdb1 = Inr ''{}''"
    by (simp_all add: GetRequestForReplay_def one_row_def GetRequestBody_def pdb1_def pdb0_def src1_def)
  moreover have "id_cy \<noteq> []" by (simp add: id_cy_def)
  ultimately show ?thesis
    by (simp add: loadBookmarkRequestCore_def pread_def oenv0_sel pw1_sel body_Get_def breq1_def req0_def opt_default_def headers1)
qed

definition post1 :: bytes where
  "post1 = fixture_req (Export breq1) id_ann ''copy''"

lemma quote_length: "length (quote s) \<le> 6 * length s + 2"
proof -
  have "length (concat (map escape s)) \<le> 6 * length s" by (induction s) (auto simp: escape_def)
  then show ?thesis by (simp add: quote_def)
qed

lemma post1_ok: "ascii (Export breq1)" "length post1 \<le> maxImportRequest" "ascii id_ann" "ascii ''copy''"
proof -
  let ?b = "b64_encode std_alphabet True ''{}''"
  let ?h = "headers_json [(''X-A'', [''1'', ''2''])]"
  have e: "exportJSON_json (export_of breq1) = JObj [(''method'', JStr ''POST''), (''path'', JStr ''/''), (''headers'', ?h),
      (''content_type'', JStr ''text/plain''), (''body_base64'', JStr ?b)]"
    by (simp add: exportJSON_json_def export_of_def breq1_def del: b64_encode.simps)
  have h: "?h = JObj [(''X-A'', JArr [JStr ''1'', JStr ''2''])]" by (simp add: headers_json_def)
  have "jok ?h" unfolding h by (simp add: ascii_def)
  then have "jok (exportJSON_json (export_of breq1))"
    unfolding e by (simp add: ascii_b64 del: b64_encode.simps) (simp add: ascii_def)
  then show d: "ascii (Export breq1)" unfolding Export_def MarshalIndent_def by (rule ascii_indent)
  show a: "ascii id_ann" "ascii ''copy''" by (simp_all add: ascii_def id_ann_def)
  have b: "length ?b \<le> 4" by simp
  have q: "length (quote s) \<le> n" if "6 * length s + 2 \<le> n" for s n using that quote_length [of s] by simp
  have "length (jshow ?h) \<le> 100"
    unfolding h using quote_length [of "''X-A''"] quote_length [of "''1''"] quote_length [of "''2''"] by simp
  then have "length post1 \<le> 2000"
    unfolding post1_def fixture_req_text(1) [OF d a]
    using b q [of ?b 26] q [of "''method''" 100] q [of "''path''" 100] q [of "''headers''" 100] q [of "''content_type''" 100] q [of "''body_base64''" 100]
      q [of "''source_id''" 100] q [of "''name''" 100] q [of "''POST''" 100] q [of "''/''" 100] q [of "''text/plain''" 100] q [of id_ann 300] q [of "''copy''" 100]
    by (simp add: breq1_def id_ann_def del: b64_encode.simps)
  then show "length post1 \<le> maxImportRequest" by (simp add: maxImportRequest_def)
qed

definition import1 :: importBookmarkReq where
  "import1 = \<lparr>im_source_id = id_ann, im_name = ''copy'', im_description = [], im_tags = [], im_method = ''POST'', im_path = ''/'',
     im_headers = [(''X-A'', [''1'', ''2''])], im_content_type = ''text/plain'', im_body_base64 = b64_encode std_alphabet True ''{}''\<rparr>"

lemma decoded1: "Option.bind (jdecode (take maxImportRequest post1)) importBookmarkReq_of = Some import1"
  using export_decoded(1) [OF post1_ok(1,3,4), folded post1_def] post1_ok(2) by (simp add: breq1_def import1_def)

lemma import1_sel:
  "im_source_id import1 = id_ann" "im_name import1 = ''copy''" "im_description import1 = []" "im_tags import1 = []" "im_method import1 = ''POST''"
  "im_path import1 = ''/''" "im_headers import1 = [(''X-A'', [''1'', ''2''])]" "im_content_type import1 = ''text/plain''"
  "b64_decode std_alphabet True (im_body_base64 import1) = Some ''{}''"
  using b64_roundtrip[OF std_ok, of True "''{}''"] by (simp_all add: import1_def)

theorem fixture_roundtrip_witness:
  "\<exists>doc file bm w3 breq2. ExportBookmark (oenv0 ''x'') (caller0 id_org) id_bob pw1 = (Inr (200, doc, file), pw1) \<and>
     ImportBookmark (oenv0 id_org) (caller0 id_org) (fixture_req doc id_ann ''copy'') pw1 = (Inr (201, bm), w3) \<and>
     loadBookmarkRequestCore (oenv0 ''x'') 0 (bm_request_id bm) id_org w3 = Inr breq2 \<and>
     br_Method breq2 = ''POST'' \<and> br_Path breq2 = ''/'' \<and> map_of (br_Headers breq2) ''X-A'' = Some [''1'', ''2''] \<and>
     br_ContentType breq2 = ''text/plain'' \<and> br_Body breq2 = ''{}''"
proof -
  have g: "GetBookmarkForOrg id_bob org (pdb pw1) = Inr bm0 \<Longrightarrow> bm0 = bm1 \<and> org = id_org" for org bm0
    by (auto simp: GetBookmarkForOrg_def one_row_def pw1_sel bm1_def split: if_splits)
  obtain fname where e: "ExportBookmark (oenv0 ''x'') (caller0 id_org) id_bob pw1 = (Inr (200, Export breq1, fname), pw1)"
    unfolding ExportBookmark_def
    by (simp add: with_id_def active_org_def ids_Parse get_bookmark_def pread_def oenv0_sel GetBookmarkForOrg_def one_row_def pw1_sel bm1_def load1)
  have f: "find_req id_org pdb1 = None" "find_source id_ann pdb1 = Some src1"
    by (simp_all add: find_req_def find_source_def pdb1_def pdb0_def src1_def id_cy_def id_org_def)
  obtain bm w3 where i: "ImportBookmark (oenv0 id_org) (caller0 id_org) post1 pw1 = (Inr (201, bm), w3)"
  proof -
    have s: "GetSourceForOrg id_ann id_org pdb1 = Inr src1" by (simp add: GetSourceForOrg_def one_row_def pw1_sel src1_def)
    have "\<exists>w1. storeRequest (oenv0 id_org) (new_request (oenv0 id_org) id_org id_ann a b hd ct ''{}'') ''{}'' pw1 = (True, w1) \<and>
        t_bookmarks (pdb w1) = [bm1] \<and> find_req id_org (pdb w1) \<noteq> None" for a b hd ct
      using f by (simp add: storeRequest_def pstmt_def oenv0_sel CreateRequest_def pw1_sel new_request_def body_Put_def InsertRequestBody_def find_req_def
          find_append Let_def pdb1_def pdb0_def db0_def find_source_def id_cy_def id_org_def)
    then obtain w1 where w1: "storeRequest (oenv0 id_org) (new_request (oenv0 id_org) id_org id_ann ''POST'' ''/''
        (marshalHeader [(''X-A'', [''1'', ''2''])]) (Some ''text/plain'') ''{}'') ''{}'' pw1 = (True, w1)"
        "t_bookmarks (pdb w1) = [bm1]" "find_req id_org (pdb w1) \<noteq> None" by metis
    have "\<exists>bm w3. pstmt IoOk (CreateBookmark x y id_org id_org ''copy'' [] []) w1 = (Inr bm, w3)" for x y
      using w1(2,3) by (simp add: pstmt_def CreateBookmark_def insert_bookmark_def bm1_def Let_def)
    then obtain bm w3 where b: "pstmt IoOk (CreateBookmark (oe_now (oenv0 id_org)) (oe_delid (oenv0 id_org) 0) id_org id_org ''copy'' [] []) w1 = (Inr bm, w3)"
      by blast
    have "id_ann \<noteq> []" by (simp add: id_ann_def)
    then have "ImportBookmark (oenv0 id_org) (caller0 id_org) post1 pw1 = (Inr (201, bm), w3)"
      using w1(1) b unfolding ImportBookmark_def active_org_def decoded1
      by (simp add: ids_Parse pread_def oenv0_sel pw1_sel s import1_sel maxImportBody_def)
    then show ?thesis by (rule that)
  qed
  from fixture_roundtrip[OF e post1_ok(1,3,4) post1_ok(2) [unfolded post1_def] i [unfolded post1_def], of "oenv0 ''x''" 0]
  obtain org bm0 breq breq2 where l: "GetBookmarkForOrg id_bob org (pdb pw1) = Inr bm0"
    "loadBookmarkRequestCore (oenv0 ''x'') 0 (bm_request_id bm0) org pw1 = Inr breq"
    "loadBookmarkRequestCore (oenv0 ''x'') 0 (bm_request_id bm) id_org w3 = Inr breq2" "br_Method breq2 = br_Method breq" "br_Path breq2 = br_Path breq"
    "map_of (br_Headers breq2) = map_of (br_Headers breq)" "br_ContentType breq2 = br_ContentType breq" "br_Body breq2 = br_Body breq"
    by (auto simp: oenv0_sel)
  have "breq = breq1" using g[OF l(1)] l(2) load1 by (simp add: bm1_def)
  then show ?thesis using e i [unfolded post1_def] l(3-)
    by (intro exI conjI) (assumption | simp add: breq1_def)+
qed

end
