(* ===== verification/Mailer.thy ===== *)
theory Mailer
  imports Opevents
begin

text \<open>
  Transactional mail, src/internal/mailer: the task that the identity handlers put into the delivery queue
  (enqueue.go), and the handler that the worker runs on it (handler.go, render.go). The rendering of the embedded
  templates and the SMTP client are parameters; the messages handed to the client are recorded.
\<close>

section \<open>Tasks\<close>

definition emailKind :: string where "emailKind = ''email''"

record emailTask =
  em_Template :: string
  em_To :: string
  em_Vars :: "(string \<times> jval) list"

text \<open>\<open>vars\<close> is left out when it is empty; a Go map is written in the order of its keys.\<close>

definition emailTask_json :: "emailTask \<Rightarrow> bytes" where
  "emailTask_json t =
     jshow (JObj ([(''template'', JStr (em_Template t)), (''to'', JStr (em_To t))] @
       (if em_Vars t = [] then [] else [(''vars'', JObj (sort_key fst (em_Vars t)))])))"

definition buildEmailTask :: "string \<Rightarrow> string \<Rightarrow> (string \<times> jval) list \<Rightarrow> string \<Rightarrow> payload" where
  "buildEmailTask name to vars org =
     \<lparr>p_EventID = uuid_Nil, p_OrgID = org, p_Attempt = 0, p_EnqueuedAt = 0, p_Manual = False, p_RetryStrategy = [], p_RetryBaseMs = 0,
      p_RetryCapMs = 0, p_RetryJitterPct = 0, p_CustomRetrySchedule = [], p_Trace = [], p_Kind = emailKind,
      p_Data = emailTask_json \<lparr>em_Template = name, em_To = to, em_Vars = vars\<rparr>\<rparr>"

text \<open>Without a queue the mail is dropped.\<close>

definition mailer_Enqueue ::
  "'r redis \<Rightarrow> client option \<Rightarrow> io \<Rightarrow> (string \<times> string) list \<Rightarrow> string \<Rightarrow> string \<Rightarrow> (string \<times> jval) list \<Rightarrow> string \<Rightarrow> 'r \<Rightarrow>
     go_error option \<times> 'r" where
  "mailer_Enqueue R q o1 tr name to vars org s =
     (case q of None \<Rightarrow> (None, s) | Some c \<Rightarrow> Enqueue R payload_json c o1 tr (buildEmailTask name to vars org) s)"

definition emailTask_of :: "bytes \<Rightarrow> emailTask option" where
  "emailTask_of raw =
     (case jparse raw of
        Some JNull \<Rightarrow> Some \<lparr>em_Template = [], em_To = [], em_Vars = []\<rparr>
      | Some (JObj ms) \<Rightarrow>
          (case (get_str ms ''template'', get_str ms ''to'', jget ms ''vars'') of
             (Some t, Some a, None) \<Rightarrow> Some \<lparr>em_Template = t, em_To = a, em_Vars = []\<rparr>
           | (Some t, Some a, Some JNull) \<Rightarrow> Some \<lparr>em_Template = t, em_To = a, em_Vars = []\<rparr>
           | (Some t, Some a, Some (JObj vs)) \<Rightarrow> Some \<lparr>em_Template = t, em_To = a, em_Vars = vs\<rparr>
           | _ \<Rightarrow> None)
      | _ \<Rightarrow> None)"

section \<open>The handler\<close>

record Message =
  mm_To :: string
  mm_Subject :: string
  mm_HTML :: string
  mm_Text :: string

definition subjects :: "(string \<times> string) list" where
  "subjects = [(''magic_link'', ''Sign in to dstream''), (''invite'', ''You'' @ CHR 0x27 # ''ve been invited to dstream'')]"

text \<open>\<open>exec\<close> executes the HTML and the text template of a name, with the given variables.\<close>

definition Render :: "(string \<Rightarrow> (string \<times> jval) list \<Rightarrow> (string \<times> string) option) \<Rightarrow> string \<Rightarrow> (string \<times> jval) list \<Rightarrow> Message option" where
  "Render exec name vars =
     (case map_of subjects name of
        None \<Rightarrow> None
      | Some subj \<Rightarrow> map_option (\<lambda>(html, text). \<lparr>mm_To = [], mm_Subject = subj, mm_HTML = html, mm_Text = text\<rparr>) (exec name vars))"

definition emailBackoff :: "int list" where
  "emailBackoff = [60 * second, 5 * 60 * second]"

record EmailHandler =
  eh_queue :: client
  eh_Sender :: bool

record eenv =
  ee_exec :: "string \<Rightarrow> (string \<times> jval) list \<Rightarrow> (string \<times> string) option"
  ee_send :: "Message \<Rightarrow> bool"
  ee_now :: int
  ee_ack :: io
  ee_dead :: io
  ee_sched :: io

text \<open>The queue and the messages handed to the SMTP client.\<close>

record 'r eworld =
  ew_redis :: 'r
  ew_mails :: "Message list"

definition e_queue :: "('r \<Rightarrow> go_error option \<times> 'r) \<Rightarrow> 'r eworld \<Rightarrow> go_error option \<times> 'r eworld" where
  "e_queue f w = (let (r, s) = f (ew_redis w) in (r, w\<lparr>ew_redis := s\<rparr>))"

text \<open>A negative attempt count would index the back-off table out of range; \<open>None\<close> stands for the panic.\<close>

definition Process_email ::
  "'r redis \<Rightarrow> EmailHandler \<Rightarrow> eenv \<Rightarrow> payload \<Rightarrow> string \<Rightarrow> 'r eworld \<Rightarrow> go_error option option \<times> 'r eworld" where
  "Process_email R h env p raw w =
     (let dead = e_queue (DeadLetter R (eh_queue h) (ee_dead env) raw);
          ack = e_queue (Ack R (eh_queue h) (ee_ack env) raw);
          ret = (\<lambda>(r, w). (Some r, w))
      in case emailTask_of (p_Data p) of
           None \<Rightarrow> ret (dead w)
         | Some t \<Rightarrow>
             (case Render (ee_exec env) (em_Template t) (em_Vars t) of
                None \<Rightarrow> ret (dead w)
              | Some msg \<Rightarrow>
                  (let msg = msg\<lparr>mm_To := em_To t\<rparr>
                   in if \<not> eh_Sender h then ret (ack w)
                      else
                        (let w = w\<lparr>ew_mails := ew_mails w @ [msg]\<rparr>
                         in if ee_send env msg then ret (ack w)
                            else if p_Attempt p < int (length emailBackoff) then
                              (if p_Attempt p < 0 then (None, w)
                               else
                                 (case e_queue (Schedule R payload_json (eh_queue h) (ee_sched env) (p\<lparr>p_Attempt := p_Attempt p + 1\<rparr>)
                                          (UnixMilli (ee_now env + emailBackoff ! nat (p_Attempt p)))) w of
                                    (Some e, w) \<Rightarrow> (Some (Some e), w)
                                  | (None, w) \<Rightarrow> ret (ack w)))
                            else ret (dead w)))))"

end
