(* ===== verification/Config.thy ===== *)
theory Config
  imports Identity Safe_Http
begin

text \<open>
  Configuration, src/internal/config/config.go, and the checks that the server and the worker make on it before they
  start (src/cmd/dstream/server.go, src/cmd/dstream/worker.go). What viper decodes from the environment is the input
  of \<open>Load\<close>; \<open>url.Parse\<close> is a parameter. Fields that only reach the logger, the tracer or a connection pool are
  left out.
\<close>

record SMTPConfig =
  sm_Host :: string
  sm_Port :: int
  sm_User :: string
  sm_From :: string

record OIDCConfig =
  oc_Issuer :: string
  oc_ClientID :: string
  oc_ClientSecret :: string
  oc_DefaultOrgSlug :: string
  oc_DefaultRole :: string
  oc_Enforce :: bool

record Config =
  cf_PublicBaseURL :: string
  cf_AppBaseURL :: string
  cf_SessionSecret :: string
  cf_CookieSecure :: bool
  cf_DevMode :: bool
  cf_SelfHostsRaw :: string
  cf_SelfHosts :: "string list"
  cf_MaxWebhookHops :: int
  cf_EndpointMaxConsecutiveFailures :: int
  cf_Concurrency :: int
  cf_PerOrgMaxInflight :: int
  cf_StallTimeout :: int
  cf_SMTP :: SMTPConfig
  cf_OIDC :: OIDCConfig

datatype config_error =
    OidcEnforceWithoutIssuer | OidcNoClientID | OidcNoClientSecret | OidcRoleOwner | OidcRole string
  | SecretTooShort | CookieInsecure | DevModePublic | WorkerConcurrency int | WorkerStall int

section \<open>Loading\<close>

definition url_hosts :: "(string \<Rightarrow> url option) \<Rightarrow> string \<Rightarrow> string list" where
  "url_hosts parse raw = (case parse raw of
      None \<Rightarrow> []
    | Some u \<Rightarrow> if u_Hostname u = [] then [] else [map lower_char (u_Hostname u)])"

text \<open>\<open>order\<close> is the order in which the map of own host names is read out.\<close>

definition Load :: "(string \<Rightarrow> url option) \<Rightarrow> (string list \<Rightarrow> string list) \<Rightarrow> Config \<Rightarrow> Config" where
  "Load parse order c =
     (let c = (if cf_AppBaseURL c = [] then c\<lparr>cf_AppBaseURL := cf_PublicBaseURL c\<rparr> else c);
          listed = filter (\<lambda>h. h \<noteq> []) (map (\<lambda>h. map lower_char (TrimSpace h)) (split_on (CHR '','') (cf_SelfHostsRaw c)));
          hostSet = remdups (url_hosts parse (cf_PublicBaseURL c) @ url_hosts parse (cf_AppBaseURL c) @ listed);
          c = c\<lparr>cf_SelfHosts := order hostSet\<rparr>;
          c = (if cf_MaxWebhookHops c \<le> 0 then c\<lparr>cf_MaxWebhookHops := 3\<rparr> else c);
          c = (if cf_EndpointMaxConsecutiveFailures c \<le> 0 then c\<lparr>cf_EndpointMaxConsecutiveFailures := 5\<rparr> else c)
      in c)"

section \<open>Checks\<close>

definition OIDC_Enabled :: "OIDCConfig \<Rightarrow> bool" where
  "OIDC_Enabled oc \<longleftrightarrow> oc_Issuer oc \<noteq> []"

definition ValidateOIDC :: "Config \<Rightarrow> config_error option" where
  "ValidateOIDC c =
     (let oc = cf_OIDC c
      in if \<not> OIDC_Enabled oc then (if oc_Enforce oc then Some OidcEnforceWithoutIssuer else None)
         else if oc_ClientID oc = [] then Some OidcNoClientID
         else if oc_ClientSecret oc = [] then Some OidcNoClientSecret
         else if oc_DefaultRole oc = [] \<or> oc_DefaultRole oc = ''member'' \<or> oc_DefaultRole oc = ''admin'' then None
         else if oc_DefaultRole oc = ''owner'' then Some OidcRoleOwner
         else Some (OidcRole (oc_DefaultRole oc)))"

definition isLocalBaseURL :: "(string \<Rightarrow> url option) \<Rightarrow> string \<Rightarrow> bool" where
  "isLocalBaseURL parse raw = (case parse raw of
      None \<Rightarrow> False
    | Some u \<Rightarrow> (let host = u_Hostname u
        in host = ''localhost'' \<or> host = ''127.0.0.1'' \<or> host = ''::1'' \<or> has_prefix (rev host) (rev ''.localhost'')))"

text \<open>The guards at the head of the server command.\<close>

definition validateServer :: "(string \<Rightarrow> url option) \<Rightarrow> Config \<Rightarrow> config_error option" where
  "validateServer parse c =
     (if length (cf_SessionSecret c) < 32 then Some SecretTooShort
      else if \<not> cf_CookieSecure c \<and> \<not> isLocalBaseURL parse (cf_PublicBaseURL c) then Some CookieInsecure
      else if cf_DevMode c \<and> \<not> isLocalBaseURL parse (cf_PublicBaseURL c) then Some DevModePublic
      else ValidateOIDC c)"

end
