(* ===== verification/Worker.thy ===== *)
theory Worker
  imports Mailer Webhook Deliver Config
begin

text \<open>
  The worker process, src/cmd/dstream/worker.go and watchdog.go. Its state joins those of the handlers it runs: the
  event and the message database, the Redis keyspace they share, the HTTP requests sent and the mails handed to the
  SMTP client. One iteration of a consumer is \<open>consume\<close>; the periodic sweeps are further actions. In the model an
  iteration runs to its end before the next one starts: the calls of two consumers do not interleave here. What such
  interleavings do to the queue is the subject of the queue theorems, which hold for the calls of any number of clients in
  any order.
\<close>

section \<open>Start\<close>

definition validateWorkerRuntime :: "(string \<Rightarrow> url option) \<Rightarrow> Config \<Rightarrow> config_error option" where
  "validateWorkerRuntime parse c =
     (if cf_Concurrency c < 1 then Some (WorkerConcurrency (cf_Concurrency c))
      else if cf_StallTimeout c \<le> DeliveryTimeout then Some (WorkerStall (cf_StallTimeout c))
      else if cf_DevMode c \<and> \<not> isLocalBaseURL parse (cf_PublicBaseURL c) then Some DevModePublic
      else None)"

record workerDeps =
  wk_dq :: client
  wk_h :: handler
  wk_email :: EmailHandler
  wk_outbound :: mhandler

text \<open>The handlers share one queue client. Without an SMTP host there is no sender.\<close>

definition buildWorker :: "Config \<Rightarrow> workerDeps" where
  "buildWorker c =
     \<lparr>wk_dq = NewClient,
      wk_h = \<lparr>h_queue = NewClient, PerOrgMaxInflight = cf_PerOrgMaxInflight c\<rparr>,
      wk_email = \<lparr>eh_queue = NewClient, eh_Sender = (sm_Host (cf_SMTP c) \<noteq> [])\<rparr>,
      wk_outbound = \<lparr>mh_queue = NewClient, mh_redis = True, mh_limiter = True,
         MaxConsecutiveFailures = cf_EndpointMaxConsecutiveFailures c, mh_PerOrgMaxInflight = cf_PerOrgMaxInflight c\<rparr>\<rparr>"

section \<open>State\<close>

record 'r wworld =
  ww_db :: db
  ww_mdb :: mdb
  ww_redis :: 'r
  ww_http :: "http_req list"
  ww_mails :: "Message list"

definition on_events :: "('r world \<Rightarrow> 'a \<times> 'r world) \<Rightarrow> 'r wworld \<Rightarrow> 'a \<times> 'r wworld" where
  "on_events f w =
     (let (r, v) = f \<lparr>w_db = ww_db w, w_redis = ww_redis w, w_sent = ww_http w\<rparr>
      in (r, w\<lparr>ww_db := w_db v, ww_redis := w_redis v, ww_http := w_sent v\<rparr>))"

definition on_messages :: "('r mworld \<Rightarrow> 'a \<times> 'r mworld) \<Rightarrow> 'r wworld \<Rightarrow> 'a \<times> 'r wworld" where
  "on_messages f w =
     (let (r, v) = f \<lparr>mw_db = ww_mdb w, mw_redis = ww_redis w, mw_sent = ww_http w\<rparr>
      in (r, w\<lparr>ww_mdb := mw_db v, ww_redis := mw_redis v, ww_http := mw_sent v\<rparr>))"

definition on_mails :: "('r eworld \<Rightarrow> 'a \<times> 'r eworld) \<Rightarrow> 'r wworld \<Rightarrow> 'a \<times> 'r wworld" where
  "on_mails f w =
     (let (r, v) = f \<lparr>ew_redis = ww_redis w, ew_mails = ww_mails w\<rparr>
      in (r, w\<lparr>ww_redis := ew_redis v, ww_mails := ew_mails v\<rparr>))"

section \<open>One iteration of a consumer\<close>

text \<open>
  What the environment decides during an iteration. \<open>wn_panic\<close> says that the handler panics, and how it left the state
  when it did.
\<close>

record 'r wenv =
  wn_pick :: io
  wn_now :: int
  wn_token :: string
  wn_wait :: io
  wn_event :: denv
  wn_message :: menv
  wn_email :: eenv
  wn_panic :: "('r wworld \<Rightarrow> 'r wworld) option"
  wn_dead :: io
  wn_mark :: io

definition leaseMs :: int where "leaseMs = 150000"

definition messageDeliveryID :: "payload \<Rightarrow> string option" where
  "messageDeliveryID p = (case jparse (p_Data p) of
      Some (JObj ms) \<Rightarrow> (case get_str ms ''delivery_id'' of None \<Rightarrow> None | Some s \<Rightarrow> uuid_Parse s)
    | _ \<Rightarrow> None)"

text \<open>The call of the handler that the kind of the task selects; \<open>None\<close> is a panic.\<close>

definition dispatch ::
  "'r redis \<Rightarrow> workerDeps \<Rightarrow> 'r wenv \<Rightarrow> payload \<Rightarrow> string \<Rightarrow> 'r wworld \<Rightarrow> go_error option option \<times> 'r wworld" where
  "dispatch R k env p raw w =
     (case wn_panic env of
        Some f \<Rightarrow> (None, f w)
      | None \<Rightarrow>
          if p_Kind p = emailKind then on_mails (Process_email R (wk_email k) (wn_email env) p raw) w
          else if p_Kind p = ''message'' then
            (let (r, w) = on_messages (Process_msg R (wk_outbound k) (wn_message env) p raw) w in (Some r, w))
          else (let (r, w) = on_events (Process R (wk_h k) (wn_event env) p raw) w in (Some r, w)))"

text \<open>The deferred recovery of a panic: the poisoned task is taken out of the queue and its row made terminal.\<close>

definition recoverPanic :: "'r redis \<Rightarrow> workerDeps \<Rightarrow> 'r wenv \<Rightarrow> payload \<Rightarrow> string \<Rightarrow> 'r wworld \<Rightarrow> 'r wworld" where
  "recoverPanic R k env p raw w =
     (let w = w\<lparr>ww_redis := snd (DeadLetter R (wk_dq k) (wn_dead env) raw (ww_redis w))\<rparr>
      in if p_Kind p = emailKind then w
         else if p_Kind p = ''message'' then
           (case messageDeliveryID p of
              None \<Rightarrow> w
            | Some did \<Rightarrow>
                w\<lparr>ww_mdb := snd (run_io (wn_mark env) (\<lambda>d. ((), MarkDeliveryDead (wn_now env) did d)) (ww_mdb w))\<rparr>)
         else w\<lparr>ww_db := snd (run_io (wn_mark env) (\<lambda>d. ((), MarkEventFailed (wn_now env) (p_EventID p) d)) (ww_db w))\<rparr>)"

definition runTask :: "'r redis \<Rightarrow> workerDeps \<Rightarrow> 'r wenv \<Rightarrow> payload \<Rightarrow> string \<Rightarrow> 'r wworld \<Rightarrow> 'r wworld" where
  "runTask R k env p raw w =
     (case dispatch R k env p raw w of
        (None, w) \<Rightarrow> recoverPanic R k env p raw w
      | (Some _, w) \<Rightarrow> w)"

definition pickTask :: "'r redis \<Rightarrow> workerDeps \<Rightarrow> 'r wenv \<Rightarrow> 'r wworld \<Rightarrow> (go_error + (string \<times> payload) option) \<times> 'r wworld" where
  "pickTask R k env w =
     (let (r, s) = FairPick R payload_json (wk_dq k) (wn_pick env) (UnixMilli (wn_now env)) leaseMs (wn_token env) (ww_redis w)
      in (r, w\<lparr>ww_redis := s\<rparr>))"

definition consume :: "'r redis \<Rightarrow> workerDeps \<Rightarrow> 'r wenv \<Rightarrow> 'r wworld \<Rightarrow> 'r wworld" where
  "consume R k env w =
     (case pickTask R k env w of
        (Inl _, w) \<Rightarrow> w
      | (Inr None, w) \<Rightarrow> w\<lparr>ww_redis := snd (WaitNotify R (wk_dq k) (wn_wait env) (ww_redis w))\<rparr>
      | (Inr (Some (raw, p)), w) \<Rightarrow> runTask R k env p raw w)"

section \<open>The actions of a worker\<close>

datatype 'r wact =
    Consume "'r wenv"
  | TickPromote io int
  | TickRecover io int
  | TickReapEvents io "string \<Rightarrow> io" "string \<Rightarrow> io" "string \<Rightarrow> bool" "(string \<times> string) list" int
  | TickReapMessages io "string \<Rightarrow> bool" "string \<Rightarrow> io" "(string \<times> string) list" int

fun runWorker :: "'r redis \<Rightarrow> workerDeps \<Rightarrow> 'r wact \<Rightarrow> 'r wworld \<Rightarrow> 'r wworld" where
  "runWorker R k (Consume env) w = consume R k env w"
| "runWorker R k (TickPromote o1 now) w =
     w\<lparr>ww_redis := snd (PromoteDue R payload_json (wk_dq k) o1 (UnixMilli now) 500 (ww_redis w))\<rparr>"
| "runWorker R k (TickRecover o1 now) w = w\<lparr>ww_redis := snd (Recover R (wk_dq k) o1 (UnixMilli now) (ww_redis w))\<rparr>"
| "runWorker R k (TickReapEvents wq wc we locked tr now) w =
     snd (on_events (ReapStuckEvents R (wk_h k) wq wc we locked tr now) w)"
| "runWorker R k (TickReapMessages o1 locked enq tr now) w =
     snd (on_messages (\<lambda>v. ((), reaperTick R (wk_dq k) o1 locked enq tr now v)) w)"

section \<open>The watchdog\<close>

record watchdog =
  wd_last :: int

definition newWatchdog :: "int \<Rightarrow> watchdog" where
  "newWatchdog now = \<lparr>wd_last = now\<rparr>"

definition beat :: "int \<Rightarrow> watchdog \<Rightarrow> watchdog" where
  "beat now wd = wd\<lparr>wd_last := now\<rparr>"

definition healthy :: "int \<Rightarrow> int \<Rightarrow> watchdog \<Rightarrow> bool" where
  "healthy now stall wd \<longleftrightarrow> now - wd_last wd < stall"

text \<open>The answer of the health endpoint.\<close>

definition healthz :: "int \<Rightarrow> int \<Rightarrow> watchdog \<Rightarrow> int \<times> string" where
  "healthz now stall wd = (if healthy now stall wd then (200, ''ok'') else (503, ''stalled''))"

end
