(* ===== verification/Worker_Props.thy ===== *)
theory Worker_Props
  imports Worker Webhook_Props
begin

text \<open>
  Properties of the worker: what its consumers do to the queue and to the tasks they lease, whichever handler runs.
  The three handlers meet one contract, the locale \<open>task_handler\<close>, and the facts about an iteration are proved from it.
\<close>

section \<open>What a handler does to the queue\<close>

text \<open>A sequence of queue operations of a given kind.\<close>

inductive emits :: "(q_op \<Rightarrow> bool) \<Rightarrow> dq \<Rightarrow> dq \<Rightarrow> bool" for P where
  emits_refl [intro, simp]: "emits P q q"
| emits_step: "emits P q q' \<Longrightarrow> P op \<Longrightarrow> emits P q (dq_exec payload_json op q')"

lemma emits_trans: "emits P q' q'' \<Longrightarrow> emits P q q' \<Longrightarrow> emits P q q''"
  by (induction rule: emits.induct) (auto intro: emits_step)

text \<open>The operations a handler may use on the task \<open>p\<close> leased as \<open>raw\<close>: end this lease, schedule the task again as
  it is or as the next attempt, and enqueue message tasks.\<close>

fun own_op :: "payload \<Rightarrow> string \<Rightarrow> q_op \<Rightarrow> bool" where
  "own_op p raw (OpAck w m) \<longleftrightarrow> m = raw"
| "own_op p raw (OpDead w m) \<longleftrightarrow> m = raw"
| "own_op p raw (OpSchedule w p' t) \<longleftrightarrow>
     p'\<lparr>p_Attempt := p_Attempt p, p_EnqueuedAt := p_EnqueuedAt p\<rparr> = p \<and> p_Attempt p' \<in> {p_Attempt p, p_Attempt p + 1}"
| "own_op p raw (OpEnqueue w tr p') \<longleftrightarrow> p_Kind p' = ''message''"
| "own_op p raw _ \<longleftrightarrow> False"

lemma own_sched [simp]:
  "own_op p raw (OpSchedule w p t)" "own_op p raw (OpSchedule w (p\<lparr>p_EnqueuedAt := x\<rparr>) t)"
  "own_op p raw (OpSchedule w (p\<lparr>p_Attempt := p_Attempt p + 1\<rparr>) t)"
  by simp_all

lemma own_live:
  assumes "own_op p raw op" "e \<in> live q" "e \<noteq> stripToken raw"
  shows "e \<in> live (dq_exec payload_json op q)"
  using assms by (cases op) (auto intro: live_release live_bury)

lemma own_leases:
  assumes "own_op p raw op" "m \<noteq> raw"
  shows "(m, t) \<in> set (proc (dq_exec payload_json op q)) \<longleftrightarrow> (m, t) \<in> set (proc q)"
  using assms by (cases op) (auto simp: zdel_def dq_trim_def dq_push_def)

locale task_handler =
  fixes run :: "'w \<Rightarrow> go_error option option \<times> 'w"
    and queue :: "'w \<Rightarrow> dq"
    and p :: payload and raw :: string and lost :: bool
  assumes steps: "emits (own_op p raw) (queue w) (queue (snd (run w)))"
    and nil: "fst (run w) = Some None \<Longrightarrow> raw \<notin> zmembers (proc (queue (snd (run w))))"
    and err: "fst (run w) = Some (Some e) \<Longrightarrow> \<not> lost \<Longrightarrow> proc (queue (snd (run w))) = proc (queue w)"
begin

lemma err_live:
  "fst (run w) = Some (Some e) \<Longrightarrow> \<not> lost \<Longrightarrow> raw \<in> zmembers (proc (queue w)) \<Longrightarrow> stripToken raw \<in> live (queue (snd (run w)))"
  by (metis err liveI(3))

end

lemma emits_live: "emits (own_op p raw) q q' \<Longrightarrow> e \<in> live q \<Longrightarrow> e \<noteq> stripToken raw \<Longrightarrow> e \<in> live q'"
  by (induction rule: emits.induct) (auto intro: own_live)

lemma emits_inv: "emits P q q' \<Longrightarrow> dq_inv q \<Longrightarrow> dq_inv q'"
  by (induction rule: emits.induct) (auto intro: inv_exec)

lemma emits_leases: "emits (own_op p raw) q q' \<Longrightarrow> m \<noteq> raw \<Longrightarrow> (m, t) \<in> set (proc q') \<longleftrightarrow> (m, t) \<in> set (proc q)"
  by (induction rule: emits.induct) (auto simp: own_leases)

section \<open>The mail handler\<close>

definition EQ :: "'r redis \<Rightarrow> client \<Rightarrow> 'r eworld \<Rightarrow> dq" where
  "EQ R c w = dq_of R (prefix c) (ew_redis w)"

lemma e_queue_simps [simp]:
  "fst (e_queue f w) = fst (f (ew_redis w))" "ew_redis (snd (e_queue f w)) = snd (f (ew_redis w))"
  "ew_mails (snd (e_queue f w)) = ew_mails w" "EQ R c (w\<lparr>ew_mails := l\<rparr>) = EQ R c w"
  by (simp_all add: e_queue_def EQ_def Let_def case_prod_unfold)

lemma call_results [simp]:
  "fst (Ack R c o1 raw s) = (if o1 = IoOk then None else Some ErrRedis)"
  "fst (DeadLetter R c o1 raw s) = (if o1 = IoOk then None else Some ErrRedis)"
  "fst (Schedule R C c o1 p t s) = (if o1 = IoOk then None else Some ErrRedis)"
  by (simp_all add: Ack_def DeadLetter_def Schedule_def Let_def case_prod_unfold io_err_run)

text \<open>The branches of the mail handler.\<close>

definition email_msg :: "EmailHandler \<Rightarrow> eenv \<Rightarrow> payload \<Rightarrow> Message option" where
  "email_msg h env p = (case emailTask_of (p_Data p) of
      None \<Rightarrow> None
    | Some t \<Rightarrow> map_option (\<lambda>m. m\<lparr>mm_To := em_To t\<rparr>) (Render (ee_exec env) (em_Template t) (em_Vars t)))"

lemma Process_email_cases:
  "Process_email R h env p raw w =
     (let dead = e_queue (DeadLetter R (eh_queue h) (ee_dead env) raw);
          ack = e_queue (Ack R (eh_queue h) (ee_ack env) raw);
          ret = (\<lambda>rw. (Some (fst rw), snd rw));
          p' = p\<lparr>p_Attempt := p_Attempt p + 1\<rparr>;
          t = UnixMilli (ee_now env + emailBackoff ! nat (p_Attempt p))
      in case email_msg h env p of
           None \<Rightarrow> ret (dead w)
         | Some msg \<Rightarrow>
             if \<not> eh_Sender h then ret (ack w)
             else if ee_send env msg then ret (ack (w\<lparr>ew_mails := ew_mails w @ [msg]\<rparr>))
             else if p_Attempt p \<ge> 2 then ret (dead (w\<lparr>ew_mails := ew_mails w @ [msg]\<rparr>))
             else if p_Attempt p < 0 then (None, w\<lparr>ew_mails := ew_mails w @ [msg]\<rparr>)
             else
               (let v = snd (e_queue (Schedule R payload_json (eh_queue h) (ee_sched env) p' t) (w\<lparr>ew_mails := ew_mails w @ [msg]\<rparr>))
                in if ee_sched env = IoOk then ret (ack v) else (Some (Some ErrRedis), v)))"
  by (auto simp: Process_email_def email_msg_def Let_def case_prod_unfold prod.case_eq_if emailBackoff_def
      split: option.split)

context redis
begin

lemma EQ_calls [simp]:
  "EQ R c (snd (e_queue (Ack R c o1 raw) w)) = dq_exec payload_json (OpAck o1 raw) (EQ R c w)"
  "EQ R c (snd (e_queue (DeadLetter R c o1 raw) w)) = dq_exec payload_json (OpDead o1 raw) (EQ R c w)"
  "EQ R c (snd (e_queue (Schedule R payload_json c o1 p t) w)) = dq_exec payload_json (OpSchedule o1 p t) (EQ R c w)"
  using exec_refines [of c payload_json "OpAck o1 raw" "ew_redis w"]
    exec_refines [of c payload_json "OpDead o1 raw" "ew_redis w"]
    exec_refines [of c payload_json "OpSchedule o1 p t" "ew_redis w"]
  by (simp_all only: EQ_def e_queue_simps q_exec.simps)

lemma email_steps: "emits (own_op p raw) (EQ R (eh_queue h) w) (EQ R (eh_queue h) (snd (Process_email R h env p raw w)))"
  unfolding Process_email_cases Let_def
  by (auto simp del: dq_exec.simps intro!: emits_step emits_refl split: option.split)

lemma email_lease:
  "fst (Process_email R h env p raw w) = Some None \<Longrightarrow> raw \<notin> zmembers (proc (EQ R (eh_queue h) (snd (Process_email R h env p raw w))))"
  "fst (Process_email R h env p raw w) = Some (Some e) \<Longrightarrow> \<not> (ee_ack env = IoLost \<or> ee_dead env = IoLost) \<Longrightarrow>
     proc (EQ R (eh_queue h) (snd (Process_email R h env p raw w))) = proc (EQ R (eh_queue h) w)"
  unfolding Process_email_cases Let_def
  by (cases "ee_ack env"; cases "ee_dead env"; auto split: option.splits if_splits)+

end

sublocale redis \<subseteq> email: task_handler "Process_email R h env p raw" "EQ R (eh_queue h)" p raw
    "ee_ack env = IoLost \<or> ee_dead env = IoLost" for h env p raw
  by unfold_locales (simp_all add: email_steps email_lease)

section \<open>The event handler\<close>

lemma cli_key:
  "''cli:dispatch:'' @ i \<noteq> orgsKey ''dq''" "''cli:dispatch:'' @ i \<noteq> pendingKey ''dq'' org" "''cli:dispatch:'' @ i \<noteq> deadKey ''dq''"
  "''cli:dispatch:'' @ i \<noteq> notifyKey ''dq''"
  by (simp_all add: orgsKey_def pendingKey_def deadKey_def notifyKey_def)

context redis
begin

lemma Q_calls:
  "Q R h (snd (q_ack R h env raw w)) = dq_exec payload_json (OpAck (e_ack env) raw) (Q R h w)"
  "Q R h (snd (q_dead R h env raw w)) = dq_exec payload_json (OpDead (e_dead env) raw) (Q R h w)"
  "Q R h (snd (q_sched R h env p t w)) = dq_exec payload_json (OpSchedule (e_sched env) p t) (Q R h w)"
  by simp_all

lemma own_calls:
  "emits (own_op p raw) q (Q R h w) \<Longrightarrow> emits (own_op p raw) q (Q R h (snd (q_ack R h env raw w)))"
  "emits (own_op p raw) q (Q R h w) \<Longrightarrow> emits (own_op p raw) q (Q R h (snd (q_dead R h env raw w)))"
  "emits (own_op p raw) q (Q R h w) \<Longrightarrow> own_op p raw (OpSchedule (e_sched env) p' t) \<Longrightarrow>
     emits (own_op p raw) q (Q R h (snd (q_sched R h env p' t w)))"
  unfolding Q_calls by (auto simp del: dq_exec.simps intro: emits_step)

lemma own_defer: "emits (own_op p raw) q (Q R h w) \<Longrightarrow> emits (own_op p raw) q (Q R h (snd (deferEvent R h env p raw delay w)))"
  by (auto simp del: Q_sched Q_ack simp: deferEvent_def Let_def case_prod_unfold intro!: own_calls)

lemma own_terminate: "emits (own_op p raw) q (Q R h w) \<Longrightarrow> emits (own_op p raw) q (Q R h (snd (terminate R h env row raw qf reason w)))"
  by (auto simp del: Q_dead simp: terminate_def Let_def intro!: own_calls)

lemma own_fail: "emits (own_op p raw) q (Q R h w) \<Longrightarrow> emits (own_op p raw) q (Q R h (snd (failAttempt R h env row p raw w)))"
  by (auto simp del: Q_sched Q_ack Q_dead simp: failAttempt_def Let_def case_prod_unfold intro!: own_calls)

lemma own_send: "emits (own_op p raw) q (Q R h w) \<Longrightarrow>
    emits (own_op p raw) q (Q R h (snd (sendRequest R h env row p raw qf url hs body w)))"
  by (auto simp del: Q_ack simp: sendRequest_def Let_def intro!: own_calls own_fail)

lemma own_transform: "emits (own_op p raw) q (Q R h w) \<Longrightarrow>
    emits (own_op p raw) q (Q R h (snd (transformAndSend R h env row p raw qf url hs body w)))"
  by (auto simp: transformAndSend_def own_terminate own_send split: sum.split)

lemma own_body: "emits (own_op p raw) q (Q R h w) \<Longrightarrow>
    emits (own_op p raw) q (Q R h (snd (deliverBody R h env row p raw qf url w)))"
  by (auto simp del: Q_ack simp: deliverBody_def Let_def prod.case_eq_if intro!: own_calls own_fail own_terminate own_transform
      split: option.split sum.split)

lemma own_slot:
  assumes "\<And>w. emits (own_op p raw) q (Q R h w) \<Longrightarrow> emits (own_op p raw) q (Q R h (snd (next w)))" "emits (own_op p raw) q (Q R h w)"
  shows "emits (own_op p raw) q (Q R h (snd (slotGate R h env incr decr key cap delay p raw next w)))"
  using assms by (auto simp: slotGate_def Let_def case_prod_unfold prod.case_eq_if intro!: own_defer split: option.split)

lemma own_gates:
  assumes "emits (own_op p raw) q (Q R h w)"
  shows "emits (own_op p raw) q (Q R h (snd (orgGate R h env row p raw qf url w)))"
proof -
  have d: "emits (own_op p raw) q (Q R h (snd (destGate R h env row p raw qf url w)))" if "emits (own_op p raw) q (Q R h w)" for w
    using that by (auto simp: destGate_def intro!: own_body own_slot split: option.split)
  have r: "emits (own_op p raw) q (Q R h (snd (rateGate R h env row p raw qf url w)))" if "emits (own_op p raw) q (Q R h w)" for w
    using that by (auto simp: rateGate_def intro!: d own_defer split: option.split)
  show ?thesis using assms by (auto simp: orgGate_def intro!: r own_slot)
qed

lemma Q_cli [simp]:
  "h_queue h = NewClient \<Longrightarrow> Q R h (w\<lparr>w_redis := snd (run_io o1 (RPUSH R (''cli:dispatch:'' @ i) x) (w_redis w))\<rparr>) = Q R h w"
  using cli_key [of i] cli_key(2) [of i, symmetric]
  by (cases o1) (auto simp: Q_def NewClient_def dq_of_def redis_simps fun_eq_iff)

lemma own_cli:
  assumes "h_queue h = NewClient" "emits (own_op p raw) q (Q R h w)"
  shows "emits (own_op p raw) q (Q R h (snd (dispatchToCLI R h env row p raw w)))"
  using assms by (auto simp del: Q_ack append.simps simp: dispatchToCLI_def Let_def case_prod_unfold intro!: own_calls own_defer split: option.split)

lemma event_steps: "h_queue h = NewClient \<Longrightarrow> emits (own_op p raw) (Q R h w) (Q R h (snd (Process R h env p raw w)))"
  by (auto simp del: Q_ack append.simps simp: Process_def Let_def intro!: own_calls own_terminate own_cli own_gates split: option.split)

lemma event_lease:
  "fst (Process R h env p raw w) = None \<Longrightarrow> raw \<notin> zmembers (proc (Q R h (snd (Process R h env p raw w))))"
  "fst (Process R h env p raw w) = Some e \<Longrightarrow> \<not> (e_ack env = IoLost \<or> e_dead env = IoLost) \<Longrightarrow>
     proc (Q R h (snd (Process R h env p raw w))) = proc (Q R h w)"
  using lease_Process [of h env raw w p] by (auto simp: lease_ok_def)

end

definition event_handler :: "int \<Rightarrow> handler" where
  "event_handler n = \<lparr>h_queue = NewClient, PerOrgMaxInflight = n\<rparr>"

lemma event_handler_queue [simp]: "h_queue (event_handler n) = NewClient"
  by (simp add: event_handler_def)

sublocale redis \<subseteq> event: task_handler "\<lambda>w. case Process R (event_handler n) env p raw w of (r, w) \<Rightarrow> (Some r, w)"
    "Q R (event_handler n)" p raw "e_ack env = IoLost \<or> e_dead env = IoLost" for n env p raw
  by unfold_locales (simp_all add: case_prod_unfold event_steps event_lease)

section \<open>The message handler\<close>

context redis
begin

lemma MQ_calls:
  "MQ R (mh_queue h) (snd (m_ack R h env raw w)) = dq_exec payload_json (OpAck (g_ack env) raw) (MQ R (mh_queue h) w)"
  "MQ R (mh_queue h) (snd (m_dead R h env raw w)) = dq_exec payload_json (OpDead (g_dead env) raw) (MQ R (mh_queue h) w)"
  "MQ R (mh_queue h) (snd (m_sched R h env p t w)) = dq_exec payload_json (OpSchedule (g_sched env) p t) (MQ R (mh_queue h) w)"
  by simp_all

lemma mown_calls:
  "emits (own_op p raw) q (MQ R (mh_queue h) w) \<Longrightarrow> emits (own_op p raw) q (MQ R (mh_queue h) (snd (m_ack R h env raw w)))"
  "emits (own_op p raw) q (MQ R (mh_queue h) w) \<Longrightarrow> emits (own_op p raw) q (MQ R (mh_queue h) (snd (m_dead R h env raw w)))"
  "emits (own_op p raw) q (MQ R (mh_queue h) w) \<Longrightarrow> own_op p raw (OpSchedule (g_sched env) p' t) \<Longrightarrow>
     emits (own_op p raw) q (MQ R (mh_queue h) (snd (m_sched R h env p' t w)))"
  unfolding MQ_calls by (auto simp del: dq_exec.simps intro: emits_step)

lemma mown_defer: "emits (own_op p raw) q (MQ R (mh_queue h) w) \<Longrightarrow> emits (own_op p raw) q (MQ R (mh_queue h) (snd (deferSend R h env p raw delay w)))"
  by (auto simp del: MQ_sched MQ_ack simp: deferSend_def Let_def case_prod_unfold intro!: mown_calls)

lemma mown_terminate: "emits (own_op p raw) q (MQ R (mh_queue h) w) \<Longrightarrow>
    emits (own_op p raw) q (MQ R (mh_queue h) (snd (terminate_msg R h env row raw reason w)))"
  by (auto simp del: MQ_dead simp: terminate_msg_def Let_def intro!: mown_calls)

lemma mown_enqueue: "emits (own_op p raw) q (MQ R c w) \<Longrightarrow> emits (own_op p raw) q (MQ R c (snd (enqueue_delivery R c o1 tr now org i w)))"
  using exec_refines [of c payload_json "OpEnqueue o1 tr (message_task org (UnixMilli now) i)" "mw_redis w"]
    emits_step [of "own_op p raw" q "MQ R c w" "OpEnqueue o1 tr (message_task org (UnixMilli now) i)"]
  by (simp add: MQ_def enqueue_delivery_def Let_def case_prod_unfold message_task_def del: dq_exec.simps)

lemma mown_enqueues: "emits (own_op p raw) q (MQ R c w) \<Longrightarrow> emits (own_op p raw) q (MQ R c (enqueue_deliveries R c enq tr now org ids w))"
  by (induction ids arbitrary: w) (auto intro: mown_enqueue)

lemma mown_Publish: "emits (own_op p raw) q (MQ R c w) \<Longrightarrow> emits (own_op p raw) q (MQ R c (snd (Publish R c env org t fs w)))"
proof -
  assume a: "emits (own_op p raw) q (MQ R c w)"
  have "MQ R c (snd (SeedOperationalApp env org w)) = MQ R c w" by (simp add: MQ_def)
  with a show ?thesis
    by (auto simp: Publish_def Let_def prod.case_eq_if intro!: mown_enqueues split: sum.split)
qed

lemma mown_fail: "emits (own_op p raw) q (MQ R (mh_queue h) w) \<Longrightarrow>
    emits (own_op p raw) q (MQ R (mh_queue h) (snd (failAttempt_msg R h env row p raw n w)))"
  unfolding failAttempt_msg_def Let_def
  by (simp add: case_prod_unfold prod.case_eq_if mown_calls mown_Publish own_sched del: MQ_sched MQ_ack MQ_dead own_op.simps
      split: option.split sum.split)

lemma mown_send: "emits (own_op p raw) q (MQ R (mh_queue h) w) \<Longrightarrow>
    emits (own_op p raw) q (MQ R (mh_queue h) (snd (sendMessage R h env row p raw body sig w)))"
  unfolding sendMessage_def Let_def
  by (auto simp del: MQ_ack simp: prod.case_eq_if intro!: mown_fail mown_calls split: option.split)

lemma mown_sign: "emits (own_op p raw) q (MQ R (mh_queue h) w) \<Longrightarrow>
    emits (own_op p raw) q (MQ R (mh_queue h) (snd (signMessage R h env row p raw body w)))"
  unfolding signMessage_def Let_def by (simp add: mown_terminate mown_send split: option.split)

lemma mown_rate: "emits (own_op p raw) q (MQ R (mh_queue h) w) \<Longrightarrow>
    emits (own_op p raw) q (MQ R (mh_queue h) (snd (rateMessage R h env row p raw body w)))"
  unfolding rateMessage_def Let_def by (simp add: mown_defer mown_sign split: option.split)

lemma mown_transform: "emits (own_op p raw) q (MQ R (mh_queue h) w) \<Longrightarrow>
    emits (own_op p raw) q (MQ R (mh_queue h) (snd (transformMessage R h env row p raw body hs w)))"
  unfolding transformMessage_def by (simp add: mown_terminate mown_rate split: sum.split)

lemma mown_prepare: "emits (own_op p raw) q (MQ R (mh_queue h) w) \<Longrightarrow>
    emits (own_op p raw) q (MQ R (mh_queue h) (snd (prepareMessage R h env row p raw w)))"
  unfolding prepareMessage_def Let_def
  by (simp add: mown_terminate mown_transform mown_calls del: MQ_ack split: option.split sum.split list.split)

lemma message_steps: "emits (own_op p raw) (MQ R (mh_queue h) w) (MQ R (mh_queue h) (snd (Process_msg R h env p raw w)))"
  unfolding Process_msg_def Let_def
  by (auto simp del: MQ_ack MQ_dead simp: case_prod_unfold prod.case_eq_if intro!: mown_calls mown_prepare mown_defer split: option.split)

lemma message_lease_cases:
  "fst (Process_msg R h env p raw w) = None \<Longrightarrow> raw \<notin> zmembers (proc (MQ R (mh_queue h) (snd (Process_msg R h env p raw w))))"
  "fst (Process_msg R h env p raw w) = Some e \<Longrightarrow> \<not> (g_ack env = IoLost \<or> g_dead env = IoLost) \<Longrightarrow>
     proc (MQ R (mh_queue h) (snd (Process_msg R h env p raw w))) = proc (MQ R (mh_queue h) w)"
  using mlease_Process [of h env raw w p] by (auto simp: mlease_ok_def)

end

sublocale redis \<subseteq> message: task_handler "\<lambda>w. case Process_msg R h env p raw w of (r, w) \<Rightarrow> (Some r, w)"
    "MQ R (mh_queue h)" p raw "g_ack env = IoLost \<or> g_dead env = IoLost" for h env p raw
  by unfold_locales (simp_all add: case_prod_unfold message_steps message_lease_cases)

section \<open>One iteration\<close>

definition WQ :: "'r redis \<Rightarrow> 'r wworld \<Rightarrow> dq" where
  "WQ R w = dq_of R ''dq'' (ww_redis w)"

definition reply_lost :: "'r wenv \<Rightarrow> bool" where
  "reply_lost env \<longleftrightarrow> IoLost \<in> {e_ack (wn_event env), e_dead (wn_event env), g_ack (wn_message env), g_dead (wn_message env),
     ee_ack (wn_email env), ee_dead (wn_email env)}"

text \<open>A handler that panics had made part of its calls by then.\<close>

definition panic_keeps :: "'r redis \<Rightarrow> workerDeps \<Rightarrow> 'r wenv \<Rightarrow> 'r wworld \<Rightarrow> bool" where
  "panic_keeps R k env w \<longleftrightarrow> (\<forall>f raw p v. wn_panic env = Some f \<longrightarrow> fst (pickTask R k env w) = Inr (Some (raw, p)) \<longrightarrow>
     emits (own_op p raw) (WQ R v) (WQ R (f v)))"

lemma WQ_simps [simp]: "WQ R (w\<lparr>ww_db := d\<rparr>) = WQ R w" "WQ R (w\<lparr>ww_mdb := m\<rparr>) = WQ R w"
  by (simp_all add: WQ_def)

lemma build_simps [simp]:
  "wk_dq (buildWorker cfg) = NewClient" "wk_h (buildWorker cfg) = event_handler (cf_PerOrgMaxInflight cfg)"
  "mh_queue (wk_outbound (buildWorker cfg)) = NewClient" "eh_queue (wk_email (buildWorker cfg)) = NewClient"
  by (simp_all add: buildWorker_def event_handler_def)

lemma prefix_New [simp]: "prefix NewClient = ''dq''"
  by (simp add: NewClient_def)

text \<open>The contract of a handler carries over to the state of the worker.\<close>

lemma lift_handler:
  assumes "task_handler run queue p raw lost"
    and "\<And>w. WQ R w = queue (get w)" "\<And>w. WQ R (snd (act w)) = queue (snd (run (get w)))" "\<And>w. fst (act w) = fst (run (get w))"
    and "lost \<Longrightarrow> lost'"
  shows "task_handler act (WQ R) p raw lost'"
  using assms unfolding task_handler_def by (metis (full_types))

context redis
begin

lemma dispatch_handler:
  assumes "wn_panic env = None"
  shows "task_handler (dispatch R (buildWorker cfg) env p raw) (WQ R) p raw (reply_lost env)"
proof -
  have e: "task_handler (dispatch R (buildWorker cfg) env p raw) (WQ R) p raw (reply_lost env)" if "p_Kind p = emailKind"
    by (rule lift_handler [OF email.task_handler_axioms [of "wk_email (buildWorker cfg)" "wn_email env" p raw],
          where get = "\<lambda>w. \<lparr>ew_redis = ww_redis w, ew_mails = ww_mails w\<rparr>"])
      (use that assms in \<open>auto simp: WQ_def EQ_def dispatch_def on_mails_def Let_def case_prod_unfold reply_lost_def\<close>)
  have m: "task_handler (dispatch R (buildWorker cfg) env p raw) (WQ R) p raw (reply_lost env)"
    if "p_Kind p \<noteq> emailKind" "p_Kind p = ''message''"
    by (rule lift_handler [OF message.task_handler_axioms [of "wk_outbound (buildWorker cfg)" "wn_message env" p raw],
          where get = "\<lambda>w. \<lparr>mw_db = ww_mdb w, mw_redis = ww_redis w, mw_sent = ww_http w\<rparr>"])
      (use that assms in \<open>auto simp: WQ_def MQ_def dispatch_def on_messages_def Let_def case_prod_unfold reply_lost_def\<close>)
  have v: "task_handler (dispatch R (buildWorker cfg) env p raw) (WQ R) p raw (reply_lost env)"
    if "p_Kind p \<noteq> emailKind" "p_Kind p \<noteq> ''message''"
    by (rule lift_handler [OF event.task_handler_axioms [of "cf_PerOrgMaxInflight cfg" "wn_event env" p raw],
          where get = "\<lambda>w. \<lparr>w_db = ww_db w, w_redis = ww_redis w, w_sent = ww_http w\<rparr>"])
      (use that assms in \<open>auto simp: WQ_def Q_def dispatch_def on_events_def Let_def case_prod_unfold reply_lost_def\<close>)
  show ?thesis using e m v by blast
qed

lemma WQ_pick:
  "WQ R (snd (pickTask R (buildWorker cfg) env w)) =
     dq_exec payload_json (OpPick (wn_pick env) (UnixMilli (wn_now env)) leaseMs (wn_token env)) (WQ R w)"
  using exec_refines [of NewClient payload_json "OpPick (wn_pick env) (UnixMilli (wn_now env)) leaseMs (wn_token env)" "ww_redis w"]
  by (simp add: WQ_def pickTask_def Let_def case_prod_unfold)

lemma pick_Some:
  assumes "fst (pickTask R (buildWorker cfg) env w) = Inr (Some (raw, p))"
  shows "wn_pick env = IoOk \<and> fst (dq_pick (UnixMilli (wn_now env) + leaseMs) (wn_token env) (WQ R w)) = Some raw"
  using assms
  by (cases "wn_pick env") (auto simp: pickTask_def FairPick_def Let_def case_prod_unfold pick_refines WQ_def split: option.splits)

lemma recover_queue:
  "WQ R (recoverPanic R (buildWorker cfg) env p raw w) = dq_exec payload_json (OpDead (wn_dead env) raw) (WQ R w)"
  using exec_refines [of NewClient payload_json "OpDead (wn_dead env) raw" "ww_redis w"]
  by (simp add: recoverPanic_def Let_def WQ_def del: dq_exec.simps split: option.split)

lemma recover_steps: "emits (own_op p raw) (WQ R w) (WQ R (recoverPanic R (buildWorker cfg) env p raw w))"
  unfolding recover_queue by (rule emits_step) simp_all

lemma runTask_steps:
  assumes "\<And>f v. wn_panic env = Some f \<Longrightarrow> emits (own_op p raw) (WQ R v) (WQ R (f v))"
  shows "emits (own_op p raw) (WQ R w) (WQ R (runTask R (buildWorker cfg) env p raw w))"
proof -
  have "emits (own_op p raw) (WQ R w) (WQ R (snd (dispatch R (buildWorker cfg) env p raw w)))"
  proof (cases "wn_panic env")
    case None
    then show ?thesis by (rule task_handler.steps [OF dispatch_handler])
  next
    case (Some f)
    then show ?thesis using assms by (simp add: dispatch_def)
  qed
  then show ?thesis
    by (auto simp: runTask_def prod.case_eq_if intro: emits_trans [OF recover_steps] split: option.split)
qed

lemma WQ_wait: "WQ R (w\<lparr>ww_redis := snd (WaitNotify R NewClient o1 (ww_redis w))\<rparr>) = dq_exec payload_json (OpNotify o1) (WQ R w)"
  using exec_refines [of NewClient payload_json "OpNotify o1" "ww_redis w"] by (simp add: WQ_def)

lemma consume_cases:
  assumes "panic_keeps R (buildWorker cfg) env w"
  obtains (idle) o1 where "\<And>raw p. fst (pickTask R (buildWorker cfg) env w) \<noteq> Inr (Some (raw, p))"
      "WQ R (consume R (buildWorker cfg) env w) = dq_exec payload_json (OpNotify o1) (WQ R (snd (pickTask R (buildWorker cfg) env w)))"
  | (task) raw p where "fst (pickTask R (buildWorker cfg) env w) = Inr (Some (raw, p))"
      "consume R (buildWorker cfg) env w = runTask R (buildWorker cfg) env p raw (snd (pickTask R (buildWorker cfg) env w))"
      "emits (own_op p raw) (WQ R (snd (pickTask R (buildWorker cfg) env w))) (WQ R (consume R (buildWorker cfg) env w))"
proof (cases "fst (pickTask R (buildWorker cfg) env w)")
  case (Inl a)
  then show ?thesis by (intro idle [of IoErr]) (simp_all add: consume_def prod.case_eq_if)
next
  case (Inr b)
  show ?thesis
  proof (cases b)
    case None
    with Inr show ?thesis by (intro idle [of "wn_wait env"]) (simp_all add: consume_def prod.case_eq_if WQ_wait del: dq_exec.simps)
  next
    case (Some rp)
    obtain raw p where rp: "rp = (raw, p)" by (cases rp)
    have "consume R (buildWorker cfg) env w = runTask R (buildWorker cfg) env p raw (snd (pickTask R (buildWorker cfg) env w))"
      using Inr Some rp by (simp add: consume_def prod.case_eq_if)
    moreover have "emits (own_op p raw) (WQ R v) (WQ R (runTask R (buildWorker cfg) env p raw v))" for v
      using assms Inr Some rp by (intro runTask_steps) (simp add: panic_keeps_def)
    ultimately show ?thesis using Inr Some rp by (intro task) simp_all
  qed
qed

end

section \<open>After a pick\<close>

lemma pick_keeps:
  assumes "dq_inv q" "leaseSep \<notin> set tok"
  shows "dq_inv (dq_exec C (OpPick o1 now lease tok) q)" "live (dq_exec C (OpPick o1 now lease tok) q) = live q"
    "\<not> has_prefix m tok \<Longrightarrow> (m, t) \<in> set (proc q) \<Longrightarrow> (m, t) \<in> set (proc (dq_exec C (OpPick o1 now lease tok) q))"
    "fst (dq_pick (now + lease) tok q) = Some raw \<Longrightarrow> (raw, now + lease) \<in> set (proc (snd (dq_pick (now + lease) tok q)))"
    "fst (dq_pick (now + lease) tok q) = Some raw \<Longrightarrow> has_prefix raw tok"
  using assms inv_exec [of q C "OpPick o1 now lease tok"] live_pick [of q tok "now + lease"]
  by (auto simp: dq_pick_def zins_def zdel_def set_insort_key has_prefix_def split: list.splits)

lemma notify_keeps [simp]:
  "live (dq_exec C (OpNotify o1) q) = live q" "proc (dq_exec C (OpNotify o1) q) = proc q" "dq_inv (dq_exec C (OpNotify o1) q) = dq_inv q"
  by (auto simp: dq_inv_def)

context redis
begin

lemma iteration_keeps:
  assumes "dq_inv (WQ R w)" "leaseSep \<notin> set (wn_token env)" "panic_keeps R (buildWorker cfg) env w"
  shows "dq_inv (WQ R (consume R (buildWorker cfg) env w)) \<and>
    (e \<in> live (WQ R w) \<longrightarrow> e \<in> live (WQ R (consume R (buildWorker cfg) env w)) \<or>
      (\<exists>raw p. fst (pickTask R (buildWorker cfg) env w) = Inr (Some (raw, p)) \<and> e = stripToken raw)) \<and>
    ((m, t) \<in> set (proc (WQ R w)) \<and> \<not> has_prefix m (wn_token env) \<longrightarrow>
      (m, t) \<in> set (proc (WQ R (consume R (buildWorker cfg) env w))))"
proof -
  have pk: "dq_inv (WQ R (snd (pickTask R (buildWorker cfg) env w)))" "live (WQ R (snd (pickTask R (buildWorker cfg) env w))) = live (WQ R w)"
    "\<not> has_prefix m (wn_token env) \<Longrightarrow> (m, t) \<in> set (proc (WQ R w)) \<Longrightarrow>
      (m, t) \<in> set (proc (WQ R (snd (pickTask R (buildWorker cfg) env w))))" for m t
    unfolding WQ_pick using pick_keeps(1-3) [OF assms(1,2)] by blast+
  from assms(3) show ?thesis
  proof (cases rule: consume_cases)
    case (idle o1)
    then show ?thesis using pk by (auto simp del: dq_exec.simps)
  next
    case (task raw p)
    then have "has_prefix raw (wn_token env)" using pick_keeps(5) [OF assms(1,2)] pick_Some by blast
    with task show ?thesis
      using pk emits_inv [OF task(3)] emits_live [OF task(3)] emits_leases [OF task(3)] by (cases "m = raw") auto
  qed
qed

lemma iteration_err:
  assumes "dq_inv (WQ R w)" "leaseSep \<notin> set (wn_token env)"
    and "fst (pickTask R (buildWorker cfg) env w) = Inr (Some (raw, p))" "\<not> reply_lost env"
    and "fst (dispatch R (buildWorker cfg) env p raw (snd (pickTask R (buildWorker cfg) env w))) = Some (Some e)"
  shows "(raw, UnixMilli (wn_now env) + 150000) \<in> set (proc (WQ R (consume R (buildWorker cfg) env w)))"
proof -
  let ?w = "snd (pickTask R (buildWorker cfg) env w)"
  have "wn_panic env = None" using assms(5) by (auto simp: dispatch_def split: option.splits)
  from task_handler.err [OF dispatch_handler [OF this] assms(5,4)]
  have "proc (WQ R (snd (dispatch R (buildWorker cfg) env p raw ?w))) = proc (WQ R ?w)" .
  moreover have "consume R (buildWorker cfg) env w = snd (dispatch R (buildWorker cfg) env p raw ?w)"
    using assms(3,5) by (auto simp: consume_def runTask_def prod.case_eq_if split: option.split)
  moreover have "(raw, UnixMilli (wn_now env) + 150000) \<in> set (proc (WQ R ?w))"
    using pick_keeps(4) [OF assms(1,2), of "UnixMilli (wn_now env)" leaseMs raw] pick_Some [OF assms(3)]
    by (simp add: WQ_pick leaseMs_def)
  ultimately show ?thesis by simp
qed

end

section \<open>A panic\<close>

lemma claim_events_status:
  assumes "\<And>e. e \<in> set (t_events d) \<Longrightarrow> ev_id e = i \<Longrightarrow> ev_status e = ''failed''"
  shows "i \<notin> set (map ev_id (fst (ClaimStuckEvents now locked a b n d)))"
proof
  assume "i \<in> set (map ev_id (fst (ClaimStuckEvents now locked a b n d)))"
  then obtain e where "e \<in> set (t_events d)" "ev_id e = i" "stuck a b d e"
    by (auto simp: ClaimStuckEvents_def Let_def dest!: in_set_takeD)
  with assms [of e] show False by (simp add: stuck_def split: option.splits)
qed

lemma claim_messages_status:
  assumes "\<And>x. x \<in> set (t_deliveries d) \<Longrightarrow> dl_id x = i \<Longrightarrow> dl_status x = ''dead''"
  shows "i \<notin> set (map fst (fst (ClaimStuckMessageDeliveries now locked d)))"
proof
  assume "i \<in> set (map fst (fst (ClaimStuckMessageDeliveries now locked d)))"
  then obtain x where "x \<in> set (t_deliveries d)" "dl_id x = i" "stuck_message now x"
    by (auto simp: ClaimStuckMessageDeliveries_def Let_def dest!: in_set_takeD)
  with assms [of x] show False by (simp add: stuck_message_def)
qed

lemma updated_row: "x \<in> set (map (\<lambda>y. if key y = i then f y else y) xs) \<Longrightarrow> key x = i \<Longrightarrow> \<exists>y \<in> set xs. x = f y"
  by (auto split: if_splits)

lemma failed_rows:
  assumes "e \<in> set (t_events (MarkEventFailed now i d))" "ev_id e = i"
  shows "ev_status e = ''failed''"
proof -
  have "t_events (MarkEventFailed now i d) = map (\<lambda>y. if ev_id y = i then y\<lparr>ev_status := ''failed'', ev_last_attempt_at := Some now,
     ev_next_retry_at := None, ev_updated_at := now\<rparr> else y) (t_events d)" by (simp add: MarkEventFailed_def upd_event_def)
  from updated_row [OF assms(1)[unfolded this] assms(2)] show ?thesis by (elim bexE) simp
qed

lemma dead_rows:
  assumes "x \<in> set (t_deliveries (MarkDeliveryDead now i d))" "dl_id x = i"
  shows "dl_status x = ''dead''"
proof -
  have "t_deliveries (MarkDeliveryDead now i d) = map (\<lambda>y. if dl_id y = i then y\<lparr>dl_status := ''dead'', dl_updated_at := now\<rparr> else y)
     (t_deliveries d)" by (simp add: MarkDeliveryDead_def upd_delivery_def upd_where_def)
  from updated_row [OF assms(1)[unfolded this] assms(2)] show ?thesis by (elim bexE) simp
qed

section \<open>Properties\<close>

text \<open>
  C30: no task is lost by a worker. One iteration of a consumer, with any handler and any outcome of its calls, keeps the queue
  well-formed; every event that was pending, scheduled or leased still is, but for the task the iteration itself leased; and
  the leases under other tokens are untouched. This includes a handler that panics, as long as what it did to the queue
  before was made up of the calls that a handler makes for its own task (\<open>panic_keeps\<close>). When the handler of the leased task returned
  an error, and no reply of its acknowledgement or dead-letter calls was lost, the task is still leased, until 150 seconds after
  the pick.
\<close>

theorem worker_iteration:
  assumes "redis R" "dq_inv (dq_of R ''dq'' (ww_redis w))" "leaseSep \<notin> set (wn_token env)"
    and "panic_keeps R (buildWorker cfg) env w"
  shows "let q = dq_of R ''dq'' (ww_redis w);
             q' = dq_of R ''dq'' (ww_redis (consume R (buildWorker cfg) env w));
             (pick, w1) = pickTask R (buildWorker cfg) env w
    in dq_inv q' \<and>
       (\<forall>e. e \<in> live q \<longrightarrow> e \<in> live q' \<or> (\<exists>raw p. pick = Inr (Some (raw, p)) \<and> e = stripToken raw)) \<and>
       (\<forall>m t. (m, t) \<in> set (proc q) \<and> \<not> has_prefix m (wn_token env) \<longrightarrow> (m, t) \<in> set (proc q')) \<and>
       (\<forall>raw p e. pick = Inr (Some (raw, p)) \<and> \<not> reply_lost env \<and>
          fst (dispatch R (buildWorker cfg) env p raw w1) = Some (Some e) \<longrightarrow>
            (raw, UnixMilli (wn_now env) + 150000) \<in> set (proc q') \<and> stripToken raw \<in> live q')"
proof -
  note q = WQ_def [symmetric, where R = R]
  have "(raw, UnixMilli (wn_now env) + 150000) \<in> set (proc (WQ R (consume R (buildWorker cfg) env w))) \<and>
      stripToken raw \<in> live (WQ R (consume R (buildWorker cfg) env w))"
    if "fst (pickTask R (buildWorker cfg) env w) = Inr (Some (raw, p))" "\<not> reply_lost env"
      "fst (dispatch R (buildWorker cfg) env p raw (snd (pickTask R (buildWorker cfg) env w))) = Some (Some e)" for raw p e
    using redis.iteration_err [OF assms(1) assms(2)[unfolded q] assms(3) that]
    by (force simp: zmembers_def intro!: liveI(3) [of raw])
  then show ?thesis
    using redis.iteration_keeps [OF assms(1) assms(2)[unfolded q] assms(3,4)]
    unfolding q by (simp add: Let_def case_prod_unfold) metis
qed

text \<open>The state and the environment of the witnesses: one pending task, and a database that does not answer.\<close>

definition cfg0 :: Config where
  "cfg0 = \<lparr>cf_PublicBaseURL = ''u'', cf_AppBaseURL = ''u'', cf_SessionSecret = [], cf_CookieSecure = True, cf_DevMode = False,
     cf_SelfHostsRaw = [], cf_SelfHosts = [], cf_MaxWebhookHops = 3, cf_EndpointMaxConsecutiveFailures = 5, cf_Concurrency = 1,
     cf_PerOrgMaxInflight = 0, cf_StallTimeout = 60 * second,
     cf_SMTP = \<lparr>sm_Host = [], sm_Port = 0, sm_User = [], sm_From = []\<rparr>,
     cf_OIDC = \<lparr>oc_Issuer = [], oc_ClientID = [], oc_ClientSecret = [], oc_DefaultOrgSlug = [], oc_DefaultRole = [], oc_Enforce = False\<rparr>\<rparr>"

definition eenv0 :: eenv where
  "eenv0 = \<lparr>ee_exec = (\<lambda>_ _. None), ee_send = (\<lambda>_. True), ee_now = 0, ee_ack = IoOk, ee_dead = IoOk, ee_sched = IoOk\<rparr>"

definition wenv0 :: "(mem wworld \<Rightarrow> mem wworld) option \<Rightarrow> mem wenv" where
  "wenv0 pc = \<lparr>wn_pick = IoOk, wn_now = 9000000, wn_token = ''t1'', wn_wait = IoOk, wn_event = (env0 500)\<lparr>e_load := IoErr\<rparr>,
     wn_message = menv0 500, wn_email = eenv0, wn_panic = pc, wn_dead = IoOk, wn_mark = IoOk\<rparr>"

definition ww0 :: "mem wworld" where
  "ww0 = \<lparr>ww_db = db0, ww_mdb = mdb0, ww_redis = q_run mem_redis payload_json NewClient [enq_a] mem_empty, ww_http = [], ww_mails = []\<rparr>"

lemma ww0_queue: "dq_of mem_redis ''dq'' (ww_redis ww0) = dq_exec payload_json enq_a dq_empty"
  using mem.run_refines [of NewClient payload_json "[enq_a]" mem_empty] by (simp add: ww0_def mem_dq_empty)

lemma ww0_pick: "fst (pickTask mem_redis (buildWorker cfg0) (wenv0 pc) ww0) = Inr (Some (raw0, pl org_a))"
proof -
  have "list_all legal [enq_a]" "leaseSep \<notin> set ''t1''" by (simp_all add: wit_legal leaseSep_def)
  then show ?thesis
    using mem.FairPick_result(1) [of NewClient "ww_redis ww0" "''t1''" "UnixMilli 9000000" leaseMs]
      sound_exec [OF sound_empty, of enq_a] wit_legal(1)
    by (simp add: pickTask_def wenv0_def Let_def case_prod_unfold ww0_queue enq_a_def dq_push_def dq_trim_def dq_empty_def raw0_def
        json.unmarshal_marshal pl_ok)
qed

theorem worker_iteration_witness:
  "(raw0, 150009) \<in> set (proc (dq_of mem_redis ''dq'' (ww_redis (consume mem_redis (buildWorker cfg0) (wenv0 None) ww0))))"
proof -
  have "dq_inv (dq_of mem_redis ''dq'' (ww_redis ww0))"
    unfolding ww0_queue by (rule inv_exec [OF dq_inv_empty])
  moreover have "leaseSep \<notin> set (wn_token (wenv0 None))" by (simp add: wenv0_def leaseSep_def)
  moreover have "panic_keeps mem_redis (buildWorker cfg0) (wenv0 None) ww0" by (simp add: panic_keeps_def wenv0_def)
  moreover have "fst (dispatch mem_redis (buildWorker cfg0) (wenv0 None) (pl org_a) raw0 (snd (pickTask mem_redis (buildWorker cfg0) (wenv0 None) ww0))) = Some (Some ErrDb)"
    by (simp add: dispatch_def wenv0_def on_events_def Let_def case_prod_unfold pl_def emailKind_def Process_def)
  moreover have "\<not> reply_lost (wenv0 None)" by (simp add: reply_lost_def wenv0_def env0_def menv0_def eenv0_def)
  ultimately show ?thesis
    using worker_iteration [OF mem.redis_axioms, of ww0 "wenv0 None" cfg0] ww0_pick [of None]
    by (simp add: Let_def case_prod_unfold) (simp add: wenv0_def UnixMilli_def)
qed

text \<open>
  C31: a panic ends its task. Whatever state a panicking handler leaves behind, once the recovery of the worker has made its
  calls the lease is gone, the task is on the dead list, and neither reaper takes up its event or its delivery again.
\<close>

theorem panic_terminates:
  assumes "redis R" "fst (dispatch R (buildWorker cfg) env p raw w) = None" "wn_dead env = IoOk" "wn_mark env = IoOk"
  shows "let w' = runTask R (buildWorker cfg) env p raw w; q' = dq_of R ''dq'' (ww_redis w')
    in raw \<notin> zmembers (proc q') \<and> stripToken raw \<in> set (deadq q') \<and>
       (p_Kind p \<notin> {emailKind, ''message''} \<longrightarrow>
         p_EventID p \<notin> set (map ev_id (fst (ClaimStuckEvents now locked a b n (ww_db w'))))) \<and>
       (p_Kind p = ''message'' \<and> messageDeliveryID p = Some did \<longrightarrow>
         did \<notin> set (map fst (fst (ClaimStuckMessageDeliveries now locked (ww_mdb w')))))"
proof -
  define v where "v = snd (dispatch R (buildWorker cfg) env p raw w)"
  have r: "runTask R (buildWorker cfg) env p raw w = recoverPanic R (buildWorker cfg) env p raw v"
    using assms(2) by (simp add: runTask_def v_def prod.case_eq_if)
  have q: "dq_of R ''dq'' (ww_redis (recoverPanic R (buildWorker cfg) env p raw v)) = dq_bury 10000 raw (WQ R v)"
    using redis.recover_queue [OF assms(1), of cfg env p raw v] assms(3) by (simp add: WQ_def)
  have "stripToken raw \<in> set (last_n 10000 (xs @ [stripToken raw]))" for xs by (simp add: last_n_def)
  moreover have "emailKind \<noteq> ''message''" by (simp add: emailKind_def)
  ultimately show ?thesis
    unfolding r Let_def q using assms(4)
    by (auto simp: recoverPanic_def Let_def simp del: set_map intro!: claim_events_status claim_messages_status
        intro: failed_rows dead_rows)
qed

theorem panic_terminates_witness:
  "uuid_Nil \<notin> set (map ev_id (fst (ClaimStuckEvents (10 ^ 18) (\<lambda>_. False) (10 ^ 18) (10 ^ 18) 10
     (ww_db (runTask mem_redis (buildWorker cfg0) (wenv0 (Some id)) (pl org_a) raw0 ww0)))))"
proof -
  have "fst (dispatch mem_redis (buildWorker cfg0) (wenv0 (Some id)) (pl org_a) raw0 ww0) = None"
    "wn_dead (wenv0 (Some id)) = IoOk" "wn_mark (wenv0 (Some id)) = IoOk" by (simp_all add: dispatch_def wenv0_def)
  from panic_terminates [OF mem.redis_axioms this, where now = "10 ^ 18" and locked = "\<lambda>_. False" and a = "10 ^ 18" and b = "10 ^ 18" and n = 10]
  show ?thesis by (simp add: Let_def pl_def emailKind_def)
qed

end
