(* ===== verification/Access.thy ===== *)
theory Access
  imports Identity Mailer Config "HOL-Library.AList"
begin

text \<open>
  How people and machines get in: the CSRF and client-address middlewares (src/internal/middleware/csrf.go, realip.go),
  API keys, invitations, magic links, single sign-on, the own profile, the audit log and the usage report
  (src/internal/api/identity/api_keys.go, invites.go, auth.go, sso.go, audit.go, usage.go). The conventions are those
  of the management handlers. HMAC, SHA-256, random bytes, the rate limiter, the identity provider and the
  ranges of trusted proxies are parameters; statements of other requests between the statements of a handler are left out.
\<close>

section \<open>CSRF tokens\<close>

definition csrfMAC :: "(bytes \<Rightarrow> bytes \<Rightarrow> bytes) \<Rightarrow> bytes \<Rightarrow> string \<Rightarrow> string \<Rightarrow> string" where
  "csrfMAC hmac secret session nonce = b64_encode url_alphabet False (hmac secret (session @ ''.'' @ nonce))"

definition newRandomToken :: "bytes option \<Rightarrow> string option" where
  "newRandomToken rnd = map_option (b64_encode url_alphabet False) rnd"

definition newBoundCSRFToken :: "(bytes \<Rightarrow> bytes \<Rightarrow> bytes) \<Rightarrow> bytes option \<Rightarrow> string \<Rightarrow> bytes \<Rightarrow> string option" where
  "newBoundCSRFToken hmac rnd session secret =
     map_option (\<lambda>nonce. nonce @ ''.'' @ csrfMAC hmac secret session nonce) (newRandomToken rnd)"

definition validCSRFToken :: "(bytes \<Rightarrow> bytes \<Rightarrow> bytes) \<Rightarrow> string \<Rightarrow> string \<Rightarrow> bytes \<Rightarrow> bool" where
  "validCSRFToken hmac tok session secret =
     (if tok = [] then False
      else (case cut tok (CHR ''.'') of (nonce, mac, found) \<Rightarrow>
             if \<not> found \<or> nonce = [] \<or> mac = [] then False
             else csrfMAC hmac secret session nonce = mac))"

record csrf_req =
  cq_Method :: string
  cq_Authorization :: string
  cq_session :: "string option"
  cq_csrf :: "string option"
  cq_header :: string

text \<open>The answer: refused with a status, or passed on; and the CSRF cookie that is set. \<open>rnd\<close>: the random bytes, if they can be read.\<close>

definition CSRF :: "(bytes \<Rightarrow> bytes \<Rightarrow> bytes) \<Rightarrow> bytes \<Rightarrow> bytes option \<Rightarrow> csrf_req \<Rightarrow> int option \<times> string option" where
  "CSRF hmac secret rnd r =
     (let session = opt_default [] (cq_session r);
          have = opt_default [] (cq_csrf r);
          minted = (if session \<noteq> [] then
                      (if \<not> validCSRFToken hmac have session secret
                       then map_option Some (newBoundCSRFToken hmac rnd session secret) else Some None)
                    else if have = [] then map_option Some (newRandomToken rnd)
                    else Some None)
      in case minted of
           None \<Rightarrow> (Some 500, None)
         | Some cookie \<Rightarrow>
             (if cq_Method r = ''GET'' \<or> cq_Method r = ''HEAD'' \<or> cq_Method r = ''OPTIONS'' then None
              else if has_prefix (cq_Authorization r) ''Bearer '' then None
              else if session = [] then None
              else if \<not> validCSRFToken hmac (cq_header r) session secret then Some 403
              else None, cookie))"

section \<open>Client addresses\<close>

text \<open>\<open>inside\<close>: the text is an IP address in one of the trusted ranges; \<open>strat\<close>: the client that the strategy finds in the
  forwarded chain.\<close>

definition peerTrusted :: "(string \<Rightarrow> bool) \<Rightarrow> string \<Rightarrow> bool" where
  "peerTrusted inside remoteAddr =
     inside (case SplitHostPort remoteAddr of None \<Rightarrow> remoteAddr | Some host \<Rightarrow> host)"

definition TrustedRealIP :: "string list \<Rightarrow> (string \<Rightarrow> bool) \<Rightarrow> (string \<Rightarrow> string) \<Rightarrow> string \<Rightarrow> string" where
  "TrustedRealIP trustedProxies inside strat remoteAddr =
     (if trustedProxies = [] then remoteAddr
      else if peerTrusted inside remoteAddr \<and> strat remoteAddr \<noteq> [] then strat remoteAddr
      else remoteAddr)"

definition clientIP :: "string \<Rightarrow> string" where
  "clientIP remoteAddr = (case SplitHostPort remoteAddr of None \<Rightarrow> remoteAddr | Some host \<Rightarrow> host)"

section \<open>What the handlers share\<close>

text \<open>
  \<open>ax_limit\<close> is the answer of the rate limiter for a key: an error, or how many are allowed and when to retry. \<open>ax_auth\<close> is
  the identity provider, if one is configured.
\<close>

record IdP_Identity =
  id_Email :: string
  id_EmailVerified :: bool
  id_Nonce :: string

record axenv =
  ax_i :: ienv
  ax_boot :: benv
  ax_sha :: "bytes \<Rightarrow> bytes"
  ax_rnd :: "string \<Rightarrow> bytes option"
  ax_limit :: "string \<Rightarrow> (int \<times> int) option"
  ax_redis :: bool
  ax_queue :: "client option"
  ax_enqueue :: io
  ax_trace :: "(string \<times> string) list"
  ax_AppBaseURL :: string
  ax_OIDC :: OIDCConfig
  ax_auth :: "(string \<Rightarrow> IdP_Identity option) option"
  ax_ip :: string

definition ax_out :: "axenv \<Rightarrow> string \<Rightarrow> io" where "ax_out env = ie_out (ax_i env)"
definition ax_now :: "axenv \<Rightarrow> int" where "ax_now env = ie_now (ax_i env)"

text \<open>The checks at the head of the handlers below an organization, in their order.\<close>

definition session_org :: "Principal option \<Rightarrow> string \<Rightarrow> int + string" where
  "session_org p orgParam =
     (if RequireSession p \<noteq> None then Inl 403
      else case uuid_Parse orgParam of None \<Rightarrow> Inl 400 | Some org \<Rightarrow> Inr org)"

definition caller_of :: "axenv \<Rightarrow> Principal option \<Rightarrow> string \<Rightarrow> idb \<Rightarrow> int + member_row" where
  "caller_of env p org d =
     (if ax_out env ''caller'' \<noteq> IoOk then Inl 403
      else case GetOrgMember org (user_of p) d of Inl _ \<Rightarrow> Inl 403 | Inr m \<Rightarrow> Inr m)"

definition admin_of :: "axenv \<Rightarrow> Principal option \<Rightarrow> string \<Rightarrow> idb \<Rightarrow> int + member_row" where
  "admin_of env p org d =
     (case caller_of env p org d of
        Inl st \<Rightarrow> Inl st
      | Inr m \<Rightarrow> if LessThan (mb_role m) RoleAdmin then Inl 403 else Inr m)"

text \<open>The loop over rate limits: the status to refuse with and the seconds of the retry header.\<close>

fun rate_check :: "(string \<Rightarrow> (int \<times> int) option) \<Rightarrow> string list \<Rightarrow> (int \<times> int option) option" where
  "rate_check limit [] = None"
| "rate_check limit (k # ks) =
     (case limit k of
        None \<Rightarrow> Some (503, None)
      | Some (allowed, retryAfter) \<Rightarrow>
          if allowed = 0 then Some (429, Some (retryAfter div second + 1)) else rate_check limit ks)"

definition trim_slash :: "string \<Rightarrow> string" where
  "trim_slash s = rev (dropWhile (\<lambda>c. c = CHR ''/'') (rev s))"

text \<open>The letters, digits and marks that a query keeps as they are.\<close>

definition unreserved_char :: "char \<Rightarrow> bool" where
  "unreserved_char c \<longleftrightarrow> is_digit c \<or> (CHR ''a'' \<le> lower_char c \<and> lower_char c \<le> CHR ''z'') \<or> c \<in> set ''-_.~''"

definition QueryEscape :: "string \<Rightarrow> string" where
  "QueryEscape s = concat (map (\<lambda>c.
     if unreserved_char c then [c] else if c = CHR '' '' then ''+'' else CHR ''%'' # map upper_char (hex_encode [c])) s)"

definition on_idb :: "(idb \<Rightarrow> 'a \<times> idb) \<Rightarrow> 'r aworld \<Rightarrow> 'a \<times> 'r aworld" where
  "on_idb f w = (let (r, d) = f (aw_idb w) in (r, w\<lparr>aw_idb := d\<rparr>))"

text \<open>A mail that cannot be enqueued is only logged.\<close>

definition send_mail :: "'r redis \<Rightarrow> axenv \<Rightarrow> string \<Rightarrow> string \<Rightarrow> string \<Rightarrow> string \<Rightarrow> 'r aworld \<Rightarrow> 'r aworld" where
  "send_mail R env name to link org w =
     w\<lparr>aw_m := (aw_m w)\<lparr>mw_redis := snd (mailer_Enqueue R (ax_queue env) (ax_enqueue env) (ax_trace env) name to
        [(''Link'', JStr link)] org (mw_redis (aw_m w)))\<rparr>\<rparr>"

section \<open>API keys\<close>

definition ListAPIKeys :: "axenv \<Rightarrow> Principal option \<Rightarrow> string \<Rightarrow> idb \<Rightarrow> int + key_row list" where
  "ListAPIKeys env p orgParam d =
     (case session_org p orgParam of Inl st \<Rightarrow> Inl st | Inr org \<Rightarrow>
      case caller_of env p org d of Inl st \<Rightarrow> Inl st | Inr _ \<Rightarrow>
      if ax_out env ''list'' \<noteq> IoOk then Inl 500 else Inr (ListAPIKeysByOrg org d))"

record key_body =
  kb_name :: string
  kb_role :: string
  kb_expires_in_days :: "int option"

text \<open>A duration is a 64-bit number of nanoseconds, and the product wraps around.\<close>

definition key_expiry :: "int \<Rightarrow> int option \<Rightarrow> int option" where
  "key_expiry now days = (case days of
      None \<Rightarrow> None
    | Some n \<Rightarrow> if n > 0 then Some (now + to_int64 (n * 24 * hour)) else None)"

definition CreateAPIKey_api ::
  "axenv \<Rightarrow> Principal option \<Rightarrow> string \<Rightarrow> key_body option \<Rightarrow> idb \<Rightarrow> (int + (key_row \<times> string)) \<times> idb" where
  "CreateAPIKey_api env p orgParam body d =
     (case session_org p orgParam of Inl st \<Rightarrow> (Inl st, d) | Inr org \<Rightarrow>
      case admin_of env p org d of Inl st \<Rightarrow> (Inl st, d) | Inr _ \<Rightarrow>
      case body of None \<Rightarrow> (Inl 400, d) | Some b \<Rightarrow>
        (let name = TrimSpace (kb_name b);
             role = (if kb_role b = [] then RoleAdmin else kb_role b)
         in if name = [] then (Inl 400, d)
            else if role \<noteq> RoleAdmin \<and> role \<noteq> RoleMember then (Inl 400, d)
            else case (ax_rnd env ''prefix'', ax_rnd env ''secret'') of
                   (Some pb, Some sb) \<Rightarrow>
                     (case NewAPIKey (ax_sha env) pb sb of (full, pfx, hash) \<Rightarrow>
                        (case run_io (ax_out env ''write'')
                                (CreateAPIKey (ax_now env) (ie_newid (ax_i env)) org name pfx hash
                                   (key_expiry (ax_now env) (kb_expires_in_days b)) role) d of
                           (Some (Inr row), d) \<Rightarrow>
                             (Inr (row, full),
                              audit_Log (ax_i env) p \<lparr>ent_action = ''api_key.create'', ent_target_type = ''api_key'',
                                ent_target = Some (ak_id row),
                                ent_meta = [(''name'', JStr name), (''role'', JStr role), (''prefix'', JStr pfx)], ent_org = org\<rparr> d)
                         | (_, d) \<Rightarrow> (Inl 500, d)))
                 | _ \<Rightarrow> (Inl 500, d)))"

definition RevokeAPIKey :: "axenv \<Rightarrow> Principal option \<Rightarrow> string \<Rightarrow> string \<Rightarrow> idb \<Rightarrow> int \<times> idb" where
  "RevokeAPIKey env p orgParam idParam d =
     (case session_org p orgParam of Inl st \<Rightarrow> (st, d) | Inr org \<Rightarrow>
      case uuid_Parse idParam of None \<Rightarrow> (400, d) | Some keyID \<Rightarrow>
      case admin_of env p org d of Inl st \<Rightarrow> (st, d) | Inr _ \<Rightarrow>
      case run_io (ax_out env ''write'') (\<lambda>d. ((), RevokeAPIKeyForOrg (ax_now env) keyID org d)) d of
        (None, d) \<Rightarrow> (500, d)
      | (Some _, d) \<Rightarrow>
          (204, audit_Log (ax_i env) p \<lparr>ent_action = ''api_key.revoke'', ent_target_type = ''api_key'',
                  ent_target = Some keyID, ent_meta = [], ent_org = org\<rparr> d))"

section \<open>Invitations\<close>

definition orgInviteTTL :: int where "orgInviteTTL = 7 * 24 * hour"

text \<open>The listing without the hash of the token and without the identifier of the inviter.\<close>

record invite_view =
  vw_id :: string
  vw_email :: string
  vw_role :: string
  vw_expires_at :: int
  vw_created_at :: int
  vw_invited_by_email :: "string option"
  vw_accepted_at :: "int option"

definition inviteListView :: "invite_row \<times> string \<Rightarrow> invite_view" where
  "inviteListView = (\<lambda>(v, by). \<lparr>vw_id = iv_id v, vw_email = iv_email v, vw_role = iv_role v, vw_expires_at = iv_expires_at v,
     vw_created_at = iv_created_at v, vw_invited_by_email = (if by \<noteq> [] then Some by else None), vw_accepted_at = iv_accepted_at v\<rparr>)"

definition ListInvites :: "axenv \<Rightarrow> Principal option \<Rightarrow> string \<Rightarrow> idb \<Rightarrow> int + invite_view list" where
  "ListInvites env p orgParam d =
     (case session_org p orgParam of Inl st \<Rightarrow> Inl st | Inr org \<Rightarrow>
      case caller_of env p org d of Inl st \<Rightarrow> Inl st | Inr _ \<Rightarrow>
      if ax_out env ''list'' \<noteq> IoOk then Inl 500 else Inr (map inviteListView (ListOrgInvitesByOrg org d)))"

definition normal_email :: "string \<Rightarrow> string" where
  "normal_email s = map lower_char (TrimSpace s)"

definition valid_email :: "string \<Rightarrow> bool" where
  "valid_email e \<longleftrightarrow> e \<noteq> [] \<and> CHR ''@'' \<in> set e"

text \<open>An errored lookup of the invited address counts as no membership.\<close>

definition already_member :: "axenv \<Rightarrow> string \<Rightarrow> string \<Rightarrow> idb \<Rightarrow> bool" where
  "already_member env org email d =
     (if ax_out env ''invitee'' \<noteq> IoOk then False
      else case GetUserByEmail email d of
             Inl _ \<Rightarrow> False
           | Inr u \<Rightarrow> ax_out env ''invitee_member'' = IoOk \<and> (case GetOrgMember org (us_id u) d of Inl _ \<Rightarrow> False | Inr _ \<Rightarrow> True))"

definition CreateInvite ::
  "'r redis \<Rightarrow> axenv \<Rightarrow> Principal option \<Rightarrow> string \<Rightarrow> (string \<times> string) option \<Rightarrow> 'r aworld \<Rightarrow> (int \<times> int option) \<times> 'r aworld" where
  "CreateInvite R env p orgParam body w =
     (case session_org p orgParam of Inl st \<Rightarrow> ((st, None), w) | Inr org \<Rightarrow>
      case admin_of env p org (aw_idb w) of Inl st \<Rightarrow> ((st, None), w) | Inr _ \<Rightarrow>
      case body of None \<Rightarrow> ((400, None), w) | Some (rawEmail, role) \<Rightarrow>
        (let email = normal_email rawEmail
         in if \<not> valid_email email then ((400, None), w)
            else if role \<noteq> RoleAdmin \<and> role \<noteq> RoleMember then ((400, None), w)
            else case rate_check (ax_limit env) [''invite:inviter:'' @ user_of p, ''invite:email:'' @ email] of
                   Some refusal \<Rightarrow> (refusal, w)
                 | None \<Rightarrow>
                     if already_member env org email (aw_idb w) then ((409, None), w)
                     else case ax_rnd env ''invite'' of None \<Rightarrow> ((500, None), w) | Some rnd \<Rightarrow>
                       (case on_idb (IssueOrgInvite (ax_sha env) (ax_out env ''write'') (ax_now env) (ie_newid (ax_i env)) rnd org (user_of p)
                               email role orgInviteTTL) w of
                          (Inl e, w) \<Rightarrow> ((if e = ErrUnique then 409 else 500, None), w)
                        | (Inr token, w) \<Rightarrow>
                            (let w = send_mail R env ''invite'' email (trim_slash (ax_AppBaseURL env) @ ''/invites/'' @ token) org w
                             in ((202, None),
                                 w\<lparr>aw_idb := audit_Log (ax_i env) p \<lparr>ent_action = ''member.invite'', ent_target_type = ''invite'',
                                     ent_target = None, ent_meta = [(''email'', JStr email), (''role'', JStr role)], ent_org = org\<rparr>
                                     (aw_idb w)\<rparr>)))))"

definition DeleteInvite :: "axenv \<Rightarrow> Principal option \<Rightarrow> string \<Rightarrow> string \<Rightarrow> idb \<Rightarrow> int \<times> idb" where
  "DeleteInvite env p orgParam idParam d =
     (case session_org p orgParam of Inl st \<Rightarrow> (st, d) | Inr org \<Rightarrow>
      case uuid_Parse idParam of None \<Rightarrow> (400, d) | Some inviteID \<Rightarrow>
      case admin_of env p org d of Inl st \<Rightarrow> (st, d) | Inr _ \<Rightarrow>
      case run_io (ax_out env ''write'') (\<lambda>d. ((), DeleteOrgInvite inviteID org d)) d of
        (None, d) \<Rightarrow> (500, d)
      | (Some _, d) \<Rightarrow>
          (204, audit_Log (ax_i env) p \<lparr>ent_action = ''invite.revoke'', ent_target_type = ''invite'',
                  ent_target = Some inviteID, ent_meta = [], ent_org = org\<rparr> d))"

text \<open>A limiter that does not answer lets a peek pass.\<close>

definition PeekInvite :: "axenv \<Rightarrow> string \<Rightarrow> idb \<Rightarrow> (int \<times> int option) + (invite_row \<times> org_row)" where
  "PeekInvite env token d =
     (if token = [] then Inl (400, None)
      else case (if ax_redis env then ax_limit env (''invite:peek:ip:'' @ clientIP (ax_ip env)) else None) of
             Some (allowed, retryAfter) \<Rightarrow>
               if allowed = 0 then Inl (429, Some (retryAfter div second + 1))
               else if ax_out env ''invite'' \<noteq> IoOk then Inl (404, None)
               else (case GetActiveOrgInviteByTokenHash (ax_now env) (ax_sha env token) d of
                       Inl _ \<Rightarrow> Inl (404, None)
                     | Inr v \<Rightarrow> (case GetOrganizationByID (iv_org_id v) d of Inl _ \<Rightarrow> Inl (404, None) | Inr g \<Rightarrow> Inr (v, g)))
           | None \<Rightarrow>
               if ax_out env ''invite'' \<noteq> IoOk then Inl (404, None)
               else (case GetActiveOrgInviteByTokenHash (ax_now env) (ax_sha env token) d of
                       Inl _ \<Rightarrow> Inl (404, None)
                     | Inr v \<Rightarrow> (case GetOrganizationByID (iv_org_id v) d of Inl _ \<Rightarrow> Inl (404, None) | Inr g \<Rightarrow> Inr (v, g))))"

definition refuseIfSSOEnforced :: "axenv \<Rightarrow> int option" where
  "refuseIfSSOEnforced env = (if oc_Enforce (ax_OIDC env) then Some 403 else None)"

text \<open>An answer of the accept handler: refused, joined (with the new session cookie) or a magic link sent.\<close>

datatype accept_answer =
    AcceptRefused int "int option"
  | AcceptJoined string string string
  | AcceptRequiresLogin

definition magicLinkTTL :: int where "magicLinkTTL = 15 * 60 * second"

definition mail_magic_link :: "'r redis \<Rightarrow> axenv \<Rightarrow> string \<Rightarrow> string \<Rightarrow> 'r aworld \<Rightarrow> 'r aworld" where
  "mail_magic_link R env email token =
     send_mail R env ''magic_link'' email (trim_slash (ax_AppBaseURL env) @ ''/auth/verify?token='' @ QueryEscape token) uuid_Nil"

text \<open>The second path: a magic link for the invited address.\<close>

definition accept_by_mail :: "'r redis \<Rightarrow> axenv \<Rightarrow> invite_row \<Rightarrow> 'r aworld \<Rightarrow> accept_answer \<times> 'r aworld" where
  "accept_by_mail R env v w =
     (case refuseIfSSOEnforced env of Some st \<Rightarrow> (AcceptRefused st None, w) | None \<Rightarrow>
      case (if ax_redis env then rate_check (ax_limit env) [''magic_link:email:'' @ iv_email v, ''magic_link:ip:'' @ clientIP (ax_ip env)]
            else None) of
        Some (st, retry) \<Rightarrow> (AcceptRefused st retry, w)
      | None \<Rightarrow>
          (case ax_rnd env ''link'' of None \<Rightarrow> (AcceptRefused 500 None, w) | Some rnd \<Rightarrow>
           case on_idb (IssueMagicLink (ax_sha env) (ax_out env ''link'') (ax_now env) (ie_newid (ax_i env)) rnd (iv_email v) magicLinkTTL) w of
             (Inl _, w) \<Rightarrow> (AcceptRefused 500 None, w)
           | (Inr token, w) \<Rightarrow> (AcceptRequiresLogin, mail_magic_link R env (iv_email v) token w)))"

text \<open>The first path: the session belongs to the invited address.\<close>

definition accept_in_session :: "axenv \<Rightarrow> string \<Rightarrow> user_row \<Rightarrow> string \<Rightarrow> idb \<Rightarrow> accept_answer \<times> idb" where
  "accept_in_session env token u uid d =
     (case ConsumeOrgInvite (ax_sha env) (ax_out env) (ax_now env) token uid d of
        (Inl e, d) \<Rightarrow> (AcceptRefused (if e = ErrInvalidOrgInvite then 404 else 500) None, d)
      | (Inr row, d) \<Rightarrow>
          (let org = iv_org_id row;
               cookie = Issue (ie_hmac (ax_i env)) (ie_secret (ax_i env)) (ax_now env) uid org (us_session_epoch u);
               q = no_principal\<lparr>pr_UserID := uid, pr_OrgID := org, pr_Role := iv_role row\<rparr>
           in (AcceptJoined org (iv_role row) cookie,
               audit_Log (ax_i env) (Some q) \<lparr>ent_action = ''member.accept_invite'', ent_target_type = ''member'',
                 ent_target = Some uid, ent_meta = [(''org_id'', JStr org), (''role'', JStr (iv_role row))], ent_org = org\<rparr> d)))"

definition AcceptInvite :: "'r redis \<Rightarrow> axenv \<Rightarrow> string option \<Rightarrow> string \<Rightarrow> 'r aworld \<Rightarrow> accept_answer \<times> 'r aworld" where
  "AcceptInvite R env cookie token w =
     (if token = [] then (AcceptRefused 400 None, w)
      else if ax_out env ''peek'' \<noteq> IoOk then (AcceptRefused 404 None, w)
      else case GetActiveOrgInviteByTokenHash (ax_now env) (ax_sha env token) (aw_idb w) of
             Inl _ \<Rightarrow> (AcceptRefused 404 None, w)
           | Inr v \<Rightarrow>
               (case session_Parse (ie_hmac (ax_i env)) (ie_secret (ax_i env)) (ax_now env) cookie of
                  Inl _ \<Rightarrow> accept_by_mail R env v w
                | Inr (uid, _, epoch) \<Rightarrow>
                    (case (if ax_out env ''user'' \<noteq> IoOk then Inl ErrDb else GetUserByID uid (aw_idb w)) of
                       Inl _ \<Rightarrow> accept_by_mail R env v w
                     | Inr u \<Rightarrow>
                         if us_session_epoch u = epoch \<and> ci_eq (us_email u) (iv_email v)
                         then on_idb (accept_in_session env token u uid) w
                         else (AcceptRefused 403 None, w))))"

section \<open>Magic links\<close>

text \<open>The answer does not tell whether a link was issued.\<close>

definition RequestMagicLink :: "'r redis \<Rightarrow> axenv \<Rightarrow> string option \<Rightarrow> 'r aworld \<Rightarrow> (int \<times> int option) \<times> 'r aworld" where
  "RequestMagicLink R env body w =
     (case refuseIfSSOEnforced env of Some st \<Rightarrow> ((st, None), w) | None \<Rightarrow>
      case body of None \<Rightarrow> ((400, None), w) | Some rawEmail \<Rightarrow>
        (let email = TrimSpace (map lower_char rawEmail)
         in if \<not> valid_email email then ((400, None), w)
            else case rate_check (ax_limit env) [''magic_link:email:'' @ email, ''magic_link:ip:'' @ clientIP (ax_ip env)] of
                   Some refusal \<Rightarrow> (refusal, w)
                 | None \<Rightarrow>
                     (case ax_rnd env ''link'' of None \<Rightarrow> ((202, None), w) | Some rnd \<Rightarrow>
                      case on_idb (IssueMagicLink (ax_sha env) (ax_out env ''link'') (ax_now env) (ie_newid (ax_i env)) rnd email magicLinkTTL) w of
                        (Inl _, w) \<Rightarrow> ((202, None), w)
                      | (Inr token, w) \<Rightarrow> ((202, None), mail_magic_link R env email token w))))"

definition VerifyMagicLink ::
  "axenv \<Rightarrow> string \<Rightarrow> string option \<Rightarrow> 'r aworld \<Rightarrow> answer \<times> 'r aworld" where
  "VerifyMagicLink env contentType body w =
     (if \<not> has_prefix contentType ''application/json'' then ((415, None), w)
      else case body of None \<Rightarrow> ((400, None), w) | Some raw \<Rightarrow>
        (let token = TrimSpace raw
         in if token = [] then ((400, None), w)
            else case ConsumeMagicLink (ax_sha env) (ax_boot env) token w of
                   (Inl _, w) \<Rightarrow> ((401, None), w)
                 | (Inr (u, org), w) \<Rightarrow>
                     ((204, Some (Issue (ie_hmac (ax_i env)) (ie_secret (ax_i env)) (ax_now env) (us_id u) org (us_session_epoch u))), w)))"

text \<open>The cookie is cleared in any case; a failed increment of the epoch is only logged.\<close>

definition Logout :: "axenv \<Rightarrow> string option \<Rightarrow> idb \<Rightarrow> int \<times> idb" where
  "Logout env cookie d =
     (case session_Parse (ie_hmac (ax_i env)) (ie_secret (ax_i env)) (ax_now env) cookie of
        Inl _ \<Rightarrow> (204, d)
      | Inr (uid, _, _) \<Rightarrow>
          (204, snd (run_io (ax_out env ''epoch'') (\<lambda>d. ((), BumpUserSessionEpoch (ax_now env) uid d)) d)))"

section \<open>The own profile\<close>

datatype me_answer =
    MeSession "user_row option" "(org_row \<times> string) list" "string option"
  | MeKey string
  | MePortal

definition Me :: "axenv \<Rightarrow> Principal option \<Rightarrow> idb \<Rightarrow> int + me_answer" where
  "Me env p d =
     (case p of None \<Rightarrow> Inl 401 | Some p \<Rightarrow>
        (case pr_Source p of
           SourceSession \<Rightarrow>
             (let active = (if pr_OrgID p \<noteq> uuid_Nil then Some (pr_OrgID p) else None)
              in if pr_UserID p = uuid_Nil then Inr (MeSession None [] active)
                 else case (if ax_out env ''user'' \<noteq> IoOk then Inl ErrDb else GetUserByID (pr_UserID p) d) of
                        Inl _ \<Rightarrow> Inl 401
                      | Inr u \<Rightarrow> Inr (MeSession (Some u) (if ax_out env ''orgs'' \<noteq> IoOk then [] else ListOrgsForUser (pr_UserID p) d) active))
         | SourceAPIKey \<Rightarrow> Inr (MeKey (pr_OrgID p))
         | SourcePortal \<Rightarrow> Inr MePortal))"

definition PatchMe :: "axenv \<Rightarrow> Principal option \<Rightarrow> string option option \<Rightarrow> idb \<Rightarrow> (int + user_row) \<times> idb" where
  "PatchMe env p body d =
     (case p of None \<Rightarrow> (Inl 401, d) | Some p \<Rightarrow>
      if pr_Source p \<noteq> SourceSession \<or> pr_UserID p = uuid_Nil then (Inl 401, d)
      else case body of None \<Rightarrow> (Inl 400, d) | Some None \<Rightarrow> (Inl 400, d) | Some (Some raw) \<Rightarrow>
        (let name = (if TrimSpace raw \<noteq> [] then Some (TrimSpace raw) else None)
         in case run_io (ax_out env ''write'') (UpdateUserName (ax_now env) (pr_UserID p) name) d of
              (Some (Inr u), d) \<Rightarrow> (Inr u, d)
            | (_, d) \<Rightarrow> (Inl 500, d)))"

section \<open>Single sign-on\<close>

definition ssoStateTTL :: int where "ssoStateTTL = 10 * 60 * second"

definition safeReturnTo :: "string \<Rightarrow> string" where
  "safeReturnTo raw =
     (if raw = [] \<or> \<not> has_prefix raw ''/'' then ''/''
      else if has_prefix raw ''//'' \<or> has_prefix raw [CHR ''/'', CHR 0x5C] then ''/''
      else raw)"

definition ssoDefaultRole :: "axenv \<Rightarrow> string" where
  "ssoDefaultRole env = (if oc_DefaultRole (ax_OIDC env) = [] then RoleMember else oc_DefaultRole (ax_OIDC env))"

text \<open>The pending logins, kept in Redis under the state with the nonce, the return path and the time they expire.\<close>

record ssoState =
  ss_Nonce :: string
  ss_ReturnTo :: string

type_synonym sso_store = "(string \<times> ssoState \<times> int) list"

definition sso_Set :: "int \<Rightarrow> string \<Rightarrow> ssoState \<Rightarrow> sso_store \<Rightarrow> sso_store" where
  "sso_Set now state st ss = (state, st, now + ssoStateTTL) # filter (\<lambda>(k, _). k \<noteq> state) ss"

definition sso_GetDel :: "int \<Rightarrow> string \<Rightarrow> sso_store \<Rightarrow> ssoState option \<times> sso_store" where
  "sso_GetDel now state ss =
     (case map_of ss state of
        None \<Rightarrow> None
      | Some (st, until) \<Rightarrow> if now < until then Some st else None,
      filter (\<lambda>(k, _). k \<noteq> state) ss)"

text \<open>A start answers the status, the cookie that binds the state to the browser, and the state and nonce of the redirect.\<close>

definition StartSSO :: "axenv \<Rightarrow> string \<Rightarrow> sso_store \<Rightarrow> ((int \<times> int option) + (string \<times> string)) \<times> sso_store" where
  "StartSSO env returnTo ss =
     (if ax_auth env = None then (Inl (404, None), ss)
      else case rate_check (ax_limit env) [''sso_start:ip:'' @ clientIP (ax_ip env)] of
             Some refusal \<Rightarrow> (Inl refusal, ss)
           | None \<Rightarrow>
               (case (ax_rnd env ''state'', ax_rnd env ''nonce'') of
                  (Some sb, Some nb) \<Rightarrow>
                    (let state = b64_encode url_alphabet False sb; nonce = b64_encode url_alphabet False nb
                     in case run_io (ax_out env ''sso_set'')
                               (\<lambda>ss. ((), sso_Set (ax_now env) state \<lparr>ss_Nonce = nonce, ss_ReturnTo = safeReturnTo returnTo\<rparr> ss)) ss of
                          (None, ss) \<Rightarrow> (Inl (503, None), ss)
                        | (Some _, ss) \<Rightarrow> (Inr (state, nonce), ss))
                | _ \<Rightarrow> (Inl (500, None), ss)))"

record sso_query =
  sq_error :: string
  sq_state :: string
  sq_code :: string
  sq_cookie :: "string option"

text \<open>The transaction of a login: the account bootstrap, then the organization of the session.\<close>

definition sso_login :: "axenv \<Rightarrow> string \<Rightarrow> 'r aworld \<Rightarrow> (login_error + (user_row \<times> string)) \<times> 'r aworld" where
  "sso_login env email w =
     in_tx (ax_out env ''begin'') (ax_out env ''commit'')
       (\<lambda>w. case BootstrapSession (ax_boot env) email (oc_DefaultOrgSlug (ax_OIDC env)) (ssoDefaultRole env) w of
              (Inl e, w) \<Rightarrow> (Inl e, w)
            | (Inr u, w) \<Rightarrow>
                if ax_out env ''first'' \<noteq> IoOk then (Inl (LoginErr ErrDb), w)
                else case GetFirstOrgForUser (us_id u) (aw_idb w) of
                       Inl e \<Rightarrow> (Inl (LoginErr e), w)
                     | Inr g \<Rightarrow> (Inr (u, g), w))
       (LoginErr ErrDb) w"

text \<open>A callback answers a status or the session cookie and the redirect; the state cookie is cleared on every path.\<close>

definition CallbackSSO ::
  "axenv \<Rightarrow> sso_query \<Rightarrow> 'r aworld \<Rightarrow> sso_store \<Rightarrow> (int + (string \<times> string)) \<times> 'r aworld \<times> sso_store" where
  "CallbackSSO env q w ss =
     (case ax_auth env of None \<Rightarrow> (Inl 404, w, ss) | Some exchange \<Rightarrow>
      if sq_error q \<noteq> [] then (Inl 401, w, ss)
      else if sq_state q = [] \<or> sq_code q = [] then (Inl 400, w, ss)
      else case run_io (ax_out env ''sso_get'') (sso_GetDel (ax_now env) (sq_state q)) ss of
             (Some (Some st), ss) \<Rightarrow>
               if sq_cookie q \<noteq> Some (sq_state q) then (Inl 400, w, ss)
               else (case exchange (sq_code q) of None \<Rightarrow> (Inl 401, w, ss) | Some i \<Rightarrow>
                     if id_Nonce i = [] \<or> id_Nonce i \<noteq> ss_Nonce st then (Inl 401, w, ss)
                     else
                       (let email = TrimSpace (map lower_char (id_Email i))
                        in if email = [] then (Inl 401, w, ss)
                           else if \<not> id_EmailVerified i then (Inl 401, w, ss)
                           else case sso_login env email w of
                                  (Inl _, w) \<Rightarrow> (Inl 500, w, ss)
                                | (Inr (u, org), w) \<Rightarrow>
                                    (Inr (Issue (ie_hmac (ax_i env)) (ie_secret (ax_i env)) (ax_now env) (us_id u) org (us_session_epoch u),
                                          trim_slash (ax_AppBaseURL env) @ safeReturnTo (ss_ReturnTo st)), w, ss)))
           | (_, ss) \<Rightarrow> (Inl 400, w, ss))"

definition AuthMethods :: "axenv \<Rightarrow> bool \<times> bool" where
  "AuthMethods env = (ax_auth env \<noteq> None, \<not> oc_Enforce (ax_OIDC env))"

text \<open>\<^verbatim>\<open>openid\<close> is always among the scopes requested.\<close>

definition withOpenIDScope :: "string list \<Rightarrow> string list" where
  "withOpenIDScope scopes =
     (if scopes = [] then [''openid'', ''email'', ''profile'']
      else if ''openid'' \<in> set scopes then scopes
      else ''openid'' # scopes)"

text \<open>What an exchange keeps of a verified token; a missing \<^verbatim>\<open>email_verified\<close> claim is not trusted.\<close>

definition Exchange ::
  "(string \<Rightarrow> (string option) option) \<Rightarrow> (string \<Rightarrow> (string \<times> (string \<times> bool option) option) option) \<Rightarrow> string \<Rightarrow> IdP_Identity option" where
  "Exchange oauth verify code =
     (case oauth code of
        Some (Some raw) \<Rightarrow>
          if raw = [] then None
          else (case verify raw of
                  Some (nonce, Some (email, verified)) \<Rightarrow>
                    Some \<lparr>id_Email = email, id_EmailVerified = (verified = Some True), id_Nonce = nonce\<rparr>
                | _ \<Rightarrow> None)
      | _ \<Rightarrow> None)"

section \<open>The audit log\<close>

text \<open>The filters of a listing; \<open>serial\<close> is the sequence that numbers the rows.\<close>

record audit_filter =
  af_before :: "int option"
  af_actor :: "string option"
  af_target_type :: "string option"
  af_action :: "string option"

definition audit_match :: "string \<Rightarrow> audit_filter \<Rightarrow> int \<times> audit_row \<Rightarrow> bool" where
  "audit_match org f = (\<lambda>(n, a). au_org_id a = Some org \<and>
     (case af_before f of None \<Rightarrow> True | Some b \<Rightarrow> n < b) \<and>
     (case af_actor f of None \<Rightarrow> True | Some u \<Rightarrow> au_actor_user a = Some u) \<and>
     (case af_target_type f of None \<Rightarrow> True | Some t \<Rightarrow> au_target_type a = t) \<and>
     (case af_action f of None \<Rightarrow> True | Some t \<Rightarrow> au_action a = t))"

definition ListAuditLogsByOrg :: "(nat \<Rightarrow> int) \<Rightarrow> string \<Rightarrow> nat \<Rightarrow> audit_filter \<Rightarrow> idb \<Rightarrow> (int \<times> audit_row) list" where
  "ListAuditLogsByOrg serial org limit f d =
     take limit (sort_key (\<lambda>x. - fst x) (filter (audit_match org f) (zip (map serial [0..<length (t_audit d)]) (t_audit d))))"

record audit_query =
  aq_limit :: string
  aq_before_id :: string
  aq_actor_user_id :: string
  aq_target_type :: string
  aq_action :: string

definition nonempty :: "string \<Rightarrow> string option" where
  "nonempty s = (if s = [] then None else Some s)"

text \<open>The rows and the cursor of the next page.\<close>

definition serveAudit ::
  "axenv \<Rightarrow> (nat \<Rightarrow> int) \<Rightarrow> audit_query \<Rightarrow> string \<Rightarrow> idb \<Rightarrow> int + ((int \<times> audit_row) list \<times> int option)" where
  "serveAudit env serial q org d =
     (let limit = (case Atoi (aq_limit q) of None \<Rightarrow> 50 | Some n \<Rightarrow> if n > 0 \<and> n \<le> 200 then nat n else 50)
      in if aq_before_id q \<noteq> [] \<and> (case Atoi (aq_before_id q) of None \<Rightarrow> True | Some n \<Rightarrow> n < 0) then Inl 400
         else if aq_actor_user_id q \<noteq> [] \<and> (case uuid_Parse (aq_actor_user_id q) of None \<Rightarrow> True | Some u \<Rightarrow> u = uuid_Nil) then Inl 400
         else if ax_out env ''list'' \<noteq> IoOk then Inl 500
         else
           (let rows = ListAuditLogsByOrg serial org limit
                  \<lparr>af_before = (if aq_before_id q = [] then None else Atoi (aq_before_id q)),
                   af_actor = (if aq_actor_user_id q = [] then None else uuid_Parse (aq_actor_user_id q)),
                   af_target_type = nonempty (aq_target_type q), af_action = nonempty (aq_action q)\<rparr> d
            in Inr (rows, if length rows = limit \<and> rows \<noteq> [] then Some (fst (last rows)) else None)))"

definition ListAudit :: "axenv \<Rightarrow> (nat \<Rightarrow> int) \<Rightarrow> Principal option \<Rightarrow> audit_query \<Rightarrow> idb \<Rightarrow> int + ((int \<times> audit_row) list \<times> int option)" where
  "ListAudit env serial p q d =
     (if RequireSession p \<noteq> None then Inl 403
      else case p of None \<Rightarrow> Inl 401 | Some p \<Rightarrow>
           if pr_OrgID p = uuid_Nil then Inl 401 else serveAudit env serial q (pr_OrgID p) d)"

definition ListAuditForOrg ::
  "axenv \<Rightarrow> (nat \<Rightarrow> int) \<Rightarrow> Principal option \<Rightarrow> string \<Rightarrow> audit_query \<Rightarrow> idb \<Rightarrow> int + ((int \<times> audit_row) list \<times> int option)" where
  "ListAuditForOrg env serial p orgParam q d =
     (case session_org p orgParam of Inl st \<Rightarrow> Inl st | Inr org \<Rightarrow>
      case caller_of env p org d of Inl st \<Rightarrow> Inl st | Inr _ \<Rightarrow> serveAudit env serial q org d)"

datatype actor = ActorUser string "string option" "string option" | ActorKey string "string option" | ActorSystem

text \<open>Who acted: the live address of the user, or else the one recorded.\<close>

definition hydrateActor :: "idb \<Rightarrow> audit_row \<Rightarrow> actor" where
  "hydrateActor d a =
     (case au_actor_user a of
        Some u \<Rightarrow>
          (let user = find (\<lambda>x. us_id x = u) (t_users d);
               email = (case user of None \<Rightarrow> [] | Some x \<Rightarrow> us_email x);
               name = (case user of None \<Rightarrow> [] | Some x \<Rightarrow> opt_default [] (us_name x))
           in ActorUser u (if email \<noteq> [] then Some email else au_actor_email a) (nonempty name))
      | None \<Rightarrow>
          (case au_actor_key a of
             Some k \<Rightarrow> ActorKey k (case find (\<lambda>x. ak_id x = k) (t_keys d) of None \<Rightarrow> None | Some x \<Rightarrow> nonempty (ak_name x))
           | None \<Rightarrow> ActorSystem))"

section \<open>The usage report\<close>

definition usageMetrics :: "string list" where
  "usageMetrics = [''requests'', ''events'', ''messages'', ''attempts'']"

definition isUsageMetric :: "string \<Rightarrow> bool" where
  "isUsageMetric m = list_ex (\<lambda>x. x = m) usageMetrics"

definition active_org_of :: "Principal option \<Rightarrow> string option" where
  "active_org_of p = (case p of None \<Rightarrow> None | Some p \<Rightarrow> if pr_OrgID p = uuid_Nil then None else Some (pr_OrgID p))"

text \<open>The quota row, the start of the period and the count of each metric.\<close>

definition GetUsage :: "axenv \<Rightarrow> Principal option \<Rightarrow> idb \<Rightarrow> int + (org_row \<times> int \<times> (string \<times> int) list)" where
  "GetUsage env p d =
     (case active_org_of p of None \<Rightarrow> Inl 401 | Some org \<Rightarrow>
      if ax_out env ''quota'' \<noteq> IoOk then Inl 500
      else case GetOrgQuota org d of
             Inl _ \<Rightarrow> Inl 500
           | Inr q \<Rightarrow>
               (let start = PeriodStart (ax_now env) (og_period q)
                in if ax_out env ''usage'' \<noteq> IoOk then Inl 500
                   else Inr (q, start, fold (\<lambda>(k, v). AList.update k v) (GetUsageForPeriod org start d) (map (\<lambda>m. (m, 0)) usageMetrics))))"

definition defaultHistoryPeriods :: int where "defaultHistoryPeriods = 12"
definition maxHistoryPeriods :: int where "maxHistoryPeriods = 100"

text \<open>\<^verbatim>\<open>AddDate\<close> on a start of period: whole days, or whole months on the first of the month.\<close>

definition periodsAgo :: "int \<Rightarrow> string \<Rightarrow> int \<Rightarrow> int" where
  "periodsAgo current period n =
     (if period = ''day'' then current - (n - 1) * (24 * hour)
      else (let (y, m, dd) = date_of (day_of current);
                k = y * 12 + (m - 1) - (n - 1)
            in (days_of (k div 12) (k mod 12 + 1) 1 + (dd - 1)) * (24 * hour) + current mod (24 * hour)))"

definition GetUsageHistory_api ::
  "axenv \<Rightarrow> Principal option \<Rightarrow> string \<Rightarrow> string \<Rightarrow> idb \<Rightarrow> int + (string \<times> (int \<times> int \<times> bool) list)" where
  "GetUsageHistory_api env p metric periodsParam d =
     (case active_org_of p of None \<Rightarrow> Inl 401 | Some org \<Rightarrow>
      if \<not> isUsageMetric metric then Inl 400
      else if periodsParam \<noteq> [] \<and> (case Atoi periodsParam of None \<Rightarrow> True | Some n \<Rightarrow> n \<le> 0) then Inl 400
      else
        (let asked = (if periodsParam = [] then defaultHistoryPeriods else case Atoi periodsParam of None \<Rightarrow> 0 | Some n \<Rightarrow> n);
             periods = (if asked > maxHistoryPeriods then maxHistoryPeriods else asked)
         in if ax_out env ''quota'' \<noteq> IoOk then Inl 500
            else case GetOrgQuota org d of
                   Inl _ \<Rightarrow> Inl 500
                 | Inr q \<Rightarrow>
                     (let current = PeriodStart (ax_now env) (og_period q)
                      in if ax_out env ''usage'' \<noteq> IoOk then Inl 500
                         else Inr (og_period q, map (\<lambda>(start, _, n). (start, n, start = current))
                                (GetUsageHistory org metric (periodsAgo current (og_period q) periods) d)))))"

end
