(* ===== verification/Access_Props.thy ===== *)
theory Access_Props
  imports Access Identity_Props
begin

text \<open>
  Properties of the ways in: CSRF tokens are bound to their session, API keys work until they expire or are revoked,
  single sign-on logs in only the browser that started it, and an invitation joins the invited person once.
\<close>

section \<open>CSRF tokens\<close>

lemma dot_not_url: "CHR ''.'' \<notin> set (b64_encode url_alphabet False bs)"
proof -
  have "CHR ''.'' \<notin> insert (CHR ''='') (set url_alphabet)" by code_simp
  with encode_set [OF url_ok, of False bs] show ?thesis by blast
qed

lemma b64_nonempty: "bs \<noteq> [] \<Longrightarrow> b64_encode A False bs \<noteq> []"
  by (cases "(A, False, bs)" rule: b64_encode.cases) (auto simp: b64_group_def)

lemma cut_found: "cut s c = (a, b, True) \<Longrightarrow> s = a @ c # b"
proof (induction s arbitrary: a)
  case (Cons x s)
  then show ?case by (cases "x = c") (auto simp: cut_def split: option.splits)
qed (simp add: cut_def)

lemma valid_token_form:
  assumes "validCSRFToken hmac tok session secret"
  obtains nonce where "nonce \<noteq> []" "tok = nonce @ ''.'' @ csrfMAC hmac secret session nonce"
  using assms by (auto simp: validCSRFToken_def split: if_splits prod.splits dest!: cut_found)

lemma bound_token_valid:
  assumes "newBoundCSRFToken hmac (Some b) session secret = Some tok" "b \<noteq> []" "\<And>k m. hmac k m \<noteq> []"
  shows "validCSRFToken hmac tok session secret"
  using assms cut_append [OF dot_not_url, of b]
  by (auto simp: newBoundCSRFToken_def newRandomToken_def validCSRFToken_def b64_nonempty csrfMAC_def)

definition guarded :: "csrf_req \<Rightarrow> string \<Rightarrow> bool" where
  "guarded r session \<longleftrightarrow> cq_session r = Some session \<and> session \<noteq> [] \<and> cq_Method r \<notin> {''GET'', ''HEAD'', ''OPTIONS''} \<and>
     \<not> has_prefix (cq_Authorization r) ''Bearer ''"

lemma guarded_CSRF:
  assumes "guarded r session"
  shows "fst (CSRF hmac secret rnd r) =
    (if \<not> validCSRFToken hmac (opt_default [] (cq_csrf r)) session secret \<and> rnd = None then Some 500
     else if validCSRFToken hmac (cq_header r) session secret then None else Some 403)"
  using assms
  by (cases rnd) (auto simp: guarded_def CSRF_def Let_def opt_default_def newBoundCSRFToken_def newRandomToken_def)

lemma minted_valid:
  assumes "cq_session r = Some session" "session \<noteq> []" "snd (CSRF hmac secret (Some b) r) = Some tok" "b \<noteq> []" "\<And>k m. hmac k m \<noteq> []"
  shows "validCSRFToken hmac tok session secret"
proof -
  have "newBoundCSRFToken hmac (Some b) session secret = Some tok"
    using assms(1-3) by (auto simp: CSRF_def Let_def opt_default_def newBoundCSRFToken_def newRandomToken_def split: if_splits)
  then show ?thesis using assms(4,5) by (rule bound_token_valid)
qed

section \<open>API keys\<close>

lemma audit_keys [simp]: "t_keys (audit_Log env p e d) = t_keys d" "t_links (audit_Log env p e d) = t_links d"
  "t_invites (audit_Log env p e d) = t_invites d" "t_users (audit_Log env p e d) = t_users d"
  by (cases "ie_out env ''audit''"; simp add: audit_Log_def InsertAuditLog_def Let_def split: option.split)+

lemma parse_new_key:
  assumes "length pfx = APIKeyPrefixLen" "secret \<noteq> []"
  shows "parseAPIKey (apiKeyMark @ pfx @ ''_'' @ secret) = Some (pfx, secret)"
proof -
  have "trim_prefix (apiKeyMark @ pfx @ ''_'' @ secret) apiKeyMark = pfx @ ''_'' @ secret" by simp
  moreover have "drop (APIKeyPrefixLen + 1) (pfx @ ''_'' @ secret) = secret" using assms(1) by simp
  ultimately show ?thesis using assms
    by (cases secret) (simp_all add: parseAPIKey_def Let_def nth_append)
qed

lemma encode_length_12: "length pb = 12 \<Longrightarrow> length (b64_encode url_alphabet False pb) = 16"
proof -
  assume "length pb = 12"
  then obtain a b c d e f g h i j k l where "pb = [a, b, c, d, e, f, g, h, i, j, k, l]"
    by (auto simp: length_Suc_conv numeral_eq_Suc)
  then show ?thesis by (simp add: b64_group_def)
qed

text \<open>The statement behind a created key.\<close>

lemma CreateAPIKey_row:
  assumes "CreateAPIKey now newid org name pfx hash until role d = (Inr row, d')"
  shows "row = \<lparr>ak_id = newid, ak_org_id = org, ak_name = name, ak_role = role, ak_prefix = pfx, ak_key_hash = hash,
      ak_last_used_at = None, ak_revoked_at = None, ak_expires_at = until, ak_created_at = now\<rparr>"
    "t_keys d' = t_keys d @ [row]" "t_members d' = t_members d" "\<not> list_ex (\<lambda>k. ak_prefix k = pfx \<and> ak_revoked_at k = None) (t_keys d)"
  using assms unfolding CreateAPIKey_def Let_def by (auto split: if_splits)

lemma run_io_Some: "run_io o1 f s = (Some x, s') \<Longrightarrow> f s = (x, s')"
  by (cases o1) (auto simp: prod_eq_iff)

definition key_created :: "axenv \<Rightarrow> string \<Rightarrow> key_body \<Rightarrow> idb \<Rightarrow> key_row \<Rightarrow> string \<Rightarrow> idb \<Rightarrow> bool" where
  "key_created env org b d row full d1 \<longleftrightarrow>
     (\<exists>pb sb. ax_rnd env ''prefix'' = Some pb \<and> ax_rnd env ''secret'' = Some sb \<and>
        full = apiKeyMark @ ak_prefix row @ ''_'' @ b64_encode url_alphabet False sb \<and>
        ak_prefix row = take APIKeyPrefixLen (b64_encode url_alphabet False pb) \<and>
        ak_key_hash row = ax_sha env (b64_encode url_alphabet False sb)) \<and>
     ak_org_id row = org \<and> ak_id row = ie_newid (ax_i env) \<and> ak_revoked_at row = None \<and>
     ak_role row = (if kb_role b = [] then RoleAdmin else kb_role b) \<and> (ak_role row = RoleAdmin \<or> ak_role row = RoleMember) \<and>
     ak_expires_at row = key_expiry (ax_now env) (kb_expires_in_days b) \<and>
     t_keys d1 = t_keys d @ [row] \<and> t_members d1 = t_members d \<and>
     \<not> list_ex (\<lambda>k. ak_prefix k = ak_prefix row \<and> ak_revoked_at k = None) (t_keys d)"

lemma CreateAPIKey_api_Inr:
  assumes "CreateAPIKey_api env p orgParam (Some b) d = (Inr (row, full), d1)"
  shows "\<exists>org. session_org p orgParam = Inr org \<and> key_created env org b d row full d1"
proof -
  obtain org m where o: "session_org p orgParam = Inr org" "admin_of env p org d = Inr m"
    using assms by (auto simp: CreateAPIKey_api_def split: sum.splits)
  let ?role = "if kb_role b = [] then RoleAdmin else kb_role b" and ?name = "TrimSpace (kb_name b)"
  have g: "?name \<noteq> []" "\<not> (?role \<noteq> RoleAdmin \<and> ?role \<noteq> RoleMember)"
    using assms unfolding CreateAPIKey_api_def o Let_def by (auto simp: o split: if_splits)
  obtain pb sb where r: "ax_rnd env ''prefix'' = Some pb" "ax_rnd env ''secret'' = Some sb"
    using assms g unfolding CreateAPIKey_api_def Let_def
    by (cases "ax_rnd env ''prefix''"; cases "ax_rnd env ''secret''") (simp_all add: o)
  let ?pfx = "take APIKeyPrefixLen (b64_encode url_alphabet False pb)" and ?sec = "b64_encode url_alphabet False sb"
  let ?stmt = "CreateAPIKey (ax_now env) (ie_newid (ax_i env)) org ?name ?pfx (ax_sha env ?sec)
      (key_expiry (ax_now env) (kb_expires_in_days b)) ?role"
  obtain d2 where c: "run_io (ax_out env ''write'') ?stmt d = (Some (Inr row), d2)" "t_keys d1 = t_keys d2" "t_members d1 = t_members d2"
      "full = apiKeyMark @ ?pfx @ ''_'' @ ?sec"
    using assms g unfolding CreateAPIKey_api_def Let_def
    by (auto simp: o r NewAPIKey_def Let_def split: option.splits sum.splits prod.splits)
  from CreateAPIKey_row [OF run_io_Some [OF c(1)]] show ?thesis using c o r g(2) by (auto simp: key_created_def)
qed

text \<open>Authentication with the text of a key.\<close>

definition bearer :: "string \<Rightarrow> creds" where
  "bearer full = \<lparr>cr_authorization = ''Bearer '' @ full, cr_cookie = None\<rparr>"

lemma Extract_bearer [simp]: "ExtractAPIKey (cr_authorization (bearer full)) = full"
  by (simp add: ExtractAPIKey_def bearer_def apiKeyScheme_def trim_prefix_def has_prefix_def)

definition key_principal :: "key_row \<Rightarrow> Principal" where
  "key_principal row = no_principal\<lparr>pr_Source := SourceAPIKey, pr_APIKeyID := ak_id row, pr_OrgID := ak_org_id row,
     pr_APIKeyName := ak_name row, pr_Role := ak_role row\<rparr>"

definition unexpired :: "int \<Rightarrow> key_row \<Rightarrow> bool" where
  "unexpired now k \<longleftrightarrow> (case ak_expires_at k of None \<Rightarrow> True | Some t \<Rightarrow> now < t)"

lemma Authenticate_key:
  assumes "full = apiKeyMark @ pfx @ ''_'' @ secret" "length pfx = APIKeyPrefixLen" "secret \<noteq> []" "ae_out env ''key'' = IoOk"
  shows "fst (Authenticate env (bearer full) d) =
    (case find (\<lambda>k. ak_prefix k = pfx \<and> ak_revoked_at k = None \<and> unexpired (ae_now env) k) (t_keys d) of
       None \<Rightarrow> Inl 401
     | Some row \<Rightarrow> if ae_sha env secret = ak_key_hash row then Inr (key_principal row) else Inl 401)"
proof -
  have "full \<noteq> []" using assms(1) by (simp add: apiKeyMark_def)
  then show ?thesis
    using parse_new_key [OF assms(2,3)] assms(4)
    by (simp add: Authenticate_def Let_def VerifyAPIKey_def assms(1) GetAPIKeyByPrefix_def one_row_def unexpired_def
        key_principal_def split: option.split)
qed

lemma find_snoc: "find P (xs @ [x]) = (case find P xs of None \<Rightarrow> if P x then Some x else None | Some y \<Rightarrow> Some y)"
  by (induction xs) auto

lemma created_find:
  assumes "key_created env org b d row full d1"
  shows "find (\<lambda>k. ak_prefix k = ak_prefix row \<and> ak_revoked_at k = None \<and> unexpired now k) (t_keys d1) =
    (if unexpired now row then Some row else None)"
proof -
  have k: "t_keys d1 = t_keys d @ [row]" "ak_revoked_at row = None"
    "\<not> list_ex (\<lambda>k. ak_prefix k = ak_prefix row \<and> ak_revoked_at k = None) (t_keys d)"
    using assms by (auto simp: key_created_def)
  then have "find (\<lambda>k. ak_prefix k = ak_prefix row \<and> ak_revoked_at k = None \<and> unexpired now k) (t_keys d) = None"
    by (auto simp: find_None_iff list_ex_iff)
  then show ?thesis using k by (simp add: find_snoc)
qed

lemma created_auth:
  assumes "key_created env org b d row full d1" "ax_rnd env ''prefix'' = Some pb" "length pb = 12" "ax_rnd env ''secret'' = Some sb" "sb \<noteq> []"
  shows "\<exists>secret. full = apiKeyMark @ ak_prefix row @ ''_'' @ secret \<and> length (ak_prefix row) = APIKeyPrefixLen \<and> secret \<noteq> [] \<and>
    ak_key_hash row = ax_sha env secret"
  using assms encode_length_12 [OF assms(3)] b64_nonempty [OF assms(5)]
  by (auto simp: key_created_def APIKeyPrefixLen_def)

lemma revoked_find:
  assumes "key_created env org b d row full d1" "t_keys d2 = t_keys (RevokeAPIKeyForOrg now (ak_id row) org d1)"
  shows "find (\<lambda>k. ak_prefix k = ak_prefix row \<and> ak_revoked_at k = None \<and> unexpired now' k) (t_keys d2) = None"
proof -
  have k: "t_keys d1 = t_keys d @ [row]" "ak_org_id row = org"
    "\<not> list_ex (\<lambda>k. ak_prefix k = ak_prefix row \<and> ak_revoked_at k = None) (t_keys d)"
    using assms(1) by (auto simp: key_created_def)
  then show ?thesis
    unfolding assms(2) RevokeAPIKeyForOrg_def by (auto simp: find_None_iff list_ex_iff upd_where_def)
qed

lemma RevokeAPIKey_204:
  assumes "RevokeAPIKey env p orgParam idParam d = (204, d')" "session_org p orgParam = Inr org" "uuid_Parse idParam = Some i"
  shows "t_keys d' = t_keys (RevokeAPIKeyForOrg (ax_now env) i org d)"
proof -
  obtain m where m: "admin_of env p org d = Inr m"
    using assms by (auto simp: RevokeAPIKey_def admin_of_def caller_of_def split: sum.splits if_splits)
  show ?thesis
    using assms m by (cases "ax_out env ''write''") (auto simp: RevokeAPIKey_def split: sum.splits)
qed

section \<open>Single sign-on\<close>

lemma safeReturnTo_form: "\<exists>path. safeReturnTo raw = ''/'' @ path \<and> \<not> has_prefix path ''/'' \<and> \<not> has_prefix path [CHR 0x5C]"
proof (cases raw)
  case (Cons c cs)
  then show ?thesis
    by (cases "c = CHR ''/''") (auto simp: safeReturnTo_def has_prefix_def)
qed (simp add: safeReturnTo_def has_prefix_def)

lemma GetUserByEmail_ci: "GetUserByEmail email d = Inr u \<Longrightarrow> ci_eq (us_email u) email"
  by (auto simp: GetUserByEmail_def one_row_def find_Some_iff split: option.splits)

lemma create_user_email: "get_or_create_user env email d = (Inr u, d') \<Longrightarrow> ci_eq (us_email u) email"
  by (auto simp: get_or_create_user_def inSavepoint_def CreateUser_def Let_def ci_eq_def [of email email]
      split: if_splits sum.splits prod.splits option.splits dest: GetUserByEmail_ci)

lemma personal_user: "personal_workspace env u w = (Inr u', w') \<Longrightarrow> u' = u"
  by (auto simp: personal_workspace_def split: if_splits sum.splits prod.splits)

lemma default_user: "join_default_org env u slug role d = (Inr u', d') \<Longrightarrow> u' = u"
  by (auto simp: join_default_org_def split: if_splits sum.splits prod.splits)

lemma bootstrap_email: "BootstrapSession env email slug role w = (Inr u, w') \<Longrightarrow> ci_eq (us_email u) email"
  by (auto simp: BootstrapSession_def Let_def split: if_splits sum.splits prod.splits
      dest: create_user_email personal_user default_user)

lemma sso_login_email:
  assumes "sso_login env email w = (Inr (u, org), w')"
  shows "ci_eq (us_email u) email"
  using assms by (auto simp: sso_login_def in_tx_def split: if_splits sum.splits prod.splits io.splits dest: bootstrap_email)

lemma GetDel_Some: "sso_GetDel now state ss = (Some st, ss') \<Longrightarrow> \<exists>t. (state, st, t) \<in> set ss \<and> now < t"
  using map_of_SomeD [of ss state] by (fastforce simp: sso_GetDel_def split: option.splits if_splits)

lemma GetDel_gone: "fst (sso_GetDel now2 state (snd (sso_GetDel now state ss))) = None"
  by (auto simp: sso_GetDel_def split: option.splits dest!: map_of_SomeD)

lemma callback_state_gone:
  assumes "\<And>now. fst (sso_GetDel now (sq_state q) ss) = None"
  shows "\<exists>e. fst (CallbackSSO env q w ss) = Inl e"
  using assms [of "ax_now env"] by (cases "ax_out env ''sso_get''") (auto simp: CallbackSSO_def prod.case_eq_if split: option.split)

lemma callback_Inr:
  assumes "CallbackSSO env q w ss = (Inr (cookie, loc), w', ss')"
  obtains exchange st i u org where "ax_auth env = Some exchange" "sso_GetDel (ax_now env) (sq_state q) ss = (Some st, ss')"
    "sq_cookie q = Some (sq_state q)" "exchange (sq_code q) = Some i" "id_Nonce i = ss_Nonce st" "id_Nonce i \<noteq> []" "id_EmailVerified i"
    "fst (sso_login env (TrimSpace (map lower_char (id_Email i))) w) = Inr (u, org)"
    "cookie = Issue (ie_hmac (ax_i env)) (ie_secret (ax_i env)) (ax_now env) (us_id u) org (us_session_epoch u)"
    "loc = trim_slash (ax_AppBaseURL env) @ safeReturnTo (ss_ReturnTo st)"
proof -
  obtain exchange where e: "ax_auth env = Some exchange" using assms by (auto simp: CallbackSSO_def split: option.splits)
  obtain st where g: "run_io (ax_out env ''sso_get'') (sso_GetDel (ax_now env) (sq_state q)) ss = (Some (Some st), ss')"
    using assms by (auto simp: CallbackSSO_def e Let_def split: if_splits option.splits prod.splits sum.splits)
  from assms show ?thesis
    by (auto simp: CallbackSSO_def e g Let_def split: if_splits option.splits prod.splits sum.splits
        intro!: that [OF e run_io_Some [OF g]])
qed

section \<open>Invitations\<close>

lemma in_tx_Inr: "in_tx a b body e w = (Inr x, w') \<Longrightarrow> body w = (Inr x, w')"
  by (auto simp: in_tx_def split: if_splits prod.splits sum.splits io.splits)

lemma AddOrgMember_effect:
  assumes "AddOrgMember now org user role d = (r, d')"
  shows "t_invites d' = t_invites d" "r = Inr () \<or> r = Inl ErrUnique \<Longrightarrow> list_ex (is_member org user) (t_members d')"
  using assms unfolding AddOrgMember_def by (auto simp: is_member_def split: if_splits)

lemma savepoint_member:
  assumes "inSavepoint o1 (AddOrgMember now org user role) d = (Inr x, d')"
  shows "t_invites d' = t_invites d \<and> list_ex (is_member org user) (t_members d')"
  using assms AddOrgMember_effect [of now org user role d]
  by (cases "AddOrgMember now org user role d") (auto simp: inSavepoint_def AddOrgMember_def split: if_splits sum.splits)

lemma consumed_invite:
  assumes "ConsumeOrgInvite sha outc now token user d = (Inr v, d')"
  shows "GetActiveOrgInviteByTokenHash now (sha token) d = Inr v" "t_invites d' = t_invites (MarkOrgInviteAccepted now (iv_id v) d)"
    "list_ex (is_member (iv_org_id v) user) (t_members d')"
proof -
  obtain d2 x where *: "GetActiveOrgInviteByTokenHash now (sha token) d = Inr v"
    "inSavepoint (outc ''add'') (AddOrgMember now (iv_org_id v) user (iv_role v)) d = (Inr x, d2)"
    "d' = MarkOrgInviteAccepted now (iv_id v) d2"
    using in_tx_Inr [OF assms [unfolded ConsumeOrgInvite_def]]
    by (auto simp: accept_invite_def split: if_splits sum.splits prod.splits)
  then show "GetActiveOrgInviteByTokenHash now (sha token) d = Inr v" by simp
  show "t_invites d' = t_invites (MarkOrgInviteAccepted now (iv_id v) d)" "list_ex (is_member (iv_org_id v) user) (t_members d')"
    using savepoint_member [OF *(2)] *(3) by (simp_all add: MarkOrgInviteAccepted_def)
qed

lemma accepted_gone:
  assumes "GetActiveOrgInviteByTokenHash now h d = Inr v" "t_invites d' = t_invites (MarkOrgInviteAccepted now (iv_id v) d)"
    and "\<forall>a \<in> set (t_invites d). iv_token_hash a = h \<longrightarrow> iv_id a = iv_id v"
  shows "GetActiveOrgInviteByTokenHash now2 h d' = Inl ErrNoRows"
  using assms(3)
  by (auto simp: GetActiveOrgInviteByTokenHash_def assms(2) MarkOrgInviteAccepted_def one_row_def upd_where_def
      find_Some_iff split: option.split)

lemma active_invite: "GetActiveOrgInviteByTokenHash now h d = Inr v \<Longrightarrow> v \<in> set (t_invites d) \<and> iv_token_hash v = h"
  by (auto simp: GetActiveOrgInviteByTokenHash_def one_row_def find_Some_iff split: option.splits)

lemma mail_not_joined: "fst (accept_by_mail R env v w) \<noteq> AcceptJoined org role c"
  by (auto simp: accept_by_mail_def split: option.splits sum.splits prod.splits)

lemma AcceptInvite_joined:
  assumes "AcceptInvite R env cookie token w = (AcceptJoined org role c, w')"
  obtains v uid g u d' where "token \<noteq> []" "GetActiveOrgInviteByTokenHash (ax_now env) (ax_sha env token) (aw_idb w) = Inr v"
    "session_Parse (ie_hmac (ax_i env)) (ie_secret (ax_i env)) (ax_now env) cookie = Inr (uid, g, us_session_epoch u)"
    "GetUserByID uid (aw_idb w) = Inr u" "ci_eq (us_email u) (iv_email v)"
    "accept_in_session env token u uid (aw_idb w) = (AcceptJoined org role c, d')" "w' = w\<lparr>aw_idb := d'\<rparr>"
proof -
  have m: "accept_by_mail R env v w \<noteq> (AcceptJoined org role c, w')" for v
    using mail_not_joined [of R env v w org role c] by auto
  from assms show ?thesis
    by (auto simp: AcceptInvite_def on_idb_def m split: if_splits sum.splits prod.splits intro!: that)
qed

lemma accept_in_session_joined:
  assumes "accept_in_session env token u uid d = (AcceptJoined org role c, d')"
  shows "\<exists>x d2. ConsumeOrgInvite (ax_sha env) (ax_out env) (ax_now env) token uid d = (Inr x, d2) \<and>
    org = iv_org_id x \<and> role = iv_role x \<and> t_invites d' = t_invites d2 \<and> t_members d' = t_members d2"
  using assms by (auto simp: accept_in_session_def Let_def split: sum.splits prod.splits)

section \<open>A concrete environment\<close>

definition benv0 :: benv where
  "benv0 = \<lparr>be_out = (\<lambda>_. IoOk), be_now = 0, be_userid = id_cy, be_orgid = id_cy, be_suffix = [], be_pub = penv0\<rparr>"

definition nonce0 :: string where "nonce0 = b64_encode url_alphabet False ''n''"

definition exchange0 :: "string \<Rightarrow> IdP_Identity option" where
  "exchange0 code = Some \<lparr>id_Email = id_ann, id_EmailVerified = True, id_Nonce = nonce0\<rparr>"

definition rnd0 :: "string \<Rightarrow> bytes option" where
  "rnd0 x = Some (if x = ''prefix'' then ''abcdefghijkl'' else if x = ''nonce'' then ''n'' else ''s'')"

definition axenv0 :: axenv where
  "axenv0 = \<lparr>ax_i = (ienv0 id)\<lparr>ie_hmac := hmac0, ie_newid := id_bob\<rparr>, ax_boot = benv0, ax_sha = id, ax_rnd = rnd0,
     ax_limit = (\<lambda>_. Some (1, -1)), ax_redis = True, ax_queue = None, ax_enqueue = IoOk, ax_trace = [], ax_AppBaseURL = ''https://app'',
     ax_OIDC = \<lparr>oc_Issuer = ''i'', oc_ClientID = ''c'', oc_ClientSecret = ''s'', oc_DefaultOrgSlug = [], oc_DefaultRole = [], oc_Enforce = True\<rparr>,
     ax_auth = Some exchange0, ax_ip = ''192.0.2.1:5''\<rparr>"

definition aenv0 :: "int \<Rightarrow> aenv" where
  "aenv0 now = \<lparr>ae_sha = id, ae_hmac = hmac0, ae_secret = [], ae_now = now, ae_out = (\<lambda>_. IoOk)\<rparr>"

definition kb0 :: "int option \<Rightarrow> key_body" where
  "kb0 days = \<lparr>kb_name = ''ci'', kb_role = [], kb_expires_in_days = days\<rparr>"

lemma axenv0_sel [simp]:
  "ax_out axenv0 x = IoOk" "ax_now axenv0 = 0" "ax_sha axenv0 = id" "ax_rnd axenv0 = rnd0" "ie_newid (ax_i axenv0) = id_bob"
  "ie_hmac (ax_i axenv0) = hmac0" "ie_secret (ax_i axenv0) = []" "ax_boot axenv0 = benv0" "ax_auth axenv0 = Some exchange0"
  "oc_DefaultOrgSlug (ax_OIDC axenv0) = []" "oc_DefaultRole (ax_OIDC axenv0) = []"
  by (simp_all add: axenv0_def ax_out_def ax_now_def ienv0_def)

lemma key0_created: "\<exists>row full d1. CreateAPIKey_api axenv0 (session0 id_cy) id_org (Some (kb0 days)) team0 = (Inr (row, full), d1)"
proof -
  have o: "session_org (session0 id_cy) id_org = Inr id_org" by (simp add: session_org_def)
  have a: "admin_of axenv0 (session0 id_cy) id_org team0 = Inr (member0 id_cy ''admin'')"
    by (simp add: admin_of_def caller_of_def GetOrgMember_def one_row_def team0_def is_member_def member0_def LessThan_def roleOrder_def
        RoleAdmin_def RoleMember_def RoleOwner_def)
  have "fst (CreateAPIKey 0 id_bob id_org ''ci'' pfx hash until RoleAdmin team0) \<noteq> Inl e" for pfx hash until e
    by (simp add: CreateAPIKey_def team0_def RoleAdmin_def find_org_def Let_def)
  moreover have "TrimSpace ''ci'' = ''ci''" by code_simp
  ultimately show ?thesis
    by (auto simp: CreateAPIKey_api_def o a kb0_def rnd0_def NewAPIKey_def Let_def prod.case_eq_if split: sum.split)
qed

definition creq0 :: "string \<Rightarrow> csrf_req" where
  "creq0 h = \<lparr>cq_Method = ''POST'', cq_Authorization = [], cq_session = Some ''s'', cq_csrf = None, cq_header = h\<rparr>"

definition aw0 :: "invite_row list \<Rightarrow> mem aworld" where
  "aw0 vs = \<lparr>aw_idb = team0\<lparr>t_invites := vs\<rparr>, aw_m = mw0\<rparr>"

definition query0 :: sso_query where
  "query0 = \<lparr>sq_error = [], sq_state = ''st'', sq_code = ''c'', sq_cookie = Some ''st''\<rparr>"

definition store0 :: sso_store where
  "store0 = [(''st'', \<lparr>ss_Nonce = nonce0, ss_ReturnTo = ''/x''\<rparr>, 10)]"

definition invite0 :: invite_row where
  "invite0 = \<lparr>iv_id = id_cy, iv_org_id = id_org, iv_email = id_ann, iv_role = ''admin'', iv_token_hash = ''t'', iv_invited_by = id_cy,
     iv_expires_at = 10, iv_accepted_at = None, iv_created_at = 0\<rparr>"

lemma ann_login: "sso_login axenv0 id_ann (aw0 []) = (Inr (user0 id_ann, id_org), aw0 [])"
proof -
  have "BootstrapSession benv0 id_ann [] RoleMember (aw0 []) = (Inr (user0 id_ann), aw0 [])"
    by (simp add: BootstrapSession_def get_or_create_user_def benv0_def GetUserByEmail_def one_row_def aw0_def team0_def
        user0_def ListPendingOrgInvitesByEmail_def CountOrgMembershipsForUser_def member0_def ci_eq_def)
  moreover have "GetFirstOrgForUser id_ann team0 = Inr id_org"
    by (simp add: GetFirstOrgForUser_def team0_def member0_def)
  moreover have "team0\<lparr>t_invites := []\<rparr> = team0" by (simp add: team0_def)
  ultimately show ?thesis
    by (simp add: sso_login_def in_tx_def ssoDefaultRole_def aw0_def) (simp add: user0_def)
qed

lemma callback0: "\<exists>cookie loc w' ss'. CallbackSSO axenv0 query0 (aw0 []) store0 = (Inr (cookie, loc), w', ss')"
proof -
  have "TrimSpace (map lower_char id_ann) = id_ann" by (simp add: id_ann_def lower_char_def TrimSpace_def)
  moreover have "nonce0 \<noteq> []" unfolding nonce0_def by (rule b64_nonempty) simp
  moreover have "id_ann \<noteq> []" by (simp add: id_ann_def)
  ultimately show ?thesis
    by (simp add: CallbackSSO_def query0_def store0_def sso_GetDel_def exchange0_def ann_login)
qed

lemma accept0: "\<exists>c w'. AcceptInvite mem_redis axenv0 (Some (Issue hmac0 [] 0 id_ann id_org 0)) ''t'' (aw0 [invite0]) = (AcceptJoined id_org ''admin'' c, w')"
proof -
  have "session_Parse hmac0 [] 0 (Some (Issue hmac0 [] 0 id_ann id_org 0)) = Inr (id_ann, id_org, 0)"
    using session_decode_encode [where hmac = hmac0 and key = "[]" and u = id_ann and g = id_org and epoch = 0 and ts = "Unix (0 + sessionMaxAge)" and now = 0] ids_uuid
    by (simp add: session_Parse_def Issue_def hmac0_def int64_def Unix_def sessionMaxAge_def hour_def second_def)
  then show ?thesis
    by (simp add: AcceptInvite_def aw0_def GetActiveOrgInviteByTokenHash_def one_row_def invite0_def find_org_def team0_def GetUserByID_def
        user0_def ci_eq_def on_idb_def accept_in_session_def ConsumeOrgInvite_def in_tx_def accept_invite_def inSavepoint_def AddOrgMember_def
        is_member_def member0_def member_roles_def Let_def case_prod_unfold)
qed

section \<open>Properties\<close>

text \<open>
  C38: the life of an API key. The text that the creation answers authenticates as the organization and the role of the
  request (an administrator or a member, never an owner) until the key expires, and is refused from then on: a number of days
  above zero sets the expiry that many days after the creation (in 64-bit nanoseconds), otherwise there is none. After a
  successful revocation it is refused at any time.
\<close>

theorem api_key_life:
  assumes "CreateAPIKey_api env p orgParam (Some b) d = (Inr (row, full), d1)"
    and "ax_rnd env ''prefix'' = Some pb" "length pb = 12" "ax_rnd env ''secret'' = Some sb" "sb \<noteq> []"
    and "ae_sha aenv = ax_sha env" "ae_out aenv ''key'' = IoOk"
    and alive: "alive \<longleftrightarrow> (case kb_expires_in_days b of
        Some n \<Rightarrow> n > 0 \<longrightarrow> ae_now aenv < ax_now env + to_int64 (n * 24 * hour) | None \<Rightarrow> True)"
  shows "(alive \<longrightarrow>
      (\<exists>q. fst (Authenticate aenv (bearer full) d1) = Inr q \<and> session_org p orgParam = Inr (pr_OrgID q) \<and>
         pr_Role q = (if kb_role b = [] then RoleAdmin else kb_role b) \<and> pr_APIKeyID q = ak_id row \<and> LessThan (pr_Role q) RoleOwner)) \<and>
    (\<not> alive \<longrightarrow> fst (Authenticate aenv (bearer full) d1) = Inl 401) \<and>
    (\<forall>env2 p2 orgParam2 idParam d2.
       RevokeAPIKey env2 p2 orgParam2 idParam d1 = (204, d2) \<and> session_org p2 orgParam2 = session_org p orgParam \<and>
       uuid_Parse idParam = Some (ak_id row) \<longrightarrow> fst (Authenticate aenv (bearer full) d2) = Inl 401)"
proof -
  obtain org where c: "session_org p orgParam = Inr org" "key_created env org b d row full d1"
    using CreateAPIKey_api_Inr [OF assms(1)] by blast
  obtain secret where s: "full = apiKeyMark @ ak_prefix row @ ''_'' @ secret" "length (ak_prefix row) = APIKeyPrefixLen" "secret \<noteq> []"
    "ak_key_hash row = ax_sha env secret" using created_auth [OF c(2) assms(2-5)] by blast
  have u: "alive = unexpired (ae_now aenv) row"
    using c(2) alive by (auto simp: key_created_def key_expiry_def unexpired_def split: option.split)
  have "LessThan (ak_role row) RoleOwner"
    using c(2) by (auto simp: key_created_def LessThan_def roleOrder_def RoleMember_def RoleAdmin_def RoleOwner_def)
  moreover have "fst (Authenticate aenv (bearer full) d1) = (if alive then Inr (key_principal row) else Inl 401)"
    using Authenticate_key [OF s(1-3) assms(7)] created_find [OF c(2)] s(4) assms(6) by (simp add: u)
  moreover have "fst (Authenticate aenv (bearer full) d2) = Inl 401"
    if "RevokeAPIKey env2 p2 orgParam2 idParam d1 = (204, d2)" "session_org p2 orgParam2 = session_org p orgParam"
      "uuid_Parse idParam = Some (ak_id row)" for env2 p2 orgParam2 idParam d2
    using Authenticate_key [OF s(1-3) assms(7)] revoked_find [OF c(2) RevokeAPIKey_204 [OF that(1) _ that(3)]] that(2) c(1) by simp
  ultimately show ?thesis using c by (auto simp: key_principal_def key_created_def)
qed

theorem api_key_life_witness:
  "\<exists>row full d1. CreateAPIKey_api axenv0 (session0 id_cy) id_org (Some (kb0 (Some 30))) team0 = (Inr (row, full), d1) \<and>
    (\<exists>q. fst (Authenticate (aenv0 7) (bearer full) d1) = Inr q \<and> pr_Role q = RoleAdmin) \<and>
    fst (Authenticate (aenv0 (30 * 24 * hour)) (bearer full) d1) = Inl 401 \<and>
    (\<exists>d2. RevokeAPIKey axenv0 (session0 id_cy) id_org id_bob d1 = (204, d2) \<and> fst (Authenticate (aenv0 7) (bearer full) d2) = Inl 401)"
proof -
  obtain row full d1 where c: "CreateAPIKey_api axenv0 (session0 id_cy) id_org (Some (kb0 (Some 30))) team0 = (Inr (row, full), d1)"
    using key0_created by blast
  have "ax_rnd axenv0 ''prefix'' = Some ''abcdefghijkl''" "length ''abcdefghijkl'' = 12" "ax_rnd axenv0 ''secret'' = Some ''s''" "''s'' \<noteq> []"
    "ae_sha (aenv0 now) = ax_sha axenv0" "ae_out (aenv0 now) ''key'' = IoOk" for now
    by (simp_all add: rnd0_def aenv0_def)
  note l = api_key_life [OF c this refl]
  have e: "to_int64 2592000000000000 = 2592000000000000" by (simp add: to_int64_def)
  have "kb_expires_in_days (kb0 (Some 30)) = Some 30" "kb_role (kb0 (Some 30)) = []" "ae_now (aenv0 now) = now" for now
    by (simp_all add: kb0_def aenv0_def)
  note l = l [unfolded this option.case if_True]
  have bob: "uuid_Parse id_bob = Some id_bob" unfolding id_bob_def by code_simp
  obtain q where "fst (Authenticate (aenv0 7) (bearer full) d1) = Inr q" "pr_Role q = RoleAdmin"
    using l [of 7] by (auto simp: e hour_def second_def)
  moreover have "fst (Authenticate (aenv0 (30 * 24 * hour)) (bearer full) d1) = Inl 401"
    using l [of "30 * 24 * hour"] by (simp add: e hour_def second_def)
  moreover obtain d2 where r: "RevokeAPIKey axenv0 (session0 id_cy) id_org id_bob d1 = (204, d2)"
  proof -
    have o: "session_org (session0 id_cy) id_org = Inr id_org" by (simp add: session_org_def)
    have "t_members d1 = t_members team0" using CreateAPIKey_api_Inr [OF c] by (auto simp: key_created_def)
    then have "admin_of axenv0 (session0 id_cy) id_org d1 = Inr (member0 id_cy ''admin'')"
      by (simp add: admin_of_def caller_of_def GetOrgMember_def one_row_def team0_def is_member_def member0_def LessThan_def roleOrder_def
          RoleAdmin_def RoleMember_def RoleOwner_def)
    then show ?thesis using that o bob by (simp add: RevokeAPIKey_def)
  qed
  moreover have "fst (Authenticate (aenv0 7) (bearer full) d2) = Inl 401"
  proof -
    have "ak_id row = id_bob" using CreateAPIKey_api_Inr [OF c] by (auto simp: key_created_def)
    then show ?thesis
      using conjunct2 [OF conjunct2 [OF l [of 7]], rule_format, of axenv0 "session0 id_cy" id_org id_bob d2] r bob by simp
  qed
  ultimately show ?thesis using c by blast
qed

text \<open>
  the number of days of an API key is not bounded. From 106752 days on (and up to twice that) the 64-bit duration
  overflows: the key is created and its text answered, but its expiry lies before its creation and the text is refused
  from the start.
\<close>

theorem api_key_overflow:
  assumes "CreateAPIKey_api env p orgParam (Some b) d = (Inr (row, full), d1)" "kb_expires_in_days b = Some n"
    and "106752 \<le> n" "n \<le> 213503"
    and "ax_rnd env ''prefix'' = Some pb" "length pb = 12" "ax_rnd env ''secret'' = Some sb" "sb \<noteq> []"
    and "ae_out aenv ''key'' = IoOk" "ae_now aenv \<ge> ax_now env"
  shows "fst (Authenticate aenv (bearer full) d1) = Inl 401"
proof -
  obtain org where c: "session_org p orgParam = Inr org" "key_created env org b d row full d1"
    using CreateAPIKey_api_Inr [OF assms(1)] by blast
  obtain secret where s: "full = apiKeyMark @ ak_prefix row @ ''_'' @ secret" "length (ak_prefix row) = APIKeyPrefixLen" "secret \<noteq> []"
    using created_auth [OF c(2) assms(5-8)] by blast
  have "to_int64 (n * 24 * hour) < 0"
  proof -
    let ?x = "n * 24 * hour + 2 ^ 63 :: int"
    have x: "2 ^ 64 \<le> ?x" "?x < 2 ^ 64 + 2 ^ 63" using assms(3,4) by (simp_all add: hour_def second_def)
    have "?x mod 2 ^ 64 = (?x - 2 ^ 64) mod 2 ^ 64" by (simp only: minus_mod_self2)
    also have "\<dots> = ?x - 2 ^ 64" using x by (intro mod_pos_pos_trivial) simp_all
    finally show ?thesis using x unfolding to_int64_def by linarith
  qed
  then have "\<not> unexpired (ae_now aenv) row"
    using c(2) assms(2,3,10) by (simp add: key_created_def key_expiry_def unexpired_def)
  then show ?thesis
    using Authenticate_key [OF s assms(9)] created_find [OF c(2)] by simp
qed

theorem api_key_overflow_witness:
  "\<exists>row full d1. CreateAPIKey_api axenv0 (session0 id_cy) id_org (Some (kb0 (Some 150000))) team0 = (Inr (row, full), d1) \<and>
    fst (Authenticate (aenv0 7) (bearer full) d1) = Inl 401"
proof -
  obtain row full d1 where c: "CreateAPIKey_api axenv0 (session0 id_cy) id_org (Some (kb0 (Some 150000))) team0 = (Inr (row, full), d1)"
    using key0_created by blast
  have "fst (Authenticate (aenv0 7) (bearer full) d1) = Inl 401"
    by (rule api_key_overflow [OF c, of 150000 "''abcdefghijkl''" "''s''"]) (simp_all add: kb0_def rnd0_def aenv0_def)
  with c show ?thesis by blast
qed

text \<open>
  CSRF. A state-changing request of a browser with a session passes only with a header token whose MAC was computed
  over this session's cookie, whatever CSRF cookie it carries; and the token that any earlier request of the session
  was given passes.
\<close>

theorem csrf_bound:
  assumes "cq_session r = Some session" "session \<noteq> []" "cq_Method r \<notin> {''GET'', ''HEAD'', ''OPTIONS''}"
    and "\<not> has_prefix (cq_Authorization r) ''Bearer ''"
  shows "(fst (CSRF hmac secret rnd r) = None \<longrightarrow>
      (\<exists>nonce. nonce \<noteq> [] \<and> cq_header r = nonce @ ''.'' @ csrfMAC hmac secret session nonce)) \<and>
    (\<forall>r0 b b'. (\<forall>k m. hmac k m \<noteq> []) \<and> b \<noteq> [] \<and> cq_session r0 = Some session \<and>
      snd (CSRF hmac secret (Some b) r0) = Some (cq_header r) \<longrightarrow> fst (CSRF hmac secret (Some b') r) = None)"
proof -
  have g: "guarded r session" using assms by (simp add: guarded_def)
  show ?thesis
  proof (intro conjI allI impI)
    assume "fst (CSRF hmac secret rnd r) = None"
    then have "validCSRFToken hmac (cq_header r) session secret" by (simp add: guarded_CSRF [OF g] split: if_splits)
    then show "\<exists>nonce. nonce \<noteq> [] \<and> cq_header r = nonce @ ''.'' @ csrfMAC hmac secret session nonce"
      by (elim valid_token_form) blast
  next
    fix r0 b b'
    assume "(\<forall>k m. hmac k m \<noteq> []) \<and> b \<noteq> [] \<and> cq_session r0 = Some session \<and>
      snd (CSRF hmac secret (Some b) r0) = Some (cq_header r)"
    then have "validCSRFToken hmac (cq_header r) session secret" using minted_valid [of r0 session] assms(2) by blast
    then show "fst (CSRF hmac secret (Some b') r) = None" by (simp add: guarded_CSRF [OF g])
  qed
qed

theorem csrf_bound_witness:
  "fst (CSRF hmac0 [] (Some ''x'') (creq0 (the (snd (CSRF hmac0 [] (Some ''ab'') (creq0 [])))))) = None"
proof -
  let ?tok = "the (snd (CSRF hmac0 [] (Some ''ab'') (creq0 [])))"
  have "snd (CSRF hmac0 [] (Some ''ab'') (creq0 [])) = Some (cq_header (creq0 ?tok))"
    by (simp add: CSRF_def creq0_def opt_default_def Let_def validCSRFToken_def newBoundCSRFToken_def newRandomToken_def)
  moreover have "\<forall>k m. hmac0 k m \<noteq> []" by (simp add: hmac0_def)
  moreover have "cq_session (creq0 ?tok) = Some ''s''" "''s'' \<noteq> []" "cq_Method (creq0 ?tok) \<notin> {''GET'', ''HEAD'', ''OPTIONS''}"
    "\<not> has_prefix (cq_Authorization (creq0 ?tok)) ''Bearer ''" "cq_session (creq0 []) = Some ''s''"
    by (simp_all add: creq0_def has_prefix_def)
  ultimately show ?thesis using csrf_bound [of "creq0 ?tok" "''s''" hmac0 "[]"] by blast
qed

text \<open>
  C39: single sign-on. A callback that logs in came from the browser that holds the state as its cookie, its state was stored
  by a start and had not expired, the identity provider vouched for the address in a token with the nonce of that
  start, and the session is of a user with this address; the browser is sent to a path of the application itself. A second
  callback with the same state is refused, whoever sends it.
\<close>

theorem sso_bound:
  assumes "CallbackSSO env q w ss = (Inr (cookie, loc), w', ss')"
  shows "(\<exists>st t i (u :: user_row) org. sq_cookie q = Some (sq_state q) \<and> (sq_state q, st, t) \<in> set ss \<and> ax_now env < t \<and>
      the (ax_auth env) (sq_code q) = Some i \<and> id_Nonce i = ss_Nonce st \<and> id_Nonce i \<noteq> [] \<and> id_EmailVerified i \<and>
      ci_eq (us_email u) (TrimSpace (map lower_char (id_Email i))) \<and>
      cookie = Issue (ie_hmac (ax_i env)) (ie_secret (ax_i env)) (ax_now env) (us_id u) org (us_session_epoch u)) \<and>
    (\<exists>path. loc = trim_slash (ax_AppBaseURL env) @ ''/'' @ path \<and> \<not> has_prefix path ''/'' \<and> \<not> has_prefix path [CHR 0x5C]) \<and>
    (sq_state q2 = sq_state q \<longrightarrow> (\<exists>e. fst (CallbackSSO env2 q2 w2 ss') = Inl e))"
proof -
  from assms obtain exchange st i u org where c: "ax_auth env = Some exchange"
    "sso_GetDel (ax_now env) (sq_state q) ss = (Some st, ss')"
    "sq_cookie q = Some (sq_state q)" "exchange (sq_code q) = Some i" "id_Nonce i = ss_Nonce st" "id_Nonce i \<noteq> []" "id_EmailVerified i"
    "fst (sso_login env (TrimSpace (map lower_char (id_Email i))) w) = Inr (u, org)"
    "cookie = Issue (ie_hmac (ax_i env)) (ie_secret (ax_i env)) (ax_now env) (us_id u) org (us_session_epoch u)"
    "loc = trim_slash (ax_AppBaseURL env) @ safeReturnTo (ss_ReturnTo st)" by (rule callback_Inr)
  obtain t where t: "(sq_state q, st, t) \<in> set ss" "ax_now env < t" using GetDel_Some [OF c(2)] by blast
  have e: "ci_eq (us_email u) (TrimSpace (map lower_char (id_Email i)))"
    using c(8) by (intro sso_login_email [of env _ w u org "snd (sso_login env (TrimSpace (map lower_char (id_Email i))) w)"]) (simp add: prod_eq_iff)
  have "fst (sso_GetDel now (sq_state q) ss') = None" for now
    using GetDel_gone [of now "sq_state q" "ax_now env" ss] c(2) by simp
  then have "sq_state q2 = sq_state q \<longrightarrow> (\<exists>e. fst (CallbackSSO env2 q2 w2 ss') = Inl e)" by (auto intro: callback_state_gone)
  moreover have "\<exists>path. loc = trim_slash (ax_AppBaseURL env) @ ''/'' @ path \<and> \<not> has_prefix path ''/'' \<and> \<not> has_prefix path [CHR 0x5C]"
    using safeReturnTo_form [of "ss_ReturnTo st"] c(10) by auto
  moreover have "\<exists>st t i (u :: user_row) org. sq_cookie q = Some (sq_state q) \<and> (sq_state q, st, t) \<in> set ss \<and> ax_now env < t \<and>
      the (ax_auth env) (sq_code q) = Some i \<and> id_Nonce i = ss_Nonce st \<and> id_Nonce i \<noteq> [] \<and> id_EmailVerified i \<and>
      ci_eq (us_email u) (TrimSpace (map lower_char (id_Email i))) \<and>
      cookie = Issue (ie_hmac (ax_i env)) (ie_secret (ax_i env)) (ax_now env) (us_id u) org (us_session_epoch u)"
    using c t e by (intro exI [of _ st] exI [of _ t] exI [of _ i] exI [of _ u] exI [of _ org]) simp
  ultimately show ?thesis by blast
qed

theorem sso_bound_witness:
  "\<exists>cookie loc w' ss'. CallbackSSO axenv0 query0 (aw0 []) store0 = (Inr (cookie, loc), w', ss') \<and>
    (\<exists>e. fst (CallbackSSO axenv0 query0 w' ss') = Inl e)"
proof -
  obtain cookie loc w' ss' where c: "CallbackSSO axenv0 query0 (aw0 []) store0 = (Inr (cookie, loc), w', ss')" using callback0 by blast
  then show ?thesis using sso_bound [OF c, of query0 axenv0 w'] by blast
qed

text \<open>
  C40: an invitation joins the invited person, once. When accepting a token joins an organization, the session belongs to
  a user with the invited address, the organization is the invitation's and the user is a member of it afterwards; any
  later attempt with the same token, by anybody, is answered as unknown.
\<close>

theorem invite_once:
  assumes "AcceptInvite R env cookie token w = (AcceptJoined org role c, w')"
    and "\<forall>a \<in> set (t_invites (aw_idb w)). \<forall>b \<in> set (t_invites (aw_idb w)). iv_token_hash a = iv_token_hash b \<longrightarrow> iv_id a = iv_id b"
  shows "(\<exists>v u uid g. v \<in> set (t_invites (aw_idb w)) \<and> iv_token_hash v = ax_sha env token \<and> org = iv_org_id v \<and> role = iv_role v \<and>
      session_Parse (ie_hmac (ax_i env)) (ie_secret (ax_i env)) (ax_now env) cookie = Inr (uid, g, us_session_epoch u) \<and>
      GetUserByID uid (aw_idb w) = Inr u \<and> ci_eq (us_email u) (iv_email v) \<and> list_ex (is_member org uid) (t_members (aw_idb w'))) \<and>
    (ax_sha env2 = ax_sha env \<longrightarrow> fst (AcceptInvite R env2 cookie2 token w') = AcceptRefused 404 None)"
proof -
  from assms(1) obtain v uid g u d' where j: "token \<noteq> []" "GetActiveOrgInviteByTokenHash (ax_now env) (ax_sha env token) (aw_idb w) = Inr v"
    "session_Parse (ie_hmac (ax_i env)) (ie_secret (ax_i env)) (ax_now env) cookie = Inr (uid, g, us_session_epoch u)"
    "GetUserByID uid (aw_idb w) = Inr u" "ci_eq (us_email u) (iv_email v)"
    "accept_in_session env token u uid (aw_idb w) = (AcceptJoined org role c, d')" "w' = w\<lparr>aw_idb := d'\<rparr>"
    by (rule AcceptInvite_joined)
  from accept_in_session_joined [OF j(6)] obtain x d2 where x: "ConsumeOrgInvite (ax_sha env) (ax_out env) (ax_now env) token uid (aw_idb w) = (Inr x, d2)"
    "org = iv_org_id x" "role = iv_role x" "t_invites d' = t_invites d2" "t_members d' = t_members d2" by blast
  note k = consumed_invite [OF x(1)]
  have v: "x = v" "v \<in> set (t_invites (aw_idb w))" "iv_token_hash v = ax_sha env token"
    using k(1) j(2) active_invite [OF j(2)] by simp_all
  have "\<forall>a \<in> set (t_invites (aw_idb w)). iv_token_hash a = ax_sha env token \<longrightarrow> iv_id a = iv_id x"
    unfolding v(1) using assms(2) v(2,3) by metis
  from accepted_gone [OF k(1) _ this] have "GetActiveOrgInviteByTokenHash now2 (ax_sha env token) d' = Inl ErrNoRows" for now2
    using k(2) x(4) by simp
  then have "ax_sha env2 = ax_sha env \<longrightarrow> fst (AcceptInvite R env2 cookie2 token w') = AcceptRefused 404 None"
    using j(1,7) by (simp add: AcceptInvite_def)
  moreover have "list_ex (is_member org uid) (t_members (aw_idb w'))" using k(3) x(2,5) j(7) by simp
  ultimately show ?thesis
    using v x(2,3) j(3-5) by blast
qed

theorem invite_once_witness:
  "\<exists>c w'. AcceptInvite mem_redis axenv0 (Some (Issue hmac0 [] 0 id_ann id_org 0)) ''t'' (aw0 [invite0]) = (AcceptJoined id_org ''admin'' c, w') \<and>
    fst (AcceptInvite mem_redis axenv0 None ''t'' w') = AcceptRefused 404 None"
proof -
  obtain c w' where a: "AcceptInvite mem_redis axenv0 (Some (Issue hmac0 [] 0 id_ann id_org 0)) ''t'' (aw0 [invite0]) =
      (AcceptJoined id_org ''admin'' c, w')" using accept0 by blast
  have u: "\<forall>a \<in> set (t_invites (aw_idb (aw0 [invite0]))). \<forall>b \<in> set (t_invites (aw_idb (aw0 [invite0]))). iv_token_hash a = iv_token_hash b \<longrightarrow> iv_id a = iv_id b"
    by (simp add: aw0_def)
  show ?thesis using invite_once [OF a u, of axenv0 None] a by blast
qed

end
