(* ===== verification/Reports.thy ===== *)
theory Reports
  imports Pipeline
begin

text \<open>
  The reporting side: the queries of src/internal/store/events.sql.go that count and group, the histogram and the detail
  metrics of src/internal/api/pipeline (events.go, metrics.go) and the previews (preview.go). The connection pool pins its
  sessions to UTC, so \<^verbatim>\<open>date_trunc\<close> cuts at multiples of the bucket and an interval of a day has 24 hours; the clock of the handler and the clock of its statements read the same instant. Rates are computed in
  \<^verbatim>\<open>float64\<close>; \<open>avg\<close>, the average of the database, is an argument, as are the packages filter and transform.
\<close>

section \<open>Time buckets\<close>

definition maxHistogramBuckets :: int where "maxHistogramBuckets = 1500"

definition bucketInterval :: "string \<Rightarrow> int" where
  "bucketInterval bucket =
     (if bucket = ''minute'' then 60 * second
      else if bucket = ''day'' then 24 * hour
      else if bucket = ''week'' then 7 * 24 * hour
      else hour)"

definition clampAfter :: "int \<Rightarrow> string \<Rightarrow> int option \<Rightarrow> int option" where
  "clampAfter now bucket after =
     (case after of None \<Rightarrow> None
      | Some a \<Rightarrow> let earliest = now - maxHistogramBuckets * bucketInterval bucket in Some (if a < earliest then earliest else a))"

definition bucketOf :: "string \<Rightarrow> string" where
  "bucketOf b = (if b \<in> {''minute'', ''hour'', ''day'', ''week''} then b else ''hour'')"

text \<open>\<open>parse\<close> reads an RFC3339 text; a text that it cannot read leaves the default of seven days.\<close>

definition parseMetricsWindow :: "(string \<Rightarrow> int option) \<Rightarrow> int \<Rightarrow> string \<Rightarrow> string \<Rightarrow> string \<times> int option" where
  "parseMetricsWindow parse now bucketParam afterParam =
     (let bucket = bucketOf bucketParam;
          after = (case (if afterParam = [] then None else parse afterParam) of
                     Some t \<Rightarrow> Some t | None \<Rightarrow> Some (now - 7 * 24 * hour))
      in (bucket, clampAfter now bucket after))"

text \<open>Buckets start at multiples of their width, weeks on a Monday (the epoch is a Thursday).\<close>

definition bucketOrigin :: "string \<Rightarrow> int" where
  "bucketOrigin bucket = (if bucket = ''week'' then 4 * 24 * hour else 0)"

definition bucket_trunc :: "string \<Rightarrow> int \<Rightarrow> int" where
  "bucket_trunc bucket t = t - (t - bucketOrigin bucket) mod bucketInterval bucket"

definition generate_series :: "int \<Rightarrow> int \<Rightarrow> int \<Rightarrow> int list" where
  "generate_series a b step = map (\<lambda>k. a + int k * step) [0..<(if b < a then 0 else nat ((b - a) div step) + 1)]"

definition bucketSeries :: "int \<Rightarrow> string \<Rightarrow> int \<Rightarrow> int list" where
  "bucketSeries now bucket after = generate_series (bucket_trunc bucket after) (bucket_trunc bucket now) (bucketInterval bucket)"

section \<open>Grouping\<close>

definition row_counts :: "'a list \<Rightarrow> ('a \<times> nat) list" where
  "row_counts ks = map (\<lambda>k. (k, count_list ks k)) (remdups ks)"

text \<open>The left join of the series with the counts per bucket and status: an empty bucket has one row without a status.\<close>

definition hist_rows :: "int list \<Rightarrow> (int \<times> string) list \<Rightarrow> (int \<times> string option \<times> nat) list" where
  "hist_rows series keys =
     concat (map (\<lambda>s. case filter (\<lambda>((b, _), _). b = s) (row_counts keys) of
                          [] \<Rightarrow> [(s, None, 0)]
                        | cs \<Rightarrow> map (\<lambda>((_, st), n). (s, Some st, n)) cs) series)"

definition hist_events :: "string option \<Rightarrow> string option \<Rightarrow> string \<Rightarrow> int \<Rightarrow> db \<Rightarrow> event_row list" where
  "hist_events conn status org after d =
     filter (\<lambda>e. ev_org_id e = org \<and> (conn = None \<or> conn = Some (ev_connection_id e)) \<and> (status = None \<or> status = Some (ev_status e)) \<and>
                 after \<le> ev_created_at e) (t_events d)"

definition EventsHistogram :: "int \<Rightarrow> string \<Rightarrow> int \<Rightarrow> string \<Rightarrow> string option \<Rightarrow> string option \<Rightarrow> db \<Rightarrow> (int \<times> string option \<times> nat) list" where
  "EventsHistogram now bucket after org conn status d =
     hist_rows (bucketSeries now bucket after)
       (map (\<lambda>e. (bucket_trunc bucket (ev_created_at e), ev_status e)) (hist_events conn status org after d))"

text \<open>The events whose connection leads to a destination: the inner join with connections.\<close>

definition dest_events :: "string \<Rightarrow> string \<Rightarrow> db \<Rightarrow> event_row list" where
  "dest_events dest org d =
     filter (\<lambda>e. ev_org_id e = org \<and> list_ex (\<lambda>c. cn_id c = ev_connection_id e \<and> cn_destination_id c = dest) (t_connections d)) (t_events d)"

definition DestinationDeliveryHistogram :: "int \<Rightarrow> string \<Rightarrow> int \<Rightarrow> string \<Rightarrow> string \<Rightarrow> db \<Rightarrow> (int \<times> string option \<times> nat) list" where
  "DestinationDeliveryHistogram now bucket after dest org d =
     hist_rows (bucketSeries now bucket after)
       (map (\<lambda>e. (bucket_trunc bucket (ev_created_at e), ev_status e)) (filter (\<lambda>e. after \<le> ev_created_at e) (dest_events dest org d)))"

record dest_stats =
  st_Total :: nat
  st_Delivered :: nat
  st_AvgLatencyMs :: rat
  st_LatencySamples :: nat

definition DestinationDeliveryStats :: "(int list \<Rightarrow> rat) \<Rightarrow> string \<Rightarrow> string \<Rightarrow> int \<Rightarrow> db \<Rightarrow> dest_stats" where
  "DestinationDeliveryStats avg dest org after d =
     (let es = filter (\<lambda>e. after \<le> ev_created_at e) (dest_events dest org d);
          timed = List.map_filter at_duration_ms (filter (\<lambda>a. after \<le> at_attempted_at a \<and>
                    list_ex (\<lambda>e. ev_id e = at_event_id a) (dest_events dest org d)) (t_attempts d))
      in \<lparr>st_Total = length es, st_Delivered = length (filter (\<lambda>e. ev_status e = ''delivered'') es),
          st_AvgLatencyMs = (if timed = [] then 0 else avg timed), st_LatencySamples = length timed\<rparr>)"

definition source_requests :: "string \<Rightarrow> string \<Rightarrow> int \<Rightarrow> db \<Rightarrow> req_row list" where
  "source_requests src org after d =
     filter (\<lambda>r. rq_source_id r = src \<and> list_ex (\<lambda>s. so_id s = src \<and> so_org_id s = org) (t_sources d) \<and> after \<le> rq_received_at r) (t_requests d)"

definition SourceRequestHistogram :: "int \<Rightarrow> string \<Rightarrow> int \<Rightarrow> string \<Rightarrow> string \<Rightarrow> db \<Rightarrow> (int \<times> nat) list" where
  "SourceRequestHistogram now bucket after src org d =
     (let keys = map (\<lambda>r. bucket_trunc bucket (rq_received_at r)) (source_requests src org after d)
      in map (\<lambda>s. (s, count_list keys s)) (bucketSeries now bucket after))"

definition SourceRequestStats :: "string \<Rightarrow> string \<Rightarrow> int \<Rightarrow> db \<Rightarrow> nat \<times> nat" where
  "SourceRequestStats src org after d =
     (length (source_requests src org after d),
      length (filter (\<lambda>e. ev_org_id e = org \<and> after \<le> ev_created_at e \<and>
        list_ex (\<lambda>r. rq_id r = ev_request_id e \<and> rq_source_id r = src) (t_requests d)) (t_events d)))"

section \<open>The histogram and the metrics of a destination and a source\<close>

record histBucket =
  hb_Ts :: int
  hb_Counts :: "(string \<times> nat) list"
  hb_Total :: nat

fun add_count :: "string \<Rightarrow> nat \<Rightarrow> (string \<times> nat) list \<Rightarrow> (string \<times> nat) list" where
  "add_count st n [] = [(st, n)]"
| "add_count st n ((s, m) # cs) = (if s = st then (s, m + n) # cs else (s, m) # add_count st n cs)"

definition addRow :: "string option \<Rightarrow> nat \<Rightarrow> histBucket \<Rightarrow> histBucket" where
  "addRow st n b = (case st of None \<Rightarrow> b | Some s \<Rightarrow> b\<lparr>hb_Counts := add_count s n (hb_Counts b), hb_Total := hb_Total b + n\<rparr>)"

fun tallyRow :: "int \<times> string option \<times> nat \<Rightarrow> histBucket list \<Rightarrow> histBucket list" where
  "tallyRow (s, st, n) bs =
     (if list_ex (\<lambda>b. hb_Ts b = s) bs then map (\<lambda>b. if hb_Ts b = s then addRow st n b else b) bs
      else bs @ [addRow st n \<lparr>hb_Ts = s, hb_Counts = [], hb_Total = 0\<rparr>])"

definition tallyBuckets :: "(int \<times> string option \<times> nat) list \<Rightarrow> histBucket list" where
  "tallyBuckets rows = fold tallyRow rows []"

definition EventsHistogram_api ::
  "oenv \<Rightarrow> Principal option \<Rightarrow> string \<Rightarrow> string \<Rightarrow> string \<Rightarrow> string \<Rightarrow> 'r pworld \<Rightarrow> (string \<times> histBucket list) reply \<times> 'r pworld" where
  "EventsHistogram_api env p conn status after bucketParam =
     active_org p (\<lambda>org w.
       case parseEventFilters env conn status after of None \<Rightarrow> (Inl 400, w) | Some (c, s, a) \<Rightarrow>
       let a = (case a of None \<Rightarrow> Some (oe_now env - 24 * hour) | Some t \<Rightarrow> Some t);
           bucket = bucketOf bucketParam;
           a = clampAfter (oe_now env) bucket a
       in case pread (oe_out env ''histogram'') (\<lambda>d. Inr (EventsHistogram (oe_now env) bucket (the a) org c s d)) w of
            Inl _ \<Rightarrow> (Inl 500, w)
          | Inr rows \<Rightarrow> (Inr (200, bucket, tallyBuckets rows), w))"

record dest_metrics =
  dm_bucket :: string
  dm_series :: "histBucket list"
  dm_total :: nat
  dm_delivered :: nat
  dm_delivery_rate :: "rat option"
  dm_avg_latency_ms :: "rat option"

definition DestinationMetrics ::
  "(int list \<Rightarrow> rat) \<Rightarrow> oenv \<Rightarrow> Principal option \<Rightarrow> string \<Rightarrow> string \<Rightarrow> string \<Rightarrow> 'r pworld \<Rightarrow> dest_metrics reply \<times> 'r pworld" where
  "DestinationMetrics avg env p param bucketParam afterParam =
     with_id p param (\<lambda>org i w.
       case pread (oe_out env ''get'') (GetDestinationForOrg i org) w of Inl _ \<Rightarrow> (Inl 404, w) | Inr _ \<Rightarrow>
       let (bucket, a) = parseMetricsWindow (oe_time env) (oe_now env) bucketParam afterParam
       in case pread (oe_out env ''histogram'') (\<lambda>d. Inr (DestinationDeliveryHistogram (oe_now env) bucket (the a) i org d)) w of
            Inl _ \<Rightarrow> (Inl 500, w)
          | Inr rows \<Rightarrow>
              (case pread (oe_out env ''stats'') (\<lambda>d. Inr (DestinationDeliveryStats avg i org (the a) d)) w of
                 Inl _ \<Rightarrow> (Inl 500, w)
               | Inr st \<Rightarrow>
                   (Inr (200, \<lparr>dm_bucket = bucket, dm_series = tallyBuckets rows, dm_total = st_Total st, dm_delivered = st_Delivered st,
                      dm_delivery_rate = (if st_Total st > 0 then Some (fl64 (of_nat (st_Delivered st) / of_nat (st_Total st))) else None),
                      dm_avg_latency_ms = (if st_LatencySamples st > 0 then Some (st_AvgLatencyMs st) else None)\<rparr>), w)))"

record source_metrics =
  sm_bucket :: string
  sm_series :: "(int \<times> nat) list"
  sm_requests :: nat
  sm_events :: nat
  sm_requests_rate :: rat
  sm_avg_events :: "rat option"

text \<open>Hours as Go computes them: the whole hours and the rest in nanoseconds, added in float64.\<close>

definition Hours :: "int \<Rightarrow> rat" where
  "Hours d = fl64 (of_int (d div hour) + fl64 (of_int (d mod hour) / of_int hour))"

definition windowDays :: "int \<Rightarrow> rat" where
  "windowDays d = (let days = fl64 (Hours d / 24) in if days < 1 then 1 else days)"

definition SourceMetrics ::
  "oenv \<Rightarrow> Principal option \<Rightarrow> string \<Rightarrow> string \<Rightarrow> string \<Rightarrow> 'r pworld \<Rightarrow> source_metrics reply \<times> 'r pworld" where
  "SourceMetrics env p param bucketParam afterParam =
     with_id p param (\<lambda>org i w.
       case pread (oe_out env ''get'') (GetSourceForOrg i org) w of Inl _ \<Rightarrow> (Inl 404, w) | Inr _ \<Rightarrow>
       let (bucket, a) = parseMetricsWindow (oe_time env) (oe_now env) bucketParam afterParam
       in case pread (oe_out env ''histogram'') (\<lambda>d. Inr (SourceRequestHistogram (oe_now env) bucket (the a) i org d)) w of
            Inl _ \<Rightarrow> (Inl 500, w)
          | Inr rows \<Rightarrow>
              (case pread (oe_out env ''stats'') (\<lambda>d. Inr (SourceRequestStats i org (the a) d)) w of
                 Inl _ \<Rightarrow> (Inl 500, w)
               | Inr (reqs, evs) \<Rightarrow>
                   (Inr (200, \<lparr>sm_bucket = bucket, sm_series = rows, sm_requests = reqs, sm_events = evs,
                      sm_requests_rate = fl64 (of_nat reqs / windowDays (oe_now env - the a)),
                      sm_avg_events = (if reqs > 0 then Some (fl64 (of_nat evs / of_nat reqs)) else None)\<rparr>), w)))"

section \<open>Previews\<close>

definition previewMaxPayload :: nat where "previewMaxPayload = 262144"

definition preview_payload :: "bytes \<Rightarrow> bytes" where
  "preview_payload b = (if b = [] then ''{}'' else b)"

record filterPreviewReq =
  fp_Expr :: string
  fp_Payload :: bytes
  fp_Headers :: "(string \<times> string) list"
  fp_Outbound :: bool
  fp_EventType :: string
  fp_Channels :: "string list"

text \<open>\<open>match\<close>: filter.Match of the expression, the environment, the payload, the headers and the metadata.\<close>

definition FilterPreview ::
  "(string \<Rightarrow> bool \<Rightarrow> bytes \<Rightarrow> (string \<times> string) list \<Rightarrow> string \<times> string list \<Rightarrow> bool option) \<Rightarrow> filterPreviewReq option \<Rightarrow> int + int \<times> bool" where
  "FilterPreview match body =
     (case body of None \<Rightarrow> Inl 400 | Some b \<Rightarrow>
      if length (fp_Payload b) > previewMaxPayload then Inl 400
      else case match (fp_Expr b) (fp_Outbound b) (preview_payload (fp_Payload b)) (fp_Headers b) (fp_EventType b, fp_Channels b) of
             None \<Rightarrow> Inl 400 | Some m \<Rightarrow> Inr (200, m))"

record transformPreviewReq =
  tp_JS :: string
  tp_Payload :: bytes
  tp_Headers :: "(string \<times> string) list"

definition TransformPreview ::
  "(string \<Rightarrow> bytes \<Rightarrow> (string \<times> string) list \<Rightarrow> int \<Rightarrow> int \<Rightarrow> bytes option) \<Rightarrow> transformPreviewReq option \<Rightarrow> int + int \<times> bytes" where
  "TransformPreview apply body =
     (case body of None \<Rightarrow> Inl 400 | Some b \<Rightarrow>
      if length (tp_Payload b) > previewMaxPayload then Inl 400
      else case apply (tp_JS b) (preview_payload (tp_Payload b)) (tp_Headers b) second (5 * 2 ^ 20) of
             None \<Rightarrow> Inl 400 | Some out \<Rightarrow> Inr (200, out))"

end
