(* ===== verification/Reports_Props.thy ===== *)
theory Reports_Props
  imports Reports Pipeline_Props
begin

text \<open>
  Properties of the reports: the histogram accounts for every event of its window exactly once, in at most 1501
  buckets whatever window is asked for.
\<close>

section \<open>Buckets\<close>

lemma bucketInterval_pos [simp]: "0 < bucketInterval b"
  by (simp add: bucketInterval_def hour_def second_def)

lemma day_in_window: "24 * hour \<le> 1500 * bucketInterval b"
  by (simp add: bucketInterval_def hour_def second_def)

lemma bucket_trunc_bounds: "bucket_trunc b t \<le> t" "t < bucket_trunc b t + bucketInterval b"
  using pos_mod_bound [OF bucketInterval_pos, of "t - bucketOrigin b" b] pos_mod_sign [OF bucketInterval_pos, of "t - bucketOrigin b" b]
  unfolding bucket_trunc_def by linarith+

lemma bucket_trunc_step: "bucket_trunc b t = bucketOrigin b + (t - bucketOrigin b) div bucketInterval b * bucketInterval b"
  using div_mult_mod_eq [of "t - bucketOrigin b" "bucketInterval b"] unfolding bucket_trunc_def by linarith

lemma bucket_trunc_diff:
  "bucket_trunc b t - bucket_trunc b a = ((t - bucketOrigin b) div bucketInterval b - (a - bucketOrigin b) div bucketInterval b) * bucketInterval b"
  by (simp add: bucket_trunc_step algebra_simps)

lemma bucket_trunc_mono: "a \<le> t \<Longrightarrow> bucket_trunc b a \<le> bucket_trunc b t"
  using zdiv_mono1 [OF _ bucketInterval_pos, of "a - bucketOrigin b" "t - bucketOrigin b" b]
  by (simp add: bucket_trunc_step mult_right_mono)

lemma series_distinct: "0 < w \<Longrightarrow> distinct (generate_series a c w)"
  by (simp add: generate_series_def distinct_map inj_on_def)

lemma series_mem:
  assumes "a \<le> t" "t \<le> now"
  shows "bucket_trunc b t \<in> set (bucketSeries now b a)"
proof -
  let ?w = "bucketInterval b"
  define k where "k = (t - bucketOrigin b) div ?w - (a - bucketOrigin b) div ?w"
  define m where "m = (now - bucketOrigin b) div ?w - (a - bucketOrigin b) div ?w"
  have k: "bucket_trunc b t = bucket_trunc b a + k * ?w" "bucket_trunc b now = bucket_trunc b a + m * ?w"
    using bucket_trunc_diff [of b t a] bucket_trunc_diff [of b now a] by (simp_all add: k_def m_def)
  have le: "0 \<le> k" "k \<le> m"
    using zdiv_mono1 [OF _ bucketInterval_pos, of "a - bucketOrigin b" "t - bucketOrigin b" b]
      zdiv_mono1 [OF _ bucketInterval_pos, of "t - bucketOrigin b" "now - bucketOrigin b" b] assms by (simp_all add: k_def m_def)
  have w: "?w \<noteq> 0" using bucketInterval_pos [of b] by linarith
  then have d: "(bucket_trunc b now - bucket_trunc b a) div ?w = m" by (simp add: k)
  have n: "\<not> bucket_trunc b now < bucket_trunc b a" using le by (simp add: k not_less mult_nonneg_nonneg less_imp_le)
  have "nat k \<in> {0..<nat m + 1}" using le by simp
  moreover have "bucket_trunc b t = bucket_trunc b a + int (nat k) * ?w" using le k by simp
  ultimately show ?thesis unfolding bucketSeries_def generate_series_def using n d by (simp del: upt_Suc of_nat_nat int_nat_eq) (rule imageI, simp)
qed

lemma div_less_bound: "0 < w \<Longrightarrow> (x :: int) < w * n \<Longrightarrow> x div w < n"
  using mult_div_mod_eq [of w x] pos_mod_sign [of w x] by (smt (verit) mult_less_cancel_left_pos)

lemma series_length:
  assumes "now - n * bucketInterval b \<le> a" "0 \<le> n"
  shows "length (bucketSeries now b a) \<le> nat n + 1"
proof -
  let ?w = "bucketInterval b"
  have "bucket_trunc b now - bucket_trunc b a < (n + 1) * ?w"
    using bucket_trunc_bounds(1) [of b now] bucket_trunc_bounds(2) [of a b] assms by (simp add: algebra_simps)
  then have "(bucket_trunc b now - bucket_trunc b a) div ?w < n + 1" by (intro div_less_bound) (simp_all add: mult.commute)
  then show ?thesis using assms(2) by (simp add: bucketSeries_def generate_series_def nat_le_iff)
qed

section \<open>Tallying\<close>

lemma tally_block:
  "s \<notin> hb_Ts ` set bs \<Longrightarrow> hb_Ts b = s \<Longrightarrow>
   fold tallyRow (map (\<lambda>(st, n). (s, st, n)) rs) (bs @ [b]) = bs @ [fold (\<lambda>(st, n). addRow st n) rs b]"
proof (induction rs arbitrary: b)
  case (Cons r rs)
  obtain st n where r: "r = (st, n)" by force
  have m: "map (\<lambda>b. if hb_Ts b = s then addRow st n b else b) bs = bs" using Cons.prems(1) by (intro map_idI) auto
  have "hb_Ts (addRow st n b) = s" using Cons.prems(2) by (simp add: addRow_def split: option.split)
  with Cons m show ?case by (simp add: r)
qed simp

lemma tally_new:
  assumes "s \<notin> hb_Ts ` set bs" "rs \<noteq> []"
  shows "fold tallyRow (map (\<lambda>(st, n). (s, st, n)) rs) bs = bs @ [fold (\<lambda>(st, n). addRow st n) rs \<lparr>hb_Ts = s, hb_Counts = [], hb_Total = 0\<rparr>]"
proof -
  obtain st n rs' where r: "rs = (st, n) # rs'" using assms(2) by (cases rs) auto
  have "\<not> list_ex (\<lambda>b. hb_Ts b = s) bs" using assms(1) by (auto simp: list_ex_iff)
  moreover have "hb_Ts (addRow st n \<lparr>hb_Ts = s, hb_Counts = [], hb_Total = 0\<rparr>) = s" by (simp add: addRow_def split: option.split)
  ultimately show ?thesis using tally_block [OF assms(1)] by (simp add: r)
qed

lemma add_count_new: "st \<notin> fst ` set cs \<Longrightarrow> add_count st n cs = cs @ [(st, n)]"
  by (induction st n cs rule: add_count.induct) auto

lemma addRow_fold:
  "distinct (map fst cs) \<Longrightarrow> fst ` set cs \<inter> fst ` set (hb_Counts b) = {} \<Longrightarrow>
   fold (\<lambda>(st, n). addRow st n) (map (\<lambda>(st, n). (Some st, n)) cs) b =
     b\<lparr>hb_Counts := hb_Counts b @ cs, hb_Total := hb_Total b + sum_list (map snd cs)\<rparr>"
proof (induction cs arbitrary: b)
  case (Cons c cs)
  obtain st n where c: "c = (st, n)" by force
  have "st \<notin> fst ` set (hb_Counts b)" using Cons.prems(2) by (auto simp: c)
  then have "addRow (Some st) n b = b\<lparr>hb_Counts := hb_Counts b @ [(st, n)], hb_Total := hb_Total b + n\<rparr>"
    by (simp add: addRow_def add_count_new)
  with Cons show ?case by (simp add: c)
qed simp

definition bucket_counts :: "(int \<times> string) list \<Rightarrow> int \<Rightarrow> (string \<times> nat) list" where
  "bucket_counts keys s = map (\<lambda>((_, st), n). (st, n)) (filter (\<lambda>((b, _), _). b = s) (row_counts keys))"

lemma bucket_counts_alt: "bucket_counts keys s = map (\<lambda>k. (snd k, count_list keys k)) (filter (\<lambda>k. fst k = s) (remdups keys))"
  by (simp add: bucket_counts_def row_counts_def filter_map o_def case_prod_beta')

lemma bucket_counts_distinct: "distinct (map fst (bucket_counts keys s))"
proof -
  have "map fst (bucket_counts keys s) = map snd (filter (\<lambda>k. fst k = s) (remdups keys))"
    by (simp add: bucket_counts_alt o_def)
  moreover have "inj_on snd (set (filter (\<lambda>k. fst k = s) (remdups keys)))" by (auto simp: inj_on_def)
  ultimately show ?thesis by (simp add: distinct_map)
qed

lemma bucket_counts_map: "map_of (bucket_counts keys s) st = (let n = count_list keys (s, st) in if n = 0 then None else Some n)"
proof (cases "(s, st) \<in> set keys")
  case True
  then have "(st, count_list keys (s, st)) \<in> set (bucket_counts keys s)" by (force simp: bucket_counts_alt)
  then have "map_of (bucket_counts keys s) st = Some (count_list keys (s, st))" using bucket_counts_distinct by simp
  moreover have "count_list keys (s, st) \<noteq> 0" using True by (simp add: count_list_0_iff)
  ultimately show ?thesis by (simp add: Let_def)
next
  case False
  then have "st \<notin> fst ` set (bucket_counts keys s)" by (auto simp: bucket_counts_alt)
  moreover have "count_list keys (s, st) = 0" using False by (simp add: count_list_0_iff)
  ultimately show ?thesis by (simp add: map_of_eq_None_iff)
qed

lemma sum_count_remdups:
  "sum_list (map (count_list xs) (filter P (remdups xs))) = length (filter P xs)"
proof -
  have "sum_list (map (count_list xs) (filter P (remdups xs))) = (\<Sum>x\<in>set (filter P (remdups xs)). count_list xs x)"
    by (simp add: sum_list_distinct_conv_sum_set)
  also have "\<dots> = (\<Sum>x\<in>set (filter P xs). count_list (filter P xs) x)"
    by (intro sum.cong) (auto simp: count_list_eq_length_filter intro!: arg_cong [where f = length] filter_cong)
  also have "\<dots> = length (filter P xs)" by (rule sum_count_set) simp_all
  finally show ?thesis .
qed

lemma bucket_total: "sum_list (map snd (bucket_counts keys s)) = length (filter (\<lambda>k. fst k = s) keys)"
proof -
  have "map snd (bucket_counts keys s) = map (count_list keys) (filter (\<lambda>k. fst k = s) (remdups keys))"
    by (simp add: bucket_counts_alt o_def)
  then show ?thesis by (simp only: sum_count_remdups)
qed

definition tallied :: "(int \<times> string) list \<Rightarrow> int \<Rightarrow> histBucket" where
  "tallied keys s = \<lparr>hb_Ts = s, hb_Counts = bucket_counts keys s, hb_Total = length (filter (\<lambda>k. fst k = s) keys)\<rparr>"

lemma tally_one:
  assumes "s \<notin> hb_Ts ` set bs"
  shows "fold tallyRow (hist_rows [s] keys) bs = bs @ [tallied keys s]"
proof (cases "bucket_counts keys s")
  case Nil
  then have "length (filter (\<lambda>k. fst k = s) keys) = 0" using bucket_total [of keys s] by simp
  moreover have "filter (\<lambda>((b, _), _). b = s) (row_counts keys) = []" using Nil by (simp add: bucket_counts_def)
  moreover have "\<not> list_ex (\<lambda>b. hb_Ts b = s) bs" using assms by (auto simp: list_ex_iff)
  ultimately show ?thesis using Nil by (simp add: hist_rows_def tallied_def addRow_def)
next
  case (Cons c cs)
  let ?rs = "map (\<lambda>(st, n). (Some st, n)) (bucket_counts keys s)"
  have "hist_rows [s] keys = map (\<lambda>(st, n). (s, st, n)) ?rs"
    using Cons by (auto simp: hist_rows_def bucket_counts_def case_prod_beta split: list.split)
  then have "fold tallyRow (hist_rows [s] keys) bs =
      bs @ [fold (\<lambda>(st, n). addRow st n) ?rs \<lparr>hb_Ts = s, hb_Counts = [], hb_Total = 0\<rparr>]"
    using tally_new [OF assms, of ?rs] Cons by simp
  then show ?thesis by (simp add: addRow_fold bucket_counts_distinct tallied_def bucket_total)
qed

lemma tally_hist: "distinct series \<Longrightarrow> hb_Ts ` set bs \<inter> set series = {} \<Longrightarrow>
   fold tallyRow (hist_rows series keys) bs = bs @ map (tallied keys) series"
proof (induction series arbitrary: bs)
  case (Cons s series)
  have "hist_rows (s # series) keys = hist_rows [s] keys @ hist_rows series keys" by (simp add: hist_rows_def)
  moreover have "fold tallyRow (hist_rows [s] keys) bs = bs @ [tallied keys s]" using Cons.prems by (intro tally_one) auto
  ultimately show ?case using Cons by (simp add: Cons.IH tallied_def)
qed (simp add: hist_rows_def)

lemma sum_tallied:
  assumes "distinct series" "fst ` set keys \<subseteq> set series"
  shows "sum_list (map (\<lambda>s. length (filter (\<lambda>k. fst k = s) keys)) series) = length keys"
proof -
  have "sum_list (map (\<lambda>s. length (filter (\<lambda>k. fst k = s) keys)) series) = (\<Sum>s\<in>set series. count_list (map fst keys) s)"
    using assms(1) by (simp add: sum_list_distinct_conv_sum_set count_list_eq_length_filter filter_map o_def eq_commute)
  also have "\<dots> = length (map fst keys)" by (rule sum_count_set) (use assms(2) in auto)
  finally show ?thesis by simp
qed

text \<open>
  C35: the histogram is complete and bounded. Whatever window is asked for, the answer has at most 1501 buckets, those from
  the start of the clamped window to now; each counts, per status and in total, exactly the matching events of the
  caller's organization in it, and together they count every matching event of the window once.
\<close>

theorem histogram_complete:
  assumes "EventsHistogram_api env (Some p) conn status after bp w = (Inr (200, bucket, bs), w')"
    and "parseEventFilters env conn status after = Some (c, st, a)" "\<forall>e \<in> set (t_events (pdb w)). ev_created_at e \<le> oe_now env"
  shows "let lo = (case a of None \<Rightarrow> oe_now env - 24 * hour | Some t \<Rightarrow> max t (oe_now env - 1500 * bucketInterval bucket));
             es = hist_events c st (pr_OrgID p) lo (pdb w)
    in w' = w \<and> length bs \<le> 1501 \<and> map hb_Ts bs = bucketSeries (oe_now env) bucket lo \<and>
       (\<forall>b \<in> set bs. hb_Total b = length (filter (\<lambda>e. bucket_trunc bucket (ev_created_at e) = hb_Ts b) es) \<and>
          (\<forall>s. (case map_of (hb_Counts b) s of None \<Rightarrow> 0 | Some n \<Rightarrow> n) =
             length (filter (\<lambda>e. bucket_trunc bucket (ev_created_at e) = hb_Ts b \<and> ev_status e = s) es))) \<and>
       sum_list (map hb_Total bs) = length es"
proof -
  define lo where "lo = (case a of None \<Rightarrow> oe_now env - 24 * hour | Some t \<Rightarrow> max t (oe_now env - 1500 * bucketInterval bucket))"
  define es where "es = hist_events c st (pr_OrgID p) lo (pdb w)"
  define keys where "keys = map (\<lambda>e. (bucket_trunc bucket (ev_created_at e), ev_status e)) es"
  have "bucket = bucketOf bp" and w: "w' = w" and h: "bs = tallyBuckets (EventsHistogram (oe_now env) bucket
      (the (clampAfter (oe_now env) bucket (case a of None \<Rightarrow> Some (oe_now env - 24 * hour) | Some t \<Rightarrow> Some t))) (pr_OrgID p) c st (pdb w))"
    using assms(1,2) by (auto simp: EventsHistogram_api_def active_org_def pread_def Let_def split: if_splits)
  moreover have "the (clampAfter (oe_now env) bucket (case a of None \<Rightarrow> Some (oe_now env - 24 * hour) | Some t \<Rightarrow> Some t)) = lo"
    using day_in_window [of bucket] by (simp add: clampAfter_def lo_def maxHistogramBuckets_def Let_def max_def split: option.split)
  ultimately have "bs = fold tallyRow (hist_rows (bucketSeries (oe_now env) bucket lo) keys) []"
    by (simp add: tallyBuckets_def EventsHistogram_def keys_def es_def)
  moreover have d: "distinct (bucketSeries (oe_now env) bucket lo)" by (simp add: bucketSeries_def series_distinct)
  ultimately have bs: "bs = map (tallied keys) (bucketSeries (oe_now env) bucket lo)" by (simp add: tally_hist)
  have "oe_now env - 1500 * bucketInterval bucket \<le> lo"
    using day_in_window [of bucket] by (simp add: lo_def split: option.split)
  from series_length [OF this] have "length bs \<le> 1501" by (simp add: bs)
  moreover have "fst ` set keys \<subseteq> set (bucketSeries (oe_now env) bucket lo)"
    using assms(3) by (auto simp: keys_def es_def hist_events_def intro!: series_mem)
  then have "sum_list (map hb_Total bs) = length es" using sum_tallied [OF d, of keys] by (simp add: bs tallied_def o_def) (simp add: keys_def)
  moreover have "length (filter (\<lambda>k. fst k = s) keys) = length (filter (\<lambda>e. bucket_trunc bucket (ev_created_at e) = s) es)" for s
    by (simp add: keys_def filter_map o_def)
  moreover have "count_list keys (s, x) = length (filter (\<lambda>e. bucket_trunc bucket (ev_created_at e) = s \<and> ev_status e = x) es)" for s x
    by (simp add: keys_def count_list_eq_length_filter filter_map o_def eq_commute conj_commute)
  ultimately show ?thesis using w
    by (simp add: Let_def lo_def [symmetric] es_def [symmetric]) (auto simp: bs tallied_def o_def bucket_counts_map Let_def)
qed

definition hist_w0 :: "mem pworld" where
  "hist_w0 = set_pdb (pdb0\<lparr>t_events := [ev0\<lparr>ev_org_id := id_org\<rparr>]\<rparr>) pw0"

theorem histogram_complete_witness:
  "\<exists>bs. fst (EventsHistogram_api (oenv0 []) (Some (no_principal\<lparr>pr_OrgID := id_org\<rparr>)) [] [] [] ''day'' hist_w0) = Inr (200, ''day'', bs) \<and>
     length bs \<le> 1501 \<and> sum_list (map hb_Total bs) = 1"
proof -
  let ?p = "no_principal\<lparr>pr_OrgID := id_org\<rparr>"
  have h: "pdb hist_w0 = pdb0\<lparr>t_events := [ev0\<lparr>ev_org_id := id_org\<rparr>]\<rparr>" by (simp add: hist_w0_def set_pdb_def)
  have f: "parseEventFilters (oenv0 []) [] [] [] = Some (None, None, None)" by (simp add: parseEventFilters_def)
  obtain bs where r: "EventsHistogram_api (oenv0 []) (Some ?p) [] [] [] ''day'' hist_w0 = (Inr (200, ''day'', bs), hist_w0)"
    using ids_Parse(2) by (simp add: EventsHistogram_api_def active_org_def f pread_def oenv0_sel bucketOf_def Let_def)
  from histogram_complete [OF r f] have "length bs \<le> 1501 \<and> sum_list (map hb_Total bs) =
      length (hist_events None None id_org (- 24 * hour) (pdb hist_w0))" by (simp add: h oenv0_sel ev0_def Let_def)
  then show ?thesis using r by (simp add: h hist_events_def ev0_def hour_def second_def)
qed

end
