(* ===== verification/Tunnel.thy ===== *)
theory Tunnel
  imports Pipeline
begin

text \<open>
  The tunnel to a developer's machine, src/internal/api/cli: the WebSocket on which a command line client receives the
  events that the worker pushes for its source (\<open>dispatchToCLI\<close> of the delivery handler) and answers them. A tunnel is a
  state machine whose actions are the steps of its goroutines: the ping loop, the reader of the socket, the dispatch loop
  and one goroutine per event, from the frame that it writes to the answer, the timeout or the end of the tunnel.
  The tokens of the sessions are numbers; which of its ready cases a select takes and what the calls return are
  arguments of the actions. A frame is the list of members of its JSON object.
\<close>

section \<open>Keys and guards\<close>

definition cliSessionTTL :: int where "cliSessionTTL = 30 * second"
definition cliResponseTimeout :: int where "cliResponseTimeout = 35 * second"
definition maxConcurrentDispatch :: nat where "maxConcurrentDispatch = 64"

definition SessionKey :: "string \<Rightarrow> string" where "SessionKey i = ''cli:source:'' @ i"
definition DispatchKey :: "string \<Rightarrow> string" where "DispatchKey i = ''cli:dispatch:'' @ i"

definition releaseSession :: "'r redis \<Rightarrow> string \<Rightarrow> int \<Rightarrow> 'r \<Rightarrow> 'r" where
  "releaseSession R key token s = (if GET R key s = Some token then DEL R key s else s)"

text \<open>\<open>host\<close>: the host with its port in the URL, if it parses.\<close>

definition originHost :: "(string \<Rightarrow> string option) \<Rightarrow> string \<Rightarrow> string" where
  "originHost host base = (case host base of None \<Rightarrow> [] | Some h \<Rightarrow> h)"

definition ListSources_cli :: "oenv \<Rightarrow> Principal option \<Rightarrow> 'r pworld \<Rightarrow> (string \<times> string \<times> string) list reply \<times> 'r pworld" where
  "ListSources_cli env p =
     active_org p (\<lambda>org w.
       case pread (oe_out env ''list'') (\<lambda>d. Inr (ListSourcesByOrg org d)) w of
         Inl _ \<Rightarrow> (Inl 500, w)
       | Inr rows \<Rightarrow> (Inr (200, map (\<lambda>s. (so_id s, so_name s, so_type s)) rows), w))"

section \<open>The state of a tunnel\<close>

type_synonym cli_frame = "(string \<times> jval) list"

text \<open>
  A goroutine that waits for the answer to its event: its channel, the event and the number of the attempt. The
  channels are numbered; \<open>tn_chans\<close> holds what is buffered in them. \<open>tn_held\<close> is the event that the dispatch loop has
  popped while all dispatch slots are taken.
\<close>

record cli_job =
  jb_chan :: nat
  jb_event :: string
  jb_num :: int

record tunnel =
  tn_source :: string
  tn_token :: int
  tn_open :: bool
  tn_held :: "string option"
  tn_pending :: "(string \<times> nat) list"
  tn_chans :: "(nat \<times> cli_frame) list"
  tn_jobs :: "cli_job list"
  tn_next :: nat
  tn_sent :: "cli_frame list"

record 'r tstate =
  ts_tunnel :: tunnel
  ts_redis :: 'r
  ts_db :: db

record tenv =
  tv_out :: "string \<Rightarrow> io"
  tv_now :: int
  tv_dur :: int

text \<open>The map of the frames that are waited for: an entry of the same event is replaced.\<close>

definition pend_add :: "string \<Rightarrow> nat \<Rightarrow> (string \<times> nat) list \<Rightarrow> (string \<times> nat) list" where
  "pend_add i ch m = (i, ch) # filter (\<lambda>(j, _). j \<noteq> i) m"

definition pend_remove :: "string \<Rightarrow> (string \<times> nat) list \<Rightarrow> (string \<times> nat) list" where
  "pend_remove i m = filter (\<lambda>(j, _). j \<noteq> i) m"

definition pend_pop :: "string \<Rightarrow> (string \<times> nat) list \<Rightarrow> nat option \<times> (string \<times> nat) list" where
  "pend_pop i m = (map_of m i, pend_remove i m)"

section \<open>Connecting and leaving\<close>

text \<open>
  What a request has to pass before the socket is opened, and the registration of the session. \<open>accepts\<close>: the upgrade,
  with its check of the origin, succeeds. No tunnel is left behind when the registration fails.
\<close>

definition Connect_guard :: "(string \<Rightarrow> io) \<Rightarrow> Principal option \<Rightarrow> string \<Rightarrow> db \<Rightarrow> int + string" where
  "Connect_guard out p param d =
     (case p of None \<Rightarrow> Inl 401 | Some p \<Rightarrow>
      if pr_OrgID p = uuid_Nil then Inl 401
      else if param = [] then Inl 400
      else case uuid_Parse param of None \<Rightarrow> Inl 400
         | Some sid \<Rightarrow>
             if out ''source'' \<noteq> IoOk then Inl 404
             else case GetSourceForOrg sid (pr_OrgID p) d of Inl _ \<Rightarrow> Inl 404 | Inr _ \<Rightarrow> Inr sid)"

definition Connect ::
  "'r redis \<Rightarrow> (string \<Rightarrow> io) \<Rightarrow> bool \<Rightarrow> int \<Rightarrow> Principal option \<Rightarrow> string \<Rightarrow> db \<Rightarrow> 'r \<Rightarrow> (int + tunnel option) \<times> 'r" where
  "Connect R out accepts token p param d s =
     (case Connect_guard out p param d of Inl e \<Rightarrow> (Inl e, s) | Inr sid \<Rightarrow>
      if \<not> accepts then (Inr None, s)
      else case run_io (out ''register'') (\<lambda>s. ((), SETEX R (SessionKey sid) token cliSessionTTL s)) s of
             (None, s) \<Rightarrow> (Inr None, s)
           | (Some _, s) \<Rightarrow>
               (Inr (Some \<lparr>tn_source = sid, tn_token = token, tn_open = True, tn_held = None, tn_pending = [], tn_chans = [],
                  tn_jobs = [], tn_next = 0, tn_sent = [[(''type'', JStr ''hello''), (''source_id'', JStr sid)]]\<rparr>), s))"

section \<open>Events\<close>

definition frame_str :: "cli_frame \<Rightarrow> string \<Rightarrow> string" where
  "frame_str ms k = (case get_str ms k of Some s \<Rightarrow> s | None \<Rightarrow> [])"

definition frame_status :: "cli_frame \<Rightarrow> int" where
  "frame_status ms = (case get_int 32 ms ''status'' of Some n \<Rightarrow> n | None \<Rightarrow> 0)"

definition frame_ok :: "cli_frame \<Rightarrow> bool" where
  "frame_ok ms \<longleftrightarrow> frame_str ms ''error'' = [] \<and> 200 \<le> frame_status ms \<and> frame_status ms < 300"

definition on_tdb :: "io \<Rightarrow> (db \<Rightarrow> 'a \<times> db) \<Rightarrow> 'r tstate \<Rightarrow> 'r tstate" where
  "on_tdb o1 f w = w\<lparr>ts_db := snd (run_io o1 f (ts_db w))\<rparr>"

definition recordCLIFailure :: "tenv \<Rightarrow> string \<Rightarrow> int \<Rightarrow> string \<Rightarrow> 'r tstate \<Rightarrow> 'r tstate" where
  "recordCLIFailure env i num msg w =
     on_tdb (tv_out env ''failed'') (\<lambda>d. ((), MarkEventFailed (tv_now env) i d))
       (on_tdb (tv_out env ''attempt'') (CreateAttempt \<lparr>at_event_id = i, at_attempt_num = num, at_response_status = None,
          at_response_headers = [], at_response_body = [], at_duration_ms = None, at_queued_in_ms = None,
          at_error_message = Some (AeText msg), at_attempted_at = tv_now env\<rparr>) w)"

text \<open>The answer of the client: the attempt with what the client reports, then the end of the event.\<close>

definition recordCLIResponse :: "tenv \<Rightarrow> string \<Rightarrow> int \<Rightarrow> cli_frame \<Rightarrow> 'r tstate \<Rightarrow> 'r tstate" where
  "recordCLIResponse env i num ms w =
     (let err = frame_str ms ''error'';
          w = on_tdb (tv_out env ''attempt'') (CreateAttempt \<lparr>at_event_id = i, at_attempt_num = num,
                at_response_status = (if frame_status ms = 0 then None else Some (frame_status ms)),
                at_response_headers = (case jget ms ''headers'' of None \<Rightarrow> [] | Some h \<Rightarrow> jshow h),
                at_response_body = (case get_bytes ms ''body'' of None \<Rightarrow> [] | Some b \<Rightarrow> b),
                at_duration_ms = Some (to_int32 (quo (tv_dur env) millisecond)), at_queued_in_ms = None,
                at_error_message = (if err = [] then None else Some (AeText err)), at_attempted_at = tv_now env\<rparr>) w
      in if frame_ok ms
         then on_tdb (tv_out env ''delivered'') (\<lambda>d. ((), MarkEventDelivered (tv_now env) i d)) w
         else on_tdb (tv_out env ''failed'') (\<lambda>d. ((), MarkEventFailed (tv_now env) i d)) w)"

definition event_frame :: "string \<Rightarrow> delivery_row \<Rightarrow> bytes \<Rightarrow> cli_frame" where
  "event_frame i row body =
     [(''type'', JStr ''event''), (''event_id'', JStr i), (''method'', JStr (rq_http_method (d_req row))),
      (''path'', JStr (rq_http_path (d_req row))),
      (''headers'', JObj (map (\<lambda>(k, vs). (k, JArr (map JStr vs))) (unmarshalHeaders (rq_headers (d_req row))))),
      (''body'', JStr (b64_encode std_alphabet True body))]"

text \<open>
  The first part of \<^verbatim>\<open>dispatchEventToCLI\<close>, up to the wait for the answer. An event whose rows or body cannot be read is
  left as it is; one whose frame cannot be written has failed.
\<close>

definition startDispatch :: "tenv \<Rightarrow> string \<Rightarrow> 'r tstate \<Rightarrow> 'r tstate" where
  "startDispatch env i w =
     (if tv_out env ''load'' \<noteq> IoOk then w
      else case GetEventForDelivery i (ts_db w) of None \<Rightarrow> w | Some row \<Rightarrow>
           case body_Get (tv_out env ''body'') (rq_body_ref (d_req row)) (ts_db w) of Inl _ \<Rightarrow> w | Inr body \<Rightarrow>
           let w = on_tdb (tv_out env ''in_flight'') (\<lambda>d. ((), MarkEventInFlight (tv_now env) i d)) w;
               num = ev_attempt_count (d_event row) + 1;
               t = ts_tunnel w;
               ch = tn_next t
           in if tv_out env ''write'' \<noteq> IoOk
              then recordCLIFailure env i num ''write''
                     (w\<lparr>ts_tunnel := t\<lparr>tn_next := ch + 1, tn_pending := pend_remove i (pend_add i ch (tn_pending t))\<rparr>\<rparr>)
              else w\<lparr>ts_tunnel := t\<lparr>tn_next := ch + 1, tn_pending := pend_add i ch (tn_pending t),
                     tn_jobs := tn_jobs t @ [\<lparr>jb_chan = ch, jb_event = i, jb_num = num\<rparr>], tn_sent := tn_sent t @ [event_frame i row body]\<rparr>\<rparr>)"

text \<open>The second part: one of the three cases of the select, which must be ready, and the deferred calls.\<close>

datatype cli_end = EndGone | EndTimeout | EndResponse

definition finishDispatch :: "tenv \<Rightarrow> nat \<Rightarrow> cli_end \<Rightarrow> 'r tstate \<Rightarrow> 'r tstate" where
  "finishDispatch env ch e w =
     (case find (\<lambda>j. jb_chan j = ch) (tn_jobs (ts_tunnel w)) of None \<Rightarrow> w | Some j \<Rightarrow>
      let t = ts_tunnel w;
          done = (\<lambda>w. w\<lparr>ts_tunnel := t\<lparr>tn_pending := pend_remove (jb_event j) (tn_pending t),
                     tn_jobs := filter (\<lambda>x. jb_chan x \<noteq> ch) (tn_jobs t),
                     tn_chans := filter (\<lambda>(c, _). c \<noteq> ch) (tn_chans t)\<rparr>\<rparr>)
      in case e of
           EndGone \<Rightarrow> if tn_open t then w else done w
         | EndTimeout \<Rightarrow> done (recordCLIFailure env (jb_event j) (jb_num j) ''cli response timeout'' w)
         | EndResponse \<Rightarrow>
             (case map_of (tn_chans t) ch of None \<Rightarrow> w
              | Some ms \<Rightarrow> done (recordCLIResponse env (jb_event j) (jb_num j) ms w)))"

section \<open>The other goroutines\<close>

definition ping :: "'r redis \<Rightarrow> io \<Rightarrow> 'r tstate \<Rightarrow> 'r tstate" where
  "ping R o1 w =
     (let t = ts_tunnel w
      in if \<not> tn_open t then w
         else w\<lparr>ts_redis := snd (run_io o1 (\<lambda>s. ((), SETEX R (SessionKey (tn_source t)) (tn_token t) cliSessionTTL s)) (ts_redis w)),
                ts_tunnel := t\<lparr>tn_sent := tn_sent t @ [[(''type'', JStr ''ping'')]]\<rparr>\<rparr>)"

definition readFrame :: "cli_frame \<Rightarrow> tunnel \<Rightarrow> tunnel" where
  "readFrame ms t =
     (if \<not> tn_open t \<or> frame_str ms ''type'' \<noteq> ''response'' then t
      else case pend_pop (frame_str ms ''event_id'') (tn_pending t) of
             (None, m) \<Rightarrow> t\<lparr>tn_pending := m\<rparr>
           | (Some ch, m) \<Rightarrow> t\<lparr>tn_pending := m, tn_chans := (ch, ms) # tn_chans t\<rparr>)"

text \<open>The dispatch loop: pop an event, and start its goroutine when a slot is free.\<close>

definition popEvent :: "'r redis \<Rightarrow> io \<Rightarrow> 'r tstate \<Rightarrow> 'r tstate" where
  "popEvent R o1 w =
     (let t = ts_tunnel w
      in if \<not> tn_open t \<or> tn_held t \<noteq> None then w
         else case run_io o1 (LPOP R (DispatchKey (tn_source t))) (ts_redis w) of
                (Some (Some x), s) \<Rightarrow>
                  (let i = (case jparse x of
                       Some (JObj ms) \<Rightarrow> (case get_str ms ''event_id'' of None \<Rightarrow> None | Some y \<Rightarrow> uuid_Parse y)
                     | _ \<Rightarrow> None)
                   in w\<lparr>ts_redis := s, ts_tunnel := t\<lparr>tn_held := i\<rparr>\<rparr>)
              | (_, s) \<Rightarrow> w\<lparr>ts_redis := s\<rparr>)"

definition startHeld :: "tenv \<Rightarrow> 'r tstate \<Rightarrow> 'r tstate" where
  "startHeld env w =
     (let t = ts_tunnel w
      in case tn_held t of None \<Rightarrow> w | Some i \<Rightarrow>
         if \<not> tn_open t then w\<lparr>ts_tunnel := t\<lparr>tn_held := None\<rparr>\<rparr>
         else if length (tn_jobs t) < maxConcurrentDispatch
         then startDispatch env i (w\<lparr>ts_tunnel := t\<lparr>tn_held := None\<rparr>\<rparr>)
         else w)"

datatype tact = APing io | AFrame cli_frame | AReadError | APop io | AStart tenv | AFinish tenv nat cli_end | ARelease io

fun tunnel_step :: "'r redis \<Rightarrow> tact \<Rightarrow> 'r tstate \<Rightarrow> 'r tstate" where
  "tunnel_step R (APing o1) w = ping R o1 w"
| "tunnel_step R (AFrame ms) w = w\<lparr>ts_tunnel := readFrame ms (ts_tunnel w)\<rparr>"
| "tunnel_step R AReadError w = w\<lparr>ts_tunnel := (ts_tunnel w)\<lparr>tn_open := False\<rparr>\<rparr>"
| "tunnel_step R (APop o1) w = popEvent R o1 w"
| "tunnel_step R (AStart env) w = startHeld env w"
| "tunnel_step R (AFinish env ch e) w = finishDispatch env ch e w"
| "tunnel_step R (ARelease o1) w =
     (let t = ts_tunnel w
      in if tn_open t then w
         else w\<lparr>ts_redis := snd (run_io o1 (\<lambda>s. ((), releaseSession R (SessionKey (tn_source t)) (tn_token t) s)) (ts_redis w))\<rparr>)"

end
