(* ===== verification/Tunnel_Props.thy ===== *)
theory Tunnel_Props
  imports Tunnel Bookmark_Props
begin

text \<open>
  Properties of the tunnel, for any interleaving of its goroutines and any change that workers, reapers and other
  tunnels make to Redis and the database in between: at most 64 events wait for an answer, an answer
  reaches only the goroutine of its event and the reader is never blocked; how an event ends; and that the end of an older
  connection leaves the registration of a newer one.
\<close>

section \<open>Reachable tunnels\<close>

inductive tunnel_reach :: "'r redis \<Rightarrow> 'r tstate \<Rightarrow> bool" for R where
  reach_connect: "Connect R out True token p param d s = (Inr (Some t), s') \<Longrightarrow>
     tunnel_reach R \<lparr>ts_tunnel = t, ts_redis = s', ts_db = d\<rparr>"
| reach_step: "tunnel_reach R w \<Longrightarrow> tunnel_reach R (tunnel_step R a w)"
| reach_other: "tunnel_reach R w \<Longrightarrow> tunnel_reach R (w\<lparr>ts_redis := s, ts_db := d\<rparr>)"

definition job_of :: "tunnel \<Rightarrow> nat \<Rightarrow> string \<Rightarrow> bool" where
  "job_of t ch i \<longleftrightarrow> (\<exists>j \<in> set (tn_jobs t). jb_chan j = ch \<and> jb_event j = i)"

definition tn_inv :: "tunnel \<Rightarrow> bool" where
  "tn_inv t \<longleftrightarrow>
     length (tn_jobs t) \<le> maxConcurrentDispatch \<and>
     distinct (map jb_chan (tn_jobs t)) \<and> (\<forall>j \<in> set (tn_jobs t). jb_chan j < tn_next t) \<and>
     distinct (map fst (tn_chans t)) \<and>
     (\<forall>ch ms. (ch, ms) \<in> set (tn_chans t) \<longrightarrow> job_of t ch (frame_str ms ''event_id'')) \<and>
     (\<forall>i ch. (i, ch) \<in> set (tn_pending t) \<longrightarrow> job_of t ch i \<and> (\<forall>ms. (ch, ms) \<notin> set (tn_chans t)))"

lemma tn_invD:
  assumes "tn_inv t"
  shows "length (tn_jobs t) \<le> maxConcurrentDispatch" "distinct (map jb_chan (tn_jobs t))" "j \<in> set (tn_jobs t) \<Longrightarrow> jb_chan j < tn_next t"
    "distinct (map fst (tn_chans t))" "(ch, ms) \<in> set (tn_chans t) \<Longrightarrow> job_of t ch (frame_str ms ''event_id'')"
    "(i, ch) \<in> set (tn_pending t) \<Longrightarrow> job_of t ch i" "(i, ch) \<in> set (tn_pending t) \<Longrightarrow> (ch, ms) \<notin> set (tn_chans t)"
  using assms unfolding tn_inv_def by blast+

lemma job_unique: "tn_inv t \<Longrightarrow> job_of t ch i \<Longrightarrow> job_of t ch k \<Longrightarrow> i = k"
  unfolding job_of_def by (drule tn_invD(2)) (metis distinct_map inj_onD)

named_theorems tunnel_simps

lemma on_tdb_tunnel [tunnel_simps]: "ts_tunnel (on_tdb o1 f w) = ts_tunnel w" "ts_redis (on_tdb o1 f w) = ts_redis w"
  by (simp_all add: on_tdb_def)

lemma record_tunnel [tunnel_simps]:
  "ts_tunnel (recordCLIFailure env i n m w) = ts_tunnel w" "ts_redis (recordCLIFailure env i n m w) = ts_redis w"
  "ts_tunnel (recordCLIResponse env i n ms w) = ts_tunnel w" "ts_redis (recordCLIResponse env i n ms w) = ts_redis w"
  by (simp_all add: recordCLIFailure_def recordCLIResponse_def Let_def tunnel_simps)

lemma pend_set:
  "(j, c) \<in> set (pend_remove i m) \<longleftrightarrow> (j, c) \<in> set m \<and> j \<noteq> i"
  "(j, c) \<in> set (pend_add i ch m) \<longleftrightarrow> (if j = i then c = ch else (j, c) \<in> set m)"
  by (auto simp: pend_remove_def pend_add_def)

lemma find_unique: "distinct (map f xs) \<Longrightarrow> x \<in> set xs \<Longrightarrow> find (\<lambda>y. f y = f x) xs = Some x"
  by (induction xs) auto

lemma tn_inv_start:
  assumes "tn_inv t" "length (tn_jobs t) < maxConcurrentDispatch"
  shows "tn_inv (t\<lparr>tn_next := tn_next t + 1, tn_pending := pend_add i (tn_next t) (tn_pending t),
           tn_jobs := tn_jobs t @ [\<lparr>jb_chan = tn_next t, jb_event = i, jb_num = n\<rparr>], tn_sent := x\<rparr>)"
    (is "tn_inv ?t")
proof -
  have keep: "job_of ?t c k" if "job_of t c k" for c k using that by (auto simp: job_of_def)
  have new: "(tn_next t, ms) \<notin> set (tn_chans t)" for ms
    using tn_invD(5) [OF assms(1), of "tn_next t" ms] tn_invD(3) [OF assms(1)] by (fastforce simp: job_of_def)
  have "job_of ?t (tn_next t) i" by (simp add: job_of_def)
  moreover have "tn_next t \<notin> jb_chan ` set (tn_jobs t)" using tn_invD(3) [OF assms(1)] by fastforce
  moreover have "jb_chan j < Suc (tn_next t)" if "j \<in> set (tn_jobs t)" for j using tn_invD(3) [OF assms(1) that] by simp
  ultimately show ?thesis unfolding tn_inv_def using assms(2) tn_invD [OF assms(1)] keep new by (simp add: pend_set)
qed

lemma tn_inv_drop:
  assumes "tn_inv t" "j \<in> set (tn_jobs t)" "jb_chan j = ch"
  shows "tn_inv (t\<lparr>tn_pending := pend_remove (jb_event j) (tn_pending t), tn_jobs := filter (\<lambda>x. jb_chan x \<noteq> ch) (tn_jobs t),
           tn_chans := filter (\<lambda>(c, _). c \<noteq> ch) (tn_chans t)\<rparr>)" (is "tn_inv ?t")
proof -
  have keep: "job_of ?t c i" if "job_of t c i" "c \<noteq> ch" for c i using that by (auto simp: job_of_def)
  have "job_of t ch (jb_event j)" using assms(2,3) by (auto simp: job_of_def)
  then have other: "c \<noteq> ch" if "(i, c) \<in> set (tn_pending t)" "i \<noteq> jb_event j" for i c
    using tn_invD(6) [OF assms(1) that(1)] job_unique [OF assms(1)] that(2) by blast
  have "length (filter (\<lambda>x. jb_chan x \<noteq> ch) (tn_jobs t)) \<le> maxConcurrentDispatch"
    using tn_invD(1) [OF assms(1)] length_filter_le [of "\<lambda>x. jb_chan x \<noteq> ch" "tn_jobs t"] by linarith
  then show ?thesis unfolding tn_inv_def
    using tn_invD [OF assms(1)] keep other by (simp add: pend_set distinct_map_filter) blast
qed

lemma tn_inv_frame: "tn_inv t \<Longrightarrow> tn_inv (readFrame ms t)"
proof -
  assume i: "tn_inv t"
  let ?e = "frame_str ms ''event_id''"
  show ?thesis
  proof (cases "map_of (tn_pending t) ?e")
    case None
    then show ?thesis using tn_invD [OF i] by (auto simp: readFrame_def pend_pop_def tn_inv_def pend_set job_of_def)
  next
    case (Some ch)
    note p = map_of_SomeD [OF Some]
    have "c \<noteq> ch" if "(k, c) \<in> set (tn_pending t)" "k \<noteq> ?e" for k c
      using job_unique [OF i tn_invD(6) [OF i p], of k] tn_invD(6) [OF i that(1)] that(2) by auto
    moreover have "ch \<notin> fst ` set (tn_chans t)" using tn_invD(7) [OF i p] by auto
    ultimately show ?thesis using Some tn_invD [OF i] tn_invD(6) [OF i p]
      by (simp add: readFrame_def pend_pop_def tn_inv_def pend_set job_of_def) blast
  qed
qed

lemma tn_inv_flags: "tn_inv (t\<lparr>tn_open := a\<rparr>) = tn_inv t" "tn_inv (t\<lparr>tn_held := h\<rparr>) = tn_inv t" "tn_inv (t\<lparr>tn_sent := x\<rparr>) = tn_inv t"
  by (simp_all add: tn_inv_def job_of_def)

lemma tn_inv_skip: "tn_inv t \<Longrightarrow> tn_inv (t\<lparr>tn_next := tn_next t + 1, tn_pending := pend_remove i (pend_add i ch (tn_pending t))\<rparr>)"
  by (simp add: tn_inv_def job_of_def pend_set less_Suc_eq)

lemma tn_inv_startDispatch:
  assumes "tn_inv (ts_tunnel w)" "length (tn_jobs (ts_tunnel w)) < maxConcurrentDispatch"
  shows "tn_inv (ts_tunnel (startDispatch env i w))"
  using assms tn_inv_start [OF assms] tn_inv_skip [OF assms(1)]
  by (simp add: startDispatch_def Let_def tunnel_simps split: option.split sum.split)

lemma tn_inv_finish:
  assumes "tn_inv (ts_tunnel w)"
  shows "tn_inv (ts_tunnel (finishDispatch env ch e w))"
proof (cases "find (\<lambda>j. jb_chan j = ch) (tn_jobs (ts_tunnel w))")
  case (Some j)
  then have "j \<in> set (tn_jobs (ts_tunnel w))" "jb_chan j = ch" by (auto simp: find_Some_iff)
  from tn_inv_drop [OF assms this] Some assms show ?thesis
    by (simp add: finishDispatch_def Let_def tunnel_simps split: cli_end.split option.split)
qed (simp add: finishDispatch_def assms)

lemma tn_inv_step:
  assumes "tn_inv (ts_tunnel w)"
  shows "tn_inv (ts_tunnel (tunnel_step R a w))"
proof (cases a)
  case (APop o1)
  then show ?thesis using assms by (simp add: popEvent_def Let_def tn_inv_flags split: prod.split option.split)
next
  case (AStart env)
  have "tn_inv (ts_tunnel (w\<lparr>ts_tunnel := (ts_tunnel w)\<lparr>tn_held := None\<rparr>\<rparr>))" using assms by (simp add: tn_inv_flags)
  from tn_inv_startDispatch [OF this] assms show ?thesis
    by (simp add: AStart startHeld_def Let_def tn_inv_flags split: option.split)
qed (use assms in \<open>simp_all add: ping_def Let_def tn_inv_flags tn_inv_frame tn_inv_finish\<close>)

lemma reach_inv: "tunnel_reach R w \<Longrightarrow> tn_inv (ts_tunnel w)"
proof (induction rule: tunnel_reach.induct)
  case (reach_connect out token p param d s t s')
  then have "tn_jobs t = [] \<and> tn_chans t = [] \<and> tn_pending t = []"
    by (auto simp: Connect_def split: sum.splits prod.splits option.splits if_splits)
  then show ?case by (simp add: tn_inv_def)
qed (simp_all add: tn_inv_step)

text \<open>
  C32: the goroutines of a tunnel. In every state that a tunnel can reach, with any interleaving of its goroutines and
  any interference from outside, at most 64 events wait for an answer; each waits on a channel of its own; a frame in a
  channel answers the event of the goroutine that waits there; and the channel that the reader would send the next
  answer to is empty, so that the reader never blocks.
\<close>

theorem tunnel_goroutines:
  assumes "tunnel_reach R w"
  shows "let t = ts_tunnel w
    in length (tn_jobs t) \<le> 64 \<and> distinct (map jb_chan (tn_jobs t)) \<and>
       (\<forall>ch ms. (ch, ms) \<in> set (tn_chans t) \<longrightarrow> (\<exists>j \<in> set (tn_jobs t). jb_chan j = ch \<and> jb_event j = frame_str ms ''event_id'')) \<and>
       (\<forall>i ch. map_of (tn_pending t) i = Some ch \<longrightarrow> (\<exists>j \<in> set (tn_jobs t). jb_chan j = ch \<and> jb_event j = i) \<and> map_of (tn_chans t) ch = None)"
proof -
  note i = tn_invD [OF reach_inv [OF assms]]
  have "map_of (tn_chans (ts_tunnel w)) ch = None" if "map_of (tn_pending (ts_tunnel w)) k = Some ch" for k ch
    using i(7) [OF map_of_SomeD [OF that]] by (force simp: map_of_eq_None_iff)
  then show ?thesis using i(1,2) i(5) i(6) [OF map_of_SomeD] unfolding Let_def job_of_def maxConcurrentDispatch_def by blast
qed

section \<open>How an event ends\<close>

lemma find_CreateAttempt [simp]: "find_event i (snd (CreateAttempt a d)) = find_event i d"
  by (simp add: CreateAttempt_def)

lemma record_status:
  assumes "\<forall>x. tv_out env x = IoOk"
  shows "find_event k (ts_db (recordCLIFailure env i n m w)) = find_event k (MarkEventFailed (tv_now env) i (ts_db w))"
    and "find_event k (ts_db (recordCLIResponse env i n ms w)) = find_event k
      ((if frame_ok ms then MarkEventDelivered else MarkEventFailed) (tv_now env) i (ts_db w))"
  using assms by (simp_all add: recordCLIFailure_def recordCLIResponse_def on_tdb_def Let_def mark_defs find_upd_event)

lemma mark_status:
  assumes "find_event i d = Some e"
  shows "map_option ev_status (find_event i (MarkEventFailed now i d)) = Some ''failed''"
    "map_option ev_status (find_event i (MarkEventDelivered now i d)) = Some ''delivered''"
    "k \<noteq> i \<Longrightarrow> find_event k (MarkEventFailed now i d) = find_event k d"
    "k \<noteq> i \<Longrightarrow> find_event k (MarkEventDelivered now i d) = find_event k d"
  using assms by (auto simp: mark_defs find_upd_event dest: find_event_id split: option.split intro!: option.map_ident_strong)

lemma reaper_claims:
  assumes "GetEventForDelivery i d = Some row" "ds_type (d_dest row) = ''cli''" "ev_status (d_event row) = ''in_flight''"
    and "ev_updated_at (d_event row) < c" "length (t_events d) \<le> n"
  shows "i \<in> set (map ev_id (fst (ClaimStuckEvents now (\<lambda>_. False) q c n d)))"
proof -
  let ?rows = "sort_key ev_updated_at (filter (stuck q c d) (t_events d))"
  have f: "find_event i d = Some (d_event row)" "stuck q c d (d_event row)"
    using assms(1-4) by (auto simp: GetEventForDelivery_def stuck_def split: option.splits)
  then have "d_event row \<in> set ?rows" "ev_id (d_event row) = i" by (auto simp: find_event_def find_Some_iff)
  moreover have "length (filter (stuck q c d) (t_events d)) \<le> n" using assms(5) length_filter_le le_trans by blast
  ultimately show ?thesis by (force simp: ClaimStuckEvents_def Let_def)
qed

text \<open>
  C34: how an event of a tunnel ends. A goroutine that ends with the answer of the client takes the answer that was sent for its
  own event, and the event is delivered exactly when the answer carries no error and a 2xx status, and failed otherwise,
  as it is after a timeout. When the tunnel has gone the row is left, and the reaper of the worker takes the event up again. No
  other event is touched.
\<close>

theorem tunnel_event_end:
  assumes "tunnel_reach R w" "j \<in> set (tn_jobs (ts_tunnel w))" "\<forall>x. tv_out env x = IoOk"
    and "GetEventForDelivery (jb_event j) (ts_db w) = Some row"
  shows "let w' = (\<lambda>e. tunnel_step R (AFinish env (jb_chan j) e) w); i = jb_event j;
             status = (\<lambda>e. map_option ev_status (find_event i (ts_db (w' e))))
    in status EndTimeout = Some ''failed'' \<and>
       (\<forall>ms. map_of (tn_chans (ts_tunnel w)) (jb_chan j) = Some ms \<longrightarrow> frame_str ms ''event_id'' = i \<and>
          status EndResponse = Some (if frame_str ms ''error'' = [] \<and> 200 \<le> frame_status ms \<and> frame_status ms < 300 then ''delivered'' else ''failed'')) \<and>
       ts_db (w' EndGone) = ts_db w \<and>
       (ds_type (d_dest row) = ''cli'' \<and> ev_status (d_event row) = ''in_flight'' \<and> ev_updated_at (d_event row) < c \<longrightarrow>
          i \<in> set (map ev_id (fst (ClaimStuckEvents now (\<lambda>_. False) q c (length (t_events (ts_db w))) (ts_db (w' EndGone)))))) \<and>
       (\<forall>k e. k \<noteq> i \<longrightarrow> find_event k (ts_db (w' e)) = find_event k (ts_db w))"
proof -
  note inv = reach_inv [OF assms(1)]
  have f: "find (\<lambda>x. jb_chan x = jb_chan j) (tn_jobs (ts_tunnel w)) = Some j"
    using tn_invD(2) [OF inv] assms(2) by (rule find_unique)
  obtain e0 where e0: "find_event (jb_event j) (ts_db w) = Some e0"
    using assms(4) by (auto simp: GetEventForDelivery_def split: option.splits)
  have gone: "ts_db (finishDispatch env (jb_chan j) EndGone w) = ts_db w" by (simp add: finishDispatch_def f Let_def)
  have own: "frame_str ms ''event_id'' = jb_event j" if "map_of (tn_chans (ts_tunnel w)) (jb_chan j) = Some ms" for ms
    using tn_invD(5) [OF inv map_of_SomeD [OF that]] job_unique [OF inv] assms(2) by (auto simp: job_of_def)
  have "find_event k (ts_db (finishDispatch env (jb_chan j) e w)) = find_event k (ts_db w)" if "k \<noteq> jb_event j" for k e
    using that by (simp add: finishDispatch_def f Let_def record_status [OF assms(3)] mark_status [OF e0] split: cli_end.split option.split)
  moreover have "map_option ev_status (find_event (jb_event j) (ts_db (finishDispatch env (jb_chan j) EndTimeout w))) = Some ''failed''"
    by (simp add: finishDispatch_def f Let_def record_status [OF assms(3)] mark_status [OF e0])
  moreover have "map_option ev_status (find_event (jb_event j) (ts_db (finishDispatch env (jb_chan j) EndResponse w))) =
      Some (if frame_ok ms then ''delivered'' else ''failed'')" if "map_of (tn_chans (ts_tunnel w)) (jb_chan j) = Some ms" for ms
    using that mark_status(1,2) [OF e0, of "tv_now env"] by (simp add: finishDispatch_def f Let_def record_status [OF assms(3)])
  ultimately show ?thesis using own gone reaper_claims [OF assms(4)] by (simp add: frame_ok_def del: set_map)
qed

section \<open>The session\<close>

lemma tn_const:
  "tn_source (ts_tunnel (tunnel_step R a w)) = tn_source (ts_tunnel w)" "tn_token (ts_tunnel (tunnel_step R a w)) = tn_token (ts_tunnel w)"
  by (cases a; simp add: ping_def popEvent_def startHeld_def startDispatch_def finishDispatch_def readFrame_def pend_pop_def Let_def tunnel_simps
      split: option.split prod.split sum.split cli_end.split)+

lemma step_redis:
  "ts_redis (startHeld env w) = ts_redis w" "ts_redis (finishDispatch env ch e w) = ts_redis w"
  by (simp_all add: startHeld_def startDispatch_def finishDispatch_def Let_def tunnel_simps split: option.split sum.split cli_end.split)

context redis
begin

lemma get_view: "GET R k s = v_strs (view R s) k"
  by (simp add: view_def)

lemma release_other: "GET R k s = Some x \<Longrightarrow> x \<noteq> token \<Longrightarrow> releaseSession R k token s = s"
  by (simp add: releaseSession_def)

lemma session_step:
  assumes "GET R (SessionKey (tn_source (ts_tunnel w))) (ts_redis w) = Some x" "tn_token (ts_tunnel w) \<noteq> x" "\<And>o1. a \<noteq> APing o1"
  shows "GET R (SessionKey (tn_source (ts_tunnel w))) (ts_redis (tunnel_step R a w)) = Some x"
proof (cases a)
  case (APop o1)
  have "v_strs (view R (snd (run_io o1 (LPOP R k) (ts_redis w)))) = v_strs (view R (ts_redis w))" for k
    by (cases o1) (simp_all add: redis_simps)
  then show ?thesis using assms(1) by (auto simp: APop popEvent_def get_view Let_def split: prod.splits option.splits) (metis snd_conv)+
next
  case (ARelease o1)
  have "snd (run_io o1 (\<lambda>s. ((), releaseSession R (SessionKey (tn_source (ts_tunnel w))) (tn_token (ts_tunnel w)) s)) (ts_redis w)) = ts_redis w"
    using release_other [OF assms(1)] assms(2) by (cases o1) auto
  then show ?thesis using assms(1) by (simp add: ARelease Let_def)
qed (use assms in \<open>simp_all add: step_redis\<close>)

lemma session_run:
  assumes "GET R (SessionKey (tn_source (ts_tunnel w))) (ts_redis w) = Some x" "tn_token (ts_tunnel w) \<noteq> x" "\<forall>a \<in> set as. \<forall>o1. a \<noteq> APing o1"
  shows "GET R (SessionKey (tn_source (ts_tunnel w))) (ts_redis (fold (tunnel_step R) as w)) = Some x"
  using assms
proof (induction as arbitrary: w)
  case (Cons a as)
  have "GET R (SessionKey (tn_source (ts_tunnel w))) (ts_redis (tunnel_step R a w)) = Some x" using Cons.prems by (intro session_step) auto
  with Cons.IH [of "tunnel_step R a w"] Cons.prems show ?case by (simp add: tn_const)
qed simp

lemma dispatched:
  assumes "GET R (SessionKey (cn_source_id (d_conn row))) (w_redis v) = Some x" "e_cliexists env = IoOk" "e_clipush env = IoOk"
  shows "v_lists (view R (w_redis (snd (dispatchToCLI R h env row p raw v)))) (DispatchKey (cn_source_id (d_conn row))) =
    v_lists (view R (w_redis v)) (DispatchKey (cn_source_id (d_conn row))) @ [jshow (JObj [(''event_id'', JStr (ev_id (d_event row)))])]"
proof -
  have "EXISTS R (''cli:source:'' @ cn_source_id (d_conn row)) (w_redis v)" using assms(1) by (simp add: redis_simps get_view SessionKey_def)
  moreover have "v_lists (view R (snd (Ack R c o1 raw s))) = v_lists (view R s)" for c o1 s
    by (cases o1) (simp_all add: Ack_def prod.case_eq_if redis_simps)
  ultimately show ?thesis using assms(2,3)
    by (simp add: dispatchToCLI_def Let_def q_ack_def on_queue_def prod.case_eq_if DispatchKey_def rpush del: append_Cons jshow.simps)
qed

end

text \<open>
  reconnecting. While the session of a source is registered by a newer connection, whatever the goroutines of an older one
  still do short of a further ping, its teardown included, leaves the registration in place, and a worker hands the events of the
  source to the tunnel.
\<close>

theorem tunnel_session_kept:
  assumes "redis R" "GET R (SessionKey (tn_source (ts_tunnel w))) (ts_redis w) = Some newer" "tn_token (ts_tunnel w) \<noteq> newer"
    and "\<forall>a \<in> set as. \<forall>o1. a \<noteq> APing o1"
  shows "let s = ts_redis (fold (tunnel_step R) as w); src = tn_source (ts_tunnel w)
    in GET R (SessionKey src) s = Some newer \<and>
       (\<forall>row env h p raw v. cn_source_id (d_conn row) = src \<and> e_cliexists env = IoOk \<and> e_clipush env = IoOk \<and> w_redis v = s \<longrightarrow>
          v_lists (view R (w_redis (snd (dispatchToCLI R h env row p raw v)))) (DispatchKey src) =
            v_lists (view R s) (DispatchKey src) @ [jshow (JObj [(''event_id'', JStr (ev_id (d_event row)))])])"
  using redis.session_run [OF assms] redis.dispatched [OF assms(1)] unfolding Let_def by metis

section \<open>A concrete tunnel\<close>

text \<open>A tunnel that was handed one event, which waits for its answer.\<close>

definition tun_db :: db where
  "tun_db = pdb1\<lparr>t_events := [ev0\<lparr>ev_request_id := id_cy\<rparr>], t_connections := [conn0], t_destinations := [dest0\<lparr>ds_type := ''cli''\<rparr>]\<rparr>"

definition tun_env :: tenv where
  "tun_env = \<lparr>tv_out = (\<lambda>_. IoOk), tv_now = 0, tv_dur = 0\<rparr>"

definition tun_row :: delivery_row where
  "tun_row = \<lparr>d_event = ev0\<lparr>ev_request_id := id_cy\<rparr>, d_conn = conn0, d_dest = dest0\<lparr>ds_type := ''cli''\<rparr>,
     d_req = req0\<lparr>rq_id := id_cy, rq_body_ref := ''pg:'' @ id_cy, rq_source_id := id_ann,
       rq_headers := marshalHeader [(''X-A'', [''1'', ''2''])], rq_content_type := Some ''text/plain''\<rparr>\<rparr>"

lemma tun_load: "GetEventForDelivery uuid_Nil tun_db = Some tun_row"
  by (simp add: GetEventForDelivery_def find_event_def GetConnectionByID_def find_dest_def find_req_def tun_db_def pdb1_def
      tun_row_def ev0_def conn0_def dest0_def)

lemma tun_sel: "tv_out tun_env x = IoOk" "tv_now tun_env = 0" "ev_attempt_count (d_event tun_row) = 0"
  by (simp_all add: tun_env_def tun_row_def ev0_def)

lemma tun_body: "body_Get IoOk (rq_body_ref (d_req tun_row)) tun_db = Inr ''{}''"
proof -
  have "id_cy \<noteq> []" by (simp add: id_cy_def)
  then show ?thesis by (simp add: tun_row_def body_Get_def ids_Parse' GetRequestBody_def one_row_def tun_db_def pdb1_def)
qed

lemma tun_reach: "\<exists>w j. tunnel_reach mem_redis w \<and> tn_jobs (ts_tunnel w) = [j] \<and> jb_event j = uuid_Nil \<and> jb_chan j = 0 \<and>
   tn_pending (ts_tunnel w) = [(uuid_Nil, 0)] \<and> tn_chans (ts_tunnel w) = [] \<and> tn_open (ts_tunnel w) \<and> tn_token (ts_tunnel w) = 1 \<and>
   GetEventForDelivery uuid_Nil (ts_db w) = Some (tun_row\<lparr>d_event := (d_event tun_row)\<lparr>ev_status := ''in_flight'', ev_attempt_count := 1, ev_last_attempt_at := Some 0\<rparr>\<rparr>)"
proof -
  let ?x = "jshow (JObj [(''event_id'', JStr uuid_Nil)])"
  obtain t s1 where c: "Connect mem_redis (\<lambda>_. IoOk) True 1 (caller0 id_org) id_ann pdb1 mem_empty = (Inr (Some t), s1)" and
    t: "tn_source t = id_ann" "tn_token t = 1" "tn_open t" "tn_held t = None" "tn_pending t = []" "tn_chans t = []" "tn_jobs t = []" "tn_next t = 0"
    using ids_Parse by (auto simp: Connect_def Connect_guard_def GetSourceForOrg_def one_row_def pw1_sel src1_def id_ann_def split: option.split)
  let ?s = "snd (RPUSH mem_redis (DispatchKey id_ann) ?x mem_empty)"
  let ?w = "\<lparr>ts_tunnel = t, ts_redis = ?s, ts_db = tun_db\<rparr>"
  have w: "tunnel_reach mem_redis ?w" using reach_other [OF reach_connect [OF c], where s = ?s and d = tun_db] by simp
  have "v_lists (view mem_redis mem_empty) (DispatchKey id_ann) = []" by (simp add: view_def mem_sel mem_empty_def redis_slice_def get_or_def)
  then have "fst (LPOP mem_redis (DispatchKey id_ann) ?s) = Some ?x" by (simp add: mem.lpop_v mem.rpush)
  moreover have "jparse ?x = Some (JObj [(''event_id'', JStr uuid_Nil)])" unfolding uuid_Nil_def by code_simp
  moreover have "uuid_Parse uuid_Nil = Some uuid_Nil" unfolding uuid_Nil_def by code_simp
  ultimately have "tunnel_step mem_redis (APop IoOk) ?w = ?w\<lparr>ts_redis := snd (LPOP mem_redis (DispatchKey id_ann) ?s), ts_tunnel := t\<lparr>tn_held := Some uuid_Nil\<rparr>\<rparr>"
    using t by (simp add: popEvent_def get_str_def jget_def Let_def prod.case_eq_if split: option.split)
  then have p: "tunnel_reach mem_redis \<lparr>ts_tunnel = t\<lparr>tn_held := Some uuid_Nil\<rparr>, ts_redis = snd (LPOP mem_redis (DispatchKey id_ann) ?s), ts_db = tun_db\<rparr>"
    using reach_step [OF w, of "APop IoOk"] by simp
  let ?w3 = "tunnel_step mem_redis (AStart tun_env) \<lparr>ts_tunnel = t\<lparr>tn_held := Some uuid_Nil\<rparr>, ts_redis = snd (LPOP mem_redis (DispatchKey id_ann) ?s), ts_db = tun_db\<rparr>"
  have d: "ts_db ?w3 = MarkEventInFlight 0 uuid_Nil tun_db"
    and j: "tn_jobs (ts_tunnel ?w3) = [\<lparr>jb_chan = 0, jb_event = uuid_Nil, jb_num = 1\<rparr>]" "tn_pending (ts_tunnel ?w3) = [(uuid_Nil, 0)]"
      "tn_chans (ts_tunnel ?w3) = []" "tn_open (ts_tunnel ?w3)" "tn_token (ts_tunnel ?w3) = 1"
    using t by (simp_all add: startHeld_def startDispatch_def maxConcurrentDispatch_def tun_sel tun_load tun_body on_tdb_def Let_def pend_add_def)
  have "GetEventForDelivery uuid_Nil (MarkEventInFlight 0 uuid_Nil tun_db) = Some (tun_row\<lparr>d_event :=
      (d_event tun_row)\<lparr>ev_status := ''in_flight'', ev_attempt_count := 1, ev_last_attempt_at := Some 0\<rparr>\<rparr>)"
    by (simp add: GetEventForDelivery_def find_event_def GetConnectionByID_def find_dest_def find_req_def tun_db_def pdb1_def MarkEventInFlight_def
        upd_event_def tun_row_def ev0_def conn0_def dest0_def)
  then show ?thesis using reach_step [OF p, of "AStart tun_env"] d j by (metis cli_job.select_convs(1,2))
qed

theorem tunnel_goroutines_witness:
  "\<exists>w. tunnel_reach mem_redis w \<and> tn_jobs (ts_tunnel w) \<noteq> [] \<and> map_of (tn_pending (ts_tunnel w)) uuid_Nil = Some 0 \<and>
     map_of (tn_chans (ts_tunnel w)) 0 = None"
proof -
  obtain w where w: "tunnel_reach mem_redis w" "tn_jobs (ts_tunnel w) \<noteq> []" "tn_pending (ts_tunnel w) = [(uuid_Nil, 0)]"
    using tun_reach by fastforce
  from tunnel_goroutines [OF w(1)] w show ?thesis by (intro exI [of _ w]) (simp add: Let_def)
qed

theorem tunnel_event_end_witness:
  "\<exists>w. tunnel_reach mem_redis w \<and>
     map_option ev_status (find_event uuid_Nil (ts_db (tunnel_step mem_redis (AFinish tun_env 0 EndTimeout) w))) = Some ''failed'' \<and>
     uuid_Nil \<in> set (map ev_id (fst (ClaimStuckEvents 9 (\<lambda>_. False) 5 5 (length (t_events (ts_db w)))
       (ts_db (tunnel_step mem_redis (AFinish tun_env 0 EndGone) w)))))"
proof -
  obtain w j where w: "tunnel_reach mem_redis w" "tn_jobs (ts_tunnel w) = [j]" "jb_event j = uuid_Nil" "jb_chan j = 0"
    "GetEventForDelivery uuid_Nil (ts_db w) = Some (tun_row\<lparr>d_event := (d_event tun_row)\<lparr>ev_status := ''in_flight'', ev_attempt_count := 1, ev_last_attempt_at := Some 0\<rparr>\<rparr>)"
    using tun_reach by blast
  have "j \<in> set (tn_jobs (ts_tunnel w))" "\<forall>x. tv_out tun_env x = IoOk" using w(2) by (simp_all add: tun_env_def)
  note E = tunnel_event_end [OF w(1) this, unfolded w(3,4), OF w(5), of 5 9 5, unfolded Let_def]
  let ?r = "tun_row\<lparr>d_event := (d_event tun_row)\<lparr>ev_status := ''in_flight'', ev_attempt_count := 1, ev_last_attempt_at := Some 0\<rparr>\<rparr>"
  have "ds_type (d_dest ?r) = ''cli'' \<and> ev_status (d_event ?r) = ''in_flight'' \<and> ev_updated_at (d_event ?r) < 5" by (simp add: tun_row_def ev0_def)
  with E w(1) show ?thesis by blast
qed

theorem tunnel_session_kept_witness:
  "\<exists>w w'. tunnel_reach mem_redis w \<and> w' = fold (tunnel_step mem_redis) [AReadError, ARelease IoOk] w \<and> \<not> tn_open (ts_tunnel w') \<and>
     GET mem_redis (SessionKey (tn_source (ts_tunnel w))) (ts_redis w') = Some 2"
proof -
  obtain w0 where w0: "tunnel_reach mem_redis w0" "tn_token (ts_tunnel w0) = 1" using tun_reach by blast
  let ?k = "SessionKey (tn_source (ts_tunnel w0))"
  let ?w = "w0\<lparr>ts_redis := SETEX mem_redis ?k 2 cliSessionTTL (ts_redis w0), ts_db := ts_db w0\<rparr>"
  have "GET mem_redis ?k (SETEX mem_redis ?k 2 cliSessionTTL (ts_redis w0)) = Some 2" by (simp add: mem.get_view mem.setex)
  then have "GET mem_redis (SessionKey (tn_source (ts_tunnel ?w))) (ts_redis ?w) = Some 2" "tn_token (ts_tunnel ?w) \<noteq> 2" using w0(2) by simp_all
  moreover have "\<forall>a \<in> set [AReadError, ARelease IoOk]. \<forall>o1. a \<noteq> APing o1" by simp
  ultimately have "GET mem_redis (SessionKey (tn_source (ts_tunnel ?w))) (ts_redis (fold (tunnel_step mem_redis) [AReadError, ARelease IoOk] ?w)) = Some 2"
    using tunnel_session_kept [OF mem.redis_axioms] unfolding Let_def by blast
  moreover have "\<not> tn_open (ts_tunnel (fold (tunnel_step mem_redis) [AReadError, ARelease IoOk] ?w))" by (simp add: Let_def)
  ultimately show ?thesis using reach_other [OF w0(1)] by blast
qed

end
