(* ===== verification/Commands.thy ===== *)
theory Commands
  imports Access
begin

text \<open>
  The administration commands, src/cmd/dstream/admin.go: what each does to the database between parsing its flags and
  printing its result. A command runs statement by statement, outside a transaction; the outcome of each call, the generated
  identifiers, the random bytes and the host are arguments. A command answers an error or what it prints.
\<close>

datatype cmd_error = CmdArgs | CmdBadID | CmdBadRole string | CmdNoUser | CmdNoOrg | CmdNoOrgs | CmdRandom | CmdDb go_error

record cmdenv =
  cm_out :: "string \<Rightarrow> io"
  cm_now :: int
  cm_id :: "string \<Rightarrow> string"
  cm_rnd :: "string \<Rightarrow> bytes option"
  cm_suffix :: bytes
  cm_sha :: "bytes \<Rightarrow> bytes"
  cm_pub :: penv
  cm_host :: "string option"
  cm_user :: string

definition cread :: "cmdenv \<Rightarrow> string \<Rightarrow> (idb \<Rightarrow> go_error + 'a) \<Rightarrow> 'r aworld \<Rightarrow> go_error + 'a" where
  "cread env k f w = (if cm_out env k = IoOk then f (aw_idb w) else Inl ErrDb)"

definition cstmt :: "cmdenv \<Rightarrow> string \<Rightarrow> (idb \<Rightarrow> (go_error + 'a) \<times> idb) \<Rightarrow> 'r aworld \<Rightarrow> (go_error + 'a) \<times> 'r aworld" where
  "cstmt env k f w =
     (let (r, d) = run_io (cm_out env k) f (aw_idb w)
      in (case r of None \<Rightarrow> Inl ErrDb | Some x \<Rightarrow> x, w\<lparr>aw_idb := d\<rparr>))"

text \<open>The lookup of a user, or of an organization, that has to exist.\<close>

definition need_user :: "cmdenv \<Rightarrow> string \<Rightarrow> 'r aworld \<Rightarrow> cmd_error + user_row" where
  "need_user env email w =
     (case cread env ''user'' (GetUserByEmail email) w of
        Inr u \<Rightarrow> Inr u | Inl e \<Rightarrow> Inl (if e = ErrNoRows then CmdNoUser else CmdDb e))"

definition need_org :: "cmdenv \<Rightarrow> string \<Rightarrow> 'r aworld \<Rightarrow> cmd_error + org_row" where
  "need_org env org w =
     (case cread env ''org'' (GetOrganizationByID org) w of
        Inr g \<Rightarrow> Inr g | Inl e \<Rightarrow> Inl (if e = ErrNoRows then CmdNoOrg else CmdDb e))"

definition mint_key :: "cmdenv \<Rightarrow> string \<Rightarrow> string \<Rightarrow> 'r aworld \<Rightarrow> (cmd_error + (key_row \<times> string)) \<times> 'r aworld" where
  "mint_key env org name w =
     (case (cm_rnd env ''prefix'', cm_rnd env ''secret'') of
        (Some pb, Some sb) \<Rightarrow>
          (case NewAPIKey (cm_sha env) pb sb of (full, pfx, hash) \<Rightarrow>
             (case cstmt env ''key'' (CreateAPIKey (cm_now env) (cm_id env ''key'') org name pfx hash None RoleAdmin) w of
                (Inl e, w) \<Rightarrow> (Inl (CmdDb e), w)
              | (Inr row, w) \<Rightarrow> (Inr (row, full), w)))
      | _ \<Rightarrow> (Inl CmdRandom, w))"

definition seed_app :: "cmdenv \<Rightarrow> string \<Rightarrow> 'r aworld \<Rightarrow> 'r aworld" where
  "seed_app env org w = w\<lparr>aw_m := snd (SeedOperationalApp (cm_pub env) org (aw_m w))\<rparr>"

section \<open>The commands\<close>

definition break_glass_row :: "cmdenv \<Rightarrow> string \<Rightarrow> user_row \<Rightarrow> org_row \<Rightarrow> audit_row" where
  "break_glass_row env email u g =
     \<lparr>au_org_id = Some (og_id g), au_org_name = Some (og_name g), au_actor_user = Some (us_id u), au_actor_key = None,
      au_actor_email = Some email, au_action = ''auth.break_glass_magic_link'', au_target_type = ''user'', au_target_id = Some (us_id u),
      au_metadata = jshow (JObj [(''actor'', JStr ''cli''), (''email'', JStr email),
        (''host'', JStr (case cm_host env of None \<Rightarrow> ''unknown'' | Some h \<Rightarrow> h)),
        (''os_user'', JStr (if cm_user env = [] then ''unknown'' else cm_user env)), (''reason'', JStr ''sso_enforced_break_glass'')]),
      au_created_at = cm_now env\<rparr>"

definition runMagicLink :: "cmdenv \<Rightarrow> string \<Rightarrow> string \<Rightarrow> int \<Rightarrow> 'r aworld \<Rightarrow> (cmd_error + string) \<times> 'r aworld" where
  "runMagicLink env email appBaseURL ttl w =
     (case need_user env email w of Inl e \<Rightarrow> (Inl e, w) | Inr u \<Rightarrow>
      case cread env ''orgs'' (\<lambda>d. Inr (ListOrgsForUser (us_id u) d)) w of
        Inl e \<Rightarrow> (Inl (CmdDb e), w)
      | Inr [] \<Rightarrow> (Inl CmdNoOrgs, w)
      | Inr ((g, _) # _) \<Rightarrow>
          (case cm_rnd env ''link'' of None \<Rightarrow> (Inl CmdRandom, w) | Some rnd \<Rightarrow>
           case on_idb (IssueMagicLink (cm_sha env) (cm_out env ''link'') (cm_now env) (cm_id env ''link'') rnd email ttl) w of
             (Inl e, w) \<Rightarrow> (Inl (CmdDb e), w)
           | (Inr token, w) \<Rightarrow>
               (case cstmt env ''audit'' (InsertAuditLog (break_glass_row env email u g)) w of
                  (Inl e, w) \<Rightarrow> (Inl (CmdDb e), w)
                | (Inr _, w) \<Rightarrow> (Inr (trim_slash appBaseURL @ ''/auth/verify?token='' @ QueryEscape token), w))))"

definition magicLinkCmd :: "cmdenv \<Rightarrow> string \<Rightarrow> string \<Rightarrow> int \<Rightarrow> 'r aworld \<Rightarrow> (cmd_error + string) \<times> 'r aworld" where
  "magicLinkCmd env arg = runMagicLink env (map lower_char (TrimSpace arg))"

definition runPromote :: "cmdenv \<Rightarrow> string \<Rightarrow> 'r aworld \<Rightarrow> (cmd_error + unit) \<times> 'r aworld" where
  "runPromote env email w =
     (case need_user env email w of Inl e \<Rightarrow> (Inl e, w) | Inr _ \<Rightarrow>
      case cstmt env ''promote'' (\<lambda>d. (Inr (), PromoteUserToSuperAdmin (cm_now env) email d)) w of
        (Inl e, w) \<Rightarrow> (Inl (CmdDb e), w) | (Inr _, w) \<Rightarrow> (Inr (), w))"

definition user_or_new :: "cmdenv \<Rightarrow> string \<Rightarrow> 'r aworld \<Rightarrow> (go_error + user_row) \<times> 'r aworld" where
  "user_or_new env email w =
     (case cread env ''user'' (GetUserByEmail email) w of
        Inr u \<Rightarrow> (Inr u, w)
      | Inl e \<Rightarrow> if e \<noteq> ErrNoRows then (Inl e, w) else cstmt env ''newuser'' (CreateUser (cm_now env) (cm_id env ''user'') email None) w)"

definition org_or_new :: "cmdenv \<Rightarrow> string \<Rightarrow> 'r aworld \<Rightarrow> (go_error + org_row) \<times> 'r aworld" where
  "org_or_new env slug w =
     (case cread env ''org'' (GetOrganizationBySlug slug) w of
        Inr g \<Rightarrow> (Inr g, w)
      | Inl e \<Rightarrow> if e \<noteq> ErrNoRows then (Inl e, w) else cstmt env ''neworg'' (CreateOrganization (cm_now env) (cm_id env ''org'') slug slug) w)"

definition runBootstrap :: "cmdenv \<Rightarrow> string \<Rightarrow> string \<Rightarrow> string \<Rightarrow> 'r aworld \<Rightarrow> (cmd_error + (string \<times> string)) \<times> 'r aworld" where
  "runBootstrap env emailArg orgSlug keyName w =
     (case user_or_new env (map lower_char (TrimSpace emailArg)) w of (Inl e, w) \<Rightarrow> (Inl (CmdDb e), w) | (Inr u, w) \<Rightarrow>
      case org_or_new env orgSlug w of (Inl e, w) \<Rightarrow> (Inl (CmdDb e), w) | (Inr g, w) \<Rightarrow>
      case cstmt env ''member'' (AddOrgMember (cm_now env) (og_id g) (us_id u) RoleOwner) w of (r, w) \<Rightarrow>
        if (case r of Inr _ \<Rightarrow> True | Inl e \<Rightarrow> e = ErrUnique) then
          (case mint_key env (og_id g) (if keyName = [] then ''bootstrap'' else keyName) (seed_app env (og_id g) w) of
             (Inl e, w) \<Rightarrow> (Inl e, w) | (Inr (_, full), w) \<Rightarrow> (Inr (og_id g, full), w))
        else (Inl (CmdDb (case r of Inl e \<Rightarrow> e | Inr _ \<Rightarrow> ErrDb)), w))"

definition bootstrapCmd :: "cmdenv \<Rightarrow> string \<Rightarrow> string \<Rightarrow> string \<Rightarrow> 'r aworld \<Rightarrow> (cmd_error + (string \<times> string)) \<times> 'r aworld" where
  "bootstrapCmd env email org keyName w =
     (if email = [] \<or> org = [] then (Inl CmdArgs, w) else runBootstrap env email org keyName w)"

text \<open>The slug function of the command is a copy of the one of the organizations API.\<close>

definition slugify :: "bytes \<Rightarrow> string \<Rightarrow> string" where
  "slugify suffix name =
     (let b = rev (dropWhile (\<lambda>c. c = CHR ''-'') (rev (slug_runes [] False (map lower_char name))))
      in (if b = [] then ''org'' else b) @ ''-'' @ hex_encode suffix)"

definition runOrgCreate :: "cmdenv \<Rightarrow> string \<Rightarrow> string \<Rightarrow> 'r aworld \<Rightarrow> (cmd_error + (string \<times> string)) \<times> 'r aworld" where
  "runOrgCreate env name email w =
     (case need_user env email w of Inl e \<Rightarrow> (Inl e, w) | Inr u \<Rightarrow>
      let slug = slugify (cm_suffix env) name
      in case cstmt env ''neworg'' (CreateOrganization (cm_now env) (cm_id env ''org'') name slug) w of
           (Inl e, w) \<Rightarrow> (Inl (CmdDb e), w)
         | (Inr g, w) \<Rightarrow>
             (case cstmt env ''member'' (AddOrgMember (cm_now env) (og_id g) (us_id u) RoleOwner) w of
                (Inl e, w) \<Rightarrow> (Inl (CmdDb e), w)
              | (Inr _, w) \<Rightarrow> (Inr (og_id g, slug), seed_app env (og_id g) w)))"

definition orgCreateCmd :: "cmdenv \<Rightarrow> string \<Rightarrow> string \<Rightarrow> 'r aworld \<Rightarrow> (cmd_error + (string \<times> string)) \<times> 'r aworld" where
  "orgCreateCmd env nameArg emailArg w =
     (let name = TrimSpace nameArg
      in if name = [] then (Inl CmdArgs, w) else runOrgCreate env name (map lower_char (TrimSpace emailArg)) w)"

definition runMemberAdd :: "cmdenv \<Rightarrow> string \<Rightarrow> string \<Rightarrow> string \<Rightarrow> 'r aworld \<Rightarrow> (cmd_error + unit) \<times> 'r aworld" where
  "runMemberAdd env org email role w =
     (case need_org env org w of Inl e \<Rightarrow> (Inl e, w) | Inr _ \<Rightarrow>
      case need_user env email w of Inl e \<Rightarrow> (Inl e, w) | Inr u \<Rightarrow>
      case cstmt env ''member'' (AddOrgMember (cm_now env) org (us_id u) role) w of
        (Inl e, w) \<Rightarrow> (Inl (CmdDb e), w) | (Inr _, w) \<Rightarrow> (Inr (), w))"

definition memberAddCmd :: "cmdenv \<Rightarrow> string \<Rightarrow> string \<Rightarrow> string \<Rightarrow> 'r aworld \<Rightarrow> (cmd_error + unit) \<times> 'r aworld" where
  "memberAddCmd env orgArg emailArg roleArg w =
     (case uuid_Parse (TrimSpace orgArg) of None \<Rightarrow> (Inl CmdBadID, w) | Some org \<Rightarrow>
      let role = map lower_char (TrimSpace roleArg)
      in if role \<noteq> RoleOwner \<and> role \<noteq> RoleAdmin \<and> role \<noteq> RoleMember then (Inl (CmdBadRole role), w)
         else runMemberAdd env org (map lower_char (TrimSpace emailArg)) role w)"

definition runKeyCreate :: "cmdenv \<Rightarrow> string \<Rightarrow> string \<Rightarrow> 'r aworld \<Rightarrow> (cmd_error + (key_row \<times> string)) \<times> 'r aworld" where
  "runKeyCreate env org name w =
     (case need_org env org w of Inl e \<Rightarrow> (Inl e, w) | Inr _ \<Rightarrow> mint_key env org name w)"

definition keyCreateCmd :: "cmdenv \<Rightarrow> string \<Rightarrow> string \<Rightarrow> 'r aworld \<Rightarrow> (cmd_error + (key_row \<times> string)) \<times> 'r aworld" where
  "keyCreateCmd env orgArg nameArg w =
     (case uuid_Parse (TrimSpace orgArg) of None \<Rightarrow> (Inl CmdBadID, w) | Some org \<Rightarrow>
      let name = TrimSpace nameArg in if name = [] then (Inl CmdArgs, w) else runKeyCreate env org name w)"

end
