(* ===== verification/Commands_Props.thy ===== *)
theory Commands_Props
  imports Commands Access_Props
begin

text \<open>
  Properties of the administration commands: the break-glass sign-in link is never printed without its audit row, and an
  interrupted creation of an organization leaves it without an owner.
\<close>

lemma magic_link_issued:
  assumes "IssueMagicLink sha o1 now i rnd email ttl d = (Inr token, d')"
  shows "d' = d\<lparr>t_links := t_links d @ [\<lparr>ml_id = i, ml_email = email, ml_token_hash = sha token, ml_expires_at = now + ttl, ml_used_at = None, ml_created_at = now\<rparr>]\<rparr>"
  using assms by (cases o1) (auto simp: IssueMagicLink_def CreateMagicLinkToken_def Let_def)

lemma first_org:
  assumes "ListOrgsForUser user d = (g, role) # gs"
  shows "g \<in> set (t_orgs d) \<and> list_ex (is_member (og_id g) user) (t_members d)"
proof -
  have "(g, role) \<in> set (ListOrgsForUser user d)" by (simp add: assms)
  then show ?thesis by (auto simp: ListOrgsForUser_def list_ex_iff)
qed

lemma audit_inserted: "InsertAuditLog a d = (Inr x, d') \<Longrightarrow> d' = d\<lparr>t_audit := t_audit d @ [a]\<rparr>"
  by (auto simp: InsertAuditLog_def split: if_splits)

lemma cstmt_Inr: "cstmt env k f w = (Inr x, w') \<Longrightarrow> f (aw_idb w) = (Inr x, aw_idb w') \<and> w' = w\<lparr>aw_idb := aw_idb w'\<rparr>"
  by (cases "cm_out env k") (auto simp: cstmt_def Let_def prod_eq_iff split: prod.splits)

text \<open>
  C36: break glass. A sign-in link that the command prints belongs to an existing user who is a member of an organization;
  the printing is recorded in the first of the user's organizations by an audit row with this user as its target; the token of the link is active until its time to
  live has passed; and nothing else in the identity store has changed. Single sign-on enforcement plays no part in it.
\<close>

theorem break_glass_audited:
  assumes "magicLinkCmd env arg base ttl w = (Inr link, w')"
  shows "\<exists>u g role gs token l. let email = map lower_char (TrimSpace arg); d = aw_idb w in
     GetUserByEmail email d = Inr u \<and> ListOrgsForUser (us_id u) d = (g, role) # gs \<and> g \<in> set (t_orgs d) \<and> list_ex (is_member (og_id g) (us_id u)) (t_members d) \<and>
     link = trim_slash base @ ''/auth/verify?token='' @ QueryEscape token \<and>
     aw_idb w' = d\<lparr>t_links := t_links d @ [l], t_audit := t_audit d @ [break_glass_row env email u g]\<rparr> \<and>
     ml_email l = email \<and> ml_token_hash l = cm_sha env token \<and> ml_used_at l = None \<and> aw_m w' = aw_m w \<and>
     (\<forall>now < cm_now env + ttl. \<exists>x. GetActiveMagicLinkToken now (cm_sha env token) (aw_idb w') = Inr x)"
proof -
  let ?email = "map lower_char (TrimSpace arg)"
  obtain u g role gs rnd token w1 where c: "GetUserByEmail ?email (aw_idb w) = Inr u" "ListOrgsForUser (us_id u) (aw_idb w) = (g, role) # gs"
    "on_idb (IssueMagicLink (cm_sha env) (cm_out env ''link'') (cm_now env) (cm_id env ''link'') rnd ?email ttl) w = (Inr token, w1)"
    "cstmt env ''audit'' (InsertAuditLog (break_glass_row env ?email u g)) w1 = (Inr (), w')"
    "link = trim_slash base @ ''/auth/verify?token='' @ QueryEscape token"
    using assms by (auto simp: magicLinkCmd_def runMagicLink_def need_user_def cread_def split: sum.splits list.splits option.splits prod.splits if_splits)
  obtain d1 where d1: "IssueMagicLink (cm_sha env) (cm_out env ''link'') (cm_now env) (cm_id env ''link'') rnd ?email ttl (aw_idb w) = (Inr token, d1)"
    "w1 = w\<lparr>aw_idb := d1\<rparr>" using c(3) by (auto simp: on_idb_def split: prod.splits)
  define l where "l = \<lparr>ml_id = cm_id env ''link'', ml_email = ?email, ml_token_hash = cm_sha env token, ml_expires_at = cm_now env + ttl,
     ml_used_at = None, ml_created_at = cm_now env\<rparr>"
  have l: "d1 = (aw_idb w)\<lparr>t_links := t_links (aw_idb w) @ [l]\<rparr>" using magic_link_issued [OF d1(1)] by (simp add: l_def)
  note i = cstmt_Inr [OF c(4)]
  have a: "aw_idb w' = (aw_idb w)\<lparr>t_links := t_links (aw_idb w) @ [l], t_audit := t_audit (aw_idb w) @ [break_glass_row env ?email u g]\<rparr>"
    using audit_inserted i d1(2) by (fastforce simp: l)
  have "\<exists>x. GetActiveMagicLinkToken now (cm_sha env token) (aw_idb w') = Inr x" if "now < cm_now env + ttl" for now
    using that by (auto simp: a GetActiveMagicLinkToken_def one_row_def find_None_iff l_def split: option.split intro!: exI [of _ l])
  moreover have "aw_m w' = aw_m w" using i d1(2) by (metis aworld.select_convs(2) aworld.surjective aworld.update_convs(1))
  ultimately show ?thesis using c(1,2,5) first_org [OF c(2)] a
    by (intro exI [of _ u] exI [of _ g] exI [of _ role] exI [of _ gs] exI [of _ token] exI [of _ l]) (simp add: Let_def l_def)
qed

definition cmd0 :: "io \<Rightarrow> cmdenv" where
  "cmd0 o1 = \<lparr>cm_out = (\<lambda>k. if k = ''member'' then o1 else IoOk), cm_now = 0, cm_id = (\<lambda>_. id_bob), cm_rnd = (\<lambda>_. Some ''r''), cm_suffix = ''x'', cm_sha = id,
     cm_pub = ie_pub (ienv0 id), cm_host = None, cm_user = []\<rparr>"

lemma ann_mail: "map lower_char (TrimSpace id_ann) = id_ann" "ci_eq id_ann id_ann"
  unfolding id_ann_def by code_simp+

lemma aw0_idb: "aw_idb (aw0 []) = team0"
  by (simp add: aw0_def team0_def)

lemma cmd0_sel: "k \<noteq> ''member'' \<Longrightarrow> cm_out (cmd0 o1) k = IoOk" "cm_now (cmd0 o1) = 0" "cm_rnd (cmd0 o1) k = Some ''r''" "cm_sha (cmd0 o1) = id"
  by (simp_all add: cmd0_def)

theorem break_glass_audited_witness:
  "\<exists>link w' token l. magicLinkCmd (cmd0 IoOk) id_ann ''u'' hour (aw0 []) = (Inr link, w') \<and>
     map au_action (t_audit (aw_idb w')) = [''auth.break_glass_magic_link''] \<and> GetActiveMagicLinkToken 5 token (aw_idb w') = Inr l"
proof -
  have u: "GetUserByEmail id_ann team0 = Inr (user0 id_ann)" using ann_mail by (simp add: GetUserByEmail_def one_row_def team0_def user0_def)
  have "\<exists>g role. ListOrgsForUser id_ann team0 = [(g, role)] \<and> og_id g = id_org"
    by (simp add: ListOrgsForUser_def team0_def member0_def is_member_def id_ann_def id_bob_def id_cy_def)
  then obtain g role where g: "ListOrgsForUser (us_id (user0 id_ann)) team0 = [(g, role)]" "og_id g = id_org" by (auto simp: user0_def)
  have "InsertAuditLog (break_glass_row env m (user0 id_ann) g) (team0\<lparr>t_links := ls\<rparr>) =
      (Inr (), team0\<lparr>t_links := ls, t_audit := [break_glass_row env m (user0 id_ann) g]\<rparr>)" for env m ls
    by (simp add: InsertAuditLog_def break_glass_row_def find_org_def find_user_def team0_def user0_def g)
  then obtain link w' where r: "magicLinkCmd (cmd0 IoOk) id_ann ''u'' hour (aw0 []) = (Inr link, w')"
    using u g by (simp add: magicLinkCmd_def runMagicLink_def need_user_def cread_def cmd0_sel ann_mail aw0_idb on_idb_def
        IssueMagicLink_def CreateMagicLinkToken_def Let_def cstmt_def)
  from break_glass_audited [OF r] obtain u2 g2 role2 gs2 token l where b:
      "aw_idb w' = team0\<lparr>t_links := t_links team0 @ [l], t_audit := t_audit team0 @ [break_glass_row (cmd0 IoOk) id_ann u2 g2]\<rparr>"
      "\<forall>now < hour. \<exists>x. GetActiveMagicLinkToken now token (aw_idb w') = Inr x"
    by (auto simp: Let_def ann_mail aw0_idb cmd0_sel)
  have "map au_action (t_audit (aw_idb w')) = [''auth.break_glass_magic_link'']" by (simp add: b(1) team0_def break_glass_row_def)
  moreover have "5 < hour" by (simp add: hour_def second_def)
  then obtain x where "GetActiveMagicLinkToken 5 token (aw_idb w') = Inr x" using b(2) by blast
  ultimately show ?thesis using r by (intro exI conjI)
qed

text \<open>
  the creation of an organization from the command line is not atomic. When the statement that adds its owner fails, the
  command reports the error, and the organization stays behind without any member.
\<close>

theorem org_create_orphan:
  assumes "GetUserByEmail email (aw_idb w) = Inr u" "cm_out env ''user'' = IoOk" "cm_out env ''neworg'' = IoOk" "cm_out env ''member'' = IoErr"
    and "\<forall>g \<in> set (t_orgs (aw_idb w)). og_slug g \<noteq> slugify (cm_suffix env) name"
    and "\<forall>m \<in> set (t_members (aw_idb w)). mb_org_id m \<noteq> cm_id env ''org''"
  shows "\<exists>w'. runOrgCreate env name email w = (Inl (CmdDb ErrDb), w') \<and>
     (\<exists>g \<in> set (t_orgs (aw_idb w')). og_id g = cm_id env ''org'' \<and> og_name g = name) \<and> (\<forall>m \<in> set (t_members (aw_idb w')). mb_org_id m \<noteq> cm_id env ''org'')"
  using assms by (auto simp: runOrgCreate_def need_user_def cread_def cstmt_def CreateOrganization_def list_ex_iff Let_def)

theorem org_create_orphan_witness:
  "\<exists>w'. runOrgCreate (cmd0 IoErr) ''n'' id_ann (aw0 []) = (Inl (CmdDb ErrDb), w') \<and> (\<forall>m \<in> set (t_members (aw_idb w')). mb_org_id m \<noteq> id_bob)"
proof -
  have "GetUserByEmail id_ann (aw_idb (aw0 [])) = Inr (user0 id_ann)" using ann_mail by (simp add: aw0_def GetUserByEmail_def one_row_def team0_def user0_def)
  moreover have "slugify ''x'' ''n'' \<noteq> ''acme''" by code_simp
  moreover have "id_org \<noteq> id_bob" unfolding id_org_def id_bob_def by code_simp
  ultimately show ?thesis using org_create_orphan [of id_ann "aw0 []" "user0 id_ann" "cmd0 IoErr" "''n''"]
    by (auto simp: cmd0_def aw0_def team0_def member0_def)
qed

end
