(* ===== verification/Console.thy ===== *)
theory Console
  imports Reports Usage
begin

text \<open>
  The console of the operator, src/internal/admin/router.go, behind \<open>SuperAdminOnly\<close>: the state of the delivery queue and
  the three interventions on it, usage across organizations, and the overview with its queries (events.sql.go). The
  quota handlers of the same package are in the theory Identity. The clock, the query parameters and the outcome of each call
  are arguments; a body is the decoded request, if it decodes.
\<close>

record 'r conworld =
  co_redis :: 'r
  co_db :: db
  co_mdb :: mdb
  co_idb :: idb

record cenv =
  ce_out :: "string \<Rightarrow> io"
  ce_len :: "string \<Rightarrow> io"
  ce_now :: int
  ce_queue :: client

section \<open>Queries across organizations\<close>

definition AdminEventsSince :: "int \<Rightarrow> db \<Rightarrow> nat" where
  "AdminEventsSince since d = length (filter (\<lambda>e. since \<le> ev_created_at e) (t_events d))"

text \<open>Grouping by source; the order of equal counts is that of the rows.\<close>

definition AdminTopSources :: "int \<Rightarrow> db \<Rightarrow> (string \<times> string \<times> nat) list" where
  "AdminTopSources since d =
     (let rows = concat (map (\<lambda>e. concat (map (\<lambda>r. map (\<lambda>s. (so_id s, so_name s)) (filter (\<lambda>s. so_id s = rq_source_id r) (t_sources d)))
                   (filter (\<lambda>r. rq_id r = ev_request_id e) (t_requests d))))
                 (filter (\<lambda>e. since \<le> ev_created_at e) (t_events d)))
      in map (\<lambda>((i, n), k). (i, n, k)) (take 5 (sort_key (\<lambda>(_, k). - int k) (row_counts rows))))"

record hot_destination =
  hd_ID :: string
  hd_Name :: string
  hd_Total :: nat
  hd_Failed :: nat

definition HotDestinations :: "int \<Rightarrow> db \<Rightarrow> hot_destination list" where
  "HotDestinations now d =
     (let rows = concat (map (\<lambda>e. concat (map (\<lambda>c. map (\<lambda>x. (ds_id x, ds_name x, ev_status e)) (filter (\<lambda>x. ds_id x = cn_destination_id c) (t_destinations d)))
                   (filter (\<lambda>c. cn_id c = ev_connection_id e) (t_connections d))))
                 (filter (\<lambda>e. now - 24 * hour \<le> ev_created_at e) (t_events d)));
          groups = map (\<lambda>(i, n). (let rs = filter (\<lambda>(j, m, _). j = i \<and> m = n) rows
                     in \<lparr>hd_ID = i, hd_Name = n, hd_Total = length rs,
                         hd_Failed = length (filter (\<lambda>(_, _, st). st = ''failed'' \<or> st = ''dead'') rs)\<rparr>))
                   (remdups (map (\<lambda>(i, n, _). (i, n)) rows))
      in take 20 (sort_key (\<lambda>h. (- int (hd_Failed h), - int (hd_Total h))) (filter (\<lambda>h. hd_Failed h > 0) groups)))"

section \<open>Reading\<close>

definition handleQueues :: "'r redis \<Rightarrow> cenv \<Rightarrow> 'r conworld \<Rightarrow> int + stats" where
  "handleQueues R env w =
     (case Stats R (ce_queue env) (ce_out env ''keys'') (ce_len env) (ce_out env ''scheduled'') (ce_out env ''processing'') (ce_out env ''dead'') (co_redis w) of
        (_, Some _) \<Rightarrow> Inl 500 | (s, None) \<Rightarrow> Inr s)"

definition handleQueueItems :: "'r redis \<Rightarrow> cenv \<Rightarrow> string \<Rightarrow> string \<Rightarrow> string \<Rightarrow> 'r conworld \<Rightarrow> int + (item list \<times> bool)" where
  "handleQueueItems R env lane org limitParam w =
     (if lane \<notin> {''dead'', ''scheduled'', ''processing'', ''pending''} then Inl 400
      else if lane = ''pending'' \<and> org = [] then Inl 400
      else
        (let limit = (if limitParam = [] then 100 else case Atoi limitParam of None \<Rightarrow> 100 | Some n \<Rightarrow> n)
         in case Items R payload_json (ce_queue env) (ce_out env ''items'') lane org limit (co_redis w) of
              Inl _ \<Rightarrow> Inl 500 | Inr r \<Rightarrow> Inr r))"

text \<open>An organization that does not parse, or cannot be read, is listed without a name.\<close>

definition handleQueueOrgs :: "'r redis \<Rightarrow> cenv \<Rightarrow> 'r conworld \<Rightarrow> int + (string \<times> string \<times> int) list" where
  "handleQueueOrgs R env w =
     (case AllOrgPending R (ce_queue env) (ce_out env ''keys'') (ce_len env) (co_redis w) of
        Inl _ \<Rightarrow> Inl 500
      | Inr rows \<Rightarrow>
          Inr (map (\<lambda>r. (op_OrgID r,
                 (case uuid_Parse (op_OrgID r) of None \<Rightarrow> []
                  | Some i \<Rightarrow> if ce_out env i \<noteq> IoOk then []
                              else case GetOrganizationByID i (co_idb w) of Inl _ \<Rightarrow> [] | Inr g \<Rightarrow> og_name g),
                 op_Pending r)) rows))"

definition usage_counts :: "(string \<times> int) list \<Rightarrow> string \<Rightarrow> int option" where
  "usage_counts rows = fold (\<lambda>(m, n) f. f(m \<mapsto> n)) rows [''requests'' \<mapsto> 0, ''events'' \<mapsto> 0, ''messages'' \<mapsto> 0, ''attempts'' \<mapsto> 0]"

text \<open>An organization whose usage cannot be read is skipped.\<close>

definition handleUsage :: "cenv \<Rightarrow> 'r conworld \<Rightarrow> int + (org_row \<times> int \<times> (string \<Rightarrow> int option)) list" where
  "handleUsage env w =
     (if ce_out env ''list'' \<noteq> IoOk then Inl 500
      else Inr (map (\<lambda>g. (let start = PeriodStart (ce_now env) (og_period g) in (g, start, usage_counts (GetUsageForPeriod (og_id g) start (co_idb w)))))
                 (filter (\<lambda>g. ce_out env (og_id g) = IoOk) (ListOrgQuotas (co_idb w)))))"

definition handleListOrgs :: "cenv \<Rightarrow> 'r conworld \<Rightarrow> int + org_row list" where
  "handleListOrgs env w = (if ce_out env ''list'' \<noteq> IoOk then Inl 500 else Inr (ListAllOrganizations (co_idb w)))"

record overview =
  ov_organizations :: nat
  ov_users :: nat
  ov_events_24h :: nat
  ov_events_per_min :: rat
  ov_top_sources :: "(string \<times> string \<times> nat) list"

definition handleOverview :: "cenv \<Rightarrow> 'r conworld \<Rightarrow> int + overview" where
  "handleOverview env w =
     (if ce_out env ''orgs'' \<noteq> IoOk \<or> ce_out env ''users'' \<noteq> IoOk \<or> ce_out env ''events'' \<noteq> IoOk \<or> ce_out env ''top'' \<noteq> IoOk then Inl 500
      else
        (let since = ce_now env - 24 * hour; n = AdminEventsSince since (co_db w)
         in Inr \<lparr>ov_organizations = CountOrganizations (co_idb w), ov_users = CountUsers (co_idb w), ov_events_24h = n,
                 ov_events_per_min = fl64 (of_nat n / 1440), ov_top_sources = AdminTopSources since (co_db w)\<rparr>))"

definition handleHotDestinations :: "cenv \<Rightarrow> 'r conworld \<Rightarrow> int + (hot_destination \<times> rat) list" where
  "handleHotDestinations env w =
     (if ce_out env ''hot'' \<noteq> IoOk then Inl 500
      else Inr (map (\<lambda>h. (h, if hd_Total h > 0 then fl64 (of_nat (hd_Failed h) / of_nat (hd_Total h)) else 0)) (HotDestinations (ce_now env) (co_db w))))"

section \<open>Interventions\<close>

text \<open>The row of the event is set back to queued when the payload decodes; a failure of that is only logged.\<close>

definition handleRequeueDead :: "'r redis \<Rightarrow> cenv \<Rightarrow> string option \<Rightarrow> 'r conworld \<Rightarrow> (int + bool) \<times> 'r conworld" where
  "handleRequeueDead R env body w =
     (case body of None \<Rightarrow> (Inl 400, w) | Some raw \<Rightarrow>
      if raw = [] then (Inl 400, w)
      else case RequeueDead R payload_json (ce_queue env) (ce_out env ''requeue'') (UnixMilli (ce_now env)) raw (co_redis w) of
             (Inl _, s) \<Rightarrow> (Inl 500, w\<lparr>co_redis := s\<rparr>)
           | (Inr ok, s) \<Rightarrow>
               (let w = w\<lparr>co_redis := s\<rparr>
                in (Inr ok,
                    if ok then
                      (case payload_unmarshal raw of None \<Rightarrow> w
                       | Some p \<Rightarrow> w\<lparr>co_db := snd (run_io (ce_out env ''mark'') (\<lambda>d. ((), MarkEventQueued (ce_now env) (p_EventID p) d)) (co_db w))\<rparr>)
                    else w)))"

definition handlePromoteScheduled :: "'r redis \<Rightarrow> cenv \<Rightarrow> string option \<Rightarrow> 'r conworld \<Rightarrow> (int + bool) \<times> 'r conworld" where
  "handlePromoteScheduled R env body w =
     (case body of None \<Rightarrow> (Inl 400, w) | Some raw \<Rightarrow>
      if raw = [] then (Inl 400, w)
      else case PromoteScheduled R payload_json (ce_queue env) (ce_out env ''promote'') raw (co_redis w) of
             (Inl _, s) \<Rightarrow> (Inl 500, w\<lparr>co_redis := s\<rparr>)
           | (Inr ok, s) \<Rightarrow> (Inr ok, w\<lparr>co_redis := s\<rparr>))"

definition handleDrainDead :: "'r redis \<Rightarrow> cenv \<Rightarrow> 'r conworld \<Rightarrow> (int + nat) \<times> 'r conworld" where
  "handleDrainDead R env w =
     (case DrainDead R (ce_queue env) (ce_out env ''drain'') (co_redis w) of
        (Inl _, s) \<Rightarrow> (Inl 500, w\<lparr>co_redis := s\<rparr>)
      | (Inr n, s) \<Rightarrow> (Inr n, w\<lparr>co_redis := s\<rparr>))"

end
