(* ===== verification/Console_Props.thy ===== *)
theory Console_Props
  imports Console Worker_Props
begin

text \<open>
  Properties of the interventions of the operator: an event that is taken from the dead list is delivered again, and a
  message that is taken from it is not.
\<close>

definition requeued :: "int \<Rightarrow> payload \<Rightarrow> payload" where
  "requeued now p = p\<lparr>p_Attempt := 0, p_EnqueuedAt := now\<rparr>"

context redis
begin

lemma requeue_task:
  assumes "payload_ok p" "raw = marshal payload_json p" "raw \<in> set (deadq (dq_of R (prefix c) s))" "0 \<le> now" "now < 2 ^ 63"
  shows "fst (RequeueDead R payload_json c IoOk now raw s) = Inr True"
    and "marshal payload_json (requeued now p) \<in> set (pend (dq_of R (prefix c) (snd (RequeueDead R payload_json c IoOk now raw s))) (p_OrgID p))"
proof -
  let ?p = "p\<lparr>p_Attempt := 0, p_EnqueuedAt := now\<rparr>"
  have "payload_ok ?p" using assms(1,4,5) by (rule json.good_requeue)
  then have org: "cjson_org_id payload_json (marshal payload_json ?p) = Some (p_OrgID p)" by (simp add: json.cjson_marshal)
  have u: "unmarshal payload_json raw = Some p" using assms(1,2) by (simp add: json.unmarshal_marshal)
  show "fst (RequeueDead R payload_json c IoOk now raw s) = Inr True"
    using assms(3) org u
    by (simp add: RequeueDead_def requeueDeadScript_def pushDecoded_def io_sum_def Let_def case_prod_unfold abs_values)
  have "dq_of R (prefix c) (snd (RequeueDead R payload_json c IoOk now raw s)) = dq_exec payload_json (OpRequeue IoOk now raw) (dq_of R (prefix c) s)"
    using exec_refines [of c payload_json "OpRequeue IoOk now raw" s] by simp
  then show "marshal payload_json (requeued now p) \<in> set (pend (dq_of R (prefix c) (snd (RequeueDead R payload_json c IoOk now raw s))) (p_OrgID p))"
    using assms(3) org u by (simp add: Let_def dq_trim_def dq_push_def requeued_def)
qed

end

lemma marshal_nonempty: "marshal payload_json p \<noteq> []"
  by (cases "payload_fields p") (auto simp: payload_json_def payload_marshal_def)

lemma dead_delivery_dropped:
  assumes "deliveryID p = Some did" "g_load env = IoOk" "GetMessageDeliveryForSend did (mw_db m) = Some row" "dl_status (sr_delivery row) = ''dead''"
  shows "mw_db (snd (Process_msg R h env (requeued now p) lease m)) = mw_db m \<and> mw_sent (snd (Process_msg R h env (requeued now p) lease m)) = mw_sent m"
proof -
  have "deliveryID (requeued now p) = Some did" using assms(1) by (simp add: deliveryID_def requeued_def)
  then show ?thesis using assms(2-4) by (simp add: Process_msg_def terminal_delivery_def m_ack_def m_queue_def prod.case_eq_if)
qed

text \<open>
  C37: requeueing from the dead list. The console answers that the task was requeued, and it is pending again with a fresh
  attempt count. An event's row is set back to queued, so that the worker delivers it. The row of an outbound delivery is not: a
  worker that leases the requeued message finds it dead, and drops it without sending anything.
\<close>

theorem requeue_dead_console:
  assumes "redis R" "payload_ok p" "raw = marshal payload_json p" "raw \<in> set (deadq (dq_of R (prefix (ce_queue env)) (co_redis w)))"
    and "0 \<le> UnixMilli (ce_now env)" "UnixMilli (ce_now env) < 2 ^ 63" "ce_out env ''requeue'' = IoOk" "ce_out env ''mark'' = IoOk"
  shows "\<exists>w'. handleRequeueDead R env (Some raw) w = (Inr True, w') \<and>
     marshal payload_json (requeued (UnixMilli (ce_now env)) p) \<in> set (pend (dq_of R (prefix (ce_queue env)) (co_redis w')) (p_OrgID p)) \<and>
     (\<forall>e. find_event (p_EventID p) (co_db w) = Some e \<longrightarrow> map_option ev_status (find_event (p_EventID p) (co_db w')) = Some ''queued'') \<and>
     (\<forall>did row h menv lease m. deliveryID p = Some did \<and> GetMessageDeliveryForSend did (co_mdb w) = Some row \<and>
        dl_status (sr_delivery row) = ''dead'' \<and> g_load menv = IoOk \<and> mw_db m = co_mdb w' \<longrightarrow>
          (let m' = snd (Process_msg R h menv (requeued (UnixMilli (ce_now env)) p) lease m) in mw_db m' = co_mdb w \<and> mw_sent m' = mw_sent m))"
proof -
  note q = redis.requeue_task [OF assms(1-6)]
  let ?s = "snd (RequeueDead R payload_json (ce_queue env) IoOk (UnixMilli (ce_now env)) raw (co_redis w))"
  have u: "payload_unmarshal raw = Some p" using assms(2,3) json.unmarshal_marshal [of p] by (simp add: payload_json_def)
  have "raw \<noteq> []" using assms(3) marshal_nonempty by simp
  then have h: "handleRequeueDead R env (Some raw) w = (Inr True, w\<lparr>co_redis := ?s, co_db := MarkEventQueued (ce_now env) (p_EventID p) (co_db w)\<rparr>)"
    using q(1) u assms(7,8) by (simp add: handleRequeueDead_def Let_def prod.case_eq_if)
  have "map_option ev_status (find_event (p_EventID p) (MarkEventQueued (ce_now env) (p_EventID p) (co_db w))) = Some ''queued''"
    if "find_event (p_EventID p) (co_db w) = Some e" for e
    using that by (auto simp: mark_defs find_upd_event dest: find_event_id)
  moreover have "mw_db (snd (Process_msg R k menv (requeued (UnixMilli (ce_now env)) p) lease m)) = co_mdb w \<and>
      mw_sent (snd (Process_msg R k menv (requeued (UnixMilli (ce_now env)) p) lease m)) = mw_sent m"
    if "deliveryID p = Some did" "GetMessageDeliveryForSend did (co_mdb w) = Some row" "dl_status (sr_delivery row) = ''dead''"
      "g_load menv = IoOk" "mw_db m = co_mdb w" for did row k menv lease m
    using dead_delivery_dropped [of p did menv m row] that by simp
  ultimately show ?thesis using h q(2)
    by (intro exI [of _ "w\<lparr>co_redis := ?s, co_db := MarkEventQueued (ce_now env) (p_EventID p) (co_db w)\<rparr>"]) (simp add: Let_def)
qed

definition console0 :: "mem conworld" where
  "console0 = \<lparr>co_redis = snd (DeadLetter mem_redis NewClient IoOk mraw0 (mw_redis mw0)), co_db = db0,
     co_mdb = mdb0\<lparr>t_deliveries := [del0\<lparr>dl_status := ''dead''\<rparr>]\<rparr>,
     co_idb = \<lparr>t_orgs = [], t_users = [], t_members = [], t_keys = [], t_links = [], t_invites = [], t_audit = [], t_rollups = []\<rparr>\<rparr>"

definition cenv0 :: cenv where
  "cenv0 = \<lparr>ce_out = (\<lambda>_. IoOk), ce_len = (\<lambda>_. IoOk), ce_now = 0, ce_queue = NewClient\<rparr>"

theorem requeue_dead_console_witness:
  "\<exists>w'. handleRequeueDead mem_redis cenv0 (Some (marshal payload_json task0)) console0 = (Inr True, w') \<and>
     mw_sent (snd (Process_msg mem_redis mh0 (menv0 200) (requeued (UnixMilli 0) task0) mraw0
       \<lparr>mw_db = co_mdb w', mw_redis = co_redis w', mw_sent = []\<rparr>)) = []"
proof -
  let ?m = "\<lambda>w' :: mem conworld. \<lparr>mw_db = co_mdb w', mw_redis = co_redis w', mw_sent = []\<rparr>"
  have ok: "payload_ok task0" by (simp add: payload_ok_def task0_def message_task_def wit_uuids int_ok_def ascii_def)
  have "stripToken mraw0 = marshal payload_json task0" unfolding mraw0_def by (rule stripToken_member) (simp add: leaseSep_def)
  then have d: "marshal payload_json task0 \<in> set (deadq (dq_of mem_redis (prefix (ce_queue cenv0)) (co_redis console0)))"
    using mem.exec_refines [of NewClient payload_json "OpDead IoOk mraw0" "mw_redis mw0"] by (simp add: console0_def cenv0_def last_n_def)
  have r: "GetMessageDeliveryForSend uuid_Nil (co_mdb console0) = Some (srow0\<lparr>sr_delivery := del0\<lparr>dl_status := ''dead''\<rparr>\<rparr>)"
    by (simp add: console0_def GetMessageDeliveryForSend_def find_delivery_def find_message_def find_endpoint_def find_app_def mdb0_def
      del0_def msg0_def ep0_def app0_def srow0_def)
  have e: "0 \<le> UnixMilli (ce_now cenv0)" "UnixMilli (ce_now cenv0) < 2 ^ 63" "ce_out cenv0 ''requeue'' = IoOk" "ce_out cenv0 ''mark'' = IoOk"
    and n: "ce_now cenv0 = 0" by (simp_all add: cenv0_def UnixMilli_def)
  from requeue_dead_console [OF mem.redis_axioms ok refl d e, unfolded n Let_def] obtain w' where
    h: "handleRequeueDead mem_redis cenv0 (Some (marshal payload_json task0)) console0 = (Inr True, w')" and
    p: "\<And>did row h menv lease m. deliveryID task0 = Some did \<and> GetMessageDeliveryForSend did (co_mdb console0) = Some row \<and>
        dl_status (sr_delivery row) = ''dead'' \<and> g_load menv = IoOk \<and> mw_db m = co_mdb w' \<Longrightarrow>
          mw_sent (snd (Process_msg mem_redis h menv (requeued (UnixMilli 0) task0) lease m)) = mw_sent m"
    by blast
  have "mw_sent (snd (Process_msg mem_redis mh0 (menv0 200) (requeued (UnixMilli 0) task0) mraw0 (?m w'))) = mw_sent (?m w')"

    using task0_delivery r by (intro p [of uuid_Nil "srow0\<lparr>sr_delivery := del0\<lparr>dl_status := ''dead''\<rparr>\<rparr>"]) (simp add: menv0_sel)
  with h show ?thesis by auto
qed

end
