(* ===== verification/Client.thy ===== *)
theory Client
  imports Tunnel Bookmarks
begin

text \<open>
  The command line client, src/cmd/dstream/cli.go: the other end of the tunnel, and the commands that replay fixtures and
  scenarios to a local URL. What the local server and the API answer, the URL library and whether the context has ended are
  arguments; printing is left out. A request carries its method beside it.
\<close>

section \<open>Arguments\<close>

definition isUUID :: "string \<Rightarrow> bool" where
  "isUUID s \<longleftrightarrow> length s = 36 \<and> s ! 8 = CHR ''-'' \<and> s ! 13 = CHR ''-'' \<and> s ! 18 = CHR ''-'' \<and> s ! 23 = CHR ''-''"

definition TrimRightSlash :: "string \<Rightarrow> string" where
  "TrimRightSlash s = rev (dropWhile (\<lambda>c. c = CHR ''/'') (rev s))"

text \<open>The key and the address of the API, from the environment and the flag; the slashes at the end are dropped.\<close>

definition cliAuth :: "string \<Rightarrow> string \<Rightarrow> string \<Rightarrow> (string \<times> string) option" where
  "cliAuth keyEnv urlEnv baseFlag =
     (if keyEnv = [] then None
      else (let base = (if baseFlag \<noteq> [] then baseFlag else if urlEnv \<noteq> [] then urlEnv else ''http://localhost:8080'')
            in Some (keyEnv, TrimRightSlash base)))"

text \<open>
  What the API answers to a GET or POST: nothing when the call fails, else the status and the first JSON value of the body,
  if it parses. The key is in a header of each call and is an argument of \<open>api\<close>.
\<close>

type_synonym api_resp = "(int \<times> jval option) option"

definition cliGetJSON :: "(string \<Rightarrow> string \<Rightarrow> api_resp) \<Rightarrow> string \<Rightarrow> string \<Rightarrow> (jval \<Rightarrow> 'a option) \<Rightarrow> 'a option" where
  "cliGetJSON api url apiKey dec =
     (case api url apiKey of Some (st, Some v) \<Rightarrow> if st \<noteq> 200 then None else dec v | _ \<Rightarrow> None)"

definition cliPostJSON :: "api_resp \<Rightarrow> (jval \<Rightarrow> 'a option) \<Rightarrow> 'a option" where
  "cliPostJSON resp dec = (case resp of Some (st, Some v) \<Rightarrow> if st < 200 \<or> 300 \<le> st then None else dec v | _ \<Rightarrow> None)"

text \<open>The identifiers and names of the objects of an array.\<close>

definition named :: "jval \<Rightarrow> (string \<times> string) option" where
  "named v = (case v of JObj ms \<Rightarrow> do { i \<leftarrow> get_str ms ''id''; n \<leftarrow> get_str ms ''name''; Some (i, n) }
                | JNull \<Rightarrow> Some ([], []) | _ \<Rightarrow> None)"

fun named_all :: "jval list \<Rightarrow> (string \<times> string) list option" where
  "named_all [] = Some []"
| "named_all (v # vs) = do { x \<leftarrow> named v; xs \<leftarrow> named_all vs; Some (x # xs) }"

definition named_list :: "jval \<Rightarrow> (string \<times> string) list option" where
  "named_list v = (case v of JArr vs \<Rightarrow> named_all vs | JNull \<Rightarrow> Some [] | _ \<Rightarrow> None)"

text \<open>An identifier stands for itself; a name is looked up in the list that the API answers with.\<close>

definition resolve :: "string \<Rightarrow> (string \<Rightarrow> string \<Rightarrow> api_resp) \<Rightarrow> string \<Rightarrow> string \<Rightarrow> string \<Rightarrow> string option" where
  "resolve path api base apiKey ref =
     (if isUUID ref then Some ref
      else case cliGetJSON api (base @ path) apiKey named_list of None \<Rightarrow> None
         | Some xs \<Rightarrow> map_option fst (find (\<lambda>(_, name). name = ref) xs))"

definition resolveSource_cli :: "(string \<Rightarrow> string \<Rightarrow> api_resp) \<Rightarrow> string \<Rightarrow> string \<Rightarrow> string \<Rightarrow> string option" where
  "resolveSource_cli = resolve ''/api/cli/sources''"

definition resolveFixtureID :: "(string \<Rightarrow> string \<Rightarrow> api_resp) \<Rightarrow> string \<Rightarrow> string \<Rightarrow> string \<Rightarrow> string option" where
  "resolveFixtureID = resolve ''/api/bookmarks''"

definition resolveScenarioID :: "(string \<Rightarrow> string \<Rightarrow> api_resp) \<Rightarrow> string \<Rightarrow> string \<Rightarrow> string \<Rightarrow> string option" where
  "resolveScenarioID = resolve ''/api/scenarios''"

definition truncateStr :: "string \<Rightarrow> nat \<Rightarrow> string" where
  "truncateStr s n = (if length s > n then take n s @ [CHR 0xE2, CHR 0x80, CHR 0xA6] else s)"

section \<open>The tunnel\<close>

record tunnelEvent =
  te_Type :: string
  te_SourceID :: string
  te_EventID :: string
  te_Method :: string
  te_Path :: string
  te_Headers :: headers
  te_Body :: bytes

text \<open>Decoding a frame; one that does not decode ends the connection.\<close>

definition tunnelEvent_of :: "cli_frame \<Rightarrow> tunnelEvent option" where
  "tunnelEvent_of ms =
     (case (get_str ms ''type'', get_str ms ''source_id'', get_str ms ''event_id'', get_str ms ''method'', get_str ms ''path'', get_bytes ms ''body'') of
        (Some t, Some src, Some i, Some m, Some p, Some b) \<Rightarrow>
          (case get_headers ms of
             None \<Rightarrow> None
           | Some hs \<Rightarrow> Some \<lparr>te_Type = t, te_SourceID = src, te_EventID = i, te_Method = m, te_Path = p, te_Headers = hs, te_Body = b\<rparr>)
      | _ \<Rightarrow> None)"

record tunnelResponse =
  tr_EventID :: string
  tr_Status :: int
  tr_Headers :: "headers option"
  tr_Body :: "bytes option"
  tr_Error :: string

definition response_frame :: "tunnelResponse \<Rightarrow> cli_frame" where
  "response_frame r =
     [(''type'', JStr ''response''), (''event_id'', JStr (tr_EventID r)), (''status'', JNum (tr_Status r)),
      (''headers'', case tr_Headers r of None \<Rightarrow> JNull | Some hs \<Rightarrow> JObj (map (\<lambda>(k, vs). (k, JArr (map JStr vs))) hs)),
      (''body'', case tr_Body r of None \<Rightarrow> JNull | Some b \<Rightarrow> JStr (b64_encode std_alphabet True b))] @
     (if tr_Error r = [] then [] else [(''error'', JStr (tr_Error r))])"

text \<open>
  The URL library, with what these functions use of a URL: parsing, printing, and a query with a parameter set.
  Printing a URL after \<open>RawPath\<close> is cleared escapes its path.
\<close>

record url_parts =
  up_Scheme :: string
  up_Host :: string
  up_Path :: string
  up_RawQuery :: string

record url_lib =
  ul_Parse :: "string \<Rightarrow> url_parts option"
  ul_String :: "url_parts \<Rightarrow> string"
  ul_Set :: "string \<Rightarrow> string \<Rightarrow> string \<Rightarrow> string"

definition buildWSURL :: "url_lib \<Rightarrow> string \<Rightarrow> string \<Rightarrow> string option" where
  "buildWSURL ul base sourceID =
     (case ul_Parse ul base of None \<Rightarrow> None
      | Some u \<Rightarrow> Some (ul_String ul
          (u\<lparr>up_Scheme := (if up_Scheme u = ''http'' then ''ws'' else if up_Scheme u = ''https'' then ''wss'' else up_Scheme u),
             up_Path := TrimRightSlash (up_Path u) @ ''/api/cli/connect'',
             up_RawQuery := ul_Set ul (up_RawQuery u) ''source_id'' sourceID\<rparr>)))"

text \<open>The address that \<open>listen\<close> connects to, before it runs the tunnel.\<close>

definition listenCmd :: "url_lib \<Rightarrow> (string \<Rightarrow> string \<Rightarrow> api_resp) \<Rightarrow> (string \<times> string) option \<Rightarrow> string \<Rightarrow> string option" where
  "listenCmd ul api auth source =
     do { (apiKey, base) \<leftarrow> auth;
          src \<leftarrow> resolveSource_cli api base apiKey source;
          buildWSURL ul base src }"

definition joinForwardURL :: "url_lib \<Rightarrow> string \<Rightarrow> string \<Rightarrow> string" where
  "joinForwardURL ul url path =
     (if path = [] then url
      else case (ul_Parse ul url, ul_Parse ul path) of
             (Some u, Some p) \<Rightarrow> ul_String ul
               (u\<lparr>up_Path := TrimRightSlash (up_Path u) @ up_Path p,
                  up_RawQuery := (if up_RawQuery p \<noteq> [] then up_RawQuery p else up_RawQuery u)\<rparr>)
           | _ \<Rightarrow> url)"

definition maxForwardBody :: nat where "maxForwardBody = 2 ^ 20"

text \<open>
  One event: the request to the local server, if it can be built, and the frame that answers. \<open>mk\<close>: the error of building
  a request, if any; \<open>send\<close>: what the local server answers, or the error.
\<close>

definition forward ::
  "url_lib \<Rightarrow> (string \<Rightarrow> string \<Rightarrow> string option) \<Rightarrow> (string \<Rightarrow> http_req \<Rightarrow> string + http_resp) \<Rightarrow>
   string \<Rightarrow> tunnelEvent \<Rightarrow> (string \<times> http_req) option \<times> cli_frame" where
  "forward ul mk send url ev =
     (let resp = \<lparr>tr_EventID = te_EventID ev, tr_Status = 0, tr_Headers = None, tr_Body = None, tr_Error = []\<rparr>;
          target = joinForwardURL ul url (te_Path ev)
      in case mk (te_Method ev) target of
           Some e \<Rightarrow> (None, response_frame (resp\<lparr>tr_Error := e\<rparr>))
         | None \<Rightarrow>
             (let req = \<lparr>hr_url = target, hr_headers = fold (\<lambda>(k, vs) h. fold (\<lambda>v h. Add h k v) vs h) (te_Headers ev) [], hr_body = te_Body ev\<rparr>
              in case send (te_Method ev) req of
                   Inl e \<Rightarrow> (Some (te_Method ev, req), response_frame (resp\<lparr>tr_Error := e\<rparr>))
                 | Inr r \<Rightarrow> (Some (te_Method ev, req),
                     response_frame (resp\<lparr>tr_Status := rs_status r, tr_Headers := Some (rs_headers r), tr_Body := Some (take maxForwardBody (rs_body r))\<rparr>))))"

text \<open>
  The loop over the frames of one connection: for each event the request and the answer, until a frame does not decode. Each
  event has a goroutine of its own, so that the answers may be written in another order than this list has them.
\<close>

fun runTunnel ::
  "(tunnelEvent \<Rightarrow> (string \<times> http_req) option \<times> cli_frame) \<Rightarrow> cli_frame list \<Rightarrow> ((string \<times> http_req) option \<times> cli_frame) list" where
  "runTunnel fwd [] = []"
| "runTunnel fwd (ms # frames) =
     (case tunnelEvent_of ms of
        None \<Rightarrow> []
      | Some ev \<Rightarrow> (if te_Type ev = ''event'' then [fwd ev] else []) @ runTunnel fwd frames)"

text \<open>
  Reconnecting: the pauses between the attempts, given how long each connection lasted, until the context ends.
\<close>

fun runTunnelReconnect :: "int \<Rightarrow> int list \<Rightarrow> int list" where
  "runTunnelReconnect backoff [] = []"
| "runTunnelReconnect backoff (lasted # rest) =
     (let b = (if lasted > 10 * second then second else backoff)
      in b # runTunnelReconnect (if 2 * b > 30 * second then 30 * second else 2 * b) rest)"

section \<open>Fixtures and scenarios\<close>

definition cliSkipHeader :: "string \<Rightarrow> string list \<Rightarrow> bool" where
  "cliSkipHeader key vals \<longleftrightarrow>
     CanonicalHeaderKey key \<in> {''Host'', ''Content-Length'', ''Content-Type'', ''Dstream-Webhook-Hops'', ''Connection'', ''Keep-Alive'',
       ''Proxy-Authenticate'', ''Proxy-Authorization'', ''Te'', ''Trailer'', ''Transfer-Encoding'', ''Upgrade'', ''X-Forwarded-For'',
       ''X-Forwarded-Proto'', ''X-Forwarded-Host'', ''X-Real-Ip''} \<or> ''[redacted]'' \<in> set vals"

definition exportRequest :: "exportJSON \<Rightarrow> string \<Rightarrow> (string \<times> http_req) option" where
  "exportRequest ex target =
     (case b64_decode std_alphabet True (ex_body_base64 ex) of None \<Rightarrow> None | Some b \<Rightarrow>
      let h = fold (\<lambda>(k, vs) h. if cliSkipHeader k vs then h else fold (\<lambda>v h. Add h k v) vs h) (ex_headers ex) []
      in Some (if ex_method ex = [] then ''POST'' else ex_method ex,
               \<lparr>hr_url = target, hr_headers = (if ex_content_type ex = [] then h else Set h ''Content-Type'' (ex_content_type ex)), hr_body = b\<rparr>))"

definition forwardExport ::
  "(string \<Rightarrow> string \<Rightarrow> bool) \<Rightarrow> (string \<Rightarrow> http_req \<Rightarrow> http_resp option) \<Rightarrow> exportJSON \<Rightarrow> string \<Rightarrow> (int \<times> bytes) option \<times> (string \<times> http_req) list" where
  "forwardExport mk send ex target =
     (case exportRequest ex target of None \<Rightarrow> (None, []) | Some (m, req) \<Rightarrow>
      if \<not> mk m target then (None, [])
      else (map_option (\<lambda>r. (rs_status r, take (2 ^ 16) (rs_body r))) (send m req), [(m, req)]))"

text \<open>The exported fixture, decoded.\<close>

definition cliExport_of :: "jval \<Rightarrow> exportJSON option" where
  "cliExport_of v =
     (case v of
        JObj ms \<Rightarrow> do { m \<leftarrow> get_str ms ''method''; p \<leftarrow> get_str ms ''path''; hs \<leftarrow> get_headers ms;
                      ct \<leftarrow> get_str ms ''content_type''; b \<leftarrow> get_str ms ''body_base64'';
                      Some \<lparr>ex_method = m, ex_path = p, ex_headers = hs, ex_content_type = ct, ex_body_base64 = b\<rparr> }
      | JNull \<Rightarrow> Some \<lparr>ex_method = [], ex_path = [], ex_headers = [], ex_content_type = [], ex_body_base64 = []\<rparr>
      | _ \<Rightarrow> None)"

text \<open>
  \<open>replay\<close>: a failed send is reported and the next one tried. The results of the sends and the requests, or nothing when
  an earlier call fails. \<open>count\<close> may be negative.
\<close>

type_synonym sent = "(string \<times> http_req) list"

fun replayLoop ::
  "(string \<Rightarrow> string \<Rightarrow> bool) \<Rightarrow> (nat \<Rightarrow> string \<Rightarrow> http_req \<Rightarrow> http_resp option) \<Rightarrow> exportJSON \<Rightarrow> string \<Rightarrow> nat \<Rightarrow>
   (int \<times> bytes) option list \<times> sent" where
  "replayLoop mk send ex target 0 = ([], [])"
| "replayLoop mk send ex target (Suc n) =
     (let (rs, sent) = replayLoop mk send ex target n; (r, s) = forwardExport mk (send n) ex target in (rs @ [r], sent @ s))"

definition replayCmd ::
  "(string \<Rightarrow> string \<Rightarrow> bool) \<Rightarrow> (nat \<Rightarrow> string \<Rightarrow> http_req \<Rightarrow> http_resp option) \<Rightarrow> (string \<Rightarrow> string \<Rightarrow> api_resp) \<Rightarrow>
   (string \<times> string) option \<Rightarrow> string \<Rightarrow> int \<Rightarrow> string \<Rightarrow> ((int \<times> bytes) option list \<times> sent) option" where
  "replayCmd mk send api auth target count ref =
     do { (apiKey, base) \<leftarrow> auth;
          i \<leftarrow> resolveFixtureID api base apiKey ref;
          ex \<leftarrow> cliGetJSON api (base @ ''/api/bookmarks/'' @ i @ ''/export'') apiKey cliExport_of;
          Some (replayLoop mk send ex target (nat count)) }"

text \<open>
  \<open>scenario run\<close>: the first fixture that cannot be fetched or sent ends it. The result: whether it ran to the end, the
  milliseconds slept, and the requests. \<open>fetch\<close> fetches a fixture.
\<close>

record cliScenarioStep =
  ss_BookmarkID :: string
  ss_DelayMs :: int

fun scenarioRun ::
  "(string \<Rightarrow> string \<Rightarrow> bool) \<Rightarrow> (nat \<Rightarrow> string \<Rightarrow> http_req \<Rightarrow> http_resp option) \<Rightarrow> (string \<Rightarrow> exportJSON option) \<Rightarrow> string \<Rightarrow> nat \<Rightarrow>
   cliScenarioStep list \<Rightarrow> bool \<times> int \<times> sent" where
  "scenarioRun mk send fetch target k [] = (True, 0, [])"
| "scenarioRun mk send fetch target k (st # steps) =
     (let delay = (if ss_DelayMs st > 0 then ss_DelayMs st else 0)
      in case fetch (ss_BookmarkID st) of None \<Rightarrow> (False, delay, [])
         | Some ex \<Rightarrow>
             (case forwardExport mk (send k) ex target of
                (None, s) \<Rightarrow> (False, delay, s)
              | (Some _, s) \<Rightarrow> (let (ok, d, s') = scenarioRun mk send fetch target (Suc k) steps in (ok, delay + d, s @ s'))))"

fun scenarioSteps :: "jval list \<Rightarrow> cliScenarioStep list option" where
  "scenarioSteps [] = Some []"
| "scenarioSteps (JObj ms # vs) =
     do { b \<leftarrow> get_str ms ''bookmark_id''; dl \<leftarrow> get_int 64 ms ''delay_ms''; _ \<leftarrow> get_int 64 ms ''position'';
          _ \<leftarrow> get_str ms ''bookmark_name''; xs \<leftarrow> scenarioSteps vs; Some (\<lparr>ss_BookmarkID = b, ss_DelayMs = dl\<rparr> # xs) }"
| "scenarioSteps (JNull # vs) = map_option (Cons \<lparr>ss_BookmarkID = [], ss_DelayMs = 0\<rparr>) (scenarioSteps vs)"
| "scenarioSteps (_ # vs) = None"

definition cliScenarioDetail_of :: "jval \<Rightarrow> cliScenarioStep list option" where
  "cliScenarioDetail_of v =
     (case v of JNull \<Rightarrow> Some []
      | JObj ms \<Rightarrow> (case jget ms ''steps'' of None \<Rightarrow> Some [] | Some JNull \<Rightarrow> Some [] | Some (JArr vs) \<Rightarrow> scenarioSteps vs | _ \<Rightarrow> None)
      | _ \<Rightarrow> None)"

definition scenarioRunCmd ::
  "(string \<Rightarrow> string \<Rightarrow> bool) \<Rightarrow> (nat \<Rightarrow> string \<Rightarrow> http_req \<Rightarrow> http_resp option) \<Rightarrow> (string \<Rightarrow> string \<Rightarrow> api_resp) \<Rightarrow>
   (string \<times> string) option \<Rightarrow> string \<Rightarrow> string \<Rightarrow> (bool \<times> int \<times> sent) option" where
  "scenarioRunCmd mk send api auth target ref =
     do { (apiKey, base) \<leftarrow> auth;
          i \<leftarrow> resolveScenarioID api base apiKey ref;
          steps \<leftarrow> cliGetJSON api (base @ ''/api/scenarios/'' @ i) apiKey cliScenarioDetail_of;
          Some (scenarioRun mk send (\<lambda>b. cliGetJSON api (base @ ''/api/bookmarks/'' @ b @ ''/export'') apiKey cliExport_of) target 0 steps) }"

text \<open>
  \<open>import\<close>: the request to the API, built from the file and the flags, and the identifier and the name it answers with.
  \<open>file\<close>: the content of the file, if it can be read; \<open>post\<close>: the answer of the API.
\<close>

definition importRequest :: "string \<Rightarrow> string \<Rightarrow> string \<Rightarrow> string \<Rightarrow> exportJSON \<Rightarrow> importBookmarkReq" where
  "importRequest src name desc tagsFlag ex =
     \<lparr>im_source_id = src, im_name = name, im_description = desc, im_tags = (if tagsFlag = [] then [] else split_on (CHR '','') tagsFlag),
      im_method = ex_method ex, im_path = ex_path ex, im_headers = ex_headers ex, im_content_type = ex_content_type ex,
      im_body_base64 = ex_body_base64 ex\<rparr>"

definition importCmd ::
  "(string \<Rightarrow> string \<Rightarrow> api_resp) \<Rightarrow> (importBookmarkReq \<Rightarrow> api_resp) \<Rightarrow> (string \<times> string) option \<Rightarrow> string option \<Rightarrow>
   string \<Rightarrow> string \<Rightarrow> string \<Rightarrow> string \<Rightarrow> (string \<times> string) option" where
  "importCmd api post auth file source name desc tags =
     do { (apiKey, base) \<leftarrow> auth;
          if name = [] then None
          else do { raw \<leftarrow> file;
                    v \<leftarrow> jparse raw;
                    ex \<leftarrow> cliExport_of v;
                    src \<leftarrow> resolveSource_cli api base apiKey source;
                    cliPostJSON (post (importRequest src name desc tags ex)) named } }"

end
