(* ===== verification/Client_Props.thy ===== *)
theory Client_Props
  imports Client Tunnel_Props
begin

text \<open>
  Properties of the command line client: what the tunnel carries from the event to the local server and back, that a fixture
  replayed from the command line is the request that the server's replay sends, and the pauses of the reconnection.
\<close>

section \<open>The tunnel from end to end\<close>

lemma tunnelEvent_of_frame:
  "tunnelEvent_of (event_frame i row body) =
     Some \<lparr>te_Type = ''event'', te_SourceID = [], te_EventID = i, te_Method = rq_http_method (d_req row), te_Path = rq_http_path (d_req row),
       te_Headers = unmarshalHeaders (rq_headers (d_req row)), te_Body = body\<rparr>"
proof -
  let ?ms = "event_frame i row body"
  have "get_headers ?ms = Some (unmarshalHeaders (rq_headers (d_req row)))"
    by (rule get_headers_map) (simp_all add: event_frame_def distinct_unmarshal)
  moreover have "get_bytes ?ms ''body'' = Some body" by (simp add: get_bytes_def event_frame_def b64_roundtrip [OF std_ok])
  ultimately show ?thesis by (simp add: tunnelEvent_of_def get_str_def event_frame_def)
qed

lemma response_fields:
  "frame_str (response_frame r) ''type'' = ''response''"
  "frame_str (response_frame r) ''event_id'' = tr_EventID r"
  "frame_str (response_frame r) ''error'' = tr_Error r"
  "- (2 ^ 31) \<le> tr_Status r \<Longrightarrow> tr_Status r < 2 ^ 31 \<Longrightarrow> frame_status (response_frame r) = tr_Status r"
  "get_bytes (response_frame r) ''body'' = Some (case tr_Body r of None \<Rightarrow> [] | Some b \<Rightarrow> b)"
  by (simp_all add: response_frame_def frame_str_def frame_status_def get_str_def get_int_def get_bytes_def b64_roundtrip [OF std_ok]
        split: option.split)


text \<open>URLs that are a path and a query.\<close>

definition plain_urls :: url_lib where
  "plain_urls = \<lparr>ul_Parse = (\<lambda>s. Some \<lparr>up_Scheme = [], up_Host = [], up_Path = takeWhile (\<lambda>c. c \<noteq> CHR ''?'') s, up_RawQuery = drop 1 (dropWhile (\<lambda>c. c \<noteq> CHR ''?'') s)\<rparr>),
     ul_String = (\<lambda>u. up_Path u @ (if up_RawQuery u = [] then [] else CHR ''?'' # up_RawQuery u)), ul_Set = (\<lambda>_ _ v. v)\<rparr>"

definition hook_row :: delivery_row where
  "hook_row = tun_row\<lparr>d_req := (d_req tun_row)\<lparr>rq_http_path := ''/hook?x=1''\<rparr>\<rparr>"


section \<open>Replays\<close>

lemma cliSkipHeader_mirrors: "cliSkipHeader = skipHeader"
  by (intro ext) (simp add: cliSkipHeader_def skipHeader_def skippedHeaders_def)

text \<open>
  a fixture that the command line replays to a local URL is the request that the server's replay sends to a target: the same
  headers are left out, the content type is set in the same way and the body is the stored one, byte for byte. Only the method
  may differ: the server's replay is always a POST, the command line keeps the method of the fixture if it has one.
\<close>

theorem cli_replay_same:
  "exportRequest (export_of req) url = Some (if br_Method req = [] then ''POST'' else br_Method req, replayRequest req url)"
  by (simp add: exportRequest_def export_of_def replayRequest_def cliSkipHeader_mirrors b64_roundtrip [OF std_ok] Let_def)

text \<open>The pauses between two connections.\<close>

lemma reconnect_bounds:
  "second \<le> b \<Longrightarrow> b \<le> 30 * second \<Longrightarrow> p \<in> set (runTunnelReconnect b ls) \<Longrightarrow> second \<le> p \<and> p \<le> 30 * second"
  by (induction b ls rule: runTunnelReconnect.induct) (auto simp: Let_def second_def split: if_splits)

end
