(* ===== verification/Router.thy ===== *)
theory Router
  imports Access
begin

text \<open>
  The route table, src/internal/api/router.go and the \<open>Mount\<close> of src/internal/admin/router.go: which handler serves a method
  and path, behind which middlewares, in the order in which the router runs them. A handler is its name in the source. Which
  route the chi library picks for a request is left open: the theorems quantify over the routes of its method.
\<close>

section \<open>The table\<close>

datatype middleware = UseCSRF | UseMaxBody | UseAuthenticate | UseRequireOrg | UseAdminForDestructive | UseAdminOnly
  | UseRequirePortal | UseSuperAdminOnly

record route =
  rt_method :: string
  rt_path :: string
  rt_uses :: "middleware list"
  rt_handler :: string

definition rGet :: "string \<Rightarrow> string \<Rightarrow> route" where "rGet path h = \<lparr>rt_method = ''GET'', rt_path = path, rt_uses = [], rt_handler = h\<rparr>"
definition rPost :: "string \<Rightarrow> string \<Rightarrow> route" where "rPost path h = \<lparr>rt_method = ''POST'', rt_path = path, rt_uses = [], rt_handler = h\<rparr>"
definition rPatch :: "string \<Rightarrow> string \<Rightarrow> route" where "rPatch path h = \<lparr>rt_method = ''PATCH'', rt_path = path, rt_uses = [], rt_handler = h\<rparr>"
definition rDelete :: "string \<Rightarrow> string \<Rightarrow> route" where "rDelete path h = \<lparr>rt_method = ''DELETE'', rt_path = path, rt_uses = [], rt_handler = h\<rparr>"

text \<open>A route of its own middleware; a group of routes below a path with the middlewares that it uses.\<close>

definition adminOnly :: "route \<Rightarrow> route" where "adminOnly r = r\<lparr>rt_uses := UseAdminOnly # rt_uses r\<rparr>"

definition Route :: "string \<Rightarrow> middleware list \<Rightarrow> route list \<Rightarrow> route list" where
  "Route path uses rs = map (\<lambda>r. r\<lparr>rt_path := path @ rt_path r, rt_uses := uses @ rt_uses r\<rparr>) rs"

definition auth_routes :: "route list" where
  "auth_routes =
     Route ''/auth'' []
       [rPost ''/magic-link/request'' ''id.RequestMagicLink'', rPost ''/magic-link/verify'' ''id.VerifyMagicLink'',
        rPost ''/logout'' ''id.Logout'', rGet ''/methods'' ''id.AuthMethods'', rGet ''/sso/start'' ''id.StartSSO'',
        rGet ''/sso/callback'' ''id.CallbackSSO''] @
     [rGet ''/invites/{token}'' ''id.PeekInvite'', rPost ''/invites/{token}/accept'' ''id.AcceptInvite'']"

definition identity_routes :: "route list" where
  "identity_routes =
     [rGet ''/me'' ''id.Me'', rPatch ''/me'' ''id.PatchMe'', rGet ''/orgs'' ''id.ListMyOrgs'',
      rPost ''/orgs'' ''id.CreateOrg'', rPost ''/orgs/select'' ''id.SelectOrg''] @
     Route ''/orgs/{org_id}'' []
       [rGet ''/members'' ''id.ListMembers'', rPatch ''/members/{user_id}'' ''id.PatchMember'',
        rDelete ''/members/{user_id}'' ''id.RemoveMember'', rPatch ''/'' ''id.UpdateOrg'',
        rDelete ''/'' ''id.DeleteOrg'', rPost ''/transfer'' ''id.TransferOwnership'',
        rGet ''/invites'' ''id.ListInvites'', rPost ''/invites'' ''id.CreateInvite'',
        rDelete ''/invites/{id}'' ''id.DeleteInvite'', rGet ''/api-keys'' ''id.ListAPIKeys'',
        rPost ''/api-keys'' ''id.CreateAPIKey'', rDelete ''/api-keys/{id}'' ''id.RevokeAPIKey'',
        rGet ''/audit'' ''id.ListAuditForOrg'']"

definition application_routes :: "route list" where
  "application_routes = Route ''/applications'' []
     ([rGet ''/'' ''ob.ListApplications'', rPost ''/'' ''ob.CreateApplication'',
       rGet ''/{app_id}'' ''ob.GetApplication'', rPatch ''/{app_id}'' ''ob.PatchApplication'',
       rDelete ''/{app_id}'' ''ob.DeleteApplication'',
       adminOnly (rPost ''/{app_id}/portal-access'' ''ob.CreatePortalAccess''),
       adminOnly (rPost ''/{app_id}/portal-access/revoke'' ''ob.RevokePortalAccess'')] @
      Route ''/{app_id}/endpoints'' []
       [rGet ''/'' ''ob.ListEndpoints'', rPost ''/'' ''ob.CreateEndpoint'', rGet ''/{id}'' ''ob.GetEndpoint'',
        rPatch ''/{id}'' ''ob.PatchEndpoint'', rDelete ''/{id}'' ''ob.DeleteEndpoint'',
        adminOnly (rGet ''/{id}/secret'' ''ob.GetEndpointSecret''),
        adminOnly (rPost ''/{id}/rotate-secret'' ''ob.RotateEndpointSecret''),
        rPost ''/{id}/recover'' ''ob.RecoverEndpoint'', rPost ''/{id}/test'' ''ob.TestEndpoint'',
        rGet ''/{id}/attempts'' ''ob.ListEndpointAttempts''] @
      Route ''/{app_id}/messages'' []
       [rGet ''/'' ''ob.ListMessages'', adminOnly (rPost ''/'' ''ob.CreateMessage''), rGet ''/{id}'' ''ob.GetMessage'',
        rGet ''/{id}/attempts'' ''ob.ListMessageAttempts'', rGet ''/{id}/deliveries'' ''ob.ListMessageDeliveries'',
        rPost ''/{id}/endpoints/{endpoint_id}/replay'' ''ob.ReplayDelivery''])"

definition traffic_routes :: "route list" where
  "traffic_routes =
     [rGet ''/audit'' ''id.ListAudit'', rGet ''/usage'' ''id.GetUsage'',
      rGet ''/usage/history'' ''id.GetUsageHistory'', rPost ''/filter-preview'' ''pipeline.FilterPreview'',
      rPost ''/transform-preview'' ''pipeline.TransformPreview''] @
     Route ''/sources'' []
       [rGet ''/'' ''pl.ListSources'', rPost ''/'' ''pl.CreateSource'', rGet ''/{id}'' ''pl.GetSource'',
        rGet ''/{id}/metrics'' ''pl.SourceMetrics'', rPatch ''/{id}'' ''pl.PatchSource'',
        rDelete ''/{id}'' ''pl.DeleteSource''] @
     Route ''/destinations'' []
       [rGet ''/'' ''pl.ListDestinations'', rPost ''/'' ''pl.CreateDestination'', rGet ''/{id}'' ''pl.GetDestination'',
        rGet ''/{id}/metrics'' ''pl.DestinationMetrics'', rPatch ''/{id}'' ''pl.PatchDestination'',
        rDelete ''/{id}'' ''pl.DeleteDestination''] @
     Route ''/connections'' []
       [rGet ''/stats'' ''pl.AllConnectionStats'', rGet ''/'' ''pl.ListConnections'',
        rPost ''/'' ''pl.CreateConnection'', rGet ''/{id}'' ''pl.GetConnection'',
        rGet ''/{id}/stats'' ''pl.ConnectionStats'', rPost ''/{id}/test'' ''pl.TestConnection'',
        rPatch ''/{id}'' ''pl.PatchConnection'', rDelete ''/{id}'' ''pl.DeleteConnection''] @
     Route ''/events'' []
       [rGet ''/'' ''pl.ListEvents'', rGet ''/histogram'' ''pl.EventsHistogram'', rGet ''/{id}'' ''pl.GetEvent'',
        rPost ''/{id}/retry'' ''pl.RetryEvent''] @
     Route ''/bookmarks'' []
       [rGet ''/'' ''pl.ListBookmarks'', rPost ''/'' ''pl.CreateBookmark'', rPost ''/import'' ''pl.ImportBookmark'',
        rGet ''/{id}'' ''pl.GetBookmark'', rPatch ''/{id}'' ''pl.PatchBookmark'',
        rDelete ''/{id}'' ''pl.DeleteBookmark'', rPost ''/{id}/replay'' ''pl.ReplayBookmark'',
        rPost ''/{id}/replay-to'' ''pl.ReplayBookmarkTo'', rGet ''/{id}/export'' ''pl.ExportBookmark''] @
     Route ''/capture-rules'' []
       [rGet ''/'' ''pl.ListCaptureRules'', rPost ''/'' ''pl.CreateCaptureRule'', rGet ''/{id}'' ''pl.GetCaptureRule'',
        rPatch ''/{id}'' ''pl.PatchCaptureRule'', rDelete ''/{id}'' ''pl.DeleteCaptureRule''] @
     Route ''/scenarios'' []
       [rGet ''/'' ''pl.ListScenarios'', rPost ''/'' ''pl.CreateScenario'', rGet ''/{id}'' ''pl.GetScenario'',
        rPatch ''/{id}'' ''pl.PatchScenario'', rDelete ''/{id}'' ''pl.DeleteScenario'',
        rPost ''/{id}/replay-to'' ''pl.ReplayScenarioTo''] @
     [rGet ''/operational-app'' ''ob.GetOperationalApp''] @ application_routes @
     Route ''/event-types'' []
       [rGet ''/'' ''ob.ListEventTypes'', rPost ''/'' ''ob.CreateEventType'', rGet ''/{name}'' ''ob.GetEventType'',
        rPatch ''/{name}'' ''ob.PatchEventType'', rDelete ''/{name}'' ''ob.DeleteEventType''] @
     [rGet ''/cli/sources'' ''cli.ListSources'', rGet ''/cli/connect'' ''cli.Connect'']"

definition portal_routes :: "route list" where
  "portal_routes =
     [rGet ''/app'' ''ob.GetApplication'', rPost ''/filter-preview'' ''pipeline.FilterPreview'',
      rPost ''/transform-preview'' ''pipeline.TransformPreview''] @
     Route ''/endpoints'' []
       [rGet ''/'' ''ob.ListEndpoints'', rPost ''/'' ''ob.CreateEndpoint'', rGet ''/{id}'' ''ob.GetEndpoint'',
        rPatch ''/{id}'' ''ob.PatchEndpoint'', rDelete ''/{id}'' ''ob.DeleteEndpoint'',
        rGet ''/{id}/secret'' ''ob.GetEndpointSecret'', rPost ''/{id}/rotate-secret'' ''ob.RotateEndpointSecret'',
        rPost ''/{id}/recover'' ''ob.RecoverEndpoint'', rPost ''/{id}/test'' ''ob.TestEndpoint'',
        rGet ''/{id}/attempts'' ''ob.ListEndpointAttempts''] @
     Route ''/messages'' []
       [rGet ''/'' ''ob.ListMessages'', rGet ''/{id}'' ''ob.GetMessage'',
        rGet ''/{id}/attempts'' ''ob.ListMessageAttempts'', rGet ''/{id}/deliveries'' ''ob.ListMessageDeliveries'',
        rPost ''/{id}/endpoints/{endpoint_id}/replay'' ''ob.ReplayDelivery''] @
     [rGet ''/event-types'' ''ob.ListEventTypes'']"

definition api_routes :: "route list" where
  "api_routes = Route ''/api'' [UseCSRF, UseMaxBody]
     (auth_routes @
      Route [] [UseAuthenticate] (identity_routes @ Route [] [UseRequireOrg, UseAdminForDestructive] traffic_routes) @
      Route ''/portal'' [UseRequirePortal] portal_routes)"

definition admin_routes :: "route list" where
  "admin_routes = Route ''/admin'' [UseSuperAdminOnly]
     [rGet ''/queues'' ''handleQueues'', rGet ''/queues/items'' ''handleQueueItems'', rGet ''/queues/orgs'' ''handleQueueOrgs'',
      rPost ''/queues/dead/requeue'' ''handleRequeueDead'', rPost ''/queues/scheduled/promote'' ''handlePromoteScheduled'',
      rPost ''/queues/dead/drain'' ''handleDrainDead'', rGet ''/usage'' ''handleUsage'', rGet ''/plans'' ''handleListPlans'',
      rPatch ''/orgs/{org_id}/plan'' ''handlePatchOrgPlan'', rGet ''/overview'' ''handleOverview'', rGet ''/orgs'' ''handleListOrgs'',
      rGet ''/destinations/hot'' ''handleHotDestinations'', rGet ''/system'' ''handleSystem'']"

section \<open>Serving a request\<close>

definition maxAPIBodyBytes :: nat where "maxAPIBodyBytes = 16 * 2 ^ 20"

text \<open>Reading a body beyond the limit fails.\<close>

definition maxBodyBytes :: "nat \<Rightarrow> bytes option \<Rightarrow> bytes option" where
  "maxBodyBytes n body = (case body of Some b \<Rightarrow> if length b \<le> n then Some b else None | None \<Rightarrow> None)"

record hreq =
  hq_method :: string
  hq_creds :: creds
  hq_csrf :: "string option"
  hq_token :: string
  hq_body :: bytes

text \<open>What the middlewares hand to the handler: the principal, the application of a portal token, and the body, if it can be read.\<close>

record rctx =
  rc_principal :: "Principal option"
  rc_app :: "string option"
  rc_body :: "bytes option"

definition csrf_of :: "hreq \<Rightarrow> csrf_req" where
  "csrf_of q = \<lparr>cq_Method = hq_method q, cq_Authorization = cr_authorization (hq_creds q), cq_session = cr_cookie (hq_creds q),
     cq_csrf = hq_csrf q, cq_header = hq_token q\<rparr>"

definition pass :: "int option \<Rightarrow> rctx \<Rightarrow> int + rctx" where
  "pass st ctx = (case st of Some s \<Rightarrow> Inl s | None \<Rightarrow> Inr ctx)"

fun use :: "aenv \<Rightarrow> bytes option \<Rightarrow> mdb \<Rightarrow> hreq \<Rightarrow> middleware \<Rightarrow> rctx \<Rightarrow> idb \<Rightarrow> (int + rctx) \<times> idb" where
  "use env rnd md q UseCSRF ctx d = (pass (fst (CSRF (ae_hmac env) (ae_secret env) rnd (csrf_of q))) ctx, d)"
| "use env rnd md q UseMaxBody ctx d = (Inr (ctx\<lparr>rc_body := maxBodyBytes maxAPIBodyBytes (rc_body ctx)\<rparr>), d)"
| "use env rnd md q UseAuthenticate ctx d =
     (case Authenticate env (hq_creds q) d of
        (Inl st, d) \<Rightarrow> (Inl st, d)
      | (Inr p, d) \<Rightarrow> (Inr (ctx\<lparr>rc_principal := Some p\<rparr>), d))"
| "use env rnd md q UseRequireOrg ctx d =
     (case RequireOrg env (rc_principal ctx) d of Inl st \<Rightarrow> (Inl st, d) | Inr p \<Rightarrow> (Inr (ctx\<lparr>rc_principal := Some p\<rparr>), d))"
| "use env rnd md q UseAdminForDestructive ctx d = (pass (AdminForDestructive (hq_method q) (rc_principal ctx)) ctx, d)"
| "use env rnd md q UseAdminOnly ctx d = (pass (RequireRole RoleAdmin (rc_principal ctx)) ctx, d)"
| "use env rnd md q UseRequirePortal ctx d =
     (case RequirePortal env (hq_creds q) md of
        Inl st \<Rightarrow> (Inl st, d)
      | Inr (p, app) \<Rightarrow> (Inr (ctx\<lparr>rc_principal := Some p, rc_app := Some app\<rparr>), d))"
| "use env rnd md q UseSuperAdminOnly ctx d =
     (case SuperAdminOnly env (hq_creds q) d of Inl st \<Rightarrow> (Inl st, d) | Inr p \<Rightarrow> (Inr (ctx\<lparr>rc_principal := Some p\<rparr>), d))"

fun chain :: "aenv \<Rightarrow> bytes option \<Rightarrow> mdb \<Rightarrow> hreq \<Rightarrow> middleware list \<Rightarrow> rctx \<Rightarrow> idb \<Rightarrow> (int + rctx) \<times> idb" where
  "chain env rnd md q [] ctx d = (Inr ctx, d)"
| "chain env rnd md q (m # ms) ctx d =
     (case use env rnd md q m ctx d of (Inl st, d) \<Rightarrow> (Inl st, d) | (Inr ctx, d) \<Rightarrow> chain env rnd md q ms ctx d)"

text \<open>The answer of a middleware that refuses the request, or what the handler of the route is called with.\<close>

definition serve :: "aenv \<Rightarrow> bytes option \<Rightarrow> mdb \<Rightarrow> hreq \<Rightarrow> route \<Rightarrow> idb \<Rightarrow> (int + rctx) \<times> idb" where
  "serve env rnd md q r d = chain env rnd md q (rt_uses r) \<lparr>rc_principal = None, rc_app = None, rc_body = Some (hq_body q)\<rparr> d"

end
