(* ===== verification/Router_Props.thy ===== *)
theory Router_Props
  imports Router Access_Props Store_Inv
begin

text \<open>
  Properties of the route table: what a request has to show before a handler of the API or of the console sees it, whatever
  route of its method the router picks.
\<close>

section \<open>Which middlewares a route has\<close>

definition publicPath :: "string \<Rightarrow> bool" where
  "publicPath path \<longleftrightarrow> has_prefix path ''/api/auth/'' \<or> has_prefix path ''/api/invites/''"

definition portalPath :: "string \<Rightarrow> bool" where
  "portalPath path \<longleftrightarrow> has_prefix path ''/api/portal/''"

definition identityPath :: "string \<Rightarrow> bool" where
  "identityPath path \<longleftrightarrow> path = ''/api/me'' \<or> has_prefix path ''/api/orgs''"

text \<open>Reading and rotating signing secrets, publishing, and giving access to the portal.\<close>

definition privileged :: "string list" where
  "privileged = [''ob.GetEndpointSecret'', ''ob.RotateEndpointSecret'', ''ob.CreateMessage'', ''ob.CreatePortalAccess'', ''ob.RevokePortalAccess'']"

definition expected :: "route \<Rightarrow> middleware list" where
  "expected r = [UseCSRF, UseMaxBody] @
     (if publicPath (rt_path r) then []
      else if portalPath (rt_path r) then [UseRequirePortal]
      else [UseAuthenticate] @
        (if identityPath (rt_path r) then []
         else [UseRequireOrg, UseAdminForDestructive] @ (if rt_handler r \<in> set privileged then [UseAdminOnly] else [])))"

lemma api_table: "list_all (\<lambda>r. rt_uses r = expected r) api_routes"
  by code_simp

lemma api_methods: "list_all (\<lambda>r. rt_method r \<in> set [''GET'', ''POST'', ''PATCH'', ''DELETE'']) api_routes"
  by code_simp

lemma api_uses: "r \<in> set api_routes \<Longrightarrow> rt_uses r = expected r"
  using api_table by (simp add: list_all_iff)

text \<open>
  The paths of the portal have no parameter for the application, which the token fixes, and none of its routes publishes a
  message, changes the application or gives access to the portal.
\<close>

lemma portal_paths:
  "list_all (\<lambda>r. portalPath (rt_path r) \<longrightarrow> ''{app_id}'' \<notin> set (split_on (CHR ''/'') (rt_path r)) \<and>
     rt_handler r \<notin> set [''ob.CreateMessage'', ''ob.CreatePortalAccess'', ''ob.RevokePortalAccess'', ''ob.PatchApplication'', ''ob.DeleteApplication'']) api_routes"
  by code_simp

section \<open>What a served request has shown\<close>

lemma portal_not_public: "portalPath path \<Longrightarrow> \<not> publicPath path"
proof
  assume "portalPath path" "publicPath path"
  then have "path ! 5 = CHR ''p''" "path ! 5 = CHR ''a'' \<or> path ! 5 = CHR ''i''"
    unfolding portalPath_def publicPath_def has_prefix_def by (auto dest!: arg_cong [where f = "\<lambda>s. s ! 5"])
  then show False by simp
qed

lemma csrf_passed:
  assumes "fst (CSRF hmac secret rnd r) = None"
  shows "cq_Method r \<in> {''GET'', ''HEAD'', ''OPTIONS''} \<or> has_prefix (cq_Authorization r) ''Bearer '' \<or> opt_default [] (cq_session r) = [] \<or>
    validCSRFToken hmac (cq_header r) (opt_default [] (cq_session r)) secret"
  using assms by (auto simp: CSRF_def Let_def split: option.splits if_splits)

lemma passE: "pass st ctx = Inr c \<Longrightarrow> st = None \<and> c = ctx"
  by (simp add: pass_def split: option.splits)

text \<open>The middlewares that every route of the API has.\<close>

lemma outer_served:
  assumes "r \<in> set api_routes" "serve env rnd md q r d = (Inr ctx, d')"
  shows "fst (CSRF (ae_hmac env) (ae_secret env) rnd (csrf_of q)) = None \<and>
    chain env rnd md q (drop 2 (expected r)) \<lparr>rc_principal = None, rc_app = None, rc_body = maxBodyBytes maxAPIBodyBytes (Some (hq_body q))\<rparr> d = (Inr ctx, d')"
proof -
  obtain ms where ms: "expected r = UseCSRF # UseMaxBody # ms" by (simp add: expected_def)
  then show ?thesis using assms(2) api_uses [OF assms(1)]
    by (simp add: serve_def split: prod.splits sum.splits) (auto dest: passE)
qed

lemma use_body: "use env rnd md q m ctx d = (Inr ctx', d') \<Longrightarrow> m \<noteq> UseMaxBody \<Longrightarrow> rc_body ctx' = rc_body ctx"
  by (cases m) (auto dest: passE split: prod.splits sum.splits)

lemma chain_body: "chain env rnd md q ms ctx d = (Inr ctx', d') \<Longrightarrow> UseMaxBody \<notin> set ms \<Longrightarrow> rc_body ctx' = rc_body ctx"
  by (induction ms arbitrary: ctx d) (auto split: prod.splits sum.splits dest: use_body)

lemma member_org:
  assumes "RequireOrg env (Some p) d = Inr p'"
  shows "pr_OrgID p' = pr_OrgID p \<and> pr_OrgID p' \<noteq> uuid_Nil \<and>
    (pr_Source p' \<noteq> SourceAPIKey \<longrightarrow> (\<exists>m. GetOrgMember (pr_OrgID p') (pr_UserID p') d = Inr m \<and> pr_Role p' = mb_role m))"
  using assms by (auto simp: RequireOrg_def split: if_splits sum.splits)

lemma traffic_served:
  assumes "chain env rnd md q (UseAuthenticate # UseRequireOrg # UseAdminForDestructive # (if b then [UseAdminOnly] else [])) ctx d = (Inr ctx', d')"
  shows "\<exists>p0 p. Authenticate env (hq_creds q) d = (Inr p0, d') \<and> RequireOrg env (Some p0) d' = Inr p \<and> rc_principal ctx' = Some p \<and>
    rc_app ctx' = rc_app ctx \<and> (hq_method q = ''DELETE'' \<or> b \<longrightarrow> \<not> LessThan (pr_Role p) RoleAdmin)"
  using assms
  by (auto simp: AdminForDestructive_def RequireRole_def RequireMinRole_def pass_def split: prod.splits sum.splits if_splits option.splits)

text \<open>
  C18: what a request has shown when a handler of the API sees it, whichever route of its method is picked. A state-changing
  request with a session cookie and no bearer token carries a CSRF token bound to this session. A body is at most
  16 MiB. Below /api/portal a valid portal token fixes the application. Every route that is neither there nor public needs a
  session or an API key, and beyond the routes for the account and the organizations of the user also an organization, of which
  a session's user is a member; there, deleting anything and the privileged handlers need at least the admin role.
\<close>

theorem api_guarded:
  assumes "r \<in> set api_routes" "hq_method q = rt_method r" "serve env rnd md q r d = (Inr ctx, d')"
  shows "let path = rt_path r; cr = hq_creds q; session = (case cr_cookie cr of None \<Rightarrow> [] | Some v \<Rightarrow> v)
    in (rt_method r \<noteq> ''GET'' \<and> \<not> has_prefix (cr_authorization cr) ''Bearer '' \<and> session \<noteq> [] \<longrightarrow>
          validCSRFToken (ae_hmac env) (hq_token q) session (ae_secret env)) \<and>
       rc_body ctx = (if length (hq_body q) \<le> 16 * 2 ^ 20 then Some (hq_body q) else None) \<and>
       (portalPath path \<longrightarrow> (\<exists>p app. RequirePortal env cr md = Inr (p, app) \<and> rc_principal ctx = Some p \<and> rc_app ctx = Some app)) \<and>
       (\<not> portalPath path \<and> \<not> publicPath path \<longrightarrow>
          (\<exists>p0 p. Authenticate env cr d = (Inr p0, d') \<and> rc_principal ctx = Some p \<and> rc_app ctx = None \<and>
             (\<not> identityPath path \<longrightarrow>
                pr_OrgID p = pr_OrgID p0 \<and> pr_OrgID p \<noteq> uuid_Nil \<and>
                (pr_Source p \<noteq> SourceAPIKey \<longrightarrow> (\<exists>m. GetOrgMember (pr_OrgID p) (pr_UserID p) d' = Inr m \<and> pr_Role p = mb_role m)) \<and>
                (rt_method r = ''DELETE'' \<or> rt_handler r \<in> set privileged \<longrightarrow> \<not> LessThan (pr_Role p) RoleAdmin))))"
proof -
  let ?path = "rt_path r" and ?ctx = "\<lparr>rc_principal = None, rc_app = None, rc_body = maxBodyBytes maxAPIBodyBytes (Some (hq_body q))\<rparr>"
  note o = outer_served [OF assms(1,3)]
  have m: "rt_method r \<in> {''GET'', ''POST'', ''PATCH'', ''DELETE''}" using api_methods assms(1) by (auto simp: list_all_iff)
  have csrf: "rt_method r \<in> {''GET'', ''HEAD'', ''OPTIONS''} \<or> has_prefix (cr_authorization (hq_creds q)) ''Bearer '' \<or>
      (case cr_cookie (hq_creds q) of None \<Rightarrow> [] | Some v \<Rightarrow> v) = [] \<or>
      validCSRFToken (ae_hmac env) (hq_token q) (case cr_cookie (hq_creds q) of None \<Rightarrow> [] | Some v \<Rightarrow> v) (ae_secret env)"
    using csrf_passed [OF conjunct1 [OF o]] assms(2) by (simp add: csrf_of_def opt_default_def)
  have "rc_body ctx = rc_body ?ctx" by (rule chain_body [OF conjunct2 [OF o]]) (auto simp: expected_def)
  moreover have "\<exists>p app. RequirePortal env (hq_creds q) md = Inr (p, app) \<and> rc_principal ctx = Some p \<and> rc_app ctx = Some app"
    if "portalPath ?path"
    using o that portal_not_public by (auto simp: expected_def split: prod.splits sum.splits)
  moreover have "\<exists>p0. Authenticate env (hq_creds q) d = (Inr p0, d') \<and> rc_principal ctx = Some p0 \<and> rc_app ctx = None"
    if "\<not> portalPath ?path" "\<not> publicPath ?path" "identityPath ?path"
    using o that by (auto simp: expected_def split: prod.splits sum.splits)
  moreover have "\<exists>p0 p. Authenticate env (hq_creds q) d = (Inr p0, d') \<and> RequireOrg env (Some p0) d' = Inr p \<and> rc_principal ctx = Some p \<and>
      rc_app ctx = None \<and> (rt_method r = ''DELETE'' \<or> rt_handler r \<in> set privileged \<longrightarrow> \<not> LessThan (pr_Role p) RoleAdmin)"
    if "\<not> portalPath ?path" "\<not> publicPath ?path" "\<not> identityPath ?path"
    using traffic_served [of env rnd md q "rt_handler r \<in> set privileged" ?ctx d ctx d'] o that assms(2) by (simp add: expected_def)
  ultimately show ?thesis
    using csrf m by (auto simp: Let_def maxBodyBytes_def maxAPIBodyBytes_def) (meson member_org)+
qed

section \<open>The console\<close>

lemma admin_table: "list_all (\<lambda>r. rt_uses r = [UseSuperAdminOnly]) admin_routes"
  by code_simp

text \<open>The console needs the session of a super admin, of the current epoch of the user, and nothing else: no CSRF token.\<close>

lemma console_guarded:
  assumes "r \<in> set admin_routes"
  shows "(\<exists>ctx d'. serve env rnd md q r d = (Inr ctx, d')) \<longleftrightarrow>
    (\<exists>uid org epoch u. session_Parse (ae_hmac env) (ae_secret env) (ae_now env) (cr_cookie (hq_creds q)) = Inr (uid, org, epoch) \<and>
       ae_out env ''user'' = IoOk \<and> GetUserByID uid d = Inr u \<and> us_is_super_admin u \<and> us_session_epoch u = epoch)"
proof -
  have "rt_uses r = [UseSuperAdminOnly]" using admin_table assms by (simp add: list_all_iff)
  then show ?thesis by (auto simp: serve_def SuperAdminOnly_def split: sum.splits prod.splits if_splits)
qed

section \<open>A concrete request\<close>

text \<open>Deleting a source with an API key of the admin role.\<close>

definition del_route :: route where
  "del_route = \<lparr>rt_method = ''DELETE'', rt_path = ''/api/sources/{id}'',
     rt_uses = [UseCSRF, UseMaxBody, UseAuthenticate, UseRequireOrg, UseAdminForDestructive], rt_handler = ''pl.DeleteSource''\<rparr>"

definition key_row0 :: key_row where
  "key_row0 = \<lparr>ak_id = id_bob, ak_org_id = id_org, ak_name = ''ci'', ak_role = RoleAdmin, ak_prefix = ''abcdefghijkl'', ak_key_hash = ''s'', ak_last_used_at = None,
     ak_revoked_at = None, ak_expires_at = None, ak_created_at = 0\<rparr>"

definition del_req :: hreq where
  "del_req = \<lparr>hq_method = ''DELETE'', hq_creds = bearer (apiKeyMark @ ''abcdefghijkl'' @ ''_'' @ ''s''), hq_csrf = None, hq_token = [], hq_body = []\<rparr>"

lemma del_served: "\<exists>ctx d'. serve (aenv0 7) (Some ''r'') md del_req del_route (team0\<lparr>t_keys := [key_row0]\<rparr>) = (Inr ctx, d')"
proof -
  have k: "fst (Authenticate (aenv0 7) (bearer (apiKeyMark @ ''abcdefghijkl'' @ ''_'' @ ''s'')) (team0\<lparr>t_keys := [key_row0]\<rparr>)) = Inr (key_principal key_row0)"
    by (subst Authenticate_key [OF refl]) (simp_all add: APIKeyPrefixLen_def aenv0_def key_row0_def unexpired_def)
  have "fst (CSRF hmac0 [] (Some ''r'') (csrf_of del_req)) = None"
    by (simp add: CSRF_def csrf_of_def del_req_def bearer_def newRandomToken_def Let_def opt_default_def has_prefix_def)
  moreover have "RequireOrg (aenv0 7) (Some (key_principal key_row0)) d = Inr (key_principal key_row0)" for d
    by (simp add: RequireOrg_def key_principal_def key_row0_def no_principal_def id_org_def uuid_Nil_def)
  moreover have "AdminForDestructive m (Some (key_principal key_row0)) = None" for m
    by (simp add: AdminForDestructive_def RequireMinRole_def key_principal_def key_row0_def LessThan_def)
  ultimately show ?thesis using k
    by (auto simp: serve_def del_route_def pass_def aenv0_def del_req_def prod_eq_iff split: prod.splits sum.splits)
qed

theorem api_guarded_witness:
  "del_route \<in> set api_routes \<and> (\<exists>ctx d' p. serve (aenv0 7) (Some ''r'') mdb_empty del_req del_route (team0\<lparr>t_keys := [key_row0]\<rparr>) = (Inr ctx, d') \<and>
     rc_principal ctx = Some p \<and> \<not> LessThan (pr_Role p) RoleAdmin)"
proof -
  obtain ctx d' where s: "serve (aenv0 7) (Some ''r'') mdb_empty del_req del_route (team0\<lparr>t_keys := [key_row0]\<rparr>) = (Inr ctx, d')"
    using del_served by blast
  have r: "del_route \<in> set api_routes" by code_simp
  have "hq_method del_req = rt_method del_route" by (simp add: del_req_def del_route_def)
  moreover have "\<not> portalPath (rt_path del_route)" "\<not> publicPath (rt_path del_route)" "\<not> identityPath (rt_path del_route)" "rt_method del_route = ''DELETE''"
    by (simp_all add: del_route_def portalPath_def publicPath_def identityPath_def has_prefix_def)
  ultimately obtain p where "rc_principal ctx = Some p" "\<not> LessThan (pr_Role p) RoleAdmin"
    using api_guarded [OF r _ s] unfolding Let_def by blast
  with r s show ?thesis by blast
qed

end
