(* ===== verification/Spec2Isabelle.thy ===== *)
theory Spec2Isabelle
  imports Webhook_Props Store_Inv Usage_Props Identity_Props Ingest_Props Publish_Props Bookmark_Props Worker_Props Access_Props Reports_Props Tunnel_Props Commands_Props Console_Props Client_Props Router_Props
begin

text \<open>
  A verification of dstream, a webhook gateway written in Go. Paths are relative to src/.

  \<^bold>\<open>The program.\<close> A sender posts a webhook to the ingest endpoint (internal/ingest), which stores the request and its body,
  creates one event for each enabled connection of the source and puts the events into a delivery queue in Redis
  (internal/dqueue). Workers (cmd/dstream/worker.go) lease tasks from the queue and hand them to one of three handlers:
  events to internal/deliver, outbound messages to internal/webhook, mails to internal/mailer. A handler acknowledges its
  task, reschedules it or puts it on the dead list; reapers and sweeps bring lost tasks back. The API (internal/api)
  manages both sides for the members of an organization, internal/auth and internal/middleware decide who may call it,
  internal/usage meters and limits it. Operators have a console (internal/admin) and commands (cmd/dstream/admin.go); developers
  receive events on their machine through a tunnel (internal/api/cli, cmd/dstream/cli.go).

  \<^bold>\<open>Conventions.\<close> A Go string or byte slice is a \<open>string\<close>, a list of 8-bit characters; identifiers are canonical UUID texts; times
  and durations are nanoseconds in \<open>int\<close>, with the wrap-around of 32 and 64 bits written out where the code can reach it;
  addresses are words. A call over the network has one of three outcomes (\<open>io\<close>): it succeeds, it fails, or it takes effect
  and its reply is lost. A table is a list of rows, a statement a function on the database that runs atomically, with
  the constraints of db/schema/schema.sql as error values. A handler is a function from its request and the state to
  an answer (\<open>Inl\<close> a status or an error) and the new state; outcomes of calls, generated identifiers, random bytes and clock
  readings are arguments, so that a theorem holds for all of them.

  \<^bold>\<open>Parameters.\<close> Redis is the record \<open>redis\<close> of its commands; the locale of the same name states their documented laws, and an
  in-memory Redis interprets it. The payload codec is the locale \<open>payload_codec\<close>, interpreted by the JSON form that
  \<open>Payload_Json\<close> writes and reads. The locale \<open>task_handler\<close> is the contract between the consumer loop and its
  handlers; all three handlers meet it, over any Redis. SHA-256, HMAC, the CEL and JavaScript engines, the URL parser, the
  OIDC and SMTP libraries and what remote servers answer are function arguments.

  \<^bold>\<open>Theories and code.\<close>
  \<^item> \<open>Prelude\<close>, \<open>Go_Text\<close>, \<open>Go_Json\<close>, \<open>Go_Time\<close>: what the code uses of Go's standard library, with round trips.
  \<^item> \<open>Redis\<close>; \<open>Dqueue\<close> (internal/dqueue/dqueue.go: each Lua script and client method), \<open>Payload_Json\<close>; \<open>Dqueue_Spec\<close>: the
    abstract fair queue and the refinement; \<open>Dqueue_Inv\<close>, \<open>Dqueue_Props\<close>: ring invariant, fairness, order, no loss, fencing.
  \<^item> \<open>Retry_Policy\<close> (deliver/policy.go, webhook/policy.go, with float64 rounding), \<open>Safe_Http\<close> (deliver/safehttp.go).
  \<^item> \<open>Store_Events\<close>, \<open>Store_Inbound\<close>, \<open>Store_Messages\<close>, \<open>Store_Identity\<close>: the statements of internal/store; \<open>Store_Inv\<close>:
    integrity of the outbound tables as an invariant of a step relation.
  \<^item> \<open>Deliver\<close>, \<open>Deliver_Props\<close> (internal/deliver/handler.go): how a delivery ends, retry budget, in-flight slots, the request sent.
  \<^item> \<open>Opevents\<close> (internal/opevents), \<open>Webhook\<close>, \<open>Webhook_Props\<close> (internal/webhook): signing, sending, retries, no recursion.
  \<^item> \<open>Usage\<close>, \<open>Usage_Props\<close> (internal/usage, cmd/dstream/maintenance.go): quota periods, ceilings, alerts, the sweep.
  \<^item> \<open>Auth\<close> (internal/auth), \<open>Access\<close>, \<open>Access_Props\<close> (internal/middleware, internal/api/identity: keys, invitations, magic
    links, single sign-on, profile, audit, usage), \<open>Identity\<close>, \<open>Identity_Props\<close> (members, organizations, internal/audit):
    credentials, CSRF, ownership.
  \<^item> \<open>Router\<close>, \<open>Router_Props\<close> (internal/api/router.go, the table of internal/admin/router.go): what a request has passed when
    a handler sees it.
  \<^item> \<open>Ingest\<close>, \<open>Ingest_Props\<close> (internal/ingest): what an accepted webhook leaves, deduplication and its rollback.
  \<^item> \<open>Outbound\<close>, \<open>Outbound_Props\<close>, \<open>Publish_Props\<close> (internal/api/outbound): tenant isolation, atomic and idempotent publishing.
  \<^item> \<open>Pipeline\<close>, \<open>Bookmarks\<close>, \<open>Reports\<close> and their properties (internal/api/pipeline, internal/bookmark): effect of
    changes, valid destinations, scenarios, fixtures, histograms.
  \<^item> \<open>Mailer\<close> (internal/mailer), \<open>Config\<close> (internal/config, the guards of cmd/dstream/server.go), \<open>Worker\<close>, \<open>Worker_Props\<close>
    (cmd/dstream/worker.go, watchdog.go): one iteration of a consumer, panics.
  \<^item> \<open>Tunnel\<close>, \<open>Tunnel_Props\<close> (internal/api/cli) and \<open>Client\<close>, \<open>Client_Props\<close> (cmd/dstream/cli.go): the goroutines of a tunnel
    as a step relation, how an event ends, the path from the event to the local server and back.
  \<^item> \<open>Commands\<close>, \<open>Commands_Props\<close> (cmd/dstream/admin.go), \<open>Console\<close>, \<open>Console_Props\<close> (internal/admin/router.go).

  \<^bold>\<open>Loops.\<close> All definitions are total: loops of the code run over lists, or over a count that the code bounds; the reader of JSON
  takes the length of its input as a bound of its calls, which the round trips show to be enough. The loops of daemons (consumers, sweeps, the tunnel, reconnection) are single
  iterations, whose sequences the theorems quantify over.

  \<^bold>\<open>Concurrency.\<close> The queue theorems hold for any interleaving of the calls of any number of clients, the tunnel theorems for any
  interleaving of its goroutines with outside changes. A handler of the API runs statement by statement without
  other writers in between, unless its environment has a field for them (\<open>ie_between\<close> and the like); an iteration of a worker runs as a whole.

  \<^bold>\<open>Not modelled.\<close> The CEL and JavaScript wrappers (internal/filter, internal/transform) and the SMTP sender, which drive third-party
  engines and the network; logging, metrics and tracing, which change no modelled state; the start of
  the processes, flags, migrations and connection pools (cmd/dstream/main.go, migrate.go, the wiring in server.go,
  internal/store/db.go and pool.go); the path matching of the router library; JSON encoding of API views (the exported fixture apart); the redirects that
  the HTTP client follows by itself, whose check is modelled (\<open>checkRedirect\<close>) but not connected to the sent requests; and the load
  test under tools/.
\<close>

end
